(* ===== verification/Nps_Prelude.thy ===== *)
theory Nps_Prelude
  imports Main "HOL-Library.Word" "HOL-Library.Char_ord" "HOL-Library.List_Lexorder"
    "HOL-Library.Product_Lexorder" "HOL-Library.AList"
begin

text \<open>
  Shared vocabulary of the development.

  \<^item> Machine integers are words of their width; a Rust \<open>Result\<close> is a sum with the error on the
    left, a Rust \<open>Option\<close> is an option.
  \<^item> A Rust \<open>str\<close> is a list of characters, each read as the Unicode scalar value with that
    number. The model covers the scalar values U+0000 to U+00FF; the order of strings is the
    order of their scalar values, which is the byte order of their UTF-8 encodings.
  \<^item> A \<open>HashMap\<close> is an association list with distinct keys: its order stands for the unspecified
    iteration order, updated and searched with the operations of \<open>AList\<close>.
  \<^item> A \<open>BTreeMap\<close> (and a \<open>serde_json::Map\<close>, which is one without the \<open>preserve_order\<close> feature)
    is an association list in strictly ascending key order, kept so by \<open>bt_insert\<close>.
\<close>

named_theorems bt_simps "lookup after insertion, removal and collection in ordered maps"
named_theorems str_simps "facts about the string functions of the Rust standard library"
named_theorems wf_intros "preservation of the ordered-map invariant"

type_synonym u8 = "8 word"
type_synonym u16 = "16 word"
type_synonym u32 = "32 word"
type_synonym u64 = "64 word"
type_synonym bytes = "u8 list"

section \<open>Results\<close>

abbreviation Err :: "'e \<Rightarrow> 'e + 'a" where "Err \<equiv> Inl"
abbreviation Ok :: "'a \<Rightarrow> 'e + 'a" where "Ok \<equiv> Inr"

text \<open>The question mark operator: go on with the value, or return the error.\<close>

definition try_res :: "'e + 'a \<Rightarrow> ('a \<Rightarrow> 'e + 'b) \<Rightarrow> 'e + 'b" where
  "try_res r f = (case r of Inl e \<Rightarrow> Inl e | Inr x \<Rightarrow> f x)"

definition ok_or :: "'e \<Rightarrow> 'a option \<Rightarrow> 'e + 'a" where
  "ok_or e x = (case x of None \<Rightarrow> Inl e | Some v \<Rightarrow> Inr v)"

definition unwrap_or :: "'a \<Rightarrow> 'a option \<Rightarrow> 'a" where
  "unwrap_or d x = (case x of None \<Rightarrow> d | Some v \<Rightarrow> v)"

fun is_ok :: "'e + 'a \<Rightarrow> bool" where
  "is_ok (Inl e) = False"
| "is_ok (Inr x) = True"

lemma try_res_simps [simp]:
  "try_res (Inl e) f = Inl e"
  "try_res (Inr x) f = f x"
  by (simp_all add: try_res_def)

lemma ok_or_simps [simp]:
  "ok_or e None = Inl e"
  "ok_or e (Some v) = Inr v"
  by (simp_all add: ok_or_def)

lemma unwrap_or_simps [simp]:
  "unwrap_or d None = d"
  "unwrap_or d (Some v) = v"
  by (simp_all add: unwrap_or_def)

lemma try_res_eq_Inr:
  "try_res r f = Inr y \<longleftrightarrow> (\<exists>x. r = Inr x \<and> f x = Inr y)"
  by (cases r) auto

lemma ok_or_eq_Inr [simp]: "ok_or e x = Inr v \<longleftrightarrow> x = Some v"
  by (cases x) auto

section \<open>Ordered maps\<close>

type_synonym ('k, 'v) btree = "('k \<times> 'v) list"

abbreviation bt_wf :: "('k::linorder, 'v) btree \<Rightarrow> bool" where
  "bt_wf m \<equiv> sorted_wrt (<) (map fst m)"

fun bt_insert :: "'k::linorder \<Rightarrow> 'v \<Rightarrow> ('k, 'v) btree \<Rightarrow> ('k, 'v) btree" where
  "bt_insert key val [] = [(key, val)]"
| "bt_insert key val (p # rest) =
     (if key < fst p then (key, val) # p # rest
      else if fst p < key then p # bt_insert key val rest
      else (key, val) # rest)"

definition bt_remove :: "'k \<Rightarrow> ('k, 'v) btree \<Rightarrow> ('k, 'v) btree" where
  "bt_remove key m = filter (\<lambda>p. fst p \<noteq> key) m"

text \<open>Collecting an iterator of pairs: later pairs overwrite earlier ones.\<close>

definition bt_collect :: "('k::linorder \<times> 'v) list \<Rightarrow> ('k, 'v) btree" where
  "bt_collect ps = fold (\<lambda>p. bt_insert (fst p) (snd p)) ps []"

text \<open>Insertion of an optional field, as in \<open>if let Some(v) = ... { m.insert(...) }\<close>.\<close>

definition bt_insert_opt :: "'k::linorder \<Rightarrow> 'v option \<Rightarrow> ('k, 'v) btree \<Rightarrow> ('k, 'v) btree" where
  "bt_insert_opt key val m = (case val of None \<Rightarrow> m | Some v \<Rightarrow> bt_insert key v m)"

lemma map_of_bt_insert [bt_simps, simp]:
  "map_of (bt_insert key val m) x = (if x = key then Some val else map_of m x)"
  by (induction m) auto

lemma map_of_bt_remove [bt_simps, simp]:
  "map_of (bt_remove key m) x = (if x = key then None else map_of m x)"
  by (induction m) (auto simp: bt_remove_def)

lemma map_of_bt_insert_opt [bt_simps, simp]:
  "map_of (bt_insert_opt key val m) x =
     (if x = key \<and> val \<noteq> None then val else map_of m x)"
  by (cases val) (auto simp: bt_insert_opt_def)

lemma fst_set_bt_insert: "fst ` set (bt_insert key val m) = insert key (fst ` set m)"
  by (induction m) (auto simp: not_less)

lemma bt_wf_insert [wf_intros, intro]: "bt_wf m \<Longrightarrow> bt_wf (bt_insert key val m)"
proof (induction m)
  case Nil
  then show ?case by simp
next
  case (Cons p m)
  have keys: "set (map fst (bt_insert key val m)) = insert key (set (map fst m))"
    using fst_set_bt_insert [of key val m] by simp
  show ?case
  proof (cases "fst p < key")
    case True
    with Cons keys show ?thesis by auto
  next
    case False
    with Cons.prems show ?thesis by auto
  qed
qed

lemma bt_wf_remove [wf_intros, intro]: "bt_wf m \<Longrightarrow> bt_wf (bt_remove key m)"
  by (induction m) (auto simp: bt_remove_def)

lemma bt_wf_insert_opt [wf_intros, intro]: "bt_wf m \<Longrightarrow> bt_wf (bt_insert_opt key val m)"
  by (cases val) (auto simp: bt_insert_opt_def)

lemma bt_wf_fold: "bt_wf m \<Longrightarrow> bt_wf (fold (\<lambda>p. bt_insert (fst p) (snd p)) ps m)"
  by (induction ps arbitrary: m) auto

lemma bt_wf_collect [wf_intros, intro]: "bt_wf (bt_collect ps)"
  by (simp add: bt_collect_def bt_wf_fold)

lemma bt_wf_filter [wf_intros, intro]: "bt_wf m \<Longrightarrow> bt_wf (filter P m)"
  by (induction m) auto

lemma bt_wf_distinct: "bt_wf m \<Longrightarrow> distinct (map fst m)"
  by (induction m) auto

text \<open>Two ordered maps with the same lookups are the same list.\<close>

lemma bt_ext:
  assumes "bt_wf m" "bt_wf m'" "\<And>x. map_of m x = map_of m' x"
  shows "m = m'"
proof -
  have dom: "set (map fst m) = set (map fst m')"
  proof -
    have "map_of m = map_of m'" using assms(3) by blast
    then have "dom (map_of m) = dom (map_of m')" by simp
    then show ?thesis by (simp add: dom_map_of_conv_image_fst)
  qed
  have keys: "map fst m = map fst m'"
    using assms(1,2) dom by (intro strict_sorted_equal) (auto simp: strict_sorted_iff)
  show ?thesis
  proof (rule nth_equalityI)
    from keys show len: "length m = length m'" by (metis length_map)
    fix i assume i: "i < length m"
    have k: "fst (m ! i) = fst (m' ! i)"
      using keys i len by (metis nth_map)
    have "map_of m (fst (m ! i)) = Some (snd (m ! i))"
      using i assms(1) by (intro map_of_is_SomeI) (auto simp: bt_wf_distinct)
    moreover have "map_of m' (fst (m' ! i)) = Some (snd (m' ! i))"
      using i len assms(2) by (intro map_of_is_SomeI) (auto simp: bt_wf_distinct)
    ultimately have "snd (m ! i) = snd (m' ! i)" using assms(3) k by simp
    with k show "m ! i = m' ! i" by (simp add: prod_eq_iff)
  qed
qed

end
