(* ===== verification/Rust_Std.thy ===== *)
theory Rust_Std
  imports Nps_Prelude
begin

text \<open>
  The string and integer functions of the Rust standard library that the crates call:
  splitting, trimming, prefix tests, decimal parsing and formatting. Characters are Unicode
  scalar values below 256, so the classifications are those of the Latin-1 block.
\<close>

section \<open>Characters\<close>

abbreviation code :: "char \<Rightarrow> nat" where "code c \<equiv> of_char c"

definition is_whitespace :: "char \<Rightarrow> bool" where
  "is_whitespace c \<longleftrightarrow>
     (9 \<le> code c \<and> code c \<le> 13) \<or> code c = 32 \<or> code c = 133 \<or> code c = 160"

definition is_ascii_digit :: "char \<Rightarrow> bool" where
  "is_ascii_digit c \<longleftrightarrow> 48 \<le> code c \<and> code c \<le> 57"

definition is_alphabetic :: "char \<Rightarrow> bool" where
  "is_alphabetic c \<longleftrightarrow>
     (65 \<le> code c \<and> code c \<le> 90) \<or> (97 \<le> code c \<and> code c \<le> 122) \<or>
     code c = 170 \<or> code c = 181 \<or> code c = 186 \<or>
     (192 \<le> code c \<and> code c \<noteq> 215 \<and> code c \<noteq> 247)"

definition is_numeric :: "char \<Rightarrow> bool" where
  "is_numeric c \<longleftrightarrow>
     is_ascii_digit c \<or> code c = 178 \<or> code c = 179 \<or> code c = 185 \<or>
     (188 \<le> code c \<and> code c \<le> 190)"

definition is_alphanumeric :: "char \<Rightarrow> bool" where
  "is_alphanumeric c \<longleftrightarrow> is_alphabetic c \<or> is_numeric c"

definition to_ascii_lower :: "char \<Rightarrow> char" where
  "to_ascii_lower c = (if 65 \<le> code c \<and> code c \<le> 90 then char_of (code c + 32) else c)"

definition to_ascii_lowercase :: "string \<Rightarrow> string" where
  "to_ascii_lowercase s = map to_ascii_lower s"

text \<open>\<open>eq_ignore_ascii_case\<close>.\<close>

definition eq_ignore_case :: "string \<Rightarrow> string \<Rightarrow> bool" where
  "eq_ignore_case a b \<longleftrightarrow> to_ascii_lowercase a = to_ascii_lowercase b"

section \<open>Splitting, joining, trimming\<close>

fun split_by :: "(char \<Rightarrow> bool) \<Rightarrow> string \<Rightarrow> string list" where
  "split_by P [] = [[]]"
| "split_by P (x # xs) =
     (if P x then [] # split_by P xs
      else (case split_by P xs of [] \<Rightarrow> [[x]] | y # ys \<Rightarrow> (x # y) # ys))"

abbreviation split_char :: "char \<Rightarrow> string \<Rightarrow> string list" where
  "split_char c \<equiv> split_by (\<lambda>x. x = c)"

fun join :: "string \<Rightarrow> string list \<Rightarrow> string" where
  "join sep [] = []"
| "join sep [x] = x"
| "join sep (x # y # ys) = x @ sep @ join sep (y # ys)"

definition strip_prefix :: "string \<Rightarrow> string \<Rightarrow> string option" where
  "strip_prefix p s = (if take (length p) s = p then Some (drop (length p) s) else None)"

definition starts_with :: "string \<Rightarrow> string \<Rightarrow> bool" where
  "starts_with p s \<longleftrightarrow> take (length p) s = p"

text \<open>\<open>split_once\<close>: the parts before and after the first occurrence of a character.\<close>

fun split_once :: "char \<Rightarrow> string \<Rightarrow> (string \<times> string) option" where
  "split_once c [] = None"
| "split_once c (x # xs) =
     (if x = c then Some ([], xs)
      else map_option (\<lambda>p. (x # fst p, snd p)) (split_once c xs))"

definition trim_start :: "string \<Rightarrow> string" where
  "trim_start s = dropWhile is_whitespace s"

definition trim_end :: "string \<Rightarrow> string" where
  "trim_end s = rev (dropWhile is_whitespace (rev s))"

definition trim :: "string \<Rightarrow> string" where
  "trim s = trim_end (trim_start s)"

definition split_whitespace :: "string \<Rightarrow> string list" where
  "split_whitespace s = filter (\<lambda>t. t \<noteq> []) (split_by is_whitespace s)"

lemma split_by_nonempty [str_simps, simp]: "split_by P s \<noteq> []"
  by (induction s) (auto split: list.splits)

lemma split_by_no_sep:
  "\<forall>c \<in> set s. \<not> P c \<Longrightarrow> split_by P s = [s]"
  by (induction s) auto

lemma split_by_append_sep:
  "\<forall>c \<in> set s. \<not> P c \<Longrightarrow> P x \<Longrightarrow> split_by P (s @ x # t) = s # split_by P t"
  by (induction s) auto

lemma split_by_parts: "t \<in> set (split_by P s) \<Longrightarrow> \<forall>c \<in> set t. \<not> P c"
proof (induction s arbitrary: t)
  case Nil
  then show ?case by simp
next
  case (Cons x xs)
  obtain y ys where y: "split_by P xs = y # ys"
    by (cases "split_by P xs") auto
  show ?case
  proof (cases "P x")
    case True
    with Cons show ?thesis by auto
  next
    case False
    with Cons y show ?thesis by (cases "t = x # y") auto
  qed
qed

lemma split_char_join:
  assumes "xs \<noteq> []" "\<forall>x \<in> set xs. c \<notin> set x"
  shows "split_char c (join [c] xs) = xs"
  using assms
proof (induction "[c]" xs rule: join.induct)
  case 1
  then show ?case by simp
next
  case (2 x)
  then show ?case by (auto intro!: split_by_no_sep)
next
  case (3 x y ys)
  have "split_char c (x @ c # join [c] (y # ys)) = x # split_char c (join [c] (y # ys))"
    using 3 by (intro split_by_append_sep) auto
  with 3 show ?case by simp
qed

lemma join_split_char: "join [c] (split_char c s) = s"
proof (induction s)
  case Nil
  then show ?case by simp
next
  case (Cons x xs)
  obtain y ys where y: "split_char c xs = y # ys"
    by (cases "split_char c xs") auto
  with Cons show ?case by (cases ys) auto
qed

lemma strip_prefix_append [str_simps, simp]: "strip_prefix p (p @ s) = Some s"
  by (simp add: strip_prefix_def)

lemma strip_prefix_Some: "strip_prefix p s = Some t \<longleftrightarrow> s = p @ t"
  by (auto simp: strip_prefix_def) (metis append_take_drop_id)

lemma starts_with_strip: "starts_with p s \<longleftrightarrow> (\<exists>t. s = p @ t)"
  by (auto simp: starts_with_def) (metis append_take_drop_id)

lemma split_once_Some:
  "split_once c s = Some (a, b) \<longleftrightarrow> s = a @ c # b \<and> c \<notin> set a"
proof (induction s arbitrary: a)
  case Nil
  then show ?case by simp
next
  case (Cons x xs)
  show ?case
  proof (cases a)
    case Nil
    with Cons show ?thesis by auto
  next
    case (Cons y ys)
    have "split_once c (x # xs) = Some (a, b) \<longleftrightarrow> x \<noteq> c \<and> x = y \<and> split_once c xs = Some (ys, b)"
      using Cons by (auto split: if_splits)
    with Cons.IH Cons show ?thesis by auto
  qed
qed

lemma split_once_None: "split_once c s = None \<longleftrightarrow> c \<notin> set s"
  by (induction s) auto

lemma trim_nonblank_id:
  assumes "s \<noteq> []" "\<not> is_whitespace (hd s)" "\<not> is_whitespace (last s)"
  shows "trim s = s"
proof -
  have "dropWhile is_whitespace s = s"
    using assms(1,2) by (cases s) auto
  moreover have "dropWhile is_whitespace (rev s) = rev s"
    using assms(1,3) by (cases s rule: rev_cases) auto
  ultimately show ?thesis by (simp add: trim_def trim_start_def trim_end_def)
qed

lemma trim_hd_last:
  assumes "trim s \<noteq> []"
  shows "\<not> is_whitespace (hd (trim s))" and "\<not> is_whitespace (last (trim s))"
proof -
  define t where "t = dropWhile is_whitespace s"
  have tr: "trim s = rev (dropWhile is_whitespace (rev t))"
    by (simp add: t_def trim_def trim_start_def trim_end_def)
  with assms have ne: "dropWhile is_whitespace (rev t) \<noteq> []" by simp
  then have "\<not> is_whitespace (hd (dropWhile is_whitespace (rev t)))"
    by (rule hd_dropWhile)
  with ne tr show "\<not> is_whitespace (last (trim s))" by (simp add: last_rev)
  from ne have t_ne: "t \<noteq> []" by auto
  then have hd_t: "\<not> is_whitespace (hd t)"
    unfolding t_def by (rule hd_dropWhile)
  have "rev t = takeWhile is_whitespace (rev t) @ dropWhile is_whitespace (rev t)" by simp
  then have "t = rev (dropWhile is_whitespace (rev t)) @ rev (takeWhile is_whitespace (rev t))"
    by (metis rev_append rev_rev_ident)
  with tr assms have "hd t = hd (trim s)" by (metis hd_append2)
  with hd_t show "\<not> is_whitespace (hd (trim s))" by simp
qed

lemma trim_idem [str_simps, simp]: "trim (trim s) = trim s"
proof (cases "trim s = []")
  case True
  have "trim [] = []" by (simp add: trim_def trim_start_def trim_end_def)
  with True show ?thesis by simp
next
  case False
  then show ?thesis by (intro trim_nonblank_id trim_hd_last)
qed

text \<open>A string in single quotes, as many messages have it.\<close>

definition quoted :: "string \<Rightarrow> string" where
  "quoted s = CHR 0x27 # s @ [CHR 0x27]"

section \<open>Decimal numbers\<close>

definition digit_value :: "char \<Rightarrow> nat" where
  "digit_value c = code c - 48"

definition digits_value :: "string \<Rightarrow> nat" where
  "digits_value s = foldl (\<lambda>a c. 10 * a + digit_value c) 0 s"

definition digit_char :: "nat \<Rightarrow> char" where
  "digit_char n = char_of (48 + n)"

fun show_nat :: "nat \<Rightarrow> string" where
  "show_nat n = (if n < 10 then [digit_char n] else show_nat (n div 10) @ [digit_char (n mod 10)])"

declare show_nat.simps [simp del]

definition show_u64 :: "u64 \<Rightarrow> string" where
  "show_u64 w = show_nat (unat w)"

definition show_int :: "int \<Rightarrow> string" where
  "show_int x = (if x < 0 then CHR ''-'' # show_nat (nat (- x)) else show_nat (nat x))"

text \<open>\<open>str::parse::<u64>\<close>: an optional plus sign, then digits, within range.\<close>

definition parse_u64 :: "string \<Rightarrow> u64 option" where
  "parse_u64 s =
     (let ds = (case s of [] \<Rightarrow> [] | c # cs \<Rightarrow> if c = CHR ''+'' \<and> cs \<noteq> [] then cs else s)
      in if ds = [] \<or> \<not> list_all is_ascii_digit ds then None
         else if digits_value ds < 2 ^ 64 then Some (of_nat (digits_value ds)) else None)"

text \<open>\<open>str::parse::<u32>\<close>.\<close>

definition parse_u32 :: "string \<Rightarrow> u32 option" where
  "parse_u32 s = Option.bind (parse_u64 s) (\<lambda>n. if unat n < 2 ^ 32 then Some (ucast n) else None)"

lemmas parse_eval = parse_u64_def digits_value_def digit_value_def is_ascii_digit_def

lemma digit_chars:
  "digit_char 0 = CHR ''0''" "digit_char (Suc 0) = CHR ''1''" "digit_char 1 = CHR ''1''"
  "digit_char 2 = CHR ''2''" "digit_char 3 = CHR ''3''" "digit_char 4 = CHR ''4''"
  "digit_char 5 = CHR ''5''" "digit_char 6 = CHR ''6''" "digit_char 7 = CHR ''7''"
  "digit_char 8 = CHR ''8''" "digit_char 9 = CHR ''9''"
  by code_simp+

lemmas show_eval = show_u64_def show_nat.simps digit_chars

lemma code_digit_char: "n < 10 \<Longrightarrow> code (digit_char n) = 48 + n"
  by (simp add: digit_char_def)

lemma digit_char_digit: "n < 10 \<Longrightarrow> is_ascii_digit (digit_char n) \<and> digit_value (digit_char n) = n"
  by (simp add: is_ascii_digit_def digit_value_def code_digit_char)

lemma show_nat_digits: "list_all is_ascii_digit (show_nat n)"
proof (induction n rule: show_nat.induct)
  case (1 n)
  then show ?case
    by (cases "n < 10") (simp_all add: show_nat.simps [of n] digit_char_digit)
qed

lemma show_nat_nonempty [simp]: "show_nat n \<noteq> []"
  by (subst show_nat.simps) simp

lemma digits_value_show_nat [simp]: "digits_value (show_nat n) = n"
proof (induction n rule: show_nat.induct)
  case (1 n)
  show ?case
  proof (cases "n < 10")
    case True
    then show ?thesis by (simp add: show_nat.simps [of n] digits_value_def digit_char_digit)
  next
    case False
    with 1 have "digits_value (show_nat (n div 10)) = n div 10" by simp
    with False show ?thesis
      by (simp add: show_nat.simps [of n] digits_value_def digit_char_digit)
  qed
qed

lemma plus_not_digit: "\<not> is_ascii_digit (CHR ''+'')"
  by (simp add: is_ascii_digit_def)

lemma parse_show_u64 [str_simps, simp]: "parse_u64 (show_u64 w) = Some w"
proof -
  have d: "list_all is_ascii_digit (show_u64 w)" and ne: "show_u64 w \<noteq> []"
    by (simp_all add: show_u64_def show_nat_digits)
  obtain c cs where s: "show_u64 w = c # cs" using ne by (cases "show_u64 w") auto
  with d have "c \<noteq> CHR ''+''" using plus_not_digit by auto
  moreover have "digits_value (show_u64 w) < 2 ^ 64"
    using unsigned_less [of w, where 'a = nat] by (simp add: show_u64_def)
  ultimately show ?thesis
    using d s by (simp add: parse_u64_def) (simp add: show_u64_def flip: s)
qed

lemma show_nat_no_dot: "CHR ''.'' \<notin> set (show_nat n)"
  using show_nat_digits [of n] by (auto simp: list_all_iff is_ascii_digit_def)

section \<open>UTF-8\<close>

text \<open>The debug form of a string: double quotes, with escapes for quotes, backslashes and what is not printed.\<close>

definition hex_digit :: "nat \<Rightarrow> char" where
  "hex_digit n = (if n < 10 then char_of (48 + n) else char_of (87 + n))"

text \<open>A word in sixteen hexadecimal digits.\<close>

definition hex16 :: "u64 \<Rightarrow> string" where
  "hex16 w = map (\<lambda>i. hex_digit (unat (drop_bit (4 * (15 - i)) w) mod 16)) [0..<16]"

definition debug_char :: "char \<Rightarrow> string" where
  "debug_char c =
     (if c = CHR 0x22 \<or> c = CHR 0x5C then [CHR 0x5C, c]
      else if c = CHR 0x00 then [CHR 0x5C, CHR ''0'']
      else if c = CHR 0x09 then [CHR 0x5C, CHR ''t'']
      else if c = CHR 0x0A then [CHR 0x5C, CHR ''n'']
      else if c = CHR 0x0D then [CHR 0x5C, CHR ''r'']
      else if code c < 32 \<or> 127 \<le> code c \<and> code c \<le> 160 \<or> code c = 173
      then CHR 0x5C # ''u{'' @ (if code c < 16 then [hex_digit (code c)] else [hex_digit (code c div 16), hex_digit (code c mod 16)]) @ ''}''
      else [c])"

definition debug_str :: "string \<Rightarrow> string" where
  "debug_str s = CHR 0x22 # concat (map debug_char s) @ [CHR 0x22]"

text \<open>The bytes of a string, and the check of \<open>String::from_utf8\<close>.\<close>

definition utf8_char :: "char \<Rightarrow> bytes" where
  "utf8_char c =
     (if code c < 128 then [of_nat (code c)]
      else [of_nat (192 + code c div 64), of_nat (128 + code c mod 64)])"

definition utf8 :: "string \<Rightarrow> bytes" where
  "utf8 s = concat (map utf8_char s)"

definition cont_byte :: "u8 \<Rightarrow> bool" where
  "cont_byte b \<longleftrightarrow> 0x80 \<le> b \<and> b < 0xC0"

text \<open>The length of a character by its first byte, 0 where no character starts so, and the bounds on
  the second byte that exclude overlong forms, surrogates and values above the last scalar.\<close>

definition utf8_len :: "u8 \<Rightarrow> nat" where
  "utf8_len a = (if a < 0x80 then 1 else if a < 0xC2 then 0 else if a < 0xE0 then 2 else if a < 0xF0 then 3
                 else if a < 0xF5 then 4 else 0)"

definition utf8_second :: "u8 \<Rightarrow> u8 \<Rightarrow> bool" where
  "utf8_second a b \<longleftrightarrow> (a = 0xE0 \<longrightarrow> 0xA0 \<le> b) \<and> (a = 0xED \<longrightarrow> b < 0xA0) \<and> (a = 0xF0 \<longrightarrow> 0x90 \<le> b) \<and> (a = 0xF4 \<longrightarrow> b < 0x90)"

function utf8_valid :: "bytes \<Rightarrow> bool" where
  "utf8_valid bs =
     (case bs of [] \<Rightarrow> True
      | a # rest \<Rightarrow>
          let n = utf8_len a
          in n > 0 \<and> n \<le> length bs \<and> list_all cont_byte (take (n - 1) rest)
             \<and> (n > 1 \<longrightarrow> utf8_second a (rest ! 0)) \<and> utf8_valid (drop (n - 1) rest))"
  by pat_completeness auto
termination
  by (relation "measure length") auto

declare utf8_valid.simps [simp del]

lemma utf8_simps [simp]: "utf8 [] = []" "utf8 (c # s) = utf8_char c @ utf8 s"
  by (simp_all add: utf8_def)

lemma utf8_append: "utf8 (a @ b) = utf8 a @ utf8 b"
  by (simp add: utf8_def)

lemma utf8_valid_char: "utf8_valid (utf8_char c @ bs) = utf8_valid bs"
proof (cases "code c < 128")
  case True
  then have "utf8_len (of_nat (code c)) = 1" by (simp add: utf8_len_def word_less_nat_alt unat_of_nat)
  with True show ?thesis by (subst utf8_valid.simps) (simp add: utf8_char_def)
next
  case False
  define q r where "q = code c div 64" and "r = code c mod 64"
  have q: "2 \<le> q" "q < 4" and r: "r < 64"
    using False less_mult_imp_div_less [of "code c" 4 64] by (auto simp: q_def r_def)
  let ?a = "of_nat (192 + q) :: u8" and ?b = "of_nat (128 + r) :: u8"
  have a: "unat ?a = 192 + q" and b: "unat ?b = 128 + r" using q r by (simp_all only: unat_of_nat) (simp_all add: take_bit_nat_eq_self)
  have "utf8_len ?a = 2" unfolding utf8_len_def word_less_nat_alt a using q by simp
  moreover have "cont_byte ?b" unfolding cont_byte_def word_less_nat_alt word_le_nat_alt b using r by simp
  moreover have "utf8_second ?a ?b"
  proof -
    have "?a \<noteq> w" if "224 \<le> unat w" for w using a q that by auto
    then show ?thesis by (simp add: utf8_second_def)
  qed
  ultimately show ?thesis using False
    by (subst utf8_valid.simps) (simp add: utf8_char_def q_def [symmetric] r_def [symmetric])
qed

lemma utf8_valid_utf8: "utf8_valid (utf8 s)"
proof (induction s)
  case Nil
  show ?case by (subst utf8_valid.simps) simp
qed (simp add: utf8_valid_char)

end
