(* ===== verification/Rust_Float.thy ===== *)
theory Rust_Float
  imports Rust_Std
begin

text \<open>
  The floating-point operations the crates use, on the IEEE 754 bit patterns: \<open>f64\<close> is a 64-bit
  word and \<open>f32\<close> a 32-bit word. Every finite binary64 value is an integer multiple of
  \<open>2 ^ -1074\<close> and every finite binary32 value one of \<open>2 ^ -149\<close>; \<open>f64_scaled\<close> and
  \<open>f32_scaled\<close> give that integer (for an infinity they give the value after the largest finite
  one), so comparisons are comparisons of integers. Conversions round to nearest, ties to even.
\<close>

type_synonym f64 = "64 word"
type_synonym f32 = "32 word"

section \<open>Fields of the bit patterns\<close>

definition f64_exp :: "f64 \<Rightarrow> nat" where
  "f64_exp w = (unat w div 2 ^ 52) mod 2 ^ 11"

definition f64_frac :: "f64 \<Rightarrow> nat" where
  "f64_frac w = unat w mod 2 ^ 52"

definition f64_neg :: "f64 \<Rightarrow> bool" where
  "f64_neg w \<longleftrightarrow> 2 ^ 63 \<le> unat w"

definition f32_exp :: "f32 \<Rightarrow> nat" where
  "f32_exp w = (unat w div 2 ^ 23) mod 2 ^ 8"

definition f32_frac :: "f32 \<Rightarrow> nat" where
  "f32_frac w = unat w mod 2 ^ 23"

definition f32_neg :: "f32 \<Rightarrow> bool" where
  "f32_neg w \<longleftrightarrow> 2 ^ 31 \<le> unat w"

definition f64_is_finite :: "f64 \<Rightarrow> bool" where
  "f64_is_finite w \<longleftrightarrow> f64_exp w \<noteq> 2047"

definition f64_is_nan :: "f64 \<Rightarrow> bool" where
  "f64_is_nan w \<longleftrightarrow> f64_exp w = 2047 \<and> f64_frac w \<noteq> 0"

definition f32_is_finite :: "f32 \<Rightarrow> bool" where
  "f32_is_finite w \<longleftrightarrow> f32_exp w \<noteq> 255"

section \<open>Values and comparison\<close>

definition f64_mag :: "f64 \<Rightarrow> nat" where
  "f64_mag w = (if f64_exp w = 0 then f64_frac w
                else (2 ^ 52 + f64_frac w) * 2 ^ (f64_exp w - 1))"

definition f32_mag :: "f32 \<Rightarrow> nat" where
  "f32_mag w = (if f32_exp w = 0 then f32_frac w
                else (2 ^ 23 + f32_frac w) * 2 ^ (f32_exp w - 1))"

definition f64_scaled :: "f64 \<Rightarrow> int" where
  "f64_scaled w = (if f64_neg w then - int (f64_mag w) else int (f64_mag w))"

definition f64_eq :: "f64 \<Rightarrow> f64 \<Rightarrow> bool" where
  "f64_eq a b \<longleftrightarrow> \<not> f64_is_nan a \<and> \<not> f64_is_nan b \<and> f64_scaled a = f64_scaled b"

definition f64_lt :: "f64 \<Rightarrow> f64 \<Rightarrow> bool" where
  "f64_lt a b \<longleftrightarrow> \<not> f64_is_nan a \<and> \<not> f64_is_nan b \<and> f64_scaled a < f64_scaled b"

definition f64_le :: "f64 \<Rightarrow> f64 \<Rightarrow> bool" where
  "f64_le a b \<longleftrightarrow> f64_lt a b \<or> f64_eq a b"

section \<open>Rounding\<close>

text \<open>The number of binary digits.\<close>

fun bit_len :: "nat \<Rightarrow> nat" where
  "bit_len n = (if n = 0 then 0 else Suc (bit_len (n div 2)))"

declare bit_len.simps [simp del]

text \<open>The integer nearest to \<open>p / q\<close>, the even one when two are.\<close>

definition round_even :: "nat \<Rightarrow> nat \<Rightarrow> nat" where
  "round_even p q =
     (if q < 2 * (p mod q) \<or> (2 * (p mod q) = q \<and> odd (p div q)) then Suc (p div q) else p div q)"

text \<open>
  The magnitude bits of the float nearest to \<open>p / q\<close> units in the last place of the smallest
  subnormal, with \<open>mant\<close> stored fraction bits and \<open>infb\<close> the bits of infinity.
\<close>

definition round_float :: "nat \<Rightarrow> nat \<Rightarrow> nat \<Rightarrow> nat \<Rightarrow> nat" where
  "round_float mant infb p q =
     (let s = bit_len (p div q) - Suc mant
      in min (s * 2 ^ mant + round_even p (q * 2 ^ s)) infb)"

abbreviation f64_inf :: nat where "f64_inf \<equiv> 2047 * 2 ^ 52"
abbreviation f32_inf :: nat where "f32_inf \<equiv> 255 * 2 ^ 23"

definition f64_round :: "bool \<Rightarrow> nat \<Rightarrow> nat \<Rightarrow> f64" where
  "f64_round neg p q =
     of_nat ((if neg then 2 ^ 63 else 0) + round_float 52 f64_inf p q)"

definition f32_round :: "bool \<Rightarrow> nat \<Rightarrow> nat \<Rightarrow> f32" where
  "f32_round neg p q =
     of_nat ((if neg then 2 ^ 31 else 0) + round_float 23 f32_inf p q)"

text \<open>\<open>n as f64\<close> for an unsigned integer, and for a signed one.\<close>

definition f64_of_nat :: "nat \<Rightarrow> f64" where
  "f64_of_nat n = f64_round False (n * 2 ^ 1074) 1"

definition f64_of_int :: "int \<Rightarrow> f64" where
  "f64_of_int i = f64_round (i < 0) (nat \<bar>i\<bar> * 2 ^ 1074) 1"

text \<open>\<open>x as f32\<close> of a number that is not a NaN, and \<open>y as f64\<close>.\<close>

definition f32_of_f64 :: "f64 \<Rightarrow> f32" where
  "f32_of_f64 w = f32_round (f64_neg w) (f64_mag w) (2 ^ 925)"

definition f64_of_f32 :: "f32 \<Rightarrow> f64" where
  "f64_of_f32 w = (if f32_exp w = 255
     then of_nat ((if f32_neg w then 2 ^ 63 else 0) + f64_inf + f32_frac w * 2 ^ 29)
     else f64_round (f32_neg w) (f32_mag w * 2 ^ 925) 1)"

text \<open>
  \<open>str::parse::<f64>\<close> on the texts the condition tokenizer produces: an optional minus sign,
  digits, and at most one point (the point may be first or last, a digit must be present).
\<close>

definition parse_f64 :: "string \<Rightarrow> f64 option" where
  "parse_f64 s =
     (let neg = (s \<noteq> [] \<and> hd s = CHR ''-'');
          body = (if neg then tl s else s)
      in case split_char (CHR ''.'') body of
           [a] \<Rightarrow> if a \<noteq> [] \<and> list_all is_ascii_digit a
                  then Some (f64_round neg (digits_value a * 2 ^ 1074) 1) else None
         | [a, b] \<Rightarrow> if a @ b \<noteq> [] \<and> list_all is_ascii_digit (a @ b)
                     then Some (f64_round neg (digits_value (a @ b) * 2 ^ 1074) (10 ^ length b))
                     else None
         | _ \<Rightarrow> None)"

section \<open>Display\<close>

text \<open>
  The display of a float: the fewest significant digits that read back as the float, the nearest where
  several do, written without an exponent. The value is \<open>f64_mag w / 2 ^ 1074\<close>; \<open>digits_at w k\<close>
  looks for \<open>k\<close> digits \<open>d\<close> and a power \<open>x\<close> of ten with \<open>d * 10 ^ x\<close> rounding to the float.
\<close>

definition decimal_exp :: "nat \<Rightarrow> nat \<Rightarrow> int" where
  "decimal_exp p q = (if q \<le> p then int (length (show_nat (p div q)))
                      else 1 - int (hd (filter (\<lambda>n. q \<le> p * 10 ^ n) [1..<330])))"

definition digits_at :: "f64 \<Rightarrow> nat \<Rightarrow> (nat \<times> int) option" where
  "digits_at w k =
     (let p = f64_mag w; q = 2 ^ 1074;
          x = decimal_exp p q - int k;
          num = p * 10 ^ nat (- x); den = q * 10 ^ nat x;
          good = filter (\<lambda>d. f64_round (f64_neg w) (d * 10 ^ nat x * q) (10 ^ nat (- x)) = w) [num div den, Suc (num div den)]
      in case good of
           [] \<Rightarrow> None
         | [d] \<Rightarrow> Some (d, x)
         | d # e # _ \<Rightarrow> Some (if num - d * den \<le> e * den - num then d else e, x))"

definition show_decimal :: "nat \<Rightarrow> int \<Rightarrow> string" where
  "show_decimal d x =
     (let s = show_nat d; n = nat (- x) in
      if 0 \<le> x then s @ replicate (nat x) (CHR ''0'')
      else if n < length s then take (length s - n) s @ CHR ''.'' # drop (length s - n) s
      else ''0.'' @ replicate (n - length s) (CHR ''0'') @ s)"

definition show_f64 :: "f64 \<Rightarrow> string" where
  "show_f64 w =
     (if f64_is_nan w then ''NaN''
      else (if f64_neg w then ''-'' else [])
           @ (if \<not> f64_is_finite w then ''inf''
              else if f64_mag w = 0 then ''0''
              else case List.map_filter (digits_at w) [1..<18] of
                     [] \<Rightarrow> []
                   | (d, x) # _ \<Rightarrow> show_decimal d x))"

section \<open>Facts\<close>

lemma f64_eq_sym: "f64_eq a b \<longleftrightarrow> f64_eq b a"
  by (auto simp: f64_eq_def)

lemma f64_trichotomy:
  "\<not> f64_is_nan a \<Longrightarrow> \<not> f64_is_nan b \<Longrightarrow> f64_lt a b \<or> f64_eq a b \<or> f64_lt b a"
  by (auto simp: f64_eq_def f64_lt_def)

lemma f64_lt_irrefl: "\<not> (f64_lt a b \<and> f64_eq a b)" "\<not> (f64_lt a b \<and> f64_lt b a)"
  by (auto simp: f64_eq_def f64_lt_def)

lemma bit_len_bounds: "0 < n \<Longrightarrow> 2 ^ (bit_len n - 1) \<le> n \<and> n < 2 ^ bit_len n"
proof (induction n rule: bit_len.induct)
  case (1 n)
  show ?case
  proof (cases "n div 2 = 0")
    case True
    with 1 have "n = 1" by simp
    then show ?thesis by (simp add: bit_len.simps)
  next
    case False
    with 1 have ih: "2 ^ (bit_len (n div 2) - 1) \<le> n div 2" "n div 2 < 2 ^ bit_len (n div 2)"
      by auto
    from False have pos: "0 < bit_len (n div 2)" by (simp add: bit_len.simps [of "n div 2"])
    have bl: "bit_len n = Suc (bit_len (n div 2))"
      using "1.prems" by (simp add: bit_len.simps [of n])
    have "2 * 2 ^ (bit_len (n div 2) - 1) \<le> n" using ih(1) by linarith
    with pos have "2 ^ bit_len (n div 2) \<le> n"
      by (cases "bit_len (n div 2)") auto
    moreover have "n < 2 * 2 ^ bit_len (n div 2)" using ih(2) by linarith
    ultimately show ?thesis by (simp add: bl)
  qed
qed

lemma bit_len_unique: "2 ^ k \<le> n \<Longrightarrow> n < 2 ^ Suc k \<Longrightarrow> bit_len n = Suc k"
proof -
  assume lo: "(2::nat) ^ k \<le> n" and hi: "n < 2 ^ Suc k"
  from lo have pos: "0 < n" using gr0I by fastforce
  have b: "2 ^ (bit_len n - 1) \<le> n" "n < 2 ^ bit_len n" using bit_len_bounds [OF pos] by auto
  have "2 ^ k < (2::nat) ^ bit_len n" using lo b(2) by linarith
  then have "k < bit_len n" by simp
  moreover have "2 ^ (bit_len n - 1) < (2::nat) ^ Suc k" using b(1) hi by linarith
  then have "bit_len n - 1 < Suc k" by (meson nat_power_less_imp_less zero_less_numeral)
  ultimately show ?thesis by linarith
qed

lemma bit_len_small: "n < 2 ^ k \<Longrightarrow> bit_len n \<le> k"
proof (cases "n = 0")
  case True
  then show ?thesis by (simp add: bit_len.simps)
next
  case False
  assume "n < 2 ^ k"
  moreover from False have "2 ^ (bit_len n - 1) \<le> n" using bit_len_bounds by simp
  ultimately have "2 ^ (bit_len n - 1) < (2::nat) ^ k" by linarith
  then have "bit_len n - 1 < k" by (meson nat_power_less_imp_less zero_less_numeral)
  then show ?thesis by linarith
qed

lemma round_even_exact: "0 < q \<Longrightarrow> round_even (n * q) q = n"
  by (simp add: round_even_def)

text \<open>A magnitude that the format represents exactly is encoded without rounding.\<close>

lemma round_float_exact:
  assumes "0 < q" "m < 2 ^ Suc mant" "s = 0 \<or> 2 ^ mant \<le> m" "s * 2 ^ mant + m \<le> infb"
  shows "round_float mant infb (m * 2 ^ s * q) q = s * 2 ^ mant + m"
proof -
  have "bit_len (m * 2 ^ s) - Suc mant = s"
  proof (cases "s = 0")
    case True
    with assms(2) show ?thesis using bit_len_small by simp
  next
    case False
    with assms(3) have "2 ^ mant \<le> m" by simp
    then have "2 ^ (mant + s) \<le> m * 2 ^ s" by (simp add: power_add)
    moreover have "m * 2 ^ s < 2 ^ Suc (mant + s)" using assms(2) by (simp add: power_add)
    ultimately have "bit_len (m * 2 ^ s) = Suc (mant + s)" by (rule bit_len_unique)
    then show ?thesis by simp
  qed
  moreover have "round_even (m * 2 ^ s * q) (q * 2 ^ s) = m"
    using round_even_exact [of "q * 2 ^ s" m] assms(1) by (simp add: algebra_simps)
  ultimately show ?thesis using assms(1,4) by (simp add: round_float_def Let_def)
qed

section \<open>Widening and narrowing back is the identity\<close>

lemma f64_bits_unat:
  "n < 2 ^ 63 \<Longrightarrow> unat (of_nat ((if neg then 2 ^ 63 else 0) + n) :: f64) = (if neg then 2 ^ 63 else 0) + n"
proof -
  assume "n < 2 ^ 63"
  then have "(if neg then 2 ^ 63 else 0) + n < 2 ^ LENGTH(64)" by auto
  then show ?thesis by (simp only: unat_of_nat mod_less)
qed

lemma f64_fields_of_bits:
  fixes neg :: bool and n :: nat
  assumes "n < 2 ^ 63"
  defines "w \<equiv> of_nat ((if neg then 2 ^ 63 else 0) + n) :: f64"
  shows "f64_exp w = n div 2 ^ 52" "f64_frac w = n mod 2 ^ 52" "f64_neg w \<longleftrightarrow> neg"
proof -
  have u: "unat w = (if neg then 2 ^ 63 else 0) + n"
    unfolding w_def by (rule f64_bits_unat [OF assms(1)])
  have lt: "n div 2 ^ 52 < 2 ^ 11" using assms(1) by (simp add: less_mult_imp_div_less)
  have top: "(2 ^ 63 :: nat) = 2 ^ 11 * 2 ^ 52" by simp
  have "(2 ^ 63 + n) div 2 ^ 52 = 2 ^ 11 + n div 2 ^ 52" by (subst top) simp
  then show "f64_exp w = n div 2 ^ 52" using lt by (simp add: f64_exp_def u)
  have "(2 ^ 63 + n) mod 2 ^ 52 = n mod 2 ^ 52" by (simp only: top mod_mult_self3)
  then show "f64_frac w = n mod 2 ^ 52" by (simp add: f64_frac_def u)
  show "f64_neg w \<longleftrightarrow> neg" using assms(1) by (simp add: f64_neg_def u)
qed

lemma f64_mag_of_bits:
  assumes "m < 2 ^ 53" "s = 0 \<or> 2 ^ 52 \<le> m" "s * 2 ^ 52 + m < 2 ^ 63"
  shows "f64_mag (of_nat ((if neg then 2 ^ 63 else 0) + (s * 2 ^ 52 + m))) = m * 2 ^ s"
proof -
  define n where "n = s * 2 ^ 52 + m"
  have n: "n < 2 ^ 63" using assms(3) by (simp add: n_def)
  define w :: f64 where "w = of_nat ((if neg then 2 ^ 63 else 0) + n)"
  have e: "f64_exp w = n div 2 ^ 52" and f: "f64_frac w = n mod 2 ^ 52"
    unfolding w_def by (rule f64_fields_of_bits [OF n])+
  have "f64_mag w = m * 2 ^ s"
  proof (cases "m < 2 ^ 52")
    case True
    with assms(2) have "s = 0" by auto
    with True show ?thesis by (simp add: f64_mag_def e f n_def)
  next
    case False
    define r where "r = m - 2 ^ 52"
    with False assms(1) have m: "m = 2 ^ 52 + r" and r: "r < 2 ^ 52" by auto
    have n': "n = Suc s * 2 ^ 52 + r" using m by (simp add: n_def)
    have "n div 2 ^ 52 = Suc s" using r by (simp add: n')
    moreover have "n mod 2 ^ 52 = r" by (simp only: n' mod_mult_self3 mod_less r)
    ultimately show ?thesis by (simp add: f64_mag_def e f m)
  qed
  then show ?thesis by (simp add: w_def n_def)
qed

lemma f32_parts:
  assumes "f32_is_finite w"
  obtains m s where "f32_mag w = m * 2 ^ s" "m < 2 ^ 24" "s = 0 \<or> 2 ^ 23 \<le> m" "s < 254"
    "unat w = (if f32_neg w then 2 ^ 31 else 0) + (s * 2 ^ 23 + m)"
proof -
  define b where "b = unat w mod 2 ^ 31"
  have ub: "unat w < 2 ^ 32" using unsigned_less [of w, where 'a = nat] by simp
  have u: "unat w = (if f32_neg w then 2 ^ 31 else 0) + b"
  proof (cases "2 ^ 31 \<le> unat w")
    case True
    have "(unat w - 2 ^ 31) mod 2 ^ 31 = unat w - 2 ^ 31" using ub by (intro mod_less) simp
    then have "b = unat w - 2 ^ 31" using True by (simp add: b_def le_mod_geq)
    with True show ?thesis by (simp add: f32_neg_def)
  next
    case False
    then show ?thesis by (simp add: b_def f32_neg_def)
  qed
  have "unat w div 2 ^ 23 mod 2 ^ 8 = unat w mod 2 ^ (23 + 8) div 2 ^ 23"
    by (rule div_exp_mod_exp_eq)
  then have e: "f32_exp w = b div 2 ^ 23" and f: "f32_frac w = b mod 2 ^ 23"
    by (simp_all add: f32_exp_def f32_frac_def b_def mod_mod_cancel)
  have bd: "b = (b div 2 ^ 23) * 2 ^ 23 + b mod 2 ^ 23" by simp
  show thesis
  proof (cases "f32_exp w = 0")
    case True
    then have "f32_mag w = b mod 2 ^ 23 * 2 ^ 0" by (simp add: f32_mag_def f)
    moreover have "b = 0 * 2 ^ 23 + b mod 2 ^ 23" using True e bd by simp
    ultimately show thesis using u by (intro that [of "b mod 2 ^ 23" 0]) auto
  next
    case False
    then obtain s where s: "f32_exp w = Suc s" by (cases "f32_exp w") auto
    have lt: "f32_exp w < 256" by (simp add: f32_exp_def)
    have "b = s * 2 ^ 23 + (2 ^ 23 + b mod 2 ^ 23)" using s e bd by simp
    moreover have "f32_mag w = (2 ^ 23 + b mod 2 ^ 23) * 2 ^ s" by (simp add: f32_mag_def f s)
    moreover have "s < 254" using s lt assms by (simp add: f32_is_finite_def)
    moreover have "b mod 2 ^ 23 < 2 ^ 23" by simp
    ultimately show thesis using u by (intro that [of "2 ^ 23 + b mod 2 ^ 23" s]) auto
  qed
qed

text \<open>The binary64 image of a finite binary32 number has the same value.\<close>

lemma f64_of_f32_value:
  assumes "f32_is_finite w"
  shows "f64_mag (f64_of_f32 w) = f32_mag w * 2 ^ 925"
    and "f64_neg (f64_of_f32 w) \<longleftrightarrow> f32_neg w"
    and "f64_is_finite (f64_of_f32 w)"
proof -
  obtain m s where ms: "f32_mag w = m * 2 ^ s" "m < 2 ^ 24" "s = 0 \<or> 2 ^ 23 \<le> m" "s < 254"
    using f32_parts [OF assms] by metis
  have "\<exists>m' s'. f32_mag w * 2 ^ 925 = m' * 2 ^ s' \<and> m' < 2 ^ 53 \<and> (s' = 0 \<or> 2 ^ 52 \<le> m') \<and> s' < 1500"
  proof (cases "m = 0")
    case True
    then show ?thesis using ms by (intro exI [of _ 0]) auto
  next
    case False
    define k where "k = 53 - bit_len m"
    have b: "2 ^ (bit_len m - 1) \<le> m" "m < 2 ^ bit_len m" using False bit_len_bounds by auto
    have l: "bit_len m \<le> 24" "0 < bit_len m"
      using ms(2) bit_len_small False by (auto simp: bit_len.simps [of m])
    then have k: "k \<le> 53" "bit_len m + k = 53" "bit_len m - 1 + k = 52" by (auto simp: k_def)
    have hi: "m * 2 ^ k < 2 ^ 53"
    proof -
      have "m * 2 ^ k < 2 ^ bit_len m * 2 ^ k" using b(2) by simp
      also have "\<dots> = 2 ^ 53" by (simp only: k(2) flip: power_add)
      finally show ?thesis .
    qed
    have lo: "2 ^ 52 \<le> m * 2 ^ k"
    proof -
      have "(2::nat) ^ 52 = 2 ^ (bit_len m - 1) * 2 ^ k" by (simp only: k(3) flip: power_add)
      also have "\<dots> \<le> m * 2 ^ k" using b(1) by simp
      finally show ?thesis .
    qed
    have "m * 2 ^ s * 2 ^ 925 = m * 2 ^ k * 2 ^ (s + 925 - k)"
    proof -
      have "s + 925 = k + (s + 925 - k)" using k(1) by simp
      then have "(2::nat) ^ s * 2 ^ 925 = 2 ^ k * 2 ^ (s + 925 - k)" by (metis power_add)
      then show ?thesis by (simp only: mult.assoc)
    qed
    with hi lo ms(1,4) show ?thesis
      by (intro exI [of _ "m * 2 ^ k"] exI [of _ "s + 925 - k"]) auto
  qed
  then obtain m' s' where m': "f32_mag w * 2 ^ 925 = m' * 2 ^ s'" "m' < 2 ^ 53"
    "s' = 0 \<or> 2 ^ 52 \<le> m'" "s' < 1500" by blast
  have small: "s' * 2 ^ 52 + m' < 1502 * 2 ^ 52" using m'(2,4) by simp
  then have "round_float 52 f64_inf (m' * 2 ^ s' * 1) 1 = s' * 2 ^ 52 + m'"
    using m' by (intro round_float_exact) auto
  then have eq: "f64_of_f32 w = of_nat ((if f32_neg w then 2 ^ 63 else 0) + (s' * 2 ^ 52 + m'))"
    using assms m'(1) by (simp add: f64_of_f32_def f32_is_finite_def f64_round_def)
  have lt: "s' * 2 ^ 52 + m' < 2 ^ 63" using small by simp
  show "f64_mag (f64_of_f32 w) = f32_mag w * 2 ^ 925"
    unfolding eq using f64_mag_of_bits [OF m'(2,3) lt] m'(1) by simp
  show "f64_neg (f64_of_f32 w) \<longleftrightarrow> f32_neg w"
    unfolding eq by (rule f64_fields_of_bits(3) [OF lt])
  have "(s' * 2 ^ 52 + m') div 2 ^ 52 < 1502" using small by (simp add: less_mult_imp_div_less)
  then show "f64_is_finite (f64_of_f32 w)"
    unfolding eq f64_is_finite_def f64_fields_of_bits(1) [OF lt] by simp
qed

lemma f32_of_f64_of_f32:
  assumes "f32_is_finite w"
  shows "f32_of_f64 (f64_of_f32 w) = w"
proof -
  obtain m s where ms: "f32_mag w = m * 2 ^ s" "m < 2 ^ 24" "s = 0 \<or> 2 ^ 23 \<le> m" "s < 254"
    "unat w = (if f32_neg w then 2 ^ 31 else 0) + (s * 2 ^ 23 + m)"
    using f32_parts [OF assms] by metis
  have "round_float 23 f32_inf (m * 2 ^ s * 2 ^ 925) (2 ^ 925) = s * 2 ^ 23 + m"
    using ms(2,3,4) by (intro round_float_exact) auto
  then have "f32_of_f64 (f64_of_f32 w) = of_nat (unat w)"
    by (simp add: f32_of_f64_def f32_round_def f64_of_f32_value [OF assms] ms(1,5))
  then show ?thesis by simp
qed

text \<open>Numbers of at least \<open>2 ^ 128\<close> become infinite when they are narrowed.\<close>

lemma round_float_overflow:
  assumes "2 ^ 277 \<le> p div q" "0 < q"
  shows "round_float 23 f32_inf p q = f32_inf"
proof -
  define n where "n = p div q"
  have pos: "0 < n" using assms(1) by (simp add: n_def)
  have lo: "2 ^ (bit_len n - 1) \<le> n" using bit_len_bounds [OF pos] by simp
  have "\<not> bit_len n \<le> 277"
  proof
    assume "bit_len n \<le> 277"
    then have "(2::nat) ^ bit_len n \<le> 2 ^ 277" by (rule power_increasing) simp
    then show False using bit_len_bounds [OF pos] assms(1) by (simp add: n_def)
  qed
  define s where "s = bit_len n - 24"
  with \<open>\<not> bit_len n \<le> 277\<close> have s: "254 \<le> s" "bit_len n - 1 = 23 + s" by auto
  have "2 ^ 23 * 2 ^ s \<le> n" using lo by (simp only: s(2) power_add)
  then have "2 ^ 23 * 2 ^ s div 2 ^ s \<le> n div 2 ^ s" by (rule div_le_mono)
  then have "2 ^ 23 \<le> p div (q * 2 ^ s)" by (simp add: n_def div_mult2_eq)
  then have "2 ^ 23 \<le> round_even p (q * 2 ^ s)" by (simp add: round_even_def)
  moreover have "254 * 2 ^ 23 \<le> s * 2 ^ 23" using s(1) by simp
  ultimately have "f32_inf \<le> s * 2 ^ 23 + round_even p (q * 2 ^ s)" by linarith
  then show ?thesis by (simp add: round_float_def Let_def s_def n_def)
qed

end
