(* ===== verification/Json.thy ===== *)
theory Json
  imports Rust_Float
begin

text \<open>
  The JSON values of \<open>serde_json\<close>: the type and the accessors that the crates call on it. An
  object is an ordered map. A number is a non-negative 64-bit integer, a negative 64-bit integer
  or a finite binary64.
\<close>

datatype jnum = PosInt u64 | NegInt "64 word" | Float f64

datatype jvalue =
    JNull
  | JBool bool
  | JNumber jnum
  | JString string
  | JArray "jvalue list"
  | JObject "(string \<times> jvalue) list"

lemma size_array_elem: "x \<in> set xs \<Longrightarrow> size x < size (JArray xs)"
  by (induction xs) auto

lemma size_object_elem: "(k, v) \<in> set m \<Longrightarrow> size v < size (JObject m)"
  by (induction m) auto

type_synonym frame_dict = "(string, jvalue) btree"

fun as_str :: "jvalue \<Rightarrow> string option" where
  "as_str (JString s) = Some s"
| "as_str _ = None"

fun as_bool :: "jvalue \<Rightarrow> bool option" where
  "as_bool (JBool b) = Some b"
| "as_bool _ = None"

fun as_u64 :: "jvalue \<Rightarrow> u64 option" where
  "as_u64 (JNumber (PosInt n)) = Some n"
| "as_u64 _ = None"

fun as_i64 :: "jvalue \<Rightarrow> int option" where
  "as_i64 (JNumber (PosInt n)) = (if unat n < 2 ^ 63 then Some (uint n) else None)"
| "as_i64 (JNumber (NegInt n)) = Some (sint n)"
| "as_i64 _ = None"

fun num_as_f64 :: "jnum \<Rightarrow> f64" where
  "num_as_f64 (PosInt n) = f64_of_nat (unat n)"
| "num_as_f64 (NegInt n) = f64_of_int (sint n)"
| "num_as_f64 (Float x) = x"

fun as_f64 :: "jvalue \<Rightarrow> f64 option" where
  "as_f64 (JNumber n) = Some (num_as_f64 n)"
| "as_f64 _ = None"

fun as_array :: "jvalue \<Rightarrow> jvalue list option" where
  "as_array (JArray xs) = Some xs"
| "as_array _ = None"

fun as_object :: "jvalue \<Rightarrow> frame_dict option" where
  "as_object (JObject m) = Some m"
| "as_object _ = None"

fun is_null :: "jvalue \<Rightarrow> bool" where
  "is_null JNull = True"
| "is_null _ = False"

text \<open>\<open>Number::from_f64\<close>: a number for a finite value, nothing otherwise.\<close>

definition number_from_f64 :: "f64 \<Rightarrow> jvalue option" where
  "number_from_f64 x = (if f64_is_finite x then Some (JNumber (Float x)) else None)"

text \<open>\<open>Value::get\<close> with a string key: only objects have fields.\<close>

definition jget :: "jvalue \<Rightarrow> string \<Rightarrow> jvalue option" where
  "jget v key = (case v of JObject m \<Rightarrow> map_of m key | _ \<Rightarrow> None)"

text \<open>Equality of values compares floats as floats, so the two zeros are equal.\<close>

fun jnum_eq :: "jnum \<Rightarrow> jnum \<Rightarrow> bool" where
  "jnum_eq (PosInt a) (PosInt b) = (a = b)"
| "jnum_eq (NegInt a) (NegInt b) = (a = b)"
| "jnum_eq (Float a) (Float b) = f64_eq a b"
| "jnum_eq _ _ = False"

function jv_eq :: "jvalue \<Rightarrow> jvalue \<Rightarrow> bool" where
  "jv_eq a b = (case (a, b) of
       (JNull, JNull) \<Rightarrow> True
     | (JBool x, JBool y) \<Rightarrow> x = y
     | (JNumber x, JNumber y) \<Rightarrow> jnum_eq x y
     | (JString x, JString y) \<Rightarrow> x = y
     | (JArray xs, JArray ys) \<Rightarrow> list_all2 jv_eq xs ys
     | (JObject xs, JObject ys) \<Rightarrow>
         list_all2 (\<lambda>p q. fst p = fst q \<and> jv_eq (snd p) (snd q)) xs ys
     | _ \<Rightarrow> False)"
  by pat_completeness auto
termination
  by (relation "measure (\<lambda>(a, b). size a)") (auto dest: size_array_elem size_object_elem)

declare jv_eq.simps [simp del]

definition dict_eq :: "frame_dict \<Rightarrow> frame_dict \<Rightarrow> bool" where
  "dict_eq a b = jv_eq (JObject a) (JObject b)"

text \<open>Values built by \<open>json!\<close> from strings, integers, booleans and lists of strings.\<close>

abbreviation jnat :: "u64 \<Rightarrow> jvalue" where "jnat n \<equiv> JNumber (PosInt n)"
abbreviation jstrs :: "string list \<Rightarrow> jvalue" where "jstrs xs \<equiv> JArray (map JString xs)"

text \<open>\<open>a.iter().filter_map(Value::as_str)\<close>, on an array field.\<close>

definition str_items :: "jvalue list \<Rightarrow> string list" where
  "str_items xs = List.map_filter as_str xs"

definition get_array :: "frame_dict \<Rightarrow> string \<Rightarrow> jvalue list option" where
  "get_array d k = Option.bind (map_of d k) as_array"

definition get_strs :: "frame_dict \<Rightarrow> string \<Rightarrow> string list option" where
  "get_strs d k = map_option str_items (get_array d k)"

definition opt_str :: "frame_dict \<Rightarrow> string \<Rightarrow> string option" where
  "opt_str d k = Option.bind (map_of d k) as_str"

definition opt_u64 :: "frame_dict \<Rightarrow> string \<Rightarrow> u64 option" where
  "opt_u64 d k = Option.bind (map_of d k) as_u64"

definition opt_bool :: "frame_dict \<Rightarrow> string \<Rightarrow> bool option" where
  "opt_bool d k = Option.bind (map_of d k) as_bool"

definition opt_object :: "frame_dict \<Rightarrow> string \<Rightarrow> frame_dict option" where
  "opt_object d k = Option.bind (map_of d k) as_object"

lemmas field_defs = get_array_def get_strs_def opt_str_def opt_u64_def opt_bool_def opt_object_def

lemma str_items_map [simp]: "str_items (map JString xs) = xs"
  by (induction xs) (simp_all add: str_items_def List.map_filter_def)

lemma str_items_Nil [simp]: "str_items [] = []"
  by (simp add: str_items_def List.map_filter_def)

section \<open>Fields of a dictionary that is being built\<close>

text \<open>Each accessor sees through the insertions of \<open>to_dict\<close>; the collection \<open>fields\<close> reads a field
  back from the dictionary that wrote it.\<close>

named_theorems fields "field accessors on dictionaries built by insertion"

lemma fields_empty [fields]:
  "opt_str [] k = None" "opt_u64 [] k = None" "opt_bool [] k = None"
  "get_array [] k = None" "get_strs [] k = None" "opt_object [] k = None"
  by (simp_all add: field_defs)

lemma fields_insert [fields]:
  "opt_str (bt_insert k v d) x = (if x = k then as_str v else opt_str d x)"
  "opt_u64 (bt_insert k v d) x = (if x = k then as_u64 v else opt_u64 d x)"
  "opt_bool (bt_insert k v d) x = (if x = k then as_bool v else opt_bool d x)"
  "get_array (bt_insert k v d) x = (if x = k then as_array v else get_array d x)"
  "get_strs (bt_insert k v d) x = (if x = k then map_option str_items (as_array v) else get_strs d x)"
  "opt_object (bt_insert k v d) x = (if x = k then as_object v else opt_object d x)"
  by (simp_all add: field_defs)

definition field_of :: "(jvalue \<Rightarrow> 'a option) \<Rightarrow> jvalue option \<Rightarrow> 'a option \<Rightarrow> 'a option" where
  "field_of rd v rest = (case v of None \<Rightarrow> rest | Some w \<Rightarrow> rd w)"

lemma fields_insert_opt [fields]:
  "opt_str (bt_insert_opt k v d) x =
     (if x = k then field_of as_str v (opt_str d x) else opt_str d x)"
  "opt_u64 (bt_insert_opt k v d) x =
     (if x = k then field_of as_u64 v (opt_u64 d x) else opt_u64 d x)"
  "opt_bool (bt_insert_opt k v d) x =
     (if x = k then field_of as_bool v (opt_bool d x) else opt_bool d x)"
  "get_array (bt_insert_opt k v d) x =
     (if x = k then field_of as_array v (get_array d x) else get_array d x)"
  "get_strs (bt_insert_opt k v d) x =
     (if x = k then field_of (\<lambda>w. map_option str_items (as_array w)) v (get_strs d x) else get_strs d x)"
  "opt_object (bt_insert_opt k v d) x =
     (if x = k then field_of as_object v (opt_object d x) else opt_object d x)"
  by (simp_all add: field_of_def field_defs bt_insert_opt_def split: option.splits)

lemma field_of_back [fields]:
  "field_of as_str (map_option JString s) None = s"
  "field_of as_u64 (map_option (\<lambda>n. jnat n) n) None = n"
  "field_of as_bool (map_option JBool b) None = b"
  "field_of as_array (map_option JArray a) None = a"
  "field_of (\<lambda>w. map_option str_items (as_array w)) (map_option (\<lambda>l. jstrs l) l) None = l"
  "field_of as_object (map_option JObject m) None = m"
  "(if v \<noteq> None then v else None) = v"
  by (simp_all add: field_of_def split: option.splits)

text \<open>Fields that are left out when they have their default value.\<close>

lemma insert_if_opt [fields]:
  "(if b then bt_insert k v m else m) = bt_insert_opt k (if b then Some v else None) m"
  by (simp add: bt_insert_opt_def)

lemma field_of_default [fields]:
  "unwrap_or [] (field_of (\<lambda>w. map_option str_items (as_array w)) (if xs \<noteq> [] then Some (jstrs xs) else None) None) = xs"
  "unwrap_or 0 (field_of as_u64 (if n > 0 then Some (jnat n) else None) None) = n"
  "unwrap_or [] (field_of as_array (if ys \<noteq> [] then Some (JArray ys) else None) None) = ys"
  by (auto simp: field_of_def word_gt_0)

text \<open>A value is well formed when each of its objects is an ordered map.\<close>

function jv_wf :: "jvalue \<Rightarrow> bool" where
  "jv_wf v = (case v of
       JArray xs \<Rightarrow> list_all jv_wf xs
     | JObject m \<Rightarrow> bt_wf m \<and> list_all (\<lambda>p. jv_wf (snd p)) m
     | _ \<Rightarrow> True)"
  by pat_completeness auto
termination
  by (relation "measure size") (auto dest: size_array_elem size_object_elem)

declare jv_wf.simps [simp del]

lemma jv_wf_simps [simp]:
  "jv_wf JNull" "jv_wf (JBool b)" "jv_wf (JNumber n)" "jv_wf (JString s)"
  "jv_wf (JArray xs) \<longleftrightarrow> list_all jv_wf xs"
  "jv_wf (JObject m) \<longleftrightarrow> bt_wf m \<and> list_all (\<lambda>p. jv_wf (snd p)) m"
  by (simp_all add: jv_wf.simps)

section \<open>Derived readers of structs\<close>

text \<open>Optional fields: absent and null give \<open>None\<close>, a value of the wrong type is an error (the outer
  \<open>None\<close>).\<close>

definition opt_field :: "(jvalue \<Rightarrow> 'a option) \<Rightarrow> jvalue option \<Rightarrow> 'a option option" where
  "opt_field rd v = (case v of
       None \<Rightarrow> Some None
     | Some w \<Rightarrow> if is_null w then Some None else map_option Some (rd w))"

fun all_strs :: "jvalue list \<Rightarrow> string list option" where
  "all_strs [] = Some []"
| "all_strs (v # vs) = (case (as_str v, all_strs vs) of (Some x, Some xs) \<Rightarrow> Some (x # xs) | _ \<Rightarrow> None)"

definition str_list :: "jvalue \<Rightarrow> string list option" where
  "str_list v = Option.bind (as_array v) all_strs"

text \<open>The value of a field in the object form and in the array form. In the array form every field
  has its item.\<close>

definition struct_fields :: "string list \<Rightarrow> jvalue \<Rightarrow> jvalue option list option" where
  "struct_fields names v = (case v of
       JObject m \<Rightarrow> Some (map (map_of m) names)
     | JArray xs \<Rightarrow> if length xs = length names then Some (map Some xs) else None
     | _ \<Rightarrow> None)"

lemma all_strs_map [simp]: "all_strs (map JString xs) = Some xs"
  by (induction xs) simp_all

text \<open>Pieces of the derived writers and readers: absent options as null, 32-bit numbers, lists.\<close>

definition null_or :: "('a \<Rightarrow> jvalue) \<Rightarrow> 'a option \<Rightarrow> jvalue" where
  "null_or f x = (case x of None \<Rightarrow> JNull | Some y \<Rightarrow> f y)"

definition as_u32 :: "jvalue \<Rightarrow> u32 option" where
  "as_u32 v = Option.bind (as_u64 v) (\<lambda>n. if unat n < 2 ^ 32 then Some (ucast n) else None)"

fun all_opt :: "('a \<Rightarrow> 'b option) \<Rightarrow> 'a list \<Rightarrow> 'b list option" where
  "all_opt f [] = Some []"
| "all_opt f (x # xs) = Option.bind (f x) (\<lambda>y. map_option ((#) y) (all_opt f xs))"

lemma all_opt_map: "(\<And>x. x \<in> set xs \<Longrightarrow> f (g x) = Some x) \<Longrightarrow> all_opt f (map g xs) = Some xs"
  by (induction xs) simp_all

lemma u32_widened: "ucast (ucast (n :: u32) :: u64) = n"
  by (rule bit_word_eqI) (simp add: bit_simps)

lemma as_u32_ucast [simp]: "as_u32 (jnat (ucast (n :: u32))) = Some n"
proof -
  have "unat (ucast n :: u64) = unat n" by (simp add: unsigned_ucast_eq take_bit_nat_eq_self_iff less_le_trans [OF unsigned_less [of n, where ?'a = nat]])
  then show ?thesis using unsigned_less [of n, where ?'a = nat] by (simp add: as_u32_def u32_widened)
qed

lemma opt_field_null_or:
  "(\<And>x. rd (f x) = Some x \<and> f x \<noteq> JNull) \<Longrightarrow> opt_field rd (Some (null_or f o1)) = Some o1"
  by (cases o1; simp add: null_or_def opt_field_def) (metis is_null.elims(2))

definition str_at :: "jvalue \<Rightarrow> string \<Rightarrow> string option" where
  "str_at v k = Option.bind (jget v k) as_str"

end
