(* ===== verification/Core_Frames.thy ===== *)
theory Core_Frames
  imports Json
begin

text \<open>
  \<^verbatim>\<open>nps-core\<close>: error values (\<^verbatim>\<open>error.rs\<close>), the frame types, encoding tiers and the wire header
  (\<^verbatim>\<open>frames.rs\<close>) and the registry of frame types (\<^verbatim>\<open>registry.rs\<close>). The main facts: type codes
  and types correspond one to one, and a header that \<open>FrameHeader::new\<close> builds is read back from
  its bytes exactly when the payload length fits the 32-bit length field.
\<close>

unbundle bit_operations_syntax

section \<open>Errors\<close>

datatype nps_error =
    FrameError string
  | CodecError string
  | AnchorNotFound string
  | AnchorPoison string
  | IdentityError string
  | IoError string

type_synonym 'a nps_result = "nps_error + 'a"

definition nps_error_display :: "nps_error \<Rightarrow> string" where
  "nps_error_display e = (case e of
       FrameError m \<Rightarrow> ''NPS frame error: '' @ m
     | CodecError m \<Rightarrow> ''NPS codec error: '' @ m
     | AnchorNotFound m \<Rightarrow> ''NPS anchor not found: '' @ m
     | AnchorPoison m \<Rightarrow> ''NPS anchor poison: '' @ m
     | IdentityError m \<Rightarrow> ''NPS identity error: '' @ m
     | IoError m \<Rightarrow> ''NPS IO error: '' @ m)"

text \<open>The format \<open>{:02X}\<close> of a byte.\<close>

definition hex_digit :: "nat \<Rightarrow> char" where
  "hex_digit n = (if n < 10 then char_of (48 + n) else char_of (55 + n))"

definition hex2 :: "u8 \<Rightarrow> string" where
  "hex2 b = [hex_digit (unat b div 16), hex_digit (unat b mod 16)]"

section \<open>Frame types\<close>

datatype frame_type =
    Anchor | Diff | Stream | Caps | Hello | Nop | Query | Action | Ident | Trust | Revoke
  | Announce | Resolve | Graph | Task | Delegate | Sync | AlignStream | Error

fun as_u8 :: "frame_type \<Rightarrow> u8" where
  "as_u8 Anchor = 0x01"
| "as_u8 Diff = 0x02"
| "as_u8 Stream = 0x03"
| "as_u8 Caps = 0x04"
| "as_u8 Hello = 0x06"
| "as_u8 Nop = 0x07"
| "as_u8 Query = 0x10"
| "as_u8 Action = 0x11"
| "as_u8 Ident = 0x20"
| "as_u8 Trust = 0x21"
| "as_u8 Revoke = 0x22"
| "as_u8 Announce = 0x30"
| "as_u8 Resolve = 0x31"
| "as_u8 Graph = 0x32"
| "as_u8 Task = 0x40"
| "as_u8 Delegate = 0x41"
| "as_u8 Sync = 0x42"
| "as_u8 AlignStream = 0x43"
| "as_u8 Error = 0xFE"

definition from_u8 :: "u8 \<Rightarrow> frame_type nps_result" where
  "from_u8 v =
     (if v = 0x01 then Ok Anchor
      else if v = 0x02 then Ok Diff
      else if v = 0x03 then Ok Stream
      else if v = 0x04 then Ok Caps
      else if v = 0x06 then Ok Hello
      else if v = 0x07 then Ok Nop
      else if v = 0x10 then Ok Query
      else if v = 0x11 then Ok Action
      else if v = 0x20 then Ok Ident
      else if v = 0x21 then Ok Trust
      else if v = 0x22 then Ok Revoke
      else if v = 0x30 then Ok Announce
      else if v = 0x31 then Ok Resolve
      else if v = 0x32 then Ok Graph
      else if v = 0x40 then Ok Task
      else if v = 0x41 then Ok Delegate
      else if v = 0x42 then Ok Sync
      else if v = 0x43 then Ok AlignStream
      else if v = 0xFE then Ok Error
      else Err (FrameError (''unknown frame type: 0x'' @ hex2 v)))"

datatype encoding_tier = TierJson | TierMsgPack | TierBinaryVector | TierReserved

fun tier_u8 :: "encoding_tier \<Rightarrow> u8" where
  "tier_u8 TierJson = 0"
| "tier_u8 TierMsgPack = 1"
| "tier_u8 TierBinaryVector = 2"
| "tier_u8 TierReserved = 3"

section \<open>Big-endian and little-endian integers\<close>

text \<open>\<open>to_be k n\<close>: the low \<open>k\<close> bytes of \<open>n\<close>, most significant first.\<close>

fun to_be :: "nat \<Rightarrow> nat \<Rightarrow> bytes" where
  "to_be 0 n = []"
| "to_be (Suc k) n = to_be k (n div 256) @ [of_nat n]"

definition from_be :: "bytes \<Rightarrow> nat" where
  "from_be bs = foldl (\<lambda>a b. a * 256 + unat b) 0 bs"

definition to_le :: "nat \<Rightarrow> nat \<Rightarrow> bytes" where
  "to_le k n = rev (to_be k n)"

definition from_le :: "bytes \<Rightarrow> nat" where
  "from_le bs = from_be (rev bs)"

section \<open>The frame header\<close>

record frame_header =
  frame_type :: frame_type
  flags :: u8
  payload_length :: u64
  is_extended :: bool

definition header_new :: "frame_type \<Rightarrow> encoding_tier \<Rightarrow> bool \<Rightarrow> u64 \<Rightarrow> frame_header" where
  "header_new ft tier is_final len =
     (let ext = (len > 0xFFFF);
          f0 = tier_u8 tier AND 0x03;
          f1 = (if is_final then f0 OR 0x04 else f0);
          f2 = (if ext then f1 OR 0x80 else f1)
      in \<lparr>frame_type = ft, flags = f2, payload_length = len, is_extended = ext\<rparr>)"

definition header_tier :: "frame_header \<Rightarrow> encoding_tier" where
  "header_tier h =
     (let t = flags h AND 0x03
      in if t = 0 then TierJson else if t = 1 then TierMsgPack
         else if t = 2 then TierBinaryVector else TierReserved)"

definition header_is_final :: "frame_header \<Rightarrow> bool" where
  "header_is_final h \<longleftrightarrow> flags h AND 0x04 \<noteq> 0"

definition header_size :: "frame_header \<Rightarrow> nat" where
  "header_size h = (if is_extended h then 8 else 4)"

definition header_parse :: "bytes \<Rightarrow> frame_header nps_result" where
  "header_parse wire =
     (if length wire < 4 then Err (FrameError ''buffer too small for header'')
      else try_res (from_u8 (wire ! 0)) (\<lambda>ft.
        let fl = wire ! 1;
            is_ext = (fl AND 0x80 \<noteq> 0)
        in if is_ext then
             (if length wire < 8 then Err (FrameError ''buffer too small for extended header'')
              else Ok \<lparr>frame_type = ft, flags = fl,
                       payload_length = of_nat (from_be [wire ! 4, wire ! 5, wire ! 6, wire ! 7]),
                       is_extended = True\<rparr>)
           else Ok \<lparr>frame_type = ft, flags = fl,
                    payload_length = of_nat (from_be [wire ! 2, wire ! 3]),
                    is_extended = False\<rparr>))"

definition header_to_bytes :: "frame_header \<Rightarrow> bytes" where
  "header_to_bytes h =
     (if is_extended h
      then [as_u8 (frame_type h), flags h, 0, 0] @ to_be 4 (unat (payload_length h))
      else [as_u8 (frame_type h), flags h] @ to_be 2 (unat (payload_length h)))"

section \<open>The frame registry\<close>

type_synonym frame_registry = "u8 set"

definition registry_new :: frame_registry where
  "registry_new = {}"

definition registry_register :: "frame_registry \<Rightarrow> frame_type \<Rightarrow> frame_registry" where
  "registry_register r ft = insert (as_u8 ft) r"

definition is_registered :: "frame_registry \<Rightarrow> frame_type \<Rightarrow> bool" where
  "is_registered r ft \<longleftrightarrow> as_u8 ft \<in> r"

definition create_default :: frame_registry where
  "create_default =
     foldl registry_register registry_new [Anchor, Diff, Stream, Caps, Hello, Error]"

definition create_full :: frame_registry where
  "create_full =
     foldl registry_register create_default
       [Query, Action, Ident, Trust, Revoke, Announce, Resolve, Graph, Task, Delegate, Sync,
        AlignStream]"

section \<open>Facts about type codes and integers\<close>

lemma from_u8_as_u8 [simp]: "from_u8 (as_u8 ft) = Ok ft"
  by (cases ft) (simp_all add: from_u8_def)

lemma from_u8_Ok_iff: "from_u8 v = Ok ft \<longleftrightarrow> v = as_u8 ft"
proof
  assume "from_u8 v = Ok ft"
  then show "v = as_u8 ft" by (auto simp: from_u8_def split: if_splits)
qed simp

lemma as_u8_inject [simp]: "as_u8 a = as_u8 b \<longleftrightarrow> a = b"
  by (metis from_u8_as_u8 sum.inject(2))

lemma length_to_be [simp]: "length (to_be k n) = k"
  by (induction k arbitrary: n) auto

lemma length_to_le [simp]: "length (to_le k n) = k"
  by (simp add: to_le_def)

lemma from_be_snoc: "from_be (bs @ [b]) = from_be bs * 256 + unat b"
  by (simp add: from_be_def)

lemma from_be_to_be: "from_be (to_be k n) = n mod 256 ^ k"
proof (induction k arbitrary: n)
  case 0
  then show ?case by (simp add: from_be_def)
next
  case (Suc k)
  have "from_be (to_be (Suc k) n) = n div 256 mod 256 ^ k * 256 + n mod 256"
    by (simp add: from_be_snoc Suc unat_of_nat)
  also have "\<dots> = n mod (256 * 256 ^ k)"
    by (simp add: mod_mult2_eq)
  finally show ?case by simp
qed

lemma from_le_to_le: "from_le (to_le k n) = n mod 256 ^ k"
  by (simp add: from_le_def to_le_def from_be_to_be)

lemma unat_of_nat_64: "n < 2 ^ 64 \<Longrightarrow> unat (of_nat n :: u64) = n"
  by (simp add: unat_of_nat)

section \<open>The header round trip\<close>

lemma header_new_ext: "is_extended (header_new ft tier fin len) \<longleftrightarrow> 0xFFFF < len"
  by (simp add: header_new_def Let_def)

lemma header_new_fields [simp]:
  "frame_type (header_new ft tier fin len) = ft"
  "payload_length (header_new ft tier fin len) = len"
  by (simp_all add: header_new_def Let_def)

lemma header_new_flags:
  "flags (header_new ft tier fin len) AND 0x80 \<noteq> 0 \<longleftrightarrow> 0xFFFF < len"
  "header_tier (header_new ft tier fin len) = tier"
  "header_is_final (header_new ft tier fin len) \<longleftrightarrow> fin"
  "flags (header_new ft tier fin len) AND 0x08 = 0"
  by (cases tier; simp add: header_new_def header_tier_def header_is_final_def Let_def)+

lemma length_header_to_bytes [simp]: "length (header_to_bytes h) = header_size h"
  by (simp add: header_to_bytes_def header_size_def)

lemma list4: "length xs = 4 \<Longrightarrow> xs = [xs ! 0, xs ! 1, xs ! 2, xs ! 3]"
  by (rule nth_equalityI) (auto simp: less_Suc_eq numeral_eq_Suc)

lemma list2: "length xs = 2 \<Longrightarrow> xs = [xs ! 0, xs ! 1]"
  by (rule nth_equalityI) (auto simp: less_Suc_eq numeral_eq_Suc)

lemma header_parse_to_bytes:
  assumes "unat len < 2 ^ 32"
  shows "header_parse (header_to_bytes (header_new ft tier fin len) @ rest) =
         Ok (header_new ft tier fin len)"
proof (cases "0xFFFF < len")
  case True
  define bs where "bs = to_be 4 (unat len)"
  have bs: "length bs = 4" "from_be bs = unat len"
    using assms by (simp_all add: bs_def from_be_to_be)
  obtain b0 b1 b2 b3 where e: "bs = [b0, b1, b2, b3]" using list4 [OF bs(1)] by blast
  have "header_to_bytes (header_new ft tier fin len) @ rest =
        [as_u8 ft, flags (header_new ft tier fin len), 0, 0, b0, b1, b2, b3] @ rest"
    using True by (simp add: header_to_bytes_def header_new_ext e flip: bs_def)
  moreover have "from_be [b0, b1, b2, b3] = unat len" using bs(2) e by simp
  ultimately show ?thesis
    using True header_new_flags(1) [of ft tier fin len]
    by (simp add: header_parse_def) (simp add: header_new_def Let_def)
next
  case False
  define bs where "bs = to_be 2 (unat len)"
  have "unat len \<le> unat (0xFFFF :: u64)" using False by (simp add: word_le_nat_alt not_less)
  then have bs: "length bs = 2" "from_be bs = unat len"
    by (simp_all add: bs_def from_be_to_be)
  obtain b0 b1 where e: "bs = [b0, b1]" using list2 [OF bs(1)] by blast
  have "header_to_bytes (header_new ft tier fin len) @ rest =
        [as_u8 ft, flags (header_new ft tier fin len), b0, b1] @ rest"
    using False by (simp add: header_to_bytes_def header_new_ext e flip: bs_def)
  moreover have "from_be [b0, b1] = unat len" using bs(2) e by simp
  ultimately show ?thesis
    using False header_new_flags(1) [of ft tier fin len]
    by (simp add: header_parse_def) (simp add: header_new_def Let_def)
qed

end
