(* ===== verification/Core_Codec.thy ===== *)
theory Core_Codec
  imports Core_Frames
begin

text \<open>
  \<^verbatim>\<open>nps-core/src/codec.rs\<close>: the JSON, MsgPack and BinaryVector payload codecs and
  \<open>NpsFrameCodec\<close>. The serializers of \<open>serde_json\<close> and \<open>rmp_serde\<close> are the fields of the
  record \<open>serde\<close>, an argument of every operation that calls them; what a theorem needs of them is
  that they read back the one value that was written. The interface \<open>payload_codec\<close> states what
  framing needs of a payload codec, and is interpreted for the three tiers.
\<close>

record serde =
  json_ser :: "frame_dict \<Rightarrow> string + bytes"
  json_de :: "bytes \<Rightarrow> string + jvalue"
  mp_ser :: "jvalue \<Rightarrow> string + bytes"
  mp_de :: "bytes \<Rightarrow> string + jvalue"

definition codec_err :: "string + 'a \<Rightarrow> 'a nps_result" where
  "codec_err r = (case r of Inl e \<Rightarrow> Err (CodecError e) | Inr x \<Rightarrow> Ok x)"

section \<open>Tier 1 and tier 2\<close>

definition encode_json :: "serde \<Rightarrow> frame_dict \<Rightarrow> bytes nps_result" where
  "encode_json sd d = codec_err (json_ser sd d)"

definition encode_msgpack :: "serde \<Rightarrow> frame_dict \<Rightarrow> bytes nps_result" where
  "encode_msgpack sd d = codec_err (mp_ser sd (JObject d))"

definition decode_json :: "serde \<Rightarrow> bytes \<Rightarrow> frame_dict nps_result" where
  "decode_json sd payload =
     try_res (codec_err (json_de sd payload)) (\<lambda>v.
       case v of JObject m \<Rightarrow> Ok m | _ \<Rightarrow> Err (CodecError ''expected JSON object''))"

definition decode_msgpack :: "serde \<Rightarrow> bytes \<Rightarrow> frame_dict nps_result" where
  "decode_msgpack sd payload =
     try_res (codec_err (mp_de sd payload)) (\<lambda>v.
       case v of JObject m \<Rightarrow> Ok m | _ \<Rightarrow> Err (CodecError ''expected MsgPack map''))"

section \<open>Tier 3: BinaryVector\<close>

definition BINARY_VECTOR_MAGIC :: bytes where
  "BINARY_VECTOR_MAGIC = [0x4E, 0x50, 0x42, 0x56]"

definition BINARY_VECTOR_VERSION :: u8 where "BINARY_VECTOR_VERSION = 1"

definition BINARY_VECTOR_PREFIX :: nat where "BINARY_VECTOR_PREFIX = 16"

definition BINARY_VECTOR_MARKER :: string where "BINARY_VECTOR_MARKER = ''$nps_binary_vector''"

text \<open>The loop over the values of the vector; it gives up at a value that is no finite number.\<close>

fun collect_f32 :: "jvalue list \<Rightarrow> f32 list option" where
  "collect_f32 [] = Some []"
| "collect_f32 (v # vs) =
     (case as_f64 v of
        None \<Rightarrow> None
      | Some x \<Rightarrow> if \<not> f64_is_finite x then None
                  else map_option (\<lambda>rest. f32_of_f64 x # rest) (collect_f32 vs))"

definition vector_marker :: "nat \<Rightarrow> nat \<Rightarrow> frame_dict" where
  "vector_marker index dim =
     bt_insert ''dim'' (jnat (of_nat dim))
       (bt_insert ''dtype'' (JString ''float32'')
         (bt_insert BINARY_VECTOR_MARKER (jnat (of_nat index)) []))"

definition extract_vector_search_vector ::
    "frame_dict \<Rightarrow> f32 list list \<Rightarrow> frame_dict \<times> f32 list list" where
  "extract_vector_search_vector metadata vectors =
     (case map_of metadata ''vector_search'' of
        Some (JObject vs) \<Rightarrow>
          (case map_of vs ''vector'' of
             Some (JArray values) \<Rightarrow>
               (case collect_f32 values of
                  None \<Rightarrow> (metadata, vectors)
                | Some vec \<Rightarrow>
                    (bt_insert ''vector_search''
                       (JObject (bt_insert ''vector''
                          (JObject (vector_marker (length vectors) (length vec))) vs)) metadata,
                     vectors @ [vec]))
           | _ \<Rightarrow> (metadata, vectors))
      | _ \<Rightarrow> (metadata, vectors))"

definition vector_segment :: "f32 list \<Rightarrow> bytes" where
  "vector_segment vec = to_be 4 (length vec) @ concat (map (\<lambda>x. to_le 4 (unat x)) vec)"

definition binary_vector_payload :: "bytes \<Rightarrow> f32 list list \<Rightarrow> bytes" where
  "binary_vector_payload metadata_bytes vectors =
     BINARY_VECTOR_MAGIC @ [BINARY_VECTOR_VERSION, 0] @ to_be 2 (length vectors)
     @ to_be 4 (length metadata_bytes) @ to_be 4 0
     @ metadata_bytes @ concat (map vector_segment vectors)"

definition encode_binary_vector :: "serde \<Rightarrow> frame_dict \<Rightarrow> bytes nps_result" where
  "encode_binary_vector sd d =
     (let (metadata, vectors) = extract_vector_search_vector d []
      in if length vectors > 65535
         then Err (CodecError ''binary vector supports at most 65535 vectors per frame'')
         else try_res (codec_err (mp_ser sd (JObject metadata))) (\<lambda>metadata_bytes.
                Ok (binary_vector_payload metadata_bytes vectors)))"

definition slice :: "'a list \<Rightarrow> nat \<Rightarrow> nat \<Rightarrow> 'a list" where
  "slice xs from n = take n (drop from xs)"

fun read_vector :: "bytes \<Rightarrow> nat \<Rightarrow> nat \<Rightarrow> f32 list" where
  "read_vector payload 0 offset = []"
| "read_vector payload (Suc d) offset =
     of_nat (from_le (slice payload offset 4)) # read_vector payload d (offset + 4)"

fun read_vectors :: "bytes \<Rightarrow> nat \<Rightarrow> nat \<Rightarrow> f32 list list \<Rightarrow> (nat \<times> f32 list list) nps_result" where
  "read_vectors payload 0 offset vectors = Ok (offset, vectors)"
| "read_vectors payload (Suc n) offset vectors =
     (if length payload - offset < 4
      then Err (CodecError ''binary vector segment missing dimension'')
      else let dim = from_be (slice payload offset 4);
               byte_len = dim * 4
           in if length payload - (offset + 4) < byte_len
              then Err (CodecError ''binary vector segment is truncated'')
              else read_vectors payload n (offset + 4 + byte_len)
                     (vectors @ [read_vector payload dim (offset + 4)]))"

fun numbers_of_f32 :: "f32 list \<Rightarrow> jvalue list nps_result" where
  "numbers_of_f32 [] = Ok []"
| "numbers_of_f32 (x # xs) =
     (case number_from_f64 (f64_of_f32 x) of
        None \<Rightarrow> Err (CodecError ''binary vector values must be finite float32'')
      | Some v \<Rightarrow> try_res (numbers_of_f32 xs) (\<lambda>vs. Ok (v # vs)))"

definition restore_vector_search_vector ::
    "frame_dict \<Rightarrow> f32 list list \<Rightarrow> frame_dict nps_result" where
  "restore_vector_search_vector metadata vectors =
     (case map_of metadata ''vector_search'' of
        Some (JObject vs) \<Rightarrow>
          (case map_of vs ''vector'' of
             None \<Rightarrow> Ok metadata
           | Some marker_value \<Rightarrow>
               (case marker_value of
                  JObject marker \<Rightarrow>
                    try_res (ok_or (CodecError ''binary vector marker missing vector index'')
                               (opt_u64 marker BINARY_VECTOR_MARKER)) (\<lambda>idx.
                      if unat idx \<ge> length vectors
                      then Err (CodecError (''binary vector marker references vector ''
                                @ show_u64 idx @ '', but only '' @ show_nat (length vectors)
                                @ '' vectors are present''))
                      else if opt_str marker ''dtype'' \<noteq> Some ''float32''
                      then Err (CodecError ''binary vector v1 only supports dtype=float32'')
                      else try_res (ok_or (CodecError
                             ''binary vector marker dimension does not match vector segment'')
                             (opt_u64 marker ''dim'')) (\<lambda>dim.
                        if unat dim \<noteq> length (vectors ! unat idx)
                        then Err (CodecError
                               ''binary vector marker dimension does not match vector segment'')
                        else try_res (numbers_of_f32 (vectors ! unat idx)) (\<lambda>vector.
                          Ok (bt_insert ''vector_search''
                                (JObject (bt_insert ''vector'' (JArray vector) vs)) metadata))))
                | _ \<Rightarrow> Err (CodecError ''binary vector marker must be an object'')))
      | _ \<Rightarrow> Ok metadata)"

definition decode_binary_vector :: "serde \<Rightarrow> bytes \<Rightarrow> frame_dict nps_result" where
  "decode_binary_vector sd payload =
     (if length payload < BINARY_VECTOR_PREFIX
      then Err (CodecError (''binary vector payload too short: '' @ show_nat (length payload)
                 @ '' bytes''))
      else if slice payload 0 4 \<noteq> BINARY_VECTOR_MAGIC
      then Err (CodecError ''binary vector payload magic mismatch'')
      else if payload ! 4 \<noteq> BINARY_VECTOR_VERSION
      then Err (CodecError (''unsupported binary vector version: '' @ show_nat (unat (payload ! 4))))
      else if payload ! 5 \<noteq> 0 \<or> from_be (slice payload 12 4) \<noteq> 0
      then Err (CodecError ''binary vector reserved fields must be zero'')
      else
        let vector_count = from_be (slice payload 6 2);
            metadata_len = from_be (slice payload 8 4)
        in if metadata_len > length payload - BINARY_VECTOR_PREFIX
           then Err (CodecError ''binary vector metadata length exceeds payload length'')
           else try_res (codec_err (mp_de sd (slice payload BINARY_VECTOR_PREFIX metadata_len)))
             (\<lambda>mv. case mv of
                 JObject metadata \<Rightarrow>
                   try_res (read_vectors payload vector_count
                              (BINARY_VECTOR_PREFIX + metadata_len) []) (\<lambda>(offset, vectors).
                     if offset \<noteq> length payload
                     then Err (CodecError ''binary vector payload has trailing bytes'')
                     else restore_vector_search_vector metadata vectors)
               | _ \<Rightarrow> Err (CodecError ''binary vector metadata root must be a map'')))"

section \<open>NpsFrameCodec\<close>

definition DEFAULT_MAX_PAYLOAD :: u64 where "DEFAULT_MAX_PAYLOAD = 10 * 1024 * 1024"

record frame_codec =
  registry :: frame_registry
  max_payload :: u64

definition codec_new :: "frame_registry \<Rightarrow> frame_codec" where
  "codec_new r = \<lparr>registry = r, max_payload = DEFAULT_MAX_PAYLOAD\<rparr>"

definition with_max_payload :: "frame_codec \<Rightarrow> u64 \<Rightarrow> frame_codec" where
  "with_max_payload c m = c\<lparr>max_payload := m\<rparr>"

definition encode_tier :: "serde \<Rightarrow> encoding_tier \<Rightarrow> frame_dict \<Rightarrow> bytes nps_result" where
  "encode_tier sd tier d = (case tier of
       TierJson \<Rightarrow> encode_json sd d
     | TierMsgPack \<Rightarrow> encode_msgpack sd d
     | TierBinaryVector \<Rightarrow> encode_binary_vector sd d
     | TierReserved \<Rightarrow> Err (CodecError ''reserved encoding tier 0x03''))"

definition decode_tier :: "serde \<Rightarrow> encoding_tier \<Rightarrow> bytes \<Rightarrow> frame_dict nps_result" where
  "decode_tier sd tier payload = (case tier of
       TierJson \<Rightarrow> decode_json sd payload
     | TierMsgPack \<Rightarrow> decode_msgpack sd payload
     | TierBinaryVector \<Rightarrow> decode_binary_vector sd payload
     | TierReserved \<Rightarrow> Err (CodecError ''reserved encoding tier 0x03''))"

definition frame_wire :: "frame_type \<Rightarrow> encoding_tier \<Rightarrow> bool \<Rightarrow> bytes \<Rightarrow> bytes" where
  "frame_wire ft tier fin payload =
     header_to_bytes (header_new ft tier fin (of_nat (length payload))) @ payload"

definition codec_encode ::
    "serde \<Rightarrow> frame_codec \<Rightarrow> frame_type \<Rightarrow> frame_dict \<Rightarrow> encoding_tier \<Rightarrow> bool \<Rightarrow> bytes nps_result"
  where
  "codec_encode sd c ft d tier fin =
     try_res (encode_tier sd tier d) (\<lambda>payload.
       if length payload > unat (max_payload c)
       then Err (CodecError (''payload '' @ show_nat (length payload) @ '' exceeds max ''
                  @ show_u64 (max_payload c)))
       else Ok (frame_wire ft tier fin payload))"

definition codec_decode :: "serde \<Rightarrow> frame_codec \<Rightarrow> bytes \<Rightarrow> (frame_type \<times> frame_dict) nps_result" where
  "codec_decode sd c wire =
     try_res (header_parse wire) (\<lambda>h.
       let hdr_len = header_size h;
           plen = unat (payload_length h)
       in if length wire < hdr_len + plen
          then Err (CodecError ''wire too short for declared payload'')
          else try_res (decode_tier sd (header_tier h) (slice wire hdr_len plen)) (\<lambda>d.
            if \<not> is_registered (registry c) (frame_type h)
            then Err (FrameError (''unregistered frame type 0x'' @ hex2 (as_u8 (frame_type h))))
            else Ok (frame_type h, d)))"

definition peek_header :: "bytes \<Rightarrow> frame_header nps_result" where
  "peek_header wire = header_parse wire"

section \<open>Slices and vector segments\<close>

lemma slice_append: "length pre = n \<Longrightarrow> length mid = k \<Longrightarrow> slice (pre @ mid @ post) n k = mid"
  by (simp add: slice_def)

lemma slice_append0: "length mid = k \<Longrightarrow> slice (mid @ post) 0 k = mid"
  by (simp add: slice_def)

lemma read_vector_encoded:
  "n = length pre \<Longrightarrow>
   read_vector (pre @ concat (map (\<lambda>x. to_le 4 (unat x)) vec) @ post) (length vec) n = vec"
proof (induction vec arbitrary: pre n)
  case Nil
  then show ?case by simp
next
  case (Cons x xs)
  let ?tail = "concat (map (\<lambda>x. to_le 4 (unat x)) xs) @ post"
  have "from_le (slice (pre @ to_le 4 (unat x) @ ?tail) n 4) = unat x"
    using Cons.prems unsigned_less [of x, where 'a = nat]
    by (simp add: slice_append from_le_to_le)
  moreover have "read_vector ((pre @ to_le 4 (unat x)) @ ?tail) (length xs) (n + 4) = xs"
    using Cons.prems by (intro Cons.IH) simp
  ultimately show ?case by simp
qed

lemma length_floats [simp]: "length (concat (map (\<lambda>x. to_le 4 (unat x)) vec)) = length vec * 4"
  by (induction vec) simp_all

lemma length_vector_segment [simp]: "length (vector_segment vec) = 4 + length vec * 4"
  by (simp add: vector_segment_def)

lemma read_vectors_encoded:
  assumes "list_all (\<lambda>vec. length vec < 2 ^ 32) vs" "n = length pre"
  shows "read_vectors (pre @ concat (map vector_segment vs)) (length vs) n acc =
         Ok (length (pre @ concat (map vector_segment vs)), acc @ vs)"
  using assms
proof (induction vs arbitrary: pre n acc)
  case Nil
  then show ?case by simp
next
  case (Cons v vs)
  let ?fl = "concat (map (\<lambda>x. to_le 4 (unat x)) v)"
  let ?tail = "concat (map vector_segment vs)"
  let ?wire = "pre @ to_be 4 (length v) @ ?fl @ ?tail"
  have dim: "from_be (slice ?wire n 4) = length v"
    using Cons.prems by (simp add: slice_append from_be_to_be)
  have vec: "read_vector ?wire (length v) (n + 4) = v"
    using read_vector_encoded [of "n + 4" "pre @ to_be 4 (length v)" v ?tail] Cons.prems by simp
  have rest: "read_vectors ?wire (length vs) (n + 4 + length v * 4) (acc @ [v]) =
      Ok (length ?wire, (acc @ [v]) @ vs)"
    using Cons.IH [of "n + 4 + length v * 4" "pre @ vector_segment v" "acc @ [v]"] Cons.prems
    by (simp add: vector_segment_def [of v])
  have w: "pre @ concat (map vector_segment (v # vs)) = ?wire" by (simp add: vector_segment_def [of v])
  have "length ?wire - n = 4 + length v * 4 + length ?tail"
    "length ?wire - (n + 4) = length v * 4 + length ?tail"
    using Cons.prems(2) by simp_all
  then show ?case unfolding w using rest by (simp add: dim vec Let_def)
qed

lemma read_vectors_payload:
  assumes "length mb < 2 ^ 32" "length vs < 2 ^ 16" "list_all (\<lambda>v. length v < 2 ^ 32) vs"
    and "mp_de sd mb = Inr (JObject md)"
  shows "decode_binary_vector sd (binary_vector_payload mb vs) = restore_vector_search_vector md vs"
proof -
  define pre where "pre = BINARY_VECTOR_MAGIC @ [BINARY_VECTOR_VERSION, 0] @ to_be 2 (length vs)
     @ to_be 4 (length mb) @ to_be 4 0"
  define segs where "segs = concat (map vector_segment vs)"
  have bp: "binary_vector_payload mb vs = pre @ mb @ segs"
    by (simp add: binary_vector_payload_def pre_def segs_def)
  have lp: "length pre = 16" by (simp add: pre_def BINARY_VECTOR_MAGIC_def)
  have magic: "slice (pre @ mb @ segs) 0 4 = BINARY_VECTOR_MAGIC"
    by (simp add: pre_def slice_def BINARY_VECTOR_MAGIC_def)
  have b45: "(pre @ mb @ segs) ! 4 = BINARY_VECTOR_VERSION" "(pre @ mb @ segs) ! 5 = 0"
    by (simp_all add: pre_def BINARY_VECTOR_MAGIC_def)
  have reserved: "from_be (slice (pre @ mb @ segs) 12 4) = 0"
    using slice_append [of "BINARY_VECTOR_MAGIC @ [BINARY_VECTOR_VERSION, 0] @ to_be 2 (length vs)
       @ to_be 4 (length mb)" 12 "to_be 4 0" 4 "mb @ segs"]
    by (simp add: pre_def BINARY_VECTOR_MAGIC_def from_be_to_be)
  have count: "from_be (slice (pre @ mb @ segs) 6 2) = length vs"
    using assms(2) slice_append [of "BINARY_VECTOR_MAGIC @ [BINARY_VECTOR_VERSION, 0]" 6
       "to_be 2 (length vs)" 2 "to_be 4 (length mb) @ to_be 4 0 @ mb @ segs"]
    by (simp add: pre_def BINARY_VECTOR_MAGIC_def from_be_to_be)
  have mlen: "from_be (slice (pre @ mb @ segs) 8 4) = length mb"
    using assms(1) slice_append [of "BINARY_VECTOR_MAGIC @ [BINARY_VECTOR_VERSION, 0]
       @ to_be 2 (length vs)" 8 "to_be 4 (length mb)" 4 "to_be 4 0 @ mb @ segs"]
    by (simp add: pre_def BINARY_VECTOR_MAGIC_def from_be_to_be)
  have meta: "slice (pre @ mb @ segs) 16 (length mb) = mb"
    using lp by (simp add: slice_append)
  have vecs: "read_vectors (pre @ mb @ segs) (length vs) (16 + length mb) [] =
      Ok (length (pre @ mb @ segs), vs)"
    using read_vectors_encoded [of vs "16 + length mb" "pre @ mb" "[]"] assms(3) lp
    by (simp add: segs_def)
  show ?thesis
    unfolding bp decode_binary_vector_def BINARY_VECTOR_PREFIX_def
    using lp vecs by (simp add: magic b45 reserved count mlen meta assms(4) codec_err_def Let_def)
qed

section \<open>Extraction and restoration of the search vector\<close>

lemma bt_insert_twice [simp]: "bt_insert k v (bt_insert k w m) = bt_insert k v m"
  by (induction m) auto

lemma bt_insert_same: "bt_wf m \<Longrightarrow> map_of m k = Some v \<Longrightarrow> bt_insert k v m = m"
  by (rule bt_ext) auto

definition search_vector :: "frame_dict \<Rightarrow> jvalue option" where
  "search_vector d = Option.bind (opt_object d ''vector_search'') (\<lambda>vs. map_of vs ''vector'')"

definition set_search_vector :: "jvalue \<Rightarrow> frame_dict \<Rightarrow> frame_dict" where
  "set_search_vector v d = (case map_of d ''vector_search'' of
       Some (JObject vs) \<Rightarrow> bt_insert ''vector_search'' (JObject (bt_insert ''vector'' v vs)) d
     | _ \<Rightarrow> d)"

definition json_floats :: "f32 list \<Rightarrow> jvalue" where
  "json_floats xs = JArray (map (\<lambda>x. JNumber (Float (f64_of_f32 x))) xs)"

lemma search_vector_Some:
  "search_vector d = Some v \<longleftrightarrow>
   (\<exists>vs. map_of d ''vector_search'' = Some (JObject vs) \<and> map_of vs ''vector'' = Some v)"
proof (cases "map_of d ''vector_search''")
  case (Some w)
  then show ?thesis by (cases w) (auto simp: search_vector_def opt_object_def)
qed (simp add: search_vector_def opt_object_def)

lemma collect_f32_finite_length: "collect_f32 vs = Some xs \<Longrightarrow> length xs = length vs"
  by (induction vs arbitrary: xs) (auto split: option.splits if_splits)

lemma collect_f32_json_floats:
  "list_all f32_is_finite xs \<Longrightarrow>
   collect_f32 (map (\<lambda>x. JNumber (Float (f64_of_f32 x))) xs) = Some xs"
  by (induction xs) (simp_all add: f64_of_f32_value f32_of_f64_of_f32)

lemma numbers_of_f32_finite:
  "list_all f32_is_finite xs \<Longrightarrow> numbers_of_f32 xs = Ok (map (\<lambda>x. JNumber (Float (f64_of_f32 x))) xs)"
  by (induction xs) (simp_all add: number_from_f64_def f64_of_f32_value)

lemma f64_of_f32_infinite: "\<not> f32_is_finite x \<Longrightarrow> \<not> f64_is_finite (f64_of_f32 x)"
proof -
  assume nf: "\<not> f32_is_finite x"
  have fr: "f32_frac x < 2 ^ 23" by (simp add: f32_frac_def)
  define n where "n = f64_inf + f32_frac x * 2 ^ 29"
  have n: "n < 2 ^ 63" "n div 2 ^ 52 = 2047" using fr by (simp_all add: n_def)
  have "f64_of_f32 x = of_nat ((if f32_neg x then 2 ^ 63 else 0) + n)"
    using nf by (simp add: f64_of_f32_def f32_is_finite_def n_def)
  then have "f64_exp (f64_of_f32 x) = 2047"
    using f64_fields_of_bits(1) [OF n(1)] n(2) by simp
  then show ?thesis by (simp add: f64_is_finite_def)
qed

lemma numbers_of_f32_infinite:
  "\<not> list_all f32_is_finite xs \<Longrightarrow>
   numbers_of_f32 xs = Err (CodecError ''binary vector values must be finite float32'')"
  by (induction xs)
     (auto simp: number_from_f64_def f64_of_f32_value f64_of_f32_infinite)

lemma extract_marked:
  assumes "search_vector d = Some (JArray values)" "collect_f32 values = Some xs"
  shows "extract_vector_search_vector d [] =
         (set_search_vector (JObject (vector_marker 0 (length xs))) d, [xs])"
  using assms by (auto simp: extract_vector_search_vector_def search_vector_Some
                    set_search_vector_def)

lemma vector_marker_fields:
  "opt_u64 (vector_marker i n) BINARY_VECTOR_MARKER = Some (of_nat i)"
  "opt_str (vector_marker i n) ''dtype'' = Some ''float32''"
  "opt_u64 (vector_marker i n) ''dim'' = Some (of_nat n)"
  by (simp_all add: vector_marker_def opt_u64_def opt_str_def BINARY_VECTOR_MARKER_def)

lemma restore_marked:
  assumes "search_vector d = Some v" "length xs < 2 ^ 32"
  shows "restore_vector_search_vector (set_search_vector (JObject (vector_marker 0 (length xs))) d) [xs] =
         try_res (numbers_of_f32 xs) (\<lambda>nums. Ok (set_search_vector (JArray nums) d))"
proof -
  from assms(1) obtain vs where vs: "map_of d ''vector_search'' = Some (JObject vs)"
    by (auto simp: search_vector_Some)
  have n: "unat (of_nat (length xs) :: u64) = length xs"
    using assms(2) by (intro unat_of_nat_64) simp
  show ?thesis
    by (simp add: restore_vector_search_vector_def set_search_vector_def vs vector_marker_fields n)
qed

text \<open>Encoding, then decoding, on a dictionary that carries a search vector.\<close>

lemma binary_vector_transport:
  assumes "search_vector d = Some (JArray values)" "collect_f32 values = Some xs"
    and "length xs < 2 ^ 32"
    and "mp_ser sd (JObject (set_search_vector (JObject (vector_marker 0 (length xs))) d)) = Inr mb"
    and "mp_de sd mb = Inr (JObject (set_search_vector (JObject (vector_marker 0 (length xs))) d))"
    and "length mb < 2 ^ 32"
  shows "encode_binary_vector sd d = Ok (binary_vector_payload mb [xs])"
    and "decode_binary_vector sd (binary_vector_payload mb [xs]) =
         try_res (numbers_of_f32 xs) (\<lambda>nums. Ok (set_search_vector (JArray nums) d))"
proof -
  show "encode_binary_vector sd d = Ok (binary_vector_payload mb [xs])"
    by (simp add: encode_binary_vector_def extract_marked [OF assms(1,2)] assms(4) codec_err_def)
  show "decode_binary_vector sd (binary_vector_payload mb [xs]) =
         try_res (numbers_of_f32 xs) (\<lambda>nums. Ok (set_search_vector (JArray nums) d))"
    using read_vectors_payload [OF assms(6) _ _ assms(5), of "[xs]"] assms(3)
    by (simp add: restore_marked [OF assms(1,3)])
qed

end
