(* ===== verification/Ttl_Store.thy ===== *)
theory Ttl_Store
  imports Nps_Prelude
begin

text \<open>
  Monotonic time and the contract of a store whose entries expire. An \<open>Instant\<close> is a number of
  nanoseconds; adding a duration panics when the result leaves the range of the clock type (64-bit
  signed seconds), which is the value \<open>None\<close>.
\<close>

type_synonym instant = nat

definition NANOS :: nat where "NANOS = 1000000000"

definition instant_add_secs :: "instant \<Rightarrow> u64 \<Rightarrow> instant option" where
  "instant_add_secs t secs =
     (if t + unat secs * NANOS < 2 ^ 63 * NANOS then Some (t + unat secs * NANOS) else None)"

text \<open>
  The interface of an expiring map: \<open>look\<close> gives the live value of a key at a time, \<open>put\<close> stores a
  value with its expiry time, \<open>del\<close> removes a key.
\<close>

locale ttl_map =
  fixes look :: "'s \<Rightarrow> instant \<Rightarrow> 'k \<Rightarrow> 'v option"
    and put :: "'k \<Rightarrow> 'v \<Rightarrow> instant \<Rightarrow> 's \<Rightarrow> 's"
    and del :: "'k \<Rightarrow> 's \<Rightarrow> 's"
  assumes look_put: "look (put k v e s) t x = (if x = k then (if t < e then Some v else None) else look s t x)"
    and look_del: "look (del k s) t x = (if x = k then None else look s t x)"
    and look_mono: "t' \<le> t \<Longrightarrow> look s t x = Some v \<Longrightarrow> look s t' x = Some v"
begin

lemma live_until: "t < e \<Longrightarrow> look (put k v e s) t k = Some v"
  by (simp add: look_put)

lemma gone_after: "e \<le> t \<Longrightarrow> look (put k v e s) t k = None"
  by (simp add: look_put)

lemma put_frame: "x \<noteq> k \<Longrightarrow> look (put k v e s) t x = look s t x"
  by (simp add: look_put)

lemma del_put: "look (del k (put k v e s)) t x = look (del k s) t x"
  by (simp add: look_put look_del)

lemma put_overwrites: "look (put k v e (put k v' e' s)) t x = look (put k v e s) t x"
  by (simp add: look_put)

text \<open>An expired key stays expired as time goes on.\<close>

lemma stays_gone: "t \<le> t' \<Longrightarrow> look s t x = None \<Longrightarrow> look s t' x = None"
  by (metis look_mono not_None_eq)

end

text \<open>An expiring map that can drop what has expired: \<open>purge\<close>.\<close>

locale ttl_store = ttl_map look put del
  for look :: "'s \<Rightarrow> instant \<Rightarrow> 'k \<Rightarrow> 'v option" and put and del +
  fixes purge :: "instant \<Rightarrow> 's \<Rightarrow> 's"
  assumes look_purge: "t' \<le> t \<Longrightarrow> look (purge t' s) t x = look s t x"
begin

lemma purge_gone: "t' \<le> t \<Longrightarrow> look s t' x = None \<Longrightarrow> look (purge t' s) t x = None"
  using stays_gone look_purge by simp

end

end
