(* ===== verification/Alist_Facts.thy ===== *)
theory Alist_Facts
  imports Nps_Prelude
begin

text \<open>
  Association lists as hash maps: lookups after a filter and after a change in place, and the number of the
  values with a property after each operation.
\<close>

lemma map_of_filter_value:
  "distinct (map fst st) \<Longrightarrow> map_of (filter (\<lambda>(k, e). P e) st) x =
     (case map_of st x of Some e \<Rightarrow> if P e then Some e else None | None \<Rightarrow> None)"
proof (induction st)
  case Nil
  then show ?case by simp
next
  case (Cons p st)
  obtain k e where p: "p = (k, e)" by (cases p)
  with Cons.prems have "map_of st k = None" by (auto simp: map_of_eq_None_iff)
  with Cons p show ?case by (auto split: option.splits)
qed

lemma distinct_filter_value: "distinct (map fst st) \<Longrightarrow> distinct (map fst (filter P st))"
  by (induction st) auto

text \<open>A change of one entry, as by \<open>get_mut\<close>; nothing happens when the key is absent.\<close>

definition alter :: "'k \<Rightarrow> ('v \<Rightarrow> 'v) \<Rightarrow> ('k \<times> 'v) list \<Rightarrow> ('k \<times> 'v) list" where
  "alter k f xs = map (\<lambda>(x, v). (x, if x = k then f v else v)) xs"

lemma keys_alter [simp]: "map fst (alter k f xs) = map fst xs"
  by (auto simp: alter_def)

lemma map_of_alter: "map_of (alter k f xs) x = (if x = k then map_option f (map_of xs k) else map_of xs x)"
  by (induction xs) (auto simp: alter_def)

text \<open>The number of entries whose value has a property.\<close>

definition count_values :: "('v \<Rightarrow> bool) \<Rightarrow> ('k \<times> 'v) list \<Rightarrow> nat" where
  "count_values P xs = length (filter (\<lambda>(k, v). P v) xs)"

lemma count_values_simps [simp]:
  "count_values P [] = 0"
  "count_values P ((k, v) # xs) = (if P v then 1 else 0) + count_values P xs"
  by (simp_all add: count_values_def)

lemma alter_absent: "k \<notin> fst ` set xs \<Longrightarrow> alter k f xs = xs"
  by (induction xs) (auto simp: alter_def)

lemma alter_Cons: "alter k f ((x, v) # xs) = (x, if x = k then f v else v) # alter k f xs"
  by (simp add: alter_def)

lemma count_alter:
  "distinct (map fst xs) \<Longrightarrow> map_of xs k = Some v \<Longrightarrow>
     count_values P (alter k f xs) + (if P v then 1 else 0) = count_values P xs + (if P (f v) then 1 else 0)"
proof (induction xs)
  case (Cons p xs)
  obtain x w where p: "p = (x, w)" by (cases p)
  show ?case
  proof (cases "x = k")
    case True
    with Cons p have "alter k f xs = xs" by (intro alter_absent) auto
    with True Cons.prems p show ?thesis by (simp add: alter_Cons)
  next
    case False
    with Cons p show ?thesis by (simp add: alter_Cons)
  qed
qed simp

lemma count_alter_same:
  "(\<And>v. P (f v) = P v) \<Longrightarrow> count_values P (alter k f xs) = count_values P xs"
  by (induction xs) (auto simp: alter_Cons alter_def)

lemma count_update_fresh:
  "map_of xs k = None \<Longrightarrow> count_values P (AList.update k v xs) = count_values P xs + (if P v then 1 else 0)"
  by (induction xs) (auto split: if_splits)

lemma count_delete:
  "distinct (map fst xs) \<Longrightarrow> map_of xs k = Some v \<Longrightarrow>
     count_values P (AList.delete k xs) + (if P v then 1 else 0) = count_values P xs"
proof (induction xs)
  case (Cons p xs)
  obtain x w where p: "p = (x, w)" by (cases p)
  show ?case
  proof (cases "x = k")
    case True
    with Cons p have "AList.delete k xs = xs" by (intro delete_id) auto
    with True Cons.prems p show ?thesis by simp
  next
    case False
    with Cons p show ?thesis by simp
  qed
qed simp

lemma count_filter_le: "count_values P (filter Q xs) \<le> count_values P xs"
  by (induction xs) auto

lemma count_map_le: "(\<And>v. P (f v) \<Longrightarrow> P v) \<Longrightarrow> count_values P (map (\<lambda>(k, v). (k, f v)) xs) \<le> count_values P xs"
  by (induction xs) auto

lemma map_of_map_value: "map_of (map (\<lambda>(k, v). (k, f v)) xs) x = map_option f (map_of xs x)"
  by (induction xs) auto

lemma keys_map_value [simp]: "map fst (map (\<lambda>(k, v). (k, f v)) xs) = map fst xs"
  by auto

lemma distinct_filter_map: "distinct (map fst xs) \<Longrightarrow> distinct (map fst (filter P (map (\<lambda>(k, v). (k, f v)) xs)))"
  by (rule distinct_filter_value) (simp only: keys_map_value)

lemma map_of_filter_map:
  assumes "distinct (map fst xs)"
  shows "map_of (filter (\<lambda>(k, e). P e) (map (\<lambda>(k, v). (k, f v)) xs)) x =
     (case map_of xs x of None \<Rightarrow> None | Some v \<Rightarrow> if P (f v) then Some (f v) else None)"
proof -
  have "distinct (map fst (map (\<lambda>(k, v). (k, f v)) xs))" using assms by (simp only: keys_map_value)
  from map_of_filter_value [OF this, of P x] show ?thesis
    by (simp only: map_of_map_value) (simp split: option.splits)
qed

end
