(* ===== verification/Core_Cache.thy ===== *)
theory Core_Cache
  imports Core_Codec Ttl_Store Alist_Facts
begin

text \<open>
  \<^verbatim>\<open>nps-core/src/cache.rs\<close>: \<open>AnchorFrameCache\<close>, the cache of schemas by their content address.
  The clock reading is the argument \<open>now\<close> of each operation, SHA-256 is the argument \<open>sha\<close>. The
  cache interprets the expiring-store contract.
\<close>

record cache_entry =
  schema :: frame_dict
  expires :: instant

type_synonym anchor_cache = "(string \<times> cache_entry) list"

definition cache_new :: anchor_cache where "cache_new = []"

definition hex_lower :: "nat \<Rightarrow> char" where
  "hex_lower n = (if n < 10 then char_of (48 + n) else char_of (87 + n))"

definition hex_encode :: "bytes \<Rightarrow> string" where
  "hex_encode bs = concat (map (\<lambda>b. [hex_lower (unat b div 16), hex_lower (unat b mod 16)]) bs)"

definition compute_anchor_id :: "serde \<Rightarrow> (bytes \<Rightarrow> bytes) \<Rightarrow> frame_dict \<Rightarrow> string" where
  "compute_anchor_id sd sha sch =
     (let canonical = (case json_ser sd (bt_collect sch) of Inl e \<Rightarrow> [] | Inr b \<Rightarrow> b)
      in ''sha256:'' @ hex_encode (sha canonical))"

definition cache_store :: "string \<Rightarrow> frame_dict \<Rightarrow> instant \<Rightarrow> anchor_cache \<Rightarrow> anchor_cache" where
  "cache_store k sch e st = AList.update k \<lparr>schema = sch, expires = e\<rparr> st"

text \<open>\<open>set\<close>: \<open>None\<close> when computing the expiry time panics; otherwise the result and the new cache.\<close>

definition cache_set :: "serde \<Rightarrow> (bytes \<Rightarrow> bytes) \<Rightarrow> instant \<Rightarrow> frame_dict \<Rightarrow> u64 \<Rightarrow> anchor_cache
    \<Rightarrow> (string nps_result \<times> anchor_cache) option" where
  "cache_set sd sha now sch ttl_secs st =
     (let anchor_id = compute_anchor_id sd sha sch
      in case instant_add_secs now ttl_secs of
           None \<Rightarrow> None
         | Some e \<Rightarrow> Some
             (case map_of st anchor_id of
                Some existing \<Rightarrow>
                  if \<not> dict_eq (schema existing) sch \<and> expires existing > now
                  then (Err (AnchorPoison (''anchor '' @ anchor_id
                          @ '' already cached with different schema'')), st)
                  else (Ok anchor_id, cache_store anchor_id sch e st)
              | None \<Rightarrow> (Ok anchor_id, cache_store anchor_id sch e st)))"

definition cache_get :: "anchor_cache \<Rightarrow> instant \<Rightarrow> string \<Rightarrow> frame_dict option" where
  "cache_get st now k = (case map_of st k of
       Some e \<Rightarrow> if expires e > now then Some (schema e) else None
     | None \<Rightarrow> None)"

definition cache_get_required :: "anchor_cache \<Rightarrow> instant \<Rightarrow> string \<Rightarrow> frame_dict nps_result" where
  "cache_get_required st now k = ok_or (AnchorNotFound k) (cache_get st now k)"

definition cache_invalidate :: "string \<Rightarrow> anchor_cache \<Rightarrow> anchor_cache" where
  "cache_invalidate k st = AList.delete k st"

definition cache_evict_expired :: "instant \<Rightarrow> anchor_cache \<Rightarrow> anchor_cache" where
  "cache_evict_expired now st = filter (\<lambda>(k, e). expires e > now) st"

definition cache_len :: "instant \<Rightarrow> anchor_cache \<Rightarrow> nat" where
  "cache_len now st = length (filter (\<lambda>(k, e). expires e > now) st)"

definition cache_is_empty :: "instant \<Rightarrow> anchor_cache \<Rightarrow> bool" where
  "cache_is_empty now st \<longleftrightarrow> cache_len now st = 0"

section \<open>The cache is an expiring store\<close>

definition cache_inv :: "anchor_cache \<Rightarrow> bool" where
  "cache_inv st \<longleftrightarrow> distinct (map fst st)"

text \<open>Eviction keeps the lookups of later times only where keys are distinct, so the store's
  states are the caches that satisfy the invariant.\<close>

typedef live_cache = "{st :: anchor_cache. cache_inv st}"
  morphisms raw_cache Abs_cache
  by (rule exI [of _ "[]"]) (simp add: cache_inv_def)

setup_lifting type_definition_live_cache

lift_definition lc_look :: "live_cache \<Rightarrow> instant \<Rightarrow> string \<Rightarrow> frame_dict option" is cache_get .

lift_definition lc_put :: "string \<Rightarrow> frame_dict \<Rightarrow> instant \<Rightarrow> live_cache \<Rightarrow> live_cache" is cache_store
  by (simp add: cache_inv_def cache_store_def distinct_update)

lift_definition lc_del :: "string \<Rightarrow> live_cache \<Rightarrow> live_cache" is cache_invalidate
  by (simp add: cache_inv_def cache_invalidate_def distinct_delete)

lift_definition lc_purge :: "instant \<Rightarrow> live_cache \<Rightarrow> live_cache" is cache_evict_expired
  by (auto simp: cache_inv_def cache_evict_expired_def intro: distinct_map_filter)

interpretation anchor_cache: ttl_store lc_look lc_put lc_del lc_purge
proof unfold_locales
  fix k x :: string and v :: frame_dict and e t t' :: instant and s :: live_cache
  show "lc_look (lc_put k v e s) t x = (if x = k then if t < e then Some v else None else lc_look s t x)"
    by transfer (simp add: cache_get_def cache_store_def update_conv')
  show "lc_look (lc_del k s) t x = (if x = k then None else lc_look s t x)"
    by transfer (simp add: cache_get_def cache_invalidate_def delete_conv')
  show "t' \<le> t \<Longrightarrow> lc_look (lc_purge t' s) t x = lc_look s t x"
    by transfer (auto simp: cache_get_def cache_evict_expired_def cache_inv_def map_of_filter_value
                   split: option.splits)
  show "t' \<le> t \<Longrightarrow> lc_look s t x = Some v \<Longrightarrow> lc_look s t' x = Some v"
    by transfer (auto simp: cache_get_def split: option.splits if_splits)
qed

lemmas cache_live_until = anchor_cache.live_until [untransferred]
lemmas cache_gone_after = anchor_cache.gone_after [untransferred]
lemmas cache_put_frame = anchor_cache.put_frame [untransferred]

section \<open>Reachable caches\<close>

text \<open>The caches a program reaches from \<open>new\<close> by the operations of the type, with the clock
  readings it happens to get. A panic in \<open>set\<close> leaves the cache as it was.\<close>

inductive cache_reach :: "serde \<Rightarrow> (bytes \<Rightarrow> bytes) \<Rightarrow> anchor_cache \<Rightarrow> bool" for sd sha where
  reach_new: "cache_reach sd sha cache_new"
| reach_set: "cache_reach sd sha st \<Longrightarrow> cache_set sd sha now sch ttl st = Some (r, st')
     \<Longrightarrow> cache_reach sd sha st'"
| reach_invalidate: "cache_reach sd sha st \<Longrightarrow> cache_reach sd sha (cache_invalidate k st)"
| reach_evict: "cache_reach sd sha st \<Longrightarrow> cache_reach sd sha (cache_evict_expired now st)"

definition content_addressed :: "serde \<Rightarrow> (bytes \<Rightarrow> bytes) \<Rightarrow> anchor_cache \<Rightarrow> bool" where
  "content_addressed sd sha st \<longleftrightarrow>
     (\<forall>(k, e) \<in> set st. k = compute_anchor_id sd sha (schema e))"

lemma set_AList_update: "set (AList.update k v xs) \<subseteq> insert (k, v) (set xs)"
  by (induction xs) auto

lemma cache_set_cases:
  assumes "cache_set sd sha now sch ttl st = Some (r, st')"
  obtains (stored) "r = Ok (compute_anchor_id sd sha sch)"
      "st' = cache_store (compute_anchor_id sd sha sch) sch (now + unat ttl * NANOS) st"
  | (poisoned) old where "r = Err (AnchorPoison (''anchor '' @ compute_anchor_id sd sha sch
        @ '' already cached with different schema''))" "st' = st"
      "cache_get st now (compute_anchor_id sd sha sch) = Some old" "\<not> dict_eq old sch"
  using assms
  by (auto simp: cache_set_def cache_get_def Let_def instant_add_secs_def
        split: option.splits if_splits)

lemma cache_inv_reach: "cache_reach sd sha st \<Longrightarrow> cache_inv st \<and> content_addressed sd sha st"
proof (induction rule: cache_reach.induct)
  case reach_new
  then show ?case by (simp add: cache_inv_def cache_new_def content_addressed_def)
next
  case (reach_set st now sch ttl r st')
  from reach_set.hyps(2) reach_set.IH show ?case
  proof (cases rule: cache_set_cases)
    case stored
    with reach_set.IH show ?thesis
      using set_AList_update [of "compute_anchor_id sd sha sch"]
      by (fastforce simp: cache_inv_def content_addressed_def cache_store_def distinct_update)
  qed auto
next
  case (reach_invalidate st k)
  then show ?case
    by (auto simp: cache_inv_def cache_invalidate_def content_addressed_def distinct_delete
          AList.delete_eq intro: distinct_map_filter)
next
  case (reach_evict st now)
  then show ?case
    by (auto simp: cache_inv_def cache_evict_expired_def content_addressed_def
          intro: distinct_map_filter)
qed

section \<open>Properties\<close>

text \<open>A schema that \<open>set\<close> stored is returned under its anchor id until
  its time to live has run out and never after; every other id keeps its answer.\<close>

theorem cache_get_after_set:
  assumes "cache_reach sd sha st" "cache_set sd sha now sch ttl st = Some (Ok aid, st')"
  shows "cache_get st' t aid = (if t < now + unat ttl * NANOS then Some sch else None)
    \<and> (\<forall>k. k \<noteq> aid \<longrightarrow> cache_get st' t k = cache_get st t k)"
  using assms(2) cache_inv_reach [OF assms(1)]
  by (cases rule: cache_set_cases)
     (auto simp: cache_live_until cache_gone_after cache_put_frame)

definition demo_sha :: "bytes \<Rightarrow> bytes" where "demo_sha b = [0xAB]"

definition demo_json :: serde where
  "demo_json = \<lparr>json_ser = (\<lambda>d. Inr []), json_de = (\<lambda>b. Inl []), mp_ser = (\<lambda>v. Inr []), mp_de = (\<lambda>b. Inl [])\<rparr>"

lemma demo_anchor_id: "compute_anchor_id demo_json demo_sha d = ''sha256:ab''"
proof -
  have "hex_encode [0xAB] = ''ab''" by code_simp
  then show ?thesis by (simp add: compute_anchor_id_def demo_json_def demo_sha_def)
qed

lemma demo_cache_set:
  "cache_set demo_json demo_sha 7 [] 60 cache_new =
     Some (Ok ''sha256:ab'', [(''sha256:ab'', \<lparr>schema = [], expires = 60000000007\<rparr>)])"
  by (simp add: cache_set_def Let_def demo_anchor_id cache_new_def instant_add_secs_def NANOS_def
        cache_store_def)

theorem cache_get_after_set_witness:
  "cache_get [(''sha256:ab'', \<lparr>schema = [], expires = 60000000007\<rparr>)] 60000000006 ''sha256:ab'' = Some []"
  using cache_get_after_set [OF reach_new demo_cache_set, of 60000000006] by (simp add: NANOS_def)

text \<open>Property C36 (safety). In every cache a program can reach, what \<open>get\<close> returns for an id has
  that id as its content address, and a live schema is never replaced by a different one: such a
  \<open>set\<close> reports poisoning and leaves the cache as it was.\<close>

theorem cache_not_poisoned:
  assumes "cache_reach sd sha st" "cache_get st now k = Some old"
  shows "k = compute_anchor_id sd sha old
    \<and> (\<forall>sch ttl r st'. cache_set sd sha now sch ttl st = Some (r, st') \<longrightarrow> \<not> dict_eq old sch
         \<longrightarrow> compute_anchor_id sd sha sch = k
         \<longrightarrow> r = Err (AnchorPoison (''anchor '' @ k @ '' already cached with different schema'')) \<and> st' = st)"
proof -
  have "content_addressed sd sha st" using cache_inv_reach [OF assms(1)] by simp
  then have "k = compute_anchor_id sd sha old"
    using assms(2) by (auto simp: content_addressed_def cache_get_def split: option.splits if_splits
        dest!: map_of_SomeD)
  moreover have "r = Err (AnchorPoison (''anchor '' @ k @ '' already cached with different schema'')) \<and> st' = st"
    if "cache_set sd sha now sch ttl st = Some (r, st')" "\<not> dict_eq old sch" "compute_anchor_id sd sha sch = k"
    for sch ttl r st'
    using that assms(2)
    by (auto simp: cache_set_def cache_get_def Let_def split: option.splits if_splits)
  ultimately show ?thesis by blast
qed

theorem cache_not_poisoned_witness:
  "cache_set demo_json demo_sha 8 [(''a'', JNull)] 60
       [(''sha256:ab'', \<lparr>schema = [], expires = 60000000007\<rparr>)] =
     Some (Err (AnchorPoison ''anchor sha256:ab already cached with different schema''),
       [(''sha256:ab'', \<lparr>schema = [], expires = 60000000007\<rparr>)])"
proof -
  let ?st = "[(''sha256:ab'', \<lparr>schema = [], expires = 60000000007\<rparr>)]"
  have reach: "cache_reach demo_json demo_sha ?st"
    using reach_set [OF reach_new demo_cache_set] .
  have get: "cache_get ?st 8 ''sha256:ab'' = Some []" by (simp add: cache_get_def)
  have "cache_set demo_json demo_sha 8 [(''a'', JNull)] 60 ?st \<noteq> None"
    by (simp add: cache_set_def Let_def instant_add_secs_def NANOS_def)
  then obtain r st' where rs: "cache_set demo_json demo_sha 8 [(''a'', JNull)] 60 ?st = Some (r, st')"
    by auto
  have "\<not> dict_eq [] [(''a'', JNull)]" by (simp add: dict_eq_def jv_eq.simps)
  with cache_not_poisoned [OF reach get] rs
  have "r = Err (AnchorPoison ''anchor sha256:ab already cached with different schema'') \<and> st' = ?st"
    by (simp add: demo_anchor_id)
  with rs show ?thesis by simp
qed

end
