(* ===== verification/Core_Codec_Props.thy ===== *)
theory Core_Codec_Props
  imports Core_Codec
begin

text \<open>
  Properties of the frame codec. The locale \<open>payload_codec\<close> is the contract between
  \<open>NpsFrameCodec\<close> and a payload codec: what the encoder wrote is read back, up to the image the
  codec promises (the identity for JSON and MsgPack, binary32 precision of the search vector for
  BinaryVector). The framing lemma is proved once in the locale; the three tiers interpret it.
\<close>

section \<open>The contract of a payload codec\<close>

locale payload_codec =
  fixes enc :: "frame_dict \<Rightarrow> bytes nps_result"
    and dec :: "bytes \<Rightarrow> frame_dict nps_result"
    and good :: "frame_dict \<Rightarrow> bool"
    and img :: "frame_dict \<Rightarrow> frame_dict"
  assumes dec_enc: "good d \<Longrightarrow> enc d = Ok b \<Longrightarrow> length b < 2 ^ 32 \<Longrightarrow> dec b = Ok (img d)"
begin

lemma framed:
  assumes "good d" "enc d = Ok b" "length b < 2 ^ 32"
  obtains h where "header_parse (frame_wire ft tier fin b @ rest) = Ok h"
    "frame_type h = ft" "header_tier h = tier" "header_is_final h = fin"
    "header_size h + unat (payload_length h) \<le> length (frame_wire ft tier fin b @ rest)"
    "dec (slice (frame_wire ft tier fin b @ rest) (header_size h) (unat (payload_length h))) =
     Ok (img d)"
proof -
  let ?h = "header_new ft tier fin (of_nat (length b))"
  let ?wire = "frame_wire ft tier fin b @ rest"
  have u: "unat (of_nat (length b) :: u64) = length b"
    using assms(3) by (intro unat_of_nat_64) simp
  have p: "header_parse ?wire = Ok ?h"
    using header_parse_to_bytes [of "of_nat (length b)" ft tier fin "b @ rest"] assms(3) u
    by (simp add: frame_wire_def)
  have "slice ?wire (header_size ?h) (unat (payload_length ?h)) = b"
    using u by (simp add: frame_wire_def slice_append)
  then have "dec (slice ?wire (header_size ?h) (unat (payload_length ?h))) = Ok (img d)"
    using dec_enc [OF assms] by simp
  moreover have "header_size ?h + unat (payload_length ?h) \<le> length ?wire"
    using u by (simp add: frame_wire_def)
  ultimately show thesis using p header_new_flags [of ft tier fin] by (intro that [of ?h]) auto
qed

end

section \<open>The three tiers\<close>

definition json_faithful :: "serde \<Rightarrow> frame_dict \<Rightarrow> bool" where
  "json_faithful sd d \<longleftrightarrow> (\<forall>b. json_ser sd d = Inr b \<longrightarrow> json_de sd b = Inr (JObject d))"

definition msgpack_faithful :: "serde \<Rightarrow> frame_dict \<Rightarrow> bool" where
  "msgpack_faithful sd d \<longleftrightarrow> (\<forall>b. mp_ser sd (JObject d) = Inr b \<longrightarrow> mp_de sd b = Inr (JObject d))"

definition bv_faithful :: "serde \<Rightarrow> frame_dict \<Rightarrow> bool" where
  "bv_faithful sd d \<longleftrightarrow> (case search_vector d of
       None \<Rightarrow> msgpack_faithful sd d
     | Some (JArray values) \<Rightarrow>
         (case collect_f32 values of
            None \<Rightarrow> False
          | Some xs \<Rightarrow> list_all f32_is_finite xs \<and> length xs < 2 ^ 32 \<and>
              msgpack_faithful sd (set_search_vector (JObject (vector_marker 0 (length xs))) d))
     | Some _ \<Rightarrow> False)"

definition bv_image :: "frame_dict \<Rightarrow> frame_dict" where
  "bv_image d = (case search_vector d of
       Some (JArray values) \<Rightarrow>
         (case collect_f32 values of Some xs \<Rightarrow> set_search_vector (json_floats xs) d | None \<Rightarrow> d)
     | _ \<Rightarrow> d)"

definition tier_faithful :: "serde \<Rightarrow> encoding_tier \<Rightarrow> frame_dict \<Rightarrow> bool" where
  "tier_faithful sd tier d = (case tier of
       TierJson \<Rightarrow> json_faithful sd d
     | TierMsgPack \<Rightarrow> msgpack_faithful sd d
     | TierBinaryVector \<Rightarrow> bv_faithful sd d
     | TierReserved \<Rightarrow> False)"

definition tier_image :: "encoding_tier \<Rightarrow> frame_dict \<Rightarrow> frame_dict" where
  "tier_image tier d = (if tier = TierBinaryVector then bv_image d else d)"

lemma codec_err_Ok [simp]: "codec_err r = Ok x \<longleftrightarrow> r = Inr x"
  by (cases r) (auto simp: codec_err_def)

lemma codec_err_Inr [simp]: "codec_err (Inr x) = Ok x"
  by (simp add: codec_err_def)

interpretation json_tier: payload_codec "encode_json sd" "decode_json sd" "json_faithful sd" "\<lambda>d. d"
  for sd
  by unfold_locales (auto simp: encode_json_def decode_json_def json_faithful_def)

interpretation msgpack_tier:
  payload_codec "encode_msgpack sd" "decode_msgpack sd" "msgpack_faithful sd" "\<lambda>d. d" for sd
  by unfold_locales (auto simp: encode_msgpack_def decode_msgpack_def msgpack_faithful_def)

lemma no_search_vector:
  assumes "search_vector d = None"
  shows "extract_vector_search_vector d [] = (d, [])"
    and "restore_vector_search_vector d [] = Ok d"
  using assms
  by (auto simp: extract_vector_search_vector_def restore_vector_search_vector_def
        search_vector_def opt_object_def split: option.splits jvalue.splits)

lemma bv_dec_enc:
  assumes "bv_faithful sd d" "encode_binary_vector sd d = Ok b" "length b < 2 ^ 32"
  shows "decode_binary_vector sd b = Ok (bv_image d)"
proof (cases "search_vector d")
  case None
  with assms(2) obtain mb where mb: "mp_ser sd (JObject d) = Inr mb"
    "b = binary_vector_payload mb []"
    by (auto simp: encode_binary_vector_def no_search_vector try_res_eq_Inr)
  then have "length mb < 2 ^ 32" using assms(3) by (simp add: binary_vector_payload_def)
  moreover have "mp_de sd mb = Inr (JObject d)"
    using assms(1) None mb(1) by (simp add: bv_faithful_def msgpack_faithful_def)
  ultimately show ?thesis
    using read_vectors_payload [of mb "[]" sd d] mb(2) None
    by (simp add: no_search_vector bv_image_def)
next
  case (Some v)
  with assms(1) obtain vals xs where v: "v = JArray vals" "collect_f32 vals = Some xs"
    "list_all f32_is_finite xs" "length xs < 2 ^ 32"
    and mf: "msgpack_faithful sd (set_search_vector (JObject (vector_marker 0 (length xs))) d)"
    by (auto simp: bv_faithful_def split: jvalue.splits option.splits)
  note sv = Some [unfolded v(1)]
  obtain mb where mb:
    "mp_ser sd (JObject (set_search_vector (JObject (vector_marker 0 (length xs))) d)) = Inr mb"
    "b = binary_vector_payload mb [xs]"
    using assms(2) by (auto simp: encode_binary_vector_def extract_marked [OF sv v(2)] try_res_eq_Inr)
  have "length mb < 2 ^ 32" using assms(3) mb(2) by (simp add: binary_vector_payload_def)
  moreover have "mp_de sd mb =
      Inr (JObject (set_search_vector (JObject (vector_marker 0 (length xs))) d))"
    using mf mb(1) by (simp add: msgpack_faithful_def)
  ultimately show ?thesis
    using binary_vector_transport(2) [OF sv v(2,4) mb(1)] mb(2) v(2,3) sv
    by (simp add: numbers_of_f32_finite bv_image_def json_floats_def)
qed

interpretation binary_vector_tier:
  payload_codec "encode_binary_vector sd" "decode_binary_vector sd" "bv_faithful sd" bv_image for sd
  by unfold_locales (rule bv_dec_enc)

text \<open>The dispatch on the tier is itself a payload codec.\<close>

interpretation any_tier:
  payload_codec "encode_tier sd tier" "decode_tier sd tier" "tier_faithful sd tier" "tier_image tier"
  for sd tier
  by unfold_locales
     (cases tier; auto simp: encode_tier_def decode_tier_def tier_faithful_def tier_image_def
        intro: json_tier.dec_enc msgpack_tier.dec_enc binary_vector_tier.dec_enc)

section \<open>Properties\<close>

lemma codec_decode_encoded:
  assumes "tier_faithful sd tier d"
    and "codec_encode sd c ft d tier fin = Ok wire"
    and "unat (max_payload c) < 2 ^ 32"
    and "is_registered (registry c') ft"
  shows "codec_decode sd c' (wire @ rest) = Ok (ft, tier_image tier d)"
proof -
  from assms(2) obtain b where b: "encode_tier sd tier d = Ok b" "length b \<le> unat (max_payload c)"
    "wire = frame_wire ft tier fin b"
    by (auto simp: codec_encode_def try_res_eq_Inr split: if_splits)
  then have "length b < 2 ^ 32" using assms(3) by simp
  then obtain h where "header_parse (wire @ rest) = Ok h" "frame_type h = ft" "header_tier h = tier"
    "header_size h + unat (payload_length h) \<le> length (wire @ rest)"
    "decode_tier sd tier (slice (wire @ rest) (header_size h) (unat (payload_length h))) =
     Ok (tier_image tier d)"
    using any_tier.framed [OF assms(1) b(1)] b(3) by metis
  with assms(4) show ?thesis by (simp add: codec_decode_def Let_def)
qed


definition demo_dict :: frame_dict where
  "demo_dict = [(''ttl'', jnat 5)]"

definition demo_text :: bytes where
  "demo_text = map (\<lambda>c. of_nat (code c)) ''{\"ttl\":5}''"

definition demo_serde :: serde where
  "demo_serde = \<lparr>
     json_ser = (\<lambda>d. if d = demo_dict then Inr demo_text else Inl ''unsupported''),
     json_de = (\<lambda>b. if b = demo_text then Inr (JObject demo_dict) else Inl ''unsupported''),
     mp_ser = (\<lambda>v. case v of JObject m \<Rightarrow> Inr [0x80] | _ \<Rightarrow> Inl ''unsupported''),
     mp_de = (\<lambda>b. Inr (JObject []))\<rparr>"

lemma demo_premises:
  "tier_faithful demo_serde TierJson demo_dict"
  "codec_encode demo_serde (codec_new create_full) Anchor demo_dict TierJson True =
     Ok (frame_wire Anchor TierJson True demo_text)"
  "unat (max_payload (codec_new create_full)) < 2 ^ 32"
  "is_registered (registry (codec_new create_full)) Anchor"
  by (simp_all add: tier_faithful_def json_faithful_def demo_serde_def codec_encode_def
        encode_tier_def encode_json_def codec_err_def codec_new_def DEFAULT_MAX_PAYLOAD_def
        demo_text_def is_registered_def create_full_def create_default_def registry_register_def)


text \<open>The header that \<open>FrameHeader::new\<close> builds is read back from its
  bytes, whatever follows them, with its tier and its FINAL flag, for every payload length that
  fits 32 bits; it takes 4 bytes up to a length of 65535 and 8 bytes above.\<close>

theorem header_roundtrip:
  assumes "unat len < 2 ^ 32"
  shows "\<exists>h. header_parse (header_to_bytes (header_new ft tier fin len) @ rest) = Ok h
           \<and> frame_type h = ft \<and> header_tier h = tier \<and> header_is_final h = fin
           \<and> payload_length h = len \<and> header_size h = (if 0xFFFF < len then 8 else 4)"
  using header_parse_to_bytes [OF assms, of ft tier fin rest] header_new_flags [of ft tier fin len]
  by (auto simp: header_size_def header_new_ext)

theorem header_roundtrip_witness:
  "\<exists>h. header_parse (header_to_bytes (header_new Query TierBinaryVector False 70000) @ []) = Ok h
     \<and> frame_type h = Query \<and> header_tier h = TierBinaryVector \<and> header_is_final h = False
     \<and> payload_length h = 70000 \<and> header_size h = 8"
  using header_roundtrip [of 70000 Query TierBinaryVector False "[]"] by simp

text \<open>\<open>FrameType::from_u8\<close> accepts exactly the codes that
  \<open>as_u8\<close> produces, and gives back the type with that code.\<close>

theorem frame_type_codes: "from_u8 v = Ok ft \<longleftrightarrow> v = as_u8 ft"
  by (rule from_u8_Ok_iff)

text \<open>A search vector of finite binary32 numbers survives the
  BinaryVector tier unchanged: the decoder returns the very dictionary that was encoded.\<close>

theorem binary_vector_exact:
  assumes "bt_wf d" "map_of d ''vector_search'' = Some (JObject vs)" "bt_wf vs"
    and "map_of vs ''vector'' = Some (json_floats xs)"
    and "list_all f32_is_finite xs" "length xs < 2 ^ 32"
    and "msgpack_faithful sd (set_search_vector (JObject (vector_marker 0 (length xs))) d)"
    and "encode_binary_vector sd d = Ok b" "length b < 2 ^ 32"
  shows "decode_binary_vector sd b = Ok d"
proof -
  have sv: "search_vector d = Some (json_floats xs)" using assms(2,4) by (simp add: search_vector_Some)
  have col: "collect_f32 (map (\<lambda>x. JNumber (Float (f64_of_f32 x))) xs) = Some xs"
    using assms(5) by (rule collect_f32_json_floats)
  have "bv_faithful sd d"
    using assms(5,6,7) by (simp add: bv_faithful_def sv json_floats_def col)
  then have "decode_binary_vector sd b = Ok (bv_image d)"
    using assms(8,9) by (rule bv_dec_enc)
  moreover have "bv_image d = d"
  proof -
    have "bv_image d = set_search_vector (json_floats xs) d"
      by (simp add: bv_image_def sv json_floats_def col)
    also have "\<dots> = d"
      using assms(1-4) by (simp add: set_search_vector_def bt_insert_same)
    finally show ?thesis .
  qed
  ultimately show ?thesis by simp
qed

definition one_value_serde :: "frame_dict \<Rightarrow> serde" where
  "one_value_serde m = \<lparr>
     json_ser = (\<lambda>d. Inl ''unsupported''),
     json_de = (\<lambda>b. Inl ''unsupported''),
     mp_ser = (\<lambda>v. if v = JObject m then Inr [0x81] else Inl ''unsupported''),
     mp_de = (\<lambda>b. if b = [0x81] then Inr (JObject m) else Inl ''unsupported'')\<rparr>"

definition query_dict :: "jvalue \<Rightarrow> frame_dict" where
  "query_dict v = [(''vector_search'', JObject [(''vector'', v)])]"

lemma one_value_msgpack: "msgpack_faithful (one_value_serde m) m"
  by (simp add: msgpack_faithful_def one_value_serde_def)

lemma search_query_dict: "search_vector (query_dict v) = Some v"
  by (simp add: search_vector_Some query_dict_def)

theorem binary_vector_exact_witness:
  "decode_binary_vector (one_value_serde (set_search_vector (JObject (vector_marker 0 1))
       (query_dict (json_floats [0x3F800000]))))
     (binary_vector_payload [0x81] [[0x3F800000]]) = Ok (query_dict (json_floats [0x3F800000]))"
proof -
  let ?d = "query_dict (json_floats [0x3F800000])"
  let ?sd = "one_value_serde (set_search_vector (JObject (vector_marker 0 1)) ?d)"
  have fin: "list_all f32_is_finite [0x3F800000]" by (simp add: f32_is_finite_def f32_exp_def)
  have sv: "search_vector ?d = Some (JArray (map (\<lambda>x. JNumber (Float (f64_of_f32 x))) [0x3F800000]))"
    by (simp add: search_query_dict json_floats_def)
  have enc: "encode_binary_vector ?sd ?d = Ok (binary_vector_payload [0x81] [[0x3F800000]])"
    using collect_f32_json_floats [OF fin]
    by (intro binary_vector_transport(1) [OF sv]) (simp_all add: one_value_serde_def)
  show ?thesis
    by (rule binary_vector_exact [of ?d "[(''vector'', json_floats [0x3F800000])]" "[0x3F800000]"])
       (use fin enc one_value_msgpack in
         \<open>simp_all add: query_dict_def binary_vector_payload_def BINARY_VECTOR_MAGIC_def\<close>)
qed

text \<open>The encoder checks the numbers of a search vector for finiteness
  before it narrows them: when a finite number overflows binary32, encoding succeeds and the
  decoder rejects the encoder's own output.\<close>

theorem binary_vector_overflow_rejected:
  assumes "search_vector d = Some (JArray values)" "collect_f32 values = Some xs"
    and "\<not> list_all f32_is_finite xs" "length xs < 2 ^ 32"
    and "mp_ser sd (JObject (set_search_vector (JObject (vector_marker 0 (length xs))) d)) = Inr mb"
    and "mp_de sd mb = Inr (JObject (set_search_vector (JObject (vector_marker 0 (length xs))) d))"
    and "length mb < 2 ^ 32"
  shows "\<exists>b. encode_binary_vector sd d = Ok b \<and>
     decode_binary_vector sd b = Err (CodecError ''binary vector values must be finite float32'')"
  using binary_vector_transport [OF assms(1,2,4,5,6,7)] numbers_of_f32_infinite [OF assms(3)]
  by simp

lemma narrow_2_1000: "f32_of_f64 0x7E70000000000000 = 0x7F800000"
proof -
  have e: "f64_exp 0x7E70000000000000 = 2023" "f64_frac 0x7E70000000000000 = 0"
    "\<not> f64_neg 0x7E70000000000000"
    by (simp_all add: f64_exp_def f64_frac_def f64_neg_def)
  define k :: nat where "k = 2022"
  have mag: "f64_mag 0x7E70000000000000 = 2 ^ (52 + k)"
    unfolding f64_mag_def e k_def power_add by (simp del: power_numeral)
  define q :: nat where "q = 925"
  have "(2::nat) ^ (52 + k) = 2 ^ (277 + (52 + k - 277 - q)) * 2 ^ q"
    by (simp add: k_def q_def del: power_numeral flip: power_add)
  then have "(2::nat) ^ (52 + k) div 2 ^ q = 2 ^ (277 + (52 + k - 277 - q))" by simp
  moreover have "(2::nat) ^ 277 \<le> 2 ^ (277 + (52 + k - 277 - q))"
    by (intro power_increasing) simp_all
  ultimately have "2 ^ 277 \<le> (2::nat) ^ (52 + k) div 2 ^ q" by metis
  then have "round_float 23 f32_inf (2 ^ (52 + k)) (2 ^ q) = f32_inf"
    by (rule round_float_overflow) simp
  then have "f32_round False (2 ^ (52 + k)) (2 ^ q) = of_nat f32_inf"
    by (simp only: f32_round_def if_False add_0)
  then show ?thesis by (simp add: f32_of_f64_def mag e(3) flip: q_def)
qed

theorem binary_vector_overflow_rejected_witness:
  "\<exists>b. encode_binary_vector (one_value_serde (set_search_vector (JObject (vector_marker 0 1))
            (query_dict (JArray [JNumber (Float 0x7E70000000000000)]))))
          (query_dict (JArray [JNumber (Float 0x7E70000000000000)])) = Ok b \<and>
       decode_binary_vector (one_value_serde (set_search_vector (JObject (vector_marker 0 1))
            (query_dict (JArray [JNumber (Float 0x7E70000000000000)])))) b =
         Err (CodecError ''binary vector values must be finite float32'')"
proof -
  let ?vals = "[JNumber (Float 0x7E70000000000000)]"
  let ?d = "query_dict (JArray ?vals)"
  define m where "m = set_search_vector (JObject (vector_marker 0 1)) ?d"
  have sv: "search_vector ?d = Some (JArray ?vals)" by (rule search_query_dict)
  have col: "collect_f32 ?vals = Some [0x7F800000]"
    by (simp add: narrow_2_1000 f64_is_finite_def f64_exp_def)
  have inf: "\<not> list_all f32_is_finite [0x7F800000]" by (simp add: f32_is_finite_def f32_exp_def)
  have len: "length [0x7F800000 :: f32] < 2 ^ 32" by simp
  have ser: "mp_ser (one_value_serde m)
      (JObject (set_search_vector (JObject (vector_marker 0 (length [0x7F800000 :: f32]))) ?d)) = Inr [0x81]"
    and de: "mp_de (one_value_serde m) [0x81] =
      Inr (JObject (set_search_vector (JObject (vector_marker 0 (length [0x7F800000 :: f32]))) ?d))"
    by (simp_all add: one_value_serde_def m_def)
  have mb: "length [0x81 :: u8] < 2 ^ 32" by simp
  show ?thesis
    using binary_vector_overflow_rejected [OF sv col inf len ser de mb] unfolding m_def .
qed

text \<open>What the codec decodes lies within the bytes it was given, was written
  in one of the three defined tiers and has a type that is registered.\<close>

theorem codec_decode_safe:
  assumes "codec_decode sd c wire = Ok (ft, d)"
  shows "\<exists>h. header_parse wire = Ok h \<and> frame_type h = ft \<and> header_tier h \<noteq> TierReserved
           \<and> header_size h + unat (payload_length h) \<le> length wire
           \<and> decode_tier sd (header_tier h) (slice wire (header_size h) (unat (payload_length h))) = Ok d
           \<and> is_registered (registry c) ft"
  using assms
  by (auto simp: codec_decode_def try_res_eq_Inr Let_def decode_tier_def split: if_splits)

theorem codec_decode_safe_witness:
  "\<exists>h. header_parse (frame_wire Anchor TierJson True demo_text) = Ok h \<and> frame_type h = Anchor
     \<and> header_tier h \<noteq> TierReserved
     \<and> header_size h + unat (payload_length h) \<le> length (frame_wire Anchor TierJson True demo_text)
     \<and> decode_tier demo_serde (header_tier h) (slice (frame_wire Anchor TierJson True demo_text)
           (header_size h) (unat (payload_length h))) = Ok demo_dict
     \<and> is_registered (registry (codec_new create_full)) Anchor"
proof (rule codec_decode_safe)
  show "codec_decode demo_serde (codec_new create_full) (frame_wire Anchor TierJson True demo_text) =
      Ok (Anchor, demo_dict)"
    using codec_decode_encoded [OF demo_premises, of "[]"] by (simp add: tier_image_def)
qed

lemma registered_create_full: "is_registered create_full ft \<longleftrightarrow> ft \<noteq> Nop"
  by (cases ft) (simp_all add: is_registered_def create_full_def create_default_def
      registry_register_def registry_new_def)

text \<open>The registry of all five protocols holds every frame type but the
  keepalive frame, so no codec built on it decodes a keepalive frame, whatever the bytes.\<close>

theorem full_registry_omits_nop:
  "(is_registered create_full ft \<longleftrightarrow> ft \<noteq> Nop) \<and>
   codec_decode sd (with_max_payload (codec_new create_full) n) wire \<noteq> Ok (Nop, d)"
  by (auto simp: registered_create_full codec_decode_def try_res_eq_Inr Let_def
        with_max_payload_def codec_new_def split: if_splits)

end
