(* ===== verification/Dict_Frame.thy ===== *)
theory Dict_Frame
  imports Core_Codec_Props
begin

text \<open>
  The contract of a frame type: its dictionary is an ordered map and is read back as the frame,
  up to a normal form that has the same dictionary. What follows for a frame that travels through
  the codec is proved once in the locale.
\<close>

locale dict_frame =
  fixes to_dict :: "'f \<Rightarrow> frame_dict"
    and from_dict :: "frame_dict \<Rightarrow> nps_error + 'f"
    and norm :: "'f \<Rightarrow> 'f"
  assumes wf_to_dict: "bt_wf (to_dict f)"
    and from_to_dict: "from_dict (to_dict f) = Ok (norm f)"
    and to_dict_norm: "to_dict (norm f) = to_dict f"
begin

lemma same_dict_iff: "to_dict f = to_dict g \<longleftrightarrow> norm f = norm g"
  by (metis Inr_inject from_to_dict to_dict_norm)

lemma reencode: "from_dict (to_dict f) = Ok g \<Longrightarrow> to_dict g = to_dict f"
  by (metis Inr_inject from_to_dict to_dict_norm)

lemma transported:
  assumes "tier_faithful sd tier (to_dict f)" "tier \<noteq> TierBinaryVector"
    and "codec_encode sd c ft (to_dict f) tier fin = Ok wire"
    and "unat (max_payload c) < 2 ^ 32" "is_registered (registry c') ft"
  shows "try_res (codec_decode sd c' (wire @ rest)) (\<lambda>(t, d). from_dict d) = Ok (norm f)"
  using codec_decode_encoded [OF assms(1,3-5), of rest] assms(2)
  by (simp add: tier_image_def from_to_dict)

end

text \<open>Dictionaries are read through their lookups, never by evaluating insertions.\<close>

declare bt_insert.simps [simp del]
declare bt_wf_insert [simp] bt_wf_insert_opt [simp]

end
