(* ===== verification/Ncp_Frames.thy ===== *)
theory Ncp_Frames
  imports Dict_Frame
begin

text \<open>
  \<^verbatim>\<open>nps-ncp/src/lib.rs\<close>: the frames of the NCP protocol and their dictionaries. Each frame type interprets the
  contract \<open>dict_frame\<close>; the normal form is the identity for every frame but \<open>CapsFrame\<close>, which
  fills in the number of its data items.
\<close>

section \<open>Reading required fields\<close>

definition get_str :: "frame_dict \<Rightarrow> string \<Rightarrow> string nps_result" where
  "get_str d k = ok_or (FrameError (''missing field: '' @ k)) (opt_str d k)"

section \<open>AnchorFrame\<close>

record anchor_frame =
  an_anchor_id :: string
  an_schema :: frame_dict
  an_namespace :: "string option"
  an_description :: "string option"
  an_node_type :: "string option"
  an_ttl :: u64

definition anchor_to_dict :: "anchor_frame \<Rightarrow> frame_dict" where
  "anchor_to_dict f =
     (let m = bt_insert ''anchor_id'' (JString (an_anchor_id f)) [];
          m = bt_insert ''schema'' (JObject (an_schema f)) m;
          m = bt_insert ''ttl'' (jnat (an_ttl f)) m;
          m = bt_insert_opt ''namespace'' (map_option JString (an_namespace f)) m;
          m = bt_insert_opt ''description'' (map_option JString (an_description f)) m
      in bt_insert_opt ''node_type'' (map_option JString (an_node_type f)) m)"

definition anchor_from_dict :: "frame_dict \<Rightarrow> anchor_frame nps_result" where
  "anchor_from_dict d =
     try_res (get_str d ''anchor_id'') (\<lambda>anchor_id.
       Ok \<lparr>an_anchor_id = anchor_id,
           an_schema = unwrap_or [] (opt_object d ''schema''),
           an_namespace = opt_str d ''namespace'',
           an_description = opt_str d ''description'',
           an_node_type = opt_str d ''node_type'',
           an_ttl = unwrap_or 3600 (opt_u64 d ''ttl'')\<rparr>)"

interpretation anchor: dict_frame anchor_to_dict anchor_from_dict "\<lambda>f. f"
  by unfold_locales
     (auto simp: anchor_to_dict_def anchor_from_dict_def get_str_def Let_def fields)

section \<open>DiffFrame\<close>

record diff_frame =
  df_anchor_id :: string
  df_new_anchor_id :: string
  df_patch :: "jvalue list"

definition diff_to_dict :: "diff_frame \<Rightarrow> frame_dict" where
  "diff_to_dict f =
     (let m = bt_insert ''anchor_id'' (JString (df_anchor_id f)) [];
          m = bt_insert ''new_anchor_id'' (JString (df_new_anchor_id f)) m
      in bt_insert ''patch'' (JArray (df_patch f)) m)"

definition diff_from_dict :: "frame_dict \<Rightarrow> diff_frame nps_result" where
  "diff_from_dict d =
     try_res (get_str d ''anchor_id'') (\<lambda>anchor_id.
     try_res (get_str d ''new_anchor_id'') (\<lambda>new_anchor_id.
       Ok \<lparr>df_anchor_id = anchor_id, df_new_anchor_id = new_anchor_id,
           df_patch = unwrap_or [] (get_array d ''patch'')\<rparr>))"

interpretation diff: dict_frame diff_to_dict diff_from_dict "\<lambda>f. f"
  by unfold_locales (auto simp: diff_to_dict_def diff_from_dict_def get_str_def Let_def fields)

section \<open>StreamFrame\<close>

record stream_frame =
  sf_anchor_id :: string
  sf_seq :: u64
  sf_payload :: jvalue
  sf_is_last :: bool

definition stream_to_dict :: "stream_frame \<Rightarrow> frame_dict" where
  "stream_to_dict f =
     (let m = bt_insert ''anchor_id'' (JString (sf_anchor_id f)) [];
          m = bt_insert ''seq'' (jnat (sf_seq f)) m;
          m = bt_insert ''payload'' (sf_payload f) m
      in bt_insert ''is_last'' (JBool (sf_is_last f)) m)"

definition stream_from_dict :: "frame_dict \<Rightarrow> stream_frame nps_result" where
  "stream_from_dict d =
     try_res (get_str d ''anchor_id'') (\<lambda>anchor_id.
       Ok \<lparr>sf_anchor_id = anchor_id,
           sf_seq = unwrap_or 0 (opt_u64 d ''seq''),
           sf_payload = unwrap_or JNull (map_of d ''payload''),
           sf_is_last = unwrap_or False (opt_bool d ''is_last'')\<rparr>)"

interpretation stream: dict_frame stream_to_dict stream_from_dict "\<lambda>f. f"
  by unfold_locales (auto simp: stream_to_dict_def stream_from_dict_def get_str_def Let_def fields)

section \<open>CapsFrame\<close>

record caps_frame =
  cf_node_id :: "string option"
  cf_caps :: "string list"
  cf_anchor_ref :: "string option"
  cf_count :: "u64 option"
  cf_data :: "jvalue list"
  cf_next_cursor :: "string option"
  cf_token_est :: "u64 option"
  cf_cached :: "bool option"
  cf_tokenizer_used :: "string option"
  cf_request_id :: "string option"
  cf_payload :: "jvalue option"
  cf_negotiated_encoding :: "string option"
  cf_enabled_encodings :: "string list option"
  cf_session_version :: "string option"
  cf_supported_protocols :: "string list option"
  cf_max_frame_payload :: "u64 option"
  cf_ext_support :: "bool option"
  cf_max_concurrent_streams :: "u64 option"

definition caps_new :: "string \<Rightarrow> jvalue list \<Rightarrow> caps_frame" where
  "caps_new anchor_ref data =
     \<lparr>cf_node_id = None, cf_caps = [], cf_anchor_ref = Some anchor_ref,
      cf_count = Some (of_nat (length data)), cf_data = data, cf_next_cursor = None,
      cf_token_est = None, cf_cached = None, cf_tokenizer_used = None, cf_request_id = None,
      cf_payload = None, cf_negotiated_encoding = None, cf_enabled_encodings = None,
      cf_session_version = None, cf_supported_protocols = None, cf_max_frame_payload = None,
      cf_ext_support = None, cf_max_concurrent_streams = None\<rparr>"

definition caps_to_dict :: "caps_frame \<Rightarrow> frame_dict" where
  "caps_to_dict f =
     (let m = bt_insert_opt ''node_id'' (map_option JString (cf_node_id f)) [];
          m = (if cf_caps f \<noteq> [] then bt_insert ''caps'' (jstrs (cf_caps f)) m else m);
          m = bt_insert_opt ''anchor_ref'' (map_option JString (cf_anchor_ref f)) m;
          m = (if cf_count f \<noteq> None \<or> cf_data f \<noteq> []
               then bt_insert ''data'' (JArray (cf_data f))
                      (bt_insert ''count'' (jnat (unwrap_or (of_nat (length (cf_data f))) (cf_count f))) m)
               else m);
          m = bt_insert_opt ''next_cursor'' (map_option JString (cf_next_cursor f)) m;
          m = bt_insert_opt ''token_est'' (map_option (\<lambda>n. jnat n) (cf_token_est f)) m;
          m = bt_insert_opt ''cached'' (map_option JBool (cf_cached f)) m;
          m = bt_insert_opt ''tokenizer_used'' (map_option JString (cf_tokenizer_used f)) m;
          m = bt_insert_opt ''request_id'' (map_option JString (cf_request_id f)) m;
          m = bt_insert_opt ''payload'' (cf_payload f) m;
          m = bt_insert_opt ''negotiated_encoding'' (map_option JString (cf_negotiated_encoding f)) m;
          m = bt_insert_opt ''enabled_encodings'' (map_option (\<lambda>l. jstrs l) (cf_enabled_encodings f)) m;
          m = bt_insert_opt ''session_version'' (map_option JString (cf_session_version f)) m;
          m = bt_insert_opt ''supported_protocols'' (map_option (\<lambda>l. jstrs l) (cf_supported_protocols f)) m;
          m = bt_insert_opt ''max_frame_payload'' (map_option (\<lambda>n. jnat n) (cf_max_frame_payload f)) m;
          m = bt_insert_opt ''ext_support'' (map_option JBool (cf_ext_support f)) m
      in bt_insert_opt ''max_concurrent_streams''
           (map_option (\<lambda>n. jnat n) (cf_max_concurrent_streams f)) m)"

definition caps_from_dict :: "frame_dict \<Rightarrow> caps_frame nps_result" where
  "caps_from_dict d = Ok
     \<lparr>cf_node_id = opt_str d ''node_id'',
      cf_caps = unwrap_or [] (get_strs d ''caps''),
      cf_anchor_ref = opt_str d ''anchor_ref'',
      cf_count = opt_u64 d ''count'',
      cf_data = unwrap_or [] (get_array d ''data''),
      cf_next_cursor = opt_str d ''next_cursor'',
      cf_token_est = opt_u64 d ''token_est'',
      cf_cached = opt_bool d ''cached'',
      cf_tokenizer_used = opt_str d ''tokenizer_used'',
      cf_request_id = opt_str d ''request_id'',
      cf_payload = map_of d ''payload'',
      cf_negotiated_encoding = opt_str d ''negotiated_encoding'',
      cf_enabled_encodings = get_strs d ''enabled_encodings'',
      cf_session_version = opt_str d ''session_version'',
      cf_supported_protocols = get_strs d ''supported_protocols'',
      cf_max_frame_payload = opt_u64 d ''max_frame_payload'',
      cf_ext_support = opt_bool d ''ext_support'',
      cf_max_concurrent_streams = opt_u64 d ''max_concurrent_streams''\<rparr>"

text \<open>A frame with data and no count reads back with the count of its data.\<close>

definition caps_norm :: "caps_frame \<Rightarrow> caps_frame" where
  "caps_norm f = (if cf_count f = None \<and> cf_data f \<noteq> []
                  then f\<lparr>cf_count := Some (of_nat (length (cf_data f)))\<rparr> else f)"

interpretation caps: dict_frame caps_to_dict caps_from_dict caps_norm
proof unfold_locales
  fix f :: caps_frame
  show "bt_wf (caps_to_dict f)"
    by (auto simp: caps_to_dict_def Let_def)
  show "caps_from_dict (caps_to_dict f) = Ok (caps_norm f)"
    by (cases "cf_count f"; cases "cf_data f = []")
       (simp_all add: caps_to_dict_def Let_def caps_from_dict_def caps_norm_def fields)
  show "caps_to_dict (caps_norm f) = caps_to_dict f"
    by (simp add: caps_to_dict_def caps_norm_def Let_def)
qed

section \<open>HelloFrame\<close>

record hello_frame =
  hf_nps_version :: string
  hf_supported_encodings :: "string list"
  hf_supported_protocols :: "string list"
  hf_min_version :: "string option"
  hf_agent_id :: "string option"
  hf_max_frame_payload :: u64
  hf_ext_support :: bool
  hf_max_concurrent_streams :: u64
  hf_e2e_enc_algorithms :: "string list option"
  hf_ping_interval_ms :: u64

definition DEFAULT_MAX_FRAME_PAYLOAD :: u64 where "DEFAULT_MAX_FRAME_PAYLOAD = 0xFFFF"
definition DEFAULT_MAX_CONCURRENT_STREAMS :: u64 where "DEFAULT_MAX_CONCURRENT_STREAMS = 32"

definition hello_new :: "string \<Rightarrow> string list \<Rightarrow> string list \<Rightarrow> hello_frame" where
  "hello_new nps_version supported_encodings supported_protocols =
     \<lparr>hf_nps_version = nps_version, hf_supported_encodings = supported_encodings,
      hf_supported_protocols = supported_protocols, hf_min_version = None, hf_agent_id = None,
      hf_max_frame_payload = DEFAULT_MAX_FRAME_PAYLOAD, hf_ext_support = False,
      hf_max_concurrent_streams = DEFAULT_MAX_CONCURRENT_STREAMS,
      hf_e2e_enc_algorithms = None, hf_ping_interval_ms = 0\<rparr>"

definition hello_to_dict :: "hello_frame \<Rightarrow> frame_dict" where
  "hello_to_dict f =
     (let m = bt_insert ''nps_version'' (JString (hf_nps_version f)) [];
          m = bt_insert ''supported_encodings'' (jstrs (hf_supported_encodings f)) m;
          m = bt_insert ''supported_protocols'' (jstrs (hf_supported_protocols f)) m;
          m = bt_insert ''max_frame_payload'' (jnat (hf_max_frame_payload f)) m;
          m = bt_insert ''ext_support'' (JBool (hf_ext_support f)) m;
          m = bt_insert ''max_concurrent_streams'' (jnat (hf_max_concurrent_streams f)) m;
          m = bt_insert_opt ''min_version'' (map_option JString (hf_min_version f)) m;
          m = bt_insert_opt ''agent_id'' (map_option JString (hf_agent_id f)) m;
          m = bt_insert_opt ''e2e_enc_algorithms'' (map_option (\<lambda>l. jstrs l) (hf_e2e_enc_algorithms f)) m
      in (if hf_ping_interval_ms f > 0
          then bt_insert ''ping_interval_ms'' (jnat (hf_ping_interval_ms f)) m else m))"

definition hello_from_dict :: "frame_dict \<Rightarrow> hello_frame nps_result" where
  "hello_from_dict d =
     try_res (get_str d ''nps_version'') (\<lambda>nps_version.
       Ok \<lparr>hf_nps_version = nps_version,
           hf_supported_encodings = unwrap_or [] (get_strs d ''supported_encodings''),
           hf_supported_protocols = unwrap_or [] (get_strs d ''supported_protocols''),
           hf_min_version = opt_str d ''min_version'',
           hf_agent_id = opt_str d ''agent_id'',
           hf_max_frame_payload = unwrap_or DEFAULT_MAX_FRAME_PAYLOAD (opt_u64 d ''max_frame_payload''),
           hf_ext_support = unwrap_or False (opt_bool d ''ext_support''),
           hf_max_concurrent_streams =
             unwrap_or DEFAULT_MAX_CONCURRENT_STREAMS (opt_u64 d ''max_concurrent_streams''),
           hf_e2e_enc_algorithms = get_strs d ''e2e_enc_algorithms'',
           hf_ping_interval_ms = unwrap_or 0 (opt_u64 d ''ping_interval_ms'')\<rparr>)"

interpretation hello: dict_frame hello_to_dict hello_from_dict "\<lambda>f. f"
  by unfold_locales
     (auto simp: hello_to_dict_def hello_from_dict_def get_str_def Let_def fields)

section \<open>NopFrame and ErrorFrame\<close>

datatype nop_frame = NopFrame

definition nop_to_dict :: "nop_frame \<Rightarrow> frame_dict" where "nop_to_dict f = []"

definition nop_from_dict :: "frame_dict \<Rightarrow> nop_frame nps_result" where "nop_from_dict d = Ok NopFrame"

interpretation nop: dict_frame nop_to_dict nop_from_dict "\<lambda>f. f"
  by unfold_locales (simp_all add: nop_to_dict_def nop_from_dict_def, metis (full_types) nop_frame.exhaust)

record error_frame =
  ef_error_code :: string
  ef_message :: string
  ef_detail :: "jvalue option"

definition error_to_dict :: "error_frame \<Rightarrow> frame_dict" where
  "error_to_dict f =
     (let m = bt_insert ''error_code'' (JString (ef_error_code f)) [];
          m = bt_insert ''message'' (JString (ef_message f)) m
      in bt_insert_opt ''detail'' (ef_detail f) m)"

definition error_from_dict :: "frame_dict \<Rightarrow> error_frame nps_result" where
  "error_from_dict d =
     try_res (get_str d ''error_code'') (\<lambda>error_code.
     try_res (get_str d ''message'') (\<lambda>message.
       Ok \<lparr>ef_error_code = error_code, ef_message = message, ef_detail = map_of d ''detail''\<rparr>))"

interpretation error: dict_frame error_to_dict error_from_dict "\<lambda>f. f"
  by unfold_locales
     (auto simp: error_to_dict_def error_from_dict_def get_str_def Let_def fields)

end
