(* ===== verification/Ncp_Handshake.thy ===== *)
theory Ncp_Handshake
  imports Ncp_Frames
begin

text \<open>
  The pure parts of the NCP handshake: the connection preamble (\<^verbatim>\<open>preamble.rs\<close>), the admission and
  negotiation policy (\<^verbatim>\<open>handshake_profile.rs\<close>), the encoding policy of a session
  (\<^verbatim>\<open>encoding_policy.rs\<close>) and the patch formats (\<^verbatim>\<open>patch_format.rs\<close>). A \<open>Duration\<close> is a number of
  nanoseconds.
\<close>

section \<open>The preamble\<close>

definition PREAMBLE_BYTES :: bytes where
  "PREAMBLE_BYTES = [0x4E, 0x50, 0x53, 0x2F, 0x31, 0x2E, 0x30, 0x0A]"

definition PREAMBLE_LENGTH :: nat where "PREAMBLE_LENGTH = 8"

definition preamble_matches :: "bytes \<Rightarrow> bool" where
  "preamble_matches buf \<longleftrightarrow> length buf \<ge> PREAMBLE_LENGTH \<and> take PREAMBLE_LENGTH buf = PREAMBLE_BYTES"

definition preamble_validate :: "bytes \<Rightarrow> unit nps_result" where
  "preamble_validate buf =
     (if length buf < PREAMBLE_LENGTH
      then Err (FrameError (''short read ('' @ show_nat (length buf) @ ''/'' @ show_nat PREAMBLE_LENGTH
                 @ '' bytes); peer is not speaking NCP''))
      else if \<not> preamble_matches buf
      then if length buf \<ge> 4 \<and> take 4 buf = [0x4E, 0x50, 0x53, 0x2F]
           then Err (FrameError ''future-major-version NPS preamble; close with NPS-PREAMBLE-UNSUPPORTED-VERSION diagnostic'')
           else Err (FrameError ''preamble mismatch; peer is not speaking NPS/1.x'')
      else Ok ())"

lemma preamble_validate_Ok:
  "preamble_validate buf = Ok () \<longleftrightarrow> (\<exists>rest. buf = PREAMBLE_BYTES @ rest)"
proof -
  have len: "length PREAMBLE_BYTES = PREAMBLE_LENGTH"
    by (simp add: PREAMBLE_BYTES_def PREAMBLE_LENGTH_def)
  have "preamble_validate buf = Ok () \<longleftrightarrow> preamble_matches buf"
    by (auto simp: preamble_validate_def preamble_matches_def)
  also have "\<dots> \<longleftrightarrow> (\<exists>rest. buf = PREAMBLE_BYTES @ rest)"
    using len by (auto simp: preamble_matches_def) (metis append_take_drop_id)
  finally show ?thesis .
qed

section \<open>Encoding policy of a session\<close>

definition BINARY_VECTOR_TOKEN :: string where "BINARY_VECTOR_TOKEN = ''binary_vector.v1''"

record encoding_policy =
  default_tier :: encoding_tier
  binary_vector_enabled :: bool

definition policy_new :: "encoding_tier \<Rightarrow> encoding_policy" where
  "policy_new t = \<lparr>default_tier = t, binary_vector_enabled = False\<rparr>"

definition with_binary_vector :: "encoding_tier \<Rightarrow> bool \<Rightarrow> encoding_policy" where
  "with_binary_vector t b = \<lparr>default_tier = t, binary_vector_enabled = b\<rparr>"

fun encoding_token :: "encoding_tier \<Rightarrow> string" where
  "encoding_token TierJson = ''json''"
| "encoding_token TierMsgPack = ''msgpack''"
| "encoding_token TierBinaryVector = BINARY_VECTOR_TOKEN"
| "encoding_token TierReserved = ''unknown:'' @ show_nat (unat (tier_u8 TierReserved))"

definition enabled_encodings :: "encoding_policy \<Rightarrow> string list" where
  "enabled_encodings p =
     (if binary_vector_enabled p then [encoding_token (default_tier p), BINARY_VECTOR_TOKEN]
      else [encoding_token (default_tier p)])"

definition is_binary_vector_frame :: "frame_type \<Rightarrow> bool" where
  "is_binary_vector_frame ft \<longleftrightarrow> ft = Query"

definition policy_allows :: "encoding_policy \<Rightarrow> encoding_tier \<Rightarrow> frame_type \<Rightarrow> bool" where
  "policy_allows p tier ft \<longleftrightarrow> tier = default_tier p
     \<or> (tier = TierBinaryVector \<and> binary_vector_enabled p \<and> is_binary_vector_frame ft)"

definition ensure_allows :: "encoding_policy \<Rightarrow> frame_header \<Rightarrow> unit nps_result" where
  "ensure_allows p h =
     (if policy_allows p (header_tier h) (frame_type h) then Ok ()
      else Err (CodecError (''Frame type 0x'' @ hex2 (as_u8 (frame_type h)) @ '' used ''
             @ encoding_token (header_tier h) @ '', but the negotiated session policy allows ''
             @ join '', '' (enabled_encodings p) @ ''.'')))"

definition from_enabled_encodings :: "encoding_tier \<Rightarrow> string list option \<Rightarrow> encoding_policy" where
  "from_enabled_encodings t enc =
     \<lparr>default_tier = t,
      binary_vector_enabled =
        unwrap_or False (map_option (\<lambda>e. list_ex (\<lambda>x. x = BINARY_VECTOR_TOKEN) e) enc)\<rparr>"

lemma policy_of_enabled:
  assumes "default_tier p \<noteq> TierBinaryVector"
  shows "from_enabled_encodings (default_tier p) (Some (enabled_encodings p)) = p"
proof -
  have "encoding_token (default_tier p) \<noteq> BINARY_VECTOR_TOKEN"
    using assms by (cases "default_tier p") (simp_all add: BINARY_VECTOR_TOKEN_def)
  then show ?thesis by (simp add: from_enabled_encodings_def enabled_encodings_def)
qed

section \<open>Patch formats\<close>

definition JSON_PATCH :: string where "JSON_PATCH = ''json_patch''"
definition BINARY_BITSET :: string where "BINARY_BITSET = ''binary_bitset''"

definition patch_is_known :: "string \<Rightarrow> bool" where
  "patch_is_known f \<longleftrightarrow> f = JSON_PATCH \<or> f = BINARY_BITSET"

definition allows_with_msgpack :: "string \<Rightarrow> bool \<Rightarrow> bool" where
  "allows_with_msgpack f msgpack_available =
     (if f = JSON_PATCH then True else if f = BINARY_BITSET then msgpack_available else False)"

section \<open>Decisions of the handshake\<close>

record handshake_profile =
  hp_min_version :: string
  hp_nps_version :: string
  hp_supported_encodings :: "string list"
  hp_supported_protocols :: "string list"
  hp_max_frame_payload :: u64
  hp_ext_support :: bool
  hp_max_concurrent_streams :: u64

definition profile_default :: handshake_profile where
  "profile_default =
     \<lparr>hp_min_version = ''0.1'', hp_nps_version = ''0.11'',
      hp_supported_encodings = [''msgpack'', ''json'', ''binary_vector.v1''],
      hp_supported_protocols = [''ncp'', ''nwp'', ''nip'', ''ndp'', ''nop''],
      hp_max_frame_payload = 0xFFFF, hp_ext_support = False, hp_max_concurrent_streams = 32\<rparr>"

datatype handshake_action = Continue | Accept | SilentClose | ErrorClose

record handshake_decision =
  hd_action :: handshake_action
  hd_status :: "string option"
  hd_error :: "string option"
  hd_diagnostic_error :: "string option"
  hd_session_version :: "string option"
  hd_negotiated_encoding :: "string option"
  hd_enabled_encodings :: "string list option"
  hd_supported_protocols :: "string list option"
  hd_max_frame_payload :: "u64 option"
  hd_ext_support :: "bool option"
  hd_max_concurrent_streams :: "u64 option"

definition with_action :: "handshake_action \<Rightarrow> handshake_decision" where
  "with_action a =
     \<lparr>hd_action = a, hd_status = None, hd_error = None, hd_diagnostic_error = None,
      hd_session_version = None, hd_negotiated_encoding = None, hd_enabled_encodings = None,
      hd_supported_protocols = None, hd_max_frame_payload = None, hd_ext_support = None,
      hd_max_concurrent_streams = None\<rparr>"

definition VERSION_INCOMPATIBLE :: string where "VERSION_INCOMPATIBLE = ''NCP-VERSION-INCOMPATIBLE''"
definition PREAMBLE_INVALID :: string where "PREAMBLE_INVALID = ''NCP-PREAMBLE-INVALID''"
definition ENCODING_UNSUPPORTED :: string where "ENCODING_UNSUPPORTED = ''NCP-ENCODING-UNSUPPORTED''"
definition NPS_PROTO_VERSION_INCOMPATIBLE :: string where
  "NPS_PROTO_VERSION_INCOMPATIBLE = ''NPS-PROTO-VERSION-INCOMPATIBLE''"
definition NPS_SERVER_ENCODING_UNSUPPORTED :: string where
  "NPS_SERVER_ENCODING_UNSUPPORTED = ''NPS-SERVER-ENCODING-UNSUPPORTED''"

definition version_error :: handshake_decision where
  "version_error = (with_action ErrorClose)
     \<lparr>hd_status := Some NPS_PROTO_VERSION_INCOMPATIBLE, hd_error := Some VERSION_INCOMPATIBLE\<rparr>"

definition evaluate_preamble :: "bytes \<Rightarrow> nat \<Rightarrow> nat \<Rightarrow> handshake_decision" where
  "evaluate_preamble received elapsed limit =
     (if limit \<noteq> 0 \<and> elapsed \<ge> limit then with_action SilentClose
      else if length received < PREAMBLE_LENGTH then with_action Continue
      else if take PREAMBLE_LENGTH received \<noteq> PREAMBLE_BYTES
      then (with_action SilentClose)\<lparr>hd_diagnostic_error := Some PREAMBLE_INVALID\<rparr>
      else with_action Continue)"

definition evaluate_hello_header :: "frame_header \<Rightarrow> nat \<Rightarrow> nat \<Rightarrow> u64 \<Rightarrow> handshake_decision" where
  "evaluate_hello_header h elapsed limit max_hello_payload =
     (if limit \<noteq> 0 \<and> elapsed \<ge> limit then with_action SilentClose
      else if frame_type h \<noteq> Hello \<or> header_tier h \<noteq> TierJson \<or> flags h AND 0x08 \<noteq> 0
              \<or> is_extended h \<or> payload_length h > max_hello_payload
      then with_action SilentClose
      else with_action Continue)"

definition parse_version :: "string \<Rightarrow> (u64 \<times> u64) option" where
  "parse_version v = (case split_char CHR ''.'' v of
       [major, minor] \<Rightarrow>
         Option.bind (parse_u64 major) (\<lambda>a. Option.bind (parse_u64 minor) (\<lambda>b. Some (a, b)))
     | _ \<Rightarrow> None)"

text \<open>The filter \<open>seen.insert(token)\<close>: keep the first occurrence of each token.\<close>

fun keep_first :: "string set \<Rightarrow> string list \<Rightarrow> string list" where
  "keep_first seen [] = []"
| "keep_first seen (x # xs) =
     (if x \<in> seen then keep_first seen xs else x # keep_first (insert x seen) xs)"

definition negotiate_handshake :: "handshake_profile \<Rightarrow> hello_frame \<Rightarrow> handshake_decision" where
  "negotiate_handshake server client =
     (case (parse_version (hp_min_version server), parse_version (hp_nps_version server),
            parse_version (unwrap_or (hf_nps_version client) (hf_min_version client)),
            parse_version (hf_nps_version client)) of
        (Some server_min, Some server_max, Some client_min, Some client_max) \<Rightarrow>
          if server_min > server_max \<or> client_min > client_max then version_error
          else
            let overlap_min = max server_min client_min;
                overlap_max = min server_max client_max
            in if overlap_min > overlap_max then version_error
               else
                 let server_encodings = set (hp_supported_encodings server)
                 in (case find (\<lambda>token. (token = ''msgpack'' \<or> token = ''json'') \<and> token \<in> server_encodings)
                            (hf_supported_encodings client) of
                       None \<Rightarrow> (with_action ErrorClose)
                                 \<lparr>hd_status := Some NPS_SERVER_ENCODING_UNSUPPORTED,
                                  hd_error := Some ENCODING_UNSUPPORTED\<rparr>
                     | Some stable_enc \<Rightarrow>
                         let protocols = keep_first {}
                               (filter (\<lambda>t. t \<in> set (hp_supported_protocols server)) (hf_supported_protocols client))
                         in if \<not> list_ex (\<lambda>t. t = ''ncp'') protocols \<or> hf_max_frame_payload client = 0
                               \<or> hp_max_frame_payload server = 0 \<or> hf_max_concurrent_streams client = 0
                               \<or> hp_max_concurrent_streams server = 0
                            then version_error
                            else
                              let enabled = (if ''binary_vector.v1'' \<in> server_encodings
                                                \<and> list_ex (\<lambda>t. t = ''binary_vector.v1'') (hf_supported_encodings client)
                                             then [stable_enc, ''binary_vector.v1''] else [stable_enc])
                              in \<lparr>hd_action = Accept, hd_status = None, hd_error = None,
                                  hd_diagnostic_error = None,
                                  hd_session_version =
                                    Some (show_u64 (fst overlap_max) @ ''.'' @ show_u64 (snd overlap_max)),
                                  hd_negotiated_encoding = Some stable_enc,
                                  hd_enabled_encodings = Some enabled,
                                  hd_supported_protocols = Some protocols,
                                  hd_max_frame_payload =
                                    Some (min (hp_max_frame_payload server) (hf_max_frame_payload client)),
                                  hd_ext_support = Some (hp_ext_support server \<and> hf_ext_support client),
                                  hd_max_concurrent_streams =
                                    Some (min (hp_max_concurrent_streams server)
                                              (hf_max_concurrent_streams client))\<rparr>)
      | _ \<Rightarrow> version_error)"

section \<open>Facts about the negotiation\<close>

text \<open>Versions are compared as pairs; the order is used abstractly.\<close>

declare less_eq_prod_simp [simp del] less_prod_simp [simp del]

lemma set_keep_first: "set (keep_first seen xs) = set xs - seen"
  by (induction seen xs rule: keep_first.induct) auto

lemma distinct_keep_first: "distinct (keep_first seen xs)"
  by (induction seen xs rule: keep_first.induct) (auto simp: set_keep_first)

lemma parse_show_version: "parse_version (show_u64 (fst v) @ CHR ''.'' # show_u64 (snd v)) = Some v"
proof -
  have "CHR ''.'' \<notin> set (show_u64 a)" "CHR ''.'' \<notin> set (show_u64 b)"
    for a b using show_nat_no_dot by (simp_all add: show_u64_def)
  then have "split_char CHR ''.'' (show_u64 a @ [CHR ''.''] @ show_u64 b) = [show_u64 a, show_u64 b]" for a b
    using split_char_join [of "[show_u64 a, show_u64 b]" "CHR ''.''"] by simp
  then show ?thesis by (simp add: parse_version_def)
qed

text \<open>The version range of a client, and what a server and a client have in common.\<close>

definition client_range :: "hello_frame \<Rightarrow> ((u64 \<times> u64) \<times> (u64 \<times> u64)) option" where
  "client_range c =
     Option.bind (parse_version (unwrap_or (hf_nps_version c) (hf_min_version c))) (\<lambda>lo.
       Option.bind (parse_version (hf_nps_version c)) (\<lambda>hi. Some (lo, hi)))"

definition server_range :: "handshake_profile \<Rightarrow> ((u64 \<times> u64) \<times> (u64 \<times> u64)) option" where
  "server_range s =
     Option.bind (parse_version (hp_min_version s)) (\<lambda>lo.
       Option.bind (parse_version (hp_nps_version s)) (\<lambda>hi. Some (lo, hi)))"

definition versions_meet :: "handshake_profile \<Rightarrow> hello_frame \<Rightarrow> (u64 \<times> u64) \<Rightarrow> bool" where
  "versions_meet s c v \<longleftrightarrow> (\<exists>slo shi clo chi. server_range s = Some (slo, shi)
     \<and> client_range c = Some (clo, chi) \<and> slo \<le> v \<and> v \<le> shi \<and> clo \<le> v \<and> v \<le> chi)"

definition stable_common :: "handshake_profile \<Rightarrow> hello_frame \<Rightarrow> string \<Rightarrow> bool" where
  "stable_common s c e \<longleftrightarrow> e \<in> {''msgpack'', ''json''} \<and> e \<in> set (hp_supported_encodings s)
     \<and> e \<in> set (hf_supported_encodings c)"

definition limits_positive :: "handshake_profile \<Rightarrow> hello_frame \<Rightarrow> bool" where
  "limits_positive s c \<longleftrightarrow> hp_max_frame_payload s > 0 \<and> hf_max_frame_payload c > 0
     \<and> hp_max_concurrent_streams s > 0 \<and> hf_max_concurrent_streams c > 0"

lemma versions_meet_ex:
  "(\<exists>v. versions_meet s c v) \<longleftrightarrow> (\<exists>slo shi clo chi. server_range s = Some (slo, shi)
     \<and> client_range c = Some (clo, chi) \<and> slo \<le> shi \<and> clo \<le> chi \<and> max slo clo \<le> min shi chi)"
  (is "?L \<longleftrightarrow> ?R")
proof
  assume ?L
  then obtain v slo shi clo chi where "server_range s = Some (slo, shi)" "client_range c = Some (clo, chi)"
    "slo \<le> v" "v \<le> shi" "clo \<le> v" "v \<le> chi" unfolding versions_meet_def by blast
  moreover from this have "max slo clo \<le> min shi chi" by (simp add: order_trans [of _ v])
  ultimately show ?R by (meson order_trans)
next
  assume ?R
  then obtain slo shi clo chi where "server_range s = Some (slo, shi)" "client_range c = Some (clo, chi)"
    "max slo clo \<le> min shi chi" by blast
  then have "versions_meet s c (max slo clo)" by (auto simp: versions_meet_def)
  then show ?L ..
qed

definition find_encoding :: "handshake_profile \<Rightarrow> hello_frame \<Rightarrow> string option" where
  "find_encoding s c = find (\<lambda>token. (token = ''msgpack'' \<or> token = ''json'')
     \<and> token \<in> set (hp_supported_encodings s)) (hf_supported_encodings c)"

definition common_protocols :: "handshake_profile \<Rightarrow> hello_frame \<Rightarrow> string list" where
  "common_protocols s c =
     keep_first {} (filter (\<lambda>t. t \<in> set (hp_supported_protocols s)) (hf_supported_protocols c))"

lemma find_encoding_None: "find_encoding s c = None \<longleftrightarrow> (\<nexists>e. stable_common s c e)"
  by (auto simp: find_encoding_def stable_common_def find_None_iff)

lemma find_encoding_Some: "find_encoding s c = Some e \<Longrightarrow> stable_common s c e"
  by (auto simp: find_encoding_def stable_common_def find_Some_iff dest: nth_mem)

lemma set_common_protocols:
  "set (common_protocols s c) = set (hf_supported_protocols c) \<inter> set (hp_supported_protocols s)"
  by (auto simp: common_protocols_def set_keep_first)

lemma action_errors [simp]:
  "hd_action (with_action a) = a" "hd_action version_error = ErrorClose"
  by (simp_all add: with_action_def version_error_def)

text \<open>The negotiation as a decision on what the two sides have in common.\<close>

definition accept_decision :: "handshake_profile \<Rightarrow> hello_frame \<Rightarrow> u64 \<times> u64 \<Rightarrow> string \<Rightarrow> handshake_decision" where
  "accept_decision s c v e =
     \<lparr>hd_action = Accept, hd_status = None, hd_error = None, hd_diagnostic_error = None,
      hd_session_version = Some (show_u64 (fst v) @ ''.'' @ show_u64 (snd v)),
      hd_negotiated_encoding = Some e,
      hd_enabled_encodings = Some (if ''binary_vector.v1'' \<in> set (hp_supported_encodings s)
          \<and> ''binary_vector.v1'' \<in> set (hf_supported_encodings c) then [e, ''binary_vector.v1''] else [e]),
      hd_supported_protocols = Some (common_protocols s c),
      hd_max_frame_payload = Some (min (hp_max_frame_payload s) (hf_max_frame_payload c)),
      hd_ext_support = Some (hp_ext_support s \<and> hf_ext_support c),
      hd_max_concurrent_streams = Some (min (hp_max_concurrent_streams s) (hf_max_concurrent_streams c))\<rparr>"

lemma list_ex_eq: "list_ex (\<lambda>t. t = x) xs \<longleftrightarrow> x \<in> set xs"
  by (induction xs) auto

lemma negotiate_by_common:
  assumes "server_range s = Some (slo, shi)" "client_range c = Some (clo, chi)"
    and "slo \<le> shi" "clo \<le> chi" "max slo clo \<le> min shi chi"
  shows "negotiate_handshake s c =
     (case find_encoding s c of
        None \<Rightarrow> (with_action ErrorClose)\<lparr>hd_status := Some NPS_SERVER_ENCODING_UNSUPPORTED,
                 hd_error := Some ENCODING_UNSUPPORTED\<rparr>
      | Some e \<Rightarrow> if ''ncp'' \<in> set (common_protocols s c) \<and> limits_positive s c
                  then accept_decision s c (min shi chi) e else version_error)"
proof -
  have p: "parse_version (hp_min_version s) = Some slo" "parse_version (hp_nps_version s) = Some shi"
    "parse_version (unwrap_or (hf_nps_version c) (hf_min_version c)) = Some clo"
    "parse_version (hf_nps_version c) = Some chi"
    using assms(1,2) by (auto simp: server_range_def client_range_def bind_eq_Some_conv)
  have n: "\<not> (slo > shi \<or> clo > chi)" "\<not> max slo clo > min shi chi"
    using assms(3-5) by (simp_all only: not_less simp_thms de_Morgan_disj)
  show ?thesis
    unfolding negotiate_handshake_def p option.case prod.case Let_def if_not_P [OF n(1)]
      if_not_P [OF n(2)] find_encoding_def [symmetric] common_protocols_def [symmetric]
    by (auto simp: list_ex_eq limits_positive_def word_gt_0 accept_decision_def split: option.split)
qed

lemma negotiate_no_overlap:
  assumes "\<nexists>v. versions_meet s c v"
  shows "negotiate_handshake s c = version_error"
proof -
  have "\<not> (\<exists>slo shi clo chi. server_range s = Some (slo, shi) \<and> client_range c = Some (clo, chi)
     \<and> slo \<le> shi \<and> clo \<le> chi \<and> max slo clo \<le> min shi chi)"
    using assms unfolding versions_meet_ex .
  then show ?thesis
    by (auto simp: negotiate_handshake_def server_range_def client_range_def bind_eq_Some_conv
          not_le not_less Let_def split: option.split)
qed

section \<open>Properties\<close>

text \<open>The server accepts a client exactly when their version ranges
  overlap, they share a stable encoding, both speak NCP and no limit is zero.\<close>

theorem negotiate_accept_iff:
  "hd_action (negotiate_handshake s c) = Accept \<longleftrightarrow>
     (\<exists>v. versions_meet s c v) \<and> (\<exists>e. stable_common s c e)
     \<and> ''ncp'' \<in> set (hf_supported_protocols c) \<inter> set (hp_supported_protocols s)
     \<and> limits_positive s c"
proof (cases "\<exists>v. versions_meet s c v")
  case True
  then obtain slo shi clo chi where "server_range s = Some (slo, shi)" "client_range c = Some (clo, chi)"
    "slo \<le> shi" "clo \<le> chi" "max slo clo \<le> min shi chi" unfolding versions_meet_ex by blast
  from negotiate_by_common [OF this] True show ?thesis
    using find_encoding_None [of s c] find_encoding_Some [of s c]
    by (auto simp: set_common_protocols accept_decision_def with_action_def split: option.split)
next
  case False
  then show ?thesis by (simp add: negotiate_no_overlap)
qed

text \<open>What an accepted session agrees on is within what both sides offered:
  the version is the highest that both support, the encoding is the first of the client's stable
  encodings that the server has, the protocols are the common ones without repetition, and no
  limit exceeds either side's.\<close>

theorem negotiate_agreed:
  assumes "hd_action (negotiate_handshake s c) = Accept"
  shows "\<exists>v ver enc ps mp ms.
      hd_session_version (negotiate_handshake s c) = Some ver \<and> parse_version ver = Some v
    \<and> versions_meet s c v \<and> (\<forall>v'. versions_meet s c v' \<longrightarrow> v' \<le> v)
    \<and> hd_negotiated_encoding (negotiate_handshake s c) = Some enc \<and> stable_common s c enc
    \<and> find (\<lambda>t. stable_common s c t) (hf_supported_encodings c) = Some enc
    \<and> hd_supported_protocols (negotiate_handshake s c) = Some ps \<and> distinct ps
    \<and> set ps = set (hf_supported_protocols c) \<inter> set (hp_supported_protocols s)
    \<and> hd_max_frame_payload (negotiate_handshake s c) = Some mp \<and> mp > 0
    \<and> mp \<le> hp_max_frame_payload s \<and> mp \<le> hf_max_frame_payload c
    \<and> hd_max_concurrent_streams (negotiate_handshake s c) = Some ms \<and> ms > 0
    \<and> ms \<le> hp_max_concurrent_streams s \<and> ms \<le> hf_max_concurrent_streams c"
proof -
  have "\<exists>v. versions_meet s c v"
    using assms negotiate_no_overlap [of s c] by force
  then obtain slo shi clo chi where r: "server_range s = Some (slo, shi)"
    "client_range c = Some (clo, chi)" "slo \<le> shi" "clo \<le> chi" "max slo clo \<le> min shi chi"
    unfolding versions_meet_ex by blast
  obtain e where e: "find_encoding s c = Some e" "limits_positive s c"
    and n: "negotiate_handshake s c = accept_decision s c (min shi chi) e"
    using negotiate_by_common [OF r] assms by (auto split: option.splits if_splits)
  have v: "versions_meet s c (min shi chi)"
    using r by (auto simp: versions_meet_def)
  have best: "v' \<le> min shi chi" if "versions_meet s c v'" for v'
    using that r(1,2) by (auto simp: versions_meet_def)
  have "find (\<lambda>t. stable_common s c t) (hf_supported_encodings c) = find_encoding s c"
    unfolding find_encoding_def by (intro find_cong) (auto simp: stable_common_def)
  then show ?thesis
    unfolding n accept_decision_def using e find_encoding_Some [OF e(1)] v best
    by (intro exI [of _ "min shi chi"])
       (auto simp: parse_show_version set_common_protocols common_protocols_def distinct_keep_first
          set_keep_first limits_positive_def min_def)
qed

definition demo_hello :: hello_frame where
  "demo_hello = hello_new ''0.9'' [''binary_vector.v1'', ''json''] [''nwp'', ''ncp'', ''x'']"

lemma demo_versions:
  "parse_version ''0.1'' = Some (0, 1)" "parse_version ''0.11'' = Some (0, 11)"
  "parse_version ''0.9'' = Some (0, 9)"
  by (simp_all add: parse_version_def parse_eval)

lemma demo_negotiation:
  "hd_action (negotiate_handshake profile_default demo_hello) = Accept"
  "hd_session_version (negotiate_handshake profile_default demo_hello) = Some ''0.9''"
  by (simp_all add: negotiate_handshake_def profile_default_def demo_hello_def hello_new_def
        demo_versions less_eq_prod_simp less_prod_simp max_def min_def Let_def show_eval
        DEFAULT_MAX_FRAME_PAYLOAD_def DEFAULT_MAX_CONCURRENT_STREAMS_def)

theorem negotiate_agreed_witness:
  "hd_session_version (negotiate_handshake profile_default demo_hello) = Some ''0.9''
   \<and> (\<exists>enc. hd_negotiated_encoding (negotiate_handshake profile_default demo_hello) = Some enc
         \<and> stable_common profile_default demo_hello enc)"
  using negotiate_agreed [OF demo_negotiation(1)] demo_negotiation(2) by blast

end
