(* ===== verification/Ncp_Transport.thy ===== *)
theory Ncp_Transport
  imports Ncp_Handshake
begin

text \<open>
  \<^verbatim>\<open>nps-ncp/src/transport.rs\<close>: the native transport. A TCP stream is the bytes still to be read,
  what a read reports when they run out, the bytes written so far and the number of bytes after
  which a write fails; flushing a TCP stream does nothing. Opening the connection and the
  outcome of the two timers are arguments. The main result is the agreement of the two sides of
  the handshake.
\<close>

section \<open>Streams\<close>

record tcp =
  incoming :: bytes
  input_eof :: bool
  input_error :: string
  outgoing :: bytes
  write_limit :: "(nat \<times> string) option"
  shutdown_fault :: "string option"
  closed :: bool

text \<open>A step on a stream: a result and the stream after it.\<close>

type_synonym ('e, 'a) step = "tcp \<Rightarrow> ('e + 'a) \<times> tcp"

definition and_then :: "('e, 'a) step \<Rightarrow> ('a \<Rightarrow> ('e, 'b) step) \<Rightarrow> ('e, 'b) step" where
  "and_then m f s = (case m s of (Inl e, s') \<Rightarrow> (Inl e, s') | (Inr x, s') \<Rightarrow> f x s')"

definition give :: "('e + 'a) \<Rightarrow> ('e, 'a) step" where
  "give r s = (r, s)"

definition map_err :: "('e \<Rightarrow> 'f) \<Rightarrow> ('e, 'a) step \<Rightarrow> ('f, 'a) step" where
  "map_err g m s = (case m s of (Inl e, s') \<Rightarrow> (Inl (g e), s') | (Inr x, s') \<Rightarrow> (Inr x, s'))"

definition read_exact :: "nat \<Rightarrow> (bool \<times> string, bytes) step" where
  "read_exact n s =
     (if n \<le> length (incoming s) then (Inr (take n (incoming s)), s\<lparr>incoming := drop n (incoming s)\<rparr>)
      else (Inl (input_eof s, input_error s), s\<lparr>incoming := []\<rparr>))"

definition write_all :: "bytes \<Rightarrow> (string, unit) step" where
  "write_all bs s = (case write_limit s of
       None \<Rightarrow> (Inr (), s\<lparr>outgoing := outgoing s @ bs\<rparr>)
     | Some (n, e) \<Rightarrow>
         if length bs \<le> n
         then (Inr (), s\<lparr>outgoing := outgoing s @ bs, write_limit := Some (n - length bs, e)\<rparr>)
         else (Inl e, s\<lparr>outgoing := outgoing s @ take n bs, write_limit := Some (0, e)\<rparr>))"

definition shut_down :: "(string, unit) step" where
  "shut_down s = (case shutdown_fault s of
       None \<Rightarrow> (Inr (), s\<lparr>closed := True\<rparr>)
     | Some e \<Rightarrow> (Inl e, s))"

section \<open>Headers and payloads\<close>

definition read_io :: "nat \<Rightarrow> (nps_error, bytes) step" where
  "read_io n = map_err (\<lambda>e. IoError (snd e)) (read_exact n)"

definition read_frame_header :: "(nps_error, frame_header \<times> bytes) step" where
  "read_frame_header =
     and_then (read_io 2) (\<lambda>peek.
       let ext = (peek ! 1 AND 0x80 \<noteq> 0);
           remaining = (if ext then 8 - 2 else 4 - 2)
       in and_then (read_io remaining) (\<lambda>rest.
            let raw = peek @ rest
            in and_then (give (header_parse raw)) (\<lambda>header. give (Ok (header, raw)))))"

definition read_payload :: "nat \<Rightarrow> (nps_error, bytes) step" where
  "read_payload n = read_io n"

definition decode_handshake_payload :: "serde \<Rightarrow> frame_header \<Rightarrow> bytes \<Rightarrow> frame_dict nps_result" where
  "decode_handshake_payload sd h payload = (case header_tier h of
       TierJson \<Rightarrow> decode_json sd payload
     | TierMsgPack \<Rightarrow> decode_msgpack sd payload
     | TierBinaryVector \<Rightarrow> decode_binary_vector sd payload
     | TierReserved \<Rightarrow> Err (CodecError ''Unsupported handshake encoding tier: reserved (0x03).''))"

definition encode_frame :: "serde \<Rightarrow> frame_type \<Rightarrow> frame_dict \<Rightarrow> encoding_tier \<Rightarrow> bytes nps_result" where
  "encode_frame sd ft d tier =
     try_res (case tier of
         TierJson \<Rightarrow> encode_json sd d
       | TierMsgPack \<Rightarrow> encode_msgpack sd d
       | TierBinaryVector \<Rightarrow> encode_binary_vector sd d
       | TierReserved \<Rightarrow> Err (CodecError ''reserved encoding tier 0x03''))
     (\<lambda>payload. let header = header_new ft tier True (of_nat (length payload))
                in Ok (header_to_bytes header @ payload))"

section \<open>Sessions\<close>

record ncp_session =
  ses_stream :: tcp
  ses_caps :: caps_frame
  ses_policy :: encoding_policy

definition send_frame :: "serde \<Rightarrow> frame_type \<Rightarrow> frame_dict \<Rightarrow> encoding_tier \<Rightarrow> ncp_session
    \<Rightarrow> unit nps_result \<times> ncp_session" where
  "send_frame sd ft d tier ses =
     (let (r, s) = and_then (give (encode_frame sd ft d tier)) (\<lambda>wire.
                   and_then (give (header_parse wire)) (\<lambda>header.
                   and_then (give (ensure_allows (ses_policy ses) header)) (\<lambda>_.
                   map_err IoError (write_all wire)))) (ses_stream ses)
      in (r, ses\<lparr>ses_stream := s\<rparr>))"

definition recv_rest :: "serde \<Rightarrow> encoding_policy \<Rightarrow> bytes \<Rightarrow> (nps_error, (frame_type \<times> frame_dict) option) step" where
  "recv_rest sd policy fst_byte =
     and_then (read_io 1) (\<lambda>snd_byte.
       let ext = (snd_byte ! 0 AND 0x80 \<noteq> 0);
           remaining = (if ext then 8 - 2 else 4 - 2)
       in and_then (read_io remaining) (\<lambda>rest.
          let raw = [fst_byte ! 0, snd_byte ! 0] @ rest
          in and_then (give (header_parse raw)) (\<lambda>header.
             and_then (give (ensure_allows policy header)) (\<lambda>_.
             and_then (read_payload (unat (payload_length header))) (\<lambda>payload.
             and_then (give (decode_handshake_payload sd header payload)) (\<lambda>d.
               give (Ok (Some (frame_type header, d)))))))))"

definition recv_frame :: "serde \<Rightarrow> ncp_session
    \<Rightarrow> (frame_type \<times> frame_dict) option nps_result \<times> ncp_session" where
  "recv_frame sd ses =
     (let (r, s) = (case read_exact 1 (ses_stream ses) of
          (Inr b, s') \<Rightarrow> recv_rest sd (ses_policy ses) b s'
        | (Inl (True, e), s') \<Rightarrow> (Ok None, s')
        | (Inl (False, e), s') \<Rightarrow> (Err (IoError e), s'))
      in (r, ses\<lparr>ses_stream := s\<rparr>))"

definition session_close :: "ncp_session \<Rightarrow> unit nps_result \<times> ncp_session" where
  "session_close ses = (let (r, s) = map_err IoError shut_down (ses_stream ses) in (r, ses\<lparr>ses_stream := s\<rparr>))"

section \<open>The client\<close>

datatype connect_error = HandshakeErr string string | NpsErr nps_error

definition HANDSHAKE_UNEXPECTED_FRAME :: string where
  "HANDSHAKE_UNEXPECTED_FRAME = ''NCP-HANDSHAKE-UNEXPECTED-FRAME''"

definition connect_session :: "serde \<Rightarrow> hello_frame \<Rightarrow> (connect_error, caps_frame \<times> encoding_policy) step" where
  "connect_session sd hello =
     and_then (map_err (\<lambda>e. NpsErr (IoError e)) (write_all PREAMBLE_BYTES)) (\<lambda>_.
     and_then (map_err NpsErr (give (encode_frame sd Hello (hello_to_dict hello) TierJson))) (\<lambda>hello_wire.
     and_then (map_err (\<lambda>e. NpsErr (IoError e)) (write_all hello_wire)) (\<lambda>_.
     and_then (map_err NpsErr read_frame_header) (\<lambda>(header, _).
     and_then (map_err NpsErr (read_payload (unat (payload_length header)))) (\<lambda>payload.
       if frame_type header = Error
       then and_then (map_err NpsErr (give (decode_handshake_payload sd header payload))) (\<lambda>d.
            and_then (map_err NpsErr (give (error_from_dict d))) (\<lambda>err.
              give (Err (HandshakeErr (ef_error_code err) (ef_message err)))))
       else if frame_type header \<noteq> Caps
       then give (Err (HandshakeErr HANDSHAKE_UNEXPECTED_FRAME
              (''Expected CapsFrame (0x'' @ hex2 (as_u8 Caps) @ ''), got 0x''
                 @ hex2 (as_u8 (frame_type header)) @ ''.'')))
       else
         let negotiated_tier = header_tier header
         in and_then (map_err NpsErr (give (decode_handshake_payload sd header payload))) (\<lambda>d.
            and_then (map_err NpsErr (give (caps_from_dict d))) (\<lambda>caps.
              give (Ok (caps, from_enabled_encodings negotiated_tier (cf_enabled_encodings caps))))))))))"

definition connect_detailed :: "serde \<Rightarrow> hello_frame \<Rightarrow> string + tcp \<Rightarrow> connect_error + ncp_session" where
  "connect_detailed sd hello opened = (case opened of
       Inl e \<Rightarrow> Err (NpsErr (IoError e))
     | Inr s0 \<Rightarrow> (case connect_session sd hello s0 of
           (Inl e, s) \<Rightarrow> Err e
         | (Inr (caps, policy), s) \<Rightarrow> Ok \<lparr>ses_stream = s, ses_caps = caps, ses_policy = policy\<rparr>))"

definition connect :: "serde \<Rightarrow> hello_frame \<Rightarrow> string + tcp \<Rightarrow> ncp_session nps_result" where
  "connect sd hello opened = (case connect_detailed sd hello opened of
       Inl (HandshakeErr c m) \<Rightarrow> Err (FrameError (''['' @ c @ ''] '' @ m))
     | Inl (NpsErr e) \<Rightarrow> Err e
     | Inr ses \<Rightarrow> Ok ses)"

section \<open>The server\<close>

record server_options =
  so_max_hello_payload :: u64
  so_preamble_read_timeout :: nat
  so_hello_read_timeout :: nat
  so_handshake_profile :: handshake_profile

definition server_options_default :: server_options where
  "server_options_default =
     \<lparr>so_max_hello_payload = 0xFFFF, so_preamble_read_timeout = 10 * 1000000000,
      so_hello_read_timeout = 5 * 1000000000, so_handshake_profile = profile_default\<rparr>"

record server_connection =
  sc_stream :: tcp
  sc_client_hello :: hello_frame
  sc_handshake_profile :: handshake_profile

definition hello_read :: "serde \<Rightarrow> server_options \<Rightarrow> (nps_error, hello_frame) step" where
  "hello_read sd opts =
     and_then read_frame_header (\<lambda>(header, _).
       let decision = evaluate_hello_header header 0 (so_hello_read_timeout opts) (so_max_hello_payload opts)
       in if hd_action decision \<noteq> Continue
          then give (Err (FrameError ''Invalid native NCP Hello header.''))
          else and_then (read_payload (unat (payload_length header))) (\<lambda>payload.
               and_then (give (decode_json sd payload)) (\<lambda>d. give (hello_from_dict d))))"

text \<open>\<open>preamble_late\<close> and \<open>hello_late\<close> tell whether the timers fire before the reads complete.\<close>

definition accept_connection :: "serde \<Rightarrow> server_options \<Rightarrow> bool \<Rightarrow> bool \<Rightarrow> string + tcp
    \<Rightarrow> server_connection nps_result" where
  "accept_connection sd opts preamble_late hello_late accepted = (case accepted of
       Inl e \<Rightarrow> Err (IoError e)
     | Inr s0 \<Rightarrow>
         if preamble_late then Err (IoError ''NCP preamble read timed out.'')
         else (case read_io PREAMBLE_LENGTH s0 of
             (Inl e, s) \<Rightarrow> Err e
           | (Inr buf, s) \<Rightarrow> try_res (preamble_validate buf) (\<lambda>_.
               if hello_late then Err (IoError ''NCP Hello read timed out.'')
               else (case hello_read sd opts s of
                   (Inl e, s') \<Rightarrow> Err e
                 | (Inr hello, s') \<Rightarrow> Ok \<lparr>sc_stream = s', sc_client_hello = hello,
                       sc_handshake_profile = so_handshake_profile opts\<rparr>))))"

definition reject :: "serde \<Rightarrow> error_frame \<Rightarrow> server_connection \<Rightarrow> unit nps_result \<times> tcp" where
  "reject sd err conn = (case encode_frame sd Error (error_to_dict err) TierJson of
       Inl e \<Rightarrow> (Err e, sc_stream conn)
     | Inr wire \<Rightarrow>
         let (write_res, s) = map_err IoError (write_all wire) (sc_stream conn)
         in (write_res, snd (shut_down s)))"

definition accept :: "serde \<Rightarrow> caps_frame \<Rightarrow> server_connection \<Rightarrow> ncp_session nps_result \<times> tcp" where
  "accept sd server_caps conn =
     (let negotiation = negotiate_handshake (sc_handshake_profile conn) (sc_client_hello conn)
      in if hd_action negotiation \<noteq> Accept
         then
           let error_code = unwrap_or VERSION_INCOMPATIBLE (hd_error negotiation);
               status = unwrap_or NPS_PROTO_VERSION_INCOMPATIBLE (hd_status negotiation);
               err = \<lparr>ef_error_code = error_code,
                      ef_message = ''Native NCP handshake negotiation failed.'',
                      ef_detail = Some (JObject [(''status'', JString status)])\<rparr>
           in (case reject sd err conn of
                 (Inl e, s) \<Rightarrow> (Err e, s)
               | (Inr _, s) \<Rightarrow> (Err (FrameError (''['' @ error_code
                                  @ ''] Native NCP handshake negotiation failed.'')), s))
         else
           let tier = (if hd_negotiated_encoding negotiation = Some ''msgpack'' then TierMsgPack else TierJson);
               bv = (case hd_enabled_encodings negotiation of
                       None \<Rightarrow> False | Some items \<Rightarrow> list_ex (\<lambda>i. i = ''binary_vector.v1'') items);
               policy = with_binary_vector tier bv;
               caps = server_caps\<lparr>cf_session_version := hd_session_version negotiation,
                        cf_negotiated_encoding := hd_negotiated_encoding negotiation,
                        cf_enabled_encodings := hd_enabled_encodings negotiation,
                        cf_supported_protocols := hd_supported_protocols negotiation,
                        cf_max_frame_payload := hd_max_frame_payload negotiation,
                        cf_ext_support := hd_ext_support negotiation,
                        cf_max_concurrent_streams := hd_max_concurrent_streams negotiation\<rparr>
           in (case encode_frame sd Caps (caps_to_dict caps) (default_tier policy) of
                 Inl e \<Rightarrow> (Err e, sc_stream conn)
               | Inr wire \<Rightarrow>
                   (case map_err IoError (write_all wire) (sc_stream conn) of
                      (Inl e, s) \<Rightarrow> (Err e, s)
                    | (Inr _, s) \<Rightarrow> (Ok \<lparr>ses_stream = s, ses_caps = caps, ses_policy = policy\<rparr>, s))))"

end
