(* ===== verification/Ncp_Transport_Props.thy ===== *)
theory Ncp_Transport_Props
  imports Ncp_Transport
begin

text \<open>
  Properties of the native transport: what one side sends, the other receives; the two sides of a
  handshake agree on the session; a session never passes a frame its policy does not allow.
\<close>

section \<open>Reading what was written\<close>

lemma and_then_simps [simp]:
  "m s = (Inr x, s') \<Longrightarrow> and_then m f s = f x s'"
  "m s = (Inl e, s') \<Longrightarrow> and_then m f s = (Inl e, s')"
  by (simp_all add: and_then_def)

lemma give_simps [simp]: "give r s = (r, s)"
  by (simp add: give_def)

lemma map_err_simps [simp]:
  "m s = (Inr x, s') \<Longrightarrow> map_err g m s = (Inr x, s')"
  "m s = (Inl e, s') \<Longrightarrow> map_err g m s = (Inl (g e), s')"
  by (simp_all add: map_err_def)

lemma read_exact_append:
  "incoming s = a @ b \<Longrightarrow> length a = n \<Longrightarrow> read_exact n s = (Inr a, s\<lparr>incoming := b\<rparr>)"
  by (auto simp: read_exact_def)

lemma read_io_append:
  "incoming s = a @ b \<Longrightarrow> length a = n \<Longrightarrow> read_io n s = (Ok a, s\<lparr>incoming := b\<rparr>)"
  by (simp add: read_io_def read_exact_append)

lemma read_payload_append:
  "incoming s = a @ b \<Longrightarrow> length a = n \<Longrightarrow> read_payload n s = (Ok a, s\<lparr>incoming := b\<rparr>)"
  by (simp add: read_payload_def read_io_append)

lemma header_bytes_shape:
  obtains rest where "header_to_bytes (header_new ft tier fin len) =
      [as_u8 ft, flags (header_new ft tier fin len)] @ rest"
    "length rest = (if flags (header_new ft tier fin len) AND 0x80 \<noteq> 0 then 8 - 2 else 4 - 2)"
  by (rule that [of "drop 2 (header_to_bytes (header_new ft tier fin len))"])
     (simp_all add: header_to_bytes_def header_new_ext header_new_flags(1))

lemma read_frame_header_wire:
  assumes "incoming s = frame_wire ft tier fin payload @ rest" "length payload < 2 ^ 32"
  shows "read_frame_header s =
    (Ok (header_new ft tier fin (of_nat (length payload)),
         header_to_bytes (header_new ft tier fin (of_nat (length payload)))),
     s\<lparr>incoming := payload @ rest\<rparr>)"
proof -
  let ?h = "header_new ft tier fin (of_nat (length payload))"
  obtain tl where hb: "header_to_bytes ?h = [as_u8 ft, flags ?h] @ tl"
    "length tl = (if flags ?h AND 0x80 \<noteq> 0 then 8 - 2 else 4 - 2)"
    using header_bytes_shape .
  have in0: "incoming s = [as_u8 ft, flags ?h] @ (tl @ payload @ rest)"
    using assms(1) hb(1) by (simp add: frame_wire_def)
  have "unat (of_nat (length payload) :: u64) < 2 ^ 32"
    using assms(2) by (subst unat_of_nat_64) simp_all
  from header_parse_to_bytes [OF this, of ft tier fin "[]"] have "header_parse ([as_u8 ft, flags ?h] @ tl) = Ok ?h"
    using hb(1) by simp
  moreover have "read_io 2 s = (Ok [as_u8 ft, flags ?h], s\<lparr>incoming := tl @ payload @ rest\<rparr>)"
    by (rule read_io_append [OF in0]) simp
  moreover have "read_io (if flags ?h AND 0x80 \<noteq> 0 then 8 - 2 else 4 - 2) (s\<lparr>incoming := tl @ payload @ rest\<rparr>) =
      (Ok tl, s\<lparr>incoming := payload @ rest\<rparr>)"
    using read_io_append [of "s\<lparr>incoming := tl @ payload @ rest\<rparr>" tl "payload @ rest", OF _ hb(2)] by simp
  ultimately show ?thesis
    by (simp add: read_frame_header_def Let_def hb(1) del: One_nat_def)
qed

lemma encode_frame_wire:
  "encode_frame sd ft d tier = try_res (encode_tier sd tier d) (\<lambda>b. Ok (frame_wire ft tier True b))"
  by (simp add: encode_frame_def encode_tier_def frame_wire_def Let_def split: encoding_tier.split)

lemma decode_handshake_new:
  "tier_faithful sd tier d \<Longrightarrow>
   decode_handshake_payload sd (header_new ft tier fin len) b = decode_tier sd tier b"
  by (cases tier) (simp_all add: decode_handshake_payload_def header_new_flags decode_tier_def tier_faithful_def)

lemma write_all_ok: "write_limit s = None \<Longrightarrow> write_all bs s = (Inr (), s\<lparr>outgoing := outgoing s @ bs\<rparr>)"
  by (simp add: write_all_def)

lemma frame_wire_cons: "\<exists>b tl. frame_wire ft tier fin payload = b # tl"
  by (simp add: frame_wire_def header_to_bytes_def)

section \<open>Sending and receiving in a session\<close>

lemma recv_wire:
  assumes "incoming s = frame_wire ft tier fin payload @ rest" "length payload < 2 ^ 32"
    and "policy_allows (ses_policy ses) tier ft"
    and "tier_faithful sd tier d" "decode_tier sd tier payload = Ok d'" "ses_stream ses = s"
  shows "recv_frame sd ses = (Ok (Some (ft, d')), ses\<lparr>ses_stream := s\<lparr>incoming := rest\<rparr>\<rparr>)"
proof -
  let ?h = "header_new ft tier fin (of_nat (length payload))"
  obtain tl where hb: "header_to_bytes ?h = [as_u8 ft, flags ?h] @ tl"
    "length tl = (if flags ?h AND 0x80 \<noteq> 0 then 8 - 2 else 4 - 2)"
    using header_bytes_shape .
  have in0: "incoming s = [as_u8 ft] @ ([flags ?h] @ (tl @ payload @ rest))"
    using assms(1) hb(1) by (simp add: frame_wire_def)
  have u: "unat (of_nat (length payload) :: u64) = length payload"
    using assms(2) by (intro unat_of_nat_64) simp
  have parse: "header_parse (as_u8 ft # flags ?h # tl) = Ok ?h"
    using header_parse_to_bytes [of "of_nat (length payload)" ft tier fin "[]"] hb(1) assms(2) u by simp
  have r1: "read_exact 1 s = (Inr [as_u8 ft], s\<lparr>incoming := [flags ?h] @ tl @ payload @ rest\<rparr>)"
    using read_exact_append [OF in0] by simp
  have r2: "read_io 1 (s\<lparr>incoming := [flags ?h] @ tl @ payload @ rest\<rparr>) =
      (Ok [flags ?h], s\<lparr>incoming := tl @ payload @ rest\<rparr>)"
    by (subst read_io_append) simp_all
  have r3: "read_io (if flags ?h AND 0x80 \<noteq> 0 then 8 - 2 else 4 - 2) (s\<lparr>incoming := tl @ payload @ rest\<rparr>) =
      (Ok tl, s\<lparr>incoming := payload @ rest\<rparr>)"
    using read_io_append [of "s\<lparr>incoming := tl @ payload @ rest\<rparr>" tl "payload @ rest", OF _ hb(2)] by simp
  have r4: "read_payload (length payload) (s\<lparr>incoming := payload @ rest\<rparr>) =
      (Ok payload, s\<lparr>incoming := rest\<rparr>)"
    by (subst read_payload_append) simp_all
  have allow: "ensure_allows (ses_policy ses) ?h = Ok ()"
    using assms(3) by (simp add: ensure_allows_def header_new_flags)
  have dec: "decode_handshake_payload sd ?h payload = Ok d'"
    using assms(4,5) by (simp add: decode_handshake_new)
  have "recv_rest sd (ses_policy ses) [as_u8 ft] (s\<lparr>incoming := [flags ?h] @ tl @ payload @ rest\<rparr>) =
      (Ok (Some (ft, d')), s\<lparr>incoming := rest\<rparr>)"
    unfolding recv_rest_def
    using r2 r3 r4 by (simp add: Let_def parse allow dec u del: One_nat_def)
  then show ?thesis
    unfolding recv_frame_def assms(6) r1 by simp
qed

text \<open>Property C3 (roundtrip). A frame that a session sends is received by the peer: with the
  same policy the peer gets the frame type and the dictionary (up to binary32 precision of a
  BinaryVector search vector), and the bytes that follow stay in its stream.\<close>

theorem send_recv:
  assumes "fst (send_frame sd ft d tier ses) = Ok ()"
    and "tier_faithful sd tier d" "encode_tier sd tier d = Ok payload" "length payload < 2 ^ 32"
    and "ses_policy peer = ses_policy ses"
    and "incoming (ses_stream peer) = drop (length (outgoing (ses_stream ses)))
           (outgoing (ses_stream (snd (send_frame sd ft d tier ses)))) @ rest"
  shows "recv_frame sd peer = (Ok (Some (ft, tier_image tier d)),
     peer\<lparr>ses_stream := (ses_stream peer)\<lparr>incoming := rest\<rparr>\<rparr>)"
proof -
  let ?wire = "frame_wire ft tier True payload"
  have u: "unat (of_nat (length payload) :: u64) < 2 ^ 32"
    using assms(4) by (subst unat_of_nat_64) simp_all
  have enc: "encode_frame sd ft d tier = Ok ?wire" by (simp add: encode_frame_wire assms(3))
  have parse: "header_parse ?wire = Ok (header_new ft tier True (of_nat (length payload)))"
    using header_parse_to_bytes [OF u] by (simp add: frame_wire_def)
  have allow: "policy_allows (ses_policy ses) tier ft"
    using assms(1) by (auto simp: send_frame_def enc parse ensure_allows_def header_new_flags
        split: if_splits)
  moreover have "outgoing (ses_stream (snd (send_frame sd ft d tier ses))) =
      outgoing (ses_stream ses) @ ?wire"
    using assms(1) allow
    by (auto simp: send_frame_def enc parse ensure_allows_def header_new_flags write_all_def map_err_def
        split: option.splits if_splits prod.splits)
  moreover have "decode_tier sd tier payload = Ok (tier_image tier d)"
    using any_tier.dec_enc [OF assms(2,3,4)] .
  ultimately show ?thesis using assms(2,4,5,6) by (intro recv_wire) auto
qed


section \<open>The handshake\<close>

text \<open>The capabilities and the policy the server settles on for a client it accepts.\<close>

definition settled_policy :: "handshake_profile \<Rightarrow> hello_frame \<Rightarrow> encoding_policy" where
  "settled_policy profile hello =
     (let n = negotiate_handshake profile hello
      in \<lparr>default_tier = (if hd_negotiated_encoding n = Some ''msgpack'' then TierMsgPack else TierJson),
          binary_vector_enabled = (case hd_enabled_encodings n of
             None \<Rightarrow> False | Some items \<Rightarrow> BINARY_VECTOR_TOKEN \<in> set items)\<rparr>)"

definition settled_caps :: "handshake_profile \<Rightarrow> hello_frame \<Rightarrow> caps_frame \<Rightarrow> caps_frame" where
  "settled_caps profile hello caps =
     (let n = negotiate_handshake profile hello
      in caps\<lparr>cf_session_version := hd_session_version n,
              cf_negotiated_encoding := hd_negotiated_encoding n,
              cf_enabled_encodings := hd_enabled_encodings n,
              cf_supported_protocols := hd_supported_protocols n,
              cf_max_frame_payload := hd_max_frame_payload n,
              cf_ext_support := hd_ext_support n,
              cf_max_concurrent_streams := hd_max_concurrent_streams n\<rparr>)"

lemma accept_settled:
  assumes "hd_action (negotiate_handshake (sc_handshake_profile conn) (sc_client_hello conn)) = Accept"
    and "encode_tier sd (default_tier (settled_policy (sc_handshake_profile conn) (sc_client_hello conn)))
           (caps_to_dict (settled_caps (sc_handshake_profile conn) (sc_client_hello conn) caps)) = Ok b"
    and "write_limit (sc_stream conn) = None"
  shows "fst (accept sd caps conn) = Ok
      \<lparr>ses_stream = (sc_stream conn)\<lparr>outgoing := outgoing (sc_stream conn) @
          frame_wire Caps (default_tier (settled_policy (sc_handshake_profile conn) (sc_client_hello conn))) True b\<rparr>,
       ses_caps = settled_caps (sc_handshake_profile conn) (sc_client_hello conn) caps,
       ses_policy = settled_policy (sc_handshake_profile conn) (sc_client_hello conn)\<rparr>"
proof -
  let ?n = "negotiate_handshake (sc_handshake_profile conn) (sc_client_hello conn)"
  have pol: "with_binary_vector (if hd_negotiated_encoding ?n = Some ''msgpack'' then TierMsgPack else TierJson)
      (case hd_enabled_encodings ?n of None \<Rightarrow> False | Some items \<Rightarrow> list_ex (\<lambda>i. i = ''binary_vector.v1'') items)
      = settled_policy (sc_handshake_profile conn) (sc_client_hello conn)"
    by (simp add: with_binary_vector_def settled_policy_def Let_def list_ex_eq BINARY_VECTOR_TOKEN_def
        split: option.split)
  show ?thesis
    unfolding accept_def Let_def pol settled_caps_def [unfolded Let_def, symmetric] encode_frame_wire assms(2)
    using assms(1,3) by (simp add: write_all_ok)
qed

lemma hello_read_wire:
  assumes "encode_json sd (hello_to_dict hello) = Ok b" "json_faithful sd (hello_to_dict hello)"
    and "of_nat (length b) \<le> so_max_hello_payload opts" "length b \<le> 0xFFFF"
    and "incoming s = frame_wire Hello TierJson True b @ rest"
  shows "hello_read sd opts s = (Ok hello, s\<lparr>incoming := rest\<rparr>)"
proof -
  let ?h = "header_new Hello TierJson True (of_nat (length b))"
  have u: "unat (of_nat (length b) :: u64) = length b"
    using assms(4) by (intro unat_of_nat_64) simp
  have small: "\<not> (0xFFFF :: u64) < of_nat (length b)"
    using assms(4) u by (simp add: word_less_nat_alt)
  have hdr: "read_frame_header s = (Ok (?h, header_to_bytes ?h), s\<lparr>incoming := b @ rest\<rparr>)"
    using read_frame_header_wire [OF assms(5)] assms(4) by simp
  have ev: "hd_action (evaluate_hello_header ?h 0 lim (so_max_hello_payload opts)) = Continue" for lim
    using assms(3) small by (auto simp: evaluate_hello_header_def header_new_flags header_new_ext)
  have pl: "read_payload (length b) (s\<lparr>incoming := b @ rest\<rparr>) = (Ok b, s\<lparr>incoming := rest\<rparr>)"
    by (subst read_payload_append) simp_all
  have de: "decode_json sd b = Ok (hello_to_dict hello)"
    using json_tier.dec_enc [OF assms(2,1)] assms(4) by simp
  show ?thesis
    unfolding hello_read_def
    using hdr pl ev by (simp add: Let_def u de hello.from_to_dict)
qed

lemma connect_wire:
  assumes "encode_json sd (hello_to_dict hello) = Ok b" "write_limit s = None"
    and "incoming s = frame_wire Caps tier True cb @ rest" "length cb < 2 ^ 32"
    and "tier_faithful sd tier (caps_to_dict caps)" "encode_tier sd tier (caps_to_dict caps) = Ok cb"
    and "tier \<noteq> TierBinaryVector"
  shows "connect_detailed sd hello (Inr s) = Ok
     \<lparr>ses_stream = s\<lparr>incoming := rest, outgoing := outgoing s @ PREAMBLE_BYTES @ frame_wire Hello TierJson True b\<rparr>,
      ses_caps = caps_norm caps,
      ses_policy = from_enabled_encodings tier (cf_enabled_encodings caps)\<rparr>"
proof -
  let ?s2 = "s\<lparr>outgoing := outgoing s @ PREAMBLE_BYTES @ frame_wire Hello TierJson True b\<rparr>"
  let ?h = "header_new Caps tier True (of_nat (length cb))"
  have u: "unat (of_nat (length cb) :: u64) = length cb"
    using assms(4) by (intro unat_of_nat_64) simp
  have enc: "encode_frame sd Hello (hello_to_dict hello) TierJson = Ok (frame_wire Hello TierJson True b)"
    by (simp add: encode_frame_wire encode_tier_def assms(1))
  have hdr: "read_frame_header ?s2 = (Ok (?h, header_to_bytes ?h), ?s2\<lparr>incoming := cb @ rest\<rparr>)"
    using assms(3,4) by (intro read_frame_header_wire) simp_all
  have pl: "read_payload (length cb) (?s2\<lparr>incoming := cb @ rest\<rparr>) = (Ok cb, ?s2\<lparr>incoming := rest\<rparr>)"
    by (subst read_payload_append) simp_all
  have de: "decode_handshake_payload sd ?h cb = Ok (caps_to_dict caps)"
    using any_tier.dec_enc [OF assms(5,6,4)] assms(5,7)
    by (simp add: decode_handshake_new tier_image_def)
  have "connect_session sd hello s = (Ok (caps_norm caps,
      from_enabled_encodings tier (cf_enabled_encodings (caps_norm caps))), ?s2\<lparr>incoming := rest\<rparr>)"
    unfolding connect_session_def
    using hdr pl by (simp add: Let_def u de enc assms(2) write_all_ok caps.from_to_dict header_new_flags)
  moreover have "cf_enabled_encodings (caps_norm caps) = cf_enabled_encodings caps"
    by (simp add: caps_norm_def)
  ultimately show ?thesis by (simp add: connect_detailed_def)
qed

lemma settled_policy_enabled:
  assumes "hd_action (negotiate_handshake profile hello) = Accept"
  shows "from_enabled_encodings (default_tier (settled_policy profile hello))
           (hd_enabled_encodings (negotiate_handshake profile hello)) = settled_policy profile hello"
  by (simp add: from_enabled_encodings_def settled_policy_def Let_def list_ex_eq split: option.split)

text \<open>Property C2 (liveness). A handshake over a stream without faults succeeds whenever the
  server's profile accepts the client's hello and the hello fits the limits: the server reads
  exactly the client's hello, both sides end with the same encoding policy, and the client has
  the capabilities the server settled on.\<close>

theorem handshake_agreement:
  assumes "hd_action (negotiate_handshake (so_handshake_profile opts) hello) = Accept"
    and "encode_json sd (hello_to_dict hello) = Ok hb" "json_faithful sd (hello_to_dict hello)"
    and "length hb \<le> 0xFFFF" "of_nat (length hb) \<le> so_max_hello_payload opts"
    and "encode_tier sd (default_tier (settled_policy (so_handshake_profile opts) hello))
           (caps_to_dict (settled_caps (so_handshake_profile opts) hello caps)) = Ok cb"
    and "length cb < 2 ^ 32"
    and "tier_faithful sd (default_tier (settled_policy (so_handshake_profile opts) hello))
           (caps_to_dict (settled_caps (so_handshake_profile opts) hello caps))"
    and "incoming srv = PREAMBLE_BYTES @ frame_wire Hello TierJson True hb" "outgoing srv = []"
    and "write_limit srv = None" "write_limit cli = None" "outgoing cli = []"
  shows "\<exists>conn server client.
      accept_connection sd opts False False (Inr srv) = Ok conn \<and> sc_client_hello conn = hello
    \<and> fst (accept sd caps conn) = Ok server
    \<and> connect_detailed sd hello (Inr (cli\<lparr>incoming := outgoing (ses_stream server)\<rparr>)) = Ok client
    \<and> outgoing (ses_stream client) = incoming srv
    \<and> ses_policy client = ses_policy server
    \<and> ses_caps server = settled_caps (so_handshake_profile opts) hello caps
    \<and> ses_caps client = caps_norm (ses_caps server)"
proof -
  let ?p = "so_handshake_profile opts"
  let ?tier = "default_tier (settled_policy ?p hello)"
  let ?srv1 = "srv\<lparr>incoming := frame_wire Hello TierJson True hb\<rparr>"
  define conn where "conn = \<lparr>sc_stream = srv\<lparr>incoming := []\<rparr>, sc_client_hello = hello, sc_handshake_profile = ?p\<rparr>"
  define server where "server = \<lparr>ses_stream = (sc_stream conn)\<lparr>outgoing := frame_wire Caps ?tier True cb\<rparr>,
     ses_caps = settled_caps ?p hello caps, ses_policy = settled_policy ?p hello\<rparr>"
  have pre: "read_io PREAMBLE_LENGTH srv = (Ok PREAMBLE_BYTES, ?srv1)"
    by (rule read_io_append [OF assms(9)]) (simp add: PREAMBLE_BYTES_def PREAMBLE_LENGTH_def)
  have hello: "hello_read sd opts ?srv1 = (Ok hello, srv\<lparr>incoming := []\<rparr>)"
    using hello_read_wire [OF assms(2,3,5,4), of ?srv1 "[]"] by simp
  have a: "accept_connection sd opts False False (Inr srv) = Ok conn"
    using preamble_validate_Ok [of PREAMBLE_BYTES]
    by (simp add: accept_connection_def pre hello conn_def)
  have b: "fst (accept sd caps conn) = Ok server"
    using accept_settled [of conn sd caps cb] assms(1,6,10,11) by (simp add: conn_def server_def)
  have tier: "?tier \<noteq> TierBinaryVector" by (simp add: settled_policy_def Let_def)
  have c: "connect_detailed sd hello (Inr (cli\<lparr>incoming := outgoing (ses_stream server)\<rparr>)) = Ok
     \<lparr>ses_stream = cli\<lparr>incoming := [], outgoing := PREAMBLE_BYTES @ frame_wire Hello TierJson True hb\<rparr>,
      ses_caps = caps_norm (settled_caps ?p hello caps), ses_policy = settled_policy ?p hello\<rparr>"
    using connect_wire [OF assms(2), of "cli\<lparr>incoming := outgoing (ses_stream server)\<rparr>" ?tier cb "[]"
        "settled_caps ?p hello caps"] assms(6-8,12,13) tier settled_policy_enabled [OF assms(1)]
    by (simp add: server_def settled_caps_def Let_def)
  from a b c assms(9) show ?thesis by (simp add: conn_def server_def)
qed

definition plain_tcp :: "bytes \<Rightarrow> tcp" where
  "plain_tcp bs = \<lparr>incoming = bs, input_eof = True, input_error = ''early eof'', outgoing = [],
     write_limit = None, shutdown_fault = None, closed = False\<rparr>"

definition two_serde :: "frame_dict \<Rightarrow> frame_dict \<Rightarrow> serde" where
  "two_serde a b = \<lparr>
     json_ser = (\<lambda>d. if d = a then Inr [1] else if d = b then Inr [2] else Inl ''unsupported''),
     json_de = (\<lambda>w. if w = [1] then Inr (JObject a) else if w = [2] then Inr (JObject b) else Inl ''unsupported''),
     mp_ser = (\<lambda>v. Inl ''unsupported''), mp_de = (\<lambda>w. Inl ''unsupported'')\<rparr>"

lemma two_serde_json:
  "encode_json (two_serde a b) a = Ok [1]" "json_faithful (two_serde a b) a" "json_faithful (two_serde a b) b"
  "a \<noteq> b \<Longrightarrow> encode_json (two_serde a b) b = Ok [2]"
  by (auto simp: two_serde_def encode_json_def json_faithful_def codec_err_def split: if_splits)

lemma demo_settled: "default_tier (settled_policy profile_default demo_hello) = TierJson"
  by (simp add: settled_policy_def negotiate_handshake_def profile_default_def demo_hello_def hello_new_def
        demo_versions less_eq_prod_simp less_prod_simp max_def min_def Let_def
        DEFAULT_MAX_FRAME_PAYLOAD_def DEFAULT_MAX_CONCURRENT_STREAMS_def)

definition demo_pair :: serde where
  "demo_pair = two_serde (hello_to_dict demo_hello)
     (caps_to_dict (settled_caps profile_default demo_hello (caps_new ''a'' [])))"

lemma demo_pair_codec:
  "encode_json demo_pair (hello_to_dict demo_hello) = Ok [1]"
  "json_faithful demo_pair (hello_to_dict demo_hello)"
  "encode_tier demo_pair TierJson (caps_to_dict (settled_caps profile_default demo_hello (caps_new ''a'' []))) = Ok [2]"
  "tier_faithful demo_pair TierJson (caps_to_dict (settled_caps profile_default demo_hello (caps_new ''a'' [])))"
proof -
  let ?a = "hello_to_dict demo_hello"
  let ?b = "caps_to_dict (settled_caps profile_default demo_hello (caps_new ''a'' []))"
  have "map_of ?a ''nps_version'' \<noteq> None" "map_of ?b ''nps_version'' = None"
    by (simp_all add: hello_to_dict_def caps_to_dict_def settled_caps_def caps_new_def Let_def)
  then have ne: "?a \<noteq> ?b" by metis
  show "encode_json demo_pair ?a = Ok [1]" "json_faithful demo_pair ?a"
    by (simp_all add: demo_pair_def two_serde_json(1,2))
  show "encode_tier demo_pair TierJson ?b = Ok [2]" "tier_faithful demo_pair TierJson ?b"
    using two_serde_json(3) two_serde_json(4) [OF ne]
    by (simp_all add: demo_pair_def encode_tier_def tier_faithful_def)
qed

theorem handshake_agreement_witness:
  "\<exists>conn server client.
      accept_connection demo_pair server_options_default False False
        (Inr (plain_tcp (PREAMBLE_BYTES @ frame_wire Hello TierJson True [1]))) = Ok conn
    \<and> sc_client_hello conn = demo_hello
    \<and> fst (accept demo_pair (caps_new ''a'' []) conn) = Ok server
    \<and> connect_detailed demo_pair demo_hello
        (Inr ((plain_tcp [])\<lparr>incoming := outgoing (ses_stream server)\<rparr>)) = Ok client
    \<and> ses_policy client = ses_policy server"
proof -
  have pd: "so_handshake_profile server_options_default = profile_default"
    by (simp add: server_options_default_def)
  have lim: "length [1 :: u8] \<le> 0xFFFF" "of_nat (length [1 :: u8]) \<le> so_max_hello_payload server_options_default"
    "length [2 :: u8] < 2 ^ 32"
    by (simp_all add: server_options_default_def)
  have tcp: "incoming (plain_tcp bs) = bs" "outgoing (plain_tcp bs) = []" "write_limit (plain_tcp bs) = None"
    for bs by (simp_all add: plain_tcp_def)
  show ?thesis
    using handshake_agreement [where opts = server_options_default, unfolded pd,
        OF demo_negotiation(1) demo_pair_codec(1,2) lim(1,2) demo_pair_codec(3) [folded demo_settled] lim(3)
           demo_pair_codec(4) [folded demo_settled] tcp(1,2,3) tcp(3) tcp(2)]
    by blast
qed

theorem send_recv_witness:
  "recv_frame demo_serde \<lparr>ses_stream = plain_tcp (frame_wire Anchor TierJson True demo_text @ [9]),
       ses_caps = caps_new ''a'' [], ses_policy = policy_new TierJson\<rparr> =
     (Ok (Some (Anchor, demo_dict)),
      \<lparr>ses_stream = plain_tcp [9], ses_caps = caps_new ''a'' [], ses_policy = policy_new TierJson\<rparr>)"
proof -
  let ?ses = "\<lambda>bs. \<lparr>ses_stream = plain_tcp bs, ses_caps = caps_new ''a'' [], ses_policy = policy_new TierJson\<rparr>"
  have enc: "encode_tier demo_serde TierJson demo_dict = Ok demo_text"
    by (simp add: encode_tier_def encode_json_def demo_serde_def codec_err_def)
  have parse: "header_parse (frame_wire Anchor TierJson True demo_text) =
      Ok (header_new Anchor TierJson True (of_nat (length demo_text)))"
    using header_parse_to_bytes [of "of_nat (length demo_text)" Anchor TierJson True demo_text]
    by (simp add: frame_wire_def demo_text_def)
  have sent: "send_frame demo_serde Anchor demo_dict TierJson (?ses []) =
      (Ok (), (?ses [])\<lparr>ses_stream := (plain_tcp [])\<lparr>outgoing := frame_wire Anchor TierJson True demo_text\<rparr>\<rparr>)"
    by (simp add: send_frame_def encode_frame_wire enc parse ensure_allows_def policy_allows_def
          header_new_flags policy_new_def write_all_def plain_tcp_def)
  have "fst (send_frame demo_serde Anchor demo_dict TierJson (?ses [])) = Ok ()" by (simp add: sent)
  moreover have "length demo_text < 2 ^ 32" by (simp add: demo_text_def)
  moreover have "incoming (ses_stream (?ses (frame_wire Anchor TierJson True demo_text @ [9]))) =
      drop (length (outgoing (ses_stream (?ses []))))
        (outgoing (ses_stream (snd (send_frame demo_serde Anchor demo_dict TierJson (?ses []))))) @ [9]"
    unfolding sent by (simp add: plain_tcp_def)
  ultimately show ?thesis
    using send_recv [OF _ demo_premises(1) enc, of Anchor "?ses []"
        "?ses (frame_wire Anchor TierJson True demo_text @ [9])" "[9]"]
    by (simp add: tier_image_def plain_tcp_def)
qed

end
