(* ===== verification/Ncp_Failover.thy ===== *)
theory Ncp_Failover
  imports Nps_Prelude
begin

text \<open>
  \<^verbatim>\<open>nps-ncp/src/failover.rs\<close>: reconnecting a session across an Anchor failover. The resolver and the
  connect step are closures of the caller; they may have effects, so they act on a state \<open>'w\<close> of
  the surroundings. The loop of \<open>connect\<close> is recursion on the attempts that are left.
\<close>

datatype failover_config_error = MaxAttemptsTooSmall u32

datatype 'e failover_error = Exhausted 'e | Resolve 'e

definition DEFAULT_MAX_ATTEMPTS :: u32 where "DEFAULT_MAX_ATTEMPTS = 2"

definition NID_MISMATCH :: string where "NID_MISMATCH = ''NCP-NID-MISMATCH''"

fun into_inner :: "'e failover_error \<Rightarrow> 'e" where
  "into_inner (Exhausted e) = e"
| "into_inner (Resolve e) = e"

record ('w, 's, 'e) connector =
  resolve_active :: "'w \<Rightarrow> ('e + string \<times> u16) \<times> 'w"
  connect_fn :: "string \<Rightarrow> u16 \<Rightarrow> 'w \<Rightarrow> ('e + 's) \<times> 'w"
  is_failover_shaped :: "'e \<Rightarrow> bool"
  max_attempts :: u32

definition with_max_attempts :: "('w \<Rightarrow> ('e + string \<times> u16) \<times> 'w)
    \<Rightarrow> (string \<Rightarrow> u16 \<Rightarrow> 'w \<Rightarrow> ('e + 's) \<times> 'w) \<Rightarrow> ('e \<Rightarrow> bool) \<Rightarrow> u32
    \<Rightarrow> failover_config_error + ('w, 's, 'e) connector" where
  "with_max_attempts r c m n =
     (if n < 1 then Err (MaxAttemptsTooSmall n)
      else Ok \<lparr>resolve_active = r, connect_fn = c, is_failover_shaped = m, max_attempts = n\<rparr>)"

definition connector_new :: "('w \<Rightarrow> ('e + string \<times> u16) \<times> 'w)
    \<Rightarrow> (string \<Rightarrow> u16 \<Rightarrow> 'w \<Rightarrow> ('e + 's) \<times> 'w) \<Rightarrow> ('e \<Rightarrow> bool)
    \<Rightarrow> failover_config_error + ('w, 's, 'e) connector" where
  "connector_new r c m = with_max_attempts r c m DEFAULT_MAX_ATTEMPTS"

text \<open>The loop: \<open>None\<close> is the panic of \<open>expect\<close> when no failure was captured.\<close>

fun connect_loop :: "('w, 's, 'e) connector \<Rightarrow> nat \<Rightarrow> 'e option \<Rightarrow> 'w
    \<Rightarrow> ('e failover_error + 's) option \<times> 'w" where
  "connect_loop c 0 last_err w = (map_option (\<lambda>e. Err (Exhausted e)) last_err, w)"
| "connect_loop c (Suc n) last_err w = (case resolve_active c w of
       (Inl e, w1) \<Rightarrow> (Some (Err (Resolve e)), w1)
     | (Inr (host, port), w1) \<Rightarrow> (case connect_fn c host port w1 of
           (Inr session, w2) \<Rightarrow> (Some (Ok session), w2)
         | (Inl e, w2) \<Rightarrow> if is_failover_shaped c e then connect_loop c n (Some e) w2
                          else (Some (Err (Exhausted e)), w2)))"

definition failover_connect :: "('w, 's, 'e) connector \<Rightarrow> 'w \<Rightarrow> ('e failover_error + 's) option \<times> 'w" where
  "failover_connect c w = connect_loop c (unat (max_attempts c)) None w"

definition is_nid_mismatch :: "string \<Rightarrow> bool" where
  "is_nid_mismatch code \<longleftrightarrow> code = NID_MISMATCH"

section \<open>What an attempt does\<close>

text \<open>The reference: one attempt resolves and connects; a run is the attempts up to the first
  whose outcome ends it.\<close>

datatype ('s, 'e) attempt = Unresolved 'e | Refused 'e | Connected 's

definition attempt :: "('w, 's, 'e) connector \<Rightarrow> 'w \<Rightarrow> ('s, 'e) attempt \<times> 'w" where
  "attempt c w = (case resolve_active c w of
       (Inl e, w1) \<Rightarrow> (Unresolved e, w1)
     | (Inr (host, port), w1) \<Rightarrow> (case connect_fn c host port w1 of
           (Inr session, w2) \<Rightarrow> (Connected session, w2)
         | (Inl e, w2) \<Rightarrow> (Refused e, w2)))"

definition retried :: "('w, 's, 'e) connector \<Rightarrow> ('s, 'e) attempt \<Rightarrow> bool" where
  "retried c a = (case a of Refused e \<Rightarrow> is_failover_shaped c e | _ \<Rightarrow> False)"

fun attempts :: "('w, 's, 'e) connector \<Rightarrow> nat \<Rightarrow> 'w \<Rightarrow> ('s, 'e) attempt list \<times> 'w" where
  "attempts c 0 w = ([], w)"
| "attempts c (Suc n) w = (case attempt c w of
       (a, w1) \<Rightarrow> if retried c a then (case attempts c n w1 of (as, w2) \<Rightarrow> (a # as, w2)) else ([a], w1))"

fun outcome :: "('s, 'e) attempt \<Rightarrow> 'e failover_error + 's" where
  "outcome (Unresolved e) = Err (Resolve e)"
| "outcome (Refused e) = Err (Exhausted e)"
| "outcome (Connected s) = Ok s"

lemma attempts_length: "length (fst (attempts c n w)) \<le> n"
  by (induction c n w rule: attempts.induct) (auto split: prod.split)

lemma attempts_nonempty: "n > 0 \<Longrightarrow> fst (attempts c n w) \<noteq> []"
  by (cases n) (auto split: prod.split)

lemma attempts_Nil: "0 < n \<Longrightarrow> attempts c n w = ([], w') \<longleftrightarrow> False"
  using attempts_nonempty [of n c w] by auto

lemma attempts_retried: "a \<in> set (butlast (fst (attempts c n w))) \<Longrightarrow> retried c a"
  by (induction c n w rule: attempts.induct) (auto split: prod.splits if_splits)

lemma attempts_stop:
  "length (fst (attempts c n w)) < n \<Longrightarrow> \<not> retried c (last (fst (attempts c n w)))"
proof (induction c n w rule: attempts.induct)
  case (2 c n w)
  then show ?case
    using attempts_nonempty [of n c]
    by (cases n) (auto split: prod.splits if_splits)
qed simp

lemma connect_loop_attempts:
  "connect_loop c n l w =
     (if n = 0 then map_option (\<lambda>e. Err (Exhausted e)) l
      else Some (outcome (last (fst (attempts c n w)))), snd (attempts c n w))"
proof (induction c n l w rule: connect_loop.induct)
  case (2 c n l w)
  show ?case
    using 2 attempts_Nil [of n c]
    by (auto simp: attempt_def retried_def split: prod.splits sum.splits)
qed simp

section \<open>Properties\<close>

text \<open>Property C4 (equivalence). \<open>connect\<close> never panics. It makes at least one and at most
  \<open>max_attempts\<close> attempts, each of which resolves the active Anchor anew; every attempt but the
  last failed with a failure that asks for failover, an early stop means the last one did not,
  and the result is the outcome of the last attempt.\<close>

theorem failover_connect_attempts:
  assumes "with_max_attempts r f m n = Ok c"
  shows "\<exists>as w'. attempts c (unat n) w = (as, w') \<and> as \<noteq> [] \<and> length as \<le> unat n
    \<and> (\<forall>a \<in> set (butlast as). retried c a)
    \<and> (length as < unat n \<longrightarrow> \<not> retried c (last as))
    \<and> failover_connect c w = (Some (outcome (last as)), w')"
proof -
  have n: "unat n > 0" "max_attempts c = n"
    using assms by (auto simp: with_max_attempts_def unat_gt_0 split: if_splits)
  show ?thesis
    using attempts_length [of c "unat n" w] attempts_nonempty [OF n(1), of c w] attempts_retried [of _ c "unat n" w]
      attempts_stop [of c "unat n" w] n connect_loop_attempts [of c "unat n" None w]
    by (intro exI [of _ "fst (attempts c (unat n) w)"] exI [of _ "snd (attempts c (unat n) w)"])
       (auto simp: failover_connect_def)
qed

text \<open>A resolver that counts its calls: the first Anchor is superseded, the second answers.\<close>

definition demo_connector :: "(nat, string, string) connector" where
  "demo_connector =
     \<lparr>resolve_active = (\<lambda>k. (Ok (if k = 0 then ''old'' else ''new'', 17433), Suc k)),
      connect_fn = (\<lambda>host port k. (if host = ''old'' then Err NID_MISMATCH else Ok host, k)),
      is_failover_shaped = is_nid_mismatch, max_attempts = 2\<rparr>"

theorem failover_connect_attempts_witness:
  "failover_connect demo_connector 0 = (Some (Ok ''new''), 2)"
proof -
  have mk: "with_max_attempts (resolve_active demo_connector) (connect_fn demo_connector) is_nid_mismatch 2 =
      Ok demo_connector"
    by (simp add: with_max_attempts_def demo_connector_def)
  have two: "unat (2 :: u32) = Suc (Suc 0)" by simp
  have "attempts demo_connector (unat (2 :: u32)) 0 = ([Refused NID_MISMATCH, Connected ''new''], 2)"
    unfolding two by (simp add: attempt_def demo_connector_def retried_def is_nid_mismatch_def)
  then show ?thesis using failover_connect_attempts [OF mk, of 0] by auto
qed

end
