(* ===== verification/Nop_Models.thy ===== *)
theory Nop_Models
  imports Json
begin

text \<open>
  The data of the NOP orchestrator: limits (\<^verbatim>\<open>constants.rs\<close>), policies, back-off and task states
  (\<^verbatim>\<open>models.rs\<close>), the typed task, node and stream models (\<^verbatim>\<open>orch_models.rs\<close>) and the results
  (\<^verbatim>\<open>result.rs\<close>).
\<close>

section \<open>Limits and error codes\<close>

definition MAX_DAG_NODES :: nat where "MAX_DAG_NODES = 32"
definition MAX_DELEGATE_CHAIN_DEPTH :: int where "MAX_DELEGATE_CHAIN_DEPTH = 3"
definition MAX_CONDITION_LENGTH :: nat where "MAX_CONDITION_LENGTH = 512"
definition MAX_INPUT_MAPPING_DEPTH :: nat where "MAX_INPUT_MAPPING_DEPTH = 8"
definition DEFAULT_TIMEOUT_MS :: u64 where "DEFAULT_TIMEOUT_MS = 30000"
definition MAX_TIMEOUT_MS :: u64 where "MAX_TIMEOUT_MS = 3600000"

definition TASK_TIMEOUT :: string where "TASK_TIMEOUT = ''NOP-TASK-TIMEOUT''"
definition TASK_DAG_INVALID :: string where "TASK_DAG_INVALID = ''NOP-TASK-DAG-INVALID''"
definition TASK_DAG_CYCLE :: string where "TASK_DAG_CYCLE = ''NOP-TASK-DAG-CYCLE''"
definition TASK_DAG_TOO_LARGE :: string where "TASK_DAG_TOO_LARGE = ''NOP-TASK-DAG-TOO-LARGE''"
definition TASK_ALREADY_COMPLETED :: string where "TASK_ALREADY_COMPLETED = ''NOP-TASK-ALREADY-COMPLETED''"
definition TASK_CANCELLED :: string where "TASK_CANCELLED = ''NOP-TASK-CANCELLED''"
definition DELEGATE_CHAIN_TOO_DEEP :: string where "DELEGATE_CHAIN_TOO_DEEP = ''NOP-DELEGATE-CHAIN-TOO-DEEP''"
definition DELEGATE_TIMEOUT :: string where "DELEGATE_TIMEOUT = ''NOP-DELEGATE-TIMEOUT''"
definition SYNC_DEPENDENCY_FAILED :: string where "SYNC_DEPENDENCY_FAILED = ''NOP-SYNC-DEPENDENCY-FAILED''"
definition STREAM_SEQ_GAP :: string where "STREAM_SEQ_GAP = ''NOP-STREAM-SEQ-GAP''"
definition STREAM_NID_MISMATCH :: string where "STREAM_NID_MISMATCH = ''NOP-STREAM-NID-MISMATCH''"
definition RESOURCE_INSUFFICIENT :: string where "RESOURCE_INSUFFICIENT = ''NOP-RESOURCE-INSUFFICIENT''"
definition CONDITION_EVAL_ERROR :: string where "CONDITION_EVAL_ERROR = ''NOP-CONDITION-EVAL-ERROR''"
definition INPUT_MAPPING_ERROR :: string where "INPUT_MAPPING_ERROR = ''NOP-INPUT-MAPPING-ERROR''"
definition COMPENSATION_FAILED :: string where "COMPENSATION_FAILED = ''NOP-COMPENSATION-FAILED''"
definition COMPENSATION_NOT_SUPPORTED :: string where
  "COMPENSATION_NOT_SUPPORTED = ''NOP-COMPENSATION-NOT-SUPPORTED''"

section \<open>Compensation policies\<close>

definition runs_on_failure :: "string option \<Rightarrow> bool" where
  "runs_on_failure p \<longleftrightarrow> p \<in> {Some ''best_effort'', Some ''strict'', Some ''on_failure'', Some ''always''}"

definition runs_on_success :: "string option \<Rightarrow> bool" where
  "runs_on_success p \<longleftrightarrow> p = Some ''always''"

definition is_strict :: "string option \<Rightarrow> bool" where
  "is_strict p \<longleftrightarrow> p = Some ''strict''"

section \<open>Back-off\<close>

datatype backoff_strategy = BackoffFixed | BackoffLinear | BackoffExponential

text \<open>\<open>BackoffStrategy::compute_delay_ms\<close>, with the overflow of \<open>u64\<close> arithmetic as \<open>None\<close>: the
  panic of a build with overflow checks.\<close>

definition backoff_delay_ms :: "backoff_strategy \<Rightarrow> u64 \<Rightarrow> u64 \<Rightarrow> u32 \<Rightarrow> u64 option" where
  "backoff_delay_ms s base_ms max_ms attempt =
     (let raw = (case s of
          BackoffFixed \<Rightarrow> Some (unat base_ms)
        | BackoffLinear \<Rightarrow> Some (unat base_ms * (unat attempt + 1))
        | BackoffExponential \<Rightarrow> if unat attempt < 64 then Some (unat base_ms * 2 ^ unat attempt) else None)
      in case raw of
           None \<Rightarrow> None
         | Some r \<Rightarrow> if r < 2 ^ 64 then Some (min (of_nat r) max_ms) else None)"

record retry_policy =
  rp_max_retries :: u8
  rp_backoff :: string
  rp_initial_delay_ms :: u32
  rp_max_delay_ms :: u32
  rp_retry_on :: "string list option"

definition retry_policy_default :: retry_policy where
  "retry_policy_default = \<lparr>rp_max_retries = 0, rp_backoff = ''exponential'',
     rp_initial_delay_ms = 1000, rp_max_delay_ms = 30000, rp_retry_on = None\<rparr>"

text \<open>\<open>RetryPolicy::compute_delay_ms\<close> works in \<open>f64\<close>. The factor is a power of two or an integer below
  \<open>2\<^sup>32\<close>: a product that does not exceed the cap is exact, one that does is cut to the cap, and
  the conversion to \<open>u32\<close> drops the fraction, so the delay is that of the exact product. The
  exponent is \<open>attempt as i32\<close>, negative from \<open>2\<^sup>31\<close> on.\<close>

definition retry_delay_ms :: "retry_policy \<Rightarrow> u32 \<Rightarrow> u32" where
  "retry_delay_ms p attempt =
     (let init = unat (rp_initial_delay_ms p);
          product = (if rp_backoff p = ''fixed'' then init
                     else if rp_backoff p = ''linear'' then init * unat (attempt + 1)
                     else if sint attempt \<ge> 0 then init * 2 ^ unat attempt
                     else init div 2 ^ nat (- sint attempt))
      in of_nat (min product (unat (rp_max_delay_ms p))))"

section \<open>Task states\<close>

datatype task_state =
    Pending | Preflight | Running | WaitingSync | Completed | Failed | Cancelled | Skipped
  | Compensating | Compensated

definition task_state_from_str :: "string \<Rightarrow> task_state option" where
  "task_state_from_str s =
     (if s = ''pending'' then Some Pending
      else if s = ''preflight'' then Some Preflight
      else if s = ''running'' then Some Running
      else if s = ''waiting_sync'' then Some WaitingSync
      else if s = ''completed'' then Some Completed
      else if s = ''failed'' then Some Failed
      else if s = ''cancelled'' then Some Cancelled
      else if s = ''skipped'' then Some Skipped
      else if s = ''compensating'' then Some Compensating
      else if s = ''compensated'' then Some Compensated
      else None)"

fun task_state_as_str :: "task_state \<Rightarrow> string" where
  "task_state_as_str Pending = ''pending''"
| "task_state_as_str Preflight = ''preflight''"
| "task_state_as_str Running = ''running''"
| "task_state_as_str WaitingSync = ''waiting_sync''"
| "task_state_as_str Completed = ''completed''"
| "task_state_as_str Failed = ''failed''"
| "task_state_as_str Cancelled = ''cancelled''"
| "task_state_as_str Skipped = ''skipped''"
| "task_state_as_str Compensating = ''compensating''"
| "task_state_as_str Compensated = ''compensated''"

definition task_state_is_terminal :: "task_state \<Rightarrow> bool" where
  "task_state_is_terminal s \<longleftrightarrow> s \<in> {Completed, Failed, Cancelled, Compensated}"

text \<open>\<open>NopTaskStatus\<close> is a view of the raw status dictionary.\<close>

definition status_task_id :: "frame_dict \<Rightarrow> string" where
  "status_task_id raw = unwrap_or [] (opt_str raw ''task_id'')"

definition status_state :: "frame_dict \<Rightarrow> task_state option" where
  "status_state raw = Option.bind (opt_str raw ''state'') task_state_from_str"

definition status_is_terminal :: "frame_dict \<Rightarrow> bool" where
  "status_is_terminal raw = unwrap_or False (map_option task_state_is_terminal (status_state raw))"

section \<open>Tasks\<close>

record dag_node =
  dn_id :: string
  dn_action :: string
  dn_agent :: string
  dn_input_from :: "string list option"
  dn_input_mapping :: "(string \<times> jvalue) list option"
  dn_timeout_ms :: "u32 option"
  dn_retry_policy :: "retry_policy option"
  dn_condition :: "string option"
  dn_min_required :: u32
  dn_compensate_action :: "string option"
  dn_compensate_params_mapping :: "(string \<times> jvalue) list option"

record dag_edge =
  de_from :: string
  de_to :: string

record task_dag =
  td_nodes :: "dag_node list"
  td_edges :: "dag_edge list"

record task_context =
  tc_session_id :: "string option"
  tc_trace_id :: "string option"
  tc_span_id :: "string option"
  tc_trace_flags :: "u8 option"
  tc_baggage :: "(string \<times> string) list option"
  tc_custom :: "jvalue option"

definition task_context_default :: task_context where
  "task_context_default = \<lparr>tc_session_id = None, tc_trace_id = None, tc_span_id = None,
     tc_trace_flags = None, tc_baggage = None, tc_custom = None\<rparr>"

record stream_error =
  se_code :: string
  se_message :: string
  se_retryable :: bool

record task_frame =
  tf_task_id :: string
  tf_dag :: task_dag
  tf_timeout_ms :: u64
  tf_max_retries :: u8
  tf_priority :: string
  tf_callback_url :: "string option"
  tf_callback_secret :: "string option"
  tf_preflight :: bool
  tf_context :: "task_context option"
  tf_request_id :: "string option"
  tf_delegate_depth :: int
  tf_compensation_policy :: string

definition task_frame_new :: "string \<Rightarrow> task_dag \<Rightarrow> task_frame" where
  "task_frame_new task_id dag =
     \<lparr>tf_task_id = task_id, tf_dag = dag, tf_timeout_ms = DEFAULT_TIMEOUT_MS, tf_max_retries = 2,
      tf_priority = ''normal'', tf_callback_url = None, tf_callback_secret = None,
      tf_preflight = False, tf_context = None, tf_request_id = None, tf_delegate_depth = 0,
      tf_compensation_policy = ''best_effort''\<rparr>"

record delegate_frame =
  dg_parent_task_id :: string
  dg_subtask_id :: string
  dg_node_id :: string
  dg_target_agent_nid :: string
  dg_action :: string
  dg_params :: "jvalue option"
  dg_delegated_scope :: jvalue
  dg_deadline_at :: string
  dg_idempotency_key :: "string option"
  dg_priority :: "string option"
  dg_context :: "task_context option"
  dg_delegate_depth :: int
  dg_target_cluster_anchor :: "string option"

record align_stream_frame =
  al_stream_id :: string
  al_task_id :: string
  al_subtask_id :: string
  al_seq :: u64
  al_payload_ref :: "string option"
  al_data :: "jvalue option"
  al_window_size :: "u32 option"
  al_is_final :: bool
  al_sender_nid :: string
  al_error :: "stream_error option"
  al_ack_seq :: "u64 option"
  al_nak_seq :: "u64 option"

definition final_ok :: "string \<Rightarrow> string \<Rightarrow> string \<Rightarrow> u64 \<Rightarrow> jvalue option \<Rightarrow> align_stream_frame" where
  "final_ok task_id subtask_id sender_nid sq data =
     \<lparr>al_stream_id = [], al_task_id = task_id, al_subtask_id = subtask_id, al_seq = sq,
      al_payload_ref = None, al_data = data, al_window_size = None, al_is_final = True,
      al_sender_nid = sender_nid, al_error = None, al_ack_seq = None, al_nak_seq = None\<rparr>"

definition final_err :: "string \<Rightarrow> string \<Rightarrow> string \<Rightarrow> u64 \<Rightarrow> stream_error \<Rightarrow> align_stream_frame" where
  "final_err task_id subtask_id sender_nid sq err =
     \<lparr>al_stream_id = [], al_task_id = task_id, al_subtask_id = subtask_id, al_seq = sq,
      al_payload_ref = None, al_data = None, al_window_size = None, al_is_final = True,
      al_sender_nid = sender_nid, al_error = Some err, al_ack_seq = None, al_nak_seq = None\<rparr>"

section \<open>Results\<close>

record saga_result =
  sg_attempted :: nat
  sg_succeeded :: nat
  sg_failed :: nat
  sg_failed_node_ids :: "string list"

record task_result =
  tr_task_id :: string
  tr_final_state :: task_state
  tr_aggregated_result :: "jvalue option"
  tr_error_code :: "string option"
  tr_error_message :: "string option"
  tr_node_results :: "(string \<times> jvalue) list"
  tr_compensation :: "saga_result option"

definition result_success :: "string \<Rightarrow> jvalue option \<Rightarrow> (string \<times> jvalue) list
    \<Rightarrow> saga_result option \<Rightarrow> task_result" where
  "result_success task_id agg results saga =
     \<lparr>tr_task_id = task_id, tr_final_state = Completed, tr_aggregated_result = agg,
      tr_error_code = None, tr_error_message = None, tr_node_results = results,
      tr_compensation = saga\<rparr>"

definition result_failure :: "string \<Rightarrow> string \<Rightarrow> string \<Rightarrow> saga_result option \<Rightarrow> task_result" where
  "result_failure task_id err_code message saga =
     \<lparr>tr_task_id = task_id, tr_final_state = Failed, tr_aggregated_result = None,
      tr_error_code = Some err_code, tr_error_message = Some message, tr_node_results = [],
      tr_compensation = saga\<rparr>"

definition result_cancelled :: "string \<Rightarrow> string \<Rightarrow> task_result" where
  "result_cancelled task_id reason =
     \<lparr>tr_task_id = task_id, tr_final_state = Cancelled, tr_aggregated_result = None,
      tr_error_code = Some TASK_CANCELLED, tr_error_message = Some reason, tr_node_results = [],
      tr_compensation = None\<rparr>"

section \<open>Facts\<close>

lemma task_state_str_iff: "task_state_from_str s = Some st \<longleftrightarrow> s = task_state_as_str st"
proof
  assume "task_state_from_str s = Some st"
  then show "s = task_state_as_str st" by (auto simp: task_state_from_str_def split: if_splits)
next
  assume "s = task_state_as_str st"
  then show "task_state_from_str s = Some st" by (cases st) (simp_all add: task_state_from_str_def)
qed

lemma backoff_capped: "backoff_delay_ms s base_ms max_ms attempt = Some d \<Longrightarrow> d \<le> max_ms"
  by (auto simp: backoff_delay_ms_def Let_def split: option.splits if_splits)

lemma retry_delay_capped: "retry_delay_ms p attempt \<le> rp_max_delay_ms p"
proof -
  have "unat (retry_delay_ms p attempt) \<le> unat (rp_max_delay_ms p)"
    unfolding retry_delay_ms_def Let_def unat_of_nat
    by (rule order_trans [OF mod_less_eq_dividend]) simp
  then show ?thesis by (simp add: word_le_nat_alt)
qed

end
