(* ===== verification/Nop_Store.thy ===== *)
theory Nop_Store
  imports Nop_Models
begin

text \<open>
  \<^verbatim>\<open>nps-nop/src/store.rs\<close>: the task store. The locale \<open>task_store\<close> is the contract of the trait
  \<open>NopTaskStore\<close>; \<open>InMemoryNopTaskStore\<close>, an association list of task records, interprets it. A
  poisoned lock is not modelled: no operation panics while it holds the lock.
\<close>

record subtask_record =
  st_node_id :: string
  st_subtask_id :: string
  st_state :: task_state
  st_result :: "jvalue option"
  st_error_code :: "string option"
  st_error_message :: "string option"
  st_attempt_count :: int

record task_record =
  tk_task_id :: string
  tk_frame :: task_frame
  tk_state :: task_state
  tk_started_at_ms :: nat
  tk_completed_at_ms :: "nat option"
  tk_subtasks :: "(string \<times> subtask_record) list"

record subtask_update =
  su_result :: "jvalue option"
  su_error_code :: "string option"
  su_error_message :: "string option"
  su_attempt :: int

definition subtask_update_default :: subtask_update where
  "subtask_update_default = \<lparr>su_result = None, su_error_code = None, su_error_message = None, su_attempt = 0\<rparr>"

section \<open>The in-memory store\<close>

type_synonym mem_store = "(string \<times> task_record) list"

definition store_new :: mem_store where "store_new = []"

definition store_save :: "task_record \<Rightarrow> mem_store \<Rightarrow> (string + unit) \<times> mem_store" where
  "store_save r s =
     (if map_of s (tk_task_id r) \<noteq> None then (Err (''Task already exists: '' @ tk_task_id r), s)
      else (Ok (), AList.update (tk_task_id r) r s))"

definition store_get :: "mem_store \<Rightarrow> string \<Rightarrow> task_record option" where
  "store_get s task_id = map_of s task_id"

definition store_update_state :: "string \<Rightarrow> task_state \<Rightarrow> mem_store \<Rightarrow> mem_store" where
  "store_update_state task_id st s = AList.map_entry task_id (\<lambda>r. r\<lparr>tk_state := st\<rparr>) s"

text \<open>The entry that is created when the node has none yet, and what an update changes in it.\<close>

definition apply_update :: "string \<Rightarrow> string \<Rightarrow> task_state \<Rightarrow> subtask_update \<Rightarrow> subtask_record option
    \<Rightarrow> subtask_record" where
  "apply_update node_id subtask_id st u old =
     (let sub = (case old of
            Some r \<Rightarrow> r
          | None \<Rightarrow> \<lparr>st_node_id = node_id, st_subtask_id = subtask_id, st_state = st, st_result = None,
                     st_error_code = None, st_error_message = None, st_attempt_count = 0\<rparr>);
          sub = sub\<lparr>st_state := st\<rparr>;
          sub = (if su_attempt u > 0 then sub\<lparr>st_attempt_count := su_attempt u\<rparr> else sub);
          sub = (if su_result u \<noteq> None then sub\<lparr>st_result := su_result u\<rparr> else sub);
          sub = (if su_error_code u \<noteq> None then sub\<lparr>st_error_code := su_error_code u\<rparr> else sub)
      in (if su_error_message u \<noteq> None then sub\<lparr>st_error_message := su_error_message u\<rparr> else sub))"

definition record_subtask :: "string \<Rightarrow> string \<Rightarrow> task_state \<Rightarrow> subtask_update \<Rightarrow> task_record \<Rightarrow> task_record" where
  "record_subtask node_id subtask_id st u r =
     r\<lparr>tk_subtasks := AList.update node_id
         (apply_update node_id subtask_id st u (map_of (tk_subtasks r) node_id)) (tk_subtasks r)\<rparr>"

definition store_update_subtask :: "string \<Rightarrow> string \<Rightarrow> string \<Rightarrow> task_state \<Rightarrow> subtask_update
    \<Rightarrow> mem_store \<Rightarrow> mem_store" where
  "store_update_subtask task_id node_id subtask_id st u s =
     AList.map_entry task_id (record_subtask node_id subtask_id st u) s"

section \<open>The contract of a task store\<close>

locale task_store =
  fixes save :: "task_record \<Rightarrow> 's \<Rightarrow> (string + unit) \<times> 's"
    and look :: "'s \<Rightarrow> string \<Rightarrow> task_record option"
    and set_state :: "string \<Rightarrow> task_state \<Rightarrow> 's \<Rightarrow> 's"
    and set_subtask :: "string \<Rightarrow> string \<Rightarrow> string \<Rightarrow> task_state \<Rightarrow> subtask_update \<Rightarrow> 's \<Rightarrow> 's"
  assumes save_new: "look s (tk_task_id r) = None \<Longrightarrow> fst (save r s) = Ok ()
        \<and> look (snd (save r s)) x = (if x = tk_task_id r then Some r else look s x)"
    and save_old: "look s (tk_task_id r) \<noteq> None \<Longrightarrow> (\<exists>e. fst (save r s) = Err e) \<and> snd (save r s) = s"
    and look_set_state: "look (set_state i st s) x =
        (if x = i then map_option (\<lambda>r. r\<lparr>tk_state := st\<rparr>) (look s i) else look s x)"
    and look_set_subtask: "look (set_subtask i n b st u s) x =
        (if x = i then map_option (record_subtask n b st u) (look s i) else look s x)"
begin

text \<open>No operation changes the frame of a task that is there, or drops it.\<close>

lemma frame_stable_save: "look s x = Some r \<Longrightarrow> look (snd (save r' s)) x = Some r"
  using save_new save_old by (metis option.distinct(1))

lemma frame_stable_state:
  "look s x = Some r \<Longrightarrow> \<exists>r'. look (set_state i st s) x = Some r' \<and> tk_frame r' = tk_frame r"
  by (auto simp: look_set_state)

lemma frame_stable_subtask:
  "look s x = Some r \<Longrightarrow> \<exists>r'. look (set_subtask i n b st u s) x = Some r' \<and> tk_frame r' = tk_frame r
     \<and> tk_state r' = tk_state r"
  by (auto simp: look_set_subtask record_subtask_def)

lemma others_untouched:
  "x \<noteq> i \<Longrightarrow> look (set_state i st s) x = look s x"
  "x \<noteq> i \<Longrightarrow> look (set_subtask i n b st' u s) x = look s x"
  by (simp_all add: look_set_state look_set_subtask)

lemma state_after: "look s i \<noteq> None \<Longrightarrow> \<exists>r. look (set_state i st s) i = Some r \<and> tk_state r = st"
  by (auto simp: look_set_state)

lemma save_twice:
  assumes "look s (tk_task_id r) = None" "tk_task_id r' = tk_task_id r"
  shows "\<exists>e. fst (save r' (snd (save r s))) = Err e"
  using save_old [of "snd (save r s)" r'] save_new [OF assms(1)] assms(2) by auto

end

interpretation mem: task_store store_save store_get store_update_state store_update_subtask
  by unfold_locales
     (auto simp: store_save_def store_get_def store_update_state_def store_update_subtask_def
        update_conv' map_of_map_entry split: option.splits)

end
