(* ===== verification/Nop_Dag.thy ===== *)
theory Nop_Dag
  imports Nop_Models
begin

text \<open>
  \<^verbatim>\<open>nps-nop/src/validation.rs\<close>, the DAG part: the checks of \<open>validate_dag\<close> in their order and Kahn's
  topological sort. The hash maps are association lists. The invariant of the sort is proved for
  any edge list; it gives that the order is topological and that a DAG is rejected for a cycle
  exactly when its edges have one.
\<close>

section \<open>Validation\<close>

record dag_validation =
  dv_is_valid :: bool
  dv_error_code :: "string option"
  dv_error_message :: "string option"
  dv_topological_order :: "string list option"

definition dag_success :: "string list \<Rightarrow> dag_validation" where
  "dag_success order = \<lparr>dv_is_valid = True, dv_error_code = None, dv_error_message = None,
     dv_topological_order = Some order\<rparr>"

definition dag_failure :: "string \<Rightarrow> string \<Rightarrow> dag_validation" where
  "dag_failure err_code message = \<lparr>dv_is_valid = False, dv_error_code = Some err_code,
     dv_error_message = Some message, dv_topological_order = None\<rparr>"

text \<open>The insertion loop: the first id that is already present, or the ids.\<close>

fun first_duplicate :: "string list \<Rightarrow> dag_node list \<Rightarrow> string + string list" where
  "first_duplicate seen [] = Inr seen"
| "first_duplicate seen (n # ns) =
     (if dn_id n \<in> set seen then Inl (dn_id n) else first_duplicate (seen @ [dn_id n]) ns)"

text \<open>The edge loop: error message, or the adjacency lists and in-degrees.\<close>

fun add_edges :: "string list \<Rightarrow> dag_edge list \<Rightarrow> (string \<times> string list) list \<times> (string \<times> int) list
    \<Rightarrow> string + ((string \<times> string list) list \<times> (string \<times> int) list)" where
  "add_edges ids [] (adj, deg) = Inr (adj, deg)"
| "add_edges ids (e # es) (adj, deg) =
     (if de_from e \<notin> set ids
      then Inl (''Edge references unknown source node: '' @ quoted (de_from e) @ ''.'')
      else if de_to e \<notin> set ids
      then Inl (''Edge references unknown target node: '' @ quoted (de_to e) @ ''.'')
      else add_edges ids es
             (AList.map_entry (de_from e) (\<lambda>l. l @ [de_to e]) adj,
              AList.map_entry (de_to e) (\<lambda>d. d + 1) deg))"

text \<open>The first unknown upstream of an \<open>input_from\<close> list, with the node that names it.\<close>

fun unknown_upstream :: "string list \<Rightarrow> dag_node list \<Rightarrow> (string \<times> string) option" where
  "unknown_upstream ids [] = None"
| "unknown_upstream ids (n # ns) =
     (case find (\<lambda>u. u \<notin> set ids) (unwrap_or [] (dn_input_from n)) of
        Some u \<Rightarrow> Some (dn_id n, u)
      | None \<Rightarrow> unknown_upstream ids ns)"

section \<open>Kahn's algorithm\<close>

text \<open>The loop over the neighbours; \<open>None\<close> is the panic of \<open>unwrap\<close> on a missing entry.\<close>

fun relax :: "string list \<Rightarrow> string list \<times> (string \<times> int) list
    \<Rightarrow> (string list \<times> (string \<times> int) list) option" where
  "relax [] (queue, rem) = Some (queue, rem)"
| "relax (v # vs) (queue, rem) =
     (case map_of rem v of
        None \<Rightarrow> None
      | Some d \<Rightarrow>
          let rem' = AList.map_entry v (\<lambda>d. d - 1) rem
          in relax vs (if d - 1 = 0 then queue @ [v] else queue, rem'))"

definition positive_entries :: "(string \<times> int) list \<Rightarrow> nat" where
  "positive_entries rem = length (filter (\<lambda>(k, d). d > 0) rem)"

lemma positive_entries_map_entry:
  "map_of rem v = Some d \<Longrightarrow>
   positive_entries (AList.map_entry v (\<lambda>d. d - 1) rem) + (if d - 1 = 0 then 1 else 0) \<le> positive_entries rem"
proof (induction rem)
  case (Cons p rem)
  obtain k e where "p = (k, e)" by (cases p)
  with Cons show ?case
    by (cases "k = v") (auto simp: positive_entries_def split: if_splits)
qed simp

lemma relax_measure:
  "relax vs (q, rem) = Some (q', rem') \<Longrightarrow>
   length q' + positive_entries rem' \<le> length q + positive_entries rem"
proof (induction vs "(q, rem)" arbitrary: q rem rule: relax.induct)
  case (2 v vs q rem)
  then obtain d where d: "map_of rem v = Some d" by (auto split: option.splits)
  from 2(1) [OF d refl] 2(2) positive_entries_map_entry [OF d] d
  show ?case by (auto simp: Let_def split: if_splits)
qed simp

function kahn :: "(string \<times> string list) list \<Rightarrow> string list \<Rightarrow> (string \<times> int) list \<Rightarrow> string list
    \<Rightarrow> string list option" where
  "kahn adj [] rem srt = Some srt"
| "kahn adj (current # queue) rem srt =
     (case relax (unwrap_or [] (map_of adj current)) (queue, rem) of
        None \<Rightarrow> None
      | Some (queue', rem') \<Rightarrow> kahn adj queue' rem' (srt @ [current]))"
  by pat_completeness auto
termination
  by (relation "measure (\<lambda>(adj, queue, rem, srt). length queue + positive_entries rem)")
     (auto dest: relax_measure)

definition start_queue :: "dag_node list \<Rightarrow> (string \<times> int) list \<Rightarrow> string list" where
  "start_queue nodes rem = filter (\<lambda>id. map_of rem id = Some 0) (map dn_id nodes)"

text \<open>\<open>validate_dag\<close>; \<open>None\<close> stands for a panic.\<close>

definition validate_dag :: "task_dag \<Rightarrow> dag_validation option" where
  "validate_dag dag =
     (if td_nodes dag = [] then Some (dag_failure TASK_DAG_INVALID ''DAG must contain at least one node.'')
      else if length (td_nodes dag) > MAX_DAG_NODES
      then Some (dag_failure TASK_DAG_TOO_LARGE (''DAG contains '' @ show_nat (length (td_nodes dag))
             @ '' nodes, exceeding the maximum of '' @ show_nat MAX_DAG_NODES @ ''.''))
      else (case first_duplicate [] (td_nodes dag) of
        Inl d \<Rightarrow> Some (dag_failure TASK_DAG_INVALID (''Duplicate node ID: '' @ quoted d @ ''.''))
      | Inr ids \<Rightarrow>
        (case add_edges ids (td_edges dag) (map (\<lambda>i. (i, [])) ids, map (\<lambda>i. (i, 0)) ids) of
           Inl m \<Rightarrow> Some (dag_failure TASK_DAG_INVALID m)
         | Inr (adj, deg) \<Rightarrow>
           (case unknown_upstream ids (td_nodes dag) of
              Some (n, u) \<Rightarrow> Some (dag_failure TASK_DAG_INVALID (''Node '' @ quoted n
                 @ '' references unknown upstream node '' @ quoted u @ '' in input_from.''))
            | None \<Rightarrow>
              if \<not> list_ex (\<lambda>(k, d). d = 0) deg
              then Some (dag_failure TASK_DAG_INVALID
                     ''DAG must have at least one start node (no incoming edges).'')
              else if \<not> list_ex (\<lambda>(k, l). l = []) adj
              then Some (dag_failure TASK_DAG_INVALID
                     ''DAG must have at least one end node (no outgoing edges).'')
              else (case find (\<lambda>n. case dn_condition n of None \<Rightarrow> False
                                | Some c \<Rightarrow> length c > MAX_CONDITION_LENGTH) (td_nodes dag) of
                 Some n \<Rightarrow> Some (dag_failure CONDITION_EVAL_ERROR (''Node '' @ quoted (dn_id n)
                 @ '' condition expression exceeds '' @ show_nat MAX_CONDITION_LENGTH
                    @ '' characters.''))
               | None \<Rightarrow>
                 (case kahn adj (start_queue (td_nodes dag) deg) deg [] of
                    None \<Rightarrow> None
                  | Some srt \<Rightarrow>
                      if length srt \<noteq> length ids
                      then Some (dag_failure TASK_DAG_CYCLE ''DAG contains a cycle.'')
                      else Some (dag_success srt)))))))"

definition dag_rejected :: "dag_validation option \<Rightarrow> bool" where
  "dag_rejected r \<longleftrightarrow> (\<exists>v. r = Some v \<and> \<not> dv_is_valid v \<and> dv_error_code v \<noteq> None)"

lemma dag_rejected_failure [simp]:
  "dag_rejected (Some (dag_failure c m))" "\<not> dag_rejected (Some (dag_success s))"
  by (simp_all add: dag_rejected_def dag_failure_def dag_success_def)

section \<open>The algorithm on an edge list\<close>

type_synonym edges = "(string \<times> string) list"

definition succs :: "edges \<Rightarrow> string \<Rightarrow> string list" where
  "succs es u = map snd (filter (\<lambda>e. fst e = u) es)"

definition open_in :: "edges \<Rightarrow> string set \<Rightarrow> string \<Rightarrow> nat" where
  "open_in es S v = length (filter (\<lambda>e. snd e = v \<and> fst e \<notin> S) es)"

lemma open_in_insert:
  "c \<notin> S \<Longrightarrow> open_in es S v = open_in es (insert c S) v + count_list (succs es c) v"
  by (induction es) (auto simp: open_in_def succs_def)

lemma open_in_zero: "open_in es S v = 0 \<longleftrightarrow> (\<forall>u. (u, v) \<in> set es \<longrightarrow> u \<in> S)"
  by (auto simp: open_in_def filter_empty_conv)

text \<open>A list is topological when each element's predecessors come before it.\<close>

definition topological :: "edges \<Rightarrow> string list \<Rightarrow> bool" where
  "topological es xs \<longleftrightarrow> (\<forall>i < length xs. \<forall>u. (u, xs ! i) \<in> set es \<longrightarrow> u \<in> set (take i xs))"

lemma topological_snoc:
  "topological es xs \<Longrightarrow> (\<forall>u. (u, c) \<in> set es \<longrightarrow> u \<in> set xs) \<Longrightarrow> topological es (xs @ [c])"
  by (auto simp: topological_def nth_append less_Suc_eq)

lemma topological_acyclic:
  assumes "topological es xs" "distinct xs" "snd ` set es \<subseteq> set xs"
  shows "acyclic (set es)"
proof -
  define pos where "pos v = (LEAST i. i < length xs \<and> xs ! i = v)" for v
  have pos: "pos v < length xs" "xs ! pos v = v" if "v \<in> set xs" for v
    using that LeastI_ex [of "\<lambda>i. i < length xs \<and> xs ! i = v"] by (auto simp: pos_def in_set_conv_nth)
  have "set es \<subseteq> measure pos"
  proof
    fix e assume e: "e \<in> set es"
    obtain u v where [simp]: "e = (u, v)" by (cases e)
    have v: "v \<in> set xs" using e assms(3) by force
    with e pos [of v] assms(1) have "u \<in> set (take (pos v) xs)" by (auto simp: topological_def)
    then obtain i where i: "i < pos v" "i < length xs" "xs ! i = u" by (auto simp: in_set_conv_nth)
    then have "pos u \<le> i" by (auto simp: pos_def intro: Least_le)
    with i show "e \<in> measure pos" by simp
  qed
  then show ?thesis by (meson wf_measure wf_acyclic wf_subset)
qed

lemma no_source_cyclic:
  assumes "R \<noteq> {}" "finite R" "\<forall>v \<in> R. \<exists>u \<in> R. (u, v) \<in> E"
  shows "\<not> acyclic E"
proof
  assume "acyclic E"
  then have "acyclic (E \<inter> R \<times> R)" by (rule acyclic_subset) simp
  moreover have "finite (E \<inter> R \<times> R)" using assms(2) by simp
  ultimately have "wf (E \<inter> R \<times> R)" by (rule finite_acyclic_wf [rotated])
  then obtain z where "z \<in> R" "\<forall>y. (y, z) \<in> E \<inter> R \<times> R \<longrightarrow> y \<notin> R"
    using assms(1) by (metis all_not_in_conv wf_eq_minimal)
  with assms(3) show False by blast
qed

lemma map_of_decrement:
  "map_of rem v = Some d \<Longrightarrow>
   map_of (AList.map_entry v (\<lambda>d. d - 1) rem) x = (if x = v then Some (d - 1) else map_of rem x)"
  by (simp add: map_of_map_entry)

lemma relax_spec:
  assumes "\<forall>v \<in> set vs. map_of rem v \<noteq> None"
  shows "\<exists>p rem'. relax vs (q, rem) = Some (q @ p, rem') \<and> distinct p
    \<and> (\<forall>v. map_of rem' v = map_option (\<lambda>d. d - int (count_list vs v)) (map_of rem v))
    \<and> (\<forall>v. v \<in> set p \<longleftrightarrow> (\<exists>d. map_of rem v = Some d \<and> 0 < d \<and> d \<le> int (count_list vs v)))"
  using assms
proof (induction vs arbitrary: q rem)
  case Nil
  then show ?case by (auto simp: option.map_ident)
next
  case (Cons v vs)
  from Cons.prems obtain d where d: "map_of rem v = Some d" by auto
  define rem1 where "rem1 = AList.map_entry v (\<lambda>d. d - 1) rem"
  have r1: "map_of rem1 x = (if x = v then Some (d - 1) else map_of rem x)" for x
    using map_of_decrement [OF d] by (simp add: rem1_def)
  have "\<forall>x \<in> set vs. map_of rem1 x \<noteq> None" using Cons.prems by (simp add: r1)
  then obtain p rem' where p: "relax vs (if d - 1 = 0 then q @ [v] else q, rem1) =
        Some ((if d - 1 = 0 then q @ [v] else q) @ p, rem')" "distinct p"
      "\<forall>x. map_of rem' x = map_option (\<lambda>d. d - int (count_list vs x)) (map_of rem1 x)"
      "\<forall>x. x \<in> set p \<longleftrightarrow> (\<exists>d. map_of rem1 x = Some d \<and> 0 < d \<and> d \<le> int (count_list vs x))"
    using Cons.IH by blast
  have "relax (v # vs) (q, rem) = Some (q @ ((if d - 1 = 0 then [v] else []) @ p), rem')"
    using p(1) d by (simp add: Let_def rem1_def)
  moreover have "distinct ((if d - 1 = 0 then [v] else []) @ p)" using p(2,4) by (simp add: r1)
  moreover have "\<forall>x. map_of rem' x = map_option (\<lambda>d. d - int (count_list (v # vs) x)) (map_of rem x)"
    using p(3) d by (auto simp: r1)
  moreover have "\<forall>x. x \<in> set ((if d - 1 = 0 then [v] else []) @ p) \<longleftrightarrow>
      (\<exists>d. map_of rem x = Some d \<and> 0 < d \<and> d \<le> int (count_list (v # vs) x))"
    using p(4) d by (auto simp: r1)
  ultimately show ?case by blast
qed

definition kahn_inv :: "string list \<Rightarrow> edges \<Rightarrow> (string \<times> string list) list \<Rightarrow> string list
    \<Rightarrow> (string \<times> int) list \<Rightarrow> string list \<Rightarrow> bool" where
  "kahn_inv ids es adj q rem s \<longleftrightarrow>
     fst ` set es \<subseteq> set ids \<and> snd ` set es \<subseteq> set ids
   \<and> (\<forall>u \<in> set ids. map_of adj u = Some (succs es u))
   \<and> distinct (s @ q) \<and> set (s @ q) \<subseteq> set ids
   \<and> (\<forall>v \<in> set ids. map_of rem v = Some (int (open_in es (set s) v)))
   \<and> (\<forall>v \<in> set ids. v \<in> set (s @ q) \<longleftrightarrow> open_in es (set s) v = 0)
   \<and> topological es s"

lemma kahn_step:
  assumes "kahn_inv ids es adj (c # q) rem s"
  shows "\<exists>q' rem'. relax (unwrap_or [] (map_of adj c)) (q, rem) = Some (q', rem')
    \<and> kahn_inv ids es adj q' rem' (s @ [c])"
proof -
  note inv = assms [unfolded kahn_inv_def]
  have c: "c \<in> set ids" "c \<notin> set s" "open_in es (set s) c = 0" using inv by auto
  have nb: "unwrap_or [] (map_of adj c) = succs es c" using inv c(1) by simp
  have "set (succs es c) \<subseteq> set ids" using inv by (auto simp: succs_def)
  then have "\<forall>v \<in> set (succs es c). map_of rem v \<noteq> None" using inv by auto
  from relax_spec [OF this, of q] obtain p rem' where
    p: "relax (succs es c) (q, rem) = Some (q @ p, rem')" "distinct p"
       "\<And>v. map_of rem' v = map_option (\<lambda>d. d - int (count_list (succs es c) v)) (map_of rem v)"
       "\<And>v. v \<in> set p \<longleftrightarrow> (\<exists>d. map_of rem v = Some d \<and> 0 < d \<and> d \<le> int (count_list (succs es c) v))"
    by blast
  have split: "open_in es (set s) v = open_in es (set (s @ [c])) v + count_list (succs es c) v" for v
    using open_in_insert [OF c(2)] by simp
  have pids: "v \<in> set ids" if "v \<in> set p" for v
  proof (rule ccontr)
    assume "v \<notin> set ids"
    then have "v \<notin> set (succs es c)" using \<open>set (succs es c) \<subseteq> set ids\<close> by blast
    then show False using that p(4) by (auto simp: count_list_0_iff)
  qed
  have pmem: "v \<in> set p \<longleftrightarrow> open_in es (set s) v \<noteq> 0 \<and> open_in es (set (s @ [c])) v = 0"
    if "v \<in> set ids" for v
    using that inv p(4) [of v] split [of v] by auto
  have in0: "\<forall>v \<in> set ids. v \<in> set (s @ c # q) \<longleftrightarrow> open_in es (set s) v = 0" using inv by blast
  have fresh: "v \<notin> set (s @ c # q)" if "v \<in> set p" for v
    using that pids pmem in0 by metis
  have "distinct (s @ c # q)" using inv by blast
  with p(2) fresh have "distinct ((s @ [c]) @ q @ p)" by auto
  moreover have "\<forall>v \<in> set ids. map_of rem' v = Some (int (open_in es (set (s @ [c])) v))"
    using inv p(3) split by simp
  moreover have "\<forall>v \<in> set ids. v \<in> set ((s @ [c]) @ q @ p) \<longleftrightarrow> open_in es (set (s @ [c])) v = 0"
    using inv pmem split by (metis Un_iff add_is_0 append.assoc append_Cons append_Nil set_append)
  moreover have "topological es (s @ [c])"
    using inv c(3) by (intro topological_snoc) (auto simp: open_in_zero)
  ultimately have "kahn_inv ids es adj (q @ p) rem' (s @ [c])"
    using inv pids by (auto simp: kahn_inv_def)
  with p(1) nb show ?thesis by auto
qed

lemma kahn_run:
  "kahn_inv ids es adj q rem s \<Longrightarrow> \<exists>rem' s'. kahn adj q rem s = Some s' \<and> kahn_inv ids es adj [] rem' s'"
proof (induction adj q rem s rule: kahn.induct)
  case (2 adj c q rem s)
  from kahn_step [OF 2(2)] obtain q' rem' where
    "relax (unwrap_or [] (map_of adj c)) (q, rem) = Some (q', rem')"
    "kahn_inv ids es adj q' rem' (s @ [c])" by blast
  with 2(1) show ?case by auto
qed auto

text \<open>When the queue is empty, the sorted nodes are all nodes exactly when the edges have no cycle.\<close>

lemma kahn_complete:
  assumes "kahn_inv ids es adj [] rem s" "distinct ids"
  shows "distinct s" "topological es s" "length s = length ids \<longleftrightarrow> acyclic (set es)"
    and "length s = length ids \<Longrightarrow> set s = set ids"
proof -
  note inv = assms(1) [unfolded kahn_inv_def]
  show d: "distinct s" and t: "topological es s" using inv by auto
  have sub: "set s \<subseteq> set ids" and fst_in: "fst ` set es \<subseteq> set ids" using inv by auto
  have len: "length s = length ids \<longleftrightarrow> set s = set ids"
    using d assms(2) sub by (metis List.finite_set card_subset_eq distinct_card)
  then show "length s = length ids \<Longrightarrow> set s = set ids" by simp
  have "acyclic (set es) \<longleftrightarrow> set s = set ids"
  proof
    assume "set s = set ids"
    then show "acyclic (set es)" using topological_acyclic [OF t d] inv by simp
  next
    assume ac: "acyclic (set es)"
    have "\<forall>v \<in> set ids - set s. \<exists>u \<in> set ids - set s. (u, v) \<in> set es"
    proof
      fix v assume v: "v \<in> set ids - set s"
      then have "open_in es (set s) v \<noteq> 0" using inv by auto
      then obtain u where "(u, v) \<in> set es" "u \<notin> set s" by (auto simp: open_in_zero)
      moreover from this fst_in have "u \<in> set ids" by force
      ultimately show "\<exists>u \<in> set ids - set s. (u, v) \<in> set es" by blast
    qed
    then have "set ids - set s = {}"
      using no_source_cyclic [of "set ids - set s" "set es"] ac by auto
    with sub show "set s = set ids" by auto
  qed
  with len show "length s = length ids \<longleftrightarrow> acyclic (set es)" by simp
qed

section \<open>The checks before the sort\<close>

definition dag_ids :: "task_dag \<Rightarrow> string list" where
  "dag_ids dag = map dn_id (td_nodes dag)"

definition dag_edges :: "task_dag \<Rightarrow> edges" where
  "dag_edges dag = map (\<lambda>e. (de_from e, de_to e)) (td_edges dag)"

text \<open>What makes a DAG acceptable, apart from cycles.\<close>

definition dag_wf :: "task_dag \<Rightarrow> bool" where
  "dag_wf dag \<longleftrightarrow> td_nodes dag \<noteq> [] \<and> length (td_nodes dag) \<le> MAX_DAG_NODES \<and> distinct (dag_ids dag)
     \<and> (\<forall>(u, v) \<in> set (dag_edges dag). u \<in> set (dag_ids dag) \<and> v \<in> set (dag_ids dag))
     \<and> (\<forall>n \<in> set (td_nodes dag). set (unwrap_or [] (dn_input_from n)) \<subseteq> set (dag_ids dag))
     \<and> (\<forall>n \<in> set (td_nodes dag). \<forall>c. dn_condition n = Some c \<longrightarrow> length c \<le> MAX_CONDITION_LENGTH)"

lemma first_duplicate_Inr:
  "distinct (seen @ map dn_id ns) \<Longrightarrow> first_duplicate seen ns = Inr (seen @ map dn_id ns)"
  by (induction seen ns rule: first_duplicate.induct) auto

lemma first_duplicate_Inl:
  "distinct seen \<Longrightarrow> \<not> distinct (seen @ map dn_id ns) \<Longrightarrow> \<exists>d. first_duplicate seen ns = Inl d"
  by (induction seen ns rule: first_duplicate.induct) auto

lemma add_edges_spec:
  assumes "\<forall>e \<in> set es. de_from e \<in> set ids \<and> de_to e \<in> set ids"
  shows "\<exists>adj' deg'. add_edges ids es (adj, deg) = Inr (adj', deg')
    \<and> (\<forall>u. map_of adj' u = map_option (\<lambda>l. l @ succs (map (\<lambda>e. (de_from e, de_to e)) es) u) (map_of adj u))
    \<and> (\<forall>v. map_of deg' v = map_option (\<lambda>d. d + int (open_in (map (\<lambda>e. (de_from e, de_to e)) es) {} v)) (map_of deg v))
    \<and> (distinct (map fst adj) \<longrightarrow> distinct (map fst adj')) \<and> (distinct (map fst deg) \<longrightarrow> distinct (map fst deg'))"
  using assms
proof (induction es arbitrary: adj deg)
  case Nil
  then show ?case by (auto simp: succs_def open_in_def option.map_ident)
next
  case (Cons e es)
  let ?adj = "AList.map_entry (de_from e) (\<lambda>l. l @ [de_to e]) adj"
  let ?deg = "AList.map_entry (de_to e) (\<lambda>d. d + 1) deg"
  from Cons obtain adj' deg' where r: "add_edges ids es (?adj, ?deg) = Inr (adj', deg')"
    "\<forall>u. map_of adj' u = map_option (\<lambda>l. l @ succs (map (\<lambda>e. (de_from e, de_to e)) es) u) (map_of ?adj u)"
    "\<forall>v. map_of deg' v = map_option (\<lambda>d. d + int (open_in (map (\<lambda>e. (de_from e, de_to e)) es) {} v)) (map_of ?deg v)"
    "distinct (map fst ?adj) \<longrightarrow> distinct (map fst adj')" "distinct (map fst ?deg) \<longrightarrow> distinct (map fst deg')"
    by (meson list.set_intros(2))
  show ?case
    using r Cons.prems
    by (intro exI [of _ adj'] exI [of _ deg'])
       (auto simp: map_of_map_entry distinct_map_entry succs_def open_in_def split: option.splits)
qed

lemma add_edges_ok:
  "is_ok (add_edges ids es ad) \<longleftrightarrow> (\<forall>e \<in> set es. de_from e \<in> set ids \<and> de_to e \<in> set ids)"
  by (induction ids es ad rule: add_edges.induct) auto

lemma unknown_upstream_None:
  "unknown_upstream ids ns = None \<longleftrightarrow> (\<forall>n \<in> set ns. set (unwrap_or [] (dn_input_from n)) \<subseteq> set ids)"
  by (induction ids ns rule: unknown_upstream.induct) (auto simp: find_None_iff find_Some_iff split: option.splits dest: nth_mem)

lemma acyclic_source:
  assumes "acyclic (set es)" "ids \<noteq> []" "fst ` set es \<subseteq> set ids"
  shows "\<exists>v \<in> set ids. open_in es {} v = 0"
proof (rule ccontr)
  assume "\<not> ?thesis"
  then have "\<forall>v \<in> set ids. \<exists>u \<in> set ids. (u, v) \<in> set es"
    using assms(3) by (force simp: open_in_zero)
  with no_source_cyclic [of "set ids" "set es"] assms(1,2) show False by simp
qed

lemma acyclic_sink:
  assumes "acyclic (set es)" "ids \<noteq> []" "snd ` set es \<subseteq> set ids"
  shows "\<exists>u \<in> set ids. succs es u = []"
proof (rule ccontr)
  assume "\<not> ?thesis"
  then have "\<forall>u \<in> set ids. \<exists>v \<in> set ids. (v, u) \<in> (set es)\<inverse>"
    using assms(3) by (force simp: succs_def filter_empty_conv)
  with no_source_cyclic [of "set ids" "(set es)\<inverse>"] assms(1,2) show False by simp
qed

lemma long_condition_None:
  "find (\<lambda>n. case dn_condition n of None \<Rightarrow> False | Some c \<Rightarrow> length c > MAX_CONDITION_LENGTH) ns = None \<longleftrightarrow>
   (\<forall>n \<in> set ns. \<forall>c. dn_condition n = Some c \<longrightarrow> length c \<le> MAX_CONDITION_LENGTH)"
  by (auto simp: find_None_iff not_less split: option.splits)

lemma dag_edges_in:
  "(\<forall>(u, v) \<in> set (dag_edges dag). u \<in> set (dag_ids dag) \<and> v \<in> set (dag_ids dag)) \<longleftrightarrow>
   (\<forall>e \<in> set (td_edges dag). de_from e \<in> set (dag_ids dag) \<and> de_to e \<in> set (dag_ids dag))"
  by (auto simp: dag_edges_def)

lemma list_ex_map_of:
  assumes "distinct (map fst xs)"
  shows "list_ex (\<lambda>(k, v). P v) xs \<longleftrightarrow> (\<exists>k v. map_of xs k = Some v \<and> P v)"
  using map_of_eq_Some_iff [OF assms] by (fastforce simp: list_ex_iff)

text \<open>The maps that the edge loop builds from a well-formed DAG satisfy the invariant of the sort.\<close>

lemma dag_maps:
  assumes "dag_wf dag"
  obtains adj deg where
    "add_edges (dag_ids dag) (td_edges dag) (map (\<lambda>i. (i, [])) (dag_ids dag), map (\<lambda>i. (i, 0)) (dag_ids dag)) = Inr (adj, deg)"
    "kahn_inv (dag_ids dag) (dag_edges dag) adj (start_queue (td_nodes dag) deg) deg []"
    "list_ex (\<lambda>(k, d). d = 0) deg \<longleftrightarrow> (\<exists>v \<in> set (dag_ids dag). open_in (dag_edges dag) {} v = 0)"
    "list_ex (\<lambda>(k, l). l = []) adj \<longleftrightarrow> (\<exists>u \<in> set (dag_ids dag). succs (dag_edges dag) u = [])"
proof -
  let ?ids = "dag_ids dag" and ?es = "dag_edges dag"
  have wf: "distinct ?ids" "\<forall>e \<in> set (td_edges dag). de_from e \<in> set ?ids \<and> de_to e \<in> set ?ids"
    using assms by (auto simp: dag_wf_def dag_edges_in)
  have m0: "map_of (map (\<lambda>i. (i, c)) xs) k = (if k \<in> set xs then Some c else None)" for c :: 'a and xs and k :: string
    by (induction xs) auto
  obtain adj deg where a: "add_edges ?ids (td_edges dag) (map (\<lambda>i. (i, [])) ?ids, map (\<lambda>i. (i, 0)) ?ids) = Inr (adj, deg)"
    and adj: "\<forall>u. map_of adj u = (if u \<in> set ?ids then Some (succs ?es u) else None)"
    and deg: "\<forall>v. map_of deg v = (if v \<in> set ?ids then Some (int (open_in ?es {} v)) else None)"
    and dist: "distinct (map fst adj)" "distinct (map fst deg)"
    using add_edges_spec [OF wf(2), of "map (\<lambda>i. (i, [])) ?ids" "map (\<lambda>i. (i, 0)) ?ids"] wf(1)
    unfolding dag_edges_def [symmetric] by (fastforce simp: m0 comp_def)
  have q: "start_queue (td_nodes dag) deg = filter (\<lambda>v. open_in ?es {} v = 0) ?ids"
    by (auto simp: start_queue_def deg simp flip: dag_ids_def intro!: filter_cong)
  have "kahn_inv ?ids ?es adj (start_queue (td_nodes dag) deg) deg []"
    using wf assms unfolding kahn_inv_def q by (auto simp: adj deg topological_def dag_wf_def)
  moreover have "list_ex (\<lambda>(k, d). d = 0) deg \<longleftrightarrow> (\<exists>v \<in> set ?ids. open_in ?es {} v = 0)"
    by (auto simp: list_ex_map_of [OF dist(2)] deg)
  moreover have "list_ex (\<lambda>(k, l). l = []) adj \<longleftrightarrow> (\<exists>u \<in> set ?ids. succs ?es u = [])"
    by (auto simp: list_ex_map_of [OF dist(1)] adj)
  ultimately show thesis using a by (intro that)
qed

lemma validate_wf_dag:
  assumes "dag_wf dag"
  shows "\<exists>s. distinct s \<and> topological (dag_edges dag) s
    \<and> (if acyclic (set (dag_edges dag)) then set s = set (dag_ids dag) \<and> validate_dag dag = Some (dag_success s)
       else dag_rejected (validate_dag dag))"
proof -
  let ?ids = "dag_ids dag" and ?es = "dag_edges dag"
  obtain adj deg where m: "add_edges ?ids (td_edges dag) (map (\<lambda>i. (i, [])) ?ids, map (\<lambda>i. (i, 0)) ?ids) = Inr (adj, deg)"
    "kahn_inv ?ids ?es adj (start_queue (td_nodes dag) deg) deg []"
    "list_ex (\<lambda>(k, d). d = 0) deg \<longleftrightarrow> (\<exists>v \<in> set ?ids. open_in ?es {} v = 0)"
    "list_ex (\<lambda>(k, l). l = []) adj \<longleftrightarrow> (\<exists>u \<in> set ?ids. succs ?es u = [])"
    using dag_maps [OF assms] .
  obtain rem s where k: "kahn adj (start_queue (td_nodes dag) deg) deg [] = Some s" "kahn_inv ?ids ?es adj [] rem s"
    using kahn_run [OF m(2)] by blast
  have wf: "td_nodes dag \<noteq> []" "\<not> length (td_nodes dag) > MAX_DAG_NODES" "distinct ?ids"
    "unknown_upstream ?ids (td_nodes dag) = None" "?ids \<noteq> []"
    "find (\<lambda>n. case dn_condition n of None \<Rightarrow> False | Some c \<Rightarrow> length c > MAX_CONDITION_LENGTH) (td_nodes dag) = None"
    "fst ` set ?es \<subseteq> set ?ids" "snd ` set ?es \<subseteq> set ?ids"
    using assms by (auto simp: dag_wf_def unknown_upstream_None long_condition_None dag_ids_def)
  have dup: "first_duplicate [] (td_nodes dag) = Inr ?ids"
    using wf(3) first_duplicate_Inr [of "[]" "td_nodes dag"] by (simp add: dag_ids_def)
  have v: "validate_dag dag =
     (if \<not> list_ex (\<lambda>(k, d). d = 0) deg
      then Some (dag_failure TASK_DAG_INVALID ''DAG must have at least one start node (no incoming edges).'')
      else if \<not> list_ex (\<lambda>(k, l). l = []) adj
      then Some (dag_failure TASK_DAG_INVALID ''DAG must have at least one end node (no outgoing edges).'')
      else if length s \<noteq> length ?ids then Some (dag_failure TASK_DAG_CYCLE ''DAG contains a cycle.'')
      else Some (dag_success s))"
    unfolding validate_dag_def using wf(1,2,4,6) by (simp add: dup m(1) k(1))
  note kc = kahn_complete [OF k(2) wf(3)]
  show ?thesis
  proof (cases "acyclic (set ?es)")
    case True
    then have "list_ex (\<lambda>(k, d). d = 0) deg" "list_ex (\<lambda>(k, l). l = []) adj" "length s = length ?ids"
      using acyclic_source [OF True wf(5,7)] acyclic_sink [OF True wf(5,8)] m(3,4) kc(3) by simp_all
    then show ?thesis using v kc True by auto
  next
    case False
    then have "length s \<noteq> length ?ids" using kc(3) by simp
    with False v kc(1,2) show ?thesis by (intro exI [of _ s]) auto
  qed
qed

lemma validate_not_wf:
  assumes "\<not> dag_wf dag"
  shows "dag_rejected (validate_dag dag)"
proof (cases "td_nodes dag = [] \<or> length (td_nodes dag) > MAX_DAG_NODES \<or> \<not> distinct (dag_ids dag)")
  case True
  then show ?thesis
    using first_duplicate_Inl [of "[]" "td_nodes dag"] by (auto simp: validate_dag_def dag_ids_def)
next
  case False
  then have dup: "first_duplicate [] (td_nodes dag) = Inr (dag_ids dag)"
    using first_duplicate_Inr [of "[]" "td_nodes dag"] by (simp add: dag_ids_def)
  let ?a = "add_edges (dag_ids dag) (td_edges dag) (map (\<lambda>i. (i, [])) (dag_ids dag), map (\<lambda>i. (i, 0)) (dag_ids dag))"
  show ?thesis
  proof (cases ?a)
    case (Inl m)
    then show ?thesis using False dup by (simp add: validate_dag_def)
  next
    case (Inr r)
    then have "is_ok ?a" by simp
    then have "unknown_upstream (dag_ids dag) (td_nodes dag) \<noteq> None \<or>
        find (\<lambda>n. case dn_condition n of None \<Rightarrow> False | Some c \<Rightarrow> length c > MAX_CONDITION_LENGTH) (td_nodes dag) \<noteq> None"
      using assms False unfolding add_edges_ok dag_wf_def dag_edges_in unknown_upstream_None long_condition_None by auto
    then show ?thesis
      using False dup Inr by (cases r) (auto simp: validate_dag_def split: option.splits)
  qed
qed

section \<open>Properties\<close>

text \<open>Property C29 (functional). \<open>validate_dag\<close> always returns, and it accepts exactly the task graphs
  that are not empty, within the size limit, with unique ids, edges and inputs between declared
  nodes, conditions within their length limit and no cycle.\<close>

theorem validate_dag_iff:
  "\<exists>r. validate_dag dag = Some r \<and>
     (dv_is_valid r \<longleftrightarrow> dag_wf dag \<and> acyclic (set (dag_edges dag))) \<and>
     (dv_is_valid r \<longleftrightarrow> dv_error_code r = None)"
proof (cases "dag_wf dag")
  case True
  show ?thesis using validate_wf_dag [OF True] True
    by (auto simp: dag_rejected_def dag_success_def split: if_splits)
next
  case False
  show ?thesis using validate_not_wf [OF False] False by (auto simp: dag_rejected_def)
qed

text \<open>The order that \<open>validate_dag\<close> returns holds every node once, and each
  node comes after all nodes with an edge to it.\<close>

theorem validate_dag_order:
  assumes "validate_dag dag = Some r" "dv_is_valid r"
  shows "\<exists>order. dv_topological_order r = Some order \<and> distinct order \<and> set order = set (dag_ids dag)
    \<and> topological (dag_edges dag) order"
proof -
  have "dag_wf dag"
    using assms validate_not_wf [of dag] by (cases "dag_wf dag") (auto simp: dag_rejected_def)
  from validate_wf_dag [OF this] assms show ?thesis
    by (auto simp: dag_success_def dag_rejected_def split: if_splits)
qed

definition demo_node :: "string \<Rightarrow> dag_node" where
  "demo_node i = \<lparr>dn_id = i, dn_action = ''nwp://x'', dn_agent = ''w'', dn_input_from = None,
     dn_input_mapping = None, dn_timeout_ms = None, dn_retry_policy = None, dn_condition = None,
     dn_min_required = 0, dn_compensate_action = None, dn_compensate_params_mapping = None\<rparr>"

definition diamond :: task_dag where
  "diamond = \<lparr>td_nodes = map demo_node [''d'', ''b'', ''c'', ''a''],
     td_edges = [\<lparr>de_from = ''a'', de_to = ''b''\<rparr>, \<lparr>de_from = ''a'', de_to = ''c''\<rparr>,
                 \<lparr>de_from = ''b'', de_to = ''d''\<rparr>, \<lparr>de_from = ''c'', de_to = ''d''\<rparr>]\<rparr>"

lemma validate_diamond: "validate_dag diamond = Some (dag_success [''a'', ''b'', ''c'', ''d''])"
  by (simp add: validate_dag_def diamond_def demo_node_def MAX_DAG_NODES_def MAX_CONDITION_LENGTH_def
        start_queue_def Let_def)

theorem validate_dag_order_witness:
  "topological (dag_edges diamond) [''a'', ''b'', ''c'', ''d'']"
  using validate_dag_order [OF validate_diamond] by (simp add: dag_success_def)

end
