(* ===== verification/Nop_Values.thy ===== *)
theory Nop_Values
  imports Nop_Models
begin

text \<open>
  How values flow between the nodes of a task: \<^verbatim>\<open>input_mapper.rs\<close> resolves paths into upstream
  results and builds parameters, \<^verbatim>\<open>aggregator.rs\<close> combines results. A map of results is an
  association list. The dash of one error message, outside the model's alphabet, is written as a
  hyphen.
\<close>

section \<open>Input mapping\<close>

type_synonym node_values = "(string \<times> jvalue) list"

record mapping_error =
  me_message :: string
  me_error_code :: string

definition mapping_error_new :: "string \<Rightarrow> mapping_error" where
  "mapping_error_new m = \<lparr>me_message = m, me_error_code = INPUT_MAPPING_ERROR\<rparr>"

text \<open>The loop that follows the remaining parts of the path.\<close>

fun navigate :: "jvalue \<Rightarrow> string list \<Rightarrow> jvalue option" where
  "navigate current [] = Some current"
| "navigate current (part # parts) = (case current of
       JObject obj \<Rightarrow> (case map_of obj part of Some v \<Rightarrow> navigate v parts | None \<Rightarrow> None)
     | _ \<Rightarrow> None)"

definition resolve :: "string \<Rightarrow> node_values \<Rightarrow> mapping_error + jvalue option" where
  "resolve path context =
     (if trim path = [] then Err (mapping_error_new ''Input mapping path must not be empty.'')
      else if \<not> starts_with ''$.'' path
      then Err (mapping_error_new (''Input mapping path must start with '' @ quoted ''$.''
             @ '' - got: '' @ path))
      else
        let parts = filter (\<lambda>s. s \<noteq> []) (split_char CHR ''.'' path)
        in if length parts > MAX_INPUT_MAPPING_DEPTH + 1
           then Err (mapping_error_new (''Input mapping path depth '' @ show_nat (length parts - 1)
                  @ '' exceeds maximum '' @ show_nat MAX_INPUT_MAPPING_DEPTH @ '': '' @ path))
           else if length parts = 1 then Ok (Some (JObject (bt_collect context)))
           else (case map_of context (parts ! 1) of
                   None \<Rightarrow> Ok None
                 | Some node_result \<Rightarrow> Ok (navigate node_result (drop 2 parts))))"

text \<open>One value of a mapping: a path, or a list whose strings are paths, or a literal.\<close>

definition resolve_item :: "node_values \<Rightarrow> jvalue \<Rightarrow> mapping_error + jvalue" where
  "resolve_item context v = (case v of
       JString s \<Rightarrow> try_res (resolve s context) (\<lambda>r. Ok (unwrap_or JNull r))
     | _ \<Rightarrow> Ok v)"

fun resolve_items :: "node_values \<Rightarrow> jvalue list \<Rightarrow> mapping_error + jvalue list" where
  "resolve_items context [] = Ok []"
| "resolve_items context (p # ps) =
     try_res (resolve_item context p) (\<lambda>v.
     try_res (resolve_items context ps) (\<lambda>vs. Ok (v # vs)))"

definition resolve_element :: "node_values \<Rightarrow> jvalue \<Rightarrow> mapping_error + jvalue" where
  "resolve_element context e = (case e of
       JArray arr \<Rightarrow> try_res (resolve_items context arr) (\<lambda>vs. Ok (JArray vs))
     | _ \<Rightarrow> resolve_item context e)"

fun fill_params :: "node_values \<Rightarrow> (string \<times> jvalue) list \<Rightarrow> frame_dict \<Rightarrow> mapping_error + frame_dict" where
  "fill_params context [] acc = Ok acc"
| "fill_params context ((name, e) # rest) acc =
     try_res (resolve_element context e) (\<lambda>v. fill_params context rest (bt_insert name v acc))"

definition build_params :: "(string \<times> jvalue) list option \<Rightarrow> node_values \<Rightarrow> mapping_error + jvalue" where
  "build_params input_mapping context = (case input_mapping of
       Some m \<Rightarrow> if m \<noteq> [] then try_res (fill_params context m []) (\<lambda>d. Ok (JObject d)) else Ok (JObject [])
     | None \<Rightarrow> Ok (JObject []))"

section \<open>Aggregation\<close>

fun merge_from :: "nat \<Rightarrow> jvalue list \<Rightarrow> frame_dict \<Rightarrow> frame_dict" where
  "merge_from i [] merged = merged"
| "merge_from i (r # rs) merged = merge_from (i + 1) rs
     (case r of
        JObject obj \<Rightarrow> fold (\<lambda>(k, v). bt_insert k v) obj merged
      | _ \<Rightarrow> bt_insert (''_result_'' @ show_nat i) r merged)"

definition merge :: "jvalue list \<Rightarrow> jvalue" where
  "merge results = JObject (merge_from 0 results [])"

definition build_array :: "jvalue list \<Rightarrow> jvalue" where
  "build_array results = JArray results"

definition aggregate :: "string \<Rightarrow> jvalue list \<Rightarrow> nat \<Rightarrow> jvalue" where
  "aggregate strategy results min_required =
     (if results = [] then JObject []
      else if strategy = ''first'' then results ! 0
      else if strategy = ''all'' then build_array results
      else if strategy = ''fastest_k''
      then let k = min (if min_required > 0 then min_required else length results) (length results)
           in build_array (take k results)
      else merge results)"

definition aggregate_end_nodes :: "string list \<Rightarrow> node_values \<Rightarrow> string \<Rightarrow> jvalue" where
  "aggregate_end_nodes end_node_ids all_results strategy =
     aggregate strategy (List.map_filter (\<lambda>i. map_of all_results i) end_node_ids) 0"

section \<open>Facts\<close>

text \<open>A path of non-empty segments without dots is resolved segment by segment.\<close>

definition path_of :: "string list \<Rightarrow> string" where
  "path_of segs = join ''.'' (''$'' # segs)"

lemma trim_dollar: "trim (CHR ''$'' # s) \<noteq> []"
proof
  assume a: "trim (CHR ''$'' # s) = []"
  have "\<not> is_whitespace CHR ''$''" by (simp add: is_whitespace_def)
  with a show False by (auto simp: trim_def trim_start_def trim_end_def)
qed

lemma split_path:
  assumes "\<forall>s \<in> set segs. s \<noteq> [] \<and> CHR ''.'' \<notin> set s"
  shows "filter (\<lambda>s. s \<noteq> []) (split_char CHR ''.'' (path_of segs)) = ''$'' # segs"
proof -
  have "split_char CHR ''.'' (path_of segs) = ''$'' # segs"
    unfolding path_of_def using assms by (intro split_char_join) auto
  then show ?thesis using assms by (simp add: filter_id_conv)
qed

lemma resolve_path_of:
  assumes "\<forall>s \<in> set (i # segs). s \<noteq> [] \<and> CHR ''.'' \<notin> set s" "length (i # segs) \<le> MAX_INPUT_MAPPING_DEPTH"
  shows "resolve (path_of (i # segs)) context =
     Ok (Option.bind (map_of context i) (\<lambda>v. navigate v segs))"
proof -
  have p: "path_of (i # segs) = CHR ''$'' # CHR ''.'' # join ''.'' (i # segs)"
    by (simp add: path_of_def)
  have "starts_with ''$.'' (path_of (i # segs))"
    unfolding starts_with_strip p by simp
  moreover have "trim (path_of (i # segs)) \<noteq> []" unfolding p by (rule trim_dollar)
  ultimately show ?thesis
    using assms split_path [OF assms(1)] by (simp add: resolve_def Let_def split: option.split)
qed

lemma resolve_depth_limited:
  assumes "resolve path context = Ok (Some v)"
  shows "starts_with ''$.'' path
    \<and> length (filter (\<lambda>s. s \<noteq> []) (split_char CHR ''.'' path)) \<le> MAX_INPUT_MAPPING_DEPTH + 1"
  using assms by (auto simp: resolve_def Let_def split: if_splits)

lemma map_of_fold_insert:
  "map_of (fold (\<lambda>(k, v). bt_insert k v) obj m) x =
     (case map_of (rev obj) x of Some v \<Rightarrow> Some v | None \<Rightarrow> map_of m x)"
  by (induction obj arbitrary: m) (auto simp: map_add_def split: option.splits)

lemma fill_params_keys:
  "fill_params ctx m acc = Ok d \<Longrightarrow>
   (\<forall>k. k \<notin> fst ` set m \<longrightarrow> map_of d k = map_of acc k)
   \<and> (distinct (map fst m) \<longrightarrow> (\<forall>(k, e) \<in> set m. \<exists>v. resolve_element ctx e = Ok v \<and> map_of d k = Some v))"
proof (induction ctx m acc rule: fill_params.induct)
  case (2 ctx name e rest acc)
  then obtain v where v: "resolve_element ctx e = Ok v"
    "fill_params ctx rest (bt_insert name v acc) = Ok d" by (auto simp: try_res_eq_Inr)
  from 2(1) [OF v(2)] v(1) show ?case by auto
qed simp

end
