(* ===== verification/Nop_Condition.thy ===== *)
theory Nop_Condition
  imports Nop_Values
begin

text \<open>
  \<^verbatim>\<open>nps-nop/src/condition.rs\<close>: the condition language of DAG nodes. The tokenizer works on the text
  that is left; the recursive-descent parser evaluates as it parses and works on the tokens that
  are left, with fuel for its recursion. \<open>None\<close> is an index out of bounds or the end of the fuel;
  both are shown not to happen. \<open>json_text\<close> is the serializer behind \<open>Value::to_string\<close>.
\<close>

section \<open>Tokens\<close>

datatype token_kind =
    TkDollarPath | TkNumber | TkStr | TkTrue | TkFalse | TkNull | TkGt | TkGte | TkLt | TkLte
  | TkEq | TkNeq | TkAnd | TkOr | TkNot | TkLParen | TkRParen | TkEof

record token =
  tk_kind :: token_kind
  tk_raw :: string

definition tok :: "token_kind \<Rightarrow> string \<Rightarrow> token" where
  "tok k raw = \<lparr>tk_kind = k, tk_raw = raw\<rparr>"

lemma tok_simps [simp]: "tk_kind (tok k r) = k" "tk_raw (tok k r) = r"
  by (simp_all add: tok_def)

definition condition_error :: "string \<Rightarrow> string \<Rightarrow> string" where
  "condition_error message expression =
     message @ ''  Expression: '' @ [CHR 0xAB] @ expression @ [CHR 0xBB]"

definition path_char :: "char \<Rightarrow> bool" where
  "path_char c \<longleftrightarrow> is_alphanumeric c \<or> c = CHR ''_'' \<or> c = CHR ''.'' \<or> c = CHR ''$''"

definition number_char :: "char \<Rightarrow> bool" where
  "number_char c \<longleftrightarrow> is_ascii_digit c \<or> c = CHR ''.''"

definition DQUOTE :: char where "DQUOTE = CHR 0x22"

definition push_tok :: "token \<Rightarrow> string + token list \<Rightarrow> string + token list" where
  "push_tok t r = (case r of Inl e \<Rightarrow> Inl e | Inr ts \<Rightarrow> Inr (t # ts))"

definition next_is :: "char \<Rightarrow> string \<Rightarrow> bool" where
  "next_is c cs \<longleftrightarrow> cs \<noteq> [] \<and> hd cs = c"

text \<open>\<open>i\<close> is the position of the next character, used in the error message.\<close>

function tokens_from :: "string \<Rightarrow> nat \<Rightarrow> string \<Rightarrow> string + token list" where
  "tokens_from input i [] = Inr [tok TkEof []]"
| "tokens_from input i (c # cs) =
     (if is_whitespace c then tokens_from input (i + 1) cs
      else if c = CHR ''$'' \<and> next_is CHR ''.'' cs
      then let raw = takeWhile path_char (c # cs)
           in push_tok (tok TkDollarPath raw) (tokens_from input (i + length raw) (drop (length raw) (c # cs)))
      else if c = DQUOTE
      then let content = takeWhile (\<lambda>x. x \<noteq> DQUOTE) cs
           in push_tok (tok TkStr content)
                (tokens_from input (i + length content + 2) (drop (length content + 1) cs))
      else if is_ascii_digit c \<or> (c = CHR ''-'' \<and> cs \<noteq> [] \<and> is_ascii_digit (hd cs))
      then let raw = (if c = CHR ''-'' then c # takeWhile number_char cs else takeWhile number_char (c # cs))
           in push_tok (tok TkNumber raw) (tokens_from input (i + length raw) (drop (length raw) (c # cs)))
      else if c = CHR ''>'' \<and> next_is CHR ''='' cs then push_tok (tok TkGte ''>='') (tokens_from input (i + 2) (tl cs))
      else if c = CHR ''<'' \<and> next_is CHR ''='' cs then push_tok (tok TkLte ''<='') (tokens_from input (i + 2) (tl cs))
      else if c = CHR ''='' \<and> next_is CHR ''='' cs then push_tok (tok TkEq ''=='') (tokens_from input (i + 2) (tl cs))
      else if c = CHR ''!'' \<and> next_is CHR ''='' cs then push_tok (tok TkNeq ''!='') (tokens_from input (i + 2) (tl cs))
      else if c = CHR ''&'' \<and> next_is CHR ''&'' cs then push_tok (tok TkAnd ''&&'') (tokens_from input (i + 2) (tl cs))
      else if c = CHR ''|'' \<and> next_is CHR ''|'' cs then push_tok (tok TkOr ''||'') (tokens_from input (i + 2) (tl cs))
      else if c = CHR ''>'' then push_tok (tok TkGt ''>'') (tokens_from input (i + 1) cs)
      else if c = CHR ''<'' then push_tok (tok TkLt ''<'') (tokens_from input (i + 1) cs)
      else if c = CHR ''!'' then push_tok (tok TkNot ''!'') (tokens_from input (i + 1) cs)
      else if c = CHR ''('' then push_tok (tok TkLParen ''('') (tokens_from input (i + 1) cs)
      else if c = CHR '')'' then push_tok (tok TkRParen '')'') (tokens_from input (i + 1) cs)
      else if is_alphabetic c
      then let kw = takeWhile is_alphanumeric (c # cs);
               rest = drop (length kw) (c # cs)
           in if kw = ''true'' then push_tok (tok TkTrue ''true'') (tokens_from input (i + length kw) rest)
              else if kw = ''false'' then push_tok (tok TkFalse ''false'') (tokens_from input (i + length kw) rest)
              else if kw = ''null'' then push_tok (tok TkNull ''null'') (tokens_from input (i + length kw) rest)
              else Inl (condition_error (''Unknown token '' @ quoted kw @ ''.'') input)
      else Inl (condition_error (''Unexpected character '' @ quoted [c] @ '' at position '' @ show_nat i @ ''.'') input))"
  by pat_completeness auto
termination
  by (relation "measure (\<lambda>(input, i, s). length s)")
     (auto simp: path_char_def number_char_def is_alphanumeric_def next_is_def)

definition tokenize :: "string \<Rightarrow> string + token list" where
  "tokenize input = tokens_from input 0 input"

section \<open>Values\<close>

datatype cval = VNum f64 | VStr string | VBool bool | VNull

fun vals_equal :: "cval \<Rightarrow> cval \<Rightarrow> bool" where
  "vals_equal (VNum x) (VNum y) = f64_eq x y"
| "vals_equal (VStr x) (VStr y) = (x = y)"
| "vals_equal (VBool x) (VBool y) = (x = y)"
| "vals_equal VNull VNull = True"
| "vals_equal _ _ = False"

definition is_comparison_op :: "token_kind \<Rightarrow> bool" where
  "is_comparison_op k \<longleftrightarrow> k \<in> {TkGt, TkGte, TkLt, TkLte, TkEq, TkNeq}"

fun as_truthy :: "cval \<Rightarrow> bool" where
  "as_truthy (VBool b) = b"
| "as_truthy (VNum d) = (\<not> f64_eq d 0)"
| "as_truthy (VStr s) = (s \<noteq> [])"
| "as_truthy VNull = False"

definition compare :: "cval \<Rightarrow> token_kind \<Rightarrow> cval \<Rightarrow> bool" where
  "compare lhs op rhs =
     (if op = TkEq then vals_equal lhs rhs
      else if op = TkNeq then \<not> vals_equal lhs rhs
      else (case (lhs, rhs) of
          (VNum ld, VNum rd) \<Rightarrow> (case op of
              TkGt \<Rightarrow> f64_lt rd ld
            | TkGte \<Rightarrow> f64_le rd ld
            | TkLt \<Rightarrow> f64_lt ld rd
            | TkLte \<Rightarrow> f64_le ld rd
            | _ \<Rightarrow> False)
        | (VStr ls, VStr rs) \<Rightarrow> (case op of
              TkGt \<Rightarrow> rs < ls
            | TkGte \<Rightarrow> \<not> ls < rs
            | TkLt \<Rightarrow> ls < rs
            | TkLte \<Rightarrow> \<not> rs < ls
            | _ \<Rightarrow> False)
        | _ \<Rightarrow> False))"

definition resolve_path :: "(jvalue \<Rightarrow> string) \<Rightarrow> node_values \<Rightarrow> string \<Rightarrow> string + cval" where
  "resolve_path json_text ctx path = (case resolve path ctx of
       Inl e \<Rightarrow> Inl (condition_error (me_message e) path)
     | Inr None \<Rightarrow> Inr VNull
     | Inr (Some JNull) \<Rightarrow> Inr VNull
     | Inr (Some (JNumber n)) \<Rightarrow> Inr (VNum (num_as_f64 n))
     | Inr (Some (JString s)) \<Rightarrow> Inr (VStr s)
     | Inr (Some (JBool b)) \<Rightarrow> Inr (VBool b)
     | Inr (Some other) \<Rightarrow> Inr (VStr (json_text other)))"

definition token_value :: "(jvalue \<Rightarrow> string) \<Rightarrow> node_values \<Rightarrow> token \<Rightarrow> string + cval" where
  "token_value json_text ctx t = (case tk_kind t of
       TkDollarPath \<Rightarrow> resolve_path json_text ctx (tk_raw t)
     | TkNumber \<Rightarrow> (case parse_f64 (tk_raw t) of
           Some x \<Rightarrow> Inr (VNum x)
         | None \<Rightarrow> Inl (condition_error (''Invalid number '' @ quoted (tk_raw t) @ ''.'') []))
     | TkStr \<Rightarrow> Inr (VStr (tk_raw t))
     | TkTrue \<Rightarrow> Inr (VBool True)
     | TkFalse \<Rightarrow> Inr (VBool False)
     | TkNull \<Rightarrow> Inr VNull
     | _ \<Rightarrow> Inl (condition_error (''Expected a value, got '' @ quoted (tk_raw t) @ ''.'') []))"

section \<open>The parser\<close>

type_synonym 'a parsed = "(string + 'a \<times> token list) option"

definition pbind :: "'a parsed \<Rightarrow> ('a \<Rightarrow> token list \<Rightarrow> 'b parsed) \<Rightarrow> 'b parsed" where
  "pbind r f = (case r of
       None \<Rightarrow> None
     | Some (Inl e) \<Rightarrow> Some (Inl e)
     | Some (Inr (x, ts)) \<Rightarrow> f x ts)"

definition parse_value :: "(jvalue \<Rightarrow> string) \<Rightarrow> node_values \<Rightarrow> token list \<Rightarrow> cval parsed" where
  "parse_value json_text ctx ts = (case ts of
       [] \<Rightarrow> None
     | t # rest \<Rightarrow> (case token_value json_text ctx t of
           Inl e \<Rightarrow> Some (Inl e)
         | Inr v \<Rightarrow> Some (Inr (v, rest))))"

definition current :: "token list \<Rightarrow> token_kind option" where
  "current ts = (case ts of [] \<Rightarrow> None | t # _ \<Rightarrow> Some (tk_kind t))"

function parse_or_expr :: "(jvalue \<Rightarrow> string) \<Rightarrow> node_values \<Rightarrow> nat \<Rightarrow> token list \<Rightarrow> bool parsed"
and or_loop :: "(jvalue \<Rightarrow> string) \<Rightarrow> node_values \<Rightarrow> nat \<Rightarrow> bool \<Rightarrow> token list \<Rightarrow> bool parsed"
and parse_and_expr :: "(jvalue \<Rightarrow> string) \<Rightarrow> node_values \<Rightarrow> nat \<Rightarrow> token list \<Rightarrow> bool parsed"
and and_loop :: "(jvalue \<Rightarrow> string) \<Rightarrow> node_values \<Rightarrow> nat \<Rightarrow> bool \<Rightarrow> token list \<Rightarrow> bool parsed"
and parse_not_expr :: "(jvalue \<Rightarrow> string) \<Rightarrow> node_values \<Rightarrow> nat \<Rightarrow> token list \<Rightarrow> bool parsed"
and parse_comparison :: "(jvalue \<Rightarrow> string) \<Rightarrow> node_values \<Rightarrow> nat \<Rightarrow> token list \<Rightarrow> bool parsed"
where
  "parse_or_expr jt ctx 0 ts = None"
| "parse_or_expr jt ctx (Suc n) ts = pbind (parse_and_expr jt ctx n ts) (or_loop jt ctx n)"
| "or_loop jt ctx 0 left ts = None"
| "or_loop jt ctx (Suc n) left ts = (case current ts of
       None \<Rightarrow> None
     | Some k \<Rightarrow> if k = TkOr
         then pbind (parse_and_expr jt ctx n (tl ts)) (\<lambda>right. or_loop jt ctx n (left \<or> right))
         else Some (Inr (left, ts)))"
| "parse_and_expr jt ctx 0 ts = None"
| "parse_and_expr jt ctx (Suc n) ts = pbind (parse_not_expr jt ctx n ts) (and_loop jt ctx n)"
| "and_loop jt ctx 0 left ts = None"
| "and_loop jt ctx (Suc n) left ts = (case current ts of
       None \<Rightarrow> None
     | Some k \<Rightarrow> if k = TkAnd
         then pbind (parse_not_expr jt ctx n (tl ts)) (\<lambda>right. and_loop jt ctx n (left \<and> right))
         else Some (Inr (left, ts)))"
| "parse_not_expr jt ctx 0 ts = None"
| "parse_not_expr jt ctx (Suc n) ts = (case current ts of
       None \<Rightarrow> None
     | Some k \<Rightarrow> if k = TkNot
         then pbind (parse_not_expr jt ctx n (tl ts)) (\<lambda>b rest. Some (Inr (\<not> b, rest)))
         else parse_comparison jt ctx n ts)"
| "parse_comparison jt ctx 0 ts = None"
| "parse_comparison jt ctx (Suc n) ts = (case current ts of
       None \<Rightarrow> None
     | Some k \<Rightarrow>
         if k = TkLParen
         then pbind (parse_or_expr jt ctx n (tl ts)) (\<lambda>inner rest.
                case current rest of
                  None \<Rightarrow> None
                | Some k' \<Rightarrow> if k' \<noteq> TkRParen
                    then Some (Inl (condition_error (''Expected '' @ quoted '')'' @ ''.'') []))
                    else Some (Inr (inner, tl rest)))
         else if k = TkTrue then Some (Inr (True, tl ts))
         else if k = TkFalse then Some (Inr (False, tl ts))
         else pbind (parse_value jt ctx ts) (\<lambda>lhs rest.
                case current rest of
                  None \<Rightarrow> None
                | Some op \<Rightarrow> if \<not> is_comparison_op op then Some (Inr (as_truthy lhs, rest))
                    else pbind (parse_value jt ctx (tl rest)) (\<lambda>rhs rest'.
                           Some (Inr (compare lhs op rhs, rest')))))"
  by pat_completeness auto
termination
  by (relation "measure (\<lambda>x. case x of
       Inl (Inl (jt, ctx, n, ts)) \<Rightarrow> n
     | Inl (Inr (Inl (jt, ctx, n, left, ts))) \<Rightarrow> n
     | Inl (Inr (Inr (jt, ctx, n, ts))) \<Rightarrow> n
     | Inr (Inl (jt, ctx, n, left, ts)) \<Rightarrow> n
     | Inr (Inr (Inl (jt, ctx, n, ts))) \<Rightarrow> n
     | Inr (Inr (Inr (jt, ctx, n, ts))) \<Rightarrow> n)") simp_all

definition parse_fuel :: "token list \<Rightarrow> nat" where
  "parse_fuel ts = 6 * length ts + 4"

definition evaluate :: "(jvalue \<Rightarrow> string) \<Rightarrow> string \<Rightarrow> node_values \<Rightarrow> (string + bool) option" where
  "evaluate json_text condition ctx =
     (if trim condition = [] then Some (Inr True)
      else (case tokenize (trim condition) of
        Inl e \<Rightarrow> Some (Inl e)
      | Inr tokens \<Rightarrow> (case parse_or_expr json_text ctx (parse_fuel tokens) tokens of
          None \<Rightarrow> None
        | Some (Inl e) \<Rightarrow> Some (Inl e)
        | Some (Inr (b, _)) \<Rightarrow> Some (Inr b))))"

section \<open>The parser always answers\<close>

definition good_tokens :: "token list \<Rightarrow> bool" where
  "good_tokens ts \<longleftrightarrow> ts \<noteq> [] \<and> tk_kind (last ts) = TkEof"

definition yields :: "nat \<Rightarrow> 'a parsed \<Rightarrow> bool" where
  "yields k r \<longleftrightarrow> (\<exists>x. r = Some x \<and> (\<forall>b ts. x = Inr (b, ts) \<longrightarrow> good_tokens ts \<and> length ts \<le> k))"

lemma yields_simps [simp]:
  "\<not> yields k None" "yields k (Some (Inl e))"
  "yields k (Some (Inr (b, ts))) \<longleftrightarrow> good_tokens ts \<and> length ts \<le> k"
  by (auto simp: yields_def)

lemma yields_mono: "yields k r \<Longrightarrow> k \<le> k' \<Longrightarrow> yields k' r"
  by (fastforce simp: yields_def)

lemma yields_pbind:
  assumes "yields k r" "\<And>b ts. good_tokens ts \<Longrightarrow> length ts \<le> k \<Longrightarrow> yields k' (f b ts)"
  shows "yields k' (pbind r f)"
  using assms by (auto simp: yields_def pbind_def split: sum.splits)

lemma good_tokens_current: "good_tokens ts \<Longrightarrow> \<exists>k. current ts = Some k"
  by (cases ts) (simp_all add: good_tokens_def current_def)

lemma good_tokens_tl:
  "good_tokens ts \<Longrightarrow> current ts = Some k \<Longrightarrow> k \<noteq> TkEof \<Longrightarrow> \<exists>t us. ts = t # us \<and> good_tokens us"
  by (cases ts) (auto simp: good_tokens_def current_def split: if_splits)

definition good_result :: "string + token list \<Rightarrow> bool" where
  "good_result r \<longleftrightarrow> (\<forall>ts. r = Inr ts \<longrightarrow> good_tokens ts)"

lemma good_push: "good_result r \<Longrightarrow> good_result (push_tok t r)"
  by (auto simp: good_result_def push_tok_def good_tokens_def split: sum.splits)

lemma good_error: "good_result (Inl e)"
  by (simp add: good_result_def)

lemma good_if: "(b \<Longrightarrow> good_result x) \<Longrightarrow> (\<not> b \<Longrightarrow> good_result y) \<Longrightarrow> good_result (if b then x else y)"
  by simp

lemma tokens_from_good: "good_result (tokens_from input i s)"
proof (induction "length s" arbitrary: i s rule: less_induct)
  case less
  show ?case
  proof (cases s)
    case Nil
    then show ?thesis by (simp add: good_result_def good_tokens_def)
  next
    case (Cons c cs)
    have IH: "good_result (tokens_from input j s')" if "length s' \<le> length cs" for j s'
      using less Cons that by simp
    show ?thesis
      unfolding Cons tokens_from.simps Let_def
      by (intro good_if good_push good_error IH)
         (auto simp: path_char_def number_char_def is_alphanumeric_def)
  qed
qed

lemma parse_value_yields:
  assumes "good_tokens ts"
  shows "yields (length ts - 1) (parse_value jt ctx ts)"
proof -
  from assms obtain t rest where ts: "ts = t # rest" by (cases ts) (auto simp: good_tokens_def)
  show ?thesis
  proof (cases "token_value jt ctx t")
    case (Inr v)
    then have "tk_kind t \<noteq> TkEof" by (auto simp: token_value_def)
    with assms ts Inr show ?thesis by (auto simp: parse_value_def good_tokens_def split: if_splits)
  qed (simp add: ts parse_value_def)
qed

lemma parse_yields:
  "(\<forall>ts. good_tokens ts \<longrightarrow> 6 * length ts + 4 \<le> n \<longrightarrow> yields (length ts - 1) (parse_or_expr jt ctx n ts))
 \<and> (\<forall>ts l. good_tokens ts \<longrightarrow> 6 * length ts + 3 \<le> n \<longrightarrow> yields (length ts) (or_loop jt ctx n l ts))
 \<and> (\<forall>ts. good_tokens ts \<longrightarrow> 6 * length ts + 3 \<le> n \<longrightarrow> yields (length ts - 1) (parse_and_expr jt ctx n ts))
 \<and> (\<forall>ts l. good_tokens ts \<longrightarrow> 6 * length ts + 3 \<le> n \<longrightarrow> yields (length ts) (and_loop jt ctx n l ts))
 \<and> (\<forall>ts. good_tokens ts \<longrightarrow> 6 * length ts + 2 \<le> n \<longrightarrow> yields (length ts - 1) (parse_not_expr jt ctx n ts))
 \<and> (\<forall>ts. good_tokens ts \<longrightarrow> 6 * length ts + 1 \<le> n \<longrightarrow> yields (length ts - 1) (parse_comparison jt ctx n ts))"
proof (induction n)
  case (Suc n)
  then have IHo: "\<And>ts. good_tokens ts \<Longrightarrow> 6 * length ts + 4 \<le> n \<Longrightarrow> yields (length ts - 1) (parse_or_expr jt ctx n ts)"
    and IHol: "\<And>ts l. good_tokens ts \<Longrightarrow> 6 * length ts + 3 \<le> n \<Longrightarrow> yields (length ts) (or_loop jt ctx n l ts)"
    and IHa: "\<And>ts. good_tokens ts \<Longrightarrow> 6 * length ts + 3 \<le> n \<Longrightarrow> yields (length ts - 1) (parse_and_expr jt ctx n ts)"
    and IHal: "\<And>ts l. good_tokens ts \<Longrightarrow> 6 * length ts + 3 \<le> n \<Longrightarrow> yields (length ts) (and_loop jt ctx n l ts)"
    and IHn: "\<And>ts. good_tokens ts \<Longrightarrow> 6 * length ts + 2 \<le> n \<Longrightarrow> yields (length ts - 1) (parse_not_expr jt ctx n ts)"
    and IHc: "\<And>ts. good_tokens ts \<Longrightarrow> 6 * length ts + 1 \<le> n \<Longrightarrow> yields (length ts - 1) (parse_comparison jt ctx n ts)"
    by simp_all
  have pos: "length ts \<ge> 1" if "good_tokens ts" for ts
    using that by (cases ts) (auto simp: good_tokens_def)
  have o: "yields (length ts - 1) (parse_or_expr jt ctx (Suc n) ts)"
    if "good_tokens ts" "6 * length ts + 4 \<le> Suc n" for ts
    unfolding parse_or_expr.simps using that
    by (intro yields_pbind [OF IHa] yields_mono [OF IHol]) auto
  have ol: "yields (length ts) (or_loop jt ctx (Suc n) l ts)"
    if t: "good_tokens ts" "6 * length ts + 3 \<le> Suc n" for ts l
  proof -
    obtain k where k: "current ts = Some k" using good_tokens_current [OF t(1)] by blast
    have "yields (length ts) (pbind (parse_and_expr jt ctx n (tl ts)) (\<lambda>right. or_loop jt ctx n (l \<or> right)))"
      if "k = TkOr"
      using good_tokens_tl [OF t(1) k] that t(2)
      by (intro yields_pbind [OF IHa] yields_mono [OF IHol]) auto
    then show ?thesis using k t(1) by simp
  qed
  have a: "yields (length ts - 1) (parse_and_expr jt ctx (Suc n) ts)"
    if "good_tokens ts" "6 * length ts + 3 \<le> Suc n" for ts
    unfolding parse_and_expr.simps using that pos [OF that(1)]
    by (intro yields_pbind [OF IHn] yields_mono [OF IHal]) auto
  have al: "yields (length ts) (and_loop jt ctx (Suc n) l ts)"
    if t: "good_tokens ts" "6 * length ts + 3 \<le> Suc n" for ts l
  proof -
    obtain k where k: "current ts = Some k" using good_tokens_current [OF t(1)] by blast
    have "yields (length ts) (pbind (parse_not_expr jt ctx n (tl ts)) (\<lambda>right. and_loop jt ctx n (l \<and> right)))"
      if "k = TkAnd"
      using good_tokens_tl [OF t(1) k] that t(2)
      by (intro yields_pbind [OF IHn] yields_mono [OF IHal]) auto
    then show ?thesis using k t(1) by simp
  qed
  have nt: "yields (length ts - 1) (parse_not_expr jt ctx (Suc n) ts)"
    if t: "good_tokens ts" "6 * length ts + 2 \<le> Suc n" for ts
  proof -
    obtain k where k: "current ts = Some k" using good_tokens_current [OF t(1)] by blast
    have "yields (length ts - 1) (pbind (parse_not_expr jt ctx n (tl ts)) (\<lambda>b rest. Some (Inr (\<not> b, rest))))"
      if "k = TkNot"
      using good_tokens_tl [OF t(1) k] that t(2) by (intro yields_pbind [OF IHn]) auto
    then show ?thesis using k t IHc [OF t(1)] by simp
  qed
  have c: "yields (length ts - 1) (parse_comparison jt ctx (Suc n) ts)"
    if t: "good_tokens ts" "6 * length ts + 1 \<le> Suc n" for ts
  proof -
    obtain k where k: "current ts = Some k" using good_tokens_current [OF t(1)] by blast
    have paren: "yields (length ts - 1) (pbind (parse_or_expr jt ctx n (tl ts)) (\<lambda>inner rest.
                case current rest of
                  None \<Rightarrow> None
                | Some k' \<Rightarrow> if k' \<noteq> TkRParen
                    then Some (Inl (condition_error (''Expected '' @ quoted '')'' @ ''.'') []))
                    else Some (Inr (inner, tl rest))))" if "k = TkLParen"
      using good_tokens_tl [OF t(1) k] that t(2)
      by (intro yields_pbind [OF IHo]) (auto dest: good_tokens_current good_tokens_tl split: option.split)
    have val: "yields (length ts - 1) (pbind (parse_value jt ctx ts) (\<lambda>lhs rest.
                case current rest of
                  None \<Rightarrow> None
                | Some op \<Rightarrow> if \<not> is_comparison_op op then Some (Inr (as_truthy lhs, rest))
                    else pbind (parse_value jt ctx (tl rest)) (\<lambda>rhs rest'.
                           Some (Inr (compare lhs op rhs, rest')))))"
    proof (rule yields_pbind [OF parse_value_yields [OF t(1)]])
      fix lhs rest assume r: "good_tokens rest" "length rest \<le> length ts - 1"
      obtain op where op: "current rest = Some op" using good_tokens_current [OF r(1)] by blast
      have "yields (length ts - 1) (pbind (parse_value jt ctx (tl rest)) (\<lambda>rhs rest'.
             Some (Inr (compare lhs op rhs, rest'))))" if "is_comparison_op op"
        using good_tokens_tl [OF r(1) op] that r(2)
        by (intro yields_pbind [OF parse_value_yields]) (auto simp: is_comparison_op_def)
      then show "yields (length ts - 1) (case current rest of
                  None \<Rightarrow> None
                | Some op \<Rightarrow> if \<not> is_comparison_op op then Some (Inr (as_truthy lhs, rest))
                    else pbind (parse_value jt ctx (tl rest)) (\<lambda>rhs rest'.
                           Some (Inr (compare lhs op rhs, rest'))))"
        using op r by simp
    qed
    have lit: "good_tokens (tl ts)" if "k = TkTrue \<or> k = TkFalse"
      using good_tokens_tl [OF t(1) k] that by auto
    show ?thesis using k paren val lit by simp
  qed
  show ?case using o ol a al nt c by blast
qed simp

lemma parse_or_answers:
  assumes "good_tokens ts"
  shows "parse_or_expr jt ctx (parse_fuel ts) ts \<noteq> None"
proof -
  have "yields (length ts - 1) (parse_or_expr jt ctx (parse_fuel ts) ts)"
    using parse_yields [of "parse_fuel ts" jt ctx] assms unfolding parse_fuel_def by blast
  then show ?thesis by (auto simp: yields_def)
qed

lemma evaluate_some: "\<exists>r. evaluate jt condition ctx = Some r"
proof (cases "trim condition = []")
  case False
  show ?thesis
  proof (cases "tokenize (trim condition)")
    case (Inr ts)
    then have "good_tokens ts"
      using tokens_from_good [of "trim condition" 0 "trim condition"] by (simp add: tokenize_def good_result_def)
    from parse_or_answers [OF this, of jt ctx] Inr False show ?thesis
      by (auto simp: evaluate_def split: option.splits sum.splits)
  qed (simp add: evaluate_def False)
qed (simp add: evaluate_def)

end
