(* ===== verification/Nop_Callback.thy ===== *)
theory Nop_Callback
  imports Nop_Models
begin

unbundle bit_operations_syntax

text \<open>
  Callbacks: the check of a callback URL (\<^verbatim>\<open>nps-nop/src/validation.rs\<close>), with the address parser of the
  Rust standard library that it calls, and the signing and delivery of the callback
  (\<^verbatim>\<open>nps-nop/src/callback.rs\<close>). HMAC-SHA256, base64, hexadecimal output and the HTTP client are
  parameters, the record \<open>callback_env\<close>.
\<close>

section \<open>IP addresses, as the standard library parses them\<close>

text \<open>A reader takes a value off the front of the text or fails, in which case nothing is consumed.\<close>

type_synonym 'a reader = "string \<Rightarrow> ('a \<times> string) option"

definition char_digit :: "nat \<Rightarrow> char \<Rightarrow> nat option" where
  "char_digit radix c =
     (let d = (if 48 \<le> code c \<and> code c \<le> 57 then code c - 48
               else if 97 \<le> code c \<and> code c \<le> 122 then code c - 87
               else if 65 \<le> code c \<and> code c \<le> 90 then code c - 55
               else 36)
      in if d < radix then Some d else None)"

text \<open>\<open>bound\<close> is \<open>2\<^sup>w\<close> for the width of the result: an intermediate value that reaches it fails.\<close>

fun read_digits :: "nat \<Rightarrow> nat \<Rightarrow> nat \<Rightarrow> nat \<Rightarrow> nat \<Rightarrow> (nat \<times> nat) reader" where
  "read_digits radix bound max_digits acc count [] = Some ((acc, count), [])"
| "read_digits radix bound max_digits acc count (c # cs) =
     (case char_digit radix c of
        None \<Rightarrow> Some ((acc, count), c # cs)
      | Some d \<Rightarrow>
          if acc * radix + d \<ge> bound then None
          else if count + 1 > max_digits then None
          else read_digits radix bound max_digits (acc * radix + d) (count + 1) cs)"

definition read_number :: "nat \<Rightarrow> nat \<Rightarrow> nat \<Rightarrow> bool \<Rightarrow> nat reader" where
  "read_number radix bound max_digits allow_zero_prefix s =
     (case read_digits radix bound max_digits 0 0 s of
        None \<Rightarrow> None
      | Some ((n, count), rest) \<Rightarrow>
          if count = 0 then None
          else if \<not> allow_zero_prefix \<and> take 1 s = ''0'' \<and> count > 1 then None
          else Some (n, rest))"

definition read_separator :: "char \<Rightarrow> nat \<Rightarrow> 'a reader \<Rightarrow> 'a reader" where
  "read_separator sep index inner s =
     (if index > 0 then (case s of c # cs \<Rightarrow> if c = sep then inner cs else None | [] \<Rightarrow> None)
      else inner s)"

fun read_octets :: "nat \<Rightarrow> nat \<Rightarrow> nat list reader" where
  "read_octets i 0 s = Some ([], s)"
| "read_octets i (Suc left) s =
     (case read_separator CHR ''.'' i (read_number 10 256 3 False) s of
        None \<Rightarrow> None
      | Some (n, rest) \<Rightarrow>
          (case read_octets (i + 1) left rest of
             None \<Rightarrow> None
           | Some (ns, rest) \<Rightarrow> Some (n # ns, rest)))"

definition read_ipv4_addr :: "u8 list reader" where
  "read_ipv4_addr s = map_option (\<lambda>(ns, rest). (map of_nat ns, rest)) (read_octets 0 4 s)"

definition be16 :: "u8 \<Rightarrow> u8 \<Rightarrow> u16" where
  "be16 hi lo = ucast hi * 256 + ucast lo"

text \<open>\<open>read_groups\<close>: up to \<open>left\<close> groups from position \<open>i\<close> on, whether an embedded IPv4 address ended
  them, and the rest.\<close>

fun read_groups :: "nat \<Rightarrow> nat \<Rightarrow> string \<Rightarrow> u16 list \<times> bool \<times> string" where
  "read_groups i 0 s = ([], False, s)"
| "read_groups i (Suc left) s =
     (case (if left > 0 then read_separator CHR '':'' i read_ipv4_addr s else None) of
        Some (v4, rest) \<Rightarrow> ([be16 (v4 ! 0) (v4 ! 1), be16 (v4 ! 2) (v4 ! 3)], True, rest)
      | None \<Rightarrow>
          (case read_separator CHR '':'' i (read_number 16 65536 4 True) s of
             None \<Rightarrow> ([], False, s)
           | Some (g, rest) \<Rightarrow>
               (case read_groups (i + 1) left rest of (gs, v4, rest) \<Rightarrow> (of_nat g # gs, v4, rest))))"

definition read_ipv6_addr :: "u16 list reader" where
  "read_ipv6_addr s =
     (case read_groups 0 8 s of (head, head_ipv4, rest) \<Rightarrow>
        if length head = 8 then Some (head, rest)
        else if head_ipv4 then None
        else (case strip_prefix ''::'' rest of
           None \<Rightarrow> None
         | Some rest \<Rightarrow>
             (case read_groups 0 (8 - (length head + 1)) rest of (tail, _, rest) \<Rightarrow>
                Some (head @ replicate (8 - length head - length tail) 0 @ tail, rest))))"

datatype ip_addr = V4 "u8 list" | V6 "u16 list"

definition parse_ip :: "string \<Rightarrow> ip_addr option" where
  "parse_ip s =
     (case (case read_ipv4_addr s of
              Some (a, rest) \<Rightarrow> Some (V4 a, rest)
            | None \<Rightarrow> map_option (\<lambda>(g, rest). (V6 g, rest)) (read_ipv6_addr s)) of
        Some (a, rest) \<Rightarrow> if rest = [] then Some a else None
      | None \<Rightarrow> None)"

definition octet_pair :: "u16 \<Rightarrow> u8 list" where
  "octet_pair g = [ucast (drop_bit 8 g), ucast g]"

definition to_ipv4_mapped :: "u16 list \<Rightarrow> u8 list option" where
  "to_ipv4_mapped g =
     (if take 6 g = [0, 0, 0, 0, 0, 0xffff] then Some (octet_pair (g ! 6) @ octet_pair (g ! 7)) else None)"

definition is_loopback6 :: "u16 list \<Rightarrow> bool" where
  "is_loopback6 g \<longleftrightarrow> g = [0, 0, 0, 0, 0, 0, 0, 1]"

section \<open>The guard against private hosts\<close>

definition is_private_ipv4 :: "u8 list \<Rightarrow> bool" where
  "is_private_ipv4 b \<longleftrightarrow>
     b ! 0 = 127 \<or> b ! 0 = 10 \<or> b ! 0 = 0
     \<or> b ! 0 = 172 \<and> 16 \<le> b ! 1 \<and> b ! 1 \<le> 31
     \<or> b ! 0 = 192 \<and> b ! 1 = 168
     \<or> b ! 0 = 169 \<and> b ! 1 = 254"

definition is_private_ipv6 :: "u16 list \<Rightarrow> bool" where
  "is_private_ipv6 g =
     (if is_loopback6 g then True
      else (g ! 0) AND 0xffc0 = 0xfe80 \<or> (g ! 0) AND 0xffc0 = 0xfec0 \<or> (g ! 0) AND 0xfe00 = 0xfc00)"

definition is_private_ip :: "ip_addr \<Rightarrow> bool" where
  "is_private_ip ip =
     (let ip = (case ip of
          V6 g \<Rightarrow> (case to_ipv4_mapped g of Some a \<Rightarrow> V4 a | None \<Rightarrow> V6 g)
        | V4 a \<Rightarrow> V4 a)
      in case ip of V4 a \<Rightarrow> is_private_ipv4 a | V6 g \<Rightarrow> is_private_ipv6 g)"

definition is_private_host :: "string \<Rightarrow> bool" where
  "is_private_host host =
     (if host = [] then True
      else if to_ascii_lowercase host = ''localhost'' then True
      else let stripped = rev (dropWhile (\<lambda>c. c = CHR '']'') (rev (dropWhile (\<lambda>c. c = CHR ''['') host)))
           in (case parse_ip stripped of Some ip \<Rightarrow> is_private_ip ip | None \<Rightarrow> False))"

section \<open>The URL\<close>

definition extract_host :: "string \<Rightarrow> string" where
  "extract_host rest =
     (let authority = hd (split_by (\<lambda>c. c = CHR ''/'' \<or> c = CHR ''?'' \<or> c = CHR ''#'') rest);
          authority = last (split_char CHR ''@'' authority)
      in case strip_prefix ''['' authority of
           Some stripped \<Rightarrow>
             (case split_once CHR '']'' stripped of
                Some (inner, _) \<Rightarrow> ''['' @ inner @ '']''
              | None \<Rightarrow> authority)
         | None \<Rightarrow> (case split_once CHR '':'' authority of Some (h, _) \<Rightarrow> h | None \<Rightarrow> authority))"

text \<open>\<open>str::split_once\<close> with the separator \<open>://\<close>.\<close>

fun split_scheme :: "string \<Rightarrow> (string \<times> string) option" where
  "split_scheme [] = None"
| "split_scheme (c # cs) =
     (case strip_prefix ''://'' (c # cs) of
        Some rest \<Rightarrow> Some ([], rest)
      | None \<Rightarrow> map_option (\<lambda>(a, b). (c # a, b)) (split_scheme cs))"

definition not_absolute :: "string \<Rightarrow> string" where
  "not_absolute url = ''callback_url '' @ quoted url @ '' is not a valid absolute URI.''"

definition validate_callback_url :: "string \<Rightarrow> string option" where
  "validate_callback_url url =
     (if trim url = [] then Some ''callback_url must not be empty.''
      else case split_scheme url of
        None \<Rightarrow> Some (not_absolute url)
      | Some (s, rest) \<Rightarrow>
          let scheme = to_ascii_lowercase s
          in if scheme \<noteq> ''https''
             then Some (''callback_url MUST use the https:// scheme (got '' @ quoted (scheme @ ''://'') @ '').'')
             else let host = extract_host rest
                  in if host = [] then Some (not_absolute url)
                     else if is_private_host host
                     then Some (''callback_url host '' @ quoted host
                            @ '' resolves to a private or loopback address (SSRF guard).'')
                     else None)"

section \<open>Signing and delivery\<close>

record callback_env =
  cb_base64_decode :: "string \<Rightarrow> bytes option"
  cb_hmac_sha256 :: "bytes \<Rightarrow> string \<Rightarrow> bytes"
  cb_hex :: "bytes \<Rightarrow> string"

definition decode_base64url :: "callback_env \<Rightarrow> string \<Rightarrow> bytes option" where
  "decode_base64url env v =
     (let normalized = map (\<lambda>c. if c = CHR ''_'' then CHR ''/'' else c)
                         (map (\<lambda>c. if c = CHR ''-'' then CHR ''+'' else c) (trim v));
          pad = (4 - length normalized mod 4) mod 4
      in cb_base64_decode env (normalized @ replicate pad CHR ''=''))"

text \<open>HMAC accepts a key of any length, so the conversion of the key never fails.\<close>

definition build_callback_signature :: "callback_env \<Rightarrow> string option \<Rightarrow> string \<Rightarrow> string option" where
  "build_callback_signature env callback_secret payload =
     (case callback_secret of
        None \<Rightarrow> None
      | Some secret \<Rightarrow>
          if trim secret = [] then None
          else (case decode_base64url env (trim secret) of
             None \<Rightarrow> None
           | Some key \<Rightarrow>
               if length key \<noteq> 32 then None
               else Some (''sha256='' @ cb_hex env (cb_hmac_sha256 env key payload))))"

record post_request =
  pr_url :: string
  pr_headers :: "(string \<times> string) list"
  pr_body :: string

text \<open>What a delivery does, in order: a request is sent or the task sleeps. \<open>send\<close> answers whether the
  request with this number is answered by a success status. A delay that does not fit in 64 bits
  panics, which ends the delivery.\<close>

datatype delivery = Posted post_request | Slept u64 | Overflowed

definition CALLBACK_MAX_RETRIES :: nat where "CALLBACK_MAX_RETRIES = 3"

definition callback_request :: "string \<Rightarrow> string option \<Rightarrow> string \<Rightarrow> post_request" where
  "callback_request url signature payload =
     \<lparr>pr_url = url,
      pr_headers = (''Content-Type'', ''application/json'')
        # (case signature of Some sig \<Rightarrow> [(''X-NPS-Signature'', sig)] | None \<Rightarrow> []),
      pr_body = payload\<rparr>"

text \<open>The loop \<open>for attempt in 1..=CALLBACK_MAX_RETRIES\<close>; \<open>left\<close> is the number of attempts to come.\<close>

fun deliver :: "(nat \<Rightarrow> bool) \<Rightarrow> post_request \<Rightarrow> u64 \<Rightarrow> nat \<Rightarrow> nat \<Rightarrow> delivery list" where
  "deliver send req base 0 attempt = []"
| "deliver send req base (Suc left) attempt =
     (if send attempt then [Posted req]
      else if attempt < CALLBACK_MAX_RETRIES \<and> base > 0
      then (if unat base * 2 ^ (attempt - 1) < 2 ^ 64
            then Posted req # Slept (base * 2 ^ (attempt - 1)) # deliver send req base left (attempt + 1)
            else [Posted req, Overflowed])
      else Posted req # deliver send req base left (attempt + 1))"

definition fire_callback :: "callback_env \<Rightarrow> (nat \<Rightarrow> bool) \<Rightarrow> string \<Rightarrow> string option \<Rightarrow> string \<Rightarrow> u64
    \<Rightarrow> delivery list" where
  "fire_callback env send url callback_secret payload base =
     deliver send (callback_request url (build_callback_signature env callback_secret payload) payload)
       base CALLBACK_MAX_RETRIES 1"

end
