(* ===== verification/Nop_Orchestrator.thy ===== *)
theory Nop_Orchestrator
  imports Nop_Store Nop_Dag Nop_Condition Nop_Callback "HOL-Library.Sublist"
begin

text \<open>
  \<^verbatim>\<open>nps-nop/src/orchestrator.rs\<close>: running a task. What lies outside the orchestrator is the record
  \<open>nop_env\<close>: the answers of the workers to each delegation (a frame stream, cut by a time-out or
  not), the clock, the fresh identifiers, the iteration order of a hash map, the order in which
  concurrent nodes finish and whether the timer of the task fires. A node's store updates do not
  influence its outcome; they are applied when the node finishes. Sleeping between attempts has
  no other effect on the result and is left out.
\<close>

section \<open>The surroundings\<close>

record preflight_result =
  pf_agent_nid :: string
  pf_available :: bool
  pf_available_cgn :: "int option"
  pf_estimated_queue_ms :: "int option"
  pf_capabilities :: "string list option"
  pf_unavailable_reason :: "string option"

record orchestrator_options =
  oo_max_concurrent_nodes :: nat
  oo_validate_sender_nid :: bool
  oo_enable_callback :: bool
  oo_callback_retry_base_delay_ms :: u64
  oo_default_aggregate_strategy :: string

text \<open>The frames a stream delivers within the node's time, and whether the time then ran out.\<close>

record stream_reply =
  rep_frames :: "align_stream_frame list"
  rep_timed_out :: bool

text \<open>A write to the record of the running task: its state, or one of its subtasks.\<close>

datatype store_write = W_state task_state | W_subtask string string task_state subtask_update

text \<open>\<open>env_cut\<close> is \<open>None\<close> when the task ends before its time-out; otherwise it holds what the task had
  written and delivered when the time-out fired.\<close>

record nop_env =
  env_options :: orchestrator_options
  env_delegate :: "delegate_frame \<Rightarrow> nat \<Rightarrow> stream_reply"
  env_preflight :: "string \<Rightarrow> string \<Rightarrow> preflight_result"
  env_probe_order :: "preflight_result list \<Rightarrow> preflight_result list"
  env_now_ms :: "string \<Rightarrow> nat \<Rightarrow> nat"
  env_uuid :: "string \<Rightarrow> nat \<Rightarrow> string"
  env_hash_order :: "string list \<Rightarrow> string list"
  env_pick :: "string list \<Rightarrow> nat"
  env_json_text :: "jvalue \<Rightarrow> string"
  env_result_text :: "task_result \<Rightarrow> string"
  env_callback :: callback_env
  env_send :: "nat \<Rightarrow> bool"
  env_cut :: "(store_write list \<times> delivery list) option"

section \<open>One attempt at a node\<close>

record node_outcome =
  no_state :: task_state
  no_result :: "jvalue option"
  no_error_code :: "string option"
  no_error_message :: "string option"

definition outcome_new :: "task_state \<Rightarrow> jvalue option \<Rightarrow> string option \<Rightarrow> node_outcome" where
  "outcome_new st res e = \<lparr>no_state = st, no_result = res, no_error_code = e, no_error_message = None\<rparr>"

definition outcome_with_msg :: "task_state \<Rightarrow> jvalue option \<Rightarrow> string option \<Rightarrow> string option \<Rightarrow> node_outcome" where
  "outcome_with_msg st res e m = \<lparr>no_state = st, no_result = res, no_error_code = e, no_error_message = m\<rparr>"

text \<open>The loop over the stream: \<open>None\<close> when the stream ends without a final frame.\<close>

fun read_stream :: "orchestrator_options \<Rightarrow> string \<Rightarrow> u64 \<Rightarrow> align_stream_frame list \<Rightarrow> node_outcome option" where
  "read_stream opts agent last_seq [] = None"
| "read_stream opts agent last_seq (f # fs) =
     (if al_seq f \<noteq> last_seq \<and> al_seq f \<noteq> 0 \<and> al_seq f \<noteq> last_seq + 1
      then Some (outcome_new Failed None (Some STREAM_SEQ_GAP))
      else if oo_validate_sender_nid opts \<and> al_sender_nid f \<noteq> agent
      then Some (outcome_new Failed None (Some STREAM_NID_MISMATCH))
      else if al_is_final f
      then Some (case al_error f of
             Some err \<Rightarrow> outcome_with_msg Failed None (Some (se_code err)) (Some (se_message err))
           | None \<Rightarrow> outcome_new Completed (al_data f) None)
      else read_stream opts agent (al_seq f) fs)"

definition node_timeout_ms :: "task_frame \<Rightarrow> dag_node \<Rightarrow> u64" where
  "node_timeout_ms task node =
     min (case dn_timeout_ms node of Some t \<Rightarrow> ucast t | None \<Rightarrow> tf_timeout_ms task) MAX_TIMEOUT_MS"

definition delegate_for :: "nop_env \<Rightarrow> task_frame \<Rightarrow> dag_node \<Rightarrow> string \<Rightarrow> string \<Rightarrow> nat \<Rightarrow> jvalue \<Rightarrow> delegate_frame" where
  "delegate_for env task node subtask_id idempotency_key attempt params =
     \<lparr>dg_parent_task_id = tf_task_id task, dg_subtask_id = subtask_id, dg_node_id = dn_id node,
      dg_target_agent_nid = dn_agent node, dg_action = dn_action node, dg_params = Some params,
      dg_delegated_scope = JObject [],
      dg_deadline_at = show_nat (env_now_ms env (dn_id node) attempt + unat (node_timeout_ms task node)),
      dg_idempotency_key = Some idempotency_key, dg_priority = Some (tf_priority task),
      dg_context = Some (unwrap_or task_context_default (tf_context task)),
      dg_delegate_depth = tf_delegate_depth task + 1, dg_target_cluster_anchor = None\<rparr>"

definition execute_node_once :: "nop_env \<Rightarrow> task_frame \<Rightarrow> dag_node \<Rightarrow> string \<Rightarrow> string \<Rightarrow> nat \<Rightarrow> node_values
    \<Rightarrow> node_outcome" where
  "execute_node_once env task node subtask_id idempotency_key attempt ctx =
     (case build_params (dn_input_mapping node) ctx of
        Inl e \<Rightarrow> outcome_with_msg Failed None (Some (me_error_code e)) (Some (me_message e))
      | Inr params \<Rightarrow>
          let reply = env_delegate env (delegate_for env task node subtask_id idempotency_key attempt params) attempt
          in (case read_stream (env_options env) (dn_agent node) 0 (rep_frames reply) of
                Some outcome \<Rightarrow> outcome
              | None \<Rightarrow>
                  if rep_timed_out reply
                  then outcome_with_msg Failed None (Some DELEGATE_TIMEOUT)
                         (Some (''Node '' @ quoted (dn_id node) @ '' timed out after ''
                                @ show_u64 (node_timeout_ms task node) @ ''ms.''))
                  else outcome_with_msg Failed None (Some DELEGATE_TIMEOUT)
                         (Some ''Stream ended without final frame.'')))"

section \<open>Retries\<close>

definition should_retry :: "retry_policy option \<Rightarrow> string option \<Rightarrow> nat \<Rightarrow> nat \<Rightarrow> bool" where
  "should_retry policy error_code attempt max_retries =
     (if attempt > max_retries then False
      else (case Option.bind policy rp_retry_on of
          Some retry_on \<Rightarrow>
            if retry_on \<noteq> []
            then (case error_code of Some c \<Rightarrow> list_ex (\<lambda>x. x = c) retry_on | None \<Rightarrow> True)
            else True
        | None \<Rightarrow> True))"

type_synonym subtask_log = "(task_state \<times> subtask_update) list"

definition failed_update :: "node_outcome \<Rightarrow> nat \<Rightarrow> task_state \<times> subtask_update" where
  "failed_update o1 attempt = (Failed, \<lparr>su_result = None, su_error_code = no_error_code o1,
     su_error_message = no_error_message o1, su_attempt = int attempt\<rparr>)"

text \<open>The loop \<open>for attempt in 1..=(max_retries + 1)\<close>: the attempts left, the attempt to make, and the
  updates written so far.\<close>

fun attempt_loop :: "nop_env \<Rightarrow> task_frame \<Rightarrow> dag_node \<Rightarrow> node_values \<Rightarrow> nat \<Rightarrow> nat \<Rightarrow> nat
    \<Rightarrow> node_outcome \<times> subtask_log" where
  "attempt_loop env task node ctx max_retries 0 attempt =
     (outcome_new Failed None (Some DELEGATE_TIMEOUT),
      [(Failed, \<lparr>su_result = None, su_error_code = Some DELEGATE_TIMEOUT,
          su_error_message = Some (''Node '' @ quoted (dn_id node) @ '' exhausted '' @ show_nat max_retries @ '' retries.''),
          su_attempt = 0\<rparr>)])"
| "attempt_loop env task node ctx max_retries (Suc left) attempt =
     (let running = (Running, subtask_update_default\<lparr>su_attempt := int attempt\<rparr>);
          o1 = execute_node_once env task node (env_uuid env (dn_id node) 0) (env_uuid env (dn_id node) 1) attempt ctx
      in if no_state o1 = Completed
         then (o1, [running, (Completed, subtask_update_default\<lparr>su_result := no_result o1, su_attempt := int attempt\<rparr>)])
         else if \<not> should_retry (dn_retry_policy node) (no_error_code o1) attempt max_retries
         then (o1, [running, failed_update o1 attempt])
         else (let (o2, log) = attempt_loop env task node ctx max_retries left (attempt + 1) in (o2, running # log)))"

definition node_max_retries :: "task_frame \<Rightarrow> dag_node \<Rightarrow> nat" where
  "node_max_retries task node =
     unat (case dn_retry_policy node of Some p \<Rightarrow> rp_max_retries p | None \<Rightarrow> tf_max_retries task)"

definition execute_node_with_retry :: "nop_env \<Rightarrow> task_frame \<Rightarrow> dag_node \<Rightarrow> node_values
    \<Rightarrow> node_outcome \<times> subtask_log" where
  "execute_node_with_retry env task node ctx =
     (let max_retries = node_max_retries task node;
          go = attempt_loop env task node ctx max_retries (max_retries + 1) 1
      in case dn_condition node of
           None \<Rightarrow> go
         | Some cond \<Rightarrow>
             if cond = [] then go
             else (case evaluate (env_json_text env) cond ctx of
                Some (Inr False) \<Rightarrow> (outcome_new Skipped None None, [(Skipped, subtask_update_default)])
              | Some (Inr True) \<Rightarrow> go
              | Some (Inl e) \<Rightarrow>
                  (outcome_new Failed None (Some CONDITION_EVAL_ERROR),
                   [(Failed, \<lparr>su_result = None, su_error_code = Some CONDITION_EVAL_ERROR,
                        su_error_message = Some e, su_attempt = 1\<rparr>)])
              | None \<Rightarrow> (outcome_new Failed None None, [])))"

definition write_log :: "string \<Rightarrow> string \<Rightarrow> string \<Rightarrow> subtask_log \<Rightarrow> mem_store \<Rightarrow> mem_store" where
  "write_log task_id node_id subtask_id log s =
     fold (\<lambda>(st, u). store_update_subtask task_id node_id subtask_id st u) log s"

section \<open>Dependencies\<close>

definition node_deps :: "dag_node \<Rightarrow> string list" where
  "node_deps n = unwrap_or [] (dn_input_from n)"

definition needed :: "dag_node \<Rightarrow> nat" where
  "needed n = (if dn_min_required n > 0 then unat (dn_min_required n) else length (node_deps n))"

type_synonym node_states = "(string \<times> task_state) list"

definition dep_successes :: "node_states \<Rightarrow> string list \<Rightarrow> nat" where
  "dep_successes states deps =
     length (filter (\<lambda>d. map_of states d = Some Completed \<or> map_of states d = Some Skipped) deps)"

definition dep_failures :: "node_states \<Rightarrow> string list \<Rightarrow> nat" where
  "dep_failures states deps = length (filter (\<lambda>d. map_of states d = Some Failed) deps)"

definition are_deps_done :: "dag_node \<Rightarrow> node_states \<Rightarrow> bool" where
  "are_deps_done n states =
     (if node_deps n = [] then True
      else let total = length (node_deps n); k = needed n
           in if dep_successes states (node_deps n) \<ge> k then True
              else if total - dep_failures states (node_deps n) < k then True
              else False)"

definition can_end_node_still_succeed :: "dag_node \<Rightarrow> node_states \<Rightarrow> bool" where
  "can_end_node_still_succeed n states =
     (if node_deps n = [] then False
      else length (node_deps n) - dep_failures states (node_deps n) \<ge> needed n)"

definition neighbours :: "dag_edge list \<Rightarrow> string \<Rightarrow> string list" where
  "neighbours es u = map de_to (filter (\<lambda>e. de_from e = u) es)"

lemma no_neighbours: "u \<notin> set (map de_from es) \<Longrightarrow> neighbours es u = []"
  by (auto simp: neighbours_def filter_empty_conv)

function bfs :: "dag_edge list \<Rightarrow> string \<Rightarrow> string list \<Rightarrow> string set \<Rightarrow> bool" where
  "bfs es target [] visited = False"
| "bfs es target (cur # queue) visited =
     (if cur = target then True
      else if cur \<in> visited then bfs es target queue visited
      else bfs es target (queue @ neighbours es cur) (insert cur visited))"
  by pat_completeness auto
termination
proof (relation "(\<lambda>(es, target, queue, visited). card (set (map de_from es) - visited))
    <*mlex*> measure (\<lambda>(es, target, queue, visited). length queue)", goal_cases)
  case 1
  then show ?case by (simp add: wf_mlex)
next
  case (2 es target cur queue visited)
  then show ?case by (simp add: mlex_prod_def)
next
  case (3 es target cur queue visited)
  show ?case
  proof (cases "cur \<in> set (map de_from es)")
    case True
    then have "set (map de_from es) - insert cur visited \<subset> set (map de_from es) - visited" using 3 by auto
    then have "card (set (map de_from es) - insert cur visited) < card (set (map de_from es) - visited)"
      by (simp add: psubset_card_mono)
    then show ?thesis by (simp add: mlex_prod_def)
  next
    case False
    then have "set (map de_from es) - insert cur visited = set (map de_from es) - visited" by auto
    with no_neighbours [OF False] show ?thesis by (simp add: mlex_prod_def)
  qed
qed

definition can_reach_end_node :: "string \<Rightarrow> string \<Rightarrow> dag_edge list \<Rightarrow> bool" where
  "can_reach_end_node end_node failed_node es = bfs es end_node [failed_node] {}"

section \<open>The main loop\<close>

record dag_run =
  rs_states :: node_states
  rs_results :: node_values
  rs_flight :: "(string \<times> node_outcome \<times> subtask_log) list"
  rs_store :: mem_store

definition all_nodes :: "task_frame \<Rightarrow> (string \<times> dag_node) list" where
  "all_nodes task = fold (\<lambda>n. AList.update (dn_id n) n) (td_nodes (tf_dag task)) []"

definition end_node_ids :: "nop_env \<Rightarrow> task_frame \<Rightarrow> string list" where
  "end_node_ids env task =
     filter (\<lambda>i. i \<notin> set (map de_from (td_edges (tf_dag task)))) (env_hash_order env (map fst (all_nodes task)))"

definition is_ready :: "dag_run \<Rightarrow> dag_node \<Rightarrow> bool" where
  "is_ready run n \<longleftrightarrow> map_of (rs_states run) (dn_id n) = None \<and> dn_id n \<notin> set (map fst (rs_flight run))
     \<and> are_deps_done n (rs_states run)"

text \<open>The K-of-N loop: nodes whose K can no longer be reached fail without being run.\<close>

fun settle :: "nop_env \<Rightarrow> task_frame \<Rightarrow> dag_node list \<Rightarrow> node_states \<times> mem_store
    \<Rightarrow> dag_node list \<times> node_states \<times> mem_store" where
  "settle env task [] (states, s) = ([], states, s)"
| "settle env task (n # ns) (states, s) =
     (let success = dep_successes states (node_deps n); k = needed n
      in if node_deps n \<noteq> [] \<and> success < k
         then settle env task ns
                (AList.update (dn_id n) Failed states,
                 store_update_subtask (tf_task_id task) (dn_id n) (env_uuid env (dn_id n) 2) Failed
                   \<lparr>su_result = None, su_error_code = Some SYNC_DEPENDENCY_FAILED,
                    su_error_message = Some (''Only '' @ show_nat success @ ''/'' @ show_nat k
                      @ '' required dependencies succeeded.''), su_attempt = 1\<rparr> s)
         else (let (ready, rest) = settle env task ns (states, s) in (n # ready, rest)))"

definition launch :: "nop_env \<Rightarrow> task_frame \<Rightarrow> node_values \<Rightarrow> dag_node list
    \<Rightarrow> (string \<times> node_outcome \<times> subtask_log) list \<Rightarrow> (string \<times> node_outcome \<times> subtask_log) list" where
  "launch env task results ready flight = flight @
     map (\<lambda>n. (dn_id n, execute_node_with_retry env task n results))
       (take (oo_max_concurrent_nodes (env_options env) - length flight) ready)"

text \<open>One round up to the wait: the nodes that are ready are settled or launched.\<close>

definition dispatch :: "nop_env \<Rightarrow> task_frame \<Rightarrow> dag_run \<Rightarrow> dag_run" where
  "dispatch env task run =
     (let (ready, states, s) = settle env task (filter (is_ready run) (td_nodes (tf_dag task)))
                                 (rs_states run, rs_store run)
      in run\<lparr>rs_states := states, rs_store := s,
             rs_flight := launch env task (rs_results run) ready (rs_flight run)\<rparr>)"

definition picked :: "nop_env \<Rightarrow> dag_run \<Rightarrow> nat" where
  "picked env run = env_pick env (map fst (rs_flight run)) mod length (rs_flight run)"

text \<open>The next node finishes: its updates reach the store, its state and result are recorded.\<close>

definition finish_next :: "nop_env \<Rightarrow> task_frame \<Rightarrow> dag_run \<Rightarrow> string \<times> node_outcome \<times> dag_run" where
  "finish_next env task run =
     (let i = picked env run;
          (node_id, outcome, log) = rs_flight run ! i
      in (node_id, outcome,
          run\<lparr>rs_flight := take i (rs_flight run) @ drop (Suc i) (rs_flight run),
              rs_store := write_log (tf_task_id task) node_id (env_uuid env node_id 0) log (rs_store run),
              rs_states := AList.update node_id (no_state outcome) (rs_states run),
              rs_results := (if no_state outcome = Completed
                             then (case no_result outcome of
                                     Some r \<Rightarrow> AList.update node_id r (rs_results run)
                                   | None \<Rightarrow> rs_results run)
                             else rs_results run)\<rparr>))"

text \<open>A missing end node cannot occur: every end node is a key of the node map.\<close>

definition must_abort :: "nop_env \<Rightarrow> task_frame \<Rightarrow> string \<Rightarrow> dag_run \<Rightarrow> bool" where
  "must_abort env task failed run \<longleftrightarrow>
     list_ex (\<lambda>e. can_reach_end_node e failed (td_edges (tf_dag task))
        \<and> (case map_of (all_nodes task) e of
             Some n \<Rightarrow> \<not> can_end_node_still_succeed n (rs_states run)
           | None \<Rightarrow> False)) (end_node_ids env task)"

text \<open>Draining: the nodes still running finish, their updates reach the store, their outcomes are
  dropped.\<close>

definition drain :: "nop_env \<Rightarrow> task_frame \<Rightarrow> dag_run \<Rightarrow> dag_run" where
  "drain env task run = run\<lparr>rs_flight := [],
     rs_store := fold (\<lambda>(node_id, outcome, log). write_log (tf_task_id task) node_id (env_uuid env node_id 0) log)
       (rs_flight run) (rs_store run)\<rparr>"

datatype dag_end = Aborted string node_outcome dag_run | Ended dag_run

definition waiting :: "task_frame \<Rightarrow> dag_run \<Rightarrow> nat" where
  "waiting task run = length (filter (\<lambda>n. map_of (rs_states run) (dn_id n) = None
     \<and> dn_id n \<notin> set (map fst (rs_flight run))) (td_nodes (tf_dag task)))"

lemma length_filter_mono: "(\<And>x. P x \<Longrightarrow> Q x) \<Longrightarrow> length (filter P xs) \<le> length (filter Q xs)"
  by (induction xs) auto

lemma settle_subseq: "subseq (fst (settle env task ns (states, s))) ns"
  by (induction env task ns "(states, s)" arbitrary: states s rule: settle.induct)
     (auto simp: Let_def split: prod.splits)

lemma settle_states_None:
  "map_of (fst (snd (settle env task ns (states, s)))) x = None \<Longrightarrow> map_of states x = None"
proof (induction ns arbitrary: states s)
  case (Cons n ns)
  show ?case
  proof (cases "node_deps n \<noteq> [] \<and> dep_successes states (node_deps n) < needed n")
    case True
    then have "\<exists>s'. settle env task (n # ns) (states, s) = settle env task ns (AList.update (dn_id n) Failed states, s')"
      by (auto simp: Let_def)
    with Cons.prems have "map_of (AList.update (dn_id n) Failed states) x = None"
      by (metis Cons.IH)
    then show ?thesis by (simp add: update_conv' split: if_splits)
  next
    case False
    with Cons.prems have "map_of (fst (snd (settle env task ns (states, s)))) x = None"
      by (simp add: Let_def split: prod.splits if_splits)
    then show ?thesis by (rule Cons.IH)
  qed
qed simp

lemma launch_fst:
  "map fst (launch env task res ready flight) = map fst flight @
     map dn_id (take (oo_max_concurrent_nodes (env_options env) - length flight) ready)"
  by (simp add: launch_def comp_def)

lemma dispatch_waiting:
  "2 * waiting task (dispatch env task run) + length (rs_flight (dispatch env task run))
   \<le> 2 * waiting task run + length (rs_flight run)"
proof -
  let ?nodes = "td_nodes (tf_dag task)"
  let ?W = "\<lambda>n. map_of (rs_states run) (dn_id n) = None \<and> dn_id n \<notin> set (map fst (rs_flight run))"
  obtain ready states s where st:
    "settle env task (filter (is_ready run) ?nodes) (rs_states run, rs_store run) = (ready, states, s)"
    by (cases "settle env task (filter (is_ready run) ?nodes) (rs_states run, rs_store run)") auto
  define l where "l = take (oo_max_concurrent_nodes (env_options env) - length (rs_flight run)) ready"
  let ?V = "\<lambda>n. map_of states (dn_id n) = None \<and> dn_id n \<notin> set (map fst (rs_flight run) @ map dn_id l)"
  have fl: "map fst (rs_flight (dispatch env task run)) = map fst (rs_flight run) @ map dn_id l"
    by (simp add: dispatch_def st launch_fst l_def)
  have w: "waiting task (dispatch env task run) = length (filter ?V ?nodes)"
    unfolding waiting_def fl by (simp add: dispatch_def st)
  have "subseq l ready" by (simp add: l_def prefix_imp_subseq take_is_prefix)
  also have "subseq ready (filter (is_ready run) ?nodes)"
    using settle_subseq [of env task "filter (is_ready run) ?nodes" "rs_states run" "rs_store run"] st by simp
  also have "subseq \<dots> (filter ?W ?nodes)"
  proof -
    have "filter (is_ready run) ?nodes = filter (is_ready run) (filter ?W ?nodes)"
      unfolding filter_filter by (intro filter_cong refl) (auto simp: is_ready_def)
    then show ?thesis using subseq_filter_left [of "is_ready run" "filter ?W ?nodes"] by simp
  qed
  finally have sub: "subseq l (filter ?W ?nodes)" .
  have "subseq (filter (\<lambda>n. n \<in> set l) l) (filter (\<lambda>n. n \<in> set l) (filter ?W ?nodes))"
    using sub by (rule subseq_filter)
  then have "length l \<le> length (filter (\<lambda>n. n \<in> set l) (filter ?W ?nodes))"
    using list_emb_length by fastforce
  moreover have "length (filter (\<lambda>n. n \<in> set l) (filter ?W ?nodes)) + length (filter (\<lambda>n. n \<notin> set l) (filter ?W ?nodes))
      = length (filter ?W ?nodes)"
    by (rule sum_length_filter_compl)
  moreover have "length (filter ?V ?nodes) \<le> length (filter (\<lambda>n. n \<notin> set l) (filter ?W ?nodes))"
  proof -
    have "?V n \<Longrightarrow> n \<notin> set l \<and> ?W n" for n
      using settle_states_None [of env task "filter (is_ready run) ?nodes" "rs_states run" "rs_store run"] st by auto
    then show ?thesis unfolding filter_filter by (intro length_filter_mono) blast
  qed
  ultimately have "waiting task (dispatch env task run) + length l \<le> waiting task run"
    unfolding w by (simp add: waiting_def)
  moreover have "length (rs_flight (dispatch env task run)) = length (rs_flight run) + length l"
    using arg_cong [OF fl, of length] by simp
  ultimately show ?thesis by simp
qed

lemma finish_next_waiting:
  assumes "rs_flight run \<noteq> []" "finish_next env task run = (i, oc, run')"
  shows "2 * waiting task run' + length (rs_flight run') < 2 * waiting task run + length (rs_flight run)"
proof -
  have p: "picked env run < length (rs_flight run)" using assms(1) by (simp add: picked_def)
  obtain j o1 lg where f: "rs_flight run ! picked env run = (j, o1, lg)"
    by (cases "rs_flight run ! picked env run") auto
  have fl: "rs_flight run' = take (picked env run) (rs_flight run) @ drop (Suc (picked env run)) (rs_flight run)"
    and st: "rs_states run' = AList.update j (no_state o1) (rs_states run)"
    using assms(2) by (auto simp: finish_next_def f Let_def)
  have split: "rs_flight run = take (picked env run) (rs_flight run) @ (j, o1, lg) # drop (Suc (picked env run)) (rs_flight run)"
    using id_take_nth_drop [OF p] f by simp
  have "set (map fst (rs_flight run)) \<subseteq> insert j (set (map fst (rs_flight run')))"
    by (subst split) (auto simp: fl)
  then have "map_of (rs_states run') x = None \<Longrightarrow> x \<notin> set (map fst (rs_flight run'))
      \<Longrightarrow> map_of (rs_states run) x = None \<and> x \<notin> set (map fst (rs_flight run))" for x
    by (auto simp: st update_conv' split: if_splits)
  then have "waiting task run' \<le> waiting task run"
    unfolding waiting_def by (intro length_filter_mono) auto
  moreover have "length (rs_flight run') < length (rs_flight run)" using p by (simp add: fl)
  ultimately show ?thesis by simp
qed

function dag_loop :: "nop_env \<Rightarrow> task_frame \<Rightarrow> dag_run \<Rightarrow> dag_end" where
  "dag_loop env task run =
     (if length (rs_states run) < length (all_nodes task)
      then let run1 = dispatch env task run
           in if rs_flight run1 = [] then Ended run1
              else (case finish_next env task run1 of
                 (node_id, outcome, run2) \<Rightarrow>
                   if no_state outcome = Failed \<and> must_abort env task node_id run2
                   then Aborted node_id outcome (drain env task run2)
                   else dag_loop env task run2)
      else Ended run)"
  by pat_completeness auto
termination
proof (relation "measure (\<lambda>(env, task, run). 2 * waiting task run + length (rs_flight run))", goal_cases)
  case (2 env task run run1 node_id y outcome run2)
  then have "2 * waiting task run2 + length (rs_flight run2) < 2 * waiting task run1 + length (rs_flight run1)"
    using finish_next_waiting [of run1 env task node_id outcome run2] by simp
  with dispatch_waiting [of task env run] 2 show ?case by simp
qed simp

declare dag_loop.simps [simp del]

end
