(* ===== verification/Nop_Lifecycle.thy ===== *)
theory Nop_Lifecycle
  imports Nop_Orchestrator
begin

text \<open>
  The second half of \<^verbatim>\<open>nps-nop/src/orchestrator.rs\<close>: saga compensation, the result of a run of the DAG,
  the preflight and the life cycle of a task, from the checks on its submission to the callback.
\<close>

section \<open>Saga compensation\<close>

definition has_compensation :: "dag_node \<Rightarrow> bool" where
  "has_compensation n \<longleftrightarrow> (case dn_compensate_action n of Some a \<Rightarrow> trim a \<noteq> [] | None \<Rightarrow> False)"

text \<open>The completed nodes in reverse topological order.\<close>

definition completed_nodes :: "(string \<times> dag_node) list \<Rightarrow> string list \<Rightarrow> node_states \<Rightarrow> (string \<times> dag_node) list" where
  "completed_nodes nodes topo_order states =
     rev (List.map_filter (\<lambda>i. if map_of states i = Some Completed then map_option (Pair i) (map_of nodes i) else None)
            topo_order)"

definition compensation_node :: "dag_node \<Rightarrow> dag_node" where
  "compensation_node n = n\<lparr>dn_action := unwrap_or [] (dn_compensate_action n),
     dn_input_mapping := dn_compensate_params_mapping n\<rparr>"

text \<open>The delegations are made one after another; a failed one does not stop the rest.\<close>

definition compensate_one :: "nop_env \<Rightarrow> task_frame \<Rightarrow> node_values \<Rightarrow> dag_node \<Rightarrow> node_outcome" where
  "compensate_one env task results n =
     execute_node_once env task (compensation_node n) (env_uuid env (dn_id n) 3) (env_uuid env (dn_id n) 4) 0 results"

definition compensation_plan :: "task_frame \<Rightarrow> string list \<Rightarrow> node_states \<Rightarrow> (string \<times> dag_node) list" where
  "compensation_plan task topo_order states =
     filter (\<lambda>(i, n). has_compensation n) (completed_nodes (all_nodes task) topo_order states)"

definition run_saga_compensation :: "nop_env \<Rightarrow> task_frame \<Rightarrow> string list \<Rightarrow> node_values \<Rightarrow> node_states
    \<Rightarrow> mem_store \<Rightarrow> saga_result \<times> mem_store" where
  "run_saga_compensation env task topo_order results states s =
     (let completed = completed_nodes (all_nodes task) topo_order states;
          missing = map fst (filter (\<lambda>(i, n). \<not> has_compensation n) completed);
          to_compensate = compensation_plan task topo_order states
      in if is_strict (Some (tf_compensation_policy task)) \<and> missing \<noteq> []
         then (\<lparr>sg_attempted = 0, sg_succeeded = 0, sg_failed = length missing, sg_failed_node_ids = missing\<rparr>, s)
         else if to_compensate = []
         then (\<lparr>sg_attempted = 0, sg_succeeded = 0, sg_failed = 0, sg_failed_node_ids = []\<rparr>, s)
         else (let s = store_update_state (tf_task_id task) Compensating s;
                   done = map (\<lambda>(i, n). (i, no_state (compensate_one env task results n) = Completed)) to_compensate;
                   failed_ids = map fst (filter (\<lambda>(i, ok). \<not> ok) done)
               in (\<lparr>sg_attempted = length to_compensate, sg_succeeded = length (filter snd done),
                    sg_failed = length failed_ids, sg_failed_node_ids = failed_ids\<rparr>, s)))"

definition compensation_failure_error_code :: "task_frame \<Rightarrow> saga_result option \<Rightarrow> string option" where
  "compensation_failure_error_code task saga =
     (if \<not> is_strict (Some (tf_compensation_policy task)) then None
      else case saga of
        None \<Rightarrow> None
      | Some r \<Rightarrow>
          if sg_failed r = 0 then None
          else Some (if sg_attempted r = 0 then COMPENSATION_NOT_SUPPORTED else COMPENSATION_FAILED))"

section \<open>The result of a DAG\<close>

text \<open>The compensation of a task, run when the policy asks for it.\<close>

definition compensate_if :: "bool \<Rightarrow> nop_env \<Rightarrow> task_frame \<Rightarrow> string list \<Rightarrow> dag_run \<Rightarrow> saga_result option \<times> mem_store" where
  "compensate_if wanted env task topo_order run =
     (if wanted
      then (case run_saga_compensation env task topo_order (rs_results run) (rs_states run) (rs_store run) of
              (saga, s) \<Rightarrow> (Some saga, s))
      else (None, rs_store run))"

definition failed_with :: "nop_env \<Rightarrow> task_frame \<Rightarrow> string list \<Rightarrow> dag_run \<Rightarrow> string \<Rightarrow> task_result \<times> mem_store" where
  "failed_with env task topo_order run message =
     (case compensate_if (runs_on_failure (Some (tf_compensation_policy task))) env task topo_order run of
        (saga, s) \<Rightarrow>
          (result_failure (tf_task_id task)
             (unwrap_or SYNC_DEPENDENCY_FAILED (compensation_failure_error_code task saga)) message saga, s))"

definition dag_start :: "mem_store \<Rightarrow> dag_run" where
  "dag_start s = \<lparr>rs_states = [], rs_results = [], rs_flight = [], rs_store = s\<rparr>"

definition run_dag :: "nop_env \<Rightarrow> task_frame \<Rightarrow> string list \<Rightarrow> mem_store \<Rightarrow> task_result \<times> mem_store" where
  "run_dag env task topo_order s =
     (case dag_loop env task (dag_start s) of
        Aborted node_id outcome run \<Rightarrow>
          failed_with env task topo_order run
            (''Node '' @ quoted node_id @ '' failed: '' @ unwrap_or [] (no_error_code outcome))
      | Ended run \<Rightarrow>
          let failed_nodes = map fst (filter (\<lambda>(i, st). st = Failed) (rs_states run));
              end_failed = list_ex (\<lambda>e. map_of (rs_states run) e = Some Failed) (end_node_ids env task)
          in if failed_nodes \<noteq> [] \<and> end_failed
             then failed_with env task topo_order run
                    (''End node(s) failed: '' @ join '', '' (sort failed_nodes))
             else (let aggregated = aggregate_end_nodes (end_node_ids env task) (rs_results run)
                                      (oo_default_aggregate_strategy (env_options env))
                   in case compensate_if (runs_on_success (Some (tf_compensation_policy task))) env task topo_order run of
                        (saga, s) \<Rightarrow> (result_success (tf_task_id task) (Some aggregated) (rs_results run) saga, s)))"

section \<open>The life cycle of a task\<close>

text \<open>One probe per agent, with the action of the first node that names the agent.\<close>

fun unique_agents :: "string list \<Rightarrow> dag_node list \<Rightarrow> (string \<times> string) list" where
  "unique_agents seen [] = []"
| "unique_agents seen (n # ns) =
     (if dn_agent n \<in> set seen then unique_agents seen ns
      else (dn_agent n, dn_action n) # unique_agents (dn_agent n # seen) ns)"

definition run_preflight :: "nop_env \<Rightarrow> task_frame \<Rightarrow> string option" where
  "run_preflight env task =
     (case find (\<lambda>r. \<not> pf_available r)
             (env_probe_order env (map (\<lambda>(agent, act). env_preflight env agent act)
                (unique_agents [] (td_nodes (tf_dag task))))) of
        Some r \<Rightarrow> Some (''Agent '' @ quoted (pf_agent_nid r) @ '' is unavailable: ''
                   @ unwrap_or ''no reason given'' (pf_unavailable_reason r))
      | None \<Rightarrow> None)"

definition callback_of :: "nop_env \<Rightarrow> task_frame \<Rightarrow> task_result \<Rightarrow> delivery list" where
  "callback_of env task r =
     (if oo_enable_callback (env_options env)
      then (case tf_callback_url task of
              Some url \<Rightarrow>
                if url \<noteq> []
                then fire_callback (env_callback env) (env_send env) url (tf_callback_secret task)
                       (env_result_text env r) (oo_callback_retry_base_delay_ms (env_options env))
                else []
            | None \<Rightarrow> [])
      else [])"

definition run_lifecycle :: "nop_env \<Rightarrow> task_frame \<Rightarrow> string list \<Rightarrow> mem_store
    \<Rightarrow> task_result \<times> delivery list \<times> mem_store" where
  "run_lifecycle env task topo_order s =
     (let tid = tf_task_id task;
          s = (if tf_preflight task then store_update_state tid Preflight s else s)
      in case (if tf_preflight task then run_preflight env task else None) of
           Some fail \<Rightarrow> (result_failure tid RESOURCE_INSUFFICIENT fail None, [], store_update_state tid Failed s)
         | None \<Rightarrow>
             (case run_dag env task topo_order (store_update_state tid Running s) of
                (result, s) \<Rightarrow>
                  (result, callback_of env task result, store_update_state tid (tr_final_state result) s)))"

fun apply_write :: "string \<Rightarrow> store_write \<Rightarrow> mem_store \<Rightarrow> mem_store" where
  "apply_write tid (W_state st) s = store_update_state tid st s"
| "apply_write tid (W_subtask node sub st u) s = store_update_subtask tid node sub st u s"

definition rejected :: "task_frame \<Rightarrow> string \<Rightarrow> string \<Rightarrow> mem_store \<Rightarrow> task_result \<times> delivery list \<times> mem_store" where
  "rejected task err message s = (result_failure (tf_task_id task) err message None, [], s)"

definition new_record :: "nop_env \<Rightarrow> task_frame \<Rightarrow> task_record" where
  "new_record env task = \<lparr>tk_task_id = tf_task_id task, tk_frame = task, tk_state = Pending,
     tk_started_at_ms = env_now_ms env (tf_task_id task) 0, tk_completed_at_ms = None, tk_subtasks = []\<rparr>"

text \<open>\<open>NopOrchestrator::execute\<close>; \<open>None\<close> would be a panic.\<close>

definition execute :: "nop_env \<Rightarrow> task_frame \<Rightarrow> mem_store \<Rightarrow> (task_result \<times> delivery list \<times> mem_store) option" where
  "execute env task s =
     (if tf_delegate_depth task \<ge> MAX_DELEGATE_CHAIN_DEPTH
      then Some (rejected task DELEGATE_CHAIN_TOO_DEEP
             (''Delegation chain depth '' @ show_nat (nat (tf_delegate_depth task)) @ '' exceeds the maximum of ''
                @ show_nat (nat MAX_DELEGATE_CHAIN_DEPTH) @ ''.'') s)
      else case (case tf_callback_url task of
                   Some url \<Rightarrow> if url \<noteq> [] then validate_callback_url url else None
                 | None \<Rightarrow> None) of
        Some err \<Rightarrow> Some (rejected task TASK_DAG_INVALID err s)
      | None \<Rightarrow>
          (case validate_dag (tf_dag task) of
             None \<Rightarrow> None
           | Some v \<Rightarrow>
               if \<not> dv_is_valid v
               then Some (rejected task (unwrap_or [] (dv_error_code v)) (unwrap_or [] (dv_error_message v)) s)
               else (case dv_topological_order v of
                  None \<Rightarrow> None
                | Some topo_order \<Rightarrow>
                    if store_get s (tf_task_id task) \<noteq> None
                    then Some (rejected task TASK_ALREADY_COMPLETED
                           (''Task '' @ quoted (tf_task_id task) @ '' already exists.'') s)
                    else (let s = snd (store_save (new_record env task) s);
                              timeout_ms = min (tf_timeout_ms task) MAX_TIMEOUT_MS
                          in case env_cut env of
                               None \<Rightarrow> Some (run_lifecycle env task topo_order s)
                             | Some (writes, sent) \<Rightarrow>
                                 let s = fold (apply_write (tf_task_id task)) writes s;
                                     s = store_update_state (tf_task_id task) Failed s
                                 in Some (result_failure (tf_task_id task) TASK_TIMEOUT
                                      (''Task exceeded timeout of '' @ show_u64 timeout_ms @ ''ms.'') None, sent, s)))))"

definition cancel :: "string \<Rightarrow> mem_store \<Rightarrow> mem_store" where
  "cancel task_id s = store_update_state task_id Cancelled s"

definition get_status :: "string \<Rightarrow> mem_store \<Rightarrow> task_record option" where
  "get_status task_id s = store_get s task_id"

section \<open>A small task\<close>

text \<open>Workers that answer every delegation at once: with an error at the nodes in \<open>bad\<close>, with a result
  at the others. The task is a chain of three nodes, each the input of the next.\<close>

definition demo_env :: "string list \<Rightarrow> nop_env" where
  "demo_env bad =
     \<lparr>env_options = \<lparr>oo_max_concurrent_nodes = 4, oo_validate_sender_nid = True, oo_enable_callback = False,
        oo_callback_retry_base_delay_ms = 1000, oo_default_aggregate_strategy = ''merge''\<rparr>,
      env_delegate = (\<lambda>f attempt. \<lparr>rep_frames =
        [if dg_node_id f \<in> set bad
         then final_err [] [] (dg_target_agent_nid f) 0 \<lparr>se_code = ''E'', se_message = ''no'', se_retryable = False\<rparr>
         else final_ok [] [] (dg_target_agent_nid f) 0 (Some (JString ''ok''))], rep_timed_out = False\<rparr>),
      env_preflight = (\<lambda>agent act. \<lparr>pf_agent_nid = agent, pf_available = True, pf_available_cgn = None,
        pf_estimated_queue_ms = None, pf_capabilities = None, pf_unavailable_reason = None\<rparr>),
      env_probe_order = (\<lambda>rs. rs), env_now_ms = (\<lambda>i n. 0), env_uuid = (\<lambda>i n. []), env_hash_order = (\<lambda>ids. ids),
      env_pick = (\<lambda>ids. 0), env_json_text = (\<lambda>v. []), env_result_text = (\<lambda>r. []),
      env_callback = \<lparr>cb_base64_decode = (\<lambda>s. None), cb_hmac_sha256 = (\<lambda>k p. []), cb_hex = (\<lambda>b. [])\<rparr>,
      env_send = (\<lambda>n. True), env_cut = None\<rparr>"

definition chain_node :: "string \<Rightarrow> string list \<Rightarrow> dag_node" where
  "chain_node i ins = (demo_node i)\<lparr>dn_input_from := Some ins, dn_compensate_action := Some ''undo''\<rparr>"

definition chain_dag :: task_dag where
  "chain_dag = \<lparr>td_nodes = [chain_node ''a'' [], chain_node ''b'' [''a''], chain_node ''c'' [''b'']],
     td_edges = [\<lparr>de_from = ''a'', de_to = ''b''\<rparr>, \<lparr>de_from = ''b'', de_to = ''c''\<rparr>]\<rparr>"

lemmas chain_defs = chain_dag_def chain_node_def demo_node_def

lemma validate_chain: "validate_dag chain_dag = Some (dag_success [''a'', ''b'', ''c''])"
  by (simp add: validate_dag_def chain_defs MAX_DAG_NODES_def MAX_CONDITION_LENGTH_def start_queue_def Let_def)

end
