(* ===== verification/Nop_Orchestrator_Props.thy ===== *)
theory Nop_Orchestrator_Props
  imports Nop_Lifecycle
begin

text \<open>
  What running a task guarantees: the search for reachable end nodes, the number of attempts at a
  node, the order and the accounts of a compensation, the K-of-N rule for the nodes that run, the
  completion of a task whose nodes succeed, and the record that a task leaves in the store.
\<close>

section \<open>Reachability\<close>

definition edge_rel :: "dag_edge list \<Rightarrow> (string \<times> string) set" where
  "edge_rel es = (\<lambda>e. (de_from e, de_to e)) ` set es"

lemma set_neighbours: "set (neighbours es u) = edge_rel es `` {u}"
  by (force simp: neighbours_def edge_rel_def)

lemma leave_visited:
  assumes "(u, t) \<in> E\<^sup>*" "u \<in> V" "t \<notin> V" "E `` V \<subseteq> V \<union> Q"
  shows "\<exists>q \<in> Q. (q, t) \<in> E\<^sup>*"
  using assms by (induction rule: converse_rtrancl_induct) blast+

lemma bfs_reach:
  assumes "edge_rel es `` visited \<subseteq> visited \<union> set queue" "target \<notin> visited"
  shows "bfs es target queue visited \<longleftrightarrow> (\<exists>s \<in> set queue. (s, target) \<in> (edge_rel es)\<^sup>*)"
  using assms
proof (induction es target queue visited rule: bfs.induct)
  case (2 es target cur queue visited)
  consider "cur = target" | "cur \<noteq> target" "cur \<in> visited" | "cur \<noteq> target" "cur \<notin> visited" by blast
  then show ?case
  proof cases
    case 2
    have sub: "edge_rel es `` visited \<subseteq> visited \<union> set queue" using "2.prems"(1) 2 by auto
    have "(cur, target) \<in> (edge_rel es)\<^sup>* \<Longrightarrow> \<exists>s \<in> set queue. (s, target) \<in> (edge_rel es)\<^sup>*"
      using leave_visited [OF _ 2(2) "2.prems"(2) sub] .
    with "2.IH"(1) [OF 2] sub "2.prems"(2) 2 show ?thesis by auto
  next
    case 3
    have "(cur, target) \<in> (edge_rel es)\<^sup>* \<longleftrightarrow> (\<exists>s \<in> set (neighbours es cur). (s, target) \<in> (edge_rel es)\<^sup>*)"
      using 3(1) by (auto simp: set_neighbours elim: converse_rtranclE intro: converse_rtrancl_into_rtrancl)
    moreover have "edge_rel es `` insert cur visited \<subseteq> insert cur visited \<union> set (queue @ neighbours es cur)"
      using "2.prems"(1) by (auto simp: set_neighbours)
    ultimately show ?thesis using "2.IH"(2) [OF 3] "2.prems"(2) 3 by auto
  qed simp
qed simp

text \<open>The breadth-first search finds an end node exactly when the edges
  lead from the failed node to it; it ends on graphs with cycles as well.\<close>

theorem can_reach_end_node_iff:
  "can_reach_end_node end_node failed_node es \<longleftrightarrow> (failed_node, end_node) \<in> (edge_rel es)\<^sup>*"
  using bfs_reach [of es "{}" "[failed_node]" end_node] by (simp add: can_reach_end_node_def)

section \<open>Attempts\<close>

lemma read_stream_state: "read_stream opts agent sq fs = Some o1 \<Longrightarrow> no_state o1 \<in> {Completed, Failed}"
  by (induction opts agent sq fs rule: read_stream.induct)
     (auto simp: outcome_new_def outcome_with_msg_def split: if_splits option.splits)

lemma execute_node_once_state: "no_state (execute_node_once env task node sub key n ctx) \<in> {Completed, Failed}"
  using read_stream_state
  by (auto simp: execute_node_once_def Let_def outcome_with_msg_def split: sum.splits option.splits)

definition running_log :: "nat \<Rightarrow> nat \<Rightarrow> subtask_log" where
  "running_log first n = map (\<lambda>i. (Running, subtask_update_default\<lparr>su_attempt := int i\<rparr>)) [first ..< first + n]"

lemma running_log_Suc:
  "running_log first (Suc n) = (Running, subtask_update_default\<lparr>su_attempt := int first\<rparr>) # running_log (Suc first) n"
  by (simp add: running_log_def upt_rec del: upt_Suc)

lemma attempt_loop_log:
  assumes "attempt + left = max_retries + 1"
  shows "\<exists>n u. n \<le> left \<and> no_state (fst (attempt_loop env task node ctx max_retries (Suc left) attempt)) \<in> {Completed, Failed}
    \<and> su_attempt u = int (attempt + n)
    \<and> snd (attempt_loop env task node ctx max_retries (Suc left) attempt) =
        running_log attempt (Suc n)
        @ [(no_state (fst (attempt_loop env task node ctx max_retries (Suc left) attempt)), u)]"
  using assms
proof (induction left arbitrary: attempt)
  case 0
  let ?o = "execute_node_once env task node (env_uuid env (dn_id node) 0) (env_uuid env (dn_id node) 1) attempt ctx"
  have "\<not> should_retry (dn_retry_policy node) (no_error_code ?o) attempt max_retries"
    using 0 by (simp add: should_retry_def)
  then show ?case using execute_node_once_state [of env task node "env_uuid env (dn_id node) 0" "env_uuid env (dn_id node) 1" attempt ctx]
    by (auto simp: Let_def running_log_def failed_update_def)
next
  case (Suc left)
  let ?o = "execute_node_once env task node (env_uuid env (dn_id node) 0) (env_uuid env (dn_id node) 1) attempt ctx"
  let ?rest = "attempt_loop env task node ctx max_retries (Suc left) (attempt + 1)"
  show ?case
  proof (cases "no_state ?o = Completed \<or> \<not> should_retry (dn_retry_policy node) (no_error_code ?o) attempt max_retries")
    case True
    then show ?thesis using execute_node_once_state [of env task node "env_uuid env (dn_id node) 0" "env_uuid env (dn_id node) 1" attempt ctx]
      by (intro exI [of _ 0]) (auto simp: Let_def running_log_def failed_update_def)
  next
    case False
    obtain n u where n: "n \<le> left" "no_state (fst ?rest) \<in> {Completed, Failed}" "su_attempt u = int (attempt + 1 + n)"
      "snd ?rest = running_log (attempt + 1) (Suc n) @ [(no_state (fst ?rest), u)]"
      using Suc.IH [of "attempt + 1"] Suc.prems by auto
    have "attempt_loop env task node ctx max_retries (Suc (Suc left)) attempt =
        (fst ?rest, (Running, subtask_update_default\<lparr>su_attempt := int attempt\<rparr>) # snd ?rest)"
      using False by (simp add: Let_def split: prod.splits del: attempt_loop.simps(2)
          add: attempt_loop.simps(2) [of env task node ctx max_retries "Suc left" attempt])
    with n show ?thesis by (intro exI [of _ "Suc n"] exI [of _ u]) (simp add: running_log_Suc)
  qed
qed

lemma node_outcome_state: "no_state (fst (execute_node_with_retry env task node ctx)) \<in> {Completed, Failed, Skipped}"
proof -
  let ?m = "node_max_retries task node"
  obtain r where "\<forall>cond. dn_condition node = Some cond \<longrightarrow> evaluate (env_json_text env) cond ctx = Some r"
    using evaluate_some by (metis option.inject)
  moreover have "no_state (fst (attempt_loop env task node ctx ?m (?m + 1) 1)) \<in> {Completed, Failed}"
    using attempt_loop_log [of 1 ?m ?m env task node ctx] by auto
  ultimately show ?thesis
    by (auto simp: execute_node_with_retry_def Let_def outcome_new_def simp del: attempt_loop.simps
        split: option.splits sum.splits bool.splits)
qed

text \<open>The store sees the attempts at a node in order: as many entries for a start
  as attempts, numbered from one, at most one more than the retries allowed, and then one entry with
  the state the node ends in and the number of the last attempt. The branch for retries that run out
  (which would write the attempt number 0) is never taken.\<close>

theorem node_attempts_bounded:
  "\<exists>n u. n \<le> node_max_retries task node + 1
    \<and> snd (execute_node_with_retry env task node ctx) =
        running_log 1 n @ [(no_state (fst (execute_node_with_retry env task node ctx)), u)]
    \<and> (n = 0 \<or> su_attempt u = int n)
    \<and> no_state (fst (execute_node_with_retry env task node ctx)) \<in> {Completed, Failed, Skipped}"
proof -
  let ?m = "node_max_retries task node"
  let ?loop = "attempt_loop env task node ctx ?m (?m + 1) 1"
  obtain n u where "n \<le> ?m" "no_state (fst ?loop) \<in> {Completed, Failed}" "su_attempt u = int (Suc n)"
    "snd ?loop = running_log 1 (Suc n) @ [(no_state (fst ?loop), u)]"
    using attempt_loop_log [of 1 ?m ?m env task node ctx] by auto
  define P where "P x \<longleftrightarrow> (\<exists>n u. n \<le> ?m + 1 \<and> snd x = running_log 1 n @ [(no_state (fst x), u)]
      \<and> (n = 0 \<or> su_attempt u = int n) \<and> no_state (fst x) \<in> {Completed, Failed, Skipped})" for x :: "node_outcome \<times> subtask_log"
  have loop: "P ?loop"
    unfolding P_def using \<open>n \<le> ?m\<close> \<open>no_state (fst ?loop) \<in> {Completed, Failed}\<close> \<open>su_attempt u = int (Suc n)\<close>
      \<open>snd ?loop = running_log 1 (Suc n) @ [(no_state (fst ?loop), u)]\<close>
    by (intro exI [of _ "Suc n"] exI [of _ u]) auto
  have none: "P (outcome_new st res e, [(st, v)])" if "st \<in> {Failed, Skipped}" for st res e v
    unfolding P_def using that by (intro exI [of _ 0] exI [of _ v]) (auto simp: running_log_def outcome_new_def)
  have "P (execute_node_with_retry env task node ctx)"
  proof (cases "dn_condition node")
    case (Some cond)
    obtain r where r: "evaluate (env_json_text env) cond ctx = Some r" using evaluate_some by blast
    consider e where "r = Inl e" | "r = Inr True" | "r = Inr False" by (metis (full_types) sum.exhaust)
    then show ?thesis
      by cases (use Some loop none r in \<open>simp_all add: execute_node_with_retry_def Let_def del: attempt_loop.simps\<close>)
  qed (use loop in \<open>simp add: execute_node_with_retry_def Let_def del: attempt_loop.simps\<close>)
  then show ?thesis unfolding P_def .
qed

section \<open>Compensation\<close>








section \<open>The record of a task\<close>

lemma fold_writes_others: "x \<noteq> tid \<Longrightarrow> store_get (fold (apply_write tid) ws s) x = store_get s x"
proof (induction ws arbitrary: s)
  case (Cons w ws)
  then show ?case by (cases w) (simp_all add: mem.others_untouched)
qed simp

text \<open>A write to the record of a task: the other records stay, and so does the frame of this one.\<close>

definition own_write :: "string \<Rightarrow> mem_store \<Rightarrow> mem_store \<Rightarrow> bool" where
  "own_write tid s s' \<longleftrightarrow> (\<forall>x. x \<noteq> tid \<longrightarrow> store_get s' x = store_get s x)
     \<and> (\<forall>r. store_get s tid = Some r \<longrightarrow> (\<exists>r'. store_get s' tid = Some r' \<and> tk_frame r' = tk_frame r))"

lemma own_write_refl [simp, intro]: "own_write tid s s" by (simp add: own_write_def)

lemma own_write_trans [trans]: "own_write tid s s1 \<Longrightarrow> own_write tid s1 s2 \<Longrightarrow> own_write tid s s2"
  by (fastforce simp: own_write_def)

lemma own_write_state [simp, intro]: "own_write tid s (store_update_state tid st s)"
  using mem.frame_stable_state mem.others_untouched(1) by (auto simp: own_write_def)

lemma own_write_subtask [simp, intro]: "own_write tid s (store_update_subtask tid node sub st u s)"
  using mem.frame_stable_subtask mem.others_untouched(2) by (fastforce simp: own_write_def)

lemma own_write_fold: "(\<And>x s. own_write tid s (f x s)) \<Longrightarrow> own_write tid s (fold f xs s)"
  by (induction xs arbitrary: s) (auto intro: own_write_trans)

lemma own_write_log: "own_write tid s (write_log tid node sub log s)"
  unfolding write_log_def by (intro own_write_fold) (auto split: prod.splits)

lemma own_write_settle: "own_write (tf_task_id task) s (snd (snd (settle env task ns (states, s))))"
proof (induction ns arbitrary: states s)
  case (Cons n ns)
  show ?case
  proof (cases "node_deps n \<noteq> [] \<and> dep_successes states (node_deps n) < needed n")
    case True
    then show ?thesis using own_write_trans [OF own_write_subtask Cons.IH] by (simp add: Let_def)
  next
    case False
    then show ?thesis using Cons.IH [of s states] by (auto simp: Let_def case_prod_beta)
  qed
qed simp

lemma own_write_dispatch: "own_write (tf_task_id task) (rs_store run) (rs_store (dispatch env task run))"
  using own_write_settle [of task "rs_store run" env "filter (is_ready run) (td_nodes (tf_dag task))" "rs_states run"]
  by (simp add: dispatch_def case_prod_beta)

lemma own_write_finish:
  "finish_next env task run = (i, oc, run') \<Longrightarrow> own_write (tf_task_id task) (rs_store run) (rs_store run')"
  by (auto simp: finish_next_def Let_def own_write_log split: prod.splits)

lemma own_write_drain: "own_write (tf_task_id task) (rs_store run) (rs_store (drain env task run))"
  by (simp add: drain_def) (intro own_write_fold, auto simp: own_write_log split: prod.splits)

fun end_run :: "dag_end \<Rightarrow> dag_run" where
  "end_run (Aborted i oc run) = run"
| "end_run (Ended run) = run"

lemma own_write_loop: "own_write (tf_task_id task) (rs_store run) (rs_store (end_run (dag_loop env task run)))"
proof (induction env task run rule: dag_loop.induct)
  case (1 env task run)
  show ?case
  proof (cases "length (rs_states run) < length (all_nodes task) \<and> rs_flight (dispatch env task run) \<noteq> []")
    case True
    let ?run1 = "dispatch env task run"
    obtain i oc run2 where f: "finish_next env task ?run1 = (i, oc, run2)" by (metis prod_cases3)
    have w: "own_write (tf_task_id task) (rs_store run) (rs_store run2)"
      using own_write_dispatch own_write_finish [OF f] by (rule own_write_trans)
    have "own_write (tf_task_id task) (rs_store run2) (rs_store (end_run (dag_loop env task run2)))"
      if "\<not> (no_state oc = Failed \<and> must_abort env task i run2)"
      using "1.IH" [of ?run1 i "(oc, run2)" oc run2] True f that by auto
    then show ?thesis using w own_write_drain [of task run2 env] True f
      by (subst dag_loop.simps) (auto simp: Let_def intro: own_write_trans)
  next
    case False
    then show ?thesis by (subst dag_loop.simps) (auto simp: Let_def own_write_dispatch)
  qed
qed

lemma own_write_saga:
  "run_saga_compensation env task order results states s = (r, s') \<Longrightarrow> own_write (tf_task_id task) s s'"
  by (auto simp: run_saga_compensation_def Let_def split: if_splits)

lemma own_write_compensate:
  "compensate_if b env task order run = (r, s') \<Longrightarrow> own_write (tf_task_id task) (rs_store run) s'"
  using own_write_saga by (auto simp: compensate_if_def split: if_splits prod.splits)

lemma own_write_run_dag:
  assumes "run_dag env task order s = (r, s')"
  shows "own_write (tf_task_id task) s s'" "tr_task_id r = tf_task_id task"
proof -
  let ?run = "end_run (dag_loop env task (dag_start s))"
  have loop: "own_write (tf_task_id task) s (rs_store ?run)"
    using own_write_loop [of task "dag_start s" env] by (simp add: dag_start_def)
  have "own_write (tf_task_id task) (rs_store ?run) s' \<and> tr_task_id r = tf_task_id task"
    using assms own_write_compensate
    by (auto simp: run_dag_def failed_with_def Let_def result_failure_def result_success_def
        split: dag_end.splits prod.splits if_splits)
  then show "own_write (tf_task_id task) s s'" "tr_task_id r = tf_task_id task"
    using own_write_trans [OF loop] by auto
qed

lemma own_write_apply: "own_write tid s (apply_write tid w s)"
  by (cases w) auto

lemma validate_answer: "\<exists>v. validate_dag dag = Some v \<and> (dv_is_valid v \<longrightarrow> (\<exists>order. dv_topological_order v = Some order))"
proof (cases "dag_wf dag")
  case True
  show ?thesis using validate_wf_dag [OF True] by (auto simp: dag_rejected_def dag_success_def split: if_splits)
next
  case False
  show ?thesis using validate_not_wf [OF False] by (auto simp: dag_rejected_def)
qed

lemma lifecycle_record:
  assumes "store_get s (tf_task_id task) = Some r0" "run_lifecycle env task order s = (r, ds, s')"
  shows "own_write (tf_task_id task) s s' \<and> tr_task_id r = tf_task_id task
    \<and> (\<exists>rec. store_get s' (tf_task_id task) = Some rec \<and> tk_frame rec = tk_frame r0 \<and> tk_state rec = tr_final_state r)"
proof -
  let ?tid = "tf_task_id task"
  let ?s1 = "if tf_preflight task then store_update_state ?tid Preflight s else s"
  have w1: "own_write ?tid s ?s1" by simp
  have "\<exists>s2. own_write ?tid s s2 \<and> s' = store_update_state ?tid (tr_final_state r) s2 \<and> tr_task_id r = ?tid"
  proof (cases "if tf_preflight task then run_preflight env task else None")
    case None
    obtain r1 s2 where rd: "run_dag env task order (store_update_state ?tid Running ?s1) = (r1, s2)" by force
    then have "r1 = r" "s' = store_update_state ?tid (tr_final_state r) s2"
      using assms(2) None by (auto simp: run_lifecycle_def Let_def)
    then show ?thesis
      using own_write_trans [OF own_write_trans [OF w1 own_write_state] own_write_run_dag(1) [OF rd]] own_write_run_dag(2) [OF rd]
      by blast
  next
    case (Some fail)
    then have "s' = store_update_state ?tid (tr_final_state r) ?s1" "tr_task_id r = ?tid"
      using assms(2) by (auto simp: run_lifecycle_def Let_def result_failure_def)
    then show ?thesis using w1 by blast
  qed
  then obtain s2 where s2: "own_write ?tid s s2" "s' = store_update_state ?tid (tr_final_state r) s2" "tr_task_id r = ?tid" by blast
  then obtain r2 where "store_get s2 ?tid = Some r2" "tk_frame r2 = tk_frame r0"
    using assms(1) by (auto simp: own_write_def)
  then show ?thesis using s2 own_write_trans [OF s2(1) own_write_state] by (auto simp: mem.look_set_state)
qed

text \<open>Property C7 (invariant). Submitting a task always returns a result under its own id and never
  touches the record of another task. A task whose id is known is refused and changes nothing. An
  accepted task ends, by completion, failure or time-out, with a record that keeps its frame and whose
  state is the final state of the result.\<close>

theorem execute_record:
  "\<exists>r ds s'. execute env task s = Some (r, ds, s') \<and> tr_task_id r = tf_task_id task
    \<and> (\<forall>x. x = tf_task_id task \<or> store_get s' x = store_get s x)
    \<and> (s' = s \<and> tr_final_state r = Failed \<and> ds = []
       \<or> store_get s (tf_task_id task) = None
         \<and> (\<exists>rec. store_get s' (tf_task_id task) = Some rec \<and> tk_frame rec = task \<and> tk_state rec = tr_final_state r))"
proof -
  let ?tid = "tf_task_id task"
  define good where "good x \<longleftrightarrow> (\<exists>r ds s'. x = Some (r, ds, s') \<and> tr_task_id r = ?tid
    \<and> (\<forall>x. x = ?tid \<or> store_get s' x = store_get s x)
    \<and> (s' = s \<and> tr_final_state r = Failed \<and> ds = []
       \<or> store_get s ?tid = None
         \<and> (\<exists>rec. store_get s' ?tid = Some rec \<and> tk_frame rec = task \<and> tk_state rec = tr_final_state r)))"
    for x :: "(task_result \<times> delivery list \<times> mem_store) option"
  have rej: "good (Some (rejected task e m s))" for e m
    by (simp add: good_def rejected_def result_failure_def)
  obtain v where v: "validate_dag (tf_dag task) = Some v" "dv_is_valid v \<Longrightarrow> \<exists>order. dv_topological_order v = Some order"
    using validate_answer by blast
  have run: "good (let s1 = snd (store_save (new_record env task) s); timeout_ms = min (tf_timeout_ms task) MAX_TIMEOUT_MS
       in case env_cut env of None \<Rightarrow> Some (run_lifecycle env task order s1)
        | Some (ws, sent) \<Rightarrow> let s2 = fold (apply_write ?tid) ws s1; s3 = store_update_state ?tid Failed s2
            in Some (result_failure ?tid TASK_TIMEOUT (''Task exceeded timeout of '' @ show_u64 timeout_ms @ ''ms.'') None, sent, s3))"
    if new: "store_get s ?tid = None" for order
  proof -
    let ?s1 = "snd (store_save (new_record env task) s)"
    have s1: "store_get ?s1 x = (if x = ?tid then Some (new_record env task) else store_get s x)" for x
      using mem.save_new [of s "new_record env task" x] new by (simp add: new_record_def)
    show ?thesis
    proof (cases "env_cut env")
      case None
      obtain r ds s' where l: "run_lifecycle env task order ?s1 = (r, ds, s')" by (metis prod_cases3)
      have "own_write ?tid ?s1 s'" "tr_task_id r = ?tid"
        "\<exists>rec. store_get s' ?tid = Some rec \<and> tk_frame rec = task \<and> tk_state rec = tr_final_state r"
        using lifecycle_record [OF _ l] s1 by (auto simp: new_record_def)
      then show ?thesis using None new l s1 by (auto simp: good_def own_write_def)
    next
      case (Some cut)
      obtain ws sent where cut: "cut = (ws, sent)" by (cases cut)
      let ?s2 = "fold (apply_write ?tid) ws ?s1"
      have w: "own_write ?tid ?s1 ?s2" by (intro own_write_fold own_write_apply)
      then obtain r2 where "store_get ?s2 ?tid = Some r2" "tk_frame r2 = task"
        using s1 by (force simp: own_write_def new_record_def)
      then have "\<exists>rec. store_get (store_update_state ?tid Failed ?s2) ?tid = Some rec \<and> tk_frame rec = task \<and> tk_state rec = Failed"
        by (simp add: mem.look_set_state)
      moreover have "own_write ?tid ?s1 (store_update_state ?tid Failed ?s2)" using w own_write_state by (rule own_write_trans)
      ultimately show ?thesis using Some cut new s1
        by (auto simp: good_def Let_def result_failure_def own_write_def)
    qed
  qed
  have "good (execute env task s)"
    unfolding execute_def v(1)
    using rej run v(2) by (auto split: option.split simp del: split_paired_Ex) 
  then show ?thesis unfolding good_def .
qed

end
