(* ===== verification/Nop_Run_Props.thy ===== *)
theory Nop_Run_Props
  imports Nop_Orchestrator_Props
begin

text \<open>
  The main loop of a task: an invariant of its state, from which a node only runs when its K-of-N rule
  is met, the completion of every node when none of them fails, and a run in which a failure does not
  reach the end node.
\<close>

section \<open>Dependencies that are met stay met\<close>

definition deps_met :: "node_states \<Rightarrow> dag_node \<Rightarrow> bool" where
  "deps_met states n \<longleftrightarrow> node_deps n = [] \<or> needed n \<le> dep_successes states (node_deps n)"

definition grows :: "node_states \<Rightarrow> node_states \<Rightarrow> bool" where
  "grows st st' \<longleftrightarrow> (\<forall>x. map_of st x \<noteq> None \<longrightarrow> map_of st' x = map_of st x)"

lemma grows_refl [simp]: "grows st st" by (simp add: grows_def)

lemma grows_trans: "grows a b \<Longrightarrow> grows b c \<Longrightarrow> grows a c"
  by (force simp: grows_def)

lemma grows_update: "map_of st i = None \<Longrightarrow> grows st (AList.update i v st)"
  by (auto simp: grows_def update_conv')

lemma deps_met_grows: "grows st st' \<Longrightarrow> deps_met st n \<Longrightarrow> deps_met st' n"
proof -
  assume g: "grows st st'" and d: "deps_met st n"
  have "dep_successes st ds \<le> dep_successes st' ds" for ds
    unfolding dep_successes_def using g by (intro length_filter_mono) (auto simp: grows_def)
  with d show ?thesis by (auto simp: deps_met_def intro: order_trans)
qed

section \<open>Settling\<close>

lemma settle_spec:
  assumes "settle env task ns (states, s) = (ready, states', s')" "distinct (map dn_id ns)"
    "\<forall>n \<in> set ns. map_of states (dn_id n) = None"
  shows "grows states states' \<and> (\<forall>n \<in> set ready. deps_met states' n \<and> map_of states' (dn_id n) = None)
    \<and> (\<forall>x. map_of states x = None \<longrightarrow> map_of states' x = None \<or> map_of states' x = Some Failed \<and> x \<in> dn_id ` set ns)
    \<and> (distinct (map fst states) \<longrightarrow> distinct (map fst states'))"
  using assms
proof (induction ns arbitrary: states s ready)
  case (Cons n ns)
  show ?case
  proof (cases "node_deps n \<noteq> [] \<and> dep_successes states (node_deps n) < needed n")
    case True
    let ?st = "AList.update (dn_id n) Failed states"
    obtain s1 where "settle env task ns (?st, s1) = (ready, states', s')"
      using Cons.prems(1) True by (auto simp: Let_def)
    moreover have "\<forall>m \<in> set ns. map_of ?st (dn_id m) = None"
      using Cons.prems(2,3) by (auto simp: update_conv' image_iff)
    ultimately have ih: "grows ?st states'" "\<forall>n \<in> set ready. deps_met states' n \<and> map_of states' (dn_id n) = None"
      "\<forall>x. map_of ?st x = None \<longrightarrow> map_of states' x = None \<or> map_of states' x = Some Failed \<and> x \<in> dn_id ` set ns"
      "distinct (map fst ?st) \<longrightarrow> distinct (map fst states')"
      using Cons.IH [of ?st s1 ready] Cons.prems(2) by auto
    have "grows states states'"
      using grows_trans [OF grows_update ih(1)] Cons.prems(3) by simp
    moreover have "map_of states' (dn_id n) = Some Failed" using ih(1) by (simp add: grows_def update_conv')
    moreover have "map_of states' x = None \<or> map_of states' x = Some Failed \<and> x \<in> dn_id ` set (n # ns)"
      if "map_of states x = None" for x
      using ih(3) that \<open>map_of states' (dn_id n) = Some Failed\<close> by (cases "x = dn_id n") (auto simp: update_conv')
    moreover have "distinct (map fst states) \<Longrightarrow> distinct (map fst states')"
      using ih(4) distinct_update [of states "dn_id n" Failed] by simp
    ultimately show ?thesis using ih(2) by blast
  next
    case False
    then obtain ready0 where r: "settle env task ns (states, s) = (ready0, states', s')" "ready = n # ready0"
      using Cons.prems(1) by (auto simp: Let_def split: prod.splits if_splits)
    have ih: "grows states states'" "\<forall>n \<in> set ready0. deps_met states' n \<and> map_of states' (dn_id n) = None"
      "\<forall>x. map_of states x = None \<longrightarrow> map_of states' x = None \<or> map_of states' x = Some Failed \<and> x \<in> dn_id ` set ns"
      "distinct (map fst states) \<longrightarrow> distinct (map fst states')"
      using Cons.IH [OF r(1)] Cons.prems(2,3) by auto
    have "deps_met states n" using False by (auto simp: deps_met_def)
    then have "deps_met states' n" using ih(1) deps_met_grows by blast
    moreover have "map_of states' (dn_id n) = None" using ih(3) Cons.prems(2,3) by (simp, metis list.set_map)
    ultimately have "\<forall>m \<in> set ready. deps_met states' m \<and> map_of states' (dn_id m) = None" using ih(2) r(2) by simp
    moreover have "set ns \<subseteq> set (n # ns)" by auto
    ultimately show ?thesis using ih(1,3,4) by blast
  qed
qed auto

section \<open>The invariant of the loop\<close>

definition run_inv :: "task_frame \<Rightarrow> dag_run \<Rightarrow> bool" where
  "run_inv task run \<longleftrightarrow>
     distinct (map fst (rs_flight run)) \<and> distinct (map fst (rs_states run))
   \<and> fst ` set (rs_flight run) \<subseteq> set (dag_ids (tf_dag task)) \<and> fst ` set (rs_states run) \<subseteq> set (dag_ids (tf_dag task))
   \<and> (\<forall>i \<in> fst ` set (rs_flight run). map_of (rs_states run) i = None)
   \<and> (\<forall>n \<in> set (td_nodes (tf_dag task)).
        dn_id n \<in> fst ` set (rs_flight run) \<or> map_of (rs_states run) (dn_id n) \<in> {Some Completed, Some Skipped}
        \<longrightarrow> deps_met (rs_states run) n)"

lemma subseq_set: "subseq xs ys \<Longrightarrow> set xs \<subseteq> set ys"
  by (induction rule: list_emb.induct) auto

lemma subseq_distinct_map: "subseq xs ys \<Longrightarrow> distinct (map f ys) \<Longrightarrow> distinct (map f xs)"
proof (induction rule: list_emb.induct)
  case (list_emb_Cons2 x y xs ys)
  have "set xs \<subseteq> set ys" by (rule subseq_set [OF list_emb_Cons2(2)])
  with list_emb_Cons2 show ?case by auto
qed auto

lemma run_inv_start: "run_inv task (dag_start s)"
  by (simp add: run_inv_def dag_start_def)

lemma node_by_id:
  "distinct (dag_ids dag) \<Longrightarrow> n \<in> set (td_nodes dag) \<Longrightarrow> m \<in> set (td_nodes dag) \<Longrightarrow> dn_id n = dn_id m \<Longrightarrow> n = m"
  by (auto simp: dag_ids_def distinct_map inj_on_def)

lemma run_inv_dispatch:
  assumes inv: "run_inv task run" and dist: "distinct (dag_ids (tf_dag task))"
  shows "run_inv task (dispatch env task run)"
proof -
  let ?nodes = "td_nodes (tf_dag task)" and ?rn = "filter (is_ready run) (td_nodes (tf_dag task))"
  obtain ready states s where st: "settle env task ?rn (rs_states run, rs_store run) = (ready, states, s)"
    by (cases "settle env task ?rn (rs_states run, rs_store run)") auto
  define l where "l = take (oo_max_concurrent_nodes (env_options env) - length (rs_flight run)) ready"
  have fl: "map fst (rs_flight (dispatch env task run)) = map fst (rs_flight run) @ map dn_id l"
    and sts: "rs_states (dispatch env task run) = states"
    by (simp_all add: dispatch_def st launch_fst l_def)
  have fs: "fst ` set (rs_flight (dispatch env task run)) = fst ` set (rs_flight run) \<union> dn_id ` set l"
    using arg_cong [OF fl, of set] by auto
  have drn: "distinct (map dn_id ?rn)" using dist by (simp add: dag_ids_def distinct_map_filter)
  have "\<forall>n \<in> set ?rn. map_of (rs_states run) (dn_id n) = None" by (simp add: is_ready_def)
  note sp = settle_spec [OF st drn this]
  have sub: "subseq ready ?rn" using settle_subseq [of env task ?rn "rs_states run" "rs_store run"] st by simp
  have "subseq l ready" by (simp add: l_def prefix_imp_subseq take_is_prefix)
  then have lsub: "subseq l ?rn" using sub by (rule subseq_order.trans)
  have lset: "set l \<subseteq> set ?rn" by (rule subseq_set [OF lsub])
  have ldist: "distinct (map dn_id l)" by (rule subseq_distinct_map [OF lsub drn])
  have lready: "set l \<subseteq> set ready" by (simp add: l_def set_take_subset)
  have idl: "dn_id n \<in> dn_id ` set l \<Longrightarrow> n \<in> set ?nodes \<Longrightarrow> n \<in> set l" for n
    using lset node_by_id [OF dist] by auto
  show ?thesis unfolding run_inv_def fl fs sts
  proof (intro conjI ballI impI)
    have "dn_id m \<notin> set (map fst (rs_flight run))" if "m \<in> set l" for m
      using lset that by (simp add: is_ready_def subset_iff)
    then have "set (map fst (rs_flight run)) \<inter> set (map dn_id l) = {}"
      by (simp only: set_map disjoint_iff) blast
    then show "distinct (map fst (rs_flight run) @ map dn_id l)"
      using inv ldist unfolding run_inv_def distinct_append by blast
    show "distinct (map fst states)" using sp inv by (simp add: run_inv_def)
    show "fst ` set (rs_flight run) \<union> dn_id ` set l \<subseteq> set (dag_ids (tf_dag task))"
      using inv lset by (auto simp: run_inv_def dag_ids_def)
    show "fst ` set states \<subseteq> set (dag_ids (tf_dag task))"
    proof
      fix x assume "x \<in> fst ` set states"
      then have "map_of states x \<noteq> None" by (simp add: map_of_eq_None_iff)
      then have "map_of (rs_states run) x \<noteq> None \<or> x \<in> dn_id ` set ?rn" using sp by auto
      then show "x \<in> set (dag_ids (tf_dag task))"
        using inv by (auto simp: run_inv_def dag_ids_def map_of_eq_None_iff)
    qed
  next
    fix i assume "i \<in> fst ` set (rs_flight run) \<union> dn_id ` set l"
    then show "map_of states i = None"
    proof
      assume i: "i \<in> fst ` set (rs_flight run)"
      then have "map_of (rs_states run) i = None" using inv by (auto simp: run_inv_def)
      moreover have "dn_id m \<notin> fst ` set (rs_flight run)" if "m \<in> set ?rn" for m using that by (simp add: is_ready_def)
      with i have "i \<notin> dn_id ` set ?rn" by blast
      ultimately show ?thesis using sp by blast
    next
      assume "i \<in> dn_id ` set l" then show ?thesis using sp lready by auto
    qed
  next
    fix n assume n: "n \<in> set ?nodes"
      "dn_id n \<in> fst ` set (rs_flight run) \<union> dn_id ` set l \<or> map_of states (dn_id n) \<in> {Some Completed, Some Skipped}"
    show "deps_met states n"
    proof (cases "n \<in> set l")
      case True then show ?thesis using sp lready by auto
    next
      case False
      then have "dn_id n \<in> fst ` set (rs_flight run) \<or> map_of (rs_states run) (dn_id n) \<in> {Some Completed, Some Skipped}"
        using n idl [OF _ n(1)] sp by (cases "map_of (rs_states run) (dn_id n)") (auto simp: grows_def dest: spec [of _ "dn_id n"])
      then have "deps_met (rs_states run) n" using inv n(1) by (auto simp: run_inv_def)
      then show ?thesis using sp deps_met_grows by blast
    qed
  qed
qed

lemma finish_next_split:
  assumes "rs_flight run \<noteq> []" "finish_next env task run = (i, oc, run')"
  obtains xs log ys where "rs_flight run = xs @ (i, oc, log) # ys" "rs_flight run' = xs @ ys"
    "rs_states run' = AList.update i (no_state oc) (rs_states run)"
proof -
  have p: "picked env run < length (rs_flight run)" using assms(1) by (simp add: picked_def)
  obtain j o1 lg where f: "rs_flight run ! picked env run = (j, o1, lg)"
    by (cases "rs_flight run ! picked env run") auto
  show thesis
    using assms(2) id_take_nth_drop [OF p] f
    by (intro that [of "take (picked env run) (rs_flight run)" lg "drop (Suc (picked env run)) (rs_flight run)"])
       (auto simp: finish_next_def Let_def)
qed

lemma run_inv_finish:
  assumes inv: "run_inv task run" and dist: "distinct (dag_ids (tf_dag task))"
    and "rs_flight run \<noteq> []" "finish_next env task run = (i, oc, run')"
  shows "run_inv task run'"
proof -
  obtain xs log ys where f: "rs_flight run = xs @ (i, oc, log) # ys" "rs_flight run' = xs @ ys"
    "rs_states run' = AList.update i (no_state oc) (rs_states run)"
    using finish_next_split [OF assms(3,4)] .
  have i: "map_of (rs_states run) i = None" "i \<in> set (dag_ids (tf_dag task))"
    using inv f(1) by (auto simp: run_inv_def)
  have g: "grows (rs_states run) (rs_states run')" unfolding f(3) by (rule grows_update [OF i(1)])
  have keys: "fst ` set (rs_states run') = insert i (fst ` set (rs_states run))"
    unfolding f(3) by (simp add: AList.dom_update)
  have fl: "fst ` set (rs_flight run) = insert i (fst ` set (rs_flight run'))" by (auto simp: f)
  have ni: "i \<notin> fst ` set (rs_flight run')" using inv by (auto simp: run_inv_def f)
  show ?thesis unfolding run_inv_def
  proof (intro conjI ballI impI)
    show "distinct (map fst (rs_flight run'))" using inv by (auto simp: run_inv_def f)
    show "distinct (map fst (rs_states run'))"
      unfolding f(3) using inv by (intro distinct_update) (simp add: run_inv_def)
    show "fst ` set (rs_flight run') \<subseteq> set (dag_ids (tf_dag task))" using inv fl by (auto simp: run_inv_def)
    show "fst ` set (rs_states run') \<subseteq> set (dag_ids (tf_dag task))" using inv i(2) unfolding keys by (auto simp: run_inv_def)
  next
    fix j assume j: "j \<in> fst ` set (rs_flight run')"
    then have "map_of (rs_states run) j = None" using inv fl by (auto simp: run_inv_def)
    then show "map_of (rs_states run') j = None" using j ni unfolding f(3) by (auto simp: update_conv')
  next
    fix n assume n: "n \<in> set (td_nodes (tf_dag task))" "dn_id n \<in> fst ` set (rs_flight run')
      \<or> map_of (rs_states run') (dn_id n) \<in> {Some Completed, Some Skipped}"
    then have "dn_id n \<in> fst ` set (rs_flight run) \<or> map_of (rs_states run) (dn_id n) \<in> {Some Completed, Some Skipped}"
      unfolding f(3) fl by (auto simp: update_conv' split: if_splits)
    then have "deps_met (rs_states run) n" using inv n(1) unfolding run_inv_def by blast
    then show "deps_met (rs_states run') n" by (rule deps_met_grows [OF g])
  qed
qed

lemma run_inv_loop:
  assumes "run_inv task run" "distinct (dag_ids (tf_dag task))"
  shows "run_inv task (end_run (dag_loop env task run))"
  using assms
proof (induction env task run rule: dag_loop.induct)
  case (1 env task run)
  show ?case
  proof (cases "length (rs_states run) < length (all_nodes task)")
    case True
    let ?run1 = "dispatch env task run"
    have inv1: "run_inv task ?run1" by (rule run_inv_dispatch [OF "1.prems"])
    show ?thesis
    proof (cases "rs_flight ?run1 = []")
      case False
      obtain i oc run2 where f: "finish_next env task ?run1 = (i, oc, run2)" by (metis prod_cases3)
      have inv2: "run_inv task run2" by (rule run_inv_finish [OF inv1 "1.prems"(2) False f])
      then have "run_inv task (drain env task run2)" by (simp add: run_inv_def drain_def)
      moreover have "\<not> (no_state oc = Failed \<and> must_abort env task i run2) \<Longrightarrow>
          run_inv task (end_run (dag_loop env task run2))"
        using "1.IH" [OF True refl False f [symmetric] refl] inv2 "1.prems"(2) by blast
      ultimately show ?thesis
        using True False f by (subst dag_loop.simps) (simp add: Let_def)
    qed (use True inv1 in \<open>simp add: dag_loop.simps [of env task run]\<close>)
  qed (use "1.prems" in \<open>simp add: dag_loop.simps [of env task run]\<close>)
qed

text \<open>Property C6 (safety). However the nodes of a task with unique ids finish, a node that ends
  Completed or Skipped had its K-of-N rule met: it has no inputs, or at least as many of them as it
  needs (all of them, when no number is given) are Completed or Skipped.\<close>

theorem node_runs_after_inputs:
  assumes "distinct (dag_ids (tf_dag task))" "n \<in> set (td_nodes (tf_dag task))"
    "run = end_run (dag_loop env task (dag_start s))"
    "map_of (rs_states run) (dn_id n) \<in> {Some Completed, Some Skipped}"
  shows "node_deps n = [] \<or> needed n \<le> dep_successes (rs_states run) (node_deps n)"
  using run_inv_loop [OF run_inv_start assms(1), of env s] assms(2-4)
  unfolding run_inv_def deps_met_def by blast

section \<open>A task whose nodes do not fail\<close>

definition dep_rel :: "task_dag \<Rightarrow> (string \<times> string) set" where
  "dep_rel dag = {(d, dn_id n) | d n. n \<in> set (td_nodes dag) \<and> d \<in> set (node_deps n)}"

definition never_fails :: "nop_env \<Rightarrow> task_frame \<Rightarrow> bool" where
  "never_fails env task \<longleftrightarrow>
     (\<forall>n \<in> set (td_nodes (tf_dag task)). \<forall>ctx. no_state (fst (execute_node_with_retry env task n ctx)) \<noteq> Failed)"

definition deps_possible :: "task_dag \<Rightarrow> bool" where
  "deps_possible dag \<longleftrightarrow> (\<forall>n \<in> set (td_nodes dag).
     set (node_deps n) \<subseteq> set (dag_ids dag) \<and> needed n \<le> length (node_deps n))"

definition all_good :: "dag_run \<Rightarrow> bool" where
  "all_good run \<longleftrightarrow> (\<forall>x. map_of (rs_states run) x \<in> {None, Some Completed, Some Skipped})
     \<and> (\<forall>f \<in> set (rs_flight run). no_state (fst (snd f)) \<in> {Completed, Skipped})"

lemma settle_all_met: "\<forall>n \<in> set ns. deps_met states n \<Longrightarrow> settle env task ns (states, s) = (ns, states, s)"
  by (induction ns) (auto simp: deps_met_def Let_def)

lemma ready_met:
  assumes "all_good run" "is_ready run n" "needed n \<le> length (node_deps n)"
  shows "deps_met (rs_states run) n"
proof -
  have "map_of (rs_states run) d \<noteq> Some Failed" for d
    using assms(1) by (auto simp: all_good_def dest: spec [of _ d])
  then have "dep_failures (rs_states run) (node_deps n) = 0" by (simp add: dep_failures_def)
  then show ?thesis using assms(2,3)
    by (auto simp: is_ready_def are_deps_done_def deps_met_def Let_def split: if_splits)
qed

lemma dispatch_good:
  assumes "all_good run" "deps_possible (tf_dag task)" "never_fails env task"
  shows "rs_states (dispatch env task run) = rs_states run" "all_good (dispatch env task run)"
    "map fst (rs_flight (dispatch env task run)) = map fst (rs_flight run) @ map dn_id
       (take (oo_max_concurrent_nodes (env_options env) - length (rs_flight run))
          (filter (is_ready run) (td_nodes (tf_dag task))))"
proof -
  let ?rn = "filter (is_ready run) (td_nodes (tf_dag task))"
  have st: "settle env task ?rn (rs_states run, rs_store run) = (?rn, rs_states run, rs_store run)"
    using ready_met [OF assms(1)] assms(2) by (intro settle_all_met) (auto simp: deps_possible_def)
  show "rs_states (dispatch env task run) = rs_states run" by (simp add: dispatch_def st)
  show "map fst (rs_flight (dispatch env task run)) = map fst (rs_flight run) @ map dn_id
       (take (oo_max_concurrent_nodes (env_options env) - length (rs_flight run)) ?rn)"
    by (simp add: dispatch_def st launch_fst)
  have "no_state (fst (execute_node_with_retry env task n (rs_results run))) \<in> {Completed, Skipped}"
    if "n \<in> set (take k ?rn)" for n k
  proof -
    have "n \<in> set (td_nodes (tf_dag task))" using set_take_subset [of k ?rn] that by auto
    then show ?thesis
      using assms(3) node_outcome_state [of env task n "rs_results run"] by (auto simp: never_fails_def)
  qed
  then show "all_good (dispatch env task run)"
    using assms(1) unfolding all_good_def dispatch_def st launch_def by (simp add: ball_Un)
qed

lemma finish_good:
  assumes "all_good run" "rs_flight run \<noteq> []" "finish_next env task run = (i, oc, run')"
  shows "all_good run'" "no_state oc \<noteq> Failed"
proof -
  obtain xs log ys where f: "rs_flight run = xs @ (i, oc, log) # ys" "rs_flight run' = xs @ ys"
    "rs_states run' = AList.update i (no_state oc) (rs_states run)"
    using finish_next_split [OF assms(2,3)] .
  have oc: "no_state oc \<in> {Completed, Skipped}" using assms(1) f(1) by (auto simp: all_good_def)
  then show "no_state oc \<noteq> Failed" by auto
  show "all_good run'" unfolding all_good_def
  proof (intro conjI allI)
    fix x show "map_of (rs_states run') x \<in> {None, Some Completed, Some Skipped}"
      using assms(1) oc unfolding f(3) all_good_def by (auto simp: update_conv')
  next
    show "\<forall>f \<in> set (rs_flight run'). no_state (fst (snd f)) \<in> {Completed, Skipped}"
      using assms(1) unfolding f(1,2) all_good_def by auto
  qed
qed

lemma all_nodes_keys:
  assumes "distinct (dag_ids (tf_dag task))"
  shows "map fst (all_nodes task) = dag_ids (tf_dag task)"
proof -
  have "map fst (fold (\<lambda>n. AList.update (dn_id n) n) ns acc) = map fst acc @ map dn_id ns"
    if "distinct (map fst acc @ map dn_id ns)" for ns and acc :: "(string \<times> dag_node) list"
    using that
  proof (induction ns arbitrary: acc)
    case (Cons a ns)
    then have "map fst (AList.update (dn_id a) a acc) = map fst acc @ [dn_id a]" by (simp add: update_keys)
    with Cons.prems Cons.IH [of "AList.update (dn_id a) a acc"] show ?case by simp
  qed simp
  from this [of "[]" "td_nodes (tf_dag task)"] show ?thesis
    using assms by (simp add: all_nodes_def dag_ids_def)
qed

lemma some_node_starts:
  assumes inv: "run_inv task run" "all_good run" and dist: "distinct (dag_ids (tf_dag task))"
    and dag: "deps_possible (tf_dag task)" "acyclic (dep_rel (tf_dag task))" "never_fails env task"
    and open': "length (rs_states run) < length (all_nodes task)" and cap: "0 < oo_max_concurrent_nodes (env_options env)"
  shows "rs_flight (dispatch env task run) \<noteq> []"
proof (cases "rs_flight run = []")
  case True
  let ?ids = "set (dag_ids (tf_dag task))" and ?R = "{i \<in> set (dag_ids (tf_dag task)). map_of (rs_states run) i = None}"
  have "length (all_nodes task) = card ?ids"
    using all_nodes_keys [OF dist] distinct_card [OF dist] by (metis length_map)
  moreover have "length (rs_states run) = card (fst ` set (rs_states run))"
    using inv(1) distinct_card [of "map fst (rs_states run)"] by (simp add: run_inv_def)
  ultimately have "\<not> ?ids \<subseteq> fst ` set (rs_states run)"
    using open' card_mono [of "fst ` set (rs_states run)" ?ids] by auto
  then have "?R \<noteq> {}" by (auto simp: map_of_eq_None_iff)
  then obtain v where v: "v \<in> ?R" "\<forall>u \<in> ?R. (u, v) \<notin> dep_rel (tf_dag task)"
    using no_source_cyclic [of ?R "dep_rel (tf_dag task)"] dag(2) by auto
  then obtain n where n: "n \<in> set (td_nodes (tf_dag task))" "dn_id n = v" by (auto simp: dag_ids_def)
  have "map_of (rs_states run) d = Some Completed \<or> map_of (rs_states run) d = Some Skipped" if "d \<in> set (node_deps n)" for d
  proof -
    have "(d, v) \<in> dep_rel (tf_dag task)" using n that by (auto simp: dep_rel_def)
    moreover have "d \<in> ?ids" using dag(1) n(1) that by (auto simp: deps_possible_def)
    ultimately have "map_of (rs_states run) d \<noteq> None" using v(2) by auto
    then show ?thesis using inv(2) by (auto simp: all_good_def dest: spec [of _ d])
  qed
  then have "dep_successes (rs_states run) (node_deps n) = length (node_deps n)"
    unfolding dep_successes_def by (subst filter_True) auto
  then have "is_ready run n" using v(1) n dag(1) True
    by (auto simp: is_ready_def are_deps_done_def deps_possible_def)
  then have "n \<in> set (filter (is_ready run) (td_nodes (tf_dag task)))" using n(1) by simp
  then have "filter (is_ready run) (td_nodes (tf_dag task)) \<noteq> []" by (metis empty_iff empty_set)
  then show ?thesis using dispatch_good(3) [OF inv(2) dag(1,3)] cap True by auto
next
  case False
  then show ?thesis using dispatch_good(3) [OF inv(2) dag(1,3)] by auto
qed

lemma good_loop:
  assumes "run_inv task run" "all_good run" "distinct (dag_ids (tf_dag task))" "deps_possible (tf_dag task)"
    "acyclic (dep_rel (tf_dag task))" "never_fails env task" "0 < oo_max_concurrent_nodes (env_options env)"
  shows "\<exists>run'. dag_loop env task run = Ended run' \<and> all_good run' \<and> run_inv task run'
    \<and> length (all_nodes task) \<le> length (rs_states run')"
  using assms
proof (induction env task run rule: dag_loop.induct)
  case (1 env task run)
  show ?case
  proof (cases "length (rs_states run) < length (all_nodes task)")
    case True
    let ?run1 = "dispatch env task run"
    have inv1: "run_inv task ?run1" by (rule run_inv_dispatch [OF "1.prems"(1,3)])
    have good1: "all_good ?run1" by (rule dispatch_good(2) [OF "1.prems"(2,4,6)])
    have fl: "rs_flight ?run1 \<noteq> []" by (rule some_node_starts [OF "1.prems"(1-6) True "1.prems"(7)])
    obtain i oc run2 where f: "finish_next env task ?run1 = (i, oc, run2)" by (metis prod_cases3)
    note g2 = finish_good [OF good1 fl f]
    have inv2: "run_inv task run2" by (rule run_inv_finish [OF inv1 "1.prems"(3) fl f])
    have "dag_loop env task run = dag_loop env task run2"
      using True fl f g2(2) by (subst dag_loop.simps) (simp add: Let_def)
    with "1.IH" [OF True refl fl f [symmetric] refl] g2 inv2 "1.prems" show ?thesis by simp
  qed (use "1.prems" in \<open>simp add: dag_loop.simps [of env task run]\<close>)
qed

lemma good_dag:
  assumes "distinct (dag_ids (tf_dag task))" "deps_possible (tf_dag task)" "acyclic (dep_rel (tf_dag task))"
    "never_fails env task" "0 < oo_max_concurrent_nodes (env_options env)"
  shows "\<exists>run. dag_loop env task (dag_start s) = Ended run \<and> all_good run
      \<and> (\<forall>i \<in> set (dag_ids (tf_dag task)). map_of (rs_states run) i \<in> {Some Completed, Some Skipped})"
proof -
  have "all_good (dag_start s)" by (simp add: all_good_def dag_start_def)
  then obtain run where run: "dag_loop env task (dag_start s) = Ended run" "all_good run" "run_inv task run"
    "length (all_nodes task) \<le> length (rs_states run)"
    using good_loop [OF run_inv_start _ assms] by blast
  have "set (dag_ids (tf_dag task)) = fst ` set (rs_states run)"
  proof (rule card_seteq [symmetric])
    show "card (set (dag_ids (tf_dag task))) \<le> card (fst ` set (rs_states run))"
      using run(3,4) distinct_card [OF assms(1)] distinct_card [of "map fst (rs_states run)"] all_nodes_keys [OF assms(1)]
      by (metis length_map list.set_map run_inv_def)
  qed (use run(3) in \<open>auto simp: run_inv_def\<close>)
  then have "map_of (rs_states run) i \<in> {Some Completed, Some Skipped}" if "i \<in> set (dag_ids (tf_dag task))" for i
    using that run(2) by (metis all_good_def insertE map_of_eq_None_iff)
  with run show ?thesis by blast
qed

text \<open>Property C5 (liveness). When no node fails, the inputs of the nodes are declared nodes without a
  cycle, every node can get as many successes as it needs and at least one node may run at a time,
  the loop runs every node, in whatever order they finish: each ends Completed or Skipped, and the
  task is reported Completed.\<close>

theorem task_completes:
  assumes "distinct (dag_ids (tf_dag task))" "deps_possible (tf_dag task)" "acyclic (dep_rel (tf_dag task))"
    "never_fails env task" "0 < oo_max_concurrent_nodes (env_options env)"
  shows "(\<exists>run. dag_loop env task (dag_start s) = Ended run
      \<and> (\<forall>i \<in> set (dag_ids (tf_dag task)). map_of (rs_states run) i \<in> {Some Completed, Some Skipped}))
    \<and> tr_final_state (fst (run_dag env task order s)) = Completed"
proof -
  obtain run where run: "dag_loop env task (dag_start s) = Ended run" "all_good run"
    "\<forall>i \<in> set (dag_ids (tf_dag task)). map_of (rs_states run) i \<in> {Some Completed, Some Skipped}"
    using good_dag [OF assms] by blast
  have "map_of (rs_states run) e \<noteq> Some Failed" for e using run(2) by (auto simp: all_good_def dest: spec [of _ e])
  then have "\<not> list_ex (\<lambda>e. map_of (rs_states run) e = Some Failed) (end_node_ids env task)" by (simp add: list_ex_iff)
  then have "tr_final_state (fst (run_dag env task order s)) = Completed"
    by (simp add: run_dag_def run(1) Let_def result_success_def split: prod.splits)
  with run show ?thesis by blast
qed

section \<open>Examples\<close>

lemma demo_once:
  assumes "dn_input_mapping node = None"
  shows "no_state (execute_node_once (demo_env bad) task node sub key k ctx) = (if dn_id node \<in> set bad then Failed else Completed)"
  using assms
  by (simp add: execute_node_once_def build_params_def delegate_for_def demo_env_def final_err_def final_ok_def
      outcome_new_def outcome_with_msg_def)

lemma demo_loop:
  assumes "dn_input_mapping node = None"
  shows "no_state (fst (attempt_loop (demo_env bad) task node ctx m (Suc left) k)) =
      (if dn_id node \<in> set bad then Failed else Completed)"
proof (induction left arbitrary: k)
  case 0
  show ?case using demo_once [OF assms] by (simp add: Let_def outcome_new_def)
next
  case (Suc left)
  then show ?case using demo_once [OF assms]
    by (subst attempt_loop.simps(2)) (simp add: Let_def case_prod_beta del: attempt_loop.simps)
qed

lemma demo_attempt:
  assumes "dn_input_mapping node = None" "dn_condition node = None"
  shows "no_state (fst (execute_node_with_retry (demo_env bad) task node ctx)) =
    (if dn_id node \<in> set bad then Failed else Completed)"
  using demo_loop [OF assms(1)] assms(2) by (simp add: execute_node_with_retry_def Let_def del: attempt_loop.simps)

abbreviation chain_task :: task_frame where
  "chain_task \<equiv> task_frame_new ''t'' chain_dag"

lemma chain_acyclic: "acyclic (dep_rel chain_dag)"
proof (rule acyclic_subset)
  show "acyclic {(''a'', ''b''), (''b'', ''c'')}" by (auto elim: rtranclE intro: wf_acyclic)
qed (auto simp: dep_rel_def chain_defs node_deps_def)

lemma chain_ok:
  "distinct (dag_ids (tf_dag chain_task))" "deps_possible (tf_dag chain_task)" "acyclic (dep_rel (tf_dag chain_task))"
  "never_fails (demo_env []) chain_task" "0 < oo_max_concurrent_nodes (env_options (demo_env []))"
proof -
  show "acyclic (dep_rel (tf_dag chain_task))" using chain_acyclic by (simp add: task_frame_new_def)
  show "never_fails (demo_env []) chain_task"
    using demo_attempt [of _ "[]" chain_task] by (simp add: never_fails_def task_frame_new_def chain_defs)
qed (simp_all add: task_frame_new_def deps_possible_def dag_ids_def chain_defs needed_def node_deps_def demo_env_def)

theorem task_completes_witness:
  "tr_final_state (fst (run_dag (demo_env []) chain_task [''a'', ''b'', ''c''] [])) = Completed"
  using task_completes [OF chain_ok, of "[]" "[''a'', ''b'', ''c'']"] by blast

theorem node_runs_after_inputs_witness:
  "1 \<le> dep_successes (rs_states (end_run (dag_loop (demo_env []) chain_task (dag_start [])))) [''a'']"
proof -
  have "chain_node ''b'' [''a''] \<in> set (td_nodes (tf_dag chain_task))" by (simp add: task_frame_new_def chain_dag_def)
  moreover obtain run where "dag_loop (demo_env []) chain_task (dag_start []) = Ended run"
      "\<forall>i \<in> set (dag_ids (tf_dag chain_task)). map_of (rs_states run) i \<in> {Some Completed, Some Skipped}"
    using good_dag [OF chain_ok] by blast
  ultimately show ?thesis
    using node_runs_after_inputs [OF chain_ok(1) _ refl, of "chain_node ''b'' [''a'']" "demo_env []" "[]"]
    by (simp add: dag_ids_def task_frame_new_def chain_defs node_deps_def needed_def)
qed

text \<open>In a chain of three nodes whose first node fails, the second is marked failed
  without being run, no node is left in flight and the loop stops before the third is settled. The end
  node has no state, so the task is reported Completed, without an error and without compensation.\<close>

theorem chain_failure_reported_completed:
  assumes "no_state (fst (execute_node_with_retry env chain_task (chain_node ''a'' []) [])) = Failed"
    "0 < oo_max_concurrent_nodes (env_options env)" "\<And>ids. set (env_hash_order env ids) = set ids"
  shows "tr_final_state (fst (run_dag env chain_task order s)) = Completed
    \<and> tr_compensation (fst (run_dag env chain_task order s)) = None
    \<and> map_of (rs_states (end_run (dag_loop env chain_task (dag_start s)))) ''a'' = Some Failed
    \<and> map_of (rs_states (end_run (dag_loop env chain_task (dag_start s)))) ''c'' = None"
proof -
  obtain oc log where ex: "execute_node_with_retry env chain_task (chain_node ''a'' []) [] = (oc, log)" by force
  obtain k where k: "oo_max_concurrent_nodes (env_options env) = Suc k" using assms(2) gr0_implies_Suc by blast
  have nodes: "td_nodes (tf_dag chain_task) = [chain_node ''a'' [], chain_node ''b'' [''a''], chain_node ''c'' [''b'']]"
    "length (all_nodes chain_task) = 3" by (simp_all add: task_frame_new_def chain_defs all_nodes_def)
  note ev = is_ready_def are_deps_done_def node_deps_def needed_def dep_successes_def dep_failures_def chain_node_def demo_node_def
  let ?run1 = "dispatch env chain_task (dag_start s)"
  have run1: "rs_states ?run1 = []" "rs_flight ?run1 = [(''a'', oc, log)]" "rs_results ?run1 = []"
    using ex k by (simp_all add: dispatch_def nodes dag_start_def launch_def ev Let_def)
  obtain run2 where f: "finish_next env chain_task ?run1 = (''a'', oc, run2)"
    and run2: "rs_states run2 = [(''a'', Failed)]" "rs_flight run2 = []" "rs_results run2 = []"
    using assms(1) ex run1 by (simp add: finish_next_def picked_def Let_def)
  have ends: "set (end_node_ids env chain_task) = {''c''}"
    using assms(3) by (auto simp: end_node_ids_def task_frame_new_def all_nodes_def chain_defs)
  have "\<not> must_abort env chain_task ''a'' run2"
    using ends by (auto simp: must_abort_def list_ex_iff run2 all_nodes_def nodes can_end_node_still_succeed_def ev)
  then have "dag_loop env chain_task (dag_start s) = dag_loop env chain_task run2"
    using run1 f nodes(2) by (subst dag_loop.simps) (simp add: Let_def dag_start_def)
  moreover obtain run3 where run3: "dispatch env chain_task run2 = run3" by blast
  moreover have "rs_states run3 = [(''a'', Failed), (''b'', Failed)]" "rs_flight run3 = []"
    unfolding run3 [symmetric] by (simp_all add: dispatch_def nodes launch_def ev run2 Let_def)
  moreover from this run3 have "dag_loop env chain_task run2 = Ended run3"
    using run2 nodes(2) by (subst dag_loop.simps) simp
  ultimately show ?thesis using ends
    by (auto simp: run_dag_def Let_def list_ex_iff compensate_if_def runs_on_success_def task_frame_new_def result_success_def)
qed

theorem chain_failure_reported_completed_witness:
  "tr_final_state (fst (run_dag (demo_env [''a'']) chain_task [''a'', ''b'', ''c''] [])) = Completed"
  using chain_failure_reported_completed [of "demo_env [''a'']" "[''a'', ''b'', ''c'']" "[]"]
    demo_attempt [of "chain_node ''a'' []" "[''a'']" chain_task "[]"]
  by (simp add: chain_node_def demo_node_def) (simp add: demo_env_def)

end
