(* ===== verification/Nop_Callback_Props.thy ===== *)
theory Nop_Callback_Props
  imports Nop_Callback
begin

text \<open>
  What the callback guard decides on IPv4 hosts, against the address blocks it is documented to
  refuse, and what the delivery of a callback sends.
\<close>

section \<open>Reading a printed IPv4 address\<close>

definition dotted :: "u8 \<Rightarrow> u8 \<Rightarrow> u8 \<Rightarrow> u8 \<Rightarrow> string" where
  "dotted a b c d = join ''.'' (map (\<lambda>x. show_nat (unat x)) [a, b, c, d])"

definition no_digit_first :: "string \<Rightarrow> bool" where
  "no_digit_first s \<longleftrightarrow> (case s of [] \<Rightarrow> True | c # _ \<Rightarrow> \<not> is_ascii_digit c)"

lemma char_digit_10: "char_digit 10 c = (if is_ascii_digit c then Some (digit_value c) else None)"
  by (auto simp: char_digit_def is_ascii_digit_def digit_value_def Let_def)

lemma read_digits_stop:
  "no_digit_first s \<Longrightarrow> read_digits 10 bound m acc count s = Some ((acc, count), s)"
  by (cases s) (auto simp: no_digit_first_def char_digit_10)

lemma read_digits_step:
  "n < 10 \<Longrightarrow> acc * 10 + n < bound \<Longrightarrow> count < m \<Longrightarrow>
   read_digits 10 bound m acc count (digit_char n # s) = read_digits 10 bound m (acc * 10 + n) (count + 1) s"
  by (simp add: char_digit_10 digit_char_digit)

lemma show_nat_3:
  assumes "n < 1000"
  shows "show_nat n =
    (if n < 10 then [digit_char n]
     else if n < 100 then [digit_char (n div 10), digit_char (n mod 10)]
     else [digit_char (n div 100), digit_char (n div 10 mod 10), digit_char (n mod 10)])"
proof -
  have "show_nat (n div 10) = (if n < 100 then [digit_char (n div 10)]
      else [digit_char (n div 100), digit_char (n div 10 mod 10)])"
    using assms by (subst show_nat.simps, subst show_nat.simps) (auto simp: div_mult2_eq [symmetric])
  then show ?thesis by (subst show_nat.simps) simp
qed

lemma digit_char_zero: "n < 10 \<Longrightarrow> digit_char n = CHR ''0'' \<longleftrightarrow> n = 0"
  using code_digit_char [of n] by (auto simp: digit_chars dest: arg_cong [where f = code])

lemma read_number_show:
  assumes "n < 256" "no_digit_first rest"
  shows "read_number 10 256 3 False (show_nat n @ rest) = Some (n, rest)"
proof -
  have d: "n mod 10 < 10" "n div 10 mod 10 < 10" by simp_all
  consider "n < 10" | "10 \<le> n" "n < 100" | "100 \<le> n" by linarith
  then show ?thesis
  proof cases
    case 1
    then show ?thesis using assms
      by (simp add: read_number_def show_nat_3 read_digits_step read_digits_stop del: read_digits.simps)
  next
    case 2
    then have "0 < n div 10" "n div 10 < 10" by auto
    then show ?thesis using 2 assms d digit_char_zero [of "n div 10"]
      by (simp add: read_number_def show_nat_3 read_digits_step read_digits_stop del: read_digits.simps)
  next
    case 3
    then have h: "0 < n div 100" "n div 100 < 10" using assms by auto
    have "n div 100 * 10 + n div 10 mod 10 = n div 10"
      using div_mult_mod_eq [of "n div 10" 10] by (simp add: div_mult2_eq [symmetric])
    then show ?thesis using 3 h assms d digit_char_zero [of "n div 100"]
      by (simp add: read_number_def show_nat_3 read_digits_step read_digits_stop del: read_digits.simps)
  qed
qed

lemma read_octet_sep:
  "0 < i \<Longrightarrow> no_digit_first rest \<Longrightarrow>
   read_separator CHR ''.'' i (read_number 10 256 3 False) (CHR ''.'' # show_nat (unat (x :: u8)) @ rest)
     = Some (unat x, rest)"
  using unsigned_less [of x, where 'a = nat] by (simp add: read_separator_def read_number_show)

lemma parse_ip_dotted: "parse_ip (dotted a b c d) = Some (V4 [a, b, c, d])"
proof -
  have nd: "no_digit_first []" "no_digit_first (CHR ''.'' # s)" for s
    by (simp_all add: no_digit_first_def is_ascii_digit_def)
  have "read_separator CHR ''.'' 0 (read_number 10 256 3 False) (show_nat (unat a) @ CHR ''.'' # s)
      = Some (unat a, CHR ''.'' # s)" for s
    using unsigned_less [of a, where 'a = nat] nd by (simp add: read_separator_def read_number_show)
  moreover have four: "(4 :: nat) = Suc (Suc (Suc (Suc 0)))" by simp
  ultimately have "read_octets 0 4 (dotted a b c d) = Some ([unat a, unat b, unat c, unat d], [])"
    using nd read_octet_sep [of _ "[]" d] unfolding four by (simp add: dotted_def read_octet_sep)
  then show ?thesis by (simp add: parse_ip_def read_ipv4_addr_def)
qed

section \<open>The guard on IPv4 hosts\<close>

text \<open>The blocks that the code names, in the notation of CIDR.\<close>

definition private_blocks :: "(nat \<times> nat) list" where
  "private_blocks = [(127 * 2 ^ 24, 8), (10 * 2 ^ 24, 8), (0, 8), (172 * 2 ^ 24 + 16 * 2 ^ 16, 12),
     (192 * 2 ^ 24 + 168 * 2 ^ 16, 16), (169 * 2 ^ 24 + 254 * 2 ^ 16, 16)]"

definition ipv4_number :: "u8 \<Rightarrow> u8 \<Rightarrow> u8 \<Rightarrow> u8 \<Rightarrow> nat" where
  "ipv4_number a b c d = unat a * 2 ^ 24 + unat b * 2 ^ 16 + unat c * 2 ^ 8 + unat d"

definition in_block :: "nat \<Rightarrow> nat \<times> nat \<Rightarrow> bool" where
  "in_block ip blk \<longleftrightarrow> ip div 2 ^ (32 - snd blk) = fst blk div 2 ^ (32 - snd blk)"

lemma private_ipv4_blocks:
  "is_private_ipv4 [a, b, c, d] \<longleftrightarrow> list_ex (in_block (ipv4_number a b c d)) private_blocks"
proof -
  have lt: "unat a < 256" "unat b < 256" "unat c < 256" "unat d < 256"
    using unsigned_less [of a, where 'a = nat] unsigned_less [of b, where 'a = nat] unsigned_less [of c, where 'a = nat] unsigned_less [of d, where 'a = nat] by simp_all
  let ?n = "ipv4_number a b c d"
  have 8: "?n div 16777216 = unat a" and 16: "?n div 65536 = unat a * 256 + unat b"
    and 12: "?n div 1048576 = unat a * 16 + unat b div 16"
    using lt by (simp_all add: ipv4_number_def)
  have w: "x = numeral k \<longleftrightarrow> unat x = unat (numeral k :: u8)" "x = 0 \<longleftrightarrow> unat x = 0"
    "numeral k \<le> x \<longleftrightarrow> unat (numeral k :: u8) \<le> unat x" "x \<le> numeral k \<longleftrightarrow> unat x \<le> unat (numeral k :: u8)"
    for x :: u8 and k by (auto simp: word_unat_eq_iff word_le_nat_alt)
  have "16 \<le> unat b \<and> unat b \<le> 31 \<longleftrightarrow> unat b div 16 = 1" by auto
  moreover have "unat a * 16 + unat b div 16 = 172 * 16 + 1 \<longleftrightarrow> unat a = 172 \<and> unat b div 16 = 1"
  proof -
    have "x * 16 + y = 172 * 16 + 1 \<longleftrightarrow> x = 172 \<and> y = 1" if "y < 16" for x y :: nat using that by presburger
    moreover have "unat b div 16 < 16" using lt by auto
    ultimately show ?thesis by blast
  qed
  moreover have "unat a * 256 + unat b = x * 256 + y \<longleftrightarrow> unat a = x \<and> unat b = y" if "y < 256" for x y
  proof -
    have "(unat a * 256 + unat b) div 256 = unat a" "(unat a * 256 + unat b) mod 256 = unat b"
      "(x * 256 + y) div 256 = x" "(x * 256 + y) mod 256 = y"
      using lt that by simp_all
    then show ?thesis by metis
  qed
  note this [of 168 192] this [of 254 169]
  ultimately show ?thesis
    unfolding is_private_ipv4_def private_blocks_def in_block_def w
    by (simp add: 8 16 12)
qed

section \<open>The host of a URL\<close>

lemma hd_split_by:
  "\<forall>c \<in> set s. \<not> P c \<Longrightarrow> rest = [] \<or> P (hd rest) \<Longrightarrow> hd (split_by P (s @ rest)) = s"
  by (cases rest) (auto simp: split_by_no_sep split_by_append_sep)

lemma last_split_by: "P x \<Longrightarrow> last (split_by P (v @ x # t)) = last (split_by P t)"
proof -
  assume "P x"
  then have "\<exists>us. us \<noteq> [] \<and> split_by P (v @ x # t) = us @ split_by P t"
  proof (induction v)
    case (Cons a v)
    then obtain us where "us \<noteq> []" "split_by P (v @ x # t) = us @ split_by P t" by auto
    then show ?case by (cases us) (auto intro: exI [of _ "[] # us"] exI [of _ "(a # hd us) # tl us"])
  qed (auto intro: exI [of _ "[[]]"])
  then show ?thesis by auto
qed

lemma split_scheme_append: "CHR '':'' \<notin> set s \<Longrightarrow> split_scheme (s @ ''://'' @ r) = Some (s, r)"
  by (induction s) (auto simp: strip_prefix_def)

lemma trim_empty: "trim s = [] \<Longrightarrow> c \<in> set s \<Longrightarrow> is_whitespace c"
proof -
  assume "trim s = []" "c \<in> set s"
  then have "\<forall>x \<in> set (dropWhile is_whitespace s). is_whitespace x"
    by (simp add: trim_def trim_end_def trim_start_def)
  then have "dropWhile is_whitespace s = []" by (metis hd_dropWhile hd_in_set)
  with \<open>c \<in> set s\<close> show ?thesis by simp
qed

lemma dotted_chars: "c \<in> set (dotted a b c' d) \<Longrightarrow> is_ascii_digit c \<or> c = CHR ''.''"
  using show_nat_digits [of "unat a"] show_nat_digits [of "unat b"] show_nat_digits [of "unat c'"]
    show_nat_digits [of "unat d"]
  by (auto simp: dotted_def list_all_iff)

lemma dotted_nonempty: "dotted a b c d \<noteq> []"
  by (simp add: dotted_def)

lemma dotted_excludes:
  assumes "x = CHR '':'' \<or> x = CHR ''/'' \<or> x = CHR ''?'' \<or> x = CHR ''#'' \<or> x = CHR ''@'' \<or> x = CHR ''['' \<or> x = CHR '']''"
  shows "x \<notin> set (dotted a b c d)"
  using dotted_chars [of x a b c d] assms by (auto simp: is_ascii_digit_def)

text \<open>What may stand before and after the host: user information, and a path, query or fragment.\<close>

definition ends_authority :: "char \<Rightarrow> bool" where
  "ends_authority c \<longleftrightarrow> c = CHR ''/'' \<or> c = CHR ''?'' \<or> c = CHR ''#''"

definition userinfo :: "string \<Rightarrow> bool" where
  "userinfo u \<longleftrightarrow> u = [] \<or> last u = CHR ''@'' \<and> list_all (\<lambda>c. \<not> ends_authority c) u"

lemma extract_host_dotted:
  assumes "userinfo u" "rest = [] \<or> ends_authority (hd rest)"
  shows "extract_host (u @ dotted a b c d @ rest) = dotted a b c d"
proof -
  let ?D = "dotted a b c d"
  have "\<forall>x \<in> set ?D. \<not> ends_authority x" using dotted_excludes by (metis ends_authority_def)
  then have "hd (split_by ends_authority ((u @ ?D) @ rest)) = u @ ?D"
    using assms by (intro hd_split_by) (auto simp: userinfo_def list_all_iff)
  then have "hd (split_by (\<lambda>c. c = CHR ''/'' \<or> c = CHR ''?'' \<or> c = CHR ''#'') (u @ ?D @ rest)) = u @ ?D"
    by (simp add: ends_authority_def [abs_def])
  moreover have "last (split_char CHR ''@'' (u @ ?D)) = ?D"
  proof -
    have D: "last (split_char CHR ''@'' ?D) = ?D"
      by (subst split_by_no_sep) (auto simp: dotted_excludes)
    show ?thesis
    proof (cases "u = []")
      case False
      then have "u = butlast u @ [CHR ''@'']" using assms(1) append_butlast_last_id [of u] by (simp add: userinfo_def)
      then show ?thesis using last_split_by [of "\<lambda>x. x = CHR ''@''" "CHR ''@''" "butlast u" ?D] D
        by (metis append.assoc append_Cons append_Nil)
    qed (simp add: D)
  qed
  moreover have "strip_prefix ''['' ?D = None"
    using dotted_excludes [of "CHR ''[''" a b c d] dotted_nonempty [of a b c d]
    by (cases ?D) (auto simp: strip_prefix_def)
  moreover have "split_once CHR '':'' ?D = None"
    using dotted_excludes [of "CHR '':''" a b c d] by (simp add: split_once_None)
  ultimately show ?thesis by (simp add: extract_host_def Let_def)
qed

lemma private_host_dotted: "is_private_host (dotted a b c d) = is_private_ipv4 [a, b, c, d]"
proof -
  let ?D = "dotted a b c d"
  have "dropWhile (\<lambda>c. c = CHR ''['') ?D = ?D" "dropWhile (\<lambda>c. c = CHR '']'') (rev ?D) = rev ?D"
    using dotted_excludes [of "CHR ''[''" a b c d] dotted_excludes [of "CHR '']''" a b c d]
    by (auto simp: dropWhile_eq_self_iff) (metis hd_in_set, metis hd_in_set rev_is_Nil_conv set_rev)
  moreover have "to_ascii_lowercase ?D \<noteq> ''localhost''"
  proof
    assume "to_ascii_lowercase ?D = ''localhost''"
    then have "hd ?D \<in> set ?D" "to_ascii_lower (hd ?D) = CHR ''l''"
      using dotted_nonempty [of a b c d] by (cases ?D; simp add: to_ascii_lowercase_def)+
    then show False using dotted_chars [of "hd ?D" a b c d]
      by (auto simp: to_ascii_lower_def is_ascii_digit_def)
  qed
  ultimately show ?thesis
    by (simp add: is_private_host_def Let_def dotted_nonempty parse_ip_dotted is_private_ip_def)
qed

text \<open>A callback URL with the scheme https in any letter case, optional user
  information and an IPv4 address in dotted notation as its host is accepted exactly when the address
  lies outside the six private, loopback and link-local blocks that the guard is documented to refuse:
  neither user information nor a path, query or fragment gets an address past the guard.\<close>

theorem callback_guard_ipv4:
  assumes "to_ascii_lowercase scheme = ''https''" "userinfo u" "rest = [] \<or> ends_authority (hd rest)"
  shows "validate_callback_url (scheme @ ''://'' @ u @ dotted a b c d @ rest) = None \<longleftrightarrow>
     \<not> list_ex (in_block (ipv4_number a b c d)) private_blocks"
proof -
  let ?url = "scheme @ ''://'' @ u @ dotted a b c d @ rest"
  have "CHR '':'' \<notin> set scheme"
  proof
    assume "CHR '':'' \<in> set scheme"
    then have "to_ascii_lower CHR '':'' \<in> set ''https''"
      using assms(1) by (metis image_eqI set_map to_ascii_lowercase_def)
    then show False by (simp add: to_ascii_lower_def)
  qed
  then have "split_scheme ?url = Some (scheme, u @ dotted a b c d @ rest)"
    using split_scheme_append [of scheme "u @ dotted a b c d @ rest"] by simp
  moreover have "trim ?url \<noteq> []"
    using trim_empty [of ?url "CHR '':''"] by (auto simp: is_whitespace_def)
  ultimately show ?thesis
    using assms(1) extract_host_dotted [OF assms(2,3), of a b c d]
    by (simp add: validate_callback_url_def Let_def private_host_dotted private_ipv4_blocks dotted_nonempty)
qed

theorem callback_guard_ipv4_witness:
  "validate_callback_url ''HTTPS://bob@172.31.0.9/x?y=1'' \<noteq> None \<and> validate_callback_url ''https://8.8.4.4'' = None"
proof -
  have low: "to_ascii_lowercase ''HTTPS'' = ''https''" "to_ascii_lowercase ''https'' = ''https''" by code_simp+
  have "validate_callback_url (''HTTPS'' @ ''://'' @ ''bob@'' @ dotted 172 31 0 9 @ ''/x?y=1'') \<noteq> None"
    by (subst callback_guard_ipv4)
       (simp_all add: low userinfo_def ends_authority_def
          private_blocks_def in_block_def ipv4_number_def)
  moreover have "validate_callback_url (''https'' @ ''://'' @ [] @ dotted 8 8 4 4 @ []) = None"
    by (subst callback_guard_ipv4)
       (simp_all add: low userinfo_def
          private_blocks_def in_block_def ipv4_number_def)
  ultimately show ?thesis by (simp add: dotted_def show_eval)
qed

section \<open>Delivery\<close>

definition posts :: "delivery list \<Rightarrow> post_request list" where
  "posts ds = List.map_filter (\<lambda>d. case d of Posted r \<Rightarrow> Some r | _ \<Rightarrow> None) ds"

lemma posts_simps [simp]:
  "posts [] = []" "posts (Posted r # ds) = r # posts ds" "posts (Slept n # ds) = posts ds"
  "posts (Overflowed # ds) = posts ds"
  by (simp_all add: posts_def List.map_filter_def)

text \<open>Unless the delay overflows, a callback is posted until the first success
  and three times at most, every time with the same body and, when the secret decodes to 32 bytes,
  the same signature header; and no request follows a success.\<close>

theorem fire_callback_posts:
  assumes "unat base * 2 < 2 ^ 64"
  shows "posts (fire_callback env send url secret payload base) =
     replicate (if send 1 then 1 else if send 2 then 2 else 3)
       (callback_request url (build_callback_signature env secret payload) payload)
   \<and> Overflowed \<notin> set (fire_callback env send url secret payload base)"
proof -
  let ?req = "callback_request url (build_callback_signature env secret payload) payload"
  have b: "unat base < 18446744073709551616" "unat base * 2 < 18446744073709551616" using assms by simp_all
  have "fire_callback env send url secret payload base =
      (if send 1 then [Posted ?req]
       else (if base > 0 then [Posted ?req, Slept base] else [Posted ?req])
         @ (if send 2 then [Posted ?req]
            else (if base > 0 then [Posted ?req, Slept (base * 2)] else [Posted ?req]) @ [Posted ?req]))"
    using b by (simp add: fire_callback_def CALLBACK_MAX_RETRIES_def numeral_3_eq_3) (simp add: numeral_2_eq_2 [symmetric])
  moreover have "replicate 3 ?req = [?req, ?req, ?req]" "replicate 2 ?req = [?req, ?req]"
    by (simp_all add: numeral_3_eq_3 numeral_2_eq_2)
  ultimately show ?thesis by simp
qed

theorem fire_callback_posts_witness:
  "posts (fire_callback \<lparr>cb_base64_decode = \<lambda>s. Some (replicate 32 7), cb_hmac_sha256 = \<lambda>k p. k, cb_hex = \<lambda>b. ''ab''\<rparr>
      (\<lambda>n. n = 2) ''https://x.example'' (Some ''k'') ''{}'' 500) =
     replicate 2 \<lparr>pr_url = ''https://x.example'',
       pr_headers = [(''Content-Type'', ''application/json''), (''X-NPS-Signature'', ''sha256=ab'')],
       pr_body = ''{}''\<rparr>"
  using fire_callback_posts [of 500 "\<lparr>cb_base64_decode = \<lambda>s. Some (replicate 32 7), cb_hmac_sha256 = \<lambda>k p. k, cb_hex = \<lambda>b. ''ab''\<rparr>"
      "\<lambda>n. n = 2" "''https://x.example''" "Some ''k''" "''{}''"]
  by (simp add: callback_request_def build_callback_signature_def decode_base64url_def Let_def
      trim_def trim_start_def trim_end_def is_whitespace_def)

end
