(* ===== verification/Nip_Signer.thy ===== *)
theory Nip_Signer
  imports Json "HOL-Library.Multiset"
begin

text \<open>
  \<^verbatim>\<open>nps-nip/src/ca/signer.rs\<close> and the verification half of \<^verbatim>\<open>nps-nip/src/identity.rs\<close>: canonical JSON and Ed25519
  signatures over it. Ed25519, base64, hexadecimal, SHA-256, the printing of JSON and the reading of
  RFC 3339 times (nanoseconds since the epoch) are third-party code, the record \<open>crypto\<close>, with
  \<open>calendar\<close> the time of a date and \<open>bytes_error\<close> the texts of decoding errors; keys and signatures are byte lists. The encrypted key file is I/O and is
  not modelled.
\<close>

record crypto =
  b64_encode :: "bytes \<Rightarrow> string"
  b64_decode :: "string \<Rightarrow> bytes option"
  b64url_encode :: "bytes \<Rightarrow> string"
  b64url_decode :: "string \<Rightarrow> bytes option"
  b64url_padded_decode :: "string \<Rightarrow> bytes option"
  hex_enc :: "bytes \<Rightarrow> string"
  hex_dec :: "string \<Rightarrow> bytes option"
  key_from_bytes :: "bytes \<Rightarrow> bytes option"
  ed_public :: "bytes \<Rightarrow> bytes"
  ed_sign :: "bytes \<Rightarrow> bytes \<Rightarrow> bytes"
  ed_verify :: "bytes \<Rightarrow> bytes \<Rightarrow> bytes \<Rightarrow> bool"
  json_text :: "jvalue \<Rightarrow> string"
  json_read :: "string \<Rightarrow> string + jvalue"
  sha256_hex :: "string \<Rightarrow> string"
  rfc3339_read :: "string \<Rightarrow> int option"
  rfc3339_text :: "int \<Rightarrow> string"
  time_display :: "int \<Rightarrow> string"
  duration_display :: "int \<Rightarrow> string"
  calendar :: "int \<Rightarrow> int \<Rightarrow> int \<Rightarrow> int \<Rightarrow> int \<Rightarrow> int \<Rightarrow> int option"
  bytes_error :: "string \<Rightarrow> string"

text \<open>What is relied on: encodings that can be read back, keys and signatures of fixed length, valid
  public keys, and signatures that verify under the key of the signer.\<close>

definition crypto_laws :: "crypto \<Rightarrow> bool" where
  "crypto_laws cr \<longleftrightarrow>
     (\<forall>b. b64_decode cr (b64_encode cr b) = Some b) \<and> (\<forall>b. b64url_decode cr (b64url_encode cr b) = Some b)
   \<and> (\<forall>b. hex_dec cr (hex_enc cr b) = Some b)
   \<and> (\<forall>sk. length (ed_public cr sk) = 32 \<and> key_from_bytes cr (ed_public cr sk) = Some (ed_public cr sk))
   \<and> (\<forall>sk m. length (ed_sign cr sk m) = 64 \<and> ed_verify cr (ed_public cr sk) m (ed_sign cr sk m))"

section \<open>Canonical JSON\<close>

definition EXCLUDED :: "string list" where
  "EXCLUDED = [''signature'', ''frame'', ''metadata'', ''cert_format'', ''cert_chain'', ''health'', ''last_seen'']"

function canonical_json :: "crypto \<Rightarrow> jvalue \<Rightarrow> string" where
  "canonical_json cr el = (case el of
       JObject m \<Rightarrow> ''{'' @ join '','' (map (\<lambda>(k, v). json_text cr (JString k) @ '':'' @ canonical_json cr v)
                      (sort_key fst (filter (\<lambda>(k, v). k \<notin> set EXCLUDED) m))) @ ''}''
     | JArray items \<Rightarrow> ''['' @ join '','' (map (canonical_json cr) items) @ '']''
     | other \<Rightarrow> json_text cr other)"
  by pat_completeness auto
termination
  by (relation "measure (\<lambda>(cr, v). size v)") (auto dest: size_array_elem size_object_elem)

declare canonical_json.simps [simp del]

section \<open>Signing\<close>

definition PREFIX :: string where "PREFIX = ''ed25519:''"

definition encode_public_key :: "crypto \<Rightarrow> bytes \<Rightarrow> string" where
  "encode_public_key cr pub_raw = PREFIX @ b64url_encode cr pub_raw"

definition decode_public_key :: "crypto \<Rightarrow> string \<Rightarrow> bytes option" where
  "decode_public_key cr encoded =
     (case strip_prefix PREFIX encoded of
        None \<Rightarrow> None
      | Some b64 \<Rightarrow>
          (case b64url_decode cr b64 of
             None \<Rightarrow> None
           | Some raw \<Rightarrow> if length raw \<noteq> 32 then None else key_from_bytes cr raw))"

definition signer_sign :: "crypto \<Rightarrow> bytes \<Rightarrow> jvalue \<Rightarrow> string" where
  "signer_sign cr sk payload = PREFIX @ b64url_encode cr (ed_sign cr sk (utf8 (canonical_json cr payload)))"

definition signer_verify :: "crypto \<Rightarrow> bytes \<Rightarrow> jvalue \<Rightarrow> string \<Rightarrow> bool" where
  "signer_verify cr vk payload signature =
     (case strip_prefix PREFIX signature of
        None \<Rightarrow> False
      | Some sig_b64 \<Rightarrow>
          (case b64url_decode cr sig_b64 of
             None \<Rightarrow> False
           | Some sig \<Rightarrow> if length sig \<noteq> 64 then False else ed_verify cr vk (utf8 (canonical_json cr payload)) sig))"

section \<open>Identities\<close>

text \<open>\<open>canonical_json\<close> of \<^verbatim>\<open>identity.rs\<close> prints the dictionary with its keys in order.\<close>

definition identity_canonical :: "crypto \<Rightarrow> frame_dict \<Rightarrow> string" where
  "identity_canonical cr d = json_text cr (JObject (bt_collect d))"

definition pub_key_string :: "crypto \<Rightarrow> bytes \<Rightarrow> string" where
  "pub_key_string cr sk = PREFIX @ hex_enc cr (ed_public cr sk)"

definition identity_sign :: "crypto \<Rightarrow> bytes \<Rightarrow> frame_dict \<Rightarrow> string" where
  "identity_sign cr sk payload = PREFIX @ b64_encode cr (ed_sign cr sk (utf8 (identity_canonical cr payload)))"

definition verify_with_key :: "crypto \<Rightarrow> bytes \<Rightarrow> frame_dict \<Rightarrow> string \<Rightarrow> bool" where
  "verify_with_key cr vk payload signature =
     (case strip_prefix PREFIX signature of
        None \<Rightarrow> False
      | Some sig_b64 \<Rightarrow>
          (case b64_decode cr sig_b64 of
             None \<Rightarrow> False
           | Some sig \<Rightarrow> if length sig \<noteq> 64 then False else ed_verify cr vk (utf8 (identity_canonical cr payload)) sig))"

definition identity_verify :: "crypto \<Rightarrow> bytes \<Rightarrow> frame_dict \<Rightarrow> string \<Rightarrow> bool" where
  "identity_verify cr sk payload signature = verify_with_key cr (ed_public cr sk) payload signature"

definition verify_with_pub_key_str :: "crypto \<Rightarrow> frame_dict \<Rightarrow> string \<Rightarrow> string \<Rightarrow> bool" where
  "verify_with_pub_key_str cr payload pub_key signature =
     (case strip_prefix PREFIX pub_key of
        None \<Rightarrow> False
      | Some hex_str \<Rightarrow>
          (case hex_dec cr hex_str of
             None \<Rightarrow> False
           | Some raw \<Rightarrow>
               if length raw \<noteq> 32 then False
               else (case key_from_bytes cr raw of
                  None \<Rightarrow> False
                | Some vk \<Rightarrow> verify_with_key cr vk payload signature)))"

section \<open>What a signature covers\<close>

text \<open>A value without the members that the canonical form leaves out, at every depth.\<close>

function signed_part :: "jvalue \<Rightarrow> jvalue" where
  "signed_part v = (case v of
       JObject m \<Rightarrow> JObject (map (\<lambda>(k, x). (k, signed_part x)) (filter (\<lambda>(k, x). k \<notin> set EXCLUDED) m))
     | JArray items \<Rightarrow> JArray (map signed_part items)
     | other \<Rightarrow> other)"
  by pat_completeness auto
termination
  by (relation "measure size") (auto dest: size_array_elem size_object_elem)

declare signed_part.simps [simp del]

lemma sort_key_map_snd: "sort_key fst (map (\<lambda>(k, x). (k, h x)) ps) = map (\<lambda>(k, x). (k, h x)) (sort_key fst ps)"
proof -
  have ins: "insort_key fst (case p of (k, x) \<Rightarrow> (k, h x)) (map (\<lambda>(k, x). (k, h x)) xs)
      = map (\<lambda>(k, x). (k, h x)) (insort_key fst p xs)" for p xs
    by (induction xs) (auto split: prod.splits)
  show ?thesis by (induction ps) (simp_all add: ins)
qed

lemma canonical_signed_part: "canonical_json cr (signed_part v) = canonical_json cr v"
proof (induction v rule: signed_part.induct)
  case (1 v)
  show ?case
  proof (cases v)
    case (JObject m)
    let ?m = "filter (\<lambda>(k, x). k \<notin> set EXCLUDED) m"
    have ih: "canonical_json cr (signed_part x) = canonical_json cr x" if "(k, x) \<in> set (sort_key fst ?m)" for k x
      using 1(2) [OF JObject, of "(k, x)" k x] that by auto
    have keep: "filter (\<lambda>(k, x). k \<notin> set EXCLUDED) (map (\<lambda>(k, x). (k, signed_part x)) ?m)
        = map (\<lambda>(k, x). (k, signed_part x)) ?m"
      by (auto simp: filter_id_conv)
    have same: "map (\<lambda>(k, v). json_text cr (JString k) @ '':'' @ canonical_json cr v)
          (map (\<lambda>(k, x). (k, signed_part x)) (sort_key fst ?m))
        = map (\<lambda>(k, v). json_text cr (JString k) @ '':'' @ canonical_json cr v) (sort_key fst ?m)"
      unfolding map_map by (intro map_cong refl) (use ih in \<open>auto split: prod.splits\<close>)
    show ?thesis
      unfolding JObject by (subst signed_part.simps, subst (1 2) canonical_json.simps)
        (simp only: jvalue.case keep sort_key_map_snd same)
  next
    case (JArray items)
    have same: "map (canonical_json cr) (map signed_part items) = map (canonical_json cr) items"
      using 1(1) [OF JArray] by simp
    show ?thesis
      unfolding JArray by (subst signed_part.simps, subst (1 2) canonical_json.simps) (simp only: jvalue.case same)
  qed (simp_all add: signed_part.simps)
qed


section \<open>Round trips\<close>

lemma strip_PREFIX [simp]: "strip_prefix PREFIX (PREFIX @ s) = Some s"
  by (simp add: PREFIX_def strip_prefix_def)

lemma decode_encode_key:
  "crypto_laws cr \<Longrightarrow> decode_public_key cr (encode_public_key cr (ed_public cr sk)) = Some (ed_public cr sk)"
  by (simp add: crypto_laws_def decode_public_key_def encode_public_key_def)

lemma identity_accepts:
  "crypto_laws cr \<Longrightarrow> verify_with_key cr (ed_public cr sk) d (identity_sign cr sk d)
     \<and> verify_with_pub_key_str cr d (pub_key_string cr sk) (identity_sign cr sk d)"
  by (simp add: crypto_laws_def verify_with_pub_key_str_def verify_with_key_def identity_sign_def pub_key_string_def)

text \<open>Property C35 (roundtrip). What the CA signs verifies: for every key, the encoded public key decodes to the key
  of the signer, and under it the signature of a payload is accepted for every payload that agrees with
  it outside the excluded members, in whatever depth these occur.\<close>

theorem ca_signature_roundtrip:
  assumes "crypto_laws cr" and "signed_part p' = signed_part p"
  shows "decode_public_key cr (encode_public_key cr (ed_public cr sk)) = Some (ed_public cr sk)
    \<and> signer_verify cr (ed_public cr sk) p' (signer_sign cr sk p)"
proof -
  have "canonical_json cr p' = canonical_json cr p"
    using canonical_signed_part [of cr p] canonical_signed_part [of cr p'] assms(2) by simp
  with assms(1) show ?thesis
    by (simp add: decode_encode_key crypto_laws_def signer_verify_def signer_sign_def)
qed

text \<open>A concrete instance of the third-party code: bytes are written as the characters of their
  values, a signature is the public key padded to 64 bytes.\<close>

definition plain_text :: "bytes \<Rightarrow> string" where
  "plain_text b = map (\<lambda>w. char_of (unat w)) b"

definition plain_bytes :: "string \<Rightarrow> bytes option" where
  "plain_bytes s = Some (map (\<lambda>c. of_nat (of_char c)) s)"

definition plain_public :: "bytes \<Rightarrow> bytes" where
  "plain_public sk = take 32 (sk @ replicate 32 0)"

definition plain_crypto :: crypto where
  "plain_crypto =
     \<lparr> b64_encode = plain_text, b64_decode = plain_bytes, b64url_encode = plain_text, b64url_decode = plain_bytes, b64url_padded_decode = plain_bytes,
       hex_enc = plain_text, hex_dec = plain_bytes, key_from_bytes = Some, ed_public = plain_public,
       ed_sign = (\<lambda>sk m. plain_public sk @ replicate 32 0),
       ed_verify = (\<lambda>vk m sig. take 32 sig = vk), json_text = (\<lambda>v. case v of JString s \<Rightarrow> s | _ \<Rightarrow> ''null''),
       json_read = (\<lambda>s. if s = [] then Inl ''EOF'' else Inr (JObject [])), sha256_hex = (\<lambda>s. s),
       rfc3339_read = (\<lambda>s. if s = [] then None else Some (int (length s) * 1000000000)),
       rfc3339_text = (\<lambda>t. replicate (nat t) CHR ''t''), time_display = (\<lambda>t. replicate (nat t) CHR ''t''), duration_display = (\<lambda>d. ''1h''),
       calendar = (\<lambda>y m d h n s. if 1 \<le> m \<and> m \<le> 12 then Some ((((y * 12 + m) * 31 + d) * 24 + h) * 3600 + n * 60 + s) else None),
       bytes_error = (\<lambda>s. ''invalid input'') \<rparr>"

lemma plain_bytes_text: "plain_bytes (plain_text b) = Some b"
proof -
  have "of_nat (of_char (char_of (unat w) :: char)) = w" for w :: "8 word"
  proof -
    have "unat w < 256" using unsigned_less [of w, where ?'a = nat] by simp
    then show ?thesis by simp
  qed
  then show ?thesis by (simp add: plain_bytes_def plain_text_def comp_def)
qed

lemma plain_crypto_laws: "crypto_laws plain_crypto"
  by (auto simp add: crypto_laws_def plain_crypto_def plain_bytes_text plain_public_def min_def)

theorem ca_signature_roundtrip_witness:
  "signer_verify plain_crypto (ed_public plain_crypto [7])
     (JObject [(''metadata'', JString ''other''), (''nid'', JString ''n'')])
     (signer_sign plain_crypto [7] (JObject [(''nid'', JString ''n'')]))"
  using ca_signature_roundtrip
      [OF plain_crypto_laws, of "JObject [(''metadata'', JString ''other''), (''nid'', JString ''n'')]"
        "JObject [(''nid'', JString ''n'')]" "[7]"]
  by (simp add: signed_part.simps EXCLUDED_def)

text \<open>What an identity signs verifies under its public key string and under the identity
  itself, in whatever order the payload was filled.\<close>

theorem identity_signature_roundtrip:
  assumes "crypto_laws cr" and "bt_collect d' = bt_collect d"
  shows "verify_with_pub_key_str cr d' (pub_key_string cr sk) (identity_sign cr sk d)
    \<and> identity_verify cr sk d' (identity_sign cr sk d)"
proof -
  have "identity_sign cr sk d = identity_sign cr sk d'"
    using assms(2) by (simp add: identity_sign_def identity_canonical_def)
  with identity_accepts [OF assms(1)] show ?thesis by (simp add: identity_verify_def)
qed

theorem identity_signature_roundtrip_witness:
  "verify_with_pub_key_str plain_crypto [(''b'', JNull), (''a'', JBool True)] (pub_key_string plain_crypto [1, 2])
     (identity_sign plain_crypto [1, 2] [(''a'', JBool True), (''b'', JNull)])"
  using identity_signature_roundtrip
      [OF plain_crypto_laws, of "[(''b'', JNull), (''a'', JBool True)]" "[(''a'', JBool True), (''b'', JNull)]" "[1, 2]"]
  by (simp add: bt_collect_def)

end
