(* ===== verification/Nop_Profile.thy ===== *)
theory Nop_Profile
  imports Nop_Dag Nop_Callback Nip_Signer
begin

text \<open>
  \<^verbatim>\<open>nps-nop/src/portable_profile.rs\<close>: the transcript of an orchestration whose outcomes are scripted in the task, and the
  rules for callbacks, signatures, leases, delegation and runtimes. Tasks and results are JSON values. The
  URL parser of \<open>reqwest\<close> is the argument \<open>parse_url\<close>; JSON, hashes and Base64 come from the \<open>crypto\<close> record, the HMAC
  from \<open>callback_env\<close>.
\<close>

section \<open>Fields of a value\<close>

definition v_str :: "jvalue \<Rightarrow> string \<Rightarrow> string option" where
  "v_str v key = Option.bind (jget v key) as_str"

definition v_bool :: "jvalue \<Rightarrow> string \<Rightarrow> bool \<Rightarrow> bool" where
  "v_bool v key fallback = unwrap_or fallback (Option.bind (jget v key) as_bool)"

definition v_usize :: "jvalue \<Rightarrow> string \<Rightarrow> u64 \<Rightarrow> u64" where
  "v_usize v key fallback = unwrap_or fallback (Option.bind (jget v key) as_u64)"

definition v_int :: "jvalue \<Rightarrow> string \<Rightarrow> int \<Rightarrow> int" where
  "v_int v key fallback = unwrap_or fallback (Option.bind (jget v key) as_i64)"

definition v_array :: "jvalue \<Rightarrow> string \<Rightarrow> jvalue list option" where
  "v_array v key = Option.bind (jget v key) as_array"

type_synonym node_map = "(string, jvalue) btree"

definition dependencies_of :: "jvalue \<Rightarrow> string list" where
  "dependencies_of node = unwrap_or [] (map_option str_items (v_array node ''depends_on''))"

text \<open>Indexing the map of nodes, which panics on a missing key: the keys come from the map.\<close>

definition node_at :: "node_map \<Rightarrow> string \<Rightarrow> jvalue" where
  "node_at nodes i = unwrap_or JNull (map_of nodes i)"

section \<open>Topology\<close>

text \<open>The two nested loops that count the dependencies; an unknown one ends the function.\<close>

fun count_deps :: "node_map \<Rightarrow> string \<Rightarrow> string list \<Rightarrow> (string \<times> string list) list \<times> (string \<times> int) list
    \<Rightarrow> ((string \<times> string list) list \<times> (string \<times> int) list) option" where
  "count_deps nodes i [] s = Some s"
| "count_deps nodes i (d # ds) (outgoing, indegree) =
     (if map_of nodes d = None then None
      else count_deps nodes i ds (AList.map_entry d (\<lambda>l. l @ [i]) outgoing, AList.map_entry i (\<lambda>n. n + 1) indegree))"

fun count_nodes :: "node_map \<Rightarrow> (string \<times> jvalue) list \<Rightarrow> (string \<times> string list) list \<times> (string \<times> int) list
    \<Rightarrow> ((string \<times> string list) list \<times> (string \<times> int) list) option" where
  "count_nodes nodes [] s = Some s"
| "count_nodes nodes ((i, node) # rest) s = Option.bind (count_deps nodes i (dependencies_of node) s) (count_nodes nodes rest)"

text \<open>A \<open>BTreeSet\<close> is a strictly sorted list; \<open>None\<close> is the missing entry that ends the function.\<close>

fun relax_ready :: "string list \<Rightarrow> string list \<times> (string \<times> int) list \<Rightarrow> (string list \<times> (string \<times> int) list) option" where
  "relax_ready [] (ready, rem) = Some (ready, rem)"
| "relax_ready (v # vs) (ready, rem) = (case map_of rem v of
       None \<Rightarrow> None
     | Some d \<Rightarrow> relax_ready vs (if d - 1 = 0 then insort_insert v ready else ready, AList.map_entry v (\<lambda>d. d - 1) rem))"

lemma length_insort_insert: "length (insort_insert v xs) \<le> length xs + 1"
  by (simp add: insort_insert_key_def)

lemma relax_ready_measure:
  "relax_ready vs (q, rem) = Some (q', rem') \<Longrightarrow> length q' + positive_entries rem' \<le> length q + positive_entries rem"
proof (induction vs "(q, rem)" arbitrary: q rem rule: relax_ready.induct)
  case (2 v vs q rem)
  then obtain d where d: "map_of rem v = Some d" by (auto split: option.splits)
  from 2(1) [OF d] 2(2) positive_entries_map_entry [OF d] d length_insort_insert [of v q]
  show ?case by (auto split: if_splits)
qed simp

function pop_ready :: "(string \<times> string list) list \<Rightarrow> string list \<Rightarrow> (string \<times> int) list \<Rightarrow> string list \<Rightarrow> string list option" where
  "pop_ready outgoing [] rem order = Some order"
| "pop_ready outgoing (i # ready) rem order =
     (case map_of outgoing i of
        None \<Rightarrow> None
      | Some vs \<Rightarrow> (case relax_ready (sort vs) (ready, rem) of
          None \<Rightarrow> None
        | Some (ready', rem') \<Rightarrow> pop_ready outgoing ready' rem' (order @ [i])))"
  by pat_completeness auto
termination
  by (relation "measure (\<lambda>(outgoing, ready, rem, order). length ready + positive_entries rem)") (auto dest: relax_ready_measure)

definition stable_topology :: "node_map \<Rightarrow> string list option" where
  "stable_topology nodes =
     (case count_nodes nodes nodes (map (\<lambda>p. (fst p, [])) nodes, map (\<lambda>p. (fst p, 0)) nodes) of
        None \<Rightarrow> None
      | Some (outgoing, indegree) \<Rightarrow>
          (case pop_ready outgoing (sort (map fst (filter (\<lambda>p. snd p = 0) indegree))) indegree [] of
             None \<Rightarrow> None
           | Some order \<Rightarrow> if length order = length nodes then Some order else None))"

section \<open>Conditions and mappings\<close>

text \<open>The position of the first occurrence of a substring.\<close>

definition find_sub :: "string \<Rightarrow> string \<Rightarrow> nat option" where
  "find_sub pat s = find (\<lambda>i. take (length pat) (drop i s) = pat) [0..<length s + 1]"

definition first_operator :: "string \<Rightarrow> (string \<times> nat) option" where
  "first_operator e =
     (case List.map_filter (\<lambda>op. map_option (Pair op) (find_sub op e)) [''=='', ''!='', ''>='', ''<='', ''>'', ''<''] of
        [] \<Rightarrow> None
      | p # ps \<Rightarrow> Some (foldl (\<lambda>best q. if snd q < snd best then q else best) p ps))"

definition portable_path :: "jvalue \<Rightarrow> string \<Rightarrow> jvalue option" where
  "portable_path root path = Option.bind (strip_prefix ''$.'' path) (\<lambda>p.
     foldl (\<lambda>cur seg. Option.bind cur (\<lambda>v. jget v seg)) (Some root) (split_char CHR ''.'' p))"

definition compare_numbers :: "string \<Rightarrow> f64 \<Rightarrow> f64 \<Rightarrow> bool" where
  "compare_numbers op a b =
     (if op = ''=='' then f64_eq a b else if op = ''!='' then \<not> f64_eq a b else if op = ''>'' then f64_lt b a
      else if op = ''>='' then f64_le b a else if op = ''<'' then f64_lt a b else f64_le a b)"

definition portable_condition :: "crypto \<Rightarrow> string \<Rightarrow> (string, jvalue) btree \<Rightarrow> bool option" where
  "portable_condition cr e results = Option.bind (first_operator e) (\<lambda>(op, offset).
     Option.bind (portable_path (JObject results) (trim (take offset e))) (\<lambda>left.
     (case json_read cr (trim (drop (offset + length op) e)) of
        Inl _ \<Rightarrow> None
      | Inr right \<Rightarrow> (case (as_f64 left, as_f64 right) of
          (Some a, Some b) \<Rightarrow> Some (compare_numbers op a b)
        | _ \<Rightarrow> if op = ''=='' then Some (jv_eq left right) else if op = ''!='' then Some (\<not> jv_eq left right) else None))))"

definition portable_mapping :: "frame_dict \<Rightarrow> (string, jvalue) btree \<Rightarrow> frame_dict option" where
  "portable_mapping mapping results = map_option bt_collect
     (all_opt (\<lambda>(name, path). Option.bind (as_str path) (\<lambda>p. map_option (Pair name) (portable_path (JObject results) p))) mapping)"

section \<open>Orchestration\<close>

record portable_result =
  ps_events :: "string list"
  ps_state :: string
  ps_error :: "string option"
  ps_aggregate :: jvalue
  ps_states :: "(string, string) btree"
  ps_attempts :: "(string, nat) btree"
  ps_mapped :: "(string, jvalue) btree"
  ps_compensation :: "string list"

definition str_value :: "(string, string) btree \<Rightarrow> jvalue" where
  "str_value m = JObject (map (\<lambda>(k, v). (k, JString v)) m)"

definition build_result :: "portable_result \<Rightarrow> jvalue" where
  "build_result r = JObject (bt_collect
     [(''events'', jstrs (ps_events r)), (''terminal_state'', JString (ps_state r)), (''error_code'', null_or JString (ps_error r)),
      (''aggregate'', ps_aggregate r), (''node_states'', str_value (ps_states r)),
      (''attempt_counts'', JObject (map (\<lambda>(k, n). (k, jnat (of_nat n))) (ps_attempts r))),
      (''mapped_params'', JObject (ps_mapped r)), (''compensation_order'', jstrs (ps_compensation r))])"

definition empty_failure :: "string \<Rightarrow> portable_result" where
  "empty_failure err = \<lparr>ps_events = [''task:failed''], ps_state = ''failed'', ps_error = Some err, ps_aggregate = JNull, ps_states = [],
     ps_attempts = [], ps_mapped = [], ps_compensation = []\<rparr>"

text \<open>What the loop over the nodes carries.\<close>

record portable_run =
  pn_events :: "string list"
  pn_results :: "(string, jvalue) btree"
  pn_states :: "(string, string) btree"
  pn_attempts :: "(string, nat) btree"
  pn_mapped :: "(string, jvalue) btree"

definition pn_event :: "string \<Rightarrow> portable_run \<Rightarrow> portable_run" where
  "pn_event e s = s\<lparr>pn_events := pn_events s @ [e]\<rparr>"

definition pn_mark :: "string \<Rightarrow> string \<Rightarrow> portable_run \<Rightarrow> portable_run" where
  "pn_mark i st s = s\<lparr>pn_states := bt_insert i st (pn_states s)\<rparr>"

definition run_ended :: "string \<Rightarrow> string option \<Rightarrow> string list \<Rightarrow> portable_run \<Rightarrow> portable_result" where
  "run_ended st err order s = \<lparr>ps_events = pn_events s @ [''task:'' @ st], ps_state = st, ps_error = err, ps_aggregate = JNull,
     ps_states = pn_states s, ps_attempts = pn_attempts s, ps_mapped = pn_mapped s, ps_compensation = order\<rparr>"

text \<open>A node that fails before its first attempt.\<close>

definition node_unready :: "string \<Rightarrow> string \<Rightarrow> portable_run \<Rightarrow> portable_result" where
  "node_unready i err s = run_ended ''failed'' (Some err) []
     (pn_event (i @ '':failed'') ((pn_mark i ''failed'' s)\<lparr>pn_attempts := bt_insert i 0 (pn_attempts s)\<rparr>))"

definition attempt_error :: "jvalue \<Rightarrow> string" where
  "attempt_error outcome = (if v_str outcome ''kind'' = Some ''timeout'' then DELEGATE_TIMEOUT
     else unwrap_or ''NOP-DELEGATE-REJECTED'' (v_str outcome ''error_code''))"

definition may_retry :: "jvalue \<Rightarrow> jvalue \<Rightarrow> bool" where
  "may_retry node outcome \<longleftrightarrow> (v_str outcome ''kind'' = Some ''timeout'' \<or> v_bool outcome ''retryable'' False)
     \<and> (case v_array node ''retry_on'' of None \<Rightarrow> True | Some vs \<Rightarrow> list_ex (\<lambda>v. as_str v = Some (attempt_error outcome)) vs)"

text \<open>The attempts of a node: the number made, whether the last one succeeded, the last error. \<open>n_all\<close> is the number
  of scripted outcomes, of which only the first \<open>max_retries + 1\<close> are given here.\<close>

fun run_attempts :: "jvalue \<Rightarrow> string \<Rightarrow> u64 \<Rightarrow> nat \<Rightarrow> nat \<Rightarrow> string option \<Rightarrow> jvalue list \<Rightarrow> portable_run
    \<Rightarrow> portable_run \<times> nat \<times> bool \<times> string option" where
  "run_attempts node i max_retries n_all n err [] s = (s, n, False, err)"
| "run_attempts node i max_retries n_all n err (o1 # os) s =
     (let s = pn_event (i @ '':attempt:'' @ show_nat (n + 1)) s
      in if v_str o1 ''kind'' = Some ''success''
         then (pn_event (i @ '':completed'') (pn_mark i ''completed''
                (s\<lparr>pn_results := bt_insert i (unwrap_or (JObject []) (jget o1 ''result'')) (pn_results s)\<rparr>)), n + 1, True, err)
         else if may_retry node o1 \<and> n + 1 \<le> unat max_retries \<and> n + 1 < n_all
         then run_attempts node i max_retries n_all (n + 1) (Some (attempt_error o1)) os (pn_event (i @ '':retrying'') s)
         else (pn_event (i @ '':failed'') (pn_mark i ''failed'' s), n + 1, False, Some (attempt_error o1)))"

subsection \<open>Compensation\<close>

text \<open>The search for the ancestors of the failed node.\<close>

definition all_deps :: "node_map \<Rightarrow> string set" where
  "all_deps nodes = (\<Union>p\<in>set nodes. set (dependencies_of (snd p)))"

fun add_new :: "string list \<Rightarrow> string list \<times> string list \<Rightarrow> string list \<times> string list" where
  "add_new [] s = s"
| "add_new (d # ds) (found, pending) = (if d \<in> set found then add_new ds (found, pending) else add_new ds (found @ [d], pending @ [d]))"

lemma add_new_form: "\<exists>new. add_new ds (found, pending) = (found @ new, pending @ new) \<and> distinct new
    \<and> set new = set ds - set found"
proof (induction ds arbitrary: found pending)
  case (Cons d ds)
  show ?case
  proof (cases "d \<in> set found")
    case True
    with Cons.IH [of found pending] show ?thesis by auto
  next
    case False
    from Cons.IH [of "found @ [d]" "pending @ [d]"] obtain new where
      "add_new ds (found @ [d], pending @ [d]) = ((found @ [d]) @ new, (pending @ [d]) @ new)" "distinct new"
      "set new = set ds - set (found @ [d])" by blast
    with False show ?thesis by (intro exI [of _ "d # new"]) auto
  qed
qed simp

lemma node_deps: "set (dependencies_of (node_at nodes i)) \<subseteq> all_deps nodes"
proof (cases "map_of nodes i")
  case None
  then show ?thesis by (simp add: node_at_def dependencies_of_def v_array_def jget_def)
next
  case (Some v)
  then have "(i, v) \<in> set nodes" by (rule map_of_SomeD)
  with Some show ?thesis by (force simp: node_at_def all_deps_def)
qed

function ancestors :: "node_map \<Rightarrow> string list \<Rightarrow> string list \<Rightarrow> string list" where
  "ancestors nodes found [] = found"
| "ancestors nodes found (i # pending) =
     (case add_new (dependencies_of (node_at nodes i)) (found, pending) of (found', pending') \<Rightarrow> ancestors nodes found' pending')"
  by pat_completeness auto
termination
proof (relation "measure (\<lambda>(nodes, found, pending). card (all_deps nodes - set found) + length pending)")
  fix nodes found i pending found' pending'
  assume p: "(found', pending') = add_new (dependencies_of (node_at nodes i)) (found, pending)"
  obtain new where new: "found' = found @ new" "pending' = pending @ new" "distinct new"
      "set new = set (dependencies_of (node_at nodes i)) - set found"
    using add_new_form [of "dependencies_of (node_at nodes i)" found pending] p by auto
  have fin: "finite (all_deps nodes)" by (simp add: all_deps_def)
  have "set new \<subseteq> all_deps nodes - set found" using new(4) node_deps [of nodes i] by blast
  then have "card (all_deps nodes - set found - set new) + length new = card (all_deps nodes - set found)"
    using fin new(3) by (metis card_Diff_subset card_mono distinct_card finite_Diff finite_subset le_add_diff_inverse2)
  then show "((nodes, found', pending'), (nodes, found, i # pending)) \<in> measure (\<lambda>(nodes, found, pending). card (all_deps nodes - set found) + length pending)"
    using new by (simp add: Diff_eq Int_assoc [symmetric] set_diff_eq)
qed simp

text \<open>The actions in turn: the identifiers that were tried, and whether a strict policy ended the loop.\<close>

fun compensate_each :: "bool \<Rightarrow> node_map \<Rightarrow> string list \<Rightarrow> portable_run \<Rightarrow> (string list \<times> string option) \<times> portable_run" where
  "compensate_each strict nodes [] s = (([], None), s)"
| "compensate_each strict nodes (i # is) s =
     (if jget (node_at nodes i) ''compensate_action'' = None then compensate_each strict nodes is s
      else
        let s = pn_event (i @ '':compensating'') s
        in if v_str (node_at nodes i) ''compensation_outcome'' = Some ''failure''
           then let s = pn_event (i @ '':compensation_failed'') (pn_mark i ''compensation_failed'' s)
                in if strict then (([i], Some COMPENSATION_FAILED), s)
                   else (case compensate_each strict nodes is s of ((order, err), s) \<Rightarrow> ((i # order, err), s))
           else (case compensate_each strict nodes is (pn_event (i @ '':compensated'') (pn_mark i ''compensated'' s)) of
                   ((order, err), s) \<Rightarrow> ((i # order, err), s)))"

definition portable_candidates :: "node_map \<Rightarrow> string list \<Rightarrow> string \<Rightarrow> portable_run \<Rightarrow> string list" where
  "portable_candidates nodes topo failed s =
     filter (\<lambda>i. i \<in> set (ancestors nodes [] [failed]) \<and> map_of (pn_states s) i = Some ''completed'') (rev topo)"

definition portable_compensate ::
    "jvalue \<Rightarrow> string \<Rightarrow> string list \<Rightarrow> node_map \<Rightarrow> portable_run \<Rightarrow> (string list \<times> string option) \<times> portable_run" where
  "portable_compensate task failed topo nodes s =
     (let policy = v_str task ''compensation_policy''; cs = portable_candidates nodes topo failed s
      in if policy \<notin> {Some ''best_effort'', Some ''strict''} then (([], None), s)
         else if policy = Some ''strict'' \<and> list_ex (\<lambda>i. jget (node_at nodes i) ''compensate_action'' = None) cs
         then (([], Some COMPENSATION_NOT_SUPPORTED), s)
         else compensate_each (policy = Some ''strict'') nodes cs s)"

subsection \<open>Aggregation\<close>

definition merge_field :: "bool \<Rightarrow> string \<times> jvalue \<Rightarrow> frame_dict \<Rightarrow> frame_dict" where
  "merge_field all_arrays p out =
     (case (if all_arrays then (case (Option.bind (map_of out (fst p)) as_array, as_array (snd p)) of
              (Some a, Some b) \<Rightarrow> Some (a @ b) | _ \<Rightarrow> None) else None) of
        Some xs \<Rightarrow> bt_insert (fst p) (JArray xs) out
      | None \<Rightarrow> bt_insert (fst p) (snd p) out)"

definition portable_sinks :: "node_map \<Rightarrow> string list \<Rightarrow> portable_run \<Rightarrow> string list" where
  "portable_sinks nodes topo s =
     filter (\<lambda>i. i \<notin> all_deps nodes \<and> map_of (pn_states s) i = Some ''completed'' \<and> map_of (pn_results s) i \<noteq> None) topo"

definition portable_aggregate :: "jvalue \<Rightarrow> string list \<Rightarrow> node_map \<Rightarrow> portable_run \<Rightarrow> jvalue" where
  "portable_aggregate task topo nodes s =
     (let vs = map (\<lambda>i. unwrap_or JNull (map_of (pn_results s) i)) (portable_sinks nodes topo s)
      in if vs = [] then JNull
         else if v_str task ''aggregate'' = Some ''all'' then JArray vs
         else JObject (fold (\<lambda>v out. case as_object v of None \<Rightarrow> out
            | Some obj \<Rightarrow> fold (merge_field (v_str task ''aggregate'' = Some ''merge_all'')) obj out) vs []))"

subsection \<open>The loop over the nodes\<close>

text \<open>What a node does before its attempts: it is skipped, it ends the task, or it goes on.\<close>

definition node_condition :: "crypto \<Rightarrow> jvalue \<Rightarrow> portable_run \<Rightarrow> bool option" where
  "node_condition cr node s = (case v_str node ''condition'' of None \<Rightarrow> Some True | Some c \<Rightarrow> portable_condition cr c (pn_results s))"

definition node_mapping :: "jvalue \<Rightarrow> string \<Rightarrow> portable_run \<Rightarrow> portable_run option" where
  "node_mapping node i s = (case Option.bind (jget node ''input_mapping'') as_object of
       None \<Rightarrow> Some s
     | Some mapping \<Rightarrow> map_option (\<lambda>m. s\<lparr>pn_mapped := bt_insert i (JObject m) (pn_mapped s)\<rparr>) (portable_mapping mapping (pn_results s)))"

definition node_attempts :: "jvalue \<Rightarrow> jvalue \<Rightarrow> string \<Rightarrow> portable_run \<Rightarrow> portable_run \<times> bool \<times> string option" where
  "node_attempts task node i s =
     (let max_retries = v_usize node ''max_retries'' (v_usize task ''max_retries'' 0);
          scripted = unwrap_or [] (v_array node ''attempts'')
      in case run_attempts node i max_retries (length scripted) 0 None (take (unat (max_retries + 1)) scripted) s of
           (s, n, done, err) \<Rightarrow> (s\<lparr>pn_attempts := bt_insert i n (pn_attempts s)\<rparr>, done, err))"

fun run_nodes :: "crypto \<Rightarrow> jvalue \<Rightarrow> node_map \<Rightarrow> string list \<Rightarrow> string list \<Rightarrow> portable_run \<Rightarrow> portable_result + portable_run" where
  "run_nodes cr task nodes topo [] s = Ok s"
| "run_nodes cr task nodes topo (i # is) s =
     (let node = node_at nodes i
      in if v_str task ''cancel_before'' = Some i then Err (run_ended ''cancelled'' (Some TASK_CANCELLED) [] s)
         else case node_condition cr node s of
           None \<Rightarrow> Err (node_unready i CONDITION_EVAL_ERROR s)
         | Some False \<Rightarrow> run_nodes cr task nodes topo is
             (pn_event (i @ '':skipped'') ((pn_mark i ''skipped'' s)\<lparr>pn_attempts := bt_insert i 0 (pn_attempts s)\<rparr>))
         | Some True \<Rightarrow> (case node_mapping node i s of
             None \<Rightarrow> Err (node_unready i INPUT_MAPPING_ERROR s)
           | Some s \<Rightarrow> (case node_attempts task node i s of
               (s, True, _) \<Rightarrow> run_nodes cr task nodes topo is s
             | (s, False, err) \<Rightarrow> (case portable_compensate task i topo nodes s of
                 ((order, cerr), s) \<Rightarrow> Err (run_ended ''failed''
                   (Some (unwrap_or (unwrap_or ''NOP-DELEGATE-REJECTED'' err) cerr)) order s)))))"

fun read_nodes :: "jvalue list \<Rightarrow> node_map \<Rightarrow> node_map option" where
  "read_nodes [] m = Some m"
| "read_nodes (v # vs) m = Option.bind (v_str v ''id'') (\<lambda>i. if map_of m i \<noteq> None then None else read_nodes vs (bt_insert i v m))"

definition run_portable :: "crypto \<Rightarrow> jvalue \<Rightarrow> node_map \<Rightarrow> string list \<Rightarrow> portable_result" where
  "run_portable cr task nodes topo =
     (let preflight = v_bool task ''preflight'' False; s0 = \<lparr>pn_events = (if preflight then [''task:preflight''] else []), pn_results = [],
            pn_states = [], pn_attempts = [], pn_mapped = []\<rparr>
      in if preflight \<and> list_ex (\<lambda>i. \<not> v_bool (node_at nodes i) ''preflight_available'' True) topo
         then run_ended ''failed'' (Some RESOURCE_INSUFFICIENT) [] s0
         else case run_nodes cr task nodes topo topo (pn_event ''task:running'' s0) of
           Inl r \<Rightarrow> r
         | Inr s \<Rightarrow> (run_ended ''completed'' None [] s)\<lparr>ps_aggregate := portable_aggregate task topo nodes s\<rparr>)"

definition orchestration_result :: "crypto \<Rightarrow> jvalue \<Rightarrow> portable_result" where
  "orchestration_result cr task =
     (case v_array task ''nodes'' of
        None \<Rightarrow> empty_failure TASK_DAG_INVALID
      | Some raw \<Rightarrow> (case read_nodes raw [] of
          None \<Rightarrow> empty_failure TASK_DAG_INVALID
        | Some nodes \<Rightarrow> (case stable_topology nodes of
            None \<Rightarrow> empty_failure TASK_DAG_CYCLE
          | Some topo \<Rightarrow> run_portable cr task nodes topo)))"

definition evaluate_orchestration :: "crypto \<Rightarrow> jvalue \<Rightarrow> jvalue" where
  "evaluate_orchestration cr task = build_result (orchestration_result cr task)"

section \<open>Callbacks and signatures\<close>

record url_parts =
  up_scheme :: string
  up_username :: string
  up_password :: "string option"
  up_host :: "string option"

definition is_public_ip :: "ip_addr \<Rightarrow> bool" where
  "is_public_ip ip = (case ip of
       V4 b \<Rightarrow> \<not> (b ! 0 = 10 \<or> b ! 0 = 172 \<and> 16 \<le> b ! 1 \<and> b ! 1 \<le> 31 \<or> b ! 0 = 192 \<and> b ! 1 = 168)
          \<and> b ! 0 \<noteq> 127 \<and> \<not> (b ! 0 = 169 \<and> b ! 1 = 254) \<and> \<not> (224 \<le> b ! 0 \<and> b ! 0 \<le> 239)
          \<and> b \<noteq> [0, 0, 0, 0] \<and> b \<noteq> [255, 255, 255, 255]
     | V6 g \<Rightarrow> \<not> is_loopback6 g \<and> (g ! 0) AND 0xffc0 \<noteq> 0xfe80 \<and> (g ! 0) AND 0xfe00 \<noteq> 0xfc00 \<and> (g ! 0) AND 0xff00 \<noteq> 0xff00
          \<and> g \<noteq> [0, 0, 0, 0, 0, 0, 0, 0])"

definition callback_allowed :: "(string \<Rightarrow> url_parts option) \<Rightarrow> string \<Rightarrow> jvalue list option \<Rightarrow> bool" where
  "callback_allowed parse_url url addresses =
     (case parse_url url of
        None \<Rightarrow> False
      | Some u \<Rightarrow>
          if up_scheme u \<noteq> ''https'' \<or> up_username u \<noteq> [] \<or> up_password u \<noteq> None \<or> up_host u = None then False
          else (case addresses of
            None \<Rightarrow> False
          | Some vs \<Rightarrow> vs \<noteq> [] \<and> list_all (\<lambda>v. case Option.bind (as_str v) parse_ip of Some ip \<Rightarrow> is_public_ip ip | None \<Rightarrow> False) vs))"

definition evaluate_callback :: "(string \<Rightarrow> url_parts option) \<Rightarrow> jvalue \<Rightarrow> jvalue" where
  "evaluate_callback parse_url input =
     (let allowed = callback_allowed parse_url (unwrap_or [] (v_str input ''url'')) (v_array input ''resolved_ips'')
            \<and> (case v_str input ''redirect_url'' of None \<Rightarrow> True
               | Some r \<Rightarrow> callback_allowed parse_url r (v_array input ''redirect_resolved_ips''))
      in JObject (bt_collect [(''allowed'', JBool allowed), (''error'', if allowed then JNull else JString ''NOP-CALLBACK-INVALID'')]))"

text \<open>The comparison of two texts in constant time.\<close>

definition same_bytes :: "bytes \<Rightarrow> bytes \<Rightarrow> bool" where
  "same_bytes a b \<longleftrightarrow> length a = length b \<and> foldl (\<lambda>acc p. acc OR (fst p XOR snd p)) 0 (zip a b) = 0"

definition hmac_valid :: "crypto \<Rightarrow> callback_env \<Rightarrow> jvalue \<Rightarrow> string \<Rightarrow> bool" where
  "hmac_valid cr env input signature =
     (case b64url_decode cr (unwrap_or [] (v_str input ''secret_base64url'')) of
        None \<Rightarrow> False
      | Some key \<Rightarrow> length key = 32
          \<and> same_bytes (utf8 (''sha256='' @ hex_enc cr (cb_hmac_sha256 env key (unwrap_or [] (v_str input ''raw_body''))))) (utf8 signature))"

definition evaluate_hmac :: "crypto \<Rightarrow> callback_env \<Rightarrow> jvalue \<Rightarrow> jvalue" where
  "evaluate_hmac cr env input = (case v_str input ''signature'' of
       None \<Rightarrow> JObject (bt_collect [(''valid'', JBool False), (''error'', JString ''NOP-CALLBACK-HMAC-MISSING'')])
     | Some sig \<Rightarrow> JObject (bt_collect [(''valid'', JBool (hmac_valid cr env input sig)),
         (''error'', if hmac_valid cr env input sig then JNull else JString ''NOP-CALLBACK-HMAC-INVALID'')]))"

section \<open>Leases\<close>

record lease =
  le_runner :: string
  le_expires :: int

record lease_state =
  ls_leases :: "(string \<times> lease) list"
  ls_terminal :: "string list"

text \<open>The sum is an \<open>i64\<close> that wraps around, as in a release build.\<close>

definition lease_until :: "int \<Rightarrow> jvalue \<Rightarrow> int" where
  "lease_until at event = sint (word_of_int (at + min 600 (max 10 (v_int event ''lease_seconds'' 10))) :: 64 word)"

definition lease_put :: "string \<Rightarrow> string \<Rightarrow> int \<Rightarrow> lease_state \<Rightarrow> lease_state" where
  "lease_put task runner expiry s = s\<lparr>ls_leases := AList.update task \<lparr>le_runner = runner, le_expires = expiry\<rparr> (ls_leases s)\<rparr>"

definition terminal_key :: "jvalue \<Rightarrow> string" where
  "terminal_key event = unwrap_or [] (v_str event ''dedup_key'') @ CHR 0x00 # unwrap_or [] (v_str event ''node_id'')"

definition lease_event :: "jvalue \<Rightarrow> lease_state \<Rightarrow> string option \<times> lease_state" where
  "lease_event event s =
     (let at = unwrap_or 0 (Option.bind (jget event ''at'') as_i64); op = unwrap_or [] (v_str event ''op'');
          task = unwrap_or [] (v_str event ''task_id''); runner = unwrap_or [] (v_str event ''runner_nid'');
          renewed = lease_put task runner (lease_until at event) s
      in if op = ''claim'' then (case map_of (ls_leases s) task of
             None \<Rightarrow> (Some ''granted'', renewed)
           | Some l \<Rightarrow> if le_expires l \<le> at then (Some ''reclaimed'', renewed)
                     else if le_runner l = runner then (Some ''granted'', renewed) else (Some ''conflict'', s))
         else if op = ''renew'' then (case map_of (ls_leases s) task of
             None \<Rightarrow> (Some ''conflict'', s)
           | Some l \<Rightarrow> if at < le_expires l \<and> le_runner l = runner then (Some ''granted'', renewed) else (Some ''conflict'', s))
         else if op = ''mark_terminal'' then (Some ''recorded'', s\<lparr>ls_terminal := List.insert (terminal_key event) (ls_terminal s)\<rparr>)
         else if op = ''is_terminal'' then (Some (if terminal_key event \<in> set (ls_terminal s) then ''terminal'' else ''pending''), s)
         else (None, s))"

fun lease_run :: "jvalue list \<Rightarrow> lease_state \<Rightarrow> string list \<times> lease_state" where
  "lease_run [] s = ([], s)"
| "lease_run (e # es) s = (case lease_event e s of (o1, s') \<Rightarrow> (case lease_run es s' of (os, s'') \<Rightarrow>
     ((case o1 of Some x \<Rightarrow> [x] | None \<Rightarrow> []) @ os, s'')))"

definition evaluate_lease :: "jvalue \<Rightarrow> jvalue" where
  "evaluate_lease input = JObject [(''outcomes'', jstrs (fst (lease_run (unwrap_or [] (v_array input ''events''))
     \<lparr>ls_leases = [], ls_terminal = []\<rparr>)))]"

section \<open>Delegation, runtimes\<close>

definition string_set :: "jvalue \<Rightarrow> string \<Rightarrow> string list" where
  "string_set v key = unwrap_or [] (map_option str_items (v_array v key))"

definition scope_subset :: "jvalue \<Rightarrow> jvalue \<Rightarrow> bool" where
  "scope_subset parent delegated \<longleftrightarrow>
     set (string_set delegated ''nodes'') \<subseteq> set (string_set parent ''nodes'')
     \<and> set (string_set delegated ''actions'') \<subseteq> set (string_set parent ''actions'')
     \<and> v_usize delegated ''max_token_budget'' (- 1) \<le> v_usize parent ''max_token_budget'' 0"

definition epoch_of :: "jvalue \<Rightarrow> u64 option" where
  "epoch_of candidate = Option.bind (jget candidate ''cluster_epoch'') as_u64"

definition pick_leader :: "jvalue \<Rightarrow> string + string" where
  "pick_leader attempt =
     (let live = filter (\<lambda>c. v_bool c ''live'' False) (unwrap_or [] (v_array attempt ''candidates''));
          epochs = List.map_filter epoch_of live
      in if epochs = [] then Err ''NOP-DELEGATE-REJECTED''
         else (case filter (\<lambda>c. epoch_of c = Some (foldl max (hd epochs) epochs)) live of
                 [leader] \<Rightarrow> Ok (unwrap_or [] (v_str leader ''nid''))
               | _ \<Rightarrow> Err ''NDP-CLUSTER-SPLIT''))"

fun delegate_attempts :: "jvalue list \<Rightarrow> string list \<times> string option" where
  "delegate_attempts [] = ([], None)"
| "delegate_attempts (a # as) = (case pick_leader a of
     Inl err \<Rightarrow> ([], Some err)
   | Inr nid \<Rightarrow> (case delegate_attempts as of (ts, err) \<Rightarrow> (nid # ts, err)))"

definition evaluate_delegation :: "jvalue \<Rightarrow> jvalue" where
  "evaluate_delegation input =
     (let (targets, err) = (if scope_subset (unwrap_or JNull (jget input ''parent_scope'')) (unwrap_or JNull (jget input ''delegated_scope''))
            then delegate_attempts (unwrap_or [] (v_array input ''attempts'')) else ([], Some ''NOP-DELEGATE-SCOPE-VIOLATION''))
      in JObject (bt_collect [(''targets'', jstrs targets), (''error'', null_or JString err)]))"

definition error_only :: "bool \<Rightarrow> string \<Rightarrow> jvalue" where
  "error_only valid err = JObject [(''error'', if valid then JNull else JString err)]"

definition evaluate_spawn_spec :: "jvalue \<Rightarrow> jvalue" where
  "evaluate_spawn_spec input =
     (let spec = unwrap_or JNull (jget input ''spawn_spec'');
          image = (case v_str spec ''image'' of Some v \<Rightarrow> trim v \<noteq> [] | None \<Rightarrow> False);
          times = (case (Option.bind (jget spec ''idle_timeout_seconds'') as_u64, Option.bind (jget spec ''max_runtime_seconds'') as_u64) of
                     (Some idle, Some maximum) \<Rightarrow> idle \<le> maximum | _ \<Rightarrow> True)
      in error_only (image \<and> times) ''NOP-SPAWN-SPEC-INVALID'')"

definition lifecycle_of :: "jvalue \<Rightarrow> string \<times> string option" where
  "lifecycle_of input =
     (if v_int input ''max_runtime_seconds'' 0 \<le> v_int input ''elapsed_seconds'' 0 then (''failed'', Some ''NOP-RUNTIME-MAX-RUNTIME'')
      else if v_int input ''idle_timeout_seconds'' 0 \<le> v_int input ''idle_seconds'' 0 then (''failed'', Some ''NOP-RUNTIME-IDLE-TIMEOUT'')
      else if v_str input ''worker_terminal'' = Some ''done'' then (''completed'', None)
      else (''failed'', Some ''NOP-DELEGATE-REJECTED''))"

definition evaluate_lifecycle :: "jvalue \<Rightarrow> jvalue" where
  "evaluate_lifecycle input = (case lifecycle_of input of (st, err) \<Rightarrow>
     JObject (bt_collect [(''state'', JString st), (''error'', null_or JString err)]))"

definition compute_dedup_key :: "crypto \<Rightarrow> string \<Rightarrow> string \<Rightarrow> string" where
  "compute_dedup_key cr task_id dag_hash = sha256_hex cr (task_id @ CHR 0x00 # dag_hash)"

text \<open>\<open>None\<close> is the panic on an unknown category.\<close>

definition evaluate_runtime :: "crypto \<Rightarrow> callback_env \<Rightarrow> (string \<Rightarrow> url_parts option) \<Rightarrow> string \<Rightarrow> jvalue \<Rightarrow> jvalue option" where
  "evaluate_runtime cr env parse_url category input =
     (if category = ''callback'' then Some (evaluate_callback parse_url input)
      else if category = ''hmac'' then Some (evaluate_hmac cr env input)
      else if category = ''lease'' then Some (evaluate_lease input)
      else if category = ''delegation'' then Some (evaluate_delegation input)
      else if category = ''spawn_spec'' then Some (evaluate_spawn_spec input)
      else if category = ''lifecycle'' then Some (evaluate_lifecycle input)
      else if category = ''dedup_key'' then Some (JObject [(''value'', JString (compute_dedup_key cr (unwrap_or [] (v_str input ''task_id''))
             (unwrap_or [] (v_str input ''dag_hash''))))])
      else None)"

end
