(* ===== verification/Nop_Profile_Props.thy ===== *)
theory Nop_Profile_Props
  imports Nop_Profile "HOL-Library.Sublist" "HOL-Library.Multiset"
begin

text \<open>
  Properties of the portable profile: the order of the nodes, compensation, leases, signatures.
\<close>

section \<open>The order of the nodes\<close>

definition profile_edges :: "node_map \<Rightarrow> edges" where
  "profile_edges nodes = concat (map (\<lambda>p. map (\<lambda>d. (d, fst p)) (dependencies_of (snd p))) nodes)"

abbreviation edge_of :: "string \<times> string \<Rightarrow> dag_edge" where
  "edge_of e \<equiv> \<lparr>de_from = fst e, de_to = snd e\<rparr>"

definition drop_error :: "'e + 'a \<Rightarrow> 'a option" where
  "drop_error r = (case r of Inl _ \<Rightarrow> None | Inr x \<Rightarrow> Some x)"

lemma drop_error_none: "\<not> is_ok r \<Longrightarrow> drop_error r = None"
  by (cases r) (auto simp: drop_error_def)

lemma add_edges_append: "drop_error (add_edges ids (es @ fs) s) = Option.bind (drop_error (add_edges ids es s)) (\<lambda>s. drop_error (add_edges ids fs s))"
  by (induction ids es s rule: add_edges.induct) (auto simp: drop_error_def)

lemma count_deps_edges:
  assumes "i \<in> fst ` set nodes"
  shows "count_deps nodes i ds s = drop_error (add_edges (map fst nodes) (map (\<lambda>d. edge_of (d, i)) ds) s)"
proof (induction ds arbitrary: s)
  case Nil
  then show ?case by (cases s) (simp add: drop_error_def)
next
  case (Cons d ds)
  have "map_of nodes d = None \<longleftrightarrow> d \<notin> fst ` set nodes" by (simp add: map_of_eq_None_iff)
  with Cons.IH assms show ?case by (cases s) (auto simp: drop_error_def)
qed

lemma count_nodes_edges:
  assumes "set rest \<subseteq> set nodes"
  shows "count_nodes nodes rest s = drop_error (add_edges (map fst nodes) (map edge_of (profile_edges rest)) s)"
  using assms
proof (induction rest arbitrary: s)
  case Nil
  then show ?case by (cases s) (simp add: drop_error_def profile_edges_def)
next
  case (Cons p rest)
  obtain i node where p: "p = (i, node)" by (cases p)
  with Cons.prems have i: "i \<in> fst ` set nodes" by force
  have "profile_edges (p # rest) = map (\<lambda>d. (d, i)) (dependencies_of node) @ profile_edges rest" by (simp add: profile_edges_def p)
  with Cons count_deps_edges [OF i] show ?case
    by (cases "drop_error (add_edges (map fst nodes) (map (\<lambda>d. edge_of (d, i)) (dependencies_of node)) s)")
       (simp_all add: p add_edges_append o_def)
qed

lemma edges_targets_sorted: "bt_wf nodes \<Longrightarrow> sorted (map snd (profile_edges nodes))"
proof (induction nodes)
  case (Cons p nodes)
  have "sorted (map snd (profile_edges nodes))" using Cons by simp
  moreover have "fst p \<le> x" if "x \<in> set (map snd (profile_edges nodes))" for x
    using Cons.prems that by (force simp: profile_edges_def)
  moreover have "map snd (profile_edges (p # nodes)) = replicate (length (dependencies_of (snd p))) (fst p) @ map snd (profile_edges nodes)"
    by (simp add: profile_edges_def o_def map_replicate_const)
  ultimately show ?case by (auto simp: sorted_append)
qed (simp add: profile_edges_def)

lemma succs_sorted: "bt_wf nodes \<Longrightarrow> sort (succs (profile_edges nodes) u) = succs (profile_edges nodes) u"
  unfolding succs_def by (intro sorted_sort_id sorted_filter edges_targets_sorted)

lemma relax_ready_relax:
  "relax vs (q, rem) = Some (q', rem') \<Longrightarrow> \<exists>p. q' = q @ p \<and> relax_ready vs (rd, rem) = Some (fold insort_insert p rd, rem')"
proof (induction vs arbitrary: q rem rd)
  case (Cons v vs)
  then obtain d where d: "map_of rem v = Some d" by (auto split: option.splits)
  let ?rem = "AList.map_entry v (\<lambda>d. d - 1) rem"
  show ?case
  proof (cases "d - 1 = 0")
    case True
    with Cons.prems d have "relax vs (q @ [v], ?rem) = Some (q', rem')" by (simp add: Let_def)
    from Cons.IH [OF this, of "insort_insert v rd"] obtain p where
      "q' = (q @ [v]) @ p" "relax_ready vs (insort_insert v rd, ?rem) = Some (fold insort_insert p (insort_insert v rd), rem')" by blast
    with d True show ?thesis by (intro exI [of _ "v # p"]) simp
  next
    case False
    with Cons.prems d have "relax vs (q, ?rem) = Some (q', rem')" by (simp add: Let_def)
    from Cons.IH [OF this, of rd] d False show ?thesis by auto
  qed
qed simp

lemma fold_insort_set: "set (fold insort_insert p rd) = set p \<union> set rd"
  by (induction p arbitrary: rd) (auto simp: set_insort_insert)

lemma fold_insort_sorted: "sorted rd \<Longrightarrow> sorted (fold insort_insert p rd)"
  by (induction p arbitrary: rd) (auto simp: sorted_insort_insert)

lemma fold_insort_distinct: "distinct rd \<Longrightarrow> distinct (fold insort_insert p rd)"
  by (induction p arbitrary: rd) (auto simp: distinct_insort_insert)

lemma kahn_inv_ready: "kahn_inv ids es adj q rem s \<Longrightarrow> set q = set rd \<Longrightarrow> distinct rd \<Longrightarrow> kahn_inv ids es adj rd rem s"
  by (auto simp: kahn_inv_def)

lemma kahn_inv_start:
  assumes "fst ` set es \<subseteq> set ids" "snd ` set es \<subseteq> set ids" "distinct rd" "set rd = {v \<in> set ids. open_in es {} v = 0}"
    "\<And>u. u \<in> set ids \<Longrightarrow> map_of adj u = Some (succs es u)" "\<And>v. v \<in> set ids \<Longrightarrow> map_of deg v = Some (int (open_in es {} v))"
  shows "kahn_inv ids es adj rd deg []"
  using assms by (auto simp: kahn_inv_def topological_def)

text \<open>At every place of the order stands the least of the nodes that could stand there.\<close>

definition least_first :: "edges \<Rightarrow> string set \<Rightarrow> string list \<Rightarrow> bool" where
  "least_first es ids xs \<longleftrightarrow>
     (\<forall>i<length xs. \<forall>v\<in>ids - set (take i xs). (\<forall>u. (u, v) \<in> set es \<longrightarrow> u \<in> set (take i xs)) \<longrightarrow> xs ! i \<le> v)"

lemma least_first_snoc:
  assumes "least_first es ids xs" "\<And>v. v \<in> ids - set xs \<Longrightarrow> (\<forall>u. (u, v) \<in> set es \<longrightarrow> u \<in> set xs) \<Longrightarrow> c \<le> v"
  shows "least_first es ids (xs @ [c])"
  using assms by (auto simp: least_first_def nth_append less_Suc_eq)

lemma pop_ready_run:
  assumes "kahn_inv ids es adj ready rem s" "sorted ready" "least_first es (set ids) s" "\<And>u. sort (succs es u) = succs es u"
  shows "\<exists>order rem'. pop_ready adj ready rem s = Some order \<and> kahn_inv ids es adj [] rem' order \<and> least_first es (set ids) order"
  using assms(1-3)
proof (induction adj ready rem s rule: pop_ready.induct)
  case (2 adj i ready rem s)
  note inv = "2.prems"(1) [unfolded kahn_inv_def]
  have adj: "map_of adj i = Some (succs es i)" using inv by simp
  from kahn_step [OF "2.prems"(1)] adj obtain q' rem' where q: "relax (succs es i) (ready, rem) = Some (q', rem')"
    "kahn_inv ids es adj q' rem' (s @ [i])" by auto
  obtain p where p: "q' = ready @ p" "relax_ready (succs es i) (ready, rem) = Some (fold insort_insert p ready, rem')"
    using relax_ready_relax [OF q(1)] by blast
  have "distinct ready" using inv by auto
  with q(2) p(1) have inv': "kahn_inv ids es adj (fold insort_insert p ready) rem' (s @ [i])"
    by (intro kahn_inv_ready [OF q(2)]) (auto simp: fold_insort_set fold_insort_distinct)
  have "least_first es (set ids) (s @ [i])"
  proof (rule least_first_snoc [OF "2.prems"(3)])
    fix v assume v: "v \<in> set ids - set s" "\<forall>u. (u, v) \<in> set es \<longrightarrow> u \<in> set s"
    then have "v \<in> set (s @ i # ready)" using inv by (auto simp: open_in_zero)
    with v(1) "2.prems"(2) show "i \<le> v" by auto
  qed
  moreover have "sorted (fold insort_insert p ready)" using "2.prems"(2) by (intro fold_insort_sorted) simp
  ultimately show ?case
    using "2.IH" [OF adj, unfolded assms(4), OF p(2) refl inv'] adj p(2) assms(4) by simp
qed auto

lemma least_first_unique:
  assumes "distinct xs" "distinct ys" "set xs = set ys" "topological es xs" "topological es ys"
    "least_first es (set xs) xs" "least_first es (set ys) ys"
  shows "xs = ys"
proof -
  have len: "length xs = length ys" using assms(1-3) distinct_card by metis
  have "i \<le> length xs \<Longrightarrow> take i xs = take i ys" for i
  proof (induction i)
    case (Suc i)
    then have i: "i < length xs" "i < length ys" and t: "take i xs = take i ys" using len by auto
    have fresh: "xs ! i \<in> set xs - set (take i xs)" "ys ! i \<in> set ys - set (take i ys)"
      using assms(1,2) i by (auto simp: in_set_conv_nth nth_eq_iff_index_eq)
    have "xs ! i \<le> ys ! i"
      using assms(5,6) i fresh(2) t assms(3) unfolding least_first_def topological_def by metis
    moreover have "ys ! i \<le> xs ! i"
      using assms(4,7) i fresh(1) t assms(3) unfolding least_first_def topological_def by metis
    ultimately show ?case using i t by (simp add: take_Suc_conv_app_nth)
  qed simp
  from this [of "length xs"] len show ?thesis by simp
qed

lemma map_of_const: "map_of (map (\<lambda>p. (fst p, c)) xs) u = (if u \<in> fst ` set xs then Some c else None)"
  by (induction xs) auto

lemma stable_topology_run:
  assumes wf: "bt_wf nodes" and known: "\<forall>(d, i)\<in>set (profile_edges nodes). d \<in> fst ` set nodes"
  shows "\<exists>order rem adj. kahn_inv (map fst nodes) (profile_edges nodes) adj [] rem order
    \<and> least_first (profile_edges nodes) (fst ` set nodes) order
    \<and> stable_topology nodes = (if length order = length nodes then Some order else None)"
proof -
  let ?es = "profile_edges nodes" and ?ids = "map fst nodes"
  let ?s = "(map (\<lambda>p. (fst p, [])) nodes, map (\<lambda>p. (fst p, 0)) nodes) :: (string \<times> string list) list \<times> (string \<times> int) list"
  have tgt: "snd ` set ?es \<subseteq> set ?ids" by (force simp: profile_edges_def)
  have src: "fst ` set ?es \<subseteq> set ?ids" using known by auto
  have dist: "distinct ?ids" using wf strict_sorted_iff by blast
  have ok: "\<forall>e\<in>set (map edge_of ?es). de_from e \<in> set ?ids \<and> de_to e \<in> set ?ids" using src tgt by auto
  have pairs: "map (\<lambda>e. (de_from e, de_to e)) (map edge_of ?es) = ?es" by (simp add: o_def)
  obtain adj deg where a: "add_edges ?ids (map edge_of ?es) ?s = Inr (adj, deg)"
    "\<And>u. map_of adj u = map_option (\<lambda>l. l @ succs ?es u) (map_of (map (\<lambda>p. (fst p, [])) nodes) u)"
    "\<And>v. map_of deg v = map_option (\<lambda>d. d + int (open_in ?es {} v)) (map_of (map (\<lambda>p. (fst p, 0)) nodes) v)"
    "distinct (map fst deg)"
    using add_edges_spec [OF ok, of "fst ?s" "snd ?s", unfolded pairs] dist by (auto simp: o_def)
  have deg: "map_of deg v = (if v \<in> set ?ids then Some (int (open_in ?es {} v)) else None)" for v
    using a(3) by (simp add: map_of_const)
  let ?ready = "sort (map fst (filter (\<lambda>p. snd p = 0) deg))"
  have ready: "v \<in> set ?ready \<longleftrightarrow> v \<in> set ?ids \<and> open_in ?es {} v = 0" for v
  proof -
    have "v \<in> set ?ready \<longleftrightarrow> map_of deg v = Some 0" using a(4) by (force simp: image_iff dest: map_of_SomeD)
    then show ?thesis by (simp add: deg)
  qed
  have "distinct ?ready" using a(4) by (simp add: distinct_map_filter)
  moreover have "set ?ready = {v \<in> set ?ids. open_in ?es {} v = 0}" using ready by blast
  ultimately have "kahn_inv ?ids ?es adj ?ready deg []"
    by (intro kahn_inv_start src tgt) (simp_all add: a(2) map_of_const deg)
  from pop_ready_run [OF this] succs_sorted [OF wf] obtain order rem' where
    "pop_ready adj ?ready deg [] = Some order" "kahn_inv ?ids ?es adj [] rem' order" "least_first ?es (set ?ids) order"
    by (auto simp: least_first_def)
  then show ?thesis
    using count_nodes_edges [of nodes nodes ?s] a(1) by (intro exI [of _ order] exI [of _ rem'] exI [of _ adj])
      (simp add: stable_topology_def drop_error_def)
qed

text \<open>Property C18 (equivalence). The topology of a task is the one order that contains each node once, after all its dependencies, and has
  at every place the least identifier that may stand there; where a dependency is unknown or the
  dependencies have a cycle, there is none.\<close>

theorem stable_topology_iff:
  assumes "bt_wf nodes"
  shows "stable_topology nodes = Some order \<longleftrightarrow>
     (\<forall>(d, i)\<in>set (profile_edges nodes). d \<in> fst ` set nodes) \<and> distinct order \<and> set order = fst ` set nodes
     \<and> topological (profile_edges nodes) order \<and> least_first (profile_edges nodes) (fst ` set nodes) order"
proof (cases "\<forall>(d, i)\<in>set (profile_edges nodes). d \<in> fst ` set nodes")
  case False
  then have "\<not> is_ok (add_edges (map fst nodes) (map edge_of (profile_edges nodes)) s)" for s
    by (force simp: add_edges_ok)
  then have "count_nodes nodes nodes s = None" for s
    unfolding count_nodes_edges [OF subset_refl] by (rule drop_error_none)
  with False show ?thesis by (auto simp: stable_topology_def)
next
  case True
  let ?es = "profile_edges nodes" and ?ids = "map fst nodes"
  have dist: "distinct ?ids" using assms strict_sorted_iff by blast
  from stable_topology_run [OF assms True] obtain srt rem adj where r: "kahn_inv ?ids ?es adj [] rem srt"
    "least_first ?es (fst ` set nodes) srt" "stable_topology nodes = (if length srt = length nodes then Some srt else None)" by blast
  note k = kahn_complete [OF r(1) dist]
  show ?thesis
  proof
    assume "stable_topology nodes = Some order"
    then have "order = srt" "length srt = length ?ids" using r(3) by (auto split: if_splits)
    with k r(2) True show "(\<forall>(d, i)\<in>set ?es. d \<in> fst ` set nodes) \<and> distinct order \<and> set order = fst ` set nodes
        \<and> topological ?es order \<and> least_first ?es (fst ` set nodes) order" by simp
  next
    assume o: "(\<forall>(d, i)\<in>set ?es. d \<in> fst ` set nodes) \<and> distinct order \<and> set order = fst ` set nodes
        \<and> topological ?es order \<and> least_first ?es (fst ` set nodes) order"
    have "snd ` set ?es \<subseteq> set order" using o by (force simp: profile_edges_def)
    then have "acyclic (set ?es)" using topological_acyclic [of ?es order] o by blast
    then have len: "length srt = length ?ids" and same: "set srt = set ?ids" using k(3,4) by auto
    have "srt = order" by (rule least_first_unique) (use k(1,2) r(2) o same in auto)
    with len r(3) show "stable_topology nodes = Some order" by simp
  qed
qed

definition demo_nodes :: node_map where
  "demo_nodes =
     [(''a'', JObject [(''attempts'', JArray [JObject [(''kind'', JString ''success'')]]), (''compensate_action'', JString ''undo''), (''id'', JString ''a'')]),
      (''b'', JObject [(''attempts'', JArray [JObject [(''kind'', JString ''failure'')]]), (''depends_on'', JArray [JString ''a'']), (''id'', JString ''b'')])]"

theorem stable_topology_iff_witness:
  "stable_topology demo_nodes = Some [''a'', ''b''] \<and> topological (profile_edges demo_nodes) [''a'', ''b'']"
proof -
  have "bt_wf demo_nodes" by code_simp
  moreover have "stable_topology demo_nodes = Some [''a'', ''b'']" by code_simp
  ultimately show ?thesis using stable_topology_iff [of demo_nodes "[''a'', ''b'']"] by blast
qed


section \<open>Compensation\<close>




















section \<open>Leases\<close>

lemma lease_event_kept:
  assumes "map_of (ls_leases s) t = Some l"
    "unwrap_or [] (v_str e ''task_id'') = t \<Longrightarrow> unwrap_or [] (v_str e ''runner_nid'') \<noteq> le_runner l \<and> unwrap_or 0 (Option.bind (jget e ''at'') as_i64) < le_expires l"
  shows "map_of (ls_leases (snd (lease_event e s))) t = Some l"
    "unwrap_or [] (v_str e ''task_id'') = t \<Longrightarrow> unwrap_or [] (v_str e ''op'') \<in> {''claim'', ''renew''} \<Longrightarrow> fst (lease_event e s) = Some ''conflict''"
  using assms by (auto simp: lease_event_def lease_put_def Let_def update_conv split: option.splits)

text \<open>While a lease on a task has not expired, nobody else gets one: whatever others claim and renew, in any number
  and any order, the lease stays as it is, and each of their attempts is a conflict.\<close>

theorem lease_exclusive:
  assumes "map_of (ls_leases s) t = Some l"
    and "\<And>e. e \<in> set es \<Longrightarrow> unwrap_or [] (v_str e ''task_id'') = t
      \<Longrightarrow> unwrap_or [] (v_str e ''runner_nid'') \<noteq> le_runner l \<and> unwrap_or 0 (Option.bind (jget e ''at'') as_i64) < le_expires l"
  shows "map_of (ls_leases (snd (lease_run es s))) t = Some l
    \<and> (\<forall>e. unwrap_or [] (v_str e ''task_id'') = t \<and> unwrap_or [] (v_str e ''op'') \<in> {''claim'', ''renew''}
       \<and> unwrap_or [] (v_str e ''runner_nid'') \<noteq> le_runner l \<and> unwrap_or 0 (Option.bind (jget e ''at'') as_i64) < le_expires l
       \<longrightarrow> fst (lease_event e (snd (lease_run es s))) = Some ''conflict'')"
proof -
  have kept: "map_of (ls_leases (snd (lease_run es s))) t = Some l"
    using assms
  proof (induction es arbitrary: s)
    case (Cons e es)
    obtain o1 s1 where e: "lease_event e s = (o1, s1)" by fastforce
    have "map_of (ls_leases s1) t = Some l" using lease_event_kept(1) [OF Cons.prems(1), of e] Cons.prems(2) [of e] e by simp
    from Cons.IH [OF this] Cons.prems(2) e show ?case by (auto split: prod.splits)
  qed simp
  then show ?thesis using lease_event_kept(2) [OF kept] by blast
qed

definition demo_claim :: "string \<Rightarrow> jvalue" where
  "demo_claim runner = JObject [(''op'', JString ''claim''), (''runner_nid'', JString runner), (''task_id'', JString ''t'')]"

theorem lease_exclusive_witness:
  "fst (lease_event (demo_claim ''c'') (snd (lease_run [demo_claim ''b''] \<lparr>ls_leases = [(''t'', \<lparr>le_runner = ''a'', le_expires = 10\<rparr>)], ls_terminal = []\<rparr>)))
     = Some ''conflict''"
proof -
  have e: "unwrap_or [] (v_str (demo_claim r) ''task_id'') = ''t''" "unwrap_or [] (v_str (demo_claim r) ''op'') = ''claim''"
    "unwrap_or [] (v_str (demo_claim r) ''runner_nid'') = r" "unwrap_or 0 (Option.bind (jget (demo_claim r) ''at'') as_i64) = 0" for r
    by (simp_all add: demo_claim_def v_str_def jget_def)
  show ?thesis
    using lease_exclusive [of "\<lparr>ls_leases = [(''t'', \<lparr>le_runner = ''a'', le_expires = 10\<rparr>)], ls_terminal = []\<rparr>" "''t''"
        "\<lparr>le_runner = ''a'', le_expires = 10\<rparr>" "[demo_claim ''b'']"]
    by (simp add: e)
qed

section \<open>Signatures and addresses\<close>

lemma or_fold_zero: "foldl (\<lambda>acc p. acc OR (fst p XOR snd p)) (x :: u8) ps = 0 \<longleftrightarrow> x = 0 \<and> (\<forall>p\<in>set ps. fst p = snd p)"
proof (induction ps arbitrary: x)
  case (Cons p ps)
  have "a OR b = 0 \<longleftrightarrow> a = 0 \<and> b = 0" for a b :: u8 by (auto simp: bit_eq_iff bit_simps)
  moreover have "a XOR b = 0 \<longleftrightarrow> a = b" for a b :: u8 by (auto simp: bit_eq_iff bit_simps)
  ultimately show ?case using Cons.IH [of "x OR (fst p XOR snd p)"] by auto
qed simp

lemma same_bytes_eq: "same_bytes a b \<longleftrightarrow> a = b"
proof -
  have "length a = length b \<Longrightarrow> (\<forall>p\<in>set (zip a b). fst p = snd p) \<longleftrightarrow> a = b"
    by (auto simp: list_eq_iff_nth_eq set_zip)
  then show ?thesis by (auto simp: same_bytes_def or_fold_zero)
qed

lemma hmac_valid_iff:
  "hmac_valid cr env input sig \<longleftrightarrow> (\<exists>key. b64url_decode cr (unwrap_or [] (v_str input ''secret_base64url'')) = Some key \<and> length key = 32
     \<and> utf8 sig = utf8 (''sha256='' @ hex_enc cr (cb_hmac_sha256 env key (unwrap_or [] (v_str input ''raw_body'')))))"
  by (auto simp: hmac_valid_def same_bytes_eq split: option.splits)

text \<open>The guard on resolved addresses lets a mapped loopback address through.\<close>

lemma mapped_loopback_public: "is_public_ip (V6 [0, 0, 0, 0, 0, 0xffff, 0x7f00, 1])"
  by (simp add: is_public_ip_def is_loopback6_def)

end
