(* ===== verification/Nop_Frames.thy ===== *)
theory Nop_Frames
  imports Dict_Frame
begin

text \<open>
  \<^verbatim>\<open>nps-nop/src/frames.rs\<close>: the four frames of the orchestration protocol, each of which interprets the contract
  \<open>dict_frame\<close>: what is written is read back unchanged. An \<open>i64\<close> is a 64-bit word that is read as
  signed; \<open>json!\<close> writes it as a negative or a positive number.
\<close>

section \<open>Signed fields\<close>

definition jint :: "64 word \<Rightarrow> jvalue" where
  "jint w = JNumber (if sint w < 0 then NegInt w else PosInt w)"

definition as_i64w :: "jvalue \<Rightarrow> 64 word option" where
  "as_i64w v = map_option word_of_int (as_i64 v)"

definition opt_i64 :: "frame_dict \<Rightarrow> string \<Rightarrow> 64 word option" where
  "opt_i64 d k = Option.bind (map_of d k) as_i64w"

lemma sint_nonneg: "\<not> sint (w :: 64 word) < 0 \<Longrightarrow> unat w < 2 ^ 63"
proof -
  assume "\<not> sint w < 0"
  moreover have "sint w < 2 ^ 63" using sint_less [of w] by simp
  moreover have "uint w = sint w mod 2 ^ 64" using uint_word_of_int [of "sint w", where 'a = 64] by (simp add: take_bit_eq_mod)
  ultimately have "uint w < 2 ^ 63" by simp
  then have "int (unat w) < int (2 ^ 63)" by (simp only: uint_nat of_nat_power of_nat_numeral)
  then show "unat w < 2 ^ 63" by (simp only: of_nat_less_iff)
qed

lemma as_i64w_jint [simp]: "as_i64w (jint w) = Some w"
  using sint_nonneg [of w] by (simp add: as_i64w_def jint_def)

lemma fields_i64 [fields]:
  "opt_i64 [] k = None"
  "opt_i64 (bt_insert k v d) x = (if x = k then as_i64w v else opt_i64 d x)"
  "opt_i64 (bt_insert_opt k u d) x = (if x = k then field_of as_i64w u (opt_i64 d x) else opt_i64 d x)"
  "field_of as_i64w (map_option jint n) None = n"
  by (simp_all add: opt_i64_def field_of_def bt_insert_opt_def split: option.splits)

definition nop_get_str :: "frame_dict \<Rightarrow> string \<Rightarrow> string nps_result" where
  "nop_get_str d k = ok_or (FrameError (''missing field: '' @ k)) (opt_str d k)"

section \<open>TaskFrame\<close>

record task_frame =
  tf_task_id :: string
  tf_dag :: jvalue
  tf_timeout_ms :: "u64 option"
  tf_callback_url :: "string option"
  tf_context :: "jvalue option"
  tf_priority :: "string option"
  tf_depth :: "64 word option"
  tf_compensation_policy :: "string option"
  tf_result_ttl_seconds :: u64

definition task_to_dict :: "task_frame \<Rightarrow> frame_dict" where
  "task_to_dict f =
     (let m = bt_insert ''task_id'' (JString (tf_task_id f)) [];
          m = bt_insert ''dag'' (tf_dag f) m;
          m = bt_insert_opt ''timeout_ms'' (map_option jnat (tf_timeout_ms f)) m;
          m = bt_insert_opt ''callback_url'' (map_option JString (tf_callback_url f)) m;
          m = bt_insert_opt ''context'' (tf_context f) m;
          m = bt_insert_opt ''priority'' (map_option JString (tf_priority f)) m;
          m = bt_insert_opt ''depth'' (map_option jint (tf_depth f)) m;
          m = bt_insert_opt ''compensation_policy'' (map_option JString (tf_compensation_policy f)) m
      in if tf_result_ttl_seconds f \<noteq> 3600 then bt_insert ''result_ttl_seconds'' (jnat (tf_result_ttl_seconds f)) m else m)"

definition task_from_dict :: "frame_dict \<Rightarrow> task_frame nps_result" where
  "task_from_dict d = try_res (nop_get_str d ''task_id'') (\<lambda>task_id.
     Ok \<lparr>tf_task_id = task_id, tf_dag = unwrap_or JNull (map_of d ''dag''), tf_timeout_ms = opt_u64 d ''timeout_ms'',
         tf_callback_url = opt_str d ''callback_url'', tf_context = map_of d ''context'', tf_priority = opt_str d ''priority'',
         tf_depth = opt_i64 d ''depth'', tf_compensation_policy = opt_str d ''compensation_policy'',
         tf_result_ttl_seconds = unwrap_or 3600 (opt_u64 d ''result_ttl_seconds'')\<rparr>)"

interpretation task: dict_frame task_to_dict task_from_dict "\<lambda>f. f"
proof unfold_locales
  fix f :: task_frame
  show "bt_wf (task_to_dict f)" by (simp add: task_to_dict_def Let_def)
  show "task_from_dict (task_to_dict f) = Ok f"
    unfolding task_to_dict_def task_from_dict_def Let_def nop_get_str_def
    by (cases f) (simp add: fields, simp add: field_of_def)
qed (rule refl)

section \<open>DelegateFrame\<close>

record delegate_frame =
  df_task_id :: string
  df_subtask_id :: string
  df_action :: string
  df_target_nid :: string
  df_inputs :: "jvalue option"
  df_config :: "jvalue option"
  df_idempotency_key :: "string option"
  df_target_cluster_anchor :: "string option"

definition delegate_to_dict :: "delegate_frame \<Rightarrow> frame_dict" where
  "delegate_to_dict f =
     (let m = bt_insert ''parent_task_id'' (JString (df_task_id f)) [];
          m = bt_insert ''subtask_id'' (JString (df_subtask_id f)) m;
          m = bt_insert ''action'' (JString (df_action f)) m;
          m = bt_insert ''target_agent_nid'' (JString (df_target_nid f)) m;
          m = bt_insert_opt ''inputs'' (df_inputs f) m;
          m = bt_insert_opt ''config'' (df_config f) m;
          m = bt_insert_opt ''idempotency_key'' (map_option JString (df_idempotency_key f)) m
      in bt_insert_opt ''target_cluster_anchor'' (map_option JString (df_target_cluster_anchor f)) m)"

text \<open>The names of the specification are preferred to those of older versions.\<close>

definition renamed_str :: "frame_dict \<Rightarrow> string \<Rightarrow> string \<Rightarrow> string nps_result" where
  "renamed_str d k old = (case opt_str d k of Some v \<Rightarrow> Ok v | None \<Rightarrow> nop_get_str d old)"

definition delegate_from_dict :: "frame_dict \<Rightarrow> delegate_frame nps_result" where
  "delegate_from_dict d =
     try_res (renamed_str d ''parent_task_id'' ''task_id'') (\<lambda>task_id.
     try_res (renamed_str d ''target_agent_nid'' ''target_nid'') (\<lambda>target_nid.
     try_res (nop_get_str d ''subtask_id'') (\<lambda>subtask_id.
     try_res (nop_get_str d ''action'') (\<lambda>action.
       Ok \<lparr>df_task_id = task_id, df_subtask_id = subtask_id, df_action = action, df_target_nid = target_nid,
           df_inputs = map_of d ''inputs'', df_config = map_of d ''config'', df_idempotency_key = opt_str d ''idempotency_key'',
           df_target_cluster_anchor = opt_str d ''target_cluster_anchor''\<rparr>))))"

interpretation delegate: dict_frame delegate_to_dict delegate_from_dict "\<lambda>f. f"
proof unfold_locales
  fix f :: delegate_frame
  show "bt_wf (delegate_to_dict f)" by (simp add: delegate_to_dict_def Let_def)
  show "delegate_from_dict (delegate_to_dict f) = Ok f"
    unfolding delegate_to_dict_def delegate_from_dict_def Let_def nop_get_str_def renamed_str_def
    by (cases f) (simp add: fields)
qed (rule refl)

text \<open>A frame with the old names is read as the one with the new names.\<close>

lemma old_names_read:
  assumes "opt_str d ''parent_task_id'' = None" "opt_str d ''target_agent_nid'' = None"
  shows "delegate_from_dict d = delegate_from_dict
     (bt_insert_opt ''parent_task_id'' (map_option JString (opt_str d ''task_id''))
       (bt_insert_opt ''target_agent_nid'' (map_option JString (opt_str d ''target_nid'')) d))"
proof -
  have n: "field_of as_str (map_option JString v) None = v" for v by (simp add: fields)
  show ?thesis
    unfolding delegate_from_dict_def renamed_str_def nop_get_str_def
    by (cases "opt_str d ''task_id''"; cases "opt_str d ''target_nid''")
       (simp_all add: fields assms bt_insert_opt_def ok_or_def)
qed

section \<open>SyncFrame\<close>

record sync_frame =
  sf_task_id :: string
  sf_sync_id :: string
  sf_subtask_ids :: "string list"
  sf_min_required :: "64 word"
  sf_aggregate :: string
  sf_timeout_ms :: "u64 option"

definition sync_to_dict :: "sync_frame \<Rightarrow> frame_dict" where
  "sync_to_dict f =
     (let m = bt_insert ''task_id'' (JString (sf_task_id f)) [];
          m = bt_insert ''sync_id'' (JString (sf_sync_id f)) m;
          m = bt_insert ''subtask_ids'' (jstrs (sf_subtask_ids f)) m;
          m = bt_insert ''min_required'' (jint (sf_min_required f)) m;
          m = bt_insert ''aggregate'' (JString (sf_aggregate f)) m
      in bt_insert_opt ''timeout_ms'' (map_option jnat (sf_timeout_ms f)) m)"

definition sync_from_dict :: "frame_dict \<Rightarrow> sync_frame nps_result" where
  "sync_from_dict d =
     (let subtask_ids = unwrap_or [] (get_strs d ''subtask_ids'')
      in try_res (nop_get_str d ''task_id'') (\<lambda>task_id.
         try_res (nop_get_str d ''sync_id'') (\<lambda>sync_id.
           Ok \<lparr>sf_task_id = task_id, sf_sync_id = sync_id, sf_subtask_ids = subtask_ids,
               sf_min_required = unwrap_or 0 (opt_i64 d ''min_required''), sf_aggregate = unwrap_or ''merge'' (opt_str d ''aggregate''),
               sf_timeout_ms = opt_u64 d ''timeout_ms''\<rparr>)))"

interpretation sync: dict_frame sync_to_dict sync_from_dict "\<lambda>f. f"
proof unfold_locales
  fix f :: sync_frame
  show "bt_wf (sync_to_dict f)" by (simp add: sync_to_dict_def Let_def)
  show "sync_from_dict (sync_to_dict f) = Ok f"
    unfolding sync_to_dict_def sync_from_dict_def Let_def nop_get_str_def
    by (cases f) (simp add: fields)
qed (rule refl)

section \<open>AlignStreamFrame\<close>

record align_stream_frame =
  al_sync_id :: string
  al_task_id :: string
  al_subtask_id :: string
  al_seq :: u64
  al_is_final :: bool
  al_source_nid :: "string option"
  al_result :: "jvalue option"
  al_error :: "jvalue option"
  al_window_size :: "u64 option"
  al_ack_seq :: "u64 option"
  al_nak_seq :: "u64 option"

definition align_error_code :: "align_stream_frame \<Rightarrow> string option" where
  "align_error_code f = Option.bind (Option.bind (al_error f) (\<lambda>e. jget e ''error_code'')) as_str"

definition align_error_message :: "align_stream_frame \<Rightarrow> string option" where
  "align_error_message f = Option.bind (Option.bind (al_error f) (\<lambda>e. jget e ''message'')) as_str"

definition align_to_dict :: "align_stream_frame \<Rightarrow> frame_dict" where
  "align_to_dict f =
     (let m = bt_insert ''sync_id'' (JString (al_sync_id f)) [];
          m = bt_insert ''task_id'' (JString (al_task_id f)) m;
          m = bt_insert ''subtask_id'' (JString (al_subtask_id f)) m;
          m = bt_insert ''seq'' (jnat (al_seq f)) m;
          m = bt_insert ''is_final'' (JBool (al_is_final f)) m;
          m = bt_insert_opt ''source_nid'' (map_option JString (al_source_nid f)) m;
          m = bt_insert_opt ''result'' (al_result f) m;
          m = bt_insert_opt ''error'' (al_error f) m;
          m = bt_insert_opt ''window_size'' (map_option jnat (al_window_size f)) m;
          m = bt_insert_opt ''ack_seq'' (map_option jnat (al_ack_seq f)) m
      in bt_insert_opt ''nak_seq'' (map_option jnat (al_nak_seq f)) m)"

definition align_from_dict :: "frame_dict \<Rightarrow> align_stream_frame nps_result" where
  "align_from_dict d =
     try_res (nop_get_str d ''sync_id'') (\<lambda>sync_id.
     try_res (nop_get_str d ''task_id'') (\<lambda>task_id.
     try_res (nop_get_str d ''subtask_id'') (\<lambda>subtask_id.
       Ok \<lparr>al_sync_id = sync_id, al_task_id = task_id, al_subtask_id = subtask_id, al_seq = unwrap_or 0 (opt_u64 d ''seq''),
           al_is_final = unwrap_or False (opt_bool d ''is_final''), al_source_nid = opt_str d ''source_nid'',
           al_result = map_of d ''result'', al_error = map_of d ''error'', al_window_size = opt_u64 d ''window_size'',
           al_ack_seq = opt_u64 d ''ack_seq'', al_nak_seq = opt_u64 d ''nak_seq''\<rparr>)))"

interpretation align: dict_frame align_to_dict align_from_dict "\<lambda>f. f"
proof unfold_locales
  fix f :: align_stream_frame
  show "bt_wf (align_to_dict f)" by (simp add: align_to_dict_def Let_def)
  show "align_from_dict (align_to_dict f) = Ok f"
    unfolding align_to_dict_def align_from_dict_def Let_def nop_get_str_def
    by (cases f) (simp add: fields)
qed (rule refl)

end
