(* ===== verification/Nop_Cluster.thy ===== *)
theory Nop_Cluster
  imports Nop_Frames
begin

text \<open>
  \<^verbatim>\<open>nps-nop/src/cluster_delegation.rs\<close>: the Anchor a delegation goes to. The injected lookup may have effects, so it
  acts on a state \<open>'w\<close>. The map is behind a mutex that is released during a lookup, so \<open>resolve_active\<close> is two
  atomic steps, and the step relation interleaves them with the steps of other threads.
\<close>

record cluster_anchor_info =
  ci_active_nid :: string
  ci_cluster_epoch :: u64

type_synonym cluster_cache = "(string \<times> cluster_anchor_info) list"

definition cluster_anchor_info_new :: "string \<Rightarrow> u64 \<Rightarrow> cluster_anchor_info" where
  "cluster_anchor_info_new nid epoch = \<lparr>ci_active_nid = nid, ci_cluster_epoch = epoch\<rparr>"

text \<open>The two halves of \<open>resolve_active\<close>: the lookup in the map, and what a fresh answer does to it.\<close>

definition resolve_cached :: "string \<Rightarrow> cluster_cache \<Rightarrow> cluster_anchor_info option" where
  "resolve_cached cluster m = (if cluster = [] then None else map_of m cluster)"

definition resolve_store :: "string \<Rightarrow> cluster_anchor_info option \<Rightarrow> cluster_cache \<Rightarrow> cluster_cache" where
  "resolve_store cluster fresh m = (case fresh of None \<Rightarrow> m | Some i \<Rightarrow> AList.update cluster i m)"

definition resolve_active :: "(string \<Rightarrow> 'w \<Rightarrow> cluster_anchor_info option \<times> 'w) \<Rightarrow> string \<Rightarrow> cluster_cache \<times> 'w
    \<Rightarrow> cluster_anchor_info option \<times> cluster_cache \<times> 'w" where
  "resolve_active resolve_cluster cluster s =
     (if cluster = [] then (None, s)
      else case resolve_cached cluster (fst s) of
        Some hit \<Rightarrow> (Some hit, s)
      | None \<Rightarrow> (case resolve_cluster cluster (snd s) of (fresh, w) \<Rightarrow> (fresh, resolve_store cluster fresh (fst s), w)))"

definition resolve_delegate_target :: "(string \<Rightarrow> 'w \<Rightarrow> cluster_anchor_info option \<times> 'w) \<Rightarrow> delegate_frame \<Rightarrow> cluster_cache \<times> 'w
    \<Rightarrow> string option \<times> cluster_cache \<times> 'w" where
  "resolve_delegate_target resolve_cluster frame s =
     (case df_target_cluster_anchor frame of
        None \<Rightarrow> (Some (df_target_nid frame), s)
      | Some cluster \<Rightarrow> if cluster = [] then (Some (df_target_nid frame), s)
          else (case resolve_active resolve_cluster cluster s of (i, s') \<Rightarrow> (map_option ci_active_nid i, s')))"

definition on_anchor_failover :: "string \<Rightarrow> string \<Rightarrow> u64 \<Rightarrow> cluster_cache \<Rightarrow> bool \<times> cluster_cache" where
  "on_anchor_failover cluster successor epoch m =
     (if cluster = [] \<or> successor = [] then (False, m)
      else if (case map_of m cluster of Some cur \<Rightarrow> epoch \<le> ci_cluster_epoch cur | None \<Rightarrow> False) then (False, m)
      else (True, AList.update cluster (cluster_anchor_info_new successor epoch) m))"

definition cluster_invalidate :: "string \<Rightarrow> cluster_cache \<Rightarrow> cluster_cache" where
  "cluster_invalidate cluster m = AList.delete cluster m"

definition cached_len :: "cluster_cache \<Rightarrow> nat" where
  "cached_len m = length m"

section \<open>Threads\<close>

text \<open>The lookups that are under way, next to the map. Each operation of the resolver is one or two of these steps.\<close>

datatype cluster_op =
    Failover string string u64
  | Invalidate string
  | LookupStart string
  | LookupEnd string "cluster_anchor_info option"

inductive cluster_step :: "cluster_cache \<times> string list \<Rightarrow> cluster_op \<Rightarrow> cluster_cache \<times> string list \<Rightarrow> bool" where
  Step_Failover: "cluster_step (m, ps) (Failover c nid e) (snd (on_anchor_failover c nid e m), ps)"
| Step_Invalidate: "cluster_step (m, ps) (Invalidate c) (cluster_invalidate c m, ps)"
| Step_Start: "c \<noteq> [] \<Longrightarrow> resolve_cached c m = None \<Longrightarrow> cluster_step (m, ps) (LookupStart c) (m, c # ps)"
| Step_End: "c \<in> set ps \<Longrightarrow> cluster_step (m, ps) (LookupEnd c fresh) (resolve_store c fresh m, remove1 c ps)"

inductive_cases cluster_stepE: "cluster_step s op s'"

inductive cluster_steps :: "cluster_cache \<times> string list \<Rightarrow> cluster_op list \<Rightarrow> cluster_cache \<times> string list \<Rightarrow> bool" where
  Steps_Nil: "cluster_steps s [] s"
| Steps_Cons: "cluster_step s op s' \<Longrightarrow> cluster_steps s' ops s'' \<Longrightarrow> cluster_steps s (op # ops) s''"

text \<open>A resolution that no other thread interrupts is the start and the end of a lookup.\<close>

lemma resolve_active_steps:
  assumes "c \<noteq> []" "resolve_cached c m = None"
  shows "\<exists>fresh w'. resolve_active f c (m, w) = (fresh, resolve_store c fresh m, w')
    \<and> cluster_steps (m, ps) [LookupStart c, LookupEnd c fresh] (resolve_store c fresh m, ps)"
proof -
  obtain fresh w' where f: "f c w = (fresh, w')" by fastforce
  have "cluster_step (m, ps) (LookupStart c) (m, c # ps)" using assms by (rule Step_Start)
  moreover have "cluster_step (m, c # ps) (LookupEnd c fresh) (resolve_store c fresh m, remove1 c (c # ps))" by (rule Step_End) simp
  ultimately have "cluster_steps (m, ps) [LookupStart c, LookupEnd c fresh] (resolve_store c fresh m, remove1 c (c # ps))"
    by (blast intro: cluster_steps.intros)
  with f assms show ?thesis by (auto simp: resolve_active_def)
qed

section \<open>Epochs\<close>

definition moves_on :: "cluster_anchor_info \<Rightarrow> cluster_anchor_info \<Rightarrow> bool" where
  "moves_on i j \<longleftrightarrow> j = i \<or> ci_cluster_epoch i < ci_cluster_epoch j"

lemma moves_on_trans: "moves_on i j \<Longrightarrow> moves_on j k \<Longrightarrow> moves_on i k"
  by (auto simp: moves_on_def)

lemma failover_cached:
  "map_of (snd (on_anchor_failover c nid e m)) d =
     (if d = c \<and> fst (on_anchor_failover c nid e m) then Some (cluster_anchor_info_new nid e) else map_of m d)"
  by (auto simp: on_anchor_failover_def update_conv)

lemma failover_moves_on:
  "map_of m d = Some i \<Longrightarrow> \<exists>j. map_of (snd (on_anchor_failover c nid e m)) d = Some j \<and> moves_on i j"
  by (auto simp: on_anchor_failover_def update_conv moves_on_def cluster_anchor_info_new_def)

lemma step_moves_on:
  assumes "cluster_step s op s'" "map_of (fst s) c = Some i" "c \<notin> set (snd s)" "op \<noteq> Invalidate c" "c \<noteq> []"
  shows "\<exists>j. map_of (fst s') c = Some j \<and> moves_on i j" "c \<notin> set (snd s')"
  using assms failover_moves_on [of "fst s" c i]
  by (auto elim!: cluster_stepE simp: cluster_invalidate_def AList.delete_conv' resolve_cached_def resolve_store_def update_conv
      moves_on_def dest: in_set_remove1 split: option.splits)

text \<open>Property C17 (safety). While no lookup for a cluster is under way and nobody invalidates it, the Anchor kept for it only moves forward:
  after any number of steps of any threads it is the same, or one with a greater epoch.\<close>

theorem cluster_moves_forward:
  assumes "cluster_steps (m, ps) ops (m', ps')" "map_of m c = Some i" "c \<notin> set ps" "Invalidate c \<notin> set ops" "c \<noteq> []"
  shows "\<exists>j. map_of m' c = Some j \<and> moves_on i j \<and> c \<notin> set ps'"
proof -
  have "cluster_steps s ops s' \<Longrightarrow> map_of (fst s) c = Some i \<Longrightarrow> c \<notin> set (snd s) \<Longrightarrow> Invalidate c \<notin> set ops
      \<Longrightarrow> \<exists>j. map_of (fst s') c = Some j \<and> moves_on i j \<and> c \<notin> set (snd s')" for s s' i
  proof (induction arbitrary: i rule: cluster_steps.induct)
    case (Steps_Nil s)
    then show ?case by (auto simp: moves_on_def)
  next
    case (Steps_Cons s op s' ops s'')
    then have op: "op \<noteq> Invalidate c" by auto
    from step_moves_on [OF Steps_Cons.hyps(1) Steps_Cons.prems(1,2) op assms(5)] obtain j where
      j: "map_of (fst s') c = Some j" "moves_on i j" "c \<notin> set (snd s')" by blast
    from Steps_Cons.IH [OF j(1,3)] Steps_Cons.prems(3) j(2) show ?case by (auto intro: moves_on_trans)
  qed
  from this [of "(m, ps)" "(m', ps')" i] assms show ?thesis by simp
qed

text \<open>A lookup that was under way overwrites what a failover has stored since: the Anchor of an older epoch is back.\<close>

lemma late_lookup_goes_back:
  "cluster_steps ([], []) [LookupStart ''c'', Failover ''c'' ''b'' 5, LookupEnd ''c'' (Some (cluster_anchor_info_new ''a'' 1))]
     ([(''c'', cluster_anchor_info_new ''a'' 1)], [])"
proof -
  have "cluster_step ([], []) (LookupStart ''c'') ([], [''c''])" by (rule Step_Start) (simp_all add: resolve_cached_def)
  moreover have "cluster_step ([], [''c'']) (Failover ''c'' ''b'' 5) ([(''c'', cluster_anchor_info_new ''b'' 5)], [''c''])"
    using Step_Failover [of "[]" "[''c'']" "''c''" "''b''" 5] by (simp add: on_anchor_failover_def)
  moreover have "cluster_step ([(''c'', cluster_anchor_info_new ''b'' 5)], [''c'']) (LookupEnd ''c'' (Some (cluster_anchor_info_new ''a'' 1)))
      ([(''c'', cluster_anchor_info_new ''a'' 1)], [])"
    using Step_End [where c = "''c''" and ps = "[''c'']" and m = "[(''c'', cluster_anchor_info_new ''b'' 5)]"
        and fresh = "Some (cluster_anchor_info_new ''a'' 1)"] by (simp add: resolve_store_def)
  ultimately show ?thesis by (blast intro: cluster_steps.intros)
qed

theorem cluster_moves_forward_witness:
  "\<exists>j. map_of [(''c'', cluster_anchor_info_new ''b'' 5)] ''c'' = Some j \<and> moves_on (cluster_anchor_info_new ''a'' 1) j"
proof -
  have "cluster_step ([(''c'', cluster_anchor_info_new ''a'' 1)], []) (Failover ''c'' ''b'' 5) ([(''c'', cluster_anchor_info_new ''b'' 5)], [])"
    using Step_Failover [of "[(''c'', cluster_anchor_info_new ''a'' 1)]" "[]" "''c''" "''b''" 5]
    by (simp add: on_anchor_failover_def cluster_anchor_info_new_def word_le_nat_alt)
  then have "cluster_steps ([(''c'', cluster_anchor_info_new ''a'' 1)], []) [Failover ''c'' ''b'' 5] ([(''c'', cluster_anchor_info_new ''b'' 5)], [])"
    by (blast intro: cluster_steps.intros)
  from cluster_moves_forward [OF this, of "''c''" "cluster_anchor_info_new ''a'' 1"] show ?thesis by simp
qed

text \<open>A delegation that names no cluster makes no lookup; one that names a cluster with a known Anchor goes to that Anchor.\<close>

lemma delegate_without_cluster: "df_target_cluster_anchor f \<in> {None, Some []} \<Longrightarrow> resolve_delegate_target r f s = (Some (df_target_nid f), s)"
  by (auto simp: resolve_delegate_target_def)

lemma delegate_after_failover:
  assumes "df_target_cluster_anchor f = Some c" "on_anchor_failover c nid e m = (True, m')"
  shows "resolve_delegate_target r f (m', w) = (Some nid, m', w)"
proof -
  have "c \<noteq> []" "map_of m' c = Some (cluster_anchor_info_new nid e)"
    using failover_cached [of c nid e m c] assms(2) by (auto simp: on_anchor_failover_def split: if_splits)
  with assms(1) show ?thesis
    by (simp add: resolve_delegate_target_def resolve_active_def resolve_cached_def cluster_anchor_info_new_def)
qed

lemma negative_not_cached: "r c w = (None, w') \<Longrightarrow> fst (snd (resolve_active r c (m, w))) = m"
  by (auto simp: resolve_active_def resolve_store_def split: option.splits)

end
