(* ===== verification/Ndp_Frames.thy ===== *)
theory Ndp_Frames
  imports Dict_Frame
begin

text \<open>
  \<^verbatim>\<open>nps-ndp/src/frames.rs\<close>: the frames of the discovery protocol and the checks on a graph. \<open>AnnounceFrame\<close>
  and \<open>ResolveFrame\<close> interpret the contract \<open>dict_frame\<close>; a \<open>GraphFrame\<close> is read back when it is
  valid. The maps of \<open>serde_json\<close> are ordered by key, so the sort that \<open>unsigned_dict\<close> ends with
  changes nothing. The readers that \<open>serde\<close> derives for \<open>GraphNode\<close> and \<open>GraphEdge\<close> accept an object,
  where unknown members are ignored, and an array with one item per field.
\<close>

section \<open>Reading fields\<close>

definition ndp_get_str :: "frame_dict \<Rightarrow> string \<Rightarrow> string nps_result" where
  "ndp_get_str d k = ok_or (FrameError (''missing field: '' @ k)) (opt_str d k)"

definition obj_items :: "jvalue list \<Rightarrow> frame_dict list" where
  "obj_items xs = List.map_filter as_object xs"

lemma obj_items_map [simp]: "obj_items (map JObject xs) = xs"
  by (induction xs) (simp_all add: obj_items_def List.map_filter_def)

text \<open>A field that is written twice with the same value.\<close>

lemma field_of_again [fields]:
  "field_of as_str (map_option JString v) v = v"
  "field_of as_u64 (map_option jnat n) n = n"
  "field_of as_object (map_option JObject m) m = m"
  "field_of (\<lambda>w. map_option str_items (as_array w)) (map_option jstrs l) l = l"
  by (auto simp: field_of_def split: option.splits)

section \<open>AnnounceFrame\<close>

record announce_frame =
  af_nid :: string
  af_addresses :: "frame_dict list"
  af_caps :: "string list"
  af_ttl :: u64
  af_timestamp :: string
  af_signature :: string
  af_node_type :: "string option"
  af_node_roles :: "string list option"
  af_cluster_anchor :: "string option"
  af_cluster_epoch :: "u64 option"
  af_spawn_spec_ref :: "string option"
  af_bridge_protocols :: "string list option"
  af_bridge_inbound_protocols :: "string list option"
  af_activation_mode :: "string option"
  af_activation_endpoint :: "frame_dict option"
  af_heartbeat_interval_ms :: u64
  af_health :: "string option"
  af_last_seen :: "string option"
  af_graph_seq :: "u64 option"

definition DEFAULT_CLUSTER_EPOCH :: u64 where "DEFAULT_CLUSTER_EPOCH = 1"

definition effective_cluster_epoch :: "announce_frame \<Rightarrow> u64" where
  "effective_cluster_epoch f = unwrap_or DEFAULT_CLUSTER_EPOCH (af_cluster_epoch f)"

definition announce_unsigned_dict :: "announce_frame \<Rightarrow> frame_dict" where
  "announce_unsigned_dict f =
     (let m = bt_insert ''nid'' (JString (af_nid f)) [];
          m = bt_insert ''addresses'' (JArray (map JObject (af_addresses f))) m;
          m = bt_insert ''capabilities'' (jstrs (af_caps f)) m;
          m = bt_insert ''ttl'' (jnat (af_ttl f)) m;
          m = bt_insert ''timestamp'' (JString (af_timestamp f)) m;
          m = bt_insert ''heartbeat_interval_ms'' (jnat (af_heartbeat_interval_ms f)) m;
          m = bt_insert_opt ''node_type'' (map_option JString (af_node_type f)) m;
          m = bt_insert_opt ''node_roles'' (map_option jstrs (af_node_roles f)) m;
          m = bt_insert_opt ''cluster_anchor'' (map_option JString (af_cluster_anchor f)) m;
          m = bt_insert_opt ''cluster_epoch'' (map_option jnat (af_cluster_epoch f)) m;
          m = bt_insert_opt ''spawn_spec_ref'' (map_option JString (af_spawn_spec_ref f)) m;
          m = bt_insert_opt ''bridge_protocols'' (map_option jstrs (af_bridge_protocols f)) m;
          m = bt_insert_opt ''bridge_inbound_protocols'' (map_option jstrs (af_bridge_inbound_protocols f)) m;
          m = bt_insert_opt ''activation_mode'' (map_option JString (af_activation_mode f)) m;
          m = bt_insert_opt ''activation_endpoint'' (map_option JObject (af_activation_endpoint f)) m
      in bt_insert_opt ''graph_seq'' (map_option jnat (af_graph_seq f)) m)"

definition announce_to_dict :: "announce_frame \<Rightarrow> frame_dict" where
  "announce_to_dict f =
     (let m = announce_unsigned_dict f;
          m = bt_insert ''signature'' (JString (af_signature f)) m;
          m = bt_insert_opt ''node_roles'' (map_option jstrs (af_node_roles f)) m;
          m = bt_insert_opt ''cluster_anchor'' (map_option JString (af_cluster_anchor f)) m;
          m = bt_insert_opt ''cluster_epoch'' (map_option jnat (af_cluster_epoch f)) m;
          m = bt_insert_opt ''spawn_spec_ref'' (map_option JString (af_spawn_spec_ref f)) m;
          m = bt_insert_opt ''bridge_protocols'' (map_option jstrs (af_bridge_protocols f)) m;
          m = bt_insert_opt ''bridge_inbound_protocols'' (map_option jstrs (af_bridge_inbound_protocols f)) m;
          m = bt_insert_opt ''activation_mode'' (map_option JString (af_activation_mode f)) m;
          m = bt_insert_opt ''activation_endpoint'' (map_option JObject (af_activation_endpoint f)) m;
          m = bt_insert ''heartbeat_interval_ms'' (jnat (af_heartbeat_interval_ms f)) m;
          m = bt_insert_opt ''health'' (map_option JString (af_health f)) m
      in bt_insert_opt ''last_seen'' (map_option JString (af_last_seen f)) m)"

definition announce_from_dict :: "frame_dict \<Rightarrow> announce_frame nps_result" where
  "announce_from_dict d =
     (let addresses = unwrap_or [] (map_option obj_items (get_array d ''addresses''));
          caps_raw = (case map_of d ''capabilities'' of Some v \<Rightarrow> Some v | None \<Rightarrow> map_of d ''caps'');
          caps = unwrap_or [] (map_option str_items (Option.bind caps_raw as_array))
      in try_res (ndp_get_str d ''nid'') (\<lambda>nid.
         try_res (ndp_get_str d ''timestamp'') (\<lambda>timestamp.
           Ok \<lparr>af_nid = nid, af_addresses = addresses, af_caps = caps,
               af_ttl = unwrap_or 300 (opt_u64 d ''ttl''), af_timestamp = timestamp,
               af_signature = unwrap_or [] (opt_str d ''signature''),
               af_node_type = opt_str d ''node_type'', af_node_roles = get_strs d ''node_roles'',
               af_cluster_anchor = opt_str d ''cluster_anchor'',
               af_cluster_epoch = opt_u64 d ''cluster_epoch'',
               af_spawn_spec_ref = opt_str d ''spawn_spec_ref'',
               af_bridge_protocols = get_strs d ''bridge_protocols'',
               af_bridge_inbound_protocols = get_strs d ''bridge_inbound_protocols'',
               af_activation_mode = opt_str d ''activation_mode'',
               af_activation_endpoint = opt_object d ''activation_endpoint'',
               af_heartbeat_interval_ms = unwrap_or 60000 (opt_u64 d ''heartbeat_interval_ms''),
               af_health = opt_str d ''health'', af_last_seen = opt_str d ''last_seen'',
               af_graph_seq = opt_u64 d ''graph_seq''\<rparr>)))"

lemma announce_dict_wf: "bt_wf (announce_unsigned_dict f)" "bt_wf (announce_to_dict f)"
  by (simp_all add: announce_unsigned_dict_def announce_to_dict_def Let_def)

lemma announce_back: "announce_from_dict (announce_to_dict f) = Ok f"
  unfolding announce_to_dict_def announce_unsigned_dict_def announce_from_dict_def Let_def ndp_get_str_def
  by (simp add: fields split: option.splits)

interpretation announce: dict_frame announce_to_dict announce_from_dict "\<lambda>f. f"
  by unfold_locales (simp_all add: announce_dict_wf announce_back)

section \<open>ResolveFrame\<close>

record resolve_frame =
  rf_target :: string
  rf_requester_nid :: "string option"
  rf_resolved :: "frame_dict option"

definition resolve_to_dict :: "resolve_frame \<Rightarrow> frame_dict" where
  "resolve_to_dict f =
     (let m = bt_insert ''target'' (JString (rf_target f)) [];
          m = bt_insert_opt ''requester_nid'' (map_option JString (rf_requester_nid f)) m
      in bt_insert_opt ''resolved'' (map_option JObject (rf_resolved f)) m)"

definition resolve_from_dict :: "frame_dict \<Rightarrow> resolve_frame nps_result" where
  "resolve_from_dict d =
     try_res (ndp_get_str d ''target'') (\<lambda>target.
       Ok \<lparr>rf_target = target, rf_requester_nid = opt_str d ''requester_nid'', rf_resolved = opt_object d ''resolved''\<rparr>)"

interpretation resolve: dict_frame resolve_to_dict resolve_from_dict "\<lambda>f. f"
  by unfold_locales (auto simp: resolve_to_dict_def resolve_from_dict_def ndp_get_str_def Let_def fields)

section \<open>GraphFrame\<close>

record graph_node =
  gn_nid :: string
  gn_cluster_anchor :: "string option"
  gn_node_roles :: "string list option"

record graph_edge =
  ge_from_nid :: string
  ge_to_nid :: string
  ge_latency_ms :: "u32 option"
  ge_protocol :: "string option"

record graph_frame =
  gf_graph_id :: string
  gf_nodes :: "graph_node list"
  gf_edges :: "graph_edge list"
  gf_ttl :: u32
  gf_metadata :: "frame_dict option"

definition node_to_value :: "graph_node \<Rightarrow> jvalue" where
  "node_to_value n = JObject
     (bt_insert_opt ''node_roles'' (map_option jstrs (gn_node_roles n))
     (bt_insert_opt ''cluster_anchor'' (map_option JString (gn_cluster_anchor n))
     (bt_insert ''nid'' (JString (gn_nid n)) [])))"

definition edge_to_value :: "graph_edge \<Rightarrow> jvalue" where
  "edge_to_value e = JObject
     (bt_insert_opt ''protocol'' (map_option JString (ge_protocol e))
     (bt_insert_opt ''latency_ms'' (map_option (\<lambda>n. jnat (ucast n)) (ge_latency_ms e))
     (bt_insert ''to_nid'' (JString (ge_to_nid e)) (bt_insert ''from_nid'' (JString (ge_from_nid e)) []))))"

definition as_u32 :: "jvalue \<Rightarrow> u32 option" where
  "as_u32 v = Option.bind (as_u64 v) (\<lambda>n. if unat n < 2 ^ 32 then Some (ucast n) else None)"

definition node_from_value :: "jvalue \<Rightarrow> graph_node option" where
  "node_from_value v = (case struct_fields [''nid'', ''cluster_anchor'', ''node_roles''] v of
       Some [a, b, c] \<Rightarrow>
         (case (Option.bind a as_str, opt_field as_str b, opt_field str_list c) of
            (Some nid, Some anchor, Some roles) \<Rightarrow>
              Some \<lparr>gn_nid = nid, gn_cluster_anchor = anchor, gn_node_roles = roles\<rparr>
          | _ \<Rightarrow> None)
     | _ \<Rightarrow> None)"

definition edge_from_value :: "jvalue \<Rightarrow> graph_edge option" where
  "edge_from_value v = (case struct_fields [''from_nid'', ''to_nid'', ''latency_ms'', ''protocol''] v of
       Some [a, b, c, d] \<Rightarrow>
         (case (Option.bind a as_str, Option.bind b as_str, opt_field as_u32 c, opt_field as_str d) of
            (Some from_nid, Some to_nid, Some latency, Some protocol) \<Rightarrow>
              Some \<lparr>ge_from_nid = from_nid, ge_to_nid = to_nid, ge_latency_ms = latency, ge_protocol = protocol\<rparr>
          | _ \<Rightarrow> None)
     | _ \<Rightarrow> None)"

definition graph_to_dict :: "graph_frame \<Rightarrow> frame_dict" where
  "graph_to_dict f =
     (let m = bt_insert ''graph_id'' (JString (gf_graph_id f)) [];
          m = bt_insert ''nodes'' (JArray (map node_to_value (gf_nodes f))) m;
          m = bt_insert ''edges'' (JArray (map edge_to_value (gf_edges f))) m;
          m = bt_insert ''ttl'' (jnat (ucast (gf_ttl f))) m
      in bt_insert_opt ''metadata'' (map_option JObject (gf_metadata f)) m)"

definition MAX_GRAPH_NODES :: nat where "MAX_GRAPH_NODES = 256"
definition MAX_GRAPH_EDGES :: nat where "MAX_GRAPH_EDGES = 1024"
definition GRAPH_INVALID :: string where "GRAPH_INVALID = ''NDP-GRAPH-INVALID''"
definition GRAPH_TOO_LARGE :: string where "GRAPH_TOO_LARGE = ''NDP-GRAPH-TOO-LARGE''"

definition graph_error :: "string \<Rightarrow> unit nps_result" where
  "graph_error m = Err (FrameError (GRAPH_INVALID @ '': '' @ m))"

fun check_edges :: "string set \<Rightarrow> graph_edge list \<Rightarrow> unit nps_result" where
  "check_edges ids [] = Ok ()"
| "check_edges ids (e # es) =
     (if ge_from_nid e = [] \<or> ge_to_nid e = [] then graph_error ''graph edges require from_nid and to_nid''
      else if ge_from_nid e = ge_to_nid e then graph_error ''graph self-edges are forbidden''
      else if ge_from_nid e \<notin> ids \<or> ge_to_nid e \<notin> ids
      then graph_error ''graph edge endpoints must appear in nodes''
      else check_edges ids es)"

definition graph_validate :: "graph_frame \<Rightarrow> unit nps_result" where
  "graph_validate f =
     (if length (gf_nodes f) > MAX_GRAPH_NODES
      then Err (FrameError (GRAPH_TOO_LARGE @ '': nodes length exceeds '' @ show_nat MAX_GRAPH_NODES))
      else if length (gf_edges f) > MAX_GRAPH_EDGES
      then Err (FrameError (GRAPH_TOO_LARGE @ '': edges length exceeds '' @ show_nat MAX_GRAPH_EDGES))
      else if list_ex (\<lambda>n. gn_nid n = []) (gf_nodes f) then graph_error ''graph nodes require nid''
      else check_edges (set (map gn_nid (gf_nodes f))) (gf_edges f))"

definition graph_from_dict :: "frame_dict \<Rightarrow> graph_frame nps_result" where
  "graph_from_dict d =
     (let f = \<lparr>gf_graph_id = unwrap_or [] (opt_str d ''graph_id''),
               gf_nodes = unwrap_or [] (map_option (List.map_filter node_from_value) (get_array d ''nodes'')),
               gf_edges = unwrap_or [] (map_option (List.map_filter edge_from_value) (get_array d ''edges'')),
               gf_ttl = ucast (unwrap_or 300 (opt_u64 d ''ttl'')),
               gf_metadata = opt_object d ''metadata''\<rparr>
      in try_res (graph_validate f) (\<lambda>_. Ok f))"

section \<open>Graphs that are read\<close>

definition graph_ok :: "graph_frame \<Rightarrow> bool" where
  "graph_ok f \<longleftrightarrow> length (gf_nodes f) \<le> 256 \<and> length (gf_edges f) \<le> 1024
     \<and> (\<forall>n \<in> set (gf_nodes f). gn_nid n \<noteq> [])
     \<and> (\<forall>e \<in> set (gf_edges f). ge_from_nid e \<noteq> ge_to_nid e
          \<and> ge_from_nid e \<in> gn_nid ` set (gf_nodes f) \<and> ge_to_nid e \<in> gn_nid ` set (gf_nodes f))"

lemma check_edges_ok:
  "[] \<notin> ids \<Longrightarrow> check_edges ids es = Ok () \<longleftrightarrow>
     (\<forall>e \<in> set es. ge_from_nid e \<noteq> ge_to_nid e \<and> ge_from_nid e \<in> ids \<and> ge_to_nid e \<in> ids)"
  by (induction es) (auto simp: graph_error_def)

lemma graph_validate_ok: "graph_validate f = Ok () \<longleftrightarrow> graph_ok f"
proof (cases "\<exists>n \<in> set (gf_nodes f). gn_nid n = []")
  case True
  then show ?thesis by (auto simp: graph_validate_def graph_ok_def graph_error_def list_ex_iff)
next
  case False
  then have "[] \<notin> set (map gn_nid (gf_nodes f))" by auto
  from check_edges_ok [OF this] False show ?thesis
    by (auto simp: graph_validate_def graph_ok_def MAX_GRAPH_NODES_def MAX_GRAPH_EDGES_def list_ex_iff)
qed

lemma node_value_back [simp]: "node_from_value (node_to_value n) = Some n"
  by (cases "gn_cluster_anchor n"; cases "gn_node_roles n")
     (simp_all add: node_from_value_def node_to_value_def struct_fields_def opt_field_def str_list_def)

lemma edge_value_back [simp]: "edge_from_value (edge_to_value e) = Some e"
proof -
  have u32: "as_u32 (jnat (ucast n)) = Some n" for n :: u32
    using unsigned_less [of n, where 'a = nat] by (simp add: as_u32_def u32_widened) (simp add: unsigned_ucast_eq unsigned_take_bit_eq take_bit_nat_eq_self)
  show ?thesis
    by (cases "ge_latency_ms e"; cases "ge_protocol e")
       (simp_all add: edge_from_value_def edge_to_value_def struct_fields_def opt_field_def u32)
qed

lemma map_filter_back: "(\<And>x. g (h x) = Some x) \<Longrightarrow> List.map_filter g (map h xs) = xs"
  by (induction xs) (simp_all add: List.map_filter_def)

text \<open>Reading the dictionary of a graph gives the graph back exactly when it is
  within the limits, names all its nodes and has no dangling edge and no self-edge; every graph that
  is read from any dictionary has these properties.\<close>

theorem graph_roundtrip:
  "(graph_from_dict (graph_to_dict f) = Ok f \<longleftrightarrow> graph_ok f)
   \<and> (case graph_from_dict d of Inr g \<Rightarrow> graph_ok g | Inl e \<Rightarrow> True)"
proof -
  have "graph_from_dict (graph_to_dict f) = try_res (graph_validate f) (\<lambda>_. Ok f)"
    by (cases f) (simp add: graph_from_dict_def graph_to_dict_def Let_def fields map_filter_back u32_widened)
  then have "graph_from_dict (graph_to_dict f) = Ok f \<longleftrightarrow> graph_ok f"
    using graph_validate_ok [of f] by (cases "graph_validate f") auto
  moreover have "case graph_from_dict d of Inr g \<Rightarrow> graph_ok g | Inl e \<Rightarrow> True"
    using graph_validate_ok by (auto simp: graph_from_dict_def Let_def try_res_eq_Inr split: sum.splits)
  ultimately show ?thesis ..
qed

end
