(* ===== verification/Ndp_Registry.thy ===== *)
theory Ndp_Registry
  imports Ndp_Frames Ttl_Store
begin

text \<open>
  \<^verbatim>\<open>nps-ndp/src/registry.rs\<close>, \<^verbatim>\<open>dns_txt.rs\<close> and \<^verbatim>\<open>federation.rs\<close>: the in-memory registry of announcements, the resolution
  of targets and clusters, the DNS fallback and the forwarding header. The clock reading is the
  argument \<open>now\<close>, the iteration order of the hash map is the argument \<open>order\<close>, the DNS resolver the
  argument \<open>lookup_txt\<close>. The registry interprets the expiring-map contract.
\<close>

section \<open>Cluster resolution\<close>

definition CLUSTER_SPLIT :: string where "CLUSTER_SPLIT = ''NDP-CLUSTER-SPLIT''"

record cluster_split_error =
  cs_cluster_anchor :: string
  cs_epoch :: u64

text \<open>\<open>resolve_cluster\<close>, the provided method of the trait \<open>NdpClusterResolution\<close>, on the live frames.\<close>

definition cluster_members :: "announce_frame list \<Rightarrow> string \<Rightarrow> announce_frame list" where
  "cluster_members live anchor = filter (\<lambda>f. af_cluster_anchor f = Some anchor) live"

definition resolve_cluster :: "announce_frame list \<Rightarrow> string \<Rightarrow> cluster_split_error + announce_frame option" where
  "resolve_cluster live anchor =
     (if anchor = [] then Ok None
      else let members = cluster_members live anchor
           in if members = [] then Ok None
              else let top = Max (set (map effective_cluster_epoch members));
                       leaders = filter (\<lambda>f. effective_cluster_epoch f = top) members
                   in if length leaders > 1
                      then Err \<lparr>cs_cluster_anchor = anchor, cs_epoch = top\<rparr>
                      else Ok (if leaders = [] then None else Some (hd leaders)))"

section \<open>The in-memory registry\<close>

record resolve_result =
  rr_host :: string
  rr_port :: u64
  rr_protocol :: string

record registry_entry =
  re_frame :: announce_frame
  re_expires :: instant

type_synonym registry = "(string \<times> registry_entry) list"

definition registry_new :: registry where "registry_new = []"

definition registry_put :: "string \<Rightarrow> announce_frame \<Rightarrow> instant \<Rightarrow> registry \<Rightarrow> registry" where
  "registry_put nid f e r = AList.update nid \<lparr>re_frame = f, re_expires = e\<rparr> r"

text \<open>\<open>announce\<close>: \<open>None\<close> when computing the expiry time panics.\<close>

definition registry_announce :: "instant \<Rightarrow> announce_frame \<Rightarrow> registry \<Rightarrow> registry option" where
  "registry_announce now f r =
     (if af_ttl f = 0 then Some (AList.delete (af_nid f) r)
      else case instant_add_secs now (af_ttl f) of
             None \<Rightarrow> None
           | Some e \<Rightarrow> Some (registry_put (af_nid f) f e r))"

definition get_by_nid :: "registry \<Rightarrow> instant \<Rightarrow> string \<Rightarrow> announce_frame option" where
  "get_by_nid r now nid = (case map_of r nid of
       Some e \<Rightarrow> if re_expires e > now then Some (re_frame e) else None
     | None \<Rightarrow> None)"

definition get_all :: "(registry \<Rightarrow> registry) \<Rightarrow> registry \<Rightarrow> instant \<Rightarrow> announce_frame list" where
  "get_all order r now = map (\<lambda>(k, e). re_frame e) (filter (\<lambda>(k, e). re_expires e > now) (order r))"

text \<open>A target \<open>nwp://authority/path\<close> against a node id \<open>urn:nps:node:host:path\<close>.\<close>

definition nwp_target_matches_nid :: "string \<Rightarrow> string \<Rightarrow> bool" where
  "nwp_target_matches_nid nid target =
     (let parts = split_char CHR '':'' nid
      in if length parts < 5 \<or> parts ! 0 \<noteq> ''urn'' \<or> parts ! 1 \<noteq> ''nps'' \<or> parts ! 2 \<noteq> ''node'' then False
         else let nid_host = parts ! 3; nid_path = join ''/'' (drop 4 parts)
              in case strip_prefix ''nwp://'' target of
                   None \<Rightarrow> False
                 | Some rest \<Rightarrow>
                     (case split_once CHR ''/'' rest of
                        None \<Rightarrow> False
                      | Some (authority, path) \<Rightarrow>
                          if authority \<noteq> nid_host then False
                          else path = nid_path \<or> starts_with (nid_path @ ''/'') path))"

definition address_result :: "frame_dict \<Rightarrow> resolve_result" where
  "address_result addr =
     \<lparr>rr_host = unwrap_or [] (opt_str addr ''host''), rr_port = unwrap_or 17433 (opt_u64 addr ''port''),
      rr_protocol = unwrap_or ''nwp'' (opt_str addr ''protocol'')\<rparr>"

definition registry_resolve :: "(registry \<Rightarrow> registry) \<Rightarrow> registry \<Rightarrow> instant \<Rightarrow> string \<Rightarrow> resolve_result option" where
  "registry_resolve order r now target =
     (case find (\<lambda>f. nwp_target_matches_nid (af_nid f) target) (get_all order r now) of
        None \<Rightarrow> None
      | Some f \<Rightarrow> (case af_addresses f of [] \<Rightarrow> None | addr # _ \<Rightarrow> Some (address_result addr)))"

definition registry_resolve_cluster :: "(registry \<Rightarrow> registry) \<Rightarrow> registry \<Rightarrow> instant \<Rightarrow> string
    \<Rightarrow> cluster_split_error + announce_frame option" where
  "registry_resolve_cluster order r now anchor = resolve_cluster (get_all order r now) anchor"

section \<open>DNS TXT records\<close>

definition extract_host_from_target :: "string \<Rightarrow> string option" where
  "extract_host_from_target target =
     (case strip_prefix ''nwp://'' target of
        None \<Rightarrow> None
      | Some rest \<Rightarrow> map_option fst (split_once CHR ''/'' rest))"

record txt_fields =
  tx_version :: "string option"
  tx_nid :: "string option"
  tx_port :: u64

definition txt_token :: "string \<Rightarrow> txt_fields \<Rightarrow> txt_fields" where
  "txt_token t acc =
     (case split_once CHR ''='' t of
        None \<Rightarrow> acc
      | Some (key, val) \<Rightarrow>
          if key = ''v'' then acc\<lparr>tx_version := Some val\<rparr>
          else if key = ''nid'' then acc\<lparr>tx_nid := Some val\<rparr>
          else if key = ''port'' then (case parse_u64 val of Some p \<Rightarrow> acc\<lparr>tx_port := p\<rparr> | None \<Rightarrow> acc)
          else acc)"

definition parse_nps_txt_record :: "string \<Rightarrow> string \<Rightarrow> resolve_result option" where
  "parse_nps_txt_record txt host =
     (let r = fold txt_token (split_whitespace txt) \<lparr>tx_version = None, tx_nid = None, tx_port = 17433\<rparr>
      in if tx_version r \<noteq> Some ''nps1'' then None
         else if tx_nid r = None then None
         else Some \<lparr>rr_host = host, rr_port = tx_port r, rr_protocol = ''https''\<rparr>)"

fun first_valid :: "string \<Rightarrow> string list \<Rightarrow> resolve_result option" where
  "first_valid host [] = None"
| "first_valid host (record # records) =
     (case parse_nps_txt_record record host of Some r \<Rightarrow> Some r | None \<Rightarrow> first_valid host records)"

definition resolve_via_dns :: "(registry \<Rightarrow> registry) \<Rightarrow> registry \<Rightarrow> instant \<Rightarrow> (string \<Rightarrow> string + string list) \<Rightarrow> string
    \<Rightarrow> resolve_result option" where
  "resolve_via_dns order r now lookup_txt target =
     (case registry_resolve order r now target of
        Some result \<Rightarrow> Some result
      | None \<Rightarrow>
          (case extract_host_from_target target of
             None \<Rightarrow> None
           | Some host \<Rightarrow>
               (case lookup_txt (''_nps-node.'' @ host) of
                  Inl e \<Rightarrow> None
                | Inr records \<Rightarrow> first_valid host records)))"

section \<open>Federation\<close>

definition MAX_FEDERATION_HOPS :: nat where "MAX_FEDERATION_HOPS = 3"

definition FEDERATION_LOOP :: string where "FEDERATION_LOOP = ''NDP-FEDERATION-LOOP''"

definition parse_forwarded_by :: "string option \<Rightarrow> string list" where
  "parse_forwarded_by header =
     filter (\<lambda>hop. hop \<noteq> []) (map trim (split_char CHR '','' (unwrap_or [] header)))"

definition append_forwarded_by :: "string \<Rightarrow> string option \<Rightarrow> string option nps_result" where
  "append_forwarded_by own_nid header =
     (let hops = parse_forwarded_by header
      in if list_ex (\<lambda>hop. hop = own_nid) hops
         then Err (FrameError (FEDERATION_LOOP @ '': own NID already appears in ndp-forwarded-by''))
         else if length hops \<ge> MAX_FEDERATION_HOPS then Ok None
         else Ok (Some (join '', '' (hops @ [own_nid]))))"

section \<open>The registry is an expiring map\<close>

definition reg_del :: "string \<Rightarrow> registry \<Rightarrow> registry" where
  "reg_del nid r = AList.delete nid r"

interpretation registry: ttl_map get_by_nid registry_put reg_del
  by unfold_locales
     (auto simp: get_by_nid_def registry_put_def reg_del_def update_conv' delete_conv' split: option.splits if_splits)

end
