(* ===== verification/Ndp_Registry_Props.thy ===== *)
theory Ndp_Registry_Props
  imports Ndp_Registry "HOL-Library.Multiset"
begin

text \<open>
  What the registry promises: how long an announcement lives, which node a target names, who leads a
  cluster, in whatever order the hash map lists its entries, and how the forwarding header grows.
\<close>

section \<open>Reachable registries\<close>


definition registry_ok :: "registry \<Rightarrow> bool" where
  "registry_ok r \<longleftrightarrow> distinct (map fst r) \<and> (\<forall>(k, e) \<in> set r. k = af_nid (re_frame e))"


section \<open>The lifetime of an announcement\<close>

text \<open>After an announcement its frame is found under its id until its time to
  live has run out and not from then on; an announcement with time to live 0 removes the entry;
  other ids are not affected.\<close>

theorem announce_lifetime:
  assumes "registry_announce now f r = Some r'"
  shows "get_by_nid r' t x =
    (if x = af_nid f
     then if unat (af_ttl f) * NANOS > 0 \<and> t < now + unat (af_ttl f) * NANOS then Some f else None
     else get_by_nid r t x)"
proof (cases "af_ttl f = 0")
  case True
  then have "r' = reg_del (af_nid f) r" using assms by (simp add: registry_announce_def reg_del_def)
  then show ?thesis using True by (simp add: registry.look_del)
next
  case False
  then have "0 < unat (af_ttl f)" by (simp add: unat_gt_0)
  moreover obtain e where "r' = registry_put (af_nid f) f e r" "e = now + unat (af_ttl f) * NANOS"
    using assms False by (auto simp: registry_announce_def instant_add_secs_def split: if_splits option.splits)
  ultimately show ?thesis by (simp add: registry.look_put NANOS_def)
qed

definition demo_announce :: "string \<Rightarrow> u64 \<Rightarrow> announce_frame" where
  "demo_announce nid epoch =
     \<lparr>af_nid = nid, af_addresses = [], af_caps = [], af_ttl = 60, af_timestamp = [], af_signature = [],
      af_node_type = None, af_node_roles = None, af_cluster_anchor = Some ''c'', af_cluster_epoch = Some epoch,
      af_spawn_spec_ref = None, af_bridge_protocols = None, af_bridge_inbound_protocols = None,
      af_activation_mode = None, af_activation_endpoint = None, af_heartbeat_interval_ms = 0,
      af_health = None, af_last_seen = None, af_graph_seq = None\<rparr>"

lemma demo_registry:
  "registry_announce 0 (demo_announce ''x'' 2) registry_new =
     Some [(''x'', \<lparr>re_frame = demo_announce ''x'' 2, re_expires = 60 * NANOS\<rparr>)]"
  by (simp add: registry_announce_def registry_new_def demo_announce_def instant_add_secs_def registry_put_def NANOS_def)

theorem announce_lifetime_witness:
  "get_by_nid [(''x'', \<lparr>re_frame = demo_announce ''x'' 2, re_expires = 60 * NANOS\<rparr>)] 5 ''x'' = Some (demo_announce ''x'' 2)"
  using announce_lifetime [OF demo_registry, of 5 "''x''"] by (simp add: demo_announce_def NANOS_def)

section \<open>Cluster leaders\<close>

lemma distinct_singleton: "distinct xs \<Longrightarrow> set xs = {f} \<Longrightarrow> xs = [f]"
proof -
  assume "distinct xs" "set xs = {f}"
  then have "length xs = Suc 0" using distinct_card [OF \<open>distinct xs\<close>] by simp
  then obtain x where "xs = [x]" by (auto simp: length_Suc_conv)
  with \<open>set xs = {f}\<close> show ?thesis by simp
qed

text \<open>The contract of a registry that lists its live frames: it lists exactly the frames that are found
  under their ids, each once.\<close>

locale live_view =
  fixes ok :: "'s \<Rightarrow> bool"
    and live :: "'s \<Rightarrow> announce_frame list"
    and look :: "'s \<Rightarrow> string \<Rightarrow> announce_frame option"
  assumes live_distinct: "ok s \<Longrightarrow> distinct (live s)"
    and live_look: "ok s \<Longrightarrow> f \<in> set (live s) \<longleftrightarrow> look s (af_nid f) = Some f"
begin

lemma members_look:
  "ok s \<Longrightarrow> f \<in> set (cluster_members (live s) a) \<longleftrightarrow> look s (af_nid f) = Some f \<and> af_cluster_anchor f = Some a"
  by (simp add: cluster_members_def live_look)

lemma leader_iff:
  assumes "ok s"
  shows "resolve_cluster (live s) a = Ok (Some f) \<longleftrightarrow> a \<noteq> [] \<and> f \<in> set (cluster_members (live s) a)
    \<and> (\<forall>g \<in> set (cluster_members (live s) a). g = f \<or> effective_cluster_epoch g < effective_cluster_epoch f)"
    (is "?L \<longleftrightarrow> ?R")
proof -
  let ?ms = "cluster_members (live s) a" and ?ep = effective_cluster_epoch
  let ?top = "Max (set (map ?ep ?ms))"
  let ?ls = "filter (\<lambda>f. ?ep f = ?top) ?ms"
  have dist: "distinct ?ls" using live_distinct [OF assms] by (simp add: cluster_members_def)
  have top: "?ep g \<le> ?top" if "g \<in> set ?ms" for g using that by (intro Max_ge) auto
  have lne: "?ls \<noteq> []" if "?ms \<noteq> []"
  proof -
    have "?top \<in> set (map ?ep ?ms)" using that by (intro Max_in) auto
    then show ?thesis by (auto simp: filter_empty_conv)
  qed
  have L: "?L \<longleftrightarrow> a \<noteq> [] \<and> ?ms \<noteq> [] \<and> ?ls = [f]"
    using lne by (cases ?ls) (auto simp: resolve_cluster_def Let_def)
  show ?thesis
  proof
    assume "?L"
    then have l: "?ls = [f]" "a \<noteq> []" using L by auto
    have "f \<in> set ?ls" unfolding l(1) by simp
    then have f: "f \<in> set ?ms" "?ep f = ?top" unfolding set_filter by blast+
    have "g = f \<or> ?ep g < ?ep f" if "g \<in> set ?ms" for g
    proof (cases "?ep g = ?top")
      case True
      then have "g \<in> set ?ls" using that by simp
      with l show ?thesis by simp
    qed (use top [OF that] f in auto)
    with l f show ?R by blast
  next
    assume R: ?R
    then have "?top = ?ep f" by (intro Max_eqI) auto
    with R have "set ?ls = {f}" by auto
    then have "?ls = [f]" by (rule distinct_singleton [OF dist])
    with L R show ?L by auto
  qed
qed

end

text \<open>A registry together with a time and an iteration order.\<close>

interpretation live: live_view
  "\<lambda>(order, r, now). registry_ok r \<and> mset (order r) = mset r"
  "\<lambda>(order, r, now). get_all order r now"
  "\<lambda>(order, r, now). get_by_nid r now"
proof (unfold_locales, goal_cases)
  case (1 s)
  obtain order r now where s: "s = (order, r, now)" by (cases s)
  with 1 have ok: "registry_ok r" "mset (order r) = mset r" by auto
  have "mset (map fst (order r)) = mset (map fst r)" using ok(2) by simp
  then have "distinct (map fst (order r))" 
    using ok(1) mset_eq_imp_distinct_iff [of "map fst (order r)" "map fst r"] unfolding registry_ok_def by blast
  then have "distinct (map fst (filter (\<lambda>(k, e). re_expires e > now) (order r)))" by (rule distinct_map_filter)
  moreover have "map fst (filter (\<lambda>(k, e). re_expires e > now) (order r)) = map af_nid (get_all order r now)"
    using ok(1) mset_eq_setD [OF ok(2)] unfolding get_all_def registry_ok_def by auto
  ultimately show ?case using s by (simp add: distinct_map)
next
  case (2 s f)
  obtain order r now where s: "s = (order, r, now)" by (cases s)
  with 2 have ok: "distinct (map fst r)" "\<forall>(k, e) \<in> set r. k = af_nid (re_frame e)" "set (order r) = set r"
    by (auto simp: registry_ok_def dest: mset_eq_setD)
  have "f \<in> set (get_all order r now) \<longleftrightarrow> (\<exists>k e. (k, e) \<in> set r \<and> re_expires e > now \<and> re_frame e = f)"
    using ok(3) by (force simp: get_all_def)
  also have "\<dots> \<longleftrightarrow> (\<exists>e. map_of r (af_nid f) = Some e \<and> re_expires e > now \<and> re_frame e = f)"
    using ok(1,2) by (auto simp: map_of_eq_Some_iff)
  also have "\<dots> \<longleftrightarrow> get_by_nid r now (af_nid f) = Some f"
    by (auto simp: get_by_nid_def split: option.splits)
  finally show ?case by (simp add: s)
qed



section \<open>Targets\<close>

text \<open>A target \<open>nwp://host/path\<close> names the node \<open>urn:nps:node:host:seg1:...:segn\<close>
  exactly when the hosts are equal and the path is \<open>seg1/.../segn\<close> or lies below it; a sibling whose
  name only starts alike does not match.\<close>

theorem target_matches_iff:
  assumes "CHR '':'' \<notin> set host" "segs \<noteq> []" "\<forall>s \<in> set segs. CHR '':'' \<notin> set s" "CHR ''/'' \<notin> set authority"
  shows "nwp_target_matches_nid (''urn:nps:node:'' @ host @ '':'' @ join '':'' segs) (''nwp://'' @ authority @ ''/'' @ path) \<longleftrightarrow>
     authority = host \<and> (path = join ''/'' segs \<or> (\<exists>below. path = join ''/'' segs @ ''/'' @ below))"
proof -
  have "''urn:nps:node:'' @ host @ '':'' @ join '':'' segs = join '':'' ([''urn'', ''nps'', ''node'', host] @ segs)"
    using assms(2) by (cases segs) simp_all
  then have parts: "split_char CHR '':'' (''urn:nps:node:'' @ host @ '':'' @ join '':'' segs) = [''urn'', ''nps'', ''node'', host] @ segs"
    using split_char_join [of "[''urn'', ''nps'', ''node'', host] @ segs" "CHR '':''"] assms(1,3) by auto
  have "split_once CHR ''/'' (authority @ ''/'' @ path) = Some (authority, path)"
    using assms(4) by (simp add: split_once_Some)
  moreover have "length segs \<ge> 1" using assms(2) by (cases segs) auto
  ultimately show ?thesis
    unfolding nwp_target_matches_nid_def parts Let_def strip_prefix_append
    by (auto simp: starts_with_strip)
qed

theorem target_matches_iff_witness:
  "nwp_target_matches_nid ''urn:nps:node:api.example.com:data'' ''nwp://api.example.com/data/x''
   \<and> \<not> nwp_target_matches_nid ''urn:nps:node:api.example.com:data'' ''nwp://api.example.com/dataset''"
  using target_matches_iff [of "''api.example.com''" "[''data'']" "''api.example.com''" "''data/x''"]
    target_matches_iff [of "''api.example.com''" "[''data'']" "''api.example.com''" "''dataset''"]
  by simp

section \<open>The forwarding header\<close>

lemma join_first: "join sep ((c # x) # xs) = c # join sep (x # xs)"
  by (cases xs) simp_all

lemma join_comma: "join '', '' (x # xs) = join '','' (x # map (\<lambda>y. CHR '' '' # y) xs)"
  by (induction xs arbitrary: x) (simp_all add: join_first)

lemma trim_space: "trim (CHR '' '' # x) = trim x"
  by (simp add: trim_def trim_start_def is_whitespace_def)

definition plain_hop :: "string \<Rightarrow> bool" where
  "plain_hop h \<longleftrightarrow> h \<noteq> [] \<and> trim h = h \<and> CHR '','' \<notin> set h"

lemma parse_hops_plain: "h \<in> set (parse_forwarded_by header) \<Longrightarrow> plain_hop h"
proof -
  assume "h \<in> set (parse_forwarded_by header)"
  then obtain p where p: "p \<in> set (split_char CHR '','' (unwrap_or [] header))" "h = trim p" "h \<noteq> []"
    by (auto simp: parse_forwarded_by_def)
  have "CHR '','' \<notin> set p" using split_by_parts [OF p(1)] by auto
  moreover have "set (trim p) \<subseteq> set p"
    by (auto simp: trim_def trim_end_def trim_start_def dest!: set_dropWhileD)
  ultimately show ?thesis using p by (auto simp: plain_hop_def)
qed

lemma parse_join_plain:
  assumes "\<forall>h \<in> set hops. plain_hop h"
  shows "parse_forwarded_by (Some (join '', '' hops)) = hops"
proof (cases hops)
  case (Cons x xs)
  let ?ys = "x # map (\<lambda>y. CHR '' '' # y) xs"
  have "split_char CHR '','' (join '', '' hops) = ?ys"
    unfolding Cons join_comma using assms Cons by (intro split_char_join) (auto simp: plain_hop_def)
  moreover have "map trim ?ys = hops" using assms Cons by (auto simp: trim_space plain_hop_def intro!: map_idI)
  moreover have "filter (\<lambda>h. h \<noteq> []) hops = hops" using assms by (auto simp: filter_id_conv plain_hop_def)
  ultimately show ?thesis by (simp add: parse_forwarded_by_def)
qed (simp add: parse_forwarded_by_def trim_def trim_start_def trim_end_def)

text \<open>Forwarding adds the own id as the last hop of the header and keeps the hops
  before it; it is refused when the id is among them, and no header of three hops or more is extended,
  so a request is forwarded at most three times and never back to a registry that it passed.\<close>

theorem forwarding_adds_one_hop:
  assumes "plain_hop own"
  shows "case append_forwarded_by own header of
      Inl e \<Rightarrow> own \<in> set (parse_forwarded_by header)
    | Inr None \<Rightarrow> own \<notin> set (parse_forwarded_by header) \<and> 3 \<le> length (parse_forwarded_by header)
    | Inr (Some header') \<Rightarrow> own \<notin> set (parse_forwarded_by header)
        \<and> parse_forwarded_by (Some header') = parse_forwarded_by header @ [own]
        \<and> length (parse_forwarded_by (Some header')) \<le> 3"
proof -
  have "parse_forwarded_by (Some (join '', '' (parse_forwarded_by header @ [own]))) = parse_forwarded_by header @ [own]"
    using parse_hops_plain assms by (intro parse_join_plain) auto
  then show ?thesis
    by (auto simp: append_forwarded_by_def Let_def MAX_FEDERATION_HOPS_def list_ex_iff)
qed

theorem forwarding_adds_one_hop_witness:
  "parse_forwarded_by (Some ''a, b'') = [''a'', ''b''] \<and>
   (case append_forwarded_by ''c'' (Some ''a, b'') of Inr (Some h) \<Rightarrow> parse_forwarded_by (Some h) = [''a'', ''b'', ''c''] | _ \<Rightarrow> False)"
proof -
  have plain: "plain_hop ''a''" "plain_hop ''b''" "plain_hop ''c''"
    by (simp_all add: plain_hop_def trim_def trim_start_def trim_end_def is_whitespace_def)
  have p: "parse_forwarded_by (Some ''a, b'') = [''a'', ''b'']"
    using parse_join_plain [of "[''a'', ''b'']"] plain by simp
  then show ?thesis using forwarding_adds_one_hop [OF plain(3), of "Some ''a, b''"]
    by (simp add: append_forwarded_by_def Let_def MAX_FEDERATION_HOPS_def)
qed

end
