(* ===== verification/Ndp_Profile.thy ===== *)
theory Ndp_Profile
  imports Ndp_Registry Nip_Signer
begin

text \<open>
  \<^verbatim>\<open>nps-ndp/src/registry_profile.rs\<close> and \<^verbatim>\<open>validator.rs\<close>: the admission of announcements by the registry profile
  and the check of their signatures. Times are seconds since the epoch, an \<open>int\<close> within the bounds of
  \<open>i64\<close>; SHA-256 and the reader of RFC 3339 times come with the record \<open>crypto\<close>. The hash maps are
  association lists with distinct keys; every operation that lists one sorts what it returns.
\<close>

section \<open>Error codes\<close>

definition ANNOUNCE_SIGNATURE_INVALID :: string where
  "ANNOUNCE_SIGNATURE_INVALID = ''NDP-ANNOUNCE-SIGNATURE-INVALID''"
definition ANNOUNCE_NID_MISMATCH :: string where
  "ANNOUNCE_NID_MISMATCH = ''NDP-ANNOUNCE-NID-MISMATCH''"
definition ANNOUNCE_CONFLICT :: string where
  "ANNOUNCE_CONFLICT = ''NDP-ANNOUNCE-CONFLICT''"
definition ANNOUNCE_PROFILE_VIOLATION :: string where
  "ANNOUNCE_PROFILE_VIOLATION = ''NDP-ANNOUNCE-PROFILE-VIOLATION''"
definition ANNOUNCE_STALE :: string where
  "ANNOUNCE_STALE = ''NDP-ANNOUNCE-STALE''"
definition GRAPH_SEQ_ROLLBACK :: string where
  "GRAPH_SEQ_ROLLBACK = ''NDP-GRAPH-SEQ-ROLLBACK''"

section \<open>Outcomes\<close>

datatype decision = Accepted | Duplicate | Refreshed | Removed | Rejected

fun decision_as_str :: "decision \<Rightarrow> string" where
  "decision_as_str Accepted = ''accepted''"
| "decision_as_str Duplicate = ''duplicate''"
| "decision_as_str Refreshed = ''refreshed''"
| "decision_as_str Removed = ''removed''"
| "decision_as_str Rejected = ''rejected''"

record admission =
  ad_decision :: decision
  ad_error :: "string option"

record cluster_selection =
  sel_nid :: "string option"
  sel_epoch :: "u64 option"
  sel_error :: "string option"

record profile_entry =
  pe_frame :: jvalue
  pe_digest :: string
  pe_expires :: int

definition accepted :: "decision \<Rightarrow> admission" where
  "accepted d = \<lparr>ad_decision = d, ad_error = None\<rparr>"

definition reject :: "string \<Rightarrow> admission" where
  "reject e = \<lparr>ad_decision = Rejected, ad_error = Some e\<rparr>"

section \<open>Reading an announcement\<close>

definition string_value :: "frame_dict \<Rightarrow> string \<Rightarrow> string option" where
  "string_value frame field = Option.bind (map_of frame field) as_str"

definition number_value :: "frame_dict \<Rightarrow> string \<Rightarrow> u64 option" where
  "number_value frame field = Option.bind (map_of frame field) as_u64"

definition strings :: "frame_dict \<Rightarrow> string \<Rightarrow> string list" where
  "strings frame field = unwrap_or [] (map_option (List.map_filter as_str) (Option.bind (map_of frame field) as_array))"

definition time_value :: "crypto \<Rightarrow> frame_dict \<Rightarrow> string \<Rightarrow> int option" where
  "time_value cr frame field = Option.bind (string_value frame field) (\<lambda>v. map_option (\<lambda>t. t div 1000000000) (rfc3339_read cr v))"

definition is_bridge :: "frame_dict \<Rightarrow> bool" where
  "is_bridge frame \<longleftrightarrow>
     ''bridge'' \<in> set (strings frame ''node_roles'') \<or> string_value frame ''node_type'' = Some ''bridge''"

fun protocol_items :: "jvalue list \<Rightarrow> string list option" where
  "protocol_items [] = Some []"
| "protocol_items (item # items) =
     (case as_str item of
        None \<Rightarrow> None
      | Some v \<Rightarrow> if trim v = [] then None else map_option (\<lambda>vs. v # vs) (protocol_items items))"

definition protocol_list :: "frame_dict \<Rightarrow> string \<Rightarrow> (bool \<times> string list) option" where
  "protocol_list frame field =
     (case map_of frame field of
        None \<Rightarrow> Some (False, [])
      | Some v \<Rightarrow> (case as_array v of
            None \<Rightarrow> None
          | Some items \<Rightarrow> map_option (Pair True) (protocol_items items)))"

definition bridge_shape_is_valid :: "frame_dict \<Rightarrow> bool" where
  "bridge_shape_is_valid frame =
     (case protocol_list frame ''bridge_protocols'' of
        None \<Rightarrow> False
      | Some (outbound_present, outbound) \<Rightarrow>
          (case protocol_list frame ''bridge_inbound_protocols'' of
             None \<Rightarrow> False
           | Some (inbound_present, inbound) \<Rightarrow>
               if is_bridge frame then outbound \<noteq> [] \<or> inbound \<noteq> []
               else \<not> outbound_present \<and> \<not> inbound_present))"

definition i64_ok :: "int \<Rightarrow> bool" where
  "i64_ok x \<longleftrightarrow> - (2 ^ 63) \<le> x \<and> x < 2 ^ 63"

definition i64_checked :: "int \<Rightarrow> int option" where
  "i64_checked x = (if i64_ok x then Some x else None)"

definition freshness_deadline :: "crypto \<Rightarrow> frame_dict \<Rightarrow> int option" where
  "freshness_deadline cr frame =
     (case (case time_value cr frame ''last_seen'' of Some t \<Rightarrow> Some t | None \<Rightarrow> time_value cr frame ''timestamp'') of
        None \<Rightarrow> None
      | Some src \<Rightarrow>
          Option.bind (i64_checked (uint (unwrap_or 0 (number_value frame ''ttl''))))
            (\<lambda>ttl. i64_checked (src + ttl)))"

fun opt_jv_eq :: "jvalue option \<Rightarrow> jvalue option \<Rightarrow> bool" where
  "opt_jv_eq None None = True"
| "opt_jv_eq (Some a) (Some b) = jv_eq a b"
| "opt_jv_eq _ _ = False"

definition same_liveness :: "jvalue \<Rightarrow> jvalue \<Rightarrow> bool" where
  "same_liveness left right \<longleftrightarrow>
     opt_jv_eq (jget left ''health'') (jget right ''health'')
   \<and> opt_jv_eq (jget left ''last_seen'') (jget right ''last_seen'')"

section \<open>The signed body\<close>

function write_canonical :: "crypto \<Rightarrow> jvalue \<Rightarrow> string" where
  "write_canonical cr val = (case val of
       JObject obj \<Rightarrow> ''{'' @ join '','' (map (\<lambda>(k, v). json_text cr (JString k) @ '':'' @ write_canonical cr v)
                        (sort_key fst (filter (\<lambda>(k, v). \<not> is_null v) obj))) @ ''}''
     | JArray items \<Rightarrow> ''['' @ join '','' (map (write_canonical cr) items) @ '']''
     | scalar \<Rightarrow> json_text cr scalar)"
  by pat_completeness auto
termination
  by (relation "measure (\<lambda>(cr, v). size v)") (auto dest: size_array_elem size_object_elem)

declare write_canonical.simps [simp del]

lemma write_canonical_simps:
  "write_canonical cr (JObject obj) = ''{'' @ join '','' (map (\<lambda>(k, v). json_text cr (JString k) @ '':'' @ write_canonical cr v)
                        (sort_key fst (filter (\<lambda>(k, v). \<not> is_null v) obj))) @ ''}''"
  "write_canonical cr (JArray items) = ''['' @ join '','' (map (write_canonical cr) items) @ '']''"
  "write_canonical cr (JString s) = json_text cr (JString s)"
  "write_canonical cr (JNumber n) = json_text cr (JNumber n)"
  by (subst write_canonical.simps, simp)+

definition announce_body :: "frame_dict \<Rightarrow> frame_dict" where
  "announce_body obj =
     (let root = fold bt_remove [''frame'', ''signature'', ''health'', ''last_seen''] obj;
          root = filter (\<lambda>(k, v). \<not> is_null v) root
      in if map_of root ''heartbeat_interval_ms'' = None
         then bt_insert ''heartbeat_interval_ms'' (jnat 60000) root else root)"

definition canonical_announce_json :: "crypto \<Rightarrow> jvalue \<Rightarrow> string + string" where
  "canonical_announce_json cr frame =
     (case as_object frame of
        None \<Rightarrow> Err ''AnnounceFrame must be an object''
      | Some obj \<Rightarrow> Ok (write_canonical cr (JObject (announce_body obj))))"

definition verify_announce_signature :: "crypto \<Rightarrow> jvalue \<Rightarrow> string \<Rightarrow> string \<Rightarrow> bool" where
  "verify_announce_signature cr frame encoded_public_key encoded_signature =
     (case decode_public_key cr encoded_public_key of
        None \<Rightarrow> False
      | Some key \<Rightarrow>
          (case strip_prefix PREFIX encoded_signature of
             None \<Rightarrow> False
           | Some signature_body \<Rightarrow>
               (case b64url_decode cr signature_body of
                  None \<Rightarrow> False
                | Some sig \<Rightarrow>
                    if length sig \<noteq> 64 then False
                    else (case canonical_announce_json cr frame of
                       Inl e \<Rightarrow> False
                     | Inr canonical \<Rightarrow> ed_verify cr key (utf8 canonical) sig))))"

section \<open>The registry profile\<close>

record ndp_profile =
  np_security :: string
  np_entries :: "(string \<times> profile_entry) list"
  np_sequences :: "(string \<times> u64) list"

definition profile_new :: "string \<Rightarrow> ndp_profile" where
  "profile_new security_profile = \<lparr>np_security = security_profile, np_entries = [], np_sequences = []\<rparr>"

definition profile_default :: ndp_profile where
  "profile_default = profile_new ''local-dev''"

text \<open>What \<open>apply_announce\<close> has read when it comes to the state.\<close>

record announce_facts =
  an_object :: frame_dict
  an_nid :: string
  an_sequence :: u64
  an_ttl :: u64
  an_digest :: string

definition read_sequence :: "string \<Rightarrow> frame_dict \<Rightarrow> u64 option" where
  "read_sequence security_profile obj =
     (case map_of obj ''graph_seq'' of
        Some v \<Rightarrow> as_u64 v
      | None \<Rightarrow> if security_profile = ''local-dev'' then Some 0 else None)"

text \<open>The checks before the state is read. The outer \<open>None\<close> is an overflow in
  \<open>(received_at - timestamp).abs()\<close>, which panics where overflow checks are on.\<close>

definition announce_check :: "crypto \<Rightarrow> string \<Rightarrow> jvalue \<Rightarrow> bool \<Rightarrow> int \<Rightarrow> (string + announce_facts) option" where
  "announce_check cr security_profile frame signature_valid received_at =
     (if \<not> signature_valid then Some (Err ANNOUNCE_SIGNATURE_INVALID)
      else case as_object frame of None \<Rightarrow> Some (Err ANNOUNCE_PROFILE_VIOLATION) | Some obj \<Rightarrow>
       (case string_value obj ''nid'' of None \<Rightarrow> Some (Err ANNOUNCE_PROFILE_VIOLATION) | Some nid \<Rightarrow>
       (case time_value cr obj ''timestamp'' of None \<Rightarrow> Some (Err ANNOUNCE_PROFILE_VIOLATION) | Some timestamp \<Rightarrow>
       (case read_sequence security_profile obj of None \<Rightarrow> Some (Err ANNOUNCE_PROFILE_VIOLATION) | Some sequence \<Rightarrow>
       (case number_value obj ''ttl'' of None \<Rightarrow> Some (Err ANNOUNCE_PROFILE_VIOLATION) | Some ttl \<Rightarrow>
          if unat ttl > 2 ^ 32 - 1 then Some (Err ANNOUNCE_PROFILE_VIOLATION)
          else if \<not> bridge_shape_is_valid obj then Some (Err ANNOUNCE_PROFILE_VIOLATION)
          else
           let admit = (case canonical_announce_json cr frame of
                  Inl e \<Rightarrow> Err ANNOUNCE_PROFILE_VIOLATION
                | Inr canonical \<Rightarrow> Ok \<lparr>an_object = obj, an_nid = nid, an_sequence = sequence, an_ttl = ttl,
                                       an_digest = sha256_hex cr canonical\<rparr>)
           in if security_profile \<noteq> ''local-dev''
              then (case Option.bind (i64_checked (received_at - timestamp)) (\<lambda>d. i64_checked \<bar>d\<bar>) of
                      None \<Rightarrow> None
                    | Some skew \<Rightarrow> Some (if skew > 300 then Err ANNOUNCE_SIGNATURE_INVALID else admit))
              else Some admit)))))"

definition put_entry :: "jvalue \<Rightarrow> announce_facts \<Rightarrow> int \<Rightarrow> ndp_profile \<Rightarrow> ndp_profile" where
  "put_entry frame a expires_at p =
     p\<lparr>np_entries := AList.update (an_nid a) \<lparr>pe_frame = frame, pe_digest = an_digest a, pe_expires = expires_at\<rparr> (np_entries p)\<rparr>"

text \<open>The sequence number of the announcement is the highest seen for its node.\<close>

definition apply_same_sequence :: "crypto \<Rightarrow> jvalue \<Rightarrow> announce_facts \<Rightarrow> int \<Rightarrow> ndp_profile \<Rightarrow> admission \<times> ndp_profile" where
  "apply_same_sequence cr frame a received_at p =
     (case map_of (np_entries p) (an_nid a) of
        None \<Rightarrow> (accepted Duplicate, p)
      | Some current \<Rightarrow>
          if pe_digest current \<noteq> an_digest a then (reject ANNOUNCE_CONFLICT, p)
          else if same_liveness (pe_frame current) frame then (accepted Duplicate, p)
          else (case freshness_deadline cr (an_object a) of
             None \<Rightarrow> (reject ANNOUNCE_STALE, p)
           | Some expires_at \<Rightarrow>
               if expires_at \<le> received_at then (reject ANNOUNCE_STALE, p)
               else (accepted Refreshed, put_entry frame a expires_at p)))"

text \<open>The sequence number of the announcement is higher than any seen for its node.\<close>

definition apply_new_sequence :: "crypto \<Rightarrow> jvalue \<Rightarrow> announce_facts \<Rightarrow> int \<Rightarrow> ndp_profile \<Rightarrow> admission \<times> ndp_profile" where
  "apply_new_sequence cr frame a received_at p =
     (let q = p\<lparr>np_sequences := AList.update (an_nid a) (an_sequence a) (np_sequences p)\<rparr>
      in if an_ttl a = 0
         then (accepted Removed, q\<lparr>np_entries := AList.delete (an_nid a) (np_entries q)\<rparr>)
         else (case freshness_deadline cr (an_object a) of
            None \<Rightarrow> (reject ANNOUNCE_STALE, p)
          | Some expires_at \<Rightarrow>
              if expires_at \<le> received_at then (reject ANNOUNCE_STALE, p)
              else (accepted Accepted, put_entry frame a expires_at q)))"

definition apply_announce :: "crypto \<Rightarrow> jvalue \<Rightarrow> bool \<Rightarrow> int \<Rightarrow> ndp_profile \<Rightarrow> (admission \<times> ndp_profile) option" where
  "apply_announce cr frame signature_valid received_at p =
     (case announce_check cr (np_security p) frame signature_valid received_at of
        None \<Rightarrow> None
      | Some (Inl e) \<Rightarrow> Some (reject e, p)
      | Some (Inr a) \<Rightarrow>
          Some (case map_of (np_sequences p) (an_nid a) of
             None \<Rightarrow> apply_new_sequence cr frame a received_at p
           | Some highest \<Rightarrow>
               if an_sequence a < highest then (reject GRAPH_SEQ_ROLLBACK, p)
               else if an_sequence a = highest then apply_same_sequence cr frame a received_at p
               else apply_new_sequence cr frame a received_at p))"

section \<open>Queries\<close>

definition live_entries :: "ndp_profile \<Rightarrow> int \<Rightarrow> (string \<times> profile_entry) list" where
  "live_entries p now = filter (\<lambda>(nid, e). pe_expires e > now) (np_entries p)"

definition live_nids :: "ndp_profile \<Rightarrow> int \<Rightarrow> string list" where
  "live_nids p now = sort (map fst (live_entries p now))"

definition highest_sequences :: "ndp_profile \<Rightarrow> (string, u64) btree" where
  "highest_sequences p = bt_collect (np_sequences p)"

definition has_stale_entry :: "ndp_profile \<Rightarrow> int \<Rightarrow> bool" where
  "has_stale_entry p now = list_ex (\<lambda>(nid, e). pe_expires e \<le> now) (np_entries p)"

definition anchor_member :: "string \<Rightarrow> string \<times> profile_entry \<Rightarrow> (string \<times> u64) option" where
  "anchor_member cluster_anchor ne =
     Option.bind (as_object (pe_frame (snd ne))) (\<lambda>frame.
       if string_value frame ''cluster_anchor'' \<noteq> Some cluster_anchor
          \<or> ''anchor'' \<notin> set (strings frame ''node_roles'')
       then None else Some (fst ne, unwrap_or 1 (number_value frame ''cluster_epoch'')))"

definition profile_resolve_cluster :: "ndp_profile \<Rightarrow> string \<Rightarrow> int \<Rightarrow> cluster_selection" where
  "profile_resolve_cluster p cluster_anchor now =
     (let members = List.map_filter (anchor_member cluster_anchor) (live_entries p now)
      in if members = [] then \<lparr>sel_nid = None, sel_epoch = None, sel_error = None\<rparr>
         else let top = Max (set (map snd members));
                  leaders = sort (map fst (filter (\<lambda>(nid, epoch). epoch = top) members))
              in if length leaders = 1
                 then \<lparr>sel_nid = Some (hd leaders), sel_epoch = Some top, sel_error = None\<rparr>
                 else \<lparr>sel_nid = None, sel_epoch = None, sel_error = Some CLUSTER_SPLIT\<rparr>)"

definition bridge_serves :: "string \<Rightarrow> string \<Rightarrow> profile_entry \<Rightarrow> bool" where
  "bridge_serves field protocol e =
     (case as_object (pe_frame e) of
        None \<Rightarrow> False
      | Some frame \<Rightarrow>
          \<not> (string_value frame ''health'' = Some ''draining'' \<or> \<not> is_bridge frame
             \<or> protocol \<notin> set (strings frame field)))"

definition discover_bridges :: "ndp_profile \<Rightarrow> string \<Rightarrow> string \<Rightarrow> int \<Rightarrow> string list" where
  "discover_bridges p direction protocol now =
     (if direction = ''inbound'' \<or> direction = ''outbound''
      then let field = (if direction = ''inbound'' then ''bridge_inbound_protocols'' else ''bridge_protocols'')
           in sort (map fst (filter (\<lambda>(nid, e). bridge_serves field protocol e) (live_entries p now)))
      else [])"

section \<open>The validator of announcements\<close>

record announce_result =
  ar_is_valid :: bool
  ar_error_code :: "string option"
  ar_message :: "string option"

definition result_ok :: announce_result where
  "result_ok = \<lparr>ar_is_valid = True, ar_error_code = None, ar_message = None\<rparr>"

definition result_fail :: "string \<Rightarrow> string \<Rightarrow> announce_result" where
  "result_fail c msg = \<lparr>ar_is_valid = False, ar_error_code = Some c, ar_message = Some msg\<rparr>"

type_synonym announce_validator = "(string \<times> string) list"

definition validator_new :: announce_validator where "validator_new = []"

definition register_public_key :: "string \<Rightarrow> string \<Rightarrow> announce_validator \<Rightarrow> announce_validator" where
  "register_public_key nid pub_key ks = AList.update nid pub_key ks"

definition remove_public_key :: "string \<Rightarrow> announce_validator \<Rightarrow> announce_validator" where
  "remove_public_key nid ks = AList.delete nid ks"

definition validate_announce :: "crypto \<Rightarrow> announce_validator \<Rightarrow> announce_frame \<Rightarrow> announce_result" where
  "validate_announce cr ks frame =
     (case map_of ks (af_nid frame) of
        None \<Rightarrow> result_fail ANNOUNCE_NID_MISMATCH (''no public key registered for NID '' @ af_nid frame)
      | Some pub_key \<Rightarrow>
          if \<not> starts_with PREFIX (af_signature frame)
          then result_fail ANNOUNCE_SIGNATURE_INVALID ''signature must have ed25519: prefix''
          else if verify_announce_signature cr (JObject (announce_to_dict frame)) pub_key (af_signature frame)
                \<or> verify_with_pub_key_str cr (announce_unsigned_dict frame) pub_key (af_signature frame)
          then result_ok
          else result_fail ANNOUNCE_SIGNATURE_INVALID ''signature verification failed'')"

end
