(* ===== verification/Ndp_Profile_Props.thy ===== *)
theory Ndp_Profile_Props
  imports Ndp_Profile
begin

text \<open>
  What the registry profile promises: the invariant of its states, what each decision does to the state,
  and that a node cannot say two things under one sequence number. The interface \<open>sequenced_store\<close>
  carries the law of one step over to runs of any length.
\<close>

section \<open>One announcement\<close>

definition facts_of :: "crypto \<Rightarrow> string \<Rightarrow> jvalue \<Rightarrow> announce_facts \<Rightarrow> bool" where
  "facts_of cr sec frame a \<longleftrightarrow>
     frame = JObject (an_object a) \<and> string_value (an_object a) ''nid'' = Some (an_nid a)
   \<and> read_sequence sec (an_object a) = Some (an_sequence a) \<and> number_value (an_object a) ''ttl'' = Some (an_ttl a)
   \<and> bridge_shape_is_valid (an_object a)
   \<and> (\<exists>c. canonical_announce_json cr frame = Ok c \<and> an_digest a = sha256_hex cr c)"

lemma announce_check_facts:
  assumes "announce_check cr sec frame valid t = Some (Inr a)"
  shows "facts_of cr sec frame a \<and> valid"
proof -
  obtain obj where "frame = JObject obj"
    using assms by (cases frame) (auto simp: announce_check_def split: if_splits)
  then show ?thesis
    using assms
    by (auto simp: announce_check_def facts_of_def Let_def split: if_splits option.splits sum.splits)
qed

lemma apply_same_sequence_split:
  assumes "apply_same_sequence cr frame a t p = (adm, p')"
  shows "(\<exists>e. adm = reject e \<and> p' = p) \<or> (adm = accepted Duplicate \<and> p' = p)
    \<or> (\<exists>cur x. adm = accepted Refreshed \<and> map_of (np_entries p) (an_nid a) = Some cur \<and> pe_digest cur = an_digest a
         \<and> freshness_deadline cr (an_object a) = Some x \<and> t < x \<and> p' = put_entry frame a x p)"
  using assms by (auto simp: apply_same_sequence_def not_le split: option.splits if_splits)

lemma apply_new_sequence_split:
  assumes "apply_new_sequence cr frame a t p = (adm, p')"
  shows "(\<exists>e. adm = reject e \<and> p' = p)
    \<or> (adm = accepted Removed \<and> an_ttl a = 0
       \<and> p' = p\<lparr>np_sequences := AList.update (an_nid a) (an_sequence a) (np_sequences p),
                np_entries := AList.delete (an_nid a) (np_entries p)\<rparr>)
    \<or> (\<exists>x. adm = accepted Accepted \<and> freshness_deadline cr (an_object a) = Some x \<and> t < x
         \<and> p' = put_entry frame a x (p\<lparr>np_sequences := AList.update (an_nid a) (an_sequence a) (np_sequences p)\<rparr>))"
  using assms by (auto simp: apply_new_sequence_def Let_def not_le split: option.splits if_splits)

text \<open>The ways an announcement changes the state.\<close>

lemma apply_announce_cases:
  assumes "apply_announce cr frame valid t p = Some (adm, p')"
  obtains (rejected) e where "adm = reject e" "p' = p"
  | (duplicate) a where "facts_of cr (np_security p) frame a" "adm = accepted Duplicate" "p' = p"
  | (refreshed) a x cur where "facts_of cr (np_security p) frame a" "adm = accepted Refreshed"
      "map_of (np_sequences p) (an_nid a) = Some (an_sequence a)"
      "map_of (np_entries p) (an_nid a) = Some cur" "pe_digest cur = an_digest a"
      "freshness_deadline cr (an_object a) = Some x" "t < x" "p' = put_entry frame a x p"
  | (removed) a where "facts_of cr (np_security p) frame a" "adm = accepted Removed" "an_ttl a = 0"
      "\<forall>s. map_of (np_sequences p) (an_nid a) = Some s \<longrightarrow> s < an_sequence a"
      "p' = p\<lparr>np_sequences := AList.update (an_nid a) (an_sequence a) (np_sequences p),
             np_entries := AList.delete (an_nid a) (np_entries p)\<rparr>"
  | (accepted) a x where "facts_of cr (np_security p) frame a" "adm = accepted Accepted"
      "\<forall>s. map_of (np_sequences p) (an_nid a) = Some s \<longrightarrow> s < an_sequence a"
      "freshness_deadline cr (an_object a) = Some x" "t < x"
      "p' = put_entry frame a x (p\<lparr>np_sequences := AList.update (an_nid a) (an_sequence a) (np_sequences p)\<rparr>)"
proof -
  consider e where "announce_check cr (np_security p) frame valid t = Some (Inl e)"
    | a where "announce_check cr (np_security p) frame valid t = Some (Inr a)"
    using assms by (auto simp: apply_announce_def split: option.splits sum.splits)
  then show thesis
  proof cases
    case 1
    with assms show thesis by (intro rejected [of e]) (simp_all add: apply_announce_def)
  next
    case (2 a)
    have f: "facts_of cr (np_security p) frame a" using announce_check_facts [OF 2] by simp
    let ?s = "map_of (np_sequences p) (an_nid a)"
    consider (low) s where "?s = Some s" "an_sequence a < s" | (eq) "?s = Some (an_sequence a)"
      | (new) "\<forall>s. ?s = Some s \<longrightarrow> s < an_sequence a"
      by (cases ?s) (auto, metis not_less_iff_gr_or_eq)
    then show thesis
    proof cases
      case low
      with assms 2 show thesis by (intro rejected [of GRAPH_SEQ_ROLLBACK]) (simp_all add: apply_announce_def)
    next
      case eq
      then have "apply_same_sequence cr frame a t p = (adm, p')"
        using assms 2 by (simp add: apply_announce_def)
      from apply_same_sequence_split [OF this] show thesis
        by (elim disjE exE conjE)
          ((rule rejected; assumption) | (rule duplicate [OF f]; assumption) | (rule refreshed [OF f _ eq]; assumption))+
    next
      case new
      then have "apply_new_sequence cr frame a t p = (adm, p')"
        using assms 2 by (cases ?s) (auto simp: apply_announce_def dest: less_asym split: if_splits)
      from apply_new_sequence_split [OF this] show thesis
        by (elim disjE exE conjE)
          ((rule rejected; assumption) | (rule removed [OF f _ _ new]; assumption) | (rule accepted [OF f _ new]; assumption))+
    qed
  qed
qed

lemma put_entry_simps [simp]:
  "np_security (put_entry f a x p) = np_security p"
  "np_sequences (put_entry f a x p) = np_sequences p"
  "map_of (np_entries (put_entry f a x p)) n =
     (if n = an_nid a then Some \<lparr>pe_frame = f, pe_digest = an_digest a, pe_expires = x\<rparr> else map_of (np_entries p) n)"
  by (simp_all add: put_entry_def update_conv')

section \<open>The invariant\<close>

definition entry_ok :: "crypto \<Rightarrow> ndp_profile \<Rightarrow> string \<Rightarrow> profile_entry \<Rightarrow> bool" where
  "entry_ok cr p nid e \<longleftrightarrow>
     (\<exists>a. facts_of cr (np_security p) (pe_frame e) a \<and> an_nid a = nid \<and> an_digest a = pe_digest e
        \<and> map_of (np_sequences p) nid = Some (an_sequence a)
        \<and> freshness_deadline cr (an_object a) = Some (pe_expires e))"

definition profile_ok :: "crypto \<Rightarrow> ndp_profile \<Rightarrow> bool" where
  "profile_ok cr p \<longleftrightarrow>
     distinct (map fst (np_entries p)) \<and> distinct (map fst (np_sequences p))
   \<and> (\<forall>nid e. map_of (np_entries p) nid = Some e \<longrightarrow> entry_ok cr p nid e)"

inductive profile_step :: "crypto \<Rightarrow> ndp_profile \<Rightarrow> ndp_profile \<Rightarrow> bool" for cr where
  announce: "apply_announce cr frame valid t p = Some (adm, p') \<Longrightarrow> profile_step cr p p'"

lemma profile_ok_new: "profile_ok cr (profile_new s)"
  by (simp add: profile_ok_def profile_new_def)

lemma profile_ok_step:
  assumes "apply_announce cr frame valid t p = Some (adm, p')" and ok: "profile_ok cr p"
  shows "profile_ok cr p'"
  using assms(1)
proof (cases rule: apply_announce_cases)
  case (refreshed a x cur)
  have "entry_ok cr p (an_nid a) \<lparr>pe_frame = frame, pe_digest = an_digest a, pe_expires = x\<rparr>"
    unfolding entry_ok_def using refreshed by auto
  with ok refreshed(8) show ?thesis
    by (auto simp: profile_ok_def put_entry_def update_conv' distinct_update entry_ok_def)
next
  case (removed a)
  with ok show ?thesis
    by (auto simp: profile_ok_def update_conv' delete_conv' distinct_update distinct_delete entry_ok_def)
next
  case (accepted a x)
  with ok show ?thesis
    by (auto simp: profile_ok_def put_entry_def update_conv' distinct_update entry_ok_def)
qed (use ok in simp_all)

lemma profile_ok_run: "(profile_step cr)\<^sup>*\<^sup>* p p' \<Longrightarrow> profile_ok cr p \<Longrightarrow> profile_ok cr p'"
  by (induction rule: rtranclp_induct) (auto elim: profile_step.cases intro: profile_ok_step)

text \<open>An announcement and the state it leads to.\<close>

definition demo_frame :: jvalue where
  "demo_frame = JObject [(''graph_seq'', jnat 7), (''nid'', JString ''n''), (''timestamp'', JString ''stamp''), (''ttl'', jnat 10)]"

definition demo_profile :: ndp_profile where
  "demo_profile = \<lparr>np_security = ''open'',
     np_entries = [(''n'', \<lparr>pe_frame = demo_frame, pe_digest =
       ''{graph_seq:null,heartbeat_interval_ms:null,nid:n,timestamp:stamp,ttl:null}'', pe_expires = 15\<rparr>)],
     np_sequences = [(''n'', 7)]\<rparr>"

lemma demo_announce:
  "apply_announce plain_crypto demo_frame True 0 (profile_new ''open'') = Some (accepted Accepted, demo_profile)"
  unfolding apply_announce_def announce_check_def canonical_announce_json_def profile_new_def demo_frame_def demo_profile_def
  by (simp add: string_value_def number_value_def time_value_def read_sequence_def plain_crypto_def
      bridge_shape_is_valid_def protocol_list_def is_bridge_def strings_def i64_checked_def i64_ok_def
      announce_body_def bt_remove_def write_canonical_simps apply_new_sequence_def freshness_deadline_def put_entry_def)

lemma demo_run: "(profile_step plain_crypto)\<^sup>*\<^sup>* (profile_new ''open'') demo_profile"
  by (rule r_into_rtranclp, rule announce, rule demo_announce)

text \<open>Property C32 (invariant). In every state that a registry profile reaches, each node has at most one entry and one
  sequence number, and an entry is an announcement of its node that passed the checks of the profile,
  under the node's sequence number, with the digest of its own signed body and the deadline of its own
  time stamps.\<close>

theorem profile_invariant:
  assumes "(profile_step cr)\<^sup>*\<^sup>* (profile_new sec) p"
  shows "profile_ok cr p"
  by (rule profile_ok_run [OF assms profile_ok_new])

theorem profile_invariant_witness: "profile_ok plain_crypto demo_profile"
  by (rule profile_invariant [OF demo_run])

section \<open>Sequence numbers\<close>

text \<open>A store in which every key has a number that no step lowers, and a text that a step may drop but
  not change under the same number.\<close>

locale sequenced_store =
  fixes step :: "'s \<Rightarrow> 's \<Rightarrow> bool"
    and num :: "'s \<Rightarrow> 'k \<Rightarrow> ('n::linorder) option"
    and body :: "'s \<Rightarrow> 'k \<Rightarrow> 'v option"
  assumes step_num: "step s s' \<Longrightarrow> num s k = Some n \<Longrightarrow> \<exists>n'. num s' k = Some n' \<and> n \<le> n'"
    and step_body: "step s s' \<Longrightarrow> num s k = num s' k \<Longrightarrow> num s k \<noteq> None \<Longrightarrow> body s' k = Some v \<Longrightarrow> body s k = Some v"
begin

lemma run_num: "step\<^sup>*\<^sup>* s s' \<Longrightarrow> num s k = Some n \<Longrightarrow> \<exists>n'. num s' k = Some n' \<and> n \<le> n'"
proof (induction rule: rtranclp_induct)
  case (step s' s'')
  then obtain n' where "num s' k = Some n'" "n \<le> n'" by blast
  with step_num [OF step.hyps(2)] show ?case by (meson order_trans)
qed simp

lemma run_body: "step\<^sup>*\<^sup>* s s' \<Longrightarrow> num s k = Some n \<Longrightarrow> num s' k = Some n \<Longrightarrow> body s' k = Some v \<Longrightarrow> body s k = Some v"
proof (induction arbitrary: v rule: rtranclp_induct)
  case (step s' s'')
  obtain n' where n': "num s' k = Some n'" "n \<le> n'" using run_num [OF step.hyps(1) step.prems(1)] by blast
  obtain n'' where "num s'' k = Some n''" "n' \<le> n''" using step_num [OF step.hyps(2) n'(1)] by blast
  with n' step.prems(2) have same: "num s' k = Some n" by simp
  then have "body s' k = Some v" using step_body [OF step.hyps(2)] step.prems(2,3) by simp
  then show ?case by (rule step.IH [OF step.prems(1) same])
qed

end

definition entry_digest :: "ndp_profile \<Rightarrow> string \<Rightarrow> string option" where
  "entry_digest p nid = map_option pe_digest (map_of (np_entries p) nid)"

interpretation profile: sequenced_store "profile_step cr" "\<lambda>p. map_of (np_sequences p)" entry_digest for cr
proof
  fix s s' :: ndp_profile and k n
  assume "profile_step cr s s'" "map_of (np_sequences s) k = Some n"
  then show "\<exists>n'. map_of (np_sequences s') k = Some n' \<and> n \<le> n'"
    by (auto elim!: profile_step.cases apply_announce_cases simp: update_conv' dest: less_imp_le)
next
  fix s s' :: ndp_profile and k v
  assume "profile_step cr s s'" "map_of (np_sequences s) k = map_of (np_sequences s') k" "map_of (np_sequences s) k \<noteq> None"
    "entry_digest s' k = Some v"
  then show "entry_digest s k = Some v"
    by (auto elim!: profile_step.cases apply_announce_cases simp: entry_digest_def update_conv' delete_conv' split: if_splits)
qed

text \<open>Property C33 (safety). A node's sequence number never goes back, and a node cannot equivocate: whatever announcements
  arrive, as long as the number is the same the registry holds either nothing for the node or the signed
  body that it held before.\<close>

theorem no_equivocation:
  assumes "(profile_step cr)\<^sup>*\<^sup>* p p'" and "map_of (np_sequences p) nid = Some s"
  shows "\<exists>s'. map_of (np_sequences p') nid = Some s' \<and> s \<le> s'
    \<and> (s' = s \<longrightarrow> (\<forall>e'. map_of (np_entries p') nid = Some e'
         \<longrightarrow> (\<exists>e. map_of (np_entries p) nid = Some e \<and> pe_digest e = pe_digest e')))"
proof -
  obtain s' where s': "map_of (np_sequences p') nid = Some s'" "s \<le> s'"
    using profile.run_num [OF assms] by blast
  have "\<exists>e. map_of (np_entries p) nid = Some e \<and> pe_digest e = pe_digest e'"
    if "s' = s" "map_of (np_entries p') nid = Some e'" for e'
    using profile.run_body [OF assms(1,2), of "pe_digest e'"] s'(1) that by (auto simp: entry_digest_def)
  with s' show ?thesis by blast
qed

theorem no_equivocation_witness:
  "\<exists>s'. map_of (np_sequences demo_profile) ''n'' = Some s' \<and> 7 \<le> s'"
  using no_equivocation [of plain_crypto demo_profile demo_profile "''n''" 7] by (auto simp: demo_profile_def)

section \<open>What a decision means\<close>

lemma mem_live_nids:
  "distinct (map fst (np_entries p)) \<Longrightarrow>
     nid \<in> set (live_nids p now) \<longleftrightarrow> (\<exists>e. map_of (np_entries p) nid = Some e \<and> now < pe_expires e)"
  by (force simp: live_nids_def live_entries_def)

definition announced_nid :: "jvalue \<Rightarrow> string option" where
  "announced_nid frame = Option.bind (as_object frame) (\<lambda>obj. string_value obj ''nid'')"

text \<open>The decision says what the state does: a rejection comes with an error code, and a rejection
  and a duplicate change nothing; an accepted or refreshed announcement is live when it is received; after a
  removal the node is not live at any time; and no other node is affected.\<close>

theorem decision_meaning:
  assumes "apply_announce cr frame valid t p = Some (adm, p')" and "profile_ok cr p"
  shows "(ad_error adm \<noteq> None \<longleftrightarrow> ad_decision adm = Rejected)
    \<and> (ad_decision adm \<in> {Rejected, Duplicate} \<longrightarrow> p' = p)
    \<and> (ad_decision adm \<in> {Accepted, Refreshed} \<longrightarrow> (\<exists>nid. announced_nid frame = Some nid \<and> nid \<in> set (live_nids p' t)))
    \<and> (ad_decision adm = Removed \<longrightarrow> (\<exists>nid. announced_nid frame = Some nid \<and> (\<forall>now. nid \<notin> set (live_nids p' now))))
    \<and> (\<forall>x. Some x \<noteq> announced_nid frame \<longrightarrow> map_of (np_entries p') x = map_of (np_entries p) x
                                            \<and> map_of (np_sequences p') x = map_of (np_sequences p) x)"
proof -
  have d: "distinct (map fst (np_entries p'))"
    using profile_ok_step [OF assms] by (simp add: profile_ok_def)
  have nid: "announced_nid frame = Some (an_nid a)" if "facts_of cr (np_security p) frame a" for a
    using that by (simp add: facts_of_def announced_nid_def)
  from assms(1) show ?thesis
  proof (cases rule: apply_announce_cases)
    case (refreshed a x cur)
    then show ?thesis using nid [OF refreshed(1)] by (simp add: accepted_def mem_live_nids d [unfolded refreshed(8)])
  next
    case (removed a)
    then show ?thesis
      using nid [OF removed(1)] by (simp add: accepted_def mem_live_nids d [unfolded removed(5), simplified] update_conv' delete_conv')
  next
    case (accepted a x)
    then show ?thesis
      using nid [OF accepted(1)] by (simp add: accepted_def mem_live_nids d [unfolded accepted(6)] update_conv')
  qed (simp_all add: reject_def accepted_def)
qed

theorem decision_meaning_witness: "''n'' \<in> set (live_nids demo_profile 0)"
  using decision_meaning [OF demo_announce profile_ok_new] by (simp add: accepted_def announced_nid_def demo_frame_def string_value_def)

section \<open>Signed announcements\<close>

lemma bt_wf_unsigned [wf_intros]: "bt_wf (announce_unsigned_dict f)"
  by (simp add: announce_unsigned_dict_def Let_def)

lemma bt_wf_announce [wf_intros]: "bt_wf (announce_to_dict f)"
  by (simp add: announce_to_dict_def Let_def bt_wf_unsigned)

lemma unsigned_dict_liveness [simp]:
  "announce_unsigned_dict (f\<lparr>af_signature := s, af_health := h, af_last_seen := l\<rparr>) = announce_unsigned_dict f"
  by (simp add: announce_unsigned_dict_def)

lemma announce_body_liveness:
  "announce_body (announce_to_dict (f\<lparr>af_signature := s, af_health := h, af_last_seen := l\<rparr>))
     = announce_body (announce_to_dict f)"
proof -
  let ?cut = "fold bt_remove [''frame'', ''signature'', ''health'', ''last_seen'']"
  let ?g = "f\<lparr>af_signature := s, af_health := h, af_last_seen := l\<rparr>"
  have "?cut (announce_to_dict ?g) = ?cut (announce_to_dict f)"
  proof (rule bt_ext)
    show "bt_wf (?cut (announce_to_dict ?g))" "bt_wf (?cut (announce_to_dict f))"
      by (simp_all add: bt_wf_remove bt_wf_announce)
    fix x
    have "map_of (announce_to_dict ?g) x = map_of (announce_to_dict f) x"
      if "x \<notin> {''signature'', ''health'', ''last_seen''}"
      using that by (simp add: announce_to_dict_def Let_def split del: if_split cong: if_cong)
    then show "map_of (?cut (announce_to_dict ?g)) x = map_of (?cut (announce_to_dict f)) x" by simp
  qed
  then show ?thesis by (simp only: announce_body_def)
qed

text \<open>An announcement that a node signs is valid for a validator that knows the node's key, with either
  signature format (the identity's over the dictionary, the profile's over the canonical body), and it
  stays valid when its health and its last-seen time are updated.\<close>

theorem signed_announcement_valid:
  assumes "crypto_laws cr"
    and "(key = pub_key_string cr sk \<and> sig = identity_sign cr sk (announce_unsigned_dict f))
       \<or> (key = encode_public_key cr (ed_public cr sk)
          \<and> sig = PREFIX @ b64url_encode cr (ed_sign cr sk (utf8 (write_canonical cr (JObject (announce_body (announce_to_dict f)))))))"
  shows "validate_announce cr (register_public_key (af_nid f) key ks)
           (f\<lparr>af_signature := sig, af_health := h, af_last_seen := l\<rparr>) = result_ok"
proof -
  let ?g = "f\<lparr>af_signature := sig, af_health := h, af_last_seen := l\<rparr>"
  have "starts_with PREFIX sig" using assms(2) by (auto simp: identity_sign_def starts_with_def)
  moreover have "verify_announce_signature cr (JObject (announce_to_dict ?g)) key sig
      \<or> verify_with_pub_key_str cr (announce_unsigned_dict ?g) key sig"
    using assms(2)
  proof (elim disjE conjE)
    assume k: "key = pub_key_string cr sk" "sig = identity_sign cr sk (announce_unsigned_dict f)"
    show ?thesis unfolding k using assms(1) by (simp add: identity_accepts)
  next
    assume k: "key = encode_public_key cr (ed_public cr sk)"
      "sig = PREFIX @ b64url_encode cr (ed_sign cr sk (utf8 (write_canonical cr (JObject (announce_body (announce_to_dict f))))))"
    have "verify_announce_signature cr (JObject (announce_to_dict ?g)) key sig"
      unfolding verify_announce_signature_def canonical_announce_json_def as_object.simps option.case
        announce_body_liveness
      using assms(1) by (simp add: k decode_encode_key crypto_laws_def)
    then show ?thesis ..
  qed
  ultimately show ?thesis by (simp add: validate_announce_def register_public_key_def update_conv')
qed

definition demo_announcement :: announce_frame where
  "demo_announcement =
     \<lparr>af_nid = ''n'', af_addresses = [], af_caps = [], af_ttl = 10, af_timestamp = ''stamp'', af_signature = [],
      af_node_type = None, af_node_roles = None, af_cluster_anchor = None, af_cluster_epoch = None,
      af_spawn_spec_ref = None, af_bridge_protocols = None, af_bridge_inbound_protocols = None,
      af_activation_mode = None, af_activation_endpoint = None, af_heartbeat_interval_ms = 60000,
      af_health = None, af_last_seen = None, af_graph_seq = Some 7\<rparr>"

theorem signed_announcement_valid_witness:
  "validate_announce plain_crypto (register_public_key (af_nid demo_announcement) (pub_key_string plain_crypto [7]) [])
     (demo_announcement\<lparr>af_signature := identity_sign plain_crypto [7] (announce_unsigned_dict demo_announcement),
        af_health := Some ''draining'', af_last_seen := None\<rparr>) = result_ok"
  by (rule signed_announcement_valid [OF plain_crypto_laws, of _ "[7]"]) simp

end
