(* ===== verification/Nip_Frames.thy ===== *)
theory Nip_Frames
  imports Dict_Frame Nip_Signer
begin

text \<open>
  \<^verbatim>\<open>nps-nip/src/assurance_level.rs\<close> and \<^verbatim>\<open>frames.rs\<close>: assurance levels and the identity, trust and revocation frames. \<open>TrustFrame\<close>
  and \<open>RevokeFrame\<close> interpret the contract \<open>dict_frame\<close>, the latter where it is valid; an \<open>IdentFrame\<close> is
  read back up to an empty list of capabilities.
\<close>

declare bt_insert.simps [simp del]

section \<open>Assurance levels\<close>

record assurance_level =
  al_wire :: string
  al_rank :: u8

definition ANONYMOUS :: assurance_level where "ANONYMOUS = \<lparr>al_wire = ''anonymous'', al_rank = 0\<rparr>"
definition ATTESTED :: assurance_level where "ATTESTED = \<lparr>al_wire = ''attested'', al_rank = 1\<rparr>"
definition VERIFIED :: assurance_level where "VERIFIED = \<lparr>al_wire = ''verified'', al_rank = 2\<rparr>"

lemmas assurance_defs = ANONYMOUS_def ATTESTED_def VERIFIED_def

definition meets_or_exceeds :: "assurance_level \<Rightarrow> assurance_level \<Rightarrow> bool" where
  "meets_or_exceeds l required \<longleftrightarrow> al_rank l \<ge> al_rank required"

definition level_from_wire :: "string \<Rightarrow> string + assurance_level" where
  "level_from_wire w =
     (if w = [] then Ok ANONYMOUS
      else case find (\<lambda>l. al_wire l = w) [ANONYMOUS, ATTESTED, VERIFIED] of
             Some l \<Rightarrow> Ok l
           | None \<Rightarrow> Err (''unknown assurance_level: '' @ debug_str w))"

definition level_from_rank :: "u8 \<Rightarrow> string + assurance_level" where
  "level_from_rank r =
     (case find (\<lambda>l. al_rank l = r) [ANONYMOUS, ATTESTED, VERIFIED] of
        Some l \<Rightarrow> Ok l
      | None \<Rightarrow> Err (''unknown assurance_level rank: '' @ show_nat (unat r)))"

text \<open>The levels that exist: the fields of the type are public, but every reader yields one of the three.\<close>

definition known_level :: "assurance_level \<Rightarrow> bool" where
  "known_level l \<longleftrightarrow> l \<in> {ANONYMOUS, ATTESTED, VERIFIED}"

lemma level_roundtrip:
  "known_level l \<Longrightarrow> level_from_wire (al_wire l) = Ok l \<and> level_from_rank (al_rank l) = Ok l"
  unfolding known_level_def by (elim insertE emptyE) (simp_all add: level_from_wire_def level_from_rank_def assurance_defs)

lemma level_from_wire_known: "level_from_wire w = Ok l \<Longrightarrow> known_level l"
  by (auto simp: level_from_wire_def known_level_def split: if_splits option.splits)

section \<open>IdentFrame\<close>

record reputation_hint =
  rh_log_sources :: "string list"
  rh_consent :: bool

record ident_frame =
  id_nid :: string
  id_pub_key :: string
  id_meta :: "frame_dict option"
  id_signature :: "string option"
  id_capabilities :: "string list"
  id_scope :: "jvalue option"
  id_issued_by :: "string option"
  id_issued_at :: "string option"
  id_expires_at :: "string option"
  id_serial :: "string option"
  id_assurance_level :: "assurance_level option"
  id_cert_format :: "string option"
  id_cert_chain :: "string list option"
  id_ocsp_staple :: "string option"
  id_reputation_policy :: "reputation_hint option"
  id_node_roles :: "string list option"

definition ident_new :: "string \<Rightarrow> string \<Rightarrow> ident_frame" where
  "ident_new nid pub_key =
     \<lparr>id_nid = nid, id_pub_key = pub_key, id_meta = None, id_signature = None, id_capabilities = [], id_scope = None,
      id_issued_by = None, id_issued_at = None, id_expires_at = None, id_serial = None, id_assurance_level = None,
      id_cert_format = None, id_cert_chain = None, id_ocsp_staple = None, id_reputation_policy = None,
      id_node_roles = None\<rparr>"

definition ident_unsigned_dict :: "ident_frame \<Rightarrow> frame_dict" where
  "ident_unsigned_dict f =
     (let m = bt_insert ''nid'' (JString (id_nid f)) [];
          m = bt_insert ''pub_key'' (JString (id_pub_key f)) m;
          m = bt_insert_opt ''metadata'' (map_option JObject (id_meta f)) m
      in bt_insert_opt ''assurance_level'' (map_option (\<lambda>l. JString (al_wire l)) (id_assurance_level f)) m)"

text \<open>The derived writer and reader of \<open>IdentReputationPolicyHint\<close>.\<close>

definition hint_to_value :: "reputation_hint \<Rightarrow> jvalue" where
  "hint_to_value h =
     JObject (let m = bt_insert ''consent'' (JBool (rh_consent h)) []
              in if rh_log_sources h = [] then m else bt_insert ''log_sources'' (jstrs (rh_log_sources h)) m)"

definition default_field :: "'a \<Rightarrow> (jvalue \<Rightarrow> 'a option) \<Rightarrow> jvalue option \<Rightarrow> 'a option" where
  "default_field d rd v = (case v of None \<Rightarrow> Some d | Some w \<Rightarrow> rd w)"

definition hint_fields :: "jvalue \<Rightarrow> (jvalue option \<times> jvalue option) option" where
  "hint_fields v = (case v of
       JObject m \<Rightarrow> Some (map_of m ''log_sources'', map_of m ''consent'')
     | JArray [] \<Rightarrow> Some (None, None)
     | JArray [a] \<Rightarrow> Some (Some a, None)
     | JArray [a, b] \<Rightarrow> Some (Some a, Some b)
     | _ \<Rightarrow> None)"

definition hint_from_value :: "jvalue \<Rightarrow> reputation_hint option" where
  "hint_from_value v = Option.bind (hint_fields v) (\<lambda>(a, b).
     case (default_field [] str_list a, default_field False as_bool b) of
       (Some l, Some c) \<Rightarrow> Some \<lparr>rh_log_sources = l, rh_consent = c\<rparr>
     | _ \<Rightarrow> None)"

definition ident_to_dict :: "ident_frame \<Rightarrow> frame_dict" where
  "ident_to_dict f =
     (let m = ident_unsigned_dict f;
          m = (if id_capabilities f = [] then m else bt_insert ''capabilities'' (jstrs (id_capabilities f)) m);
          m = bt_insert_opt ''scope'' (id_scope f) m;
          m = bt_insert_opt ''issued_by'' (map_option JString (id_issued_by f)) m;
          m = bt_insert_opt ''issued_at'' (map_option JString (id_issued_at f)) m;
          m = bt_insert_opt ''expires_at'' (map_option JString (id_expires_at f)) m;
          m = bt_insert_opt ''serial'' (map_option JString (id_serial f)) m;
          m = bt_insert_opt ''signature'' (map_option JString (id_signature f)) m;
          m = bt_insert_opt ''cert_format'' (map_option JString (id_cert_format f)) m;
          m = bt_insert_opt ''cert_chain'' (map_option jstrs (id_cert_chain f)) m;
          m = bt_insert_opt ''ocsp_staple'' (map_option JString (id_ocsp_staple f)) m;
          m = bt_insert_opt ''reputation_policy'' (map_option hint_to_value (id_reputation_policy f)) m
      in bt_insert_opt ''node_roles'' (map_option jstrs (id_node_roles f)) m)"

definition nip_get_str :: "frame_dict \<Rightarrow> string \<Rightarrow> string nps_result" where
  "nip_get_str d k = ok_or (FrameError (''missing field: '' @ k)) (opt_str d k)"

definition ident_from_dict :: "frame_dict \<Rightarrow> ident_frame nps_result" where
  "ident_from_dict d =
     try_res (nip_get_str d ''nid'') (\<lambda>nid.
     try_res (nip_get_str d ''pub_key'') (\<lambda>pub_key.
       Ok \<lparr>id_nid = nid, id_pub_key = pub_key, id_meta = opt_object d ''metadata'',
           id_signature = opt_str d ''signature'',
           id_capabilities = unwrap_or [] (get_strs d ''capabilities''), id_scope = map_of d ''scope'',
           id_issued_by = opt_str d ''issued_by'', id_issued_at = opt_str d ''issued_at'',
           id_expires_at = opt_str d ''expires_at'', id_serial = opt_str d ''serial'',
           id_assurance_level = Option.bind (opt_str d ''assurance_level'')
             (\<lambda>s. case level_from_wire s of Inl e \<Rightarrow> None | Inr l \<Rightarrow> Some l),
           id_cert_format = opt_str d ''cert_format'', id_cert_chain = get_strs d ''cert_chain'',
           id_ocsp_staple = opt_str d ''ocsp_staple'',
           id_reputation_policy = Option.bind (map_of d ''reputation_policy'') hint_from_value,
           id_node_roles = get_strs d ''node_roles''\<rparr>))"

section \<open>TrustFrame\<close>

record trust_frame =
  tr_grantor_nid :: string
  tr_grantee_ca :: string
  tr_trust_scope :: "string list"
  tr_nodes :: "string list"
  tr_issued_at :: string
  tr_expires_at :: string
  tr_serial :: string
  tr_signer_nid :: string
  tr_signature :: string

definition trust_unsigned_dict :: "trust_frame \<Rightarrow> frame_dict" where
  "trust_unsigned_dict f =
     (let m = bt_insert ''frame'' (JString ''0x21'') [];
          m = bt_insert ''grantor_nid'' (JString (tr_grantor_nid f)) m;
          m = bt_insert ''grantee_ca'' (JString (tr_grantee_ca f)) m;
          m = bt_insert ''trust_scope'' (jstrs (tr_trust_scope f)) m;
          m = bt_insert ''nodes'' (jstrs (tr_nodes f)) m;
          m = bt_insert ''issued_at'' (JString (tr_issued_at f)) m;
          m = bt_insert ''expires_at'' (JString (tr_expires_at f)) m;
          m = bt_insert ''serial'' (JString (tr_serial f)) m
      in bt_insert ''signer_nid'' (JString (tr_signer_nid f)) m)"

definition trust_to_dict :: "trust_frame \<Rightarrow> frame_dict" where
  "trust_to_dict f = bt_insert ''signature'' (JString (tr_signature f)) (trust_unsigned_dict f)"

definition or_else :: "'a option \<Rightarrow> 'a option \<Rightarrow> 'a option" where
  "or_else a b = (case a of None \<Rightarrow> b | Some x \<Rightarrow> Some x)"

lemma or_else_simps [simp]: "or_else (Some x) b = Some x" "or_else None b = b"
  by (simp_all add: or_else_def)

definition trust_from_dict :: "frame_dict \<Rightarrow> trust_frame nps_result" where
  "trust_from_dict d =
     try_res (ok_or (FrameError ''missing field: grantor_nid'') (or_else (opt_str d ''grantor_nid'') (opt_str d ''issuer_nid''))) (\<lambda>grantor.
     try_res (ok_or (FrameError ''missing field: grantee_ca'') (or_else (opt_str d ''grantee_ca'') (opt_str d ''subject_nid''))) (\<lambda>grantee.
     let trust_scope = unwrap_or [] (or_else (get_strs d ''trust_scope'') (get_strs d ''scopes'')) in
     try_res (nip_get_str d ''expires_at'') (\<lambda>expires_at.
     try_res (nip_get_str d ''signature'') (\<lambda>signature.
       Ok \<lparr>tr_grantor_nid = grantor, tr_grantee_ca = grantee, tr_trust_scope = trust_scope,
           tr_nodes = unwrap_or [] (get_strs d ''nodes''), tr_issued_at = unwrap_or [] (opt_str d ''issued_at''),
           tr_expires_at = expires_at, tr_serial = unwrap_or [] (opt_str d ''serial''),
           tr_signer_nid = unwrap_or [] (or_else (opt_str d ''signer_nid'') (or_else (opt_str d ''grantor_nid'') (opt_str d ''issuer_nid''))),
           tr_signature = signature\<rparr>))))"

interpretation trust: dict_frame trust_to_dict trust_from_dict "\<lambda>f. f"
  by unfold_locales
     (simp_all add: trust_to_dict_def trust_unsigned_dict_def trust_from_dict_def nip_get_str_def Let_def fields)

section \<open>RevokeFrame\<close>

definition REASON_PARENT_REVOKED :: string where "REASON_PARENT_REVOKED = ''parent_revoked''"
definition REVOKE_FRAME_INVALID :: string where "REVOKE_FRAME_INVALID = ''NIP-REVOKE-FRAME-INVALID''"

record revoke_frame =
  rv_target_nid :: string
  rv_serial :: "string option"
  rv_reason :: string
  rv_revoked_at :: string
  rv_parent_nid :: "string option"
  rv_signer_nid :: string
  rv_signature :: string

definition revoke_unsigned_dict :: "revoke_frame \<Rightarrow> frame_dict" where
  "revoke_unsigned_dict f =
     (let m = bt_insert ''frame'' (JString ''0x22'') [];
          m = bt_insert ''target_nid'' (JString (rv_target_nid f)) m;
          m = bt_insert ''reason'' (JString (rv_reason f)) m;
          m = bt_insert ''revoked_at'' (JString (rv_revoked_at f)) m;
          m = bt_insert ''signer_nid'' (JString (rv_signer_nid f)) m;
          m = bt_insert_opt ''serial'' (map_option JString (rv_serial f)) m
      in bt_insert_opt ''parent_nid'' (map_option JString (rv_parent_nid f)) m)"

definition revoke_to_dict :: "revoke_frame \<Rightarrow> frame_dict" where
  "revoke_to_dict f = bt_insert ''signature'' (JString (rv_signature f)) (revoke_unsigned_dict f)"

definition revoke_validate :: "revoke_frame \<Rightarrow> unit nps_result" where
  "revoke_validate f =
     (if rv_reason f = REASON_PARENT_REVOKED
      then if unwrap_or [] (rv_parent_nid f) = []
           then Err (FrameError (REVOKE_FRAME_INVALID @ '': parent_nid is required when reason=parent_revoked''))
           else Ok ()
      else if rv_parent_nid f \<noteq> None
      then Err (FrameError (REVOKE_FRAME_INVALID @ '': parent_nid must be omitted unless reason=parent_revoked''))
      else Ok ())"

definition revoke_from_dict :: "frame_dict \<Rightarrow> revoke_frame nps_result" where
  "revoke_from_dict d =
     try_res (ok_or (FrameError ''missing field: target_nid'') (or_else (opt_str d ''target_nid'') (opt_str d ''nid''))) (\<lambda>target.
     try_res (nip_get_str d ''reason'') (\<lambda>reason.
     try_res (nip_get_str d ''revoked_at'') (\<lambda>revoked_at.
       let f = \<lparr>rv_target_nid = target, rv_serial = opt_str d ''serial'', rv_reason = reason, rv_revoked_at = revoked_at,
                rv_parent_nid = opt_str d ''parent_nid'', rv_signer_nid = unwrap_or [] (opt_str d ''signer_nid''),
                rv_signature = unwrap_or [] (opt_str d ''signature'')\<rparr>
       in try_res (revoke_validate f) (\<lambda>_. Ok f))))"

lemma revoke_from_to: "revoke_from_dict (revoke_to_dict f) = try_res (revoke_validate f) (\<lambda>_. Ok f)"
  by (cases f) (simp add: revoke_from_dict_def revoke_to_dict_def revoke_unsigned_dict_def nip_get_str_def Let_def fields)

section \<open>Identity frames are read back\<close>

lemma hint_back [simp]: "hint_from_value (hint_to_value h) = Some h"
  by (cases h; cases "rh_log_sources h = []")
     (simp_all add: hint_from_value_def hint_to_value_def hint_fields_def default_field_def str_list_def Let_def)

lemma ident_fields_back [fields]:
  "field_of as_str (map_option (\<lambda>l. JString (al_wire l)) a) None = map_option al_wire a"
  "Option.bind (map_option al_wire a) g = Option.bind a (\<lambda>l. g (al_wire l))"
  "Option.bind (map_option hint_to_value r) hint_from_value = r"
  by (cases a; simp add: field_of_def)+ (cases r; simp)

definition ident_norm :: "ident_frame \<Rightarrow> ident_frame" where
  "ident_norm f = f\<lparr>id_assurance_level := Option.bind (id_assurance_level f)
     (\<lambda>l. case level_from_wire (al_wire l) of Inl e \<Rightarrow> None | Inr l \<Rightarrow> Some l)\<rparr>"

lemma ident_from_to: "ident_from_dict (ident_to_dict f) = Ok (ident_norm f)"
  by (cases f)
     (simp add: ident_from_dict_def ident_to_dict_def ident_unsigned_dict_def nip_get_str_def ident_norm_def Let_def fields)

end
