(* ===== verification/Nip_Der.thy ===== *)
theory Nip_Der
  imports Nip_Frames
begin

text \<open>
  \<^verbatim>\<open>nps-nip/src/phase3.rs\<close> and the encoders of \<^verbatim>\<open>x509/oids.rs\<close>: the reader of DER, the lookup of certificate extensions, the
  walk through an OCSP response and the enforcement that rests on them. A cursor is the rest of its
  bytes. A Rust \<open>String\<close> read from DER is kept as its UTF-8 bytes. Reading a date can panic: the value
  \<open>None\<close> on the outside.
\<close>

section \<open>Object identifiers\<close>

definition ID_NPS_NODE_ROLES_OID :: "nat list" where "ID_NPS_NODE_ROLES_OID = [1, 3, 6, 1, 4, 1, 65715, 2, 2]"
definition ID_NPS_CAPABILITIES_OID :: "nat list" where "ID_NPS_CAPABILITIES_OID = [1, 3, 6, 1, 4, 1, 65715, 2, 3]"

fun base128_high :: "nat \<Rightarrow> bytes" where
  "base128_high v = (if v = 0 then [] else base128_high (v div 128) @ [of_nat (v mod 128 + 128)])"

declare base128_high.simps [simp del]

definition oid_arc :: "nat \<Rightarrow> bytes" where
  "oid_arc n = (if n < 128 then [of_nat n] else base128_high (n div 128) @ [of_nat (n mod 128)])"

fun encode_oid_content :: "nat list \<Rightarrow> bytes" where
  "encode_oid_content (a # b # rest) = of_nat (a * 40 + b) # concat (map oid_arc rest)"
| "encode_oid_content _ = []"

section \<open>The DER cursor\<close>

definition read_len :: "bytes \<Rightarrow> (nat \<times> nat) option" where
  "read_len b =
     (case b of
        [] \<Rightarrow> None
      | first # rest \<Rightarrow>
          if first < 0x80 then Some (unat first, 1)
          else let n = unat first - 128
               in if n = 0 \<or> n > 4 \<or> length b < 1 + n then None
                  else Some (from_be (take n rest), 1 + n))"

definition der_read :: "bytes \<Rightarrow> ((u8 \<times> bytes) \<times> bytes) option" where
  "der_read b =
     (if length b < 2 then None
      else case read_len (tl b) of
             None \<Rightarrow> None
           | Some (len, hdr) \<Rightarrow>
               if 1 + hdr + len > length b then None
               else Some ((hd b, slice b (1 + hdr) len), drop (1 + hdr + len) b))"

lemma der_read_shorter: "der_read b = Some (tv, rest) \<Longrightarrow> length rest < length b"
  by (auto simp: der_read_def split: if_splits option.splits)

lemma der_read_tag: "der_read b = Some ((t, v), rest) \<Longrightarrow> b \<noteq> []"
  by (auto simp: der_read_def)

section \<open>Sequences of strings\<close>

function utf8_items :: "bytes \<Rightarrow> bytes list option" where
  "utf8_items b =
     (if b = [] then Some []
      else case der_read b of
             None \<Rightarrow> None
           | Some ((t, c), rest) \<Rightarrow>
               if t \<noteq> 0x0C \<or> \<not> utf8_valid c then None
               else map_option (\<lambda>out. c # out) (utf8_items rest))"
  by pat_completeness auto
termination
  by (relation "measure length") (auto dest: der_read_shorter)

declare utf8_items.simps [simp del]

definition parse_utf8_sequence :: "bytes \<Rightarrow> bytes list option" where
  "parse_utf8_sequence v =
     (case der_read v of
        None \<Rightarrow> None
      | Some ((tag, content), _) \<Rightarrow> if tag \<noteq> 0x30 then None else utf8_items content)"

definition encode_len :: "nat \<Rightarrow> bytes" where
  "encode_len n =
     (if n < 0x80 then [of_nat n] else if n < 0x100 then [0x81, of_nat n]
      else [0x82, of_nat (n div 256), of_nat (n mod 256)])"

definition build_utf8_sequence_extension_value :: "string list \<Rightarrow> bytes" where
  "build_utf8_sequence_extension_value vs =
     (let inner = concat (map (\<lambda>v. 0x0C # encode_len (length (utf8 v)) @ utf8 v) vs)
      in 0x30 # encode_len (length inner) @ inner)"

section \<open>Certificate extensions\<close>

function find_extensions_block :: "bytes \<Rightarrow> bytes option" where
  "find_extensions_block b =
     (case der_read b of
        None \<Rightarrow> None
      | Some ((t, v), rest) \<Rightarrow> if t = 0xA3 then Some v else find_extensions_block rest)"
  by pat_completeness auto
termination
  by (relation "measure length") (auto dest: der_read_shorter)

declare find_extensions_block.simps [simp del]

text \<open>The value of an extension after its identifier: an optional \<open>critical\<close> flag, then the octets.\<close>

definition extension_octets :: "bytes \<Rightarrow> bytes option" where
  "extension_octets e =
     (let next = der_read e;
          next = (case next of Some ((t, v), rest) \<Rightarrow> if t = 0x01 then der_read rest else next | None \<Rightarrow> None)
      in case next of Some ((t, v), _) \<Rightarrow> if t = 0x04 then Some v else None | None \<Rightarrow> None)"

function find_extension :: "bytes \<Rightarrow> bytes \<Rightarrow> bytes option" where
  "find_extension wanted b =
     (case der_read b of
        None \<Rightarrow> None
      | Some ((t, ext), rest) \<Rightarrow>
          if t \<noteq> 0x30 then find_extension wanted rest
          else (case der_read ext of
                  None \<Rightarrow> find_extension wanted rest
                | Some ((ot, ov), e) \<Rightarrow>
                    if ot \<noteq> 0x06 \<or> ov \<noteq> wanted then find_extension wanted rest
                    else extension_octets e))"
  by pat_completeness auto
termination
  by (relation "measure (\<lambda>(w, b). length b)") (auto dest: der_read_shorter)

declare find_extension.simps [simp del]

definition der_expect :: "u8 \<Rightarrow> bytes \<Rightarrow> (bytes \<times> bytes) option" where
  "der_expect tag b = (case der_read b of Some ((t, v), rest) \<Rightarrow> if t = tag then Some (v, rest) else None | None \<Rightarrow> None)"

definition find_extension_value :: "bytes \<Rightarrow> nat list \<Rightarrow> bytes option" where
  "find_extension_value cert_der oid =
     Option.bind (der_expect 0x30 cert_der) (\<lambda>(cert, _).
     Option.bind (der_expect 0x30 cert) (\<lambda>(tbs, _).
     Option.bind (find_extensions_block tbs) (\<lambda>exts.
     Option.bind (der_expect 0x30 exts) (\<lambda>(ext_seq, _).
       find_extension (encode_oid_content oid) ext_seq))))"

definition read_utf8_sequence_extension :: "bytes \<Rightarrow> nat list \<Rightarrow> bytes list option" where
  "read_utf8_sequence_extension leaf_der oid =
     map_option (\<lambda>raw. unwrap_or [] (parse_utf8_sequence raw)) (find_extension_value leaf_der oid)"

section \<open>The date of an OCSP response\<close>

text \<open>\<open>str::parse::<i64>\<close> on the bytes of a string.\<close>

definition parse_i64 :: "bytes \<Rightarrow> int option" where
  "parse_i64 bs =
     (let (neg, ds) = (case bs of [] \<Rightarrow> (False, []) | b # rest \<Rightarrow>
            if b = 43 \<and> rest \<noteq> [] then (False, rest) else if b = 45 \<and> rest \<noteq> [] then (True, rest) else (False, bs))
      in if ds = [] \<or> \<not> list_all (\<lambda>b. 48 \<le> b \<and> b \<le> 57) ds then None
         else let n = int (foldl (\<lambda>a b. 10 * a + (unat b - 48)) 0 ds); x = (if neg then - n else n)
              in if - (2 ^ 63) \<le> x \<and> x < 2 ^ 63 then Some x else None)"

definition char_boundary :: "bytes \<Rightarrow> nat \<Rightarrow> bool" where
  "char_boundary s i \<longleftrightarrow> i = 0 \<or> i = length s \<or> (i < length s \<and> \<not> cont_byte (s ! i))"

text \<open>\<open>s[a..b].parse::<i64>().ok()\<close>, where slicing inside a character panics.\<close>

definition num_slice :: "bytes \<Rightarrow> nat \<Rightarrow> nat \<Rightarrow> int option option" where
  "num_slice s a b =
     (if char_boundary s a \<and> char_boundary s b then Some (parse_i64 (slice s a (b - a))) else None)"

text \<open>Sequencing of steps that may panic (outer \<open>None\<close>) or end with \<open>?\<close> (inner \<open>None\<close>).\<close>

definition and_then :: "'a option option \<Rightarrow> ('a \<Rightarrow> 'b option option) \<Rightarrow> 'b option option" where
  "and_then x f = (case x of None \<Rightarrow> None | Some None \<Rightarrow> Some None | Some (Some v) \<Rightarrow> f v)"

definition to_u8 :: "int \<Rightarrow> int" where "to_u8 x = x mod 256"

definition month_of :: "int \<Rightarrow> int option" where
  "month_of m = (if 1 \<le> m \<and> m \<le> 12 then Some m else None)"

definition parse_generalized_time :: "crypto \<Rightarrow> bytes \<Rightarrow> int option option" where
  "parse_generalized_time cr b =
     (if \<not> utf8_valid b \<or> b = [] \<or> List.last b \<noteq> 90 then Some None
      else let s = takeWhile (\<lambda>x. x \<noteq> 46) (butlast b)
           in if length s \<noteq> 14 then Some None
              else and_then (num_slice s 0 4) (\<lambda>year.
                   and_then (num_slice s 4 6) (\<lambda>mo.
                   and_then (Some (month_of (to_u8 mo))) (\<lambda>month.
                   and_then (num_slice s 6 8) (\<lambda>day.
                   and_then (num_slice s 8 10) (\<lambda>hour.
                   and_then (num_slice s 10 12) (\<lambda>mi.
                   and_then (num_slice s 12 14) (\<lambda>sec.
                     Some (calendar cr year month (to_u8 day) (to_u8 hour) (to_u8 mi) (to_u8 sec))))))))))"

section \<open>The OCSP response\<close>

definition der_skip :: "(u8 \<Rightarrow> bool) \<Rightarrow> (u8 \<times> bytes) \<times> bytes \<Rightarrow> ((u8 \<times> bytes) \<times> bytes) option" where
  "der_skip P cur = (if P (fst (fst cur)) then der_read (snd cur) else Some cur)"

definition class_context :: "u8 \<Rightarrow> bool" where
  "class_context t \<longleftrightarrow> 0x80 \<le> t \<and> t < 0xC0"

definition is_time_tag :: "u8 \<Rightarrow> bool" where
  "is_time_tag t \<longleftrightarrow> t = 0x18 \<or> t = 0x17"

text \<open>From the response down to its list of single responses.\<close>

definition ocsp_responses :: "bytes \<Rightarrow> bytes option" where
  "ocsp_responses der =
     Option.bind (der_expect 0x30 der) (\<lambda>(body, _).
     Option.bind (der_expect 0x0A body) (\<lambda>(_, rest).
     Option.bind (der_expect 0xA0 rest) (\<lambda>(rb, _).
     Option.bind (der_expect 0x30 rb) (\<lambda>(rb_seq, _).
     Option.bind (der_expect 0x06 rb_seq) (\<lambda>(_, rest).
     Option.bind (der_expect 0x04 rest) (\<lambda>(basic_der, _).
     Option.bind (der_expect 0x30 basic_der) (\<lambda>(basic, _).
     Option.bind (der_expect 0x30 basic) (\<lambda>(tbs, _).
     Option.bind (der_read tbs) (\<lambda>cur.
     Option.bind (der_skip (\<lambda>t. t = 0xA0) cur) (\<lambda>cur.
     Option.bind (der_skip class_context cur) (\<lambda>cur.
     Option.bind (der_skip is_time_tag cur) (\<lambda>cur.
       if fst (fst cur) \<noteq> 0x30 then None else Some (snd (fst cur))))))))))))))"

text \<open>The octets of \<open>nextUpdate\<close> in the first single response.\<close>

definition ocsp_next_update_octets :: "bytes \<Rightarrow> bytes option" where
  "ocsp_next_update_octets responses =
     Option.bind (der_expect 0x30 responses) (\<lambda>(single, _).
     Option.bind (der_expect 0x30 single) (\<lambda>(_, rest).
     Option.bind (der_read rest) (\<lambda>((t, _), rest).
       if \<not> class_context t then None else
     Option.bind (der_read rest) (\<lambda>((t, _), rest).
       if \<not> is_time_tag t then None else
     Option.bind (der_expect 0xA0 rest) (\<lambda>(nxt, _).
       map_option fst (der_expect 0x18 nxt))))))"

definition try_get_ocsp_next_update :: "crypto \<Rightarrow> bytes \<Rightarrow> int option option" where
  "try_get_ocsp_next_update cr der =
     and_then (Some (Option.bind (ocsp_responses der) ocsp_next_update_octets)) (parse_generalized_time cr)"

section \<open>Enforcement\<close>

record verify_result =
  vr_valid :: bool
  vr_step_failed :: nat
  vr_error_code :: "string option"
  vr_message :: "string option"

definition verify_ok :: verify_result where
  "verify_ok = \<lparr>vr_valid = True, vr_step_failed = 0, vr_error_code = None, vr_message = None\<rparr>"

definition verify_fail :: "nat \<Rightarrow> string \<Rightarrow> string \<Rightarrow> verify_result" where
  "verify_fail step c msg = \<lparr>vr_valid = False, vr_step_failed = step, vr_error_code = Some c, vr_message = Some msg\<rparr>"

definition CERT_NODE_ROLES_MISMATCH :: string where "CERT_NODE_ROLES_MISMATCH = ''NIP-CERT-NODE-ROLES-MISMATCH''"
definition CERT_CAPABILITIES_EXCEEDED :: string where "CERT_CAPABILITIES_EXCEEDED = ''NIP-CERT-CAPABILITIES-EXCEEDED''"
definition OCSP_STAPLE_EXPIRED :: string where "OCSP_STAPLE_EXPIRED = ''NIP-OCSP-STAPLE-EXPIRED''"

definition excess :: "string list \<Rightarrow> bytes list \<Rightarrow> string list" where
  "excess claimed attested = filter (\<lambda>c. utf8 c \<notin> set attested) claimed"

definition phase3_base64url_decode :: "crypto \<Rightarrow> string \<Rightarrow> bytes option" where
  "phase3_base64url_decode cr s = or_else (b64url_decode cr s) (or_else (b64url_padded_decode cr s) (b64_decode cr s))"

definition enforce_staple :: "crypto \<Rightarrow> string option \<Rightarrow> int \<Rightarrow> verify_result option" where
  "enforce_staple cr staple now =
     (if unwrap_or [] staple = []
      then Some (verify_fail 3 OCSP_STAPLE_EXPIRED ''Phase-3 enforcement requires ocsp_staple on v2-x509 IdentFrames; none was supplied.'')
      else case phase3_base64url_decode cr (unwrap_or [] staple) of
             None \<Rightarrow> Some (verify_fail 3 OCSP_STAPLE_EXPIRED ''ocsp_staple is not valid base64url.'')
           | Some der \<Rightarrow>
               (case try_get_ocsp_next_update cr der of
                  None \<Rightarrow> None
                | Some None \<Rightarrow> Some (verify_fail 3 OCSP_STAPLE_EXPIRED
                    ''ocsp_staple could not be parsed as a DER OCSPResponse with a nextUpdate.'')
                | Some (Some next_update) \<Rightarrow>
                    if next_update \<le> now
                    then Some (verify_fail 3 OCSP_STAPLE_EXPIRED (''ocsp_staple nextUpdate '' @ time_display cr next_update @ '' has elapsed.''))
                    else Some verify_ok))"

definition unattested :: "string list \<Rightarrow> bytes list option \<Rightarrow> string list" where
  "unattested claimed attested = (case attested of None \<Rightarrow> [] | Some a \<Rightarrow> excess claimed a)"

definition phase3_enforce :: "crypto \<Rightarrow> ident_frame \<Rightarrow> bytes \<Rightarrow> int \<Rightarrow> verify_result option" where
  "phase3_enforce cr frame leaf_der now =
     (let roles = unattested (unwrap_or [] (id_node_roles frame)) (read_utf8_sequence_extension leaf_der ID_NPS_NODE_ROLES_OID);
          caps = unattested (id_capabilities frame) (read_utf8_sequence_extension leaf_der ID_NPS_CAPABILITIES_OID)
      in if roles \<noteq> []
         then Some (verify_fail 3 CERT_NODE_ROLES_MISMATCH
                (''IdentFrame.node_roles claims role(s) not attested by id-nps-node-roles: '' @ join '', '' roles @ ''.''))
         else if caps \<noteq> []
         then Some (verify_fail 3 CERT_CAPABILITIES_EXCEEDED
                (''IdentFrame.capabilities claims capabilit(ies) not attested by id-nps-capabilities: '' @ join '', '' caps @ ''.''))
         else enforce_staple cr (id_ocsp_staple frame) now)"

section \<open>Strings are read back\<close>

lemma read_len_encode:
  assumes "n < 65536"
  shows "read_len (encode_len n @ bs) = Some (n, length (encode_len n))"
proof -
  have small: "n < 128 \<Longrightarrow> (of_nat n :: u8) < 0x80 \<and> unat (of_nat n :: u8) = n"
    by (simp add: word_less_nat_alt unat_of_nat)
  have one: "n < 256 \<Longrightarrow> unat (of_nat n :: u8) = n" by (simp add: unat_of_nat)
  have two: "unat (of_nat (n div 256) :: u8) * 256 + unat (of_nat (n mod 256) :: u8) = n"
    using assms by (simp only: unat_of_nat) (simp add: less_mult_imp_div_less)
  show ?thesis
    using small one two by (auto simp: encode_len_def read_len_def from_be_def)
qed

definition der_tlv :: "u8 \<Rightarrow> bytes \<Rightarrow> bytes" where
  "der_tlv t v = t # encode_len (length v) @ v"

lemma der_read_tlv:
  assumes "length v < 65536"
  shows "der_read (der_tlv t v @ rest) = Some ((t, v), rest)"
proof -
  have "encode_len (length v) \<noteq> []" by (simp add: encode_len_def)
  with read_len_encode [OF assms, of "v @ rest"] show ?thesis
    by (simp add: der_read_def der_tlv_def slice_def)
qed

lemma der_tlv_nonempty [simp]: "der_tlv t v \<noteq> []"
  by (simp add: der_tlv_def)

lemma build_tlv:
  "build_utf8_sequence_extension_value vs = der_tlv 0x30 (concat (map (\<lambda>v. der_tlv 0x0C (utf8 v)) vs))"
  by (simp add: build_utf8_sequence_extension_value_def der_tlv_def Let_def)

lemma utf8_items_back:
  "(\<And>v. v \<in> set vs \<Longrightarrow> length (utf8 v) < 65536) \<Longrightarrow>
     utf8_items (concat (map (\<lambda>v. der_tlv 0x0C (utf8 v)) vs)) = Some (map utf8 vs)"
proof (induction vs)
  case Nil
  show ?case by (subst utf8_items.simps) simp
next
  case (Cons v vs)
  then show ?case by (subst utf8_items.simps) (simp add: der_read_tlv utf8_valid_utf8)
qed

text \<open>A list of strings written as an extension value is read back unchanged, as long as its encoding
  stays below 64 KiB, the largest length that the writer's three-byte form can hold.\<close>

theorem utf8_sequence_roundtrip:
  assumes "length (concat (map (\<lambda>v. der_tlv 0x0C (utf8 v)) vs)) < 65536"
  shows "parse_utf8_sequence (build_utf8_sequence_extension_value vs) = Some (map utf8 vs)"
proof -
  have "length (utf8 v) < 65536" if "v \<in> set vs" for v
  proof -
    have "length (utf8 v) \<le> length (der_tlv 0x0C (utf8 v))" by (simp add: der_tlv_def)
    also have "\<dots> \<le> length (concat (map (\<lambda>v. der_tlv 0x0C (utf8 v)) vs))"
      using that by (induction vs) auto
    finally show ?thesis using assms by simp
  qed
  from utf8_items_back [OF this] der_read_tlv [OF assms, of "0x30" "[]"] show ?thesis
    by (simp add: build_tlv parse_utf8_sequence_def)
qed

theorem utf8_sequence_roundtrip_witness:
  "parse_utf8_sequence (build_utf8_sequence_extension_value [''memory'', ''anchor'']) = Some [utf8 ''memory'', utf8 ''anchor'']"
  using utf8_sequence_roundtrip [of "[''memory'', ''anchor'']"] by (simp add: der_tlv_def encode_len_def utf8_char_def)

section \<open>What enforcement guarantees\<close>

text \<open>Phase-3 enforcement accepts exactly the frames whose roles and capabilities are attested, where
  the certificate attests any, and whose OCSP staple is read and lapses after the time of the check.\<close>

theorem phase3_accepts_iff:
  "phase3_enforce cr frame leaf_der now = Some verify_ok \<longleftrightarrow>
     (\<forall>a. read_utf8_sequence_extension leaf_der ID_NPS_NODE_ROLES_OID = Some a
        \<longrightarrow> utf8 ` set (unwrap_or [] (id_node_roles frame)) \<subseteq> set a)
   \<and> (\<forall>a. read_utf8_sequence_extension leaf_der ID_NPS_CAPABILITIES_OID = Some a
        \<longrightarrow> utf8 ` set (id_capabilities frame) \<subseteq> set a)
   \<and> (\<exists>staple der t. id_ocsp_staple frame = Some staple \<and> staple \<noteq> [] \<and> phase3_base64url_decode cr staple = Some der
        \<and> try_get_ocsp_next_update cr der = Some (Some t) \<and> now < t)"
proof -
  have un: "unattested c att = [] \<longleftrightarrow> (\<forall>a. att = Some a \<longrightarrow> utf8 ` set c \<subseteq> set a)" for c att
    by (auto simp: unattested_def excess_def filter_empty_conv split: option.splits)
  have st: "enforce_staple cr s now = Some verify_ok \<longleftrightarrow>
      (\<exists>staple der t. s = Some staple \<and> staple \<noteq> [] \<and> phase3_base64url_decode cr staple = Some der
        \<and> try_get_ocsp_next_update cr der = Some (Some t) \<and> now < t)" for s
    by (cases s) (auto simp: enforce_staple_def verify_fail_def verify_ok_def split: option.splits)
  show ?thesis
    unfolding phase3_enforce_def Let_def un [symmetric] st [symmetric]
    by (auto simp: verify_fail_def verify_ok_def)
qed

section \<open>A date that stops the verifier\<close>

text \<open>A response with one single response and a given date for \<open>nextUpdate\<close>.\<close>

definition ocsp_with_date :: "bytes \<Rightarrow> bytes" where
  "ocsp_with_date date =
     (let single = der_tlv 0x30 [] @ der_tlv 0x80 [] @ der_tlv 0x18 [] @ der_tlv 0xA0 (der_tlv 0x18 date);
          data = der_tlv 0xA1 [] @ der_tlv 0x18 [] @ der_tlv 0x30 (der_tlv 0x30 single);
          basic = der_tlv 0x30 (der_tlv 0x30 data)
      in der_tlv 0x30 (der_tlv 0x0A [0] @ der_tlv 0xA0 (der_tlv 0x30 (der_tlv 0x06 [] @ der_tlv 0x04 basic))))"

lemma length_der_tlv: "length v < 128 \<Longrightarrow> length (der_tlv t v) = length v + 2"
  by (simp add: der_tlv_def encode_len_def)

lemma der_expect_tlv: "length v < 128 \<Longrightarrow> der_expect t (der_tlv u v @ rest) = (if u = t then Some (v, rest) else None)"
  by (simp add: der_expect_def der_read_tlv)

lemmas der_walk = der_read_tlv [of _ _ "[]", simplified] der_expect_tlv [of _ _ _ "[]", simplified]
  der_read_tlv der_expect_tlv length_der_tlv

lemma ocsp_date_read:
  assumes "length date < 64"
  shows "try_get_ocsp_next_update cr (ocsp_with_date date) = parse_generalized_time cr date"
  using assms
  by (simp add: try_get_ocsp_next_update_def ocsp_with_date_def ocsp_responses_def ocsp_next_update_octets_def Let_def
      der_walk der_skip_def class_context_def is_time_tag_def and_then_def)

definition split_character_date :: bytes where
  "split_character_date = [50, 48, 50, 0xC3, 0xA9, 48, 48, 48, 48, 48, 48, 48, 48, 48, 90]"

text \<open>An OCSP staple with a two-byte character across the end of the year stops the verifier: the text is
  valid UTF-8 of the right length and is cut inside the character, which panics.\<close>

theorem staple_date_panics:
  assumes "id_ocsp_staple frame = Some staple" and "staple \<noteq> []"
    and "phase3_base64url_decode cr staple = Some (ocsp_with_date split_character_date)"
    and "id_node_roles frame = None" and "id_capabilities frame = []"
  shows "phase3_enforce cr frame leaf_der now = None"
proof -
  have "utf8_valid split_character_date" by code_simp
  then have "parse_generalized_time cr split_character_date = None"
    by (simp add: parse_generalized_time_def split_character_date_def num_slice_def char_boundary_def cont_byte_def and_then_def)
  then have "enforce_staple cr (id_ocsp_staple frame) now = None"
    using assms by (simp add: enforce_staple_def ocsp_date_read split_character_date_def)
  moreover have "unattested [] att = []" for att by (simp add: unattested_def excess_def split: option.splits)
  ultimately show ?thesis using assms by (simp add: phase3_enforce_def)
qed

theorem staple_date_panics_witness:
  "phase3_enforce plain_crypto ((ident_new ''n'' ''k'')\<lparr>id_ocsp_staple := Some (plain_text (ocsp_with_date split_character_date))\<rparr>)
     [] 0 = None"
proof (rule staple_date_panics)
  show "phase3_base64url_decode plain_crypto (plain_text (ocsp_with_date split_character_date))
      = Some (ocsp_with_date split_character_date)"
    by (simp add: phase3_base64url_decode_def plain_crypto_def plain_bytes_text)
qed (simp_all add: ident_new_def plain_text_def ocsp_with_date_def Let_def)

definition good_date :: bytes where
  "good_date = [50, 48, 50, 54, 48, 55, 48, 53, 49, 50, 48, 48, 48, 48, 90]"

lemma good_date_read: "\<exists>t. parse_generalized_time plain_crypto good_date = Some (Some t) \<and> 0 < t"
proof -
  have "utf8_valid good_date" by code_simp
  then show ?thesis
    by (simp add: parse_generalized_time_def good_date_def num_slice_def char_boundary_def cont_byte_def and_then_def slice_def
        parse_i64_def month_of_def to_u8_def plain_crypto_def)
qed

theorem phase3_accepts_iff_witness:
  "phase3_enforce plain_crypto ((ident_new ''n'' ''k'')\<lparr>id_ocsp_staple := Some (plain_text (ocsp_with_date good_date))\<rparr>) [] 0
     = Some verify_ok"
proof -
  have "read_utf8_sequence_extension [] oid = None" for oid
    by (simp add: read_utf8_sequence_extension_def find_extension_value_def der_expect_def der_read_def)
  moreover have "phase3_base64url_decode plain_crypto (plain_text b) = Some b" for b
    by (simp add: phase3_base64url_decode_def plain_crypto_def plain_bytes_text)
  moreover have "plain_text (ocsp_with_date good_date) \<noteq> []" by (simp add: plain_text_def ocsp_with_date_def Let_def)
  moreover have "length good_date < 64" by (simp add: good_date_def)
  ultimately show ?thesis
    unfolding phase3_accepts_iff using good_date_read by (simp add: ident_new_def ocsp_date_read)
qed

end
