(* ===== verification/Nip_X509.thy ===== *)
theory Nip_X509
  imports Nip_Der
begin

text \<open>
  \<^verbatim>\<open>nps-nip/src/x509/verifier.rs\<close>: the check of a certificate chain. The parser of certificates is third-party code, the argument
  \<open>parse\<close>; the record \<open>certificate\<close> holds what the source reads from a parsed certificate. An identifier
  that the parser cannot split into arcs is \<open>None\<close>.
\<close>

section \<open>Certificates\<close>

record extension =
  ex_oid :: "nat list option"
  ex_critical :: bool
  ex_eku_other :: "nat list option list option"
  ex_value :: bytes

record certificate =
  ce_extensions :: "extension list"
  ce_common_names :: "string list"
  ce_san_uris :: "string list option"
  ce_public_key :: bytes
  ce_signature :: bytes
  ce_tbs :: bytes
  ce_der :: bytes

type_synonym cert_parser = "bytes \<Rightarrow> string + certificate"

definition EKU_AGENT_IDENTITY_OID :: "nat list" where "EKU_AGENT_IDENTITY_OID = [1, 3, 6, 1, 4, 1, 65715, 1, 1]"
definition EKU_NODE_IDENTITY_OID :: "nat list" where "EKU_NODE_IDENTITY_OID = [1, 3, 6, 1, 4, 1, 65715, 1, 2]"
definition NID_ASSURANCE_LEVEL_OID :: "nat list" where "NID_ASSURANCE_LEVEL_OID = [1, 3, 6, 1, 4, 1, 65715, 2, 1]"
definition EXTENSION_EXTENDED_KEY_USAGE_OID :: "nat list" where "EXTENSION_EXTENDED_KEY_USAGE_OID = [2, 5, 29, 37]"

definition CERT_FORMAT_INVALID :: string where "CERT_FORMAT_INVALID = ''NIP-CERT-FORMAT-INVALID''"
definition CERT_EKU_MISSING :: string where "CERT_EKU_MISSING = ''NIP-CERT-EKU-MISSING''"
definition CERT_SUBJECT_NID_MISMATCH :: string where "CERT_SUBJECT_NID_MISMATCH = ''NIP-CERT-SUBJECT-NID-MISMATCH''"
definition ASSURANCE_UNKNOWN :: string where "ASSURANCE_UNKNOWN = ''NIP-ASSURANCE-UNKNOWN''"
definition ASSURANCE_MISMATCH :: string where "ASSURANCE_MISMATCH = ''NIP-ASSURANCE-MISMATCH''"

definition oid_equals :: "nat list option \<Rightarrow> nat list \<Rightarrow> bool" where
  "oid_equals parsed expected \<longleftrightarrow> parsed = Some expected"

section \<open>Key usage\<close>

text \<open>The walk through \<open>SEQUENCE OF OBJECT IDENTIFIER\<close>: \<open>v\<close> is the whole value, \<open>pos\<close> and \<open>fin\<close> the bounds of the loop.\<close>

function seq_contains :: "bytes \<Rightarrow> bytes \<Rightarrow> nat \<Rightarrow> nat \<Rightarrow> bool" where
  "seq_contains v expected pos fin =
     (if fin < pos + 2 \<or> length v \<le> pos then False
      else if v ! pos \<noteq> 0x06 then False
      else case read_len (drop (pos + 1) v) of
             None \<Rightarrow> False
           | Some (oid_len, hdr) \<Rightarrow>
               let oid_start = pos + 1 + hdr
               in if oid_start + oid_len > length v then False
                  else if slice v oid_start oid_len = expected then True
                  else seq_contains v expected (oid_start + oid_len) fin)"
  by pat_completeness auto
termination
  by (relation "measure (\<lambda>(v, e, pos, fin). length v - pos)") auto

definition raw_seq_contains_oid :: "bytes \<Rightarrow> nat list \<Rightarrow> bool" where
  "raw_seq_contains_oid v expected =
     (if length v < 2 \<or> hd v \<noteq> 0x30 then False
      else case read_len (tl v) of
             None \<Rightarrow> False
           | Some (content_len, hdr) \<Rightarrow>
               let start = 1 + hdr
               in if start + content_len > length v then False
                  else seq_contains v (encode_oid_content expected) start (start + content_len))"

definition eku_ok :: "extension \<Rightarrow> bool" where
  "eku_ok ext =
     (case ex_eku_other ext of
        Some other \<Rightarrow> list_ex (\<lambda>oid. oid_equals oid EKU_AGENT_IDENTITY_OID \<or> oid_equals oid EKU_NODE_IDENTITY_OID) other
      | None \<Rightarrow> raw_seq_contains_oid (ex_value ext) EKU_AGENT_IDENTITY_OID
              \<or> raw_seq_contains_oid (ex_value ext) EKU_NODE_IDENTITY_OID)"

text \<open>A check gives \<open>None\<close> or the error code and the message of its failure.\<close>

type_synonym check = "(string \<times> string) option"

definition check_leaf_eku :: "certificate \<Rightarrow> check" where
  "check_leaf_eku leaf =
     (case find (\<lambda>ext. oid_equals (ex_oid ext) EXTENSION_EXTENDED_KEY_USAGE_OID) (ce_extensions leaf) of
        None \<Rightarrow> Some (CERT_EKU_MISSING, ''leaf has no ExtendedKeyUsage extension'')
      | Some ext \<Rightarrow>
          if \<not> ex_critical ext then Some (CERT_EKU_MISSING, ''ExtendedKeyUsage extension is not marked critical'')
          else if eku_ok ext then None
          else Some (CERT_EKU_MISSING, ''ExtendedKeyUsage does not contain agent-identity or node-identity OID''))"

section \<open>Subject and assurance level\<close>

definition check_subject_nid :: "certificate \<Rightarrow> string \<Rightarrow> check" where
  "check_subject_nid leaf asserted_nid =
     (if asserted_nid \<notin> set (ce_common_names leaf)
      then Some (CERT_SUBJECT_NID_MISMATCH, ''leaf subject CN does not match asserted NID ('' @ asserted_nid @ '')'')
      else if asserted_nid \<in> set (unwrap_or [] (ce_san_uris leaf)) then None
      else Some (CERT_SUBJECT_NID_MISMATCH, ''no SAN URI matches asserted NID''))"

definition check_assurance_level :: "crypto \<Rightarrow> certificate \<Rightarrow> assurance_level option \<Rightarrow> check" where
  "check_assurance_level cr leaf asserted =
     (case asserted of
        None \<Rightarrow> None
      | Some level \<Rightarrow>
          (case find (\<lambda>ext. oid_equals (ex_oid ext) NID_ASSURANCE_LEVEL_OID) (ce_extensions leaf) of
             None \<Rightarrow> None
           | Some ext \<Rightarrow>
               (case ex_value ext of
                  [a, b, rank] \<Rightarrow>
                    if a \<noteq> 0x0A \<or> b \<noteq> 0x01
                    then Some (CERT_FORMAT_INVALID, ''malformed assurance-level extension: '' @ hex_enc cr (ex_value ext))
                    else (case level_from_rank rank of
                       Inl e \<Rightarrow> Some (ASSURANCE_UNKNOWN, ''assurance-level extension contains unknown value: '' @ show_nat (unat rank))
                     | Inr cert_level \<Rightarrow>
                         if cert_level \<noteq> level
                         then Some (ASSURANCE_MISMATCH, ''cert assurance-level ('' @ al_wire cert_level @ '') does not match asserted (''
                                @ al_wire level @ '')'')
                         else None)
                | _ \<Rightarrow> Some (CERT_FORMAT_INVALID, ''malformed assurance-level extension: '' @ hex_enc cr (ex_value ext)))))"

section \<open>The chain\<close>

definition verify_signed_by :: "crypto \<Rightarrow> certificate \<Rightarrow> certificate \<Rightarrow> string option" where
  "verify_signed_by cr child issuer =
     (if length (ce_public_key issuer) \<noteq> 32
      then Some (''issuer pubkey is not 32 bytes ('' @ show_nat (length (ce_public_key issuer)) @ '' bytes)'')
      else case key_from_bytes cr (ce_public_key issuer) of
             None \<Rightarrow> Some (''issuer Ed25519 pubkey parse: '' @ bytes_error cr ''key'')
           | Some vk \<Rightarrow>
               if length (ce_signature child) \<noteq> 64 then Some (''child signature parse: '' @ bytes_error cr ''signature'')
               else if ed_verify cr vk (ce_tbs child) (ce_signature child) then None
               else Some (''Ed25519 verify failed: '' @ bytes_error cr ''verify''))"

fun check_links :: "crypto \<Rightarrow> nat \<Rightarrow> certificate list \<Rightarrow> check" where
  "check_links cr i (c # d # rest) =
     (case verify_signed_by cr c d of
        Some e \<Rightarrow> Some (CERT_FORMAT_INVALID, ''chain link '' @ show_nat i @ '' signature did not verify: '' @ e)
      | None \<Rightarrow> check_links cr (i + 1) (d # rest))"
| "check_links cr i _ = None"

definition anchors_to :: "crypto \<Rightarrow> cert_parser \<Rightarrow> certificate \<Rightarrow> bytes \<Rightarrow> bool" where
  "anchors_to cr parse c root_der =
     (ce_der c = root_der \<or> (case parse root_der of Inl e \<Rightarrow> False | Inr root \<Rightarrow> verify_signed_by cr c root = None))"

definition check_chain_signature :: "crypto \<Rightarrow> cert_parser \<Rightarrow> certificate list \<Rightarrow> bytes list \<Rightarrow> check" where
  "check_chain_signature cr parse chain trusted_roots_der =
     (if trusted_roots_der = [] then Some (CERT_FORMAT_INVALID, ''no trusted X.509 roots configured'')
      else case check_links cr 0 chain of
             Some e \<Rightarrow> Some e
           | None \<Rightarrow>
               if list_ex (anchors_to cr parse (List.last chain)) trusted_roots_der then None
               else Some (CERT_FORMAT_INVALID, ''chain does not anchor to any trusted root''))"

definition x509_base64_url_decode :: "crypto \<Rightarrow> string \<Rightarrow> string + bytes" where
  "x509_base64_url_decode cr s = ok_or (bytes_error cr s) (or_else (b64url_decode cr s) (b64url_padded_decode cr s))"

fun decode_chain :: "crypto \<Rightarrow> nat \<Rightarrow> string list \<Rightarrow> string + bytes list" where
  "decode_chain cr i [] = Ok []"
| "decode_chain cr i (s # ss) =
     (case x509_base64_url_decode cr s of
        Inl e \<Rightarrow> Err (''chain['' @ show_nat i @ ''] base64url decode: '' @ e)
      | Inr b \<Rightarrow> try_res (decode_chain cr (i + 1) ss) (\<lambda>bs. Ok (b # bs)))"

fun parse_chain :: "cert_parser \<Rightarrow> nat \<Rightarrow> bytes list \<Rightarrow> string + certificate list" where
  "parse_chain parse i [] = Ok []"
| "parse_chain parse i (b # bs) =
     (case parse b of
        Inl e \<Rightarrow> Err (''chain['' @ show_nat i @ ''] DER parse: '' @ e)
      | Inr c \<Rightarrow> try_res (parse_chain parse (i + 1) bs) (\<lambda>cs. Ok (c # cs)))"

section \<open>The verifier\<close>

record x509_result =
  xr_valid :: bool
  xr_error_code :: "string option"
  xr_message :: "string option"
  xr_leaf_der :: "bytes option"

definition x509_ok :: "bytes \<Rightarrow> x509_result" where
  "x509_ok leaf_der = \<lparr>xr_valid = True, xr_error_code = None, xr_message = None, xr_leaf_der = Some leaf_der\<rparr>"

definition x509_fail :: "string \<times> string \<Rightarrow> x509_result" where
  "x509_fail e = \<lparr>xr_valid = False, xr_error_code = Some (fst e), xr_message = Some (snd e), xr_leaf_der = None\<rparr>"

definition x509_verify :: "crypto \<Rightarrow> cert_parser \<Rightarrow> string list \<Rightarrow> string \<Rightarrow> assurance_level option \<Rightarrow> bytes list \<Rightarrow> x509_result" where
  "x509_verify cr parse chain_b64u asserted_nid asserted_level roots_der =
     (if chain_b64u = [] then x509_fail (CERT_FORMAT_INVALID, ''cert_chain is empty'')
      else case decode_chain cr 0 chain_b64u of
             Inl e \<Rightarrow> x509_fail (CERT_FORMAT_INVALID, e)
           | Inr chain_der \<Rightarrow>
               (case parse_chain parse 0 chain_der of
                  Inl e \<Rightarrow> x509_fail (CERT_FORMAT_INVALID, e)
                | Inr chain \<Rightarrow>
                    (case or_else (check_leaf_eku (hd chain))
                         (or_else (check_subject_nid (hd chain) asserted_nid)
                         (or_else (check_assurance_level cr (hd chain) asserted_level)
                            (check_chain_signature cr parse chain roots_der))) of
                       Some e \<Rightarrow> x509_fail e
                     | None \<Rightarrow> x509_ok (hd chain_der))))"

section \<open>What an accepted chain is\<close>

fun signed_chain :: "crypto \<Rightarrow> certificate list \<Rightarrow> bool" where
  "signed_chain cr (c # d # rest) \<longleftrightarrow> verify_signed_by cr c d = None \<and> signed_chain cr (d # rest)"
| "signed_chain cr _ \<longleftrightarrow> True"

lemma check_links_iff: "check_links cr i chain = None \<longleftrightarrow> signed_chain cr chain"
  by (induction cr i chain rule: check_links.induct) (auto split: option.splits)

lemma or_else_None [simp]: "or_else a b = None \<longleftrightarrow> a = None \<and> b = None"
  by (cases a) simp_all

lemma decode_chain_iff: "decode_chain cr i ss = Ok ders \<longleftrightarrow> list_all2 (\<lambda>s d. x509_base64_url_decode cr s = Ok d) ss ders"
  by (induction cr i ss arbitrary: ders rule: decode_chain.induct)
     (auto simp: try_res_eq_Inr list_all2_Cons1 split: sum.splits)

lemma parse_chain_iff: "parse_chain parse i ders = Ok chain \<longleftrightarrow> list_all2 (\<lambda>d c. parse d = Ok c) ders chain"
  by (induction parse i ders arbitrary: chain rule: parse_chain.induct)
     (auto simp: try_res_eq_Inr list_all2_Cons1 split: sum.splits)

lemma check_chain_iff:
  "check_chain_signature cr parse chain roots = None \<longleftrightarrow>
     signed_chain cr chain \<and> (\<exists>root \<in> set roots. anchors_to cr parse (List.last chain) root)"
  using check_links_iff [of cr 0 chain]
  by (cases "check_links cr 0 chain") (auto simp: check_chain_signature_def list_ex_iff)

definition accepted_chain :: "crypto \<Rightarrow> cert_parser \<Rightarrow> certificate list \<Rightarrow> string \<Rightarrow> assurance_level option \<Rightarrow> bytes list \<Rightarrow> bool" where
  "accepted_chain cr parse chain nid level roots \<longleftrightarrow>
     check_leaf_eku (hd chain) = None \<and> check_subject_nid (hd chain) nid = None
   \<and> check_assurance_level cr (hd chain) level = None \<and> signed_chain cr chain
   \<and> (\<exists>root \<in> set roots. anchors_to cr parse (List.last chain) root)"

lemma x509_verify_iff:
  "xr_valid (x509_verify cr parse ss nid level roots) \<longleftrightarrow>
     ss \<noteq> [] \<and> (\<exists>ders chain. list_all2 (\<lambda>s d. x509_base64_url_decode cr s = Ok d) ss ders
       \<and> list_all2 (\<lambda>d c. parse d = Ok c) ders chain \<and> accepted_chain cr parse chain nid level roots)"
proof -
  have val: "xr_valid (case e of Some e \<Rightarrow> x509_fail e | None \<Rightarrow> x509_ok d) \<longleftrightarrow> e = None" for e d
    by (cases e) (simp_all add: x509_fail_def x509_ok_def)
  show ?thesis
  proof (cases "decode_chain cr 0 ss")
    case (Inl e)
    then show ?thesis
      by (auto simp: x509_verify_def x509_fail_def decode_chain_iff [of cr 0, symmetric])
  next
    case (Inr ders)
    then show ?thesis
      by (cases "parse_chain parse 0 ders")
         (auto simp: x509_verify_def val x509_fail_def check_chain_iff accepted_chain_def
           decode_chain_iff [of cr 0, symmetric] parse_chain_iff [of parse 0, symmetric])
  qed
qed

text \<open>A chain is accepted exactly when all its items decode and parse, the leaf has a critical extended
  key usage with an NPS purpose, names the asserted identity in its common name and in an alternative
  name and carries the asserted level if it carries one, every certificate is signed by the next and the
  last one is a trusted root or signed by one.\<close>

theorem x509_accepts_iff:
  "xr_valid (x509_verify cr parse ss nid level roots) \<longleftrightarrow>
     ss \<noteq> [] \<and> (\<exists>ders chain. list_all2 (\<lambda>s d. x509_base64_url_decode cr s = Ok d) ss ders
       \<and> list_all2 (\<lambda>d c. parse d = Ok c) ders chain
       \<and> (\<exists>ext. find (\<lambda>ext. ex_oid ext = Some EXTENSION_EXTENDED_KEY_USAGE_OID) (ce_extensions (hd chain)) = Some ext
            \<and> ex_critical ext \<and> eku_ok ext)
       \<and> nid \<in> set (ce_common_names (hd chain)) \<and> nid \<in> set (unwrap_or [] (ce_san_uris (hd chain)))
       \<and> check_assurance_level cr (hd chain) level = None
       \<and> (\<forall>i. Suc i < length chain \<longrightarrow> verify_signed_by cr (chain ! i) (chain ! Suc i) = None)
       \<and> (\<exists>root \<in> set roots. anchors_to cr parse (List.last chain) root))"
proof -
  have links: "signed_chain cr chain \<longleftrightarrow> (\<forall>i. Suc i < length chain \<longrightarrow> verify_signed_by cr (chain ! i) (chain ! Suc i) = None)"
    for chain
    by (induction cr chain rule: signed_chain.induct) (auto simp: nth_Cons split: nat.splits)
  have eku: "check_leaf_eku c = None \<longleftrightarrow>
      (\<exists>ext. find (\<lambda>ext. ex_oid ext = Some EXTENSION_EXTENDED_KEY_USAGE_OID) (ce_extensions c) = Some ext
        \<and> ex_critical ext \<and> eku_ok ext)" for c
    by (auto simp: check_leaf_eku_def oid_equals_def split: option.splits)
  have sub: "check_subject_nid c nid = None \<longleftrightarrow> nid \<in> set (ce_common_names c) \<and> nid \<in> set (unwrap_or [] (ce_san_uris c))" for c
    by (auto simp: check_subject_nid_def)
  show ?thesis by (simp only: x509_verify_iff accepted_chain_def links eku sub conj_assoc)
qed

section \<open>Every certificate is an authority\<close>

lemma signed_chain_Cons:
  "chain \<noteq> [] \<Longrightarrow> signed_chain cr (c # chain) \<longleftrightarrow> verify_signed_by cr c (hd chain) = None \<and> signed_chain cr chain"
  by (cases chain) simp_all

text \<open>Nothing in the check says who may issue certificates: with any accepted chain, a certificate that its
  leaf signs for any other identity is accepted too when it is put in front of the chain.\<close>

theorem leaf_issues_certificates:
  assumes ok: "xr_valid (x509_verify cr parse (leaf # ss) nid level roots)"
    and leaf: "x509_base64_url_decode cr leaf = Ok leaf_der" "parse leaf_der = Ok leaf_cert"
    and new: "x509_base64_url_decode cr s = Ok der" "parse der = Ok c"
    and usage: "check_leaf_eku c = None" and subject: "check_subject_nid c other = None"
    and signed: "verify_signed_by cr c leaf_cert = None"
  shows "xr_valid (x509_verify cr parse (s # leaf # ss) other None roots)"
proof -
  obtain ders chain where d: "list_all2 (\<lambda>s d. x509_base64_url_decode cr s = Ok d) (leaf # ss) ders"
    and p: "list_all2 (\<lambda>d c. parse d = Ok c) ders chain" and a: "accepted_chain cr parse chain nid level roots"
    using ok unfolding x509_verify_iff by blast
  obtain cs where chain: "chain = leaf_cert # cs"
    using d p leaf by (auto simp: list_all2_Cons1)
  have "accepted_chain cr parse (c # chain) other None roots"
    using a usage subject signed by (simp add: accepted_chain_def check_assurance_level_def chain)
  moreover have "list_all2 (\<lambda>s d. x509_base64_url_decode cr s = Ok d) (s # leaf # ss) (der # ders)"
    "list_all2 (\<lambda>d c. parse d = Ok c) (der # ders) (c # chain)"
    using d p new by simp_all
  ultimately show ?thesis unfolding x509_verify_iff by blast
qed

definition demo_cert :: "string \<Rightarrow> u8 \<Rightarrow> u8 \<Rightarrow> certificate" where
  "demo_cert name key signer =
     \<lparr>ce_extensions = [\<lparr>ex_oid = Some EXTENSION_EXTENDED_KEY_USAGE_OID, ex_critical = True,
        ex_eku_other = Some [Some EKU_AGENT_IDENTITY_OID], ex_value = []\<rparr>],
      ce_common_names = [name], ce_san_uris = Some [name], ce_public_key = replicate 32 key,
      ce_signature = replicate 64 signer, ce_tbs = [], ce_der = [key]\<rparr>"

definition demo_parse :: cert_parser where
  "demo_parse der = (if der = [1] then Ok (demo_cert ''root'' 1 1) else if der = [2] then Ok (demo_cert ''a'' 2 1)
     else Ok (demo_cert ''b'' 3 2))"

lemma demo_decode: "x509_base64_url_decode plain_crypto (plain_text b) = Ok b"
  by (simp add: x509_base64_url_decode_def plain_crypto_def plain_bytes_text)

lemma demo_signed: "verify_signed_by plain_crypto (demo_cert n k j) (demo_cert m j i) = None"
  by (simp add: verify_signed_by_def demo_cert_def plain_crypto_def)

lemma demo_usage: "check_leaf_eku (demo_cert n k j) = None" "check_subject_nid (demo_cert n k j) n = None"
  by (simp_all add: check_leaf_eku_def check_subject_nid_def demo_cert_def eku_ok_def oid_equals_def)

lemma demo_chain: "xr_valid (x509_verify plain_crypto demo_parse [plain_text [2]] ''a'' None [[1]])"
  unfolding x509_verify_iff
  by (auto simp: list_all2_Cons1 demo_decode demo_parse_def accepted_chain_def demo_usage check_assurance_level_def
      anchors_to_def demo_signed)

theorem leaf_issues_certificates_witness:
  "xr_valid (x509_verify plain_crypto demo_parse [plain_text [3], plain_text [2]] ''b'' None [[1]])"
  by (rule leaf_issues_certificates [OF demo_chain demo_decode _ demo_decode,
        where leaf_cert = "demo_cert ''a'' 2 1" and c = "demo_cert ''b'' 3 2"])
     (simp_all add: demo_parse_def demo_usage demo_signed)

theorem x509_accepts_iff_witness:
  "\<exists>ders. list_all2 (\<lambda>s d. x509_base64_url_decode plain_crypto s = Ok d) [plain_text [2]] ders"
  using demo_chain unfolding x509_accepts_iff by blast

end
