(* ===== verification/Nip_Verifier.thy ===== *)
theory Nip_Verifier
  imports Nip_X509
begin

text \<open>
  \<^verbatim>\<open>nps-nip/src/revocation_policy.rs\<close>, \<^verbatim>\<open>verifier.rs\<close> and \<^verbatim>\<open>trust_validator.rs\<close>: the six steps of the verification of an identity and the validation of
  a trust frame. The clock is the argument \<open>now\<close>, in nanoseconds; the revocation callback, the CA store and
  the OCSP endpoint are functions in the options. \<open>None\<close> is a panic.
\<close>

section \<open>Error codes\<close>

definition CERT_EXPIRED :: string where "CERT_EXPIRED = ''NIP-CERT-EXPIRED''"
definition CERT_REVOKED :: string where "CERT_REVOKED = ''NIP-CERT-REVOKED''"
definition CERT_SIGNATURE_INVALID :: string where "CERT_SIGNATURE_INVALID = ''NIP-CERT-SIGNATURE-INVALID''"
definition CERT_UNTRUSTED_ISSUER :: string where "CERT_UNTRUSTED_ISSUER = ''NIP-CERT-UNTRUSTED-ISSUER''"
definition CERT_CAPABILITY_MISSING :: string where "CERT_CAPABILITY_MISSING = ''NIP-CERT-CAPABILITY-MISSING''"
definition CERT_SCOPE_VIOLATION :: string where "CERT_SCOPE_VIOLATION = ''NIP-CERT-SCOPE-VIOLATION''"
definition OCSP_UNAVAILABLE :: string where "OCSP_UNAVAILABLE = ''NIP-OCSP-UNAVAILABLE''"
definition TRUST_FRAME_INVALID :: string where "TRUST_FRAME_INVALID = ''NIP-TRUST-FRAME-INVALID''"
definition TRUST_FRAME_EXPIRED :: string where "TRUST_FRAME_EXPIRED = ''NIP-TRUST-FRAME-EXPIRED''"
definition TRUST_FRAME_SCOPE_EXCEEDS_GRANTOR :: string where
  "TRUST_FRAME_SCOPE_EXCEEDS_GRANTOR = ''NIP-TRUST-FRAME-SCOPE-EXCEEDS-GRANTOR''"

section \<open>The revocation policy\<close>

datatype revocation_mode = IfConfigured | Required
datatype revocation_source = LocalCrl | Callback | CaStore | Ocsp
datatype revocation_outcome = Good | Revoked | Unavailable

fun source_name :: "revocation_source \<Rightarrow> string" where
  "source_name LocalCrl = ''LocalCrl''"
| "source_name Callback = ''Callback''"
| "source_name CaStore = ''CaStore''"
| "source_name Ocsp = ''Ocsp''"

record revocation_policy =
  rp_mode :: revocation_mode
  rp_ocsp_fail_open :: bool
  rp_consulted_sources :: "revocation_source list"

definition policy_new :: "revocation_mode \<Rightarrow> bool \<Rightarrow> revocation_policy" where
  "policy_new mode fail_open = \<lparr>rp_mode = mode, rp_ocsp_fail_open = fail_open, rp_consulted_sources = []\<rparr>"

definition observe :: "revocation_source \<Rightarrow> revocation_outcome \<Rightarrow> revocation_policy \<Rightarrow> verify_result option \<times> revocation_policy" where
  "observe source outcome p =
     (let p' = p\<lparr>rp_consulted_sources := rp_consulted_sources p @ [source]\<rparr>
      in if source = Ocsp \<and> outcome = Unavailable \<and> rp_ocsp_fail_open p then (None, p')
         else (case outcome of
             Good \<Rightarrow> (None, p')
           | Revoked \<Rightarrow> (Some (verify_fail 4 CERT_REVOKED
               (''Revocation source '' @ source_name source @ '' reports the certificate revoked.'')), p')
           | Unavailable \<Rightarrow> (Some (verify_fail 4 OCSP_UNAVAILABLE
               (''Revocation source '' @ source_name source @ '' is unavailable.'')), p')))"

definition policy_complete :: "revocation_policy \<Rightarrow> verify_result" where
  "policy_complete p =
     (if rp_mode p = Required \<and> rp_consulted_sources p = []
      then verify_fail 4 OCSP_UNAVAILABLE ''Revocation mode is required, but no revocation source is configured.''
      else verify_ok)"

section \<open>The options of the verifier\<close>

text \<open>The answer of the OCSP endpoint: no connection, a status that is not a success, a body that does not
  parse, or a body.\<close>

datatype ocsp_reply = Ocsp_unreachable string | Ocsp_status nat | Ocsp_bad_body string | Ocsp_body bool "string option"

record revocation_record =
  rr_serial :: string
  rr_revoked_at :: "string option"
  rr_revoke_reason :: "string option"

record verifier_options =
  vo_trusted_ca_public_keys :: "(string \<times> string) list"
  vo_trusted_x509_roots_der :: "bytes list"
  vo_local_revoked_serials :: "string list"
  vo_local_crl_configured :: bool
  vo_revocation_check :: "(ident_frame \<Rightarrow> verify_result option) option"
  vo_revocation_store :: "(string \<Rightarrow> revocation_record option) option"
  vo_ocsp_url :: "string option"
  vo_ocsp_fail_open :: bool
  vo_revocation_mode :: revocation_mode
  vo_min_assurance_level :: "assurance_level option"
  vo_phase3_enforcement :: bool

record verify_context =
  vc_required_capabilities :: "string list"
  vc_target_node_path :: "string option"

section \<open>Steps 1 and 2: expiry and issuer\<close>

text \<open>A step gives \<open>None\<close> to continue or the result of the verification.\<close>

definition step_expiry :: "crypto \<Rightarrow> ident_frame \<Rightarrow> int \<Rightarrow> verify_result option" where
  "step_expiry cr frame now =
     (case id_expires_at frame of
        None \<Rightarrow> None
      | Some expires_at \<Rightarrow>
          (case rfc3339_read cr expires_at of
             Some t \<Rightarrow> if t > now then None else Some (verify_fail 1 CERT_EXPIRED (''Certificate expired at '' @ expires_at @ ''.''))
           | None \<Rightarrow> Some (verify_fail 1 CERT_EXPIRED (''Certificate expired at '' @ expires_at @ ''.''))))"

definition step_issuer :: "verifier_options \<Rightarrow> ident_frame \<Rightarrow> string \<Rightarrow> verify_result option" where
  "step_issuer opts frame issuer_nid =
     (case id_issued_by frame of
        Some declared \<Rightarrow>
          if declared \<noteq> issuer_nid
          then Some (verify_fail 2 CERT_UNTRUSTED_ISSUER
                 (''Issuer '' @ quoted declared @ '' does not match expected issuer '' @ quoted issuer_nid @ ''.''))
          else if map_of (vo_trusted_ca_public_keys opts) issuer_nid = None
          then Some (verify_fail 2 CERT_UNTRUSTED_ISSUER (''Issuer '' @ quoted issuer_nid @ '' is not in the trusted issuers list.''))
          else None
      | None \<Rightarrow>
          if map_of (vo_trusted_ca_public_keys opts) issuer_nid = None
          then Some (verify_fail 2 CERT_UNTRUSTED_ISSUER (''Issuer '' @ quoted issuer_nid @ '' is not in the trusted issuers list.''))
          else None)"

section \<open>Step 3: signature, level, chain\<close>

definition parse_pub_key_string :: "crypto \<Rightarrow> string \<Rightarrow> string + bytes" where
  "parse_pub_key_string cr s =
     (if \<not> starts_with PREFIX s then Err (''unsupported public key format: '' @ s)
      else case hex_dec cr (drop (length PREFIX) s) of
             None \<Rightarrow> Err (''hex decode: '' @ bytes_error cr (drop (length PREFIX) s))
           | Some raw \<Rightarrow>
               if length raw \<noteq> 32 then Err (''public key wrong size: '' @ show_nat (length raw)) else Ok raw)"

definition verifier_canonical_json :: "crypto \<Rightarrow> frame_dict \<Rightarrow> string" where
  "verifier_canonical_json cr d = json_text cr (JObject (bt_collect (sort_key fst d)))"

definition verify_signature :: "crypto \<Rightarrow> ident_frame \<Rightarrow> string \<Rightarrow> verify_result option" where
  "verify_signature cr frame ca_pub_key_str =
     (case id_signature frame of
        None \<Rightarrow> Some (verify_fail 3 CERT_SIGNATURE_INVALID ''missing signature'')
      | Some sig_str \<Rightarrow>
          if \<not> starts_with PREFIX sig_str then Some (verify_fail 3 CERT_SIGNATURE_INVALID ''malformed signature prefix'')
          else (case parse_pub_key_string cr ca_pub_key_str of
             Inl e \<Rightarrow> Some (verify_fail 3 CERT_SIGNATURE_INVALID e)
           | Inr pub_key_bytes \<Rightarrow>
               (case key_from_bytes cr pub_key_bytes of
                  None \<Rightarrow> Some (verify_fail 3 CERT_SIGNATURE_INVALID (''invalid Ed25519 pubkey: '' @ bytes_error cr ''key''))
                | Some vk \<Rightarrow>
                    (case b64_decode cr (drop (length PREFIX) sig_str) of
                       None \<Rightarrow> Some (verify_fail 3 CERT_SIGNATURE_INVALID
                                 (''base64 decode: '' @ bytes_error cr (drop (length PREFIX) sig_str)))
                     | Some sig_bytes \<Rightarrow>
                         if length sig_bytes \<noteq> 64
                         then Some (verify_fail 3 CERT_SIGNATURE_INVALID (''signature parse: '' @ bytes_error cr ''signature''))
                         else if ed_verify cr vk (utf8 (verifier_canonical_json cr (ident_unsigned_dict frame))) sig_bytes then None
                         else Some (verify_fail 3 CERT_SIGNATURE_INVALID ''Certificate signature verification failed.'')))))"

definition step_assurance :: "verifier_options \<Rightarrow> ident_frame \<Rightarrow> verify_result option" where
  "step_assurance opts frame =
     (case vo_min_assurance_level opts of
        None \<Rightarrow> None
      | Some minimum \<Rightarrow>
          let got = unwrap_or ANONYMOUS (id_assurance_level frame)
          in if meets_or_exceeds got minimum then None
             else Some (verify_fail 3 ASSURANCE_MISMATCH
                    (''assurance_level ('' @ al_wire got @ '') below required minimum ('' @ al_wire minimum @ '')'')))"

definition V2_X509 :: string where "V2_X509 = ''v2-x509''"

definition step_x509 :: "crypto \<Rightarrow> cert_parser \<Rightarrow> verifier_options \<Rightarrow> ident_frame \<Rightarrow> int \<Rightarrow> verify_result option option" where
  "step_x509 cr parse opts frame now =
     (if vo_trusted_x509_roots_der opts \<noteq> [] \<and> id_cert_format frame = Some V2_X509
      then let chain = unwrap_or [] (id_cert_chain frame);
               r = x509_verify cr parse chain (id_nid frame) (id_assurance_level frame) (vo_trusted_x509_roots_der opts)
           in if \<not> xr_valid r
              then Some (Some (verify_fail 3 (unwrap_or CERT_FORMAT_INVALID (xr_error_code r))
                     (unwrap_or ''X.509 chain validation failed'' (xr_message r))))
              else if vo_phase3_enforcement opts
              then (case chain of
                      [] \<Rightarrow> Some (Some (verify_fail 3 CERT_FORMAT_INVALID ''cert_chain is empty.''))
                    | leaf_b64u # _ \<Rightarrow>
                        (case b64url_decode cr leaf_b64u of
                           None \<Rightarrow> Some (Some (verify_fail 3 CERT_FORMAT_INVALID ''cert_chain[0] is not valid base64url DER.''))
                         | Some leaf_der \<Rightarrow>
                             map_option (\<lambda>p. if vr_valid p then None else Some p) (phase3_enforce cr frame leaf_der now)))
              else Some None
      else Some None)"

section \<open>Step 4: revocation\<close>

definition hex_upper :: "nat \<Rightarrow> char" where
  "hex_upper n = (if n < 10 then char_of (48 + n) else char_of (55 + n))"

definition escape_byte :: "u8 \<Rightarrow> string" where
  "escape_byte b =
     (if (65 \<le> b \<and> b \<le> 90) \<or> (97 \<le> b \<and> b \<le> 122) \<or> (48 \<le> b \<and> b \<le> 57) \<or> b \<in> {45, 95, 46, 126}
      then [char_of (unat b)] else [CHR 0x25, hex_upper (unat b div 16), hex_upper (unat b mod 16)])"

definition escape :: "string \<Rightarrow> string" where
  "escape s = concat (map escape_byte (utf8 s))"

definition trim_end_slash :: "string \<Rightarrow> string" where
  "trim_end_slash s = rev (dropWhile (\<lambda>c. c = CHR ''/'') (rev s))"

definition ocsp_transport_failure :: "string \<Rightarrow> string \<Rightarrow> verify_result" where
  "ocsp_transport_failure nid err = verify_fail 4 OCSP_UNAVAILABLE (''OCSP call failed for NID '' @ nid @ '': '' @ err)"

definition ocsp_code :: "string option \<Rightarrow> string" where
  "ocsp_code e =
     (case e of
        None \<Rightarrow> CERT_REVOKED
      | Some c \<Rightarrow> if c = CERT_REVOKED then CERT_REVOKED else if c = CERT_EXPIRED then CERT_EXPIRED
                else if c = OCSP_UNAVAILABLE then OCSP_UNAVAILABLE else CERT_REVOKED)"

definition ocsp_check :: "(string \<Rightarrow> ocsp_reply) \<Rightarrow> string \<Rightarrow> string \<Rightarrow> verify_result" where
  "ocsp_check http_get ocsp_url nid =
     (case http_get (trim_end_slash ocsp_url @ ''/'' @ escape nid) of
        Ocsp_unreachable e \<Rightarrow> ocsp_transport_failure nid e
      | Ocsp_status st \<Rightarrow> verify_fail 4 OCSP_UNAVAILABLE (''OCSP endpoint returned '' @ show_nat st @ ''.'')
      | Ocsp_bad_body e \<Rightarrow> ocsp_transport_failure nid e
      | Ocsp_body valid error_code \<Rightarrow>
          if \<not> valid then verify_fail 4 (ocsp_code error_code) (''OCSP check failed for NID '' @ nid @ ''.'')
          else verify_ok)"

definition ocsp_outcome :: "verify_result \<Rightarrow> revocation_outcome" where
  "ocsp_outcome r =
     (if vr_valid r then Good else if vr_error_code r = Some CERT_REVOKED then Revoked else Unavailable)"

text \<open>Each source in turn: \<open>Inl\<close> ends the check with a result.\<close>

type_synonym consultation = "verify_result + revocation_policy"

definition consult :: "revocation_source \<Rightarrow> revocation_outcome \<Rightarrow> revocation_policy \<Rightarrow> consultation" where
  "consult source outcome p =
     (case observe source outcome p of (Some r, p') \<Rightarrow> Inl r | (None, p') \<Rightarrow> Inr p')"

definition consult_crl :: "verifier_options \<Rightarrow> string \<Rightarrow> revocation_policy \<Rightarrow> consultation" where
  "consult_crl opts serial p =
     (if vo_local_crl_configured opts \<or> vo_local_revoked_serials opts \<noteq> []
      then consult LocalCrl (if serial \<noteq> [] \<and> serial \<in> set (vo_local_revoked_serials opts) then Revoked else Good) p
      else Inr p)"

definition consult_callback :: "verifier_options \<Rightarrow> ident_frame \<Rightarrow> revocation_policy \<Rightarrow> consultation" where
  "consult_callback opts frame p =
     (case vo_revocation_check opts of
        None \<Rightarrow> Inr p
      | Some cb \<Rightarrow>
          (case cb frame of
             Some r \<Rightarrow> if \<not> vr_valid r then Inl r else Inr (snd (observe Callback Good p))
           | None \<Rightarrow> Inr (snd (observe Callback Good p))))"

definition consult_store :: "verifier_options \<Rightarrow> string \<Rightarrow> revocation_policy \<Rightarrow> consultation" where
  "consult_store opts serial p =
     (case vo_revocation_store opts of
        None \<Rightarrow> Inr p
      | Some get_by_serial \<Rightarrow>
          consult CaStore (case get_by_serial serial of
             Some item \<Rightarrow> if rr_revoked_at item \<noteq> None then Revoked else Good | None \<Rightarrow> Good) p)"

definition consult_ocsp :: "(string \<Rightarrow> ocsp_reply) \<Rightarrow> verifier_options \<Rightarrow> string \<Rightarrow> revocation_policy \<Rightarrow> consultation" where
  "consult_ocsp http_get opts nid p =
     (case vo_ocsp_url opts of
        None \<Rightarrow> Inr p
      | Some ocsp_url \<Rightarrow> consult Ocsp (ocsp_outcome (ocsp_check http_get ocsp_url nid)) p)"

definition check_revocation :: "(string \<Rightarrow> ocsp_reply) \<Rightarrow> verifier_options \<Rightarrow> ident_frame \<Rightarrow> verify_result" where
  "check_revocation http_get opts frame =
     (let serial = unwrap_or [] (id_serial frame)
      in case try_res (consult_crl opts serial (policy_new (vo_revocation_mode opts) (vo_ocsp_fail_open opts))) (\<lambda>p.
              try_res (consult_callback opts frame p) (\<lambda>p.
              try_res (consult_store opts serial p) (\<lambda>p.
              consult_ocsp http_get opts (id_nid frame) p))) of
           Inl r \<Rightarrow> r
         | Inr p \<Rightarrow> policy_complete p)"

section \<open>Steps 5 and 6: capabilities and scope\<close>

definition step_capabilities :: "ident_frame \<Rightarrow> verify_context \<Rightarrow> verify_result option" where
  "step_capabilities frame ctx =
     (if vc_required_capabilities ctx = [] then None
      else let missing = filter (\<lambda>c. c \<notin> set (id_capabilities frame)) (vc_required_capabilities ctx)
           in if missing = [] then None
              else Some (verify_fail 5 CERT_CAPABILITY_MISSING
                     (''Certificate is missing required capabilities: '' @ join '', '' missing @ ''.'')))"

definition strip_suffix :: "string \<Rightarrow> string \<Rightarrow> string option" where
  "strip_suffix suf s = (if length suf \<le> length s \<and> drop (length s - length suf) s = suf
                         then Some (take (length s - length suf) s) else None)"

definition nwp_path_matches :: "string \<Rightarrow> string \<Rightarrow> bool" where
  "nwp_path_matches pattern path =
     (if pattern = ''*'' then True
      else case strip_suffix ''/*'' pattern of
             Some prefix \<Rightarrow>
               starts_with (to_ascii_lowercase prefix) (to_ascii_lowercase path)
               \<and> (length (utf8 path) = length (utf8 prefix)
                  \<or> (length (utf8 prefix) < length (utf8 path) \<and> utf8 path ! length (utf8 prefix) = 47))
           | None \<Rightarrow> to_ascii_lowercase pattern = to_ascii_lowercase path)"

definition check_scope :: "ident_frame \<Rightarrow> string \<Rightarrow> verify_result" where
  "check_scope frame target_path =
     (case Option.bind (Option.bind (id_scope frame) (\<lambda>s. jget s ''nodes'')) as_array of
        None \<Rightarrow> verify_fail 6 CERT_SCOPE_VIOLATION (''IdentFrame scope is missing '' @ quoted ''nodes'' @ '' field.'')
      | Some nodes \<Rightarrow>
          if list_ex (\<lambda>p. nwp_path_matches p target_path) (str_items nodes) then verify_ok
          else verify_fail 6 CERT_SCOPE_VIOLATION
                 (''Target path '' @ quoted target_path @ '' is not covered by the certificate scope.''))"

section \<open>The six steps\<close>

definition early_steps :: "crypto \<Rightarrow> verifier_options \<Rightarrow> ident_frame \<Rightarrow> string \<Rightarrow> int \<Rightarrow> verify_result option" where
  "early_steps cr opts frame issuer_nid now =
     or_else (step_expiry cr frame now)
     (or_else (step_issuer opts frame issuer_nid)
     (or_else (case map_of (vo_trusted_ca_public_keys opts) issuer_nid of
                 Some ca_pub_key_str \<Rightarrow> verify_signature cr frame ca_pub_key_str | None \<Rightarrow> None)
        (step_assurance opts frame)))"

definition late_steps :: "(string \<Rightarrow> ocsp_reply) \<Rightarrow> verifier_options \<Rightarrow> ident_frame \<Rightarrow> verify_context \<Rightarrow> verify_result" where
  "late_steps http_get opts frame ctx =
     (let revocation = check_revocation http_get opts frame
      in if \<not> vr_valid revocation then revocation
         else case step_capabilities frame ctx of
                Some r \<Rightarrow> r
              | None \<Rightarrow> (case vc_target_node_path ctx of Some target \<Rightarrow> check_scope frame target | None \<Rightarrow> verify_ok))"

definition verify_ident :: "crypto \<Rightarrow> cert_parser \<Rightarrow> (string \<Rightarrow> ocsp_reply) \<Rightarrow> verifier_options \<Rightarrow> ident_frame \<Rightarrow> string
    \<Rightarrow> verify_context \<Rightarrow> int \<Rightarrow> verify_result option" where
  "verify_ident cr parse http_get opts frame issuer_nid ctx now =
     (case early_steps cr opts frame issuer_nid now of
        Some r \<Rightarrow> Some r
      | None \<Rightarrow>
          (case step_x509 cr parse opts frame now of
             None \<Rightarrow> None
           | Some (Some r) \<Rightarrow> Some r
           | Some None \<Rightarrow> Some (late_steps http_get opts frame ctx)))"

section \<open>Trust frames\<close>

record trust_context =
  tc_trusted_grantors :: "string list"
  tc_expected_grantee_ca :: string
  tc_required_capabilities :: "string list"
  tc_target_node_path :: "string option"

definition trust_shape :: "trust_frame \<Rightarrow> bool" where
  "trust_shape f \<longleftrightarrow>
     \<not> (trim (tr_grantor_nid f) = [] \<or> trim (tr_grantee_ca f) = [] \<or> trim (tr_issued_at f) = [] \<or> trim (tr_expires_at f) = []
       \<or> trim (tr_serial f) = [] \<or> trim (tr_signer_nid f) = [] \<or> trim (tr_signature f) = []
       \<or> tr_trust_scope f = [] \<or> tr_nodes f = [])"

definition trust_validate :: "crypto \<Rightarrow> trust_frame \<Rightarrow> trust_context \<Rightarrow> int \<Rightarrow> verify_result" where
  "trust_validate cr f ctx now =
     (if \<not> trust_shape f
      then verify_fail 3 TRUST_FRAME_INVALID
        ''TrustFrame is missing grantor, grantee, issued_at, expires_at, serial, signer_nid, signature, trust_scope, or nodes.''
      else if rfc3339_read cr (tr_issued_at f) = None
      then verify_fail 3 TRUST_FRAME_INVALID (''TrustFrame issued_at is not a valid timestamp: '' @ tr_issued_at f @ ''.'')
      else case rfc3339_read cr (tr_expires_at f) of
        None \<Rightarrow> verify_fail 3 TRUST_FRAME_INVALID (''TrustFrame expires_at is not a valid timestamp: '' @ tr_expires_at f @ ''.'')
      | Some expires_at \<Rightarrow>
          if expires_at \<le> now then verify_fail 3 TRUST_FRAME_EXPIRED (''TrustFrame expired at '' @ tr_expires_at f @ ''.'')
          else if tr_grantor_nid f \<notin> set (tc_trusted_grantors ctx)
          then verify_fail 3 CERT_UNTRUSTED_ISSUER (''TrustFrame grantor '' @ quoted (tr_grantor_nid f) @ '' is not a trusted grantor.'')
          else if tr_grantee_ca f \<noteq> tc_expected_grantee_ca ctx
          then verify_fail 3 TRUST_FRAME_INVALID (''TrustFrame grantee '' @ quoted (tr_grantee_ca f) @ '' does not match expected CA ''
                 @ quoted (tc_expected_grantee_ca ctx) @ ''.'')
          else let missing = filter (\<lambda>c. c \<notin> set (tr_trust_scope f)) (tc_required_capabilities ctx)
          in if missing \<noteq> []
             then verify_fail 5 TRUST_FRAME_SCOPE_EXCEEDS_GRANTOR
                    (''TrustFrame is missing required capabilities: '' @ join '', '' missing @ ''.'')
             else (case tc_target_node_path ctx of
                None \<Rightarrow> verify_ok
              | Some target \<Rightarrow>
                  if list_ex (\<lambda>pattern. nwp_path_matches pattern target) (tr_nodes f) then verify_ok
                  else verify_fail 6 CERT_SCOPE_VIOLATION
                         (''Target path '' @ quoted target @ '' is not covered by the TrustFrame node scope.'')))"

end
