(* ===== verification/Nip_Verifier_Props.thy ===== *)
theory Nip_Verifier_Props
  imports Nip_Verifier
begin

text \<open>
  What the verifier of identities promises: which frames it accepts, which paths a pattern covers, how the
  revocation sources decide, and which claims of a frame the signature leaves open.
\<close>

section \<open>Patterns of paths\<close>

declare utf8_append [simp]

lemma code_inj: "code a = code b \<Longrightarrow> a = b"
  by simp

lemma utf8_char_lower: "length (utf8_char (to_ascii_lower c)) = length (utf8_char c)"
  by (simp add: to_ascii_lower_def utf8_char_def)

lemma utf8_lower_length: "to_ascii_lowercase a = to_ascii_lowercase b \<Longrightarrow> length (utf8 a) = length (utf8 b)"
proof (induction a arbitrary: b)
  case (Cons c a)
  then obtain d b' where b: "b = d # b'" "to_ascii_lower c = to_ascii_lower d" "to_ascii_lowercase a = to_ascii_lowercase b'"
    by (cases b) (auto simp: to_ascii_lowercase_def)
  with Cons.IH utf8_char_lower [of c] utf8_char_lower [of d] show ?case by simp
qed (simp add: to_ascii_lowercase_def)

lemma utf8_slash: "(hd (utf8_char c) :: u8) = 47 \<longleftrightarrow> c = CHR ''/''"
proof (cases "code c < 128")
  case True
  have "(of_nat (code c) :: u8) = 47 \<longleftrightarrow> code c = 47"
    using True word_of_nat_eq_iff [of "code c" 47, where 'a = 8] by (simp add: take_bit_nat_eq_self)
  also have "\<dots> \<longleftrightarrow> c = CHR ''/''"
    using code_inj [of c "CHR ''/''"] by auto
  finally show ?thesis using True by (simp add: utf8_char_def)
next
  case False
  have "code c div 64 < 4" by (rule less_mult_imp_div_less) simp
  moreover define w where "w = (of_nat (192 + code c div 64) :: u8)"
  ultimately have "unat w = 192 + code c div 64"
    by (simp only: w_def unat_of_nat) (simp add: take_bit_nat_eq_self)
  then have "w \<noteq> 47" by auto
  moreover have "c \<noteq> CHR ''/''" using False by auto
  ultimately show ?thesis using False by (simp only: utf8_char_def w_def if_False list.sel)
qed

lemma utf8_char_nonempty [simp]: "utf8_char c \<noteq> []"
  by (simp add: utf8_char_def)

text \<open>A pattern covers a path exactly when it is the star, or it ends in slash star and the path is the
  prefix, up to the case of letters, or lies under it at a slash, or it is the path up to the case of
  letters.\<close>

theorem path_matches_iff:
  "nwp_path_matches pattern path \<longleftrightarrow>
     pattern = ''*''
   \<or> (\<exists>prefix p rest. pattern = prefix @ ''/*'' \<and> path = p @ rest \<and> to_ascii_lowercase p = to_ascii_lowercase prefix
        \<and> (rest = [] \<or> hd rest = CHR ''/''))
   \<or> ((\<nexists>prefix. pattern = prefix @ ''/*'') \<and> to_ascii_lowercase pattern = to_ascii_lowercase path)"
proof -
  have suffix: "strip_suffix ''/*'' pattern = Some prefix \<longleftrightarrow> pattern = prefix @ ''/*''" for prefix
  proof
    assume "strip_suffix ''/*'' pattern = Some prefix"
    then have "prefix = take (length pattern - length ''/*'') pattern" "drop (length pattern - length ''/*'') pattern = ''/*''"
      by (simp_all only: strip_suffix_def split: if_splits) simp_all
    then show "pattern = prefix @ ''/*''" by (metis append_take_drop_id)
  qed (simp add: strip_suffix_def)
  have under: "starts_with (to_ascii_lowercase prefix) (to_ascii_lowercase path)
      \<and> (length (utf8 path) = length (utf8 prefix)
         \<or> (length (utf8 prefix) < length (utf8 path) \<and> utf8 path ! length (utf8 prefix) = 47))
    \<longleftrightarrow> (\<exists>p rest. path = p @ rest \<and> to_ascii_lowercase p = to_ascii_lowercase prefix \<and> (rest = [] \<or> hd rest = CHR ''/''))"
    for prefix
  proof -
    have starts: "starts_with (to_ascii_lowercase prefix) (to_ascii_lowercase path)
        \<longleftrightarrow> (\<exists>p rest. path = p @ rest \<and> to_ascii_lowercase p = to_ascii_lowercase prefix)"
    proof
      assume "starts_with (to_ascii_lowercase prefix) (to_ascii_lowercase path)"
      then have "to_ascii_lowercase (take (length prefix) path) = to_ascii_lowercase prefix"
        by (simp add: starts_with_def to_ascii_lowercase_def take_map)
      then show "\<exists>p rest. path = p @ rest \<and> to_ascii_lowercase p = to_ascii_lowercase prefix"
        using append_take_drop_id [of "length prefix" path, symmetric] by blast
    next
      assume "\<exists>p rest. path = p @ rest \<and> to_ascii_lowercase p = to_ascii_lowercase prefix"
      then obtain p rest where "path = p @ rest" "map to_ascii_lower p = map to_ascii_lower prefix"
        by (auto simp: to_ascii_lowercase_def)
      then show "starts_with (to_ascii_lowercase prefix) (to_ascii_lowercase path)"
        by (simp add: starts_with_def to_ascii_lowercase_def)
    qed
    have tail: "length (utf8 path) = length (utf8 prefix)
         \<or> (length (utf8 prefix) < length (utf8 path) \<and> utf8 path ! length (utf8 prefix) = 47)
       \<longleftrightarrow> rest = [] \<or> hd rest = CHR ''/''"
      if "path = p @ rest" "to_ascii_lowercase p = to_ascii_lowercase prefix" for p rest
      using that utf8_lower_length [OF that(2)] utf8_slash [of "hd rest"]
      by (cases rest) (auto simp: nth_append hd_conv_nth)
    show ?thesis using starts tail by blast
  qed
  show ?thesis
  proof (cases "strip_suffix ''/*'' pattern")
    case None
    then have "pattern \<noteq> prefix @ ''/*''" for prefix using suffix [of prefix] by simp
    with None show ?thesis by (simp add: nwp_path_matches_def)
  next
    case (Some pre)
    then have "pattern = pre @ ''/*''" by (simp only: suffix)
    then have only: "pattern = prefix @ ''/*'' \<longleftrightarrow> prefix = pre" for prefix by auto
    show ?thesis
      unfolding nwp_path_matches_def Some option.case under [of pre] only by simp
  qed
qed

section \<open>Revocation\<close>

lemma verify_ok_valid [simp]: "vr_valid verify_ok"
  by (simp add: verify_ok_def)

lemma consult_cases:
  "consult source outcome p =
     (if outcome = Good \<or> (source = Ocsp \<and> outcome = Unavailable \<and> rp_ocsp_fail_open p)
      then Inr (p\<lparr>rp_consulted_sources := rp_consulted_sources p @ [source]\<rparr>)
      else Inl (the (fst (observe source outcome p))))"
  by (cases outcome) (auto simp: consult_def observe_def Let_def)

lemma observe_invalid:
  "\<not> (outcome = Good \<or> (source = Ocsp \<and> outcome = Unavailable \<and> rp_ocsp_fail_open p)) \<Longrightarrow>
     \<not> vr_valid (the (fst (observe source outcome p)))"
  by (cases outcome) (auto simp: observe_def Let_def verify_fail_def)

definition revocation_configured :: "verifier_options \<Rightarrow> bool" where
  "revocation_configured opts \<longleftrightarrow> vo_local_crl_configured opts \<or> vo_local_revoked_serials opts \<noteq> []
     \<or> vo_revocation_check opts \<noteq> None \<or> vo_revocation_store opts \<noteq> None \<or> vo_ocsp_url opts \<noteq> None"

definition not_revoked :: "(string \<Rightarrow> ocsp_reply) \<Rightarrow> verifier_options \<Rightarrow> ident_frame \<Rightarrow> bool" where
  "not_revoked http_get opts frame \<longleftrightarrow>
     (let serial = unwrap_or [] (id_serial frame) in
      (serial \<noteq> [] \<longrightarrow> serial \<notin> set (vo_local_revoked_serials opts))
    \<and> (\<forall>cb r. vo_revocation_check opts = Some cb \<longrightarrow> cb frame = Some r \<longrightarrow> vr_valid r)
    \<and> (\<forall>get item. vo_revocation_store opts = Some get \<longrightarrow> get serial = Some item \<longrightarrow> rr_revoked_at item = None)
    \<and> (\<forall>url. vo_ocsp_url opts = Some url \<longrightarrow>
         ocsp_outcome (ocsp_check http_get url (id_nid frame)) = Good
       \<or> (ocsp_outcome (ocsp_check http_get url (id_nid frame)) = Unavailable \<and> vo_ocsp_fail_open opts)))
    \<and> (vo_revocation_mode opts = Required \<longrightarrow> revocation_configured opts)"

text \<open>The state of the policy after the sources: mode and fail-open setting stay, the sources add up.\<close>

definition same_policy :: "revocation_policy \<Rightarrow> revocation_policy \<Rightarrow> bool" where
  "same_policy p q \<longleftrightarrow> rp_mode q = rp_mode p \<and> rp_ocsp_fail_open q = rp_ocsp_fail_open p"

lemma crl_step:
  "case consult_crl opts serial p of
     Inl r \<Rightarrow> \<not> vr_valid r \<and> serial \<noteq> [] \<and> serial \<in> set (vo_local_revoked_serials opts)
   | Inr q \<Rightarrow> (serial \<noteq> [] \<longrightarrow> serial \<notin> set (vo_local_revoked_serials opts)) \<and> same_policy p q
       \<and> (rp_consulted_sources q = [] \<longleftrightarrow> rp_consulted_sources p = []
            \<and> \<not> (vo_local_crl_configured opts \<or> vo_local_revoked_serials opts \<noteq> []))"
  using observe_invalid [of Revoked LocalCrl p]
  by (auto simp: consult_crl_def consult_cases same_policy_def)

lemma callback_step:
  "case consult_callback opts frame p of
     Inl r \<Rightarrow> \<not> vr_valid r \<and> (\<exists>cb r. vo_revocation_check opts = Some cb \<and> cb frame = Some r \<and> \<not> vr_valid r)
   | Inr q \<Rightarrow> (\<forall>cb r. vo_revocation_check opts = Some cb \<longrightarrow> cb frame = Some r \<longrightarrow> vr_valid r) \<and> same_policy p q
       \<and> (rp_consulted_sources q = [] \<longleftrightarrow> rp_consulted_sources p = [] \<and> vo_revocation_check opts = None)"
  by (auto simp: consult_callback_def same_policy_def observe_def Let_def split: option.splits)

lemma store_step:
  "case consult_store opts serial p of
     Inl r \<Rightarrow> \<not> vr_valid r \<and> (\<exists>get item. vo_revocation_store opts = Some get \<and> get serial = Some item \<and> rr_revoked_at item \<noteq> None)
   | Inr q \<Rightarrow> (\<forall>get item. vo_revocation_store opts = Some get \<longrightarrow> get serial = Some item \<longrightarrow> rr_revoked_at item = None)
       \<and> same_policy p q
       \<and> (rp_consulted_sources q = [] \<longleftrightarrow> rp_consulted_sources p = [] \<and> vo_revocation_store opts = None)"
  using observe_invalid [of Revoked CaStore p]
  by (auto simp: consult_store_def consult_cases same_policy_def split: option.splits)

lemma ocsp_step:
  "case consult_ocsp http_get opts nid p of
     Inl r \<Rightarrow> \<not> vr_valid r \<and> (\<exists>url. vo_ocsp_url opts = Some url \<and> ocsp_outcome (ocsp_check http_get url nid) \<noteq> Good
                \<and> \<not> (ocsp_outcome (ocsp_check http_get url nid) = Unavailable \<and> rp_ocsp_fail_open p))
   | Inr q \<Rightarrow> (\<forall>url. vo_ocsp_url opts = Some url \<longrightarrow> ocsp_outcome (ocsp_check http_get url nid) = Good
                \<or> (ocsp_outcome (ocsp_check http_get url nid) = Unavailable \<and> rp_ocsp_fail_open p)) \<and> same_policy p q
       \<and> (rp_consulted_sources q = [] \<longleftrightarrow> rp_consulted_sources p = [] \<and> vo_ocsp_url opts = None)"
proof (cases "vo_ocsp_url opts")
  case (Some url)
  then show ?thesis
    using observe_invalid [of "ocsp_outcome (ocsp_check http_get url nid)" Ocsp p]
    by (auto simp: consult_ocsp_def consult_cases same_policy_def)
qed (simp add: consult_ocsp_def same_policy_def)

lemma check_revocation_iff: "vr_valid (check_revocation http_get opts frame) \<longleftrightarrow> not_revoked http_get opts frame"
proof -
  let ?s = "unwrap_or [] (id_serial frame)" and ?p0 = "policy_new (vo_revocation_mode opts) (vo_ocsp_fail_open opts)"
  note defs = check_revocation_def Let_def not_revoked_def
  show ?thesis
  proof (cases "consult_crl opts ?s ?p0")
    case (Inl r)
    with crl_step [where opts = opts and serial = ?s and p = ?p0] show ?thesis by (auto simp: defs)
  next
    case p1: (Inr p1)
    note c1 = crl_step [where opts = opts and serial = ?s and p = ?p0, unfolded p1 sum.case]
    show ?thesis
    proof (cases "consult_callback opts frame p1")
      case (Inl r)
      with callback_step [where opts = opts and frame = frame and p = p1] p1 show ?thesis by (auto simp: defs)
    next
      case p2: (Inr p2)
      note c2 = callback_step [where opts = opts and frame = frame and p = p1, unfolded p2 sum.case]
      show ?thesis
      proof (cases "consult_store opts ?s p2")
        case (Inl r)
        with store_step [where opts = opts and serial = ?s and p = p2] p1 p2 show ?thesis by (auto simp: defs)
      next
        case p3: (Inr p3)
        note c3 = store_step [where opts = opts and serial = ?s and p = p2, unfolded p3 sum.case]
        have open3: "rp_ocsp_fail_open p3 = vo_ocsp_fail_open opts" "rp_mode p3 = vo_revocation_mode opts"
          using c1 c2 c3 by (simp_all add: same_policy_def policy_new_def)
        have none3: "rp_consulted_sources p3 = [] \<longleftrightarrow> \<not> (vo_local_crl_configured opts \<or> vo_local_revoked_serials opts \<noteq> []
            \<or> vo_revocation_check opts \<noteq> None \<or> vo_revocation_store opts \<noteq> None)"
          using c1 c2 c3 by (auto simp: policy_new_def)
        show ?thesis
        proof (cases "consult_ocsp http_get opts (id_nid frame) p3")
          case (Inl r)
          with ocsp_step [where http_get = http_get and opts = opts and nid = "id_nid frame" and p = p3] p1 p2 p3 open3 show ?thesis by (auto simp: defs)
        next
          case p4: (Inr p4)
          note c4 = ocsp_step [where http_get = http_get and opts = opts and nid = "id_nid frame" and p = p3, unfolded p4 sum.case]
          have "check_revocation http_get opts frame = policy_complete p4"
            by (simp add: check_revocation_def Let_def p1 p2 p3 p4)
          moreover have "vr_valid (policy_complete p4) \<longleftrightarrow> (vo_revocation_mode opts = Required \<longrightarrow> revocation_configured opts)"
            using c4 none3 open3
            by (auto simp: policy_complete_def verify_fail_def verify_ok_def same_policy_def revocation_configured_def)
          ultimately show ?thesis
            using c1 c2 c3 c4 open3 by (simp add: not_revoked_def)
        qed
      qed
    qed
  qed
qed

section \<open>The six steps\<close>

definition signature_ok :: "crypto \<Rightarrow> ident_frame \<Rightarrow> string \<Rightarrow> bool" where
  "signature_ok cr frame key \<longleftrightarrow>
     (\<exists>text raw vk sig. id_signature frame = Some (PREFIX @ text) \<and> b64_decode cr text = Some sig \<and> length sig = 64
        \<and> parse_pub_key_string cr key = Ok raw \<and> key_from_bytes cr raw = Some vk
        \<and> ed_verify cr vk (utf8 (verifier_canonical_json cr (ident_unsigned_dict frame))) sig)"

lemma verify_signature_iff: "verify_signature cr frame key = None \<longleftrightarrow> signature_ok cr frame key"
proof -
  have "starts_with PREFIX s \<longleftrightarrow> (\<exists>text. s = PREFIX @ text)" for s
    by (auto simp: starts_with_def) (metis append_take_drop_id)
  then show ?thesis
    by (cases "id_signature frame")
       (auto simp: verify_signature_def signature_ok_def split: if_splits sum.splits option.splits)
qed

definition chain_ok :: "crypto \<Rightarrow> cert_parser \<Rightarrow> verifier_options \<Rightarrow> ident_frame \<Rightarrow> int \<Rightarrow> bool" where
  "chain_ok cr parse opts frame now \<longleftrightarrow>
     (vo_trusted_x509_roots_der opts \<noteq> [] \<and> id_cert_format frame = Some V2_X509 \<longrightarrow>
        xr_valid (x509_verify cr parse (unwrap_or [] (id_cert_chain frame)) (id_nid frame) (id_assurance_level frame)
          (vo_trusted_x509_roots_der opts))
      \<and> (vo_phase3_enforcement opts \<longrightarrow>
           (\<exists>leaf rest der r. id_cert_chain frame = Some (leaf # rest) \<and> b64url_decode cr leaf = Some der
              \<and> phase3_enforce cr frame der now = Some r \<and> vr_valid r)))"

lemma step_x509_iff: "step_x509 cr parse opts frame now = Some None \<longleftrightarrow> chain_ok cr parse opts frame now"
proof -
  have "unwrap_or [] c = l # ls \<longleftrightarrow> c = Some (l # ls)" for c :: "string list option" and l ls
    by (cases c) auto
  then show ?thesis
    by (auto simp: step_x509_def chain_ok_def Let_def split: if_splits list.splits option.splits)
qed

definition scope_ok :: "ident_frame \<Rightarrow> string \<Rightarrow> bool" where
  "scope_ok frame target \<longleftrightarrow>
     (\<exists>scope nodes pattern. id_scope frame = Some scope \<and> jget scope ''nodes'' = Some (JArray nodes)
        \<and> JString pattern \<in> set nodes \<and> nwp_path_matches pattern target)"

lemma str_items_mem: "x \<in> set (str_items vs) \<longleftrightarrow> JString x \<in> set vs"
proof (induction vs)
  case (Cons v vs)
  then show ?case by (cases v) (auto simp: str_items_def List.map_filter_simps)
qed (simp add: str_items_def List.map_filter_simps)

lemma as_array_iff: "as_array v = Some vs \<longleftrightarrow> v = JArray vs"
  by (cases v) auto

lemma check_scope_iff: "check_scope frame target = verify_ok \<longleftrightarrow> scope_ok frame target"
proof -
  have "check_scope frame target = verify_ok \<longleftrightarrow>
      (\<exists>nodes. Option.bind (Option.bind (id_scope frame) (\<lambda>s. jget s ''nodes'')) as_array = Some nodes
        \<and> (\<exists>p \<in> set (str_items nodes). nwp_path_matches p target))"
    by (auto simp: check_scope_def verify_fail_def verify_ok_def list_ex_iff split: option.splits)
  also have "\<dots> \<longleftrightarrow> scope_ok frame target"
    by (auto simp: scope_ok_def bind_eq_Some_conv as_array_iff str_items_mem Bex_def)
  finally show ?thesis .
qed

definition passes_six_steps :: "crypto \<Rightarrow> cert_parser \<Rightarrow> (string \<Rightarrow> ocsp_reply) \<Rightarrow> verifier_options \<Rightarrow> ident_frame \<Rightarrow> string
    \<Rightarrow> verify_context \<Rightarrow> int \<Rightarrow> bool" where
  "passes_six_steps cr parse http_get opts frame issuer ctx now \<longleftrightarrow>
     (\<forall>e. id_expires_at frame = Some e \<longrightarrow> (\<exists>t. rfc3339_read cr e = Some t \<and> now < t))
   \<and> (\<forall>d. id_issued_by frame = Some d \<longrightarrow> d = issuer)
   \<and> (\<exists>key. map_of (vo_trusted_ca_public_keys opts) issuer = Some key \<and> signature_ok cr frame key)
   \<and> (\<forall>l. vo_min_assurance_level opts = Some l \<longrightarrow> al_rank l \<le> al_rank (unwrap_or ANONYMOUS (id_assurance_level frame)))
   \<and> chain_ok cr parse opts frame now
   \<and> not_revoked http_get opts frame
   \<and> set (vc_required_capabilities ctx) \<subseteq> set (id_capabilities frame)
   \<and> (\<forall>target. vc_target_node_path ctx = Some target \<longrightarrow> scope_ok frame target)"

lemma verify_ident_accepts:
  "verify_ident cr parse http_get opts frame issuer ctx now = Some verify_ok
     \<longleftrightarrow> passes_six_steps cr parse http_get opts frame issuer ctx now"
proof -
  have bad: "verify_fail i c m \<noteq> verify_ok" for i c m by (simp add: verify_fail_def verify_ok_def)
  have expiry: "step_expiry cr frame now = None \<longleftrightarrow> (\<forall>e. id_expires_at frame = Some e \<longrightarrow> (\<exists>t. rfc3339_read cr e = Some t \<and> now < t))"
    by (auto simp: step_expiry_def split: option.splits if_splits)
  have issuer: "step_issuer opts frame issuer = None \<longleftrightarrow>
      (\<forall>d. id_issued_by frame = Some d \<longrightarrow> d = issuer) \<and> map_of (vo_trusted_ca_public_keys opts) issuer \<noteq> None"
    by (auto simp: step_issuer_def split: option.splits if_splits)
  have level: "step_assurance opts frame = None \<longleftrightarrow>
      (\<forall>l. vo_min_assurance_level opts = Some l \<longrightarrow> al_rank l \<le> al_rank (unwrap_or ANONYMOUS (id_assurance_level frame)))"
    by (auto simp: step_assurance_def meets_or_exceeds_def Let_def split: option.splits)
  have early: "early_steps cr opts frame issuer now = None \<longleftrightarrow> step_expiry cr frame now = None \<and> step_issuer opts frame issuer = None
      \<and> (\<exists>key. map_of (vo_trusted_ca_public_keys opts) issuer = Some key \<and> signature_ok cr frame key) \<and> step_assurance opts frame = None"
    unfolding early_steps_def or_else_None issuer
    by (cases "map_of (vo_trusted_ca_public_keys opts) issuer") (auto simp: verify_signature_iff)
  have caps: "step_capabilities frame ctx = None \<longleftrightarrow> set (vc_required_capabilities ctx) \<subseteq> set (id_capabilities frame)"
    by (auto simp: step_capabilities_def Let_def filter_empty_conv)
  have late: "late_steps http_get opts frame ctx = verify_ok \<longleftrightarrow> not_revoked http_get opts frame \<and> step_capabilities frame ctx = None
      \<and> (\<forall>target. vc_target_node_path ctx = Some target \<longrightarrow> scope_ok frame target)"
    using check_revocation_iff [of http_get opts frame] check_scope_iff [of frame]
    by (auto simp: late_steps_def Let_def step_capabilities_def bad
        split: option.splits if_splits)
  have early_bad: "early_steps cr opts frame issuer now \<noteq> Some verify_ok"
    by (auto simp: early_steps_def or_else_def step_expiry_def step_issuer_def verify_signature_def step_assurance_def bad Let_def
        split: option.splits if_splits sum.splits)
  have x509_bad: "step_x509 cr parse opts frame now \<noteq> Some (Some verify_ok)"
    by (auto simp: step_x509_def bad Let_def split: if_splits option.splits list.splits)
  have "verify_ident cr parse http_get opts frame issuer ctx now = Some verify_ok \<longleftrightarrow>
      early_steps cr opts frame issuer now = None \<and> step_x509 cr parse opts frame now = Some None
      \<and> late_steps http_get opts frame ctx = verify_ok"
    using early_bad x509_bad by (auto simp: verify_ident_def split: option.splits)
  then show ?thesis unfolding passes_six_steps_def early expiry issuer level step_x509_iff late caps by blast
qed

text \<open>Property C37 (functional). The verifier accepts exactly the frames that pass the six steps: a declared expiry lies ahead, a
  declared issuer is the expected one, the issuer is trusted and its key verifies the signature over the
  unsigned dictionary, the assurance level suffices, a version 2 frame has an accepted chain where roots
  are configured, no revocation source objects, the capabilities are there and the scope covers the path.\<close>

theorem verify_ident_iff:
  "verify_ident cr parse http_get opts frame issuer ctx now = Some verify_ok \<longleftrightarrow>
     (\<forall>e. id_expires_at frame = Some e \<longrightarrow> (\<exists>t. rfc3339_read cr e = Some t \<and> now < t))
   \<and> (\<forall>d. id_issued_by frame = Some d \<longrightarrow> d = issuer)
   \<and> (\<exists>key. map_of (vo_trusted_ca_public_keys opts) issuer = Some key \<and> signature_ok cr frame key)
   \<and> (\<forall>l. vo_min_assurance_level opts = Some l \<longrightarrow> al_rank l \<le> al_rank (unwrap_or ANONYMOUS (id_assurance_level frame)))
   \<and> chain_ok cr parse opts frame now
   \<and> not_revoked http_get opts frame
   \<and> set (vc_required_capabilities ctx) \<subseteq> set (id_capabilities frame)
   \<and> (\<forall>target. vc_target_node_path ctx = Some target \<longrightarrow> scope_ok frame target)"
  unfolding verify_ident_accepts passes_six_steps_def ..

section \<open>Claims that the signature leaves open\<close>

text \<open>The signed dictionary has the id, the key, the metadata and the assurance level. What the later steps rely on
  is not in it.\<close>

definition with_claims :: "ident_frame \<Rightarrow> string list \<Rightarrow> jvalue \<Rightarrow> string option \<Rightarrow> ident_frame" where
  "with_claims frame caps scope expires =
     frame\<lparr>id_capabilities := caps, id_scope := Some scope, id_expires_at := expires\<rparr>"

lemma unsigned_claims [simp]: "ident_unsigned_dict (with_claims frame caps scope expires) = ident_unsigned_dict frame"
  by (simp add: with_claims_def ident_unsigned_dict_def)


definition demo_options :: verifier_options where
  "demo_options = \<lparr>vo_trusted_ca_public_keys = [(''ca'', pub_key_string plain_crypto [7])], vo_trusted_x509_roots_der = [],
     vo_local_revoked_serials = [], vo_local_crl_configured = False, vo_revocation_check = None, vo_revocation_store = None,
     vo_ocsp_url = None, vo_ocsp_fail_open = False, vo_revocation_mode = IfConfigured, vo_min_assurance_level = None,
     vo_phase3_enforcement = False\<rparr>"

definition demo_ident :: ident_frame where
  "demo_ident = (ident_new ''n'' ''k'')\<lparr>id_signature := Some (identity_sign plain_crypto [7] [])\<rparr>"

lemma demo_accepted:
  "verify_ident plain_crypto parse http_get demo_options demo_ident ''ca''
     \<lparr>vc_required_capabilities = [], vc_target_node_path = None\<rparr> now = Some verify_ok"
proof -
  have "signature_ok plain_crypto demo_ident (pub_key_string plain_crypto [7])"
    by (simp add: signature_ok_def demo_ident_def ident_new_def identity_sign_def pub_key_string_def parse_pub_key_string_def
        plain_crypto_def plain_bytes_text starts_with_def plain_public_def)
  then show ?thesis
    unfolding verify_ident_accepts passes_six_steps_def
    by (simp add: demo_options_def not_revoked_def chain_ok_def) (simp add: demo_ident_def ident_new_def)
qed


section \<open>Trust frames\<close>

text \<open>A trust frame is accepted exactly when all its parts are there, its times are valid and it has not
  expired, its grantor is trusted and its grantee the expected authority, the required capabilities are
  granted and the target path is covered.\<close>

theorem trust_validate_iff:
  "trust_validate cr f ctx now = verify_ok \<longleftrightarrow>
     trust_shape f \<and> rfc3339_read cr (tr_issued_at f) \<noteq> None
   \<and> (\<exists>t. rfc3339_read cr (tr_expires_at f) = Some t \<and> now < t)
   \<and> tr_grantor_nid f \<in> set (tc_trusted_grantors ctx) \<and> tr_grantee_ca f = tc_expected_grantee_ca ctx
   \<and> set (tc_required_capabilities ctx) \<subseteq> set (tr_trust_scope f)
   \<and> (\<forall>target. tc_target_node_path ctx = Some target \<longrightarrow> (\<exists>pattern \<in> set (tr_nodes f). nwp_path_matches pattern target))"
proof -
  have bad: "verify_fail i c m \<noteq> verify_ok" for i c m by (simp add: verify_fail_def verify_ok_def)
  have missing: "filter (\<lambda>c. c \<notin> set xs) ys = [] \<longleftrightarrow> set ys \<subseteq> set xs" for xs ys :: "string list"
    by (auto simp: filter_empty_conv)
  show ?thesis
    by (cases "rfc3339_read cr (tr_expires_at f)"; cases "tc_target_node_path ctx")
       (simp_all add: trust_validate_def bad missing Let_def list_ex_iff not_le)
qed

definition demo_trust :: trust_frame where
  "demo_trust = \<lparr>tr_grantor_nid = ''g'', tr_grantee_ca = ''ca'', tr_trust_scope = [''nwp:query''], tr_nodes = [''nwp://a/*''],
     tr_issued_at = ''i'', tr_expires_at = ''e'', tr_serial = ''1'', tr_signer_nid = ''g'', tr_signature = ''s''\<rparr>"

theorem trust_validate_iff_witness:
  "trust_validate plain_crypto demo_trust
     \<lparr>tc_trusted_grantors = [''g''], tc_expected_grantee_ca = ''ca'', tc_required_capabilities = [''nwp:query''],
      tc_target_node_path = None\<rparr> 0 = verify_ok"
  unfolding trust_validate_iff
  by (simp add: trust_shape_def demo_trust_def plain_crypto_def trim_def trim_start_def trim_end_def is_whitespace_def)

theorem verify_ident_iff_witness: "signature_ok plain_crypto demo_ident (pub_key_string plain_crypto [7])"
  using verify_ident_iff [of plain_crypto demo_parse "\<lambda>url. Ocsp_status 500" demo_options demo_ident "''ca''"
      "\<lparr>vc_required_capabilities = [], vc_target_node_path = None\<rparr>" 0] demo_accepted [of demo_parse "\<lambda>url. Ocsp_status 500" 0]
  by (simp add: demo_options_def)

end
