(* ===== verification/Nip_Ca.thy ===== *)
theory Nip_Ca
  imports Nip_Verifier
begin

text \<open>
  \<^verbatim>\<open>nps-nip/src/ca/options.rs\<close>, \<^verbatim>\<open>error.rs\<close>, \<^verbatim>\<open>store.rs\<close> and \<^verbatim>\<open>service.rs\<close>: the certificate authority over its in-memory store. Times are
  nanoseconds since the epoch; the readings of the clock during a call are the argument \<open>now\<close>, or the
  function \<open>clk\<close> from the number of the reading where a call reads it more than once; random text is an
  argument. A result \<open>None\<close> is a panic: a time beyond the year 9999. The X.509 variant of the registration
  is not modelled.
\<close>

section \<open>Errors and options\<close>

record ca_error =
  ca_message :: string
  ca_code :: string

definition ca_err :: "string \<Rightarrow> string \<Rightarrow> ca_error" where
  "ca_err msg c = \<lparr>ca_message = msg, ca_code = c\<rparr>"

definition CA_NID_NOT_FOUND :: string where "CA_NID_NOT_FOUND = ''NIP-CA-NID-NOT-FOUND''"
definition CA_NID_ALREADY_EXISTS :: string where "CA_NID_ALREADY_EXISTS = ''NIP-CA-NID-ALREADY-EXISTS''"
definition CA_SERIAL_DUPLICATE :: string where "CA_SERIAL_DUPLICATE = ''NIP-CA-SERIAL-DUPLICATE''"
definition CA_RENEWAL_TOO_EARLY :: string where "CA_RENEWAL_TOO_EARLY = ''NIP-CA-RENEWAL-TOO-EARLY''"
definition CA_SCOPE_EXPANSION_DENIED :: string where "CA_SCOPE_EXPANSION_DENIED = ''NIP-CA-SCOPE-EXPANSION-DENIED''"
definition CA_GROUP_REVOKED :: string where "CA_GROUP_REVOKED = ''NIP-CA-GROUP-REVOKED''"
definition CA_PARENT_NOT_FOUND :: string where "CA_PARENT_NOT_FOUND = ''NIP-CA-PARENT-NOT-FOUND''"
definition CA_PARENT_NOT_GROUP :: string where "CA_PARENT_NOT_GROUP = ''NIP-CA-PARENT-NOT-GROUP''"
definition CA_SESSION_VALIDITY_INVALID :: string where "CA_SESSION_VALIDITY_INVALID = ''NIP-CA-SESSION-VALIDITY-INVALID''"
definition CERT_PARENT_REVOKED :: string where "CERT_PARENT_REVOKED = ''NIP-CERT-PARENT-REVOKED''"

datatype enrollment_tier = Allowlist | BootstrapToken | PendingQueue

definition DAY :: int where "DAY = 86400 * 1000000000"
definition HOUR :: int where "HOUR = 3600 * 1000000000"
definition MINUTE :: int where "MINUTE = 60 * 1000000000"

record ca_options =
  co_ca_nid :: string
  co_display_name :: "string option"
  co_agent_cert_validity_days :: int
  co_node_cert_validity_days :: int
  co_renewal_window_days :: int
  co_group_cert_validity_days :: int
  co_session_default_validity :: int
  co_session_max_validity :: int
  co_session_min_validity :: int
  co_session_jws_clock_skew :: int
  co_base_url :: string
  co_route_prefix :: string
  co_algorithms :: "string list"
  co_operator_api_key :: "string option"
  co_allowed_capabilities :: "string list option"
  co_enrollment_tier :: enrollment_tier
  co_enrollment_allowlist_patterns :: "string list"
  co_bootstrap_token_max_ttl :: int
  co_pending_queue_max_size :: nat
  co_pending_queue_max_age :: int

definition ca_options_new :: "string \<Rightarrow> string \<Rightarrow> ca_options" where
  "ca_options_new ca_nid base_url =
     \<lparr>co_ca_nid = ca_nid, co_display_name = None, co_agent_cert_validity_days = 30, co_node_cert_validity_days = 90,
      co_renewal_window_days = 7, co_group_cert_validity_days = 365, co_session_default_validity = HOUR,
      co_session_max_validity = 24 * HOUR, co_session_min_validity = MINUTE, co_session_jws_clock_skew = 5 * MINUTE,
      co_base_url = base_url, co_route_prefix = [], co_algorithms = [''ed25519''], co_operator_api_key = None,
      co_allowed_capabilities = None, co_enrollment_tier = Allowlist, co_enrollment_allowlist_patterns = [''*''],
      co_bootstrap_token_max_ttl = 24 * HOUR, co_pending_queue_max_size = 1000, co_pending_queue_max_age = 7 * DAY\<rparr>"

section \<open>The certificate store\<close>

definition ROLE_GROUP :: string where "ROLE_GROUP = ''group''"
definition ROLE_SESSION :: string where "ROLE_SESSION = ''session''"

record cert_record =
  ct_nid :: string
  ct_entity_type :: string
  ct_serial :: string
  ct_pub_key :: string
  ct_capabilities :: "string list"
  ct_scope_json :: string
  ct_issued_by :: string
  ct_issued_at :: int
  ct_expires_at :: int
  ct_revoked_at :: "int option"
  ct_revoke_reason :: "string option"
  ct_metadata_json :: "string option"
  ct_nid_role :: "string option"
  ct_parent_nid :: "string option"
  ct_lineage_json :: "string option"

definition is_revoked :: "cert_record \<Rightarrow> bool" where
  "is_revoked r \<longleftrightarrow> ct_revoked_at r \<noteq> None"

datatype store_error = NidExists string | SerialExists string

record ca_store_state =
  cs_records :: "cert_record list"
  cs_serial :: u64

definition ca_store_new :: ca_store_state where
  "ca_store_new = \<lparr>cs_records = [], cs_serial = 0\<rparr>"

definition ca_save :: "cert_record \<Rightarrow> ca_store_state \<Rightarrow> store_error + ca_store_state" where
  "ca_save r s =
     (if list_ex (\<lambda>q. ct_serial q = ct_serial r) (cs_records s) then Err (SerialExists (ct_serial r))
      else Ok (s\<lparr>cs_records := cs_records s @ [r]\<rparr>))"

definition ca_get_by_nid :: "ca_store_state \<Rightarrow> string \<Rightarrow> cert_record option" where
  "ca_get_by_nid s nid = find (\<lambda>r. ct_nid r = nid) (rev (cs_records s))"

definition ca_get_by_serial :: "ca_store_state \<Rightarrow> string \<Rightarrow> cert_record option" where
  "ca_get_by_serial s serial = find (\<lambda>r. ct_serial r = serial) (cs_records s)"

fun rposition :: "('a \<Rightarrow> bool) \<Rightarrow> 'a list \<Rightarrow> nat option" where
  "rposition P [] = None"
| "rposition P (x # xs) = (case rposition P xs of Some i \<Rightarrow> Some (Suc i) | None \<Rightarrow> if P x then Some 0 else None)"

definition ca_mark_revoked :: "string \<Rightarrow> string \<Rightarrow> int \<Rightarrow> ca_store_state \<Rightarrow> bool \<times> ca_store_state" where
  "ca_mark_revoked nid reason revoked_at s =
     (case rposition (\<lambda>r. ct_nid r = nid \<and> ct_revoked_at r = None) (cs_records s) of
        Some i \<Rightarrow> (True, s\<lparr>cs_records := (cs_records s)[i := ((cs_records s) ! i)
                    \<lparr>ct_revoked_at := Some revoked_at, ct_revoke_reason := Some reason\<rparr>]\<rparr>)
      | None \<Rightarrow> (False, s))"

fun show_hex :: "nat \<Rightarrow> string" where
  "show_hex n = (if n < 16 then [hex_upper n] else show_hex (n div 16) @ [hex_upper (n mod 16)])"

declare show_hex.simps [simp del]

definition ca_next_serial :: "ca_store_state \<Rightarrow> string \<times> ca_store_state" where
  "ca_next_serial s =
     (let n = cs_serial s + 1 in (''0x'' @ show_hex (unat n), s\<lparr>cs_serial := n\<rparr>))"

definition ca_get_revoked :: "ca_store_state \<Rightarrow> cert_record list" where
  "ca_get_revoked s = filter is_revoked (cs_records s)"

definition ca_get_by_parent_nid :: "ca_store_state \<Rightarrow> string \<Rightarrow> cert_record list" where
  "ca_get_by_parent_nid s parent_nid = filter (\<lambda>r. ct_parent_nid r = Some parent_nid) (cs_records s)"

section \<open>Issuing\<close>

text \<open>\<open>OffsetDateTime + Duration\<close>, which panics beyond the supported years.\<close>

definition time_add :: "int \<Rightarrow> int \<Rightarrow> int option" where
  "time_add t d = (if -377705116800 * 1000000000 \<le> t + d \<and> t + d < 253402300800 * 1000000000 then Some (t + d) else None)"

definition build_nid :: "ca_options \<Rightarrow> string \<Rightarrow> string \<Rightarrow> string" where
  "build_nid opts entity_type identifier =
     (let parts = split_char CHR '':'' (co_ca_nid opts);
          domain = (if length parts \<ge> 4 then parts ! 3 else co_ca_nid opts)
      in ''urn:nps:'' @ entity_type @ '':'' @ domain @ '':'' @ identifier)"

definition check_capabilities :: "ca_options \<Rightarrow> string list \<Rightarrow> ca_error + unit" where
  "check_capabilities opts caps =
     (case co_allowed_capabilities opts of
        None \<Rightarrow> Ok ()
      | Some allowed \<Rightarrow>
          let disallowed = filter (\<lambda>c. c \<notin> set allowed) caps
          in if disallowed = [] then Ok ()
             else Err (ca_err (''Capabilities not permitted by this CA: '' @ join '', '' disallowed) CERT_CAPABILITY_MISSING))"

definition persist :: "cert_record \<Rightarrow> ca_store_state \<Rightarrow> ca_error + ca_store_state" where
  "persist r s =
     (case ca_save r s of
        Inr s' \<Rightarrow> Ok s'
      | Inl (NidExists n) \<Rightarrow> Err (ca_err (''NID already exists: '' @ n) CA_NID_ALREADY_EXISTS)
      | Inl (SerialExists n) \<Rightarrow> Err (ca_err (''Serial already exists: '' @ n) CA_SERIAL_DUPLICATE))"

record ca_service =
  sv_options :: ca_options
  sv_signing_key :: bytes

text \<open>The signed payload of an identity frame.\<close>

definition ident_payload :: "crypto \<Rightarrow> ca_options \<Rightarrow> cert_record \<Rightarrow> jvalue \<Rightarrow> assurance_level option \<Rightarrow> jvalue option \<Rightarrow> frame_dict" where
  "ident_payload cr opts r scope level lineage =
     (let m = bt_insert ''capabilities'' (jstrs (ct_capabilities r)) [];
          m = bt_insert ''expires_at'' (JString (rfc3339_text cr (ct_expires_at r))) m;
          m = bt_insert ''frame'' (JString ''0x20'') m;
          m = bt_insert ''issued_at'' (JString (rfc3339_text cr (ct_issued_at r))) m;
          m = bt_insert ''issued_by'' (JString (co_ca_nid opts)) m;
          m = bt_insert ''nid'' (JString (ct_nid r)) m;
          m = bt_insert ''pub_key'' (JString (ct_pub_key r)) m;
          m = bt_insert ''scope'' scope m;
          m = bt_insert ''serial'' (JString (ct_serial r)) m;
          m = bt_insert_opt ''assurance_level'' (map_option (\<lambda>l. JString (al_wire l)) level) m
      in bt_insert_opt ''lineage'' lineage m)"

definition read_metadata :: "crypto \<Rightarrow> string option \<Rightarrow> frame_dict option" where
  "read_metadata cr metadata_json =
     Option.bind metadata_json (\<lambda>m. case json_read cr m of Inr v \<Rightarrow> as_object v | Inl e \<Rightarrow> None)"

definition issue_frame :: "crypto \<Rightarrow> ca_service \<Rightarrow> cert_record \<Rightarrow> assurance_level option \<Rightarrow> jvalue option \<Rightarrow> ca_error + ident_frame" where
  "issue_frame cr sv r level lineage =
     (case json_read cr (ct_scope_json r) of
        Inl e \<Rightarrow> Err (ca_err (''invalid scope_json: '' @ e) CA_NID_ALREADY_EXISTS)
      | Inr scope \<Rightarrow>
          let signature = signer_sign cr (sv_signing_key sv) (JObject (ident_payload cr (sv_options sv) r scope level lineage))
          in Ok ((ident_new (ct_nid r) (ct_pub_key r))
               \<lparr>id_capabilities := ct_capabilities r, id_scope := Some scope, id_issued_by := Some (co_ca_nid (sv_options sv)),
                id_issued_at := Some (rfc3339_text cr (ct_issued_at r)), id_expires_at := Some (rfc3339_text cr (ct_expires_at r)),
                id_serial := Some (ct_serial r), id_signature := Some signature, id_meta := read_metadata cr (ct_metadata_json r),
                id_assurance_level := level\<rparr>))"

text \<open>The common end of the operations that issue: a serial is drawn, the frame is issued and the record is saved.\<close>

definition issue_record :: "crypto \<Rightarrow> ca_service \<Rightarrow> (string \<Rightarrow> cert_record) \<Rightarrow> jvalue option \<Rightarrow> ca_store_state
    \<Rightarrow> (ca_error + ident_frame) \<times> ca_store_state" where
  "issue_record cr sv mk lineage s =
     (let (serial, s1) = ca_next_serial s
      in case issue_frame cr sv (mk serial) None lineage of
           Inl e \<Rightarrow> (Err e, s1)
         | Inr frame \<Rightarrow> (case persist (mk serial) s1 of Inl e \<Rightarrow> (Err e, s1) | Inr s2 \<Rightarrow> (Ok frame, s2)))"

definition validity_days :: "ca_options \<Rightarrow> string \<Rightarrow> int" where
  "validity_days opts entity_type =
     (if entity_type = ''node'' then co_node_cert_validity_days opts else co_agent_cert_validity_days opts)"

definition plain_record :: "ca_options \<Rightarrow> string \<Rightarrow> string \<Rightarrow> string \<Rightarrow> string list \<Rightarrow> string \<Rightarrow> int \<Rightarrow> int \<Rightarrow> string option \<Rightarrow> string \<Rightarrow> cert_record" where
  "plain_record opts nid entity_type pub_key caps scope_json issued_at expires_at metadata_json serial =
     \<lparr>ct_nid = nid, ct_entity_type = entity_type, ct_serial = serial, ct_pub_key = pub_key, ct_capabilities = caps,
      ct_scope_json = scope_json, ct_issued_by = co_ca_nid opts, ct_issued_at = issued_at, ct_expires_at = expires_at,
      ct_revoked_at = None, ct_revoke_reason = None, ct_metadata_json = metadata_json, ct_nid_role = None,
      ct_parent_nid = None, ct_lineage_json = None\<rparr>"

type_synonym 'a ca_step = "ca_store_state \<Rightarrow> ((ca_error + 'a) \<times> ca_store_state) option"

definition register :: "crypto \<Rightarrow> ca_service \<Rightarrow> int \<Rightarrow> string \<Rightarrow> string \<Rightarrow> string \<Rightarrow> string list \<Rightarrow> string \<Rightarrow> string option \<Rightarrow> ident_frame ca_step" where
  "register cr sv now entity_type identifier pub_key caps scope_json metadata_json s =
     (let opts = sv_options sv; nid = build_nid opts entity_type identifier
      in if ca_get_by_nid s nid \<noteq> None
         then Some (Err (ca_err (''NID already exists: '' @ nid) CA_NID_ALREADY_EXISTS), s)
         else case check_capabilities opts caps of
                Inl e \<Rightarrow> Some (Err e, s)
              | Inr _ \<Rightarrow>
                  (case time_add now (validity_days opts entity_type * DAY) of
                     None \<Rightarrow> None
                   | Some expires_at \<Rightarrow>
                       Some (issue_record cr sv (plain_record opts nid entity_type pub_key caps scope_json now expires_at metadata_json)
                         None s)))"

section \<open>Groups and sessions\<close>

definition build_lineage_group :: "string option \<Rightarrow> string option \<Rightarrow> jvalue" where
  "build_lineage_group owner_user_id owner_key_id =
     JObject (let m = bt_insert ''role'' (JString ''group'') [];
                  m = bt_insert_opt ''owner_user_id'' (map_option JString owner_user_id) m
              in bt_insert_opt ''owner_key_id'' (map_option JString owner_key_id) m)"

definition build_lineage_session :: "string \<Rightarrow> string \<Rightarrow> string option \<Rightarrow> string option \<Rightarrow> string option \<Rightarrow> jvalue" where
  "build_lineage_session group_nid session_id purpose owner_user_id owner_key_id =
     JObject (let m = bt_insert ''role'' (JString ''session'') [];
                  m = bt_insert ''parent_nid'' (JString group_nid) m;
                  m = bt_insert ''group_nid'' (JString group_nid) m;
                  m = bt_insert ''session_id'' (JString session_id) m;
                  m = bt_insert_opt ''purpose'' (map_option JString purpose) m;
                  m = bt_insert_opt ''owner_user_id'' (map_option JString owner_user_id) m
              in bt_insert_opt ''owner_key_id'' (map_option JString owner_key_id) m)"

definition extract_lineage_str :: "crypto \<Rightarrow> string option \<Rightarrow> string \<Rightarrow> string option" where
  "extract_lineage_str cr lineage_json field =
     Option.bind lineage_json (\<lambda>s. case json_read cr s of
         Inl e \<Rightarrow> None | Inr v \<Rightarrow> Option.bind (jget v field) as_str)"

definition register_group :: "crypto \<Rightarrow> ca_service \<Rightarrow> int \<Rightarrow> string \<Rightarrow> string option \<Rightarrow> string \<Rightarrow> string list \<Rightarrow> string
    \<Rightarrow> string option \<Rightarrow> string option \<Rightarrow> string option \<Rightarrow> ident_frame ca_step" where
  "register_group cr sv now uuid identifier pub_key caps scope_json owner_user_id owner_key_id metadata_json s =
     (let opts = sv_options sv; given = unwrap_or [] identifier
      in if given \<noteq> [] \<and> \<not> starts_with ''group-'' given
         then Some (Err (ca_err (''Group identifier MUST start with reserved prefix '' @ quoted ''group-'' @ '' (got '' @ quoted given
                @ ''). NPS-3 '' @ CHR 0xA7 # ''3.1.'') CA_NID_ALREADY_EXISTS), s)
         else
          let nid = build_nid opts ''agent'' (if given = [] then ''group-'' @ uuid else given)
          in if ca_get_by_nid s nid \<noteq> None
             then Some (Err (ca_err (''NID already exists: '' @ nid) CA_NID_ALREADY_EXISTS), s)
             else case check_capabilities opts caps of
                    Inl e \<Rightarrow> Some (Err e, s)
                  | Inr _ \<Rightarrow>
                      (case time_add now (co_group_cert_validity_days opts * DAY) of
                         None \<Rightarrow> None
                       | Some expires_at \<Rightarrow>
                           let lineage = build_lineage_group owner_user_id owner_key_id
                           in Some (issue_record cr sv
                                (\<lambda>serial. (plain_record opts nid ''agent'' pub_key caps scope_json now expires_at metadata_json serial)
                                  \<lparr>ct_nid_role := Some ROLE_GROUP, ct_lineage_json := Some (json_text cr lineage)\<rparr>)
                                (Some lineage) s)))"

record session_params =
  sp_validity :: "int option"
  sp_purpose :: "string option"
  sp_capabilities :: "string list option"
  sp_scope_json :: "string option"
  sp_metadata_json :: "string option"

text \<open>The checks of \<open>issue_session\<close> on the group, the validity and the capabilities.\<close>

definition session_check :: "crypto \<Rightarrow> ca_options \<Rightarrow> int \<Rightarrow> string \<Rightarrow> session_params \<Rightarrow> ca_store_state \<Rightarrow> ca_error + cert_record" where
  "session_check cr opts now group_nid params s =
     (case ca_get_by_nid s group_nid of
        None \<Rightarrow> Err (ca_err (''Group NID not found: '' @ group_nid @ ''.'') CA_PARENT_NOT_FOUND)
      | Some grp \<Rightarrow>
          if ct_nid_role grp \<noteq> Some ROLE_GROUP
          then Err (ca_err (''NID '' @ quoted group_nid @ '' is not registered as a group (role=''
                 @ quoted (unwrap_or ''<null>'' (ct_nid_role grp)) @ '').'') CA_PARENT_NOT_GROUP)
          else (case ct_revoked_at grp of
            Some revoked \<Rightarrow> Err (ca_err (''Group '' @ group_nid @ '' was revoked at '' @ rfc3339_text cr revoked
                          @ ''; cannot issue new sessions.'') CA_GROUP_REVOKED)
          | None \<Rightarrow>
              if now > ct_expires_at grp
              then Err (ca_err (''Group '' @ group_nid @ '' expired at '' @ rfc3339_text cr (ct_expires_at grp)
                     @ ''; cannot issue new sessions.'') CERT_EXPIRED)
              else
               let v = unwrap_or (co_session_default_validity opts) (sp_validity params)
               in if v < co_session_min_validity opts \<or> v > co_session_max_validity opts
                  then Err (ca_err (''Session validity must be in ['' @ duration_display cr (co_session_min_validity opts) @ '', ''
                         @ duration_display cr (co_session_max_validity opts) @ '']; got '' @ duration_display cr v @ ''.'') CA_SESSION_VALIDITY_INVALID)
                  else
                   let expansion = (case sp_capabilities params of
                         None \<Rightarrow> [] | Some caps \<Rightarrow> filter (\<lambda>c. c \<notin> set (ct_capabilities grp)) caps)
                   in if expansion \<noteq> []
                      then Err (ca_err (''Session capabilities not in parent group: '' @ join '', '' expansion @ ''.'') CA_SCOPE_EXPANSION_DENIED)
                      else Ok grp))"

definition session_nid_of :: "ca_options \<Rightarrow> int \<Rightarrow> string \<Rightarrow> string" where
  "session_nid_of opts t rand_hex = build_nid opts ''agent'' (''session-'' @ show_int (t div 1000000000) @ ''-'' @ rand_hex)"

definition issue_session :: "crypto \<Rightarrow> ca_service \<Rightarrow> (nat \<Rightarrow> int) \<Rightarrow> string \<Rightarrow> string \<Rightarrow> string \<Rightarrow> session_params \<Rightarrow> ident_frame ca_step" where
  "issue_session cr sv clk rand_hex group_nid session_pub_key params s =
     (let opts = sv_options sv
      in case session_check cr opts (clk 0) group_nid params s of
           Inl e \<Rightarrow> Some (Err e, s)
         | Inr grp \<Rightarrow>
             let v = unwrap_or (co_session_default_validity opts) (sp_validity params);
                 session_caps = unwrap_or (ct_capabilities grp) (sp_capabilities params);
                 session_scope = unwrap_or (ct_scope_json grp) (sp_scope_json params);
                 session_id = ''session-'' @ show_int (clk 1 div 1000000000) @ ''-'' @ rand_hex;
                 session_nid = session_nid_of opts (clk 1) rand_hex;
                 now = clk 2
             in (case time_add now v of
                   None \<Rightarrow> None
                 | Some expires_at \<Rightarrow>
                     let lineage = build_lineage_session group_nid session_id (sp_purpose params)
                           (extract_lineage_str cr (ct_lineage_json grp) ''owner_user_id'')
                           (extract_lineage_str cr (ct_lineage_json grp) ''owner_key_id'')
                     in Some (issue_record cr sv
                          (\<lambda>serial. (plain_record opts session_nid ''agent'' session_pub_key session_caps session_scope now expires_at
                               (sp_metadata_json params) serial)
                            \<lparr>ct_nid_role := Some ROLE_SESSION, ct_parent_nid := Some group_nid,
                             ct_lineage_json := Some (json_text cr lineage)\<rparr>)
                          (Some lineage) s)))"

section \<open>Renewal and revocation\<close>

definition renew :: "crypto \<Rightarrow> ca_service \<Rightarrow> int \<Rightarrow> string \<Rightarrow> ident_frame ca_step" where
  "renew cr sv now nid s =
     (let opts = sv_options sv
      in case ca_get_by_nid s nid of
           None \<Rightarrow> Some (Err (ca_err (''NID not found: '' @ nid) CA_NID_NOT_FOUND), s)
         | Some r \<Rightarrow>
             if ct_revoked_at r \<noteq> None then Some (Err (ca_err (''NID is revoked: '' @ nid) CERT_REVOKED), s)
             else (case time_add (ct_expires_at r) (- (co_renewal_window_days opts * DAY)) of
                None \<Rightarrow> None
              | Some renew_window_start \<Rightarrow>
                  if now < renew_window_start
                  then Some (Err (ca_err (''Renewal window opens '' @ rfc3339_text cr renew_window_start @ ''. Too early to renew.'')
                         CA_RENEWAL_TOO_EARLY), s)
                  else (case time_add now (validity_days opts (ct_entity_type r) * DAY) of
                     None \<Rightarrow> None
                   | Some expires_at \<Rightarrow>
                       Some (issue_record cr sv
                         (plain_record opts nid (ct_entity_type r) (ct_pub_key r) (ct_capabilities r) (ct_scope_json r) now expires_at
                            (ct_metadata_json r)) None s))))"

definition revoke_child :: "int \<Rightarrow> cert_record \<Rightarrow> ca_store_state \<Rightarrow> ca_store_state" where
  "revoke_child now child s =
     (if ct_revoked_at child \<noteq> None then s else snd (ca_mark_revoked (ct_nid child) ''parent_revoked'' now s))"

definition revoke_payload :: "crypto \<Rightarrow> ca_options \<Rightarrow> string \<Rightarrow> string \<Rightarrow> string \<Rightarrow> int \<Rightarrow> frame_dict" where
  "revoke_payload cr opts nid serial reason now =
     (let m = bt_insert ''frame'' (JString ''0x22'') [];
          m = bt_insert ''target_nid'' (JString nid) m;
          m = bt_insert ''serial'' (JString serial) m;
          m = bt_insert ''reason'' (JString reason) m;
          m = bt_insert ''revoked_at'' (JString (rfc3339_text cr now)) m
      in bt_insert ''signer_nid'' (JString (co_ca_nid opts)) m)"

definition ca_revoke :: "crypto \<Rightarrow> ca_service \<Rightarrow> int \<Rightarrow> string \<Rightarrow> string \<Rightarrow> ca_store_state \<Rightarrow> (ca_error + revoke_frame) \<times> ca_store_state" where
  "ca_revoke cr sv now nid reason s =
     (case ca_get_by_nid s nid of
        None \<Rightarrow> (Err (ca_err (''NID not found: '' @ nid) CA_NID_NOT_FOUND), s)
      | Some r \<Rightarrow>
          (case ca_mark_revoked nid reason now s of
             (False, s1) \<Rightarrow> (Err (ca_err (''Failed to revoke '' @ nid @ ''.'') CA_NID_NOT_FOUND), s1)
           | (True, s1) \<Rightarrow>
               let s2 = (if ct_nid_role r = Some ROLE_GROUP
                         then fold (revoke_child now) (ca_get_by_parent_nid s1 nid) s1 else s1)
               in (Ok \<lparr>rv_target_nid = nid, rv_serial = Some (ct_serial r), rv_reason = reason, rv_revoked_at = rfc3339_text cr now,
                       rv_parent_nid = None, rv_signer_nid = co_ca_nid (sv_options sv),
                       rv_signature = signer_sign cr (sv_signing_key sv)
                         (JObject (revoke_payload cr (sv_options sv) nid (ct_serial r) reason now))\<rparr>, s2)))"

section \<open>Verification by the authority\<close>

record ca_verify_result =
  cv_valid :: bool
  cv_error_code :: "string option"
  cv_message :: "string option"
  cv_record :: "cert_record option"

definition cv_ok :: "cert_record \<Rightarrow> ca_verify_result" where
  "cv_ok r = \<lparr>cv_valid = True, cv_error_code = None, cv_message = None, cv_record = Some r\<rparr>"

definition cv_fail :: "string \<Rightarrow> string \<Rightarrow> ca_verify_result" where
  "cv_fail c msg = \<lparr>cv_valid = False, cv_error_code = Some c, cv_message = Some msg, cv_record = None\<rparr>"

definition check_parent :: "crypto \<Rightarrow> int \<Rightarrow> string \<Rightarrow> ca_store_state \<Rightarrow> ca_verify_result option" where
  "check_parent cr now parent_nid s =
     (case ca_get_by_nid s parent_nid of
        None \<Rightarrow> Some (cv_fail CERT_PARENT_REVOKED (''Parent NID '' @ parent_nid @ '' not found.''))
      | Some parent \<Rightarrow>
          (case ct_revoked_at parent of
             Some revoked \<Rightarrow> Some (cv_fail CERT_PARENT_REVOKED (''Parent '' @ parent_nid @ '' revoked at '' @ rfc3339_text cr revoked @ '': ''
                           @ unwrap_or [] (ct_revoke_reason parent)))
           | None \<Rightarrow>
               if now > ct_expires_at parent
               then Some (cv_fail CERT_PARENT_REVOKED (''Parent '' @ parent_nid @ '' expired at '' @ rfc3339_text cr (ct_expires_at parent) @ ''.''))
               else None))"

definition ca_verify :: "crypto \<Rightarrow> (nat \<Rightarrow> int) \<Rightarrow> string \<Rightarrow> ca_store_state \<Rightarrow> ca_verify_result" where
  "ca_verify cr clk nid s =
     (case ca_get_by_nid s nid of
        None \<Rightarrow> cv_fail CA_NID_NOT_FOUND ''NID not found.''
      | Some r \<Rightarrow>
          (case ct_revoked_at r of
             Some revoked \<Rightarrow> cv_fail CERT_REVOKED (''Revoked at '' @ rfc3339_text cr revoked @ '': '' @ unwrap_or [] (ct_revoke_reason r))
           | None \<Rightarrow>
               if clk 0 > ct_expires_at r then cv_fail CERT_EXPIRED (''Expired at '' @ rfc3339_text cr (ct_expires_at r) @ ''.'')
               else (case ct_parent_nid r of
                  None \<Rightarrow> cv_ok r
                | Some parent_nid \<Rightarrow>
                    if parent_nid = [] then cv_ok r
                    else (case check_parent cr (clk 1) parent_nid s of Some e \<Rightarrow> e | None \<Rightarrow> cv_ok r))))"

definition get_crl :: "ca_store_state \<Rightarrow> cert_record list" where "get_crl s = ca_get_revoked s"
definition list_certificates :: "ca_store_state \<Rightarrow> cert_record list" where "list_certificates s = cs_records s"
definition list_sessions :: "ca_store_state \<Rightarrow> string \<Rightarrow> cert_record list" where "list_sessions s g = ca_get_by_parent_nid s g"
definition get_cert :: "ca_store_state \<Rightarrow> string \<Rightarrow> cert_record option" where "get_cert s nid = ca_get_by_nid s nid"

definition sign_artifact :: "crypto \<Rightarrow> ca_service \<Rightarrow> jvalue \<Rightarrow> string" where
  "sign_artifact cr sv artifact = signer_sign cr (sv_signing_key sv) artifact"

definition get_ca_public_key :: "crypto \<Rightarrow> ca_service \<Rightarrow> string" where
  "get_ca_public_key cr sv = encode_public_key cr (ed_public cr (sv_signing_key sv))"

end
