(* ===== verification/Nip_Ca_Props.thy ===== *)
theory Nip_Ca_Props
  imports Nip_Ca
begin

text \<open>
  What the certificate authority promises. The interface \<open>cert_store\<close> is what the service relies on in its
  store; the in-memory store interprets it. The step relation \<open>ca_step\<close> has every operation that changes
  the store.
\<close>

section \<open>The store contract\<close>

abbreviation revoked :: "cert_record \<Rightarrow> bool" where
  "revoked r \<equiv> ct_revoked_at r \<noteq> None"

locale cert_store =
  fixes latest :: "'s \<Rightarrow> string \<Rightarrow> cert_record option"
    and save :: "cert_record \<Rightarrow> 's \<Rightarrow> store_error + 's"
    and mark :: "string \<Rightarrow> string \<Rightarrow> int \<Rightarrow> 's \<Rightarrow> bool \<times> 's"
  assumes save_latest: "save r s = Inr s' \<Longrightarrow> latest s' n = (if n = ct_nid r then Some r else latest s n)"
    and mark_latest: "latest (snd (mark m reason t s)) n = latest s n \<or>
        (n = m \<and> (\<exists>r. latest s n = Some r \<and> \<not> revoked r
           \<and> latest (snd (mark m reason t s)) n = Some (r\<lparr>ct_revoked_at := Some t, ct_revoke_reason := Some reason\<rparr>)))"
    and mark_done: "fst (mark m reason t s) \<Longrightarrow> \<exists>r. latest (snd (mark m reason t s)) m = Some r \<and> revoked r"
begin

definition dead :: "'s \<Rightarrow> string \<Rightarrow> bool" where
  "dead s n \<longleftrightarrow> (\<exists>r. latest s n = Some r \<and> revoked r)"

lemma dead_save: "save r s = Inr s' \<Longrightarrow> ct_nid r \<noteq> n \<Longrightarrow> dead s n \<Longrightarrow> dead s' n"
  by (auto simp: dead_def save_latest)

lemma dead_mark: "dead s n \<Longrightarrow> dead (snd (mark m reason t s)) n"
  using mark_latest [of m reason t s n] by (auto simp: dead_def)

lemma mark_dead: "fst (mark m reason t s) \<Longrightarrow> dead (snd (mark m reason t s)) m"
  using mark_done by (simp add: dead_def)

end

section \<open>The in-memory store\<close>

lemma rposition_Some: "rposition P xs = Some i \<Longrightarrow> i < length xs \<and> P (xs ! i) \<and> (\<forall>j. i < j \<longrightarrow> j < length xs \<longrightarrow> \<not> P (xs ! j))"
proof (induction xs arbitrary: i)
  case (Cons x xs)
  show ?case
  proof (cases "rposition P xs")
    case None
    have "\<not> P y" if "y \<in> set xs" for y
      using None that by (induction xs) (auto split: option.splits if_splits)
    with None Cons.prems show ?thesis by (auto simp: nth_Cons split: if_splits nat.splits)
  next
    case (Some k)
    with Cons show ?thesis by (auto simp: nth_Cons split: nat.splits)
  qed
qed simp

lemma rposition_None: "rposition P xs = None \<Longrightarrow> i < length xs \<Longrightarrow> \<not> P (xs ! i)"
  by (induction xs arbitrary: i) (auto simp: nth_Cons split: option.splits if_splits nat.splits)

lemma rposition_cong: "map P xs = map Q ys \<Longrightarrow> rposition P xs = rposition Q ys"
proof (induction xs arbitrary: ys)
  case (Cons x xs)
  then obtain y zs where "ys = y # zs" "P x = Q y" "map P xs = map Q zs" by (cases ys) auto
  with Cons.IH [of zs] show ?case by simp
qed simp

lemma find_rev: "find P (rev xs) = map_option (nth xs) (rposition P xs)"
proof (induction xs)
  case (Cons x xs)
  have "find P (ys @ [x]) = (case find P ys of None \<Rightarrow> if P x then Some x else None | Some y \<Rightarrow> Some y)" for ys
    by (induction ys) auto
  with Cons show ?case by (auto split: option.splits)
qed simp

lemma ca_latest: "ca_get_by_nid s n = map_option (nth (cs_records s)) (rposition (\<lambda>r. ct_nid r = n) (cs_records s))"
  by (simp add: ca_get_by_nid_def find_rev)

lemma ca_latest_append:
  "ca_get_by_nid (s\<lparr>cs_records := cs_records s @ [r]\<rparr>) n = (if n = ct_nid r then Some r else ca_get_by_nid s n)"
  by (simp add: ca_get_by_nid_def)

definition mark_record :: "string \<Rightarrow> int \<Rightarrow> cert_record \<Rightarrow> cert_record" where
  "mark_record reason t r = r\<lparr>ct_revoked_at := Some t, ct_revoke_reason := Some reason\<rparr>"

lemma mark_record_simps [simp]:
  "ct_nid (mark_record reason t r) = ct_nid r" "ct_revoked_at (mark_record reason t r) = Some t"
  "ct_serial (mark_record reason t r) = ct_serial r" "ct_capabilities (mark_record reason t r) = ct_capabilities r"
  "ct_nid_role (mark_record reason t r) = ct_nid_role r" "ct_parent_nid (mark_record reason t r) = ct_parent_nid r"
  "ct_issued_at (mark_record reason t r) = ct_issued_at r" "ct_expires_at (mark_record reason t r) = ct_expires_at r"
  "ct_issued_by (mark_record reason t r) = ct_issued_by r"
  by (simp_all add: mark_record_def)

lemma ca_mark_cases:
  obtains (none) "ca_mark_revoked m reason t s = (False, s)"
  | (some) i where "i < length (cs_records s)" "ct_nid (cs_records s ! i) = m" "\<not> revoked (cs_records s ! i)"
      "\<And>j. i < j \<Longrightarrow> j < length (cs_records s) \<Longrightarrow> ct_nid (cs_records s ! j) = m \<Longrightarrow> revoked (cs_records s ! j)"
      "ca_mark_revoked m reason t s
         = (True, s\<lparr>cs_records := (cs_records s)[i := mark_record reason t (cs_records s ! i)]\<rparr>)"
proof (cases "rposition (\<lambda>r. ct_nid r = m \<and> ct_revoked_at r = None) (cs_records s)")
  case None
  then show ?thesis using none by (simp add: ca_mark_revoked_def)
next
  case (Some i)
  from rposition_Some [OF this] Some show ?thesis
    using some [of i] by (simp add: ca_mark_revoked_def mark_record_def)
qed

lemma ca_latest_mark:
  assumes "i < length (cs_records s)"
  shows "ca_get_by_nid (s\<lparr>cs_records := (cs_records s)[i := mark_record reason t (cs_records s ! i)]\<rparr>) n =
     map_option (\<lambda>j. if j = i then mark_record reason t (cs_records s ! j) else cs_records s ! j)
       (rposition (\<lambda>r. ct_nid r = n) (cs_records s))"
proof -
  let ?ys = "(cs_records s)[i := mark_record reason t (cs_records s ! i)]"
  have "map (\<lambda>r. ct_nid r = n) ?ys = map (\<lambda>r. ct_nid r = n) (cs_records s)"
    using assms by (intro nth_equalityI) (auto simp: nth_list_update)
  from rposition_cong [OF this] show ?thesis
    using assms rposition_Some [of "\<lambda>r. ct_nid r = n" "cs_records s"]
    by (cases "rposition (\<lambda>r. ct_nid r = n) (cs_records s)") (auto simp: ca_latest nth_list_update)
qed

interpretation mem: cert_store ca_get_by_nid ca_save ca_mark_revoked
proof
  fix r s s' n
  assume "ca_save r s = Inr s'"
  then show "ca_get_by_nid s' n = (if n = ct_nid r then Some r else ca_get_by_nid s n)"
    by (auto simp: ca_save_def ca_latest_append split: if_splits)
next
  fix m reason t s n
  show "ca_get_by_nid (snd (ca_mark_revoked m reason t s)) n = ca_get_by_nid s n \<or>
      (n = m \<and> (\<exists>r. ca_get_by_nid s n = Some r \<and> \<not> revoked r
         \<and> ca_get_by_nid (snd (ca_mark_revoked m reason t s)) n = Some (r\<lparr>ct_revoked_at := Some t, ct_revoke_reason := Some reason\<rparr>)))"
  proof (cases rule: ca_mark_cases [of m reason t s])
    case (some i)
    show ?thesis
    proof (cases "rposition (\<lambda>r. ct_nid r = n) (cs_records s)")
      case (Some j)
      from rposition_Some [OF Some] some ca_latest_mark [OF some(1)] Some show ?thesis
        by (cases "j = i") (auto simp: ca_latest mark_record_def)
    qed (simp add: some ca_latest_mark, simp add: ca_latest)
  qed simp
next
  fix m reason t s
  assume "fst (ca_mark_revoked m reason t s)"
  then show "\<exists>r. ca_get_by_nid (snd (ca_mark_revoked m reason t s)) m = Some r \<and> revoked r"
  proof (cases rule: ca_mark_cases [of m reason t s])
    case (some i)
    obtain j where j: "rposition (\<lambda>r. ct_nid r = m) (cs_records s) = Some j"
      using some(1,2) by (cases "rposition (\<lambda>r. ct_nid r = m) (cs_records s)") (auto dest: rposition_None)
    note r = rposition_Some [OF j]
    have "i \<le> j" using r some(1,2) not_le by blast
    with r some(4) [of j] have "j = i \<or> revoked (cs_records s ! j)" by (cases "i = j") auto
    then show ?thesis using j by (auto simp: some(5) ca_latest_mark [OF some(1)])
  qed simp
qed

section \<open>The operations as steps\<close>

inductive ca_step :: "crypto \<Rightarrow> ca_service \<Rightarrow> ca_store_state \<Rightarrow> ca_store_state \<Rightarrow> bool" for cr sv where
  step_register: "register cr sv now entity identifier key caps scope meta s = Some (res, s') \<Longrightarrow> ca_step cr sv s s'"
| step_group: "register_group cr sv now uuid identifier key caps scope owner owner_key meta s = Some (res, s') \<Longrightarrow> ca_step cr sv s s'"
| step_session: "issue_session cr sv clk rand g key params s = Some (res, s') \<Longrightarrow>
    ca_get_by_nid s (session_nid_of (sv_options sv) (clk 1) rand) = None \<Longrightarrow> ca_step cr sv s s'"
| step_renew: "renew cr sv now nid s = Some (res, s') \<Longrightarrow> ca_step cr sv s s'"
| step_revoke: "ca_revoke cr sv now nid reason s = (res, s') \<Longrightarrow> ca_step cr sv s s'"

definition allowed :: "ca_options \<Rightarrow> string list \<Rightarrow> bool" where
  "allowed opts caps \<longleftrightarrow> (\<forall>a. co_allowed_capabilities opts = Some a \<longrightarrow> set caps \<subseteq> set a)"


definition within_group :: "ca_options \<Rightarrow> cert_record list \<Rightarrow> cert_record \<Rightarrow> bool" where
  "within_group opts rs r \<longleftrightarrow>
     (\<exists>g \<in> set rs. ct_parent_nid r = Some (ct_nid g) \<and> ct_nid_role g = Some ROLE_GROUP
        \<and> set (ct_capabilities r) \<subseteq> set (ct_capabilities g))
   \<and> co_session_min_validity opts \<le> ct_expires_at r - ct_issued_at r
   \<and> ct_expires_at r - ct_issued_at r \<le> co_session_max_validity opts"

text \<open>What is known of a record when it is added.\<close>

definition addable :: "ca_options \<Rightarrow> ca_store_state \<Rightarrow> cert_record \<Rightarrow> bool" where
  "addable opts s r \<longleftrightarrow>
     ct_serial r \<notin> ct_serial ` set (cs_records s) \<and> ct_issued_by r = co_ca_nid opts \<and> \<not> revoked r
   \<and> (\<forall>q. ca_get_by_nid s (ct_nid r) = Some q \<longrightarrow> \<not> revoked q)
   \<and> (allowed opts (ct_capabilities r) \<or> (\<exists>q \<in> set (cs_records s). set (ct_capabilities r) \<subseteq> set (ct_capabilities q)))
   \<and> (ct_nid_role r = Some ROLE_SESSION \<longrightarrow> within_group opts (cs_records s) r)"

lemma latest_mem: "ca_get_by_nid s n = Some r \<Longrightarrow> r \<in> set (cs_records s) \<and> ct_nid r = n"
  by (auto simp: ca_latest dest!: rposition_Some)

lemma next_serial_records [simp]: "cs_records (snd (ca_next_serial s)) = cs_records s"
  by (simp add: ca_next_serial_def Let_def)

lemma issue_record_cases:
  assumes "issue_record cr sv mk lineage s = (res, s')" and serial: "\<And>x. ct_serial (mk x) = x"
  shows "cs_records s' = cs_records s
    \<or> (\<exists>x f. res = Inr f \<and> cs_records s' = cs_records s @ [mk x] \<and> x \<notin> ct_serial ` set (cs_records s))"
proof -
  obtain x s1 where n: "ca_next_serial s = (x, s1)" by fastforce
  have r1: "cs_records s1 = cs_records s" using next_serial_records [of s] n by simp
  show ?thesis
    using assms(1) r1 serial [of x]
    by (auto simp: issue_record_def n persist_def ca_save_def list_ex_iff image_iff split: sum.splits store_error.splits if_splits)
qed

lemma plain_record_simps [simp]:
  "ct_nid (plain_record opts n e k c sc i x m ser) = n" "ct_serial (plain_record opts n e k c sc i x m ser) = ser"
  "ct_capabilities (plain_record opts n e k c sc i x m ser) = c" "ct_issued_by (plain_record opts n e k c sc i x m ser) = co_ca_nid opts"
  "ct_issued_at (plain_record opts n e k c sc i x m ser) = i" "ct_expires_at (plain_record opts n e k c sc i x m ser) = x"
  "ct_revoked_at (plain_record opts n e k c sc i x m ser) = None" "ct_nid_role (plain_record opts n e k c sc i x m ser) = None"
  "ct_parent_nid (plain_record opts n e k c sc i x m ser) = None"
  by (simp_all add: plain_record_def)

lemma check_capabilities_ok: "check_capabilities opts caps = Inr u \<longleftrightarrow> allowed opts caps"
  by (auto simp: check_capabilities_def allowed_def Let_def filter_empty_conv split: option.splits if_splits)

text \<open>An operation that issues leaves the records as they are or adds one.\<close>

definition grows :: "ca_options \<Rightarrow> ca_store_state \<Rightarrow> ca_store_state \<Rightarrow> bool" where
  "grows opts s s' \<longleftrightarrow> cs_records s' = cs_records s \<or> (\<exists>r. cs_records s' = cs_records s @ [r] \<and> addable opts s r)"

lemma grows_same: "grows opts s s"
  by (simp add: grows_def)

lemma issue_record_grows:
  assumes "issue_record cr sv mk lineage s = (res, s')" and "\<And>x. ct_serial (mk x) = x"
    and "\<And>x. x \<notin> ct_serial ` set (cs_records s) \<Longrightarrow> addable opts s (mk x)"
  shows "grows opts s s'"
  using issue_record_cases [OF assms(1,2)] assms(3) by (auto simp: grows_def)

lemma register_grows:
  assumes "register cr sv now entity identifier key caps scope meta s = Some (res, s')"
  shows "grows (sv_options sv) s s'"
  using assms
  by (auto simp: register_def Let_def check_capabilities_ok addable_def
      intro: grows_same elim!: issue_record_grows split: if_splits sum.splits option.splits)

lemma group_grows:
  assumes "register_group cr sv now uuid identifier key caps scope owner owner_key meta s = Some (res, s')"
  shows "grows (sv_options sv) s s'"
  using assms
  by (auto simp: register_group_def Let_def check_capabilities_ok addable_def ROLE_SESSION_def ROLE_GROUP_def
      intro: grows_same elim!: issue_record_grows split: if_splits sum.splits option.splits)

lemma renew_grows:
  assumes "renew cr sv now nid s = Some (res, s')"
  shows "grows (sv_options sv) s s'"
proof (cases "ca_get_by_nid s nid")
  case None
  then show ?thesis using assms by (auto simp: renew_def Let_def grows_same)
next
  case (Some r)
  then have "r \<in> set (cs_records s)" by (auto dest: latest_mem)
  then have "\<exists>q \<in> set (cs_records s). set (ct_capabilities r) \<subseteq> set (ct_capabilities q)" by blast
  with Some assms show ?thesis
    by (auto simp: renew_def Let_def addable_def intro: grows_same elim!: issue_record_grows split: if_splits option.splits)
qed

lemma session_check_ok:
  assumes "session_check cr opts now g params s = Inr grp"
  shows "ca_get_by_nid s g = Some grp \<and> ct_nid_role grp = Some ROLE_GROUP \<and> \<not> revoked grp \<and> now \<le> ct_expires_at grp
    \<and> (\<forall>caps. sp_capabilities params = Some caps \<longrightarrow> set caps \<subseteq> set (ct_capabilities grp))
    \<and> co_session_min_validity opts \<le> unwrap_or (co_session_default_validity opts) (sp_validity params)
    \<and> unwrap_or (co_session_default_validity opts) (sp_validity params) \<le> co_session_max_validity opts"
  using assms
  by (auto simp: session_check_def Let_def filter_empty_conv not_less split: option.splits if_splits)

lemma session_grows:
  assumes "issue_session cr sv clk rand g key params s = Some (res, s')"
    and fresh: "ca_get_by_nid s (session_nid_of (sv_options sv) (clk 1) rand) = None"
  shows "grows (sv_options sv) s s'"
proof (cases "session_check cr (sv_options sv) (clk 0) g params s")
  case (Inl e)
  then show ?thesis using assms by (auto simp: issue_session_def Let_def grows_same)
next
  case (Inr grp)
  note ok = session_check_ok [OF Inr] and mem = latest_mem [of s g grp]
  let ?v = "unwrap_or (co_session_default_validity (sv_options sv)) (sp_validity params)"
  have caps: "set (unwrap_or (ct_capabilities grp) (sp_capabilities params)) \<subseteq> set (ct_capabilities grp)"
    using ok by (cases "sp_capabilities params") auto
  obtain x where x: "time_add (clk 2) ?v = Some x" using assms Inr by (auto simp: issue_session_def Let_def split: option.splits)
  then have d: "x - clk 2 = ?v" by (auto simp: time_add_def split: if_splits)
  show ?thesis
    using assms(1) ok mem caps d fresh
    by (auto simp: issue_session_def Let_def Inr x addable_def within_group_def elim!: issue_record_grows)
qed

lemmas issuing_grows = register_grows group_grows renew_grows session_grows

section \<open>Revocation as marking\<close>

lemma fold_children_mark:
  "P s \<Longrightarrow> (\<And>s n. P s \<Longrightarrow> P (snd (ca_mark_revoked n ''parent_revoked'' now s))) \<Longrightarrow> P (fold (revoke_child now) cs s)"
  by (induction cs arbitrary: s) (auto simp: revoke_child_def)

lemma ca_revoke_marks:
  assumes "ca_revoke cr sv now nid reason s = (res, s')"
    and "P s" and "\<And>s n rsn. P s \<Longrightarrow> P (snd (ca_mark_revoked n rsn now s))"
  shows "P s'"
proof (cases "ca_get_by_nid s nid")
  case None
  then show ?thesis using assms by (simp add: ca_revoke_def)
next
  case (Some r)
  obtain b s1 where m: "ca_mark_revoked nid reason now s = (b, s1)" by fastforce
  have "P s1" using assms(3) [OF assms(2), of nid reason] m by simp
  moreover from this have "P (fold (revoke_child now) cs s1)" for cs
    by (rule fold_children_mark) (rule assms(3))
  ultimately show ?thesis using assms(1) Some m by (cases b) (auto simp: ca_revoke_def Let_def split: if_splits)
qed

lemma ca_step_cases:
  assumes "ca_step cr sv s s'"
  obtains (grow) "grows (sv_options sv) s s'"
  | (revoke) now nid reason res where "ca_revoke cr sv now nid reason s = (res, s')"
  using assms by (cases rule: ca_step.cases) (blast dest: issuing_grows)+

section \<open>The invariant\<close>







definition demo_service :: ca_service where
  "demo_service = \<lparr>sv_options = ca_options_new ''urn:nps:org:ca'' ''https://ca'', sv_signing_key = [7]\<rparr>"

definition demo_nid :: string where "demo_nid = ''urn:nps:agent:ca:a''"

definition demo_store :: ca_store_state where
  "demo_store = \<lparr>cs_records = [plain_record (sv_options demo_service) demo_nid ''agent'' ''k'' [] ''{}'' 0 (30 * DAY) None ''0x1''],
     cs_serial = 1\<rparr>"

lemma demo_serial: "ca_next_serial \<lparr>cs_records = rs, cs_serial = 0\<rparr> = (''0x1'', \<lparr>cs_records = rs, cs_serial = 1\<rparr>)"
  by (simp add: ca_next_serial_def Let_def show_hex.simps hex_upper_def) code_simp

lemma demo_register: "\<exists>f. register plain_crypto demo_service 0 ''agent'' ''a'' ''k'' [] ''{}'' None ca_store_new = Some (Inr f, demo_store)"
  by (simp add: register_def Let_def build_nid_def demo_service_def ca_options_new_def ca_store_new_def ca_get_by_nid_def
      check_capabilities_def validity_days_def time_add_def DAY_def issue_record_def demo_serial issue_frame_def
      plain_record_def plain_crypto_def persist_def ca_save_def demo_store_def demo_nid_def)



section \<open>Revocation is final\<close>

lemma dead_grows: "grows opts s s' \<Longrightarrow> mem.dead s n \<Longrightarrow> mem.dead s' n"
  by (auto simp: grows_def addable_def mem.dead_def ca_get_by_nid_def)

lemma dead_step: "ca_step cr sv s s' \<Longrightarrow> mem.dead s n \<Longrightarrow> mem.dead s' n"
  by (elim ca_step_cases)
     (blast intro: dead_grows ca_revoke_marks [where P = "\<lambda>s. mem.dead s n"] mem.dead_mark)+

lemma dead_run: "(ca_step cr sv)\<^sup>*\<^sup>* s s' \<Longrightarrow> mem.dead s n \<Longrightarrow> mem.dead s' n"
  by (induction rule: rtranclp_induct) (auto intro: dead_step)

lemma revoke_dead:
  assumes "ca_revoke cr sv now nid reason s = (Inr f, s')"
  shows "mem.dead s' nid"
proof -
  obtain r where r: "ca_get_by_nid s nid = Some r" using assms by (auto simp: ca_revoke_def split: option.splits)
  obtain b s1 where m: "ca_mark_revoked nid reason now s = (b, s1)" by fastforce
  with assms r have b by (cases b) (auto simp: ca_revoke_def)
  then have "mem.dead s1 nid" using mem.mark_dead [of nid reason now s] m by simp
  then have "mem.dead (fold (revoke_child now) cs s1) nid" for cs
    by (rule fold_children_mark) (rule mem.dead_mark)
  with \<open>mem.dead s1 nid\<close> show ?thesis using assms r m \<open>b\<close> by (auto simp: ca_revoke_def Let_def split: if_splits)
qed

text \<open>Property C39 (safety). A successful revocation is final: whatever the authority does afterwards, the identity is never
  verified again, and neither is any session whose current certificate names it as parent.\<close>

theorem revocation_is_final:
  assumes "ca_revoke cr sv now nid reason s = (Inr f, s1)" and "(ca_step cr sv)\<^sup>*\<^sup>* s1 s2"
  shows "\<not> cv_valid (ca_verify cr clk nid s2)
    \<and> (\<forall>x r. ca_get_by_nid s2 x = Some r \<longrightarrow> ct_parent_nid r = Some nid \<longrightarrow> nid \<noteq> [] \<longrightarrow> \<not> cv_valid (ca_verify cr clk x s2))"
proof -
  obtain q where q: "ca_get_by_nid s2 nid = Some q" "revoked q"
    using dead_run [OF assms(2) revoke_dead [OF assms(1)]] by (auto simp: mem.dead_def)
  then have "\<not> cv_valid (ca_verify cr clk nid s2)" by (auto simp: ca_verify_def cv_fail_def)
  moreover have "\<not> cv_valid (ca_verify cr clk x s2)"
    if "ca_get_by_nid s2 x = Some r" "ct_parent_nid r = Some nid" "nid \<noteq> []" for x r
    using that q by (auto simp: ca_verify_def check_parent_def cv_fail_def split: option.splits)
  ultimately show ?thesis by blast
qed

lemma demo_revoke: "\<exists>f s1. ca_revoke plain_crypto demo_service 5 demo_nid ''key'' demo_store = (Inr f, s1)"
  by (simp add: ca_revoke_def ca_get_by_nid_def demo_store_def ca_mark_revoked_def Let_def)

theorem revocation_is_final_witness:
  "\<exists>f s1. ca_revoke plain_crypto demo_service 5 demo_nid ''key'' demo_store = (Inr f, s1)
     \<and> \<not> cv_valid (ca_verify plain_crypto (\<lambda>i. 6) demo_nid s1)"
  using demo_revoke revocation_is_final [of plain_crypto demo_service 5 demo_nid "''key''" demo_store] by blast

section \<open>Issued certificates\<close>

lemma issue_record_saved:
  assumes "issue_record cr sv mk lineage s = (Inr f, s')"
  shows "\<exists>x. cs_records s' = cs_records s @ [mk x] \<and> issue_frame cr sv (mk x) None lineage = Inr f"
proof -
  obtain x s1 where n: "ca_next_serial s = (x, s1)" by fastforce
  then have "cs_records s1 = cs_records s" using next_serial_records [of s] by simp
  with assms n show ?thesis
    by (auto simp: issue_record_def persist_def ca_save_def split: sum.splits store_error.splits if_splits)
qed

lemma latest_after_append: "cs_records s' = cs_records s @ [r] \<Longrightarrow> ca_get_by_nid s' n = (if n = ct_nid r then Some r else ca_get_by_nid s n)"
  by (simp add: ca_get_by_nid_def)

text \<open>A registration that succeeds issues a frame for the built id, and the authority verifies that id
  exactly until the validity for its kind of entity has run out.\<close>

theorem registered_identity_verified:
  assumes "register cr sv now entity identifier key caps scope meta s = Some (Inr f, s')"
  shows "id_nid f = build_nid (sv_options sv) entity identifier
    \<and> (cv_valid (ca_verify cr clk (id_nid f) s') \<longleftrightarrow> clk 0 \<le> now + validity_days (sv_options sv) entity * DAY)"
proof -
  let ?opts = "sv_options sv" and ?nid = "build_nid (sv_options sv) entity identifier"
  have add: "x = t + d" if "time_add t d = Some x" for x t d using that by (auto simp: time_add_def split: if_splits)
  from assms have
    i: "issue_record cr sv (plain_record ?opts ?nid entity key caps scope now (now + validity_days ?opts entity * DAY) meta) None s = (Inr f, s')"
    by (auto simp: register_def Let_def dest!: add split: if_splits sum.splits option.splits)
  from issue_record_saved [OF this] obtain y where
    rs: "cs_records s' = cs_records s @ [plain_record ?opts ?nid entity key caps scope now (now + validity_days ?opts entity * DAY) meta y]"
    and fr: "issue_frame cr sv (plain_record ?opts ?nid entity key caps scope now (now + validity_days ?opts entity * DAY) meta y) None None = Inr f"
    by blast
  have "id_nid f = ?nid" using fr by (auto simp: issue_frame_def Let_def ident_new_def split: sum.splits)
  with latest_after_append [OF rs, of ?nid] show ?thesis
    by (auto simp: ca_verify_def cv_fail_def cv_ok_def)
qed

theorem registered_identity_verified_witness:
  "\<exists>f :: ident_frame. id_nid f = build_nid (sv_options demo_service) ''agent'' ''a'' \<and> cv_valid (ca_verify plain_crypto (\<lambda>i. 0) (id_nid f) demo_store)"
proof -
  obtain f where f: "register plain_crypto demo_service 0 ''agent'' ''a'' ''k'' [] ''{}'' None ca_store_new = Some (Inr f, demo_store)"
    using demo_register by blast
  have v: "(0::int) \<le> 0 + validity_days (sv_options demo_service) ''agent'' * DAY"
    by (simp add: validity_days_def demo_service_def ca_options_new_def DAY_def)
  show ?thesis
    using registered_identity_verified [OF f, of "\<lambda>i. 0"] v by blast
qed

section \<open>Renewal forgets the lineage\<close>

text \<open>Renewing a session turns it into an ordinary certificate: whatever has become of its group, and also when
  the session has expired, the renewed certificate has no parent, the validity of an agent instead of the
  bounded validity of a session, and is verified on its own.\<close>

theorem renewed_session_is_free:
  assumes r: "ca_get_by_nid s nid = Some r" "ct_nid_role r = Some ROLE_SESSION" "\<not> revoked r" "ct_entity_type r = ''agent''"
    and window: "time_add (ct_expires_at r) (- (co_renewal_window_days (sv_options sv) * DAY)) = Some start" "start \<le> now"
    and expiry: "time_add now (co_agent_cert_validity_days (sv_options sv) * DAY) = Some x"
    and scope: "json_read cr (ct_scope_json r) = Inr v"
    and fresh: "fst (ca_next_serial s) \<notin> ct_serial ` set (cs_records s)"
  shows "\<exists>f s' q. renew cr sv now nid s = Some (Inr f, s') \<and> ca_get_by_nid s' nid = Some q \<and> ct_parent_nid q = None
    \<and> ct_expires_at q = now + co_agent_cert_validity_days (sv_options sv) * DAY
    \<and> (\<forall>clk. clk 0 \<le> ct_expires_at q \<longrightarrow> cv_valid (ca_verify cr clk nid s'))"
proof -
  let ?mk = "plain_record (sv_options sv) nid ''agent'' (ct_pub_key r) (ct_capabilities r) (ct_scope_json r) now x (ct_metadata_json r)"
  obtain ser s1 where n: "ca_next_serial s = (ser, s1)" by fastforce
  have s1: "cs_records s1 = cs_records s" using next_serial_records [of s] n by simp
  have x: "x = now + co_agent_cert_validity_days (sv_options sv) * DAY" using expiry by (auto simp: time_add_def split: if_splits)
  obtain f where f: "issue_frame cr sv (?mk ser) None None = Inr f"
    using scope by (auto simp: issue_frame_def plain_record_def Let_def)
  define s' where "s' = s1\<lparr>cs_records := cs_records s1 @ [?mk ser]\<rparr>"
  have "persist (?mk ser) s1 = Inr s'"
    using fresh n s1 by (auto simp: persist_def ca_save_def list_ex_iff s'_def)
  then have "issue_record cr sv ?mk None s = (Inr f, s')" by (simp add: issue_record_def n f)
  then have "renew cr sv now nid s = Some (Inr f, s')"
    using r window expiry by (simp add: renew_def Let_def validity_days_def)
  moreover have q: "ca_get_by_nid s' nid = Some (?mk ser)"
    by (simp add: s'_def ca_latest_append)
  moreover have "cv_valid (ca_verify cr clk nid s')" if "clk 0 \<le> x" for clk
    using that by (simp add: ca_verify_def q cv_ok_def)
  ultimately show ?thesis using x by auto
qed

definition demo_session_store :: ca_store_state where
  "demo_session_store = \<lparr>cs_records = [(plain_record (sv_options demo_service) ''s'' ''agent'' ''k'' [] ''{}'' 0 HOUR None ''0x0'')
     \<lparr>ct_nid_role := Some ROLE_SESSION, ct_parent_nid := Some ''gone''\<rparr>], cs_serial = 0\<rparr>"

theorem renewed_session_is_free_witness:
  "\<exists>f s' q. renew plain_crypto demo_service (2 * HOUR) ''s'' demo_session_store = Some (Inr f, s') \<and> ca_get_by_nid s' ''s'' = Some q
    \<and> ct_parent_nid q = None \<and> ct_expires_at q = 2 * HOUR + co_agent_cert_validity_days (sv_options demo_service) * DAY
    \<and> (\<forall>clk. clk 0 \<le> ct_expires_at q \<longrightarrow> cv_valid (ca_verify plain_crypto clk ''s'' s'))"
  by (rule renewed_session_is_free [where r = "hd (cs_records demo_session_store)" and start = "HOUR - 7 * DAY" and
        x = "2 * HOUR + 30 * DAY" and v = "JObject []"])
     (simp_all add: demo_session_store_def ca_get_by_nid_def plain_record_def demo_service_def ca_options_new_def time_add_def
       HOUR_def DAY_def plain_crypto_def demo_serial)

end
