(* ===== verification/Nip_Ra.thy ===== *)
theory Nip_Ra
  imports Nip_Ca
begin

text \<open>
  \<^verbatim>\<open>nps-nip/src/ca/ra.rs\<close> and \<^verbatim>\<open>NipCaService::register_with_ra\<close>: the registration authority with its three
  tiers, an allowlist of glob patterns, single-use bootstrap tokens and a queue of pending requests. The
  in-memory stores are lists behind a mutex, so every store operation is one atomic step. Random bytes and
  the readings of the clock (nanoseconds) are arguments; SHA-256 is the parameter \<open>sha\<close>.
\<close>

definition RA_TOKEN_INVALID :: string where "RA_TOKEN_INVALID = ''NIP-RA-TOKEN-INVALID''"
definition RA_TOKEN_EXPIRED :: string where "RA_TOKEN_EXPIRED = ''NIP-RA-TOKEN-EXPIRED''"
definition RA_NID_NOT_ALLOWED :: string where "RA_NID_NOT_ALLOWED = ''NIP-RA-NID-NOT-ALLOWED''"

datatype enrollment_outcome = Admit | Deny ca_error | PendingOutcome string

record enrollment_request =
  er_entity_type :: string
  er_identifier :: string
  er_pub_key :: string
  er_capabilities :: "string list"
  er_scope_json :: string
  er_metadata_json :: "string option"
  er_enrollment_token :: "string option"

section \<open>Tier 1: the allowlist\<close>

abbreviation STAR :: u8 where "STAR \<equiv> 42"
abbreviation QUERY :: u8 where "QUERY \<equiv> 63"

fun glob_m :: "bytes \<Rightarrow> bytes \<Rightarrow> bool" where
  "glob_m [] s = (s = [])"
| "glob_m (c # p) s =
     (if c = STAR then glob_m p s \<or> (case s of [] \<Rightarrow> False | _ # s' \<Rightarrow> glob_m (c # p) s')
      else case s of [] \<Rightarrow> False | x # s' \<Rightarrow> (c = QUERY \<or> x = c) \<and> glob_m p s')"

definition glob_match :: "string \<Rightarrow> string \<Rightarrow> bool" where
  "glob_match pattern input = (if pattern = ''*'' then True else glob_m (utf8 pattern) (utf8 input))"

definition allowlist_check :: "string list \<Rightarrow> enrollment_request \<Rightarrow> enrollment_outcome" where
  "allowlist_check patterns req =
     (if list_ex (\<lambda>p. glob_match p (er_identifier req)) patterns then Admit
      else Deny (ca_err (''Identifier '' @ [CHR 0x27] @ er_identifier req @ [CHR 0x27]
             @ '' does not match any enrollment allowlist pattern.'') RA_NID_NOT_ALLOWED))"

section \<open>Tier 2: bootstrap tokens\<close>

record token_entry =
  te_id :: string
  te_hash :: bytes
  te_label :: "string option"
  te_created_at :: int
  te_expires_at :: int
  te_consumed :: bool
  te_revoked :: bool

record token_info =
  ti_id :: string
  ti_label :: "string option"
  ti_created_at :: int
  ti_expires_at :: int
  ti_consumed :: bool
  ti_revoked :: bool

type_synonym token_store = "token_entry list"

definition TOKEN_PREFIX :: string where "TOKEN_PREFIX = ''nps-bootstrap-''"

definition token_raw :: "crypto \<Rightarrow> bytes \<Rightarrow> string" where
  "token_raw cr rand_bytes = TOKEN_PREFIX @ hex_enc cr rand_bytes"

definition token_create :: "crypto \<Rightarrow> (bytes \<Rightarrow> bytes) \<Rightarrow> bytes \<Rightarrow> bytes \<Rightarrow> string option \<Rightarrow> int \<Rightarrow> int \<Rightarrow> token_store \<Rightarrow> string \<times> token_store" where
  "token_create cr sha rand_bytes id_bytes label now expires_at ts =
     (let raw = token_raw cr rand_bytes
      in (raw, ts @ [\<lparr>te_id = hex_enc cr id_bytes, te_hash = sha (utf8 raw), te_label = label, te_created_at = now,
                      te_expires_at = expires_at, te_consumed = False, te_revoked = False\<rparr>]))"

fun consume_entry :: "bytes \<Rightarrow> int \<Rightarrow> token_store \<Rightarrow> bool \<times> token_store" where
  "consume_entry h now [] = (False, [])"
| "consume_entry h now (e # es) =
     (if \<not> (te_consumed e \<or> te_revoked e) \<and> \<not> now > te_expires_at e \<and> te_hash e = h
      then (True, e\<lparr>te_consumed := True\<rparr> # es)
      else map_prod id (Cons e) (consume_entry h now es))"

definition validate_and_consume :: "(bytes \<Rightarrow> bytes) \<Rightarrow> string \<Rightarrow> int \<Rightarrow> token_store \<Rightarrow> bool \<times> token_store" where
  "validate_and_consume sha token now ts = consume_entry (sha (utf8 token)) now ts"

definition token_list :: "token_store \<Rightarrow> token_info list" where
  "token_list ts = map (\<lambda>e. \<lparr>ti_id = te_id e, ti_label = te_label e, ti_created_at = te_created_at e,
      ti_expires_at = te_expires_at e, ti_consumed = te_consumed e, ti_revoked = te_revoked e\<rparr>) ts"

fun token_revoke :: "string \<Rightarrow> token_store \<Rightarrow> bool \<times> token_store" where
  "token_revoke token_id [] = (False, [])"
| "token_revoke token_id (e # es) =
     (if te_id e \<noteq> token_id then map_prod id (Cons e) (token_revoke token_id es)
      else if te_consumed e \<or> te_revoked e then (False, e # es)
      else (True, e\<lparr>te_revoked := True\<rparr> # es))"

definition bootstrap_check :: "(bytes \<Rightarrow> bytes) \<Rightarrow> int \<Rightarrow> enrollment_request \<Rightarrow> token_store \<Rightarrow> enrollment_outcome \<times> token_store" where
  "bootstrap_check sha now req ts =
     (let token = (case er_enrollment_token req of None \<Rightarrow> [] | Some t \<Rightarrow> t)
      in if token = [] \<or> \<not> starts_with TOKEN_PREFIX token
         then (Deny (ca_err (''A bootstrap token (prefix '' @ [CHR 0x27] @ ''nps-bootstrap-'' @ [CHR 0x27]
                 @ '') is required for enrollment.'') RA_TOKEN_INVALID), ts)
         else case validate_and_consume sha token now ts of
                (True, ts') \<Rightarrow> (Admit, ts')
              | (False, ts') \<Rightarrow> (Deny (ca_err ''Bootstrap token is invalid, expired, or already consumed.'' RA_TOKEN_EXPIRED), ts'))"

definition clamp_bootstrap_ttl :: "ca_options \<Rightarrow> int option \<Rightarrow> int" where
  "clamp_bootstrap_ttl opts requested =
     (let ttl = (case requested of Some d \<Rightarrow> if d > 0 then d else co_bootstrap_token_max_ttl opts
                                 | None \<Rightarrow> co_bootstrap_token_max_ttl opts)
      in if ttl > co_bootstrap_token_max_ttl opts then co_bootstrap_token_max_ttl opts else ttl)"

section \<open>Tier 3: the pending queue\<close>

datatype pending_status = PsPending | PsApproved | PsRejected

definition pending_as_wire :: "pending_status \<Rightarrow> string" where
  "pending_as_wire s = (case s of PsPending \<Rightarrow> ''pending'' | PsApproved \<Rightarrow> ''approved'' | PsRejected \<Rightarrow> ''rejected'')"

record pending_registration =
  pr_id :: string
  pr_entity_type :: string
  pr_identifier :: string
  pr_pub_key :: string
  pr_capabilities :: "string list"
  pr_scope_json :: string
  pr_metadata_json :: "string option"
  pr_requested_at :: int
  pr_status :: pending_status
  pr_reject_reason :: "string option"

type_synonym pending_store = "pending_registration list"

definition enqueue :: "pending_registration \<Rightarrow> pending_store \<Rightarrow> string \<times> pending_store" where
  "enqueue r ps = (pr_id r, ps @ [r])"

definition pending_get :: "string \<Rightarrow> pending_store \<Rightarrow> pending_registration option" where
  "pending_get i ps = find (\<lambda>r. pr_id r = i) ps"

text \<open>The first record with the identifier is changed when it is still pending.\<close>

fun settle :: "string \<Rightarrow> (pending_registration \<Rightarrow> pending_registration) \<Rightarrow> pending_store \<Rightarrow> bool \<times> pending_store" where
  "settle i f [] = (False, [])"
| "settle i f (r # rs) =
     (if pr_id r = i then (if pr_status r = PsPending then (True, f r # rs) else (False, r # rs))
      else map_prod id (Cons r) (settle i f rs))"

definition approve :: "string \<Rightarrow> pending_store \<Rightarrow> bool \<times> pending_store" where
  "approve i ps = settle i (\<lambda>r. r\<lparr>pr_status := PsApproved\<rparr>) ps"

definition reject :: "string \<Rightarrow> string \<Rightarrow> pending_store \<Rightarrow> bool \<times> pending_store" where
  "reject i reason ps = settle i (\<lambda>r. r\<lparr>pr_status := PsRejected, pr_reject_reason := Some reason\<rparr>) ps"

definition pending_count :: "pending_store \<Rightarrow> nat" where
  "pending_count ps = length (filter (\<lambda>r. pr_status r = PsPending) ps)"

definition queue_record :: "string \<Rightarrow> int \<Rightarrow> enrollment_request \<Rightarrow> pending_registration" where
  "queue_record i now req =
     \<lparr>pr_id = i, pr_entity_type = er_entity_type req, pr_identifier = er_identifier req, pr_pub_key = er_pub_key req,
      pr_capabilities = er_capabilities req, pr_scope_json = er_scope_json req, pr_metadata_json = er_metadata_json req,
      pr_requested_at = now, pr_status = PsPending, pr_reject_reason = None\<rparr>"

definition queue_full :: "nat \<Rightarrow> enrollment_outcome" where
  "queue_full max_size =
     Deny (ca_err (''Pending enrollment queue is full (max '' @ show_nat max_size @ ''). Retry later.'') RA_TOKEN_INVALID)"

definition pending_check :: "nat \<Rightarrow> string \<Rightarrow> int \<Rightarrow> enrollment_request \<Rightarrow> pending_store \<Rightarrow> enrollment_outcome \<times> pending_store" where
  "pending_check max_size i now req ps =
     (if pending_count ps \<ge> max_size then (queue_full max_size, ps)
      else (PendingOutcome i, snd (enqueue (queue_record i now req) ps)))"

section \<open>The policies and the registration behind them\<close>

datatype enrollment_policy = AllowlistPolicy "string list" | BootstrapTokenPolicy | PendingQueuePolicy nat

definition create_enrollment_policy :: "ca_options \<Rightarrow> bool \<Rightarrow> bool \<Rightarrow> string + enrollment_policy" where
  "create_enrollment_policy opts has_token_store has_pending_store =
     (case co_enrollment_tier opts of
        Allowlist \<Rightarrow> Ok (AllowlistPolicy (co_enrollment_allowlist_patterns opts))
      | BootstrapToken \<Rightarrow> if has_token_store then Ok BootstrapTokenPolicy
                          else Err ''EnrollmentTier::BootstrapToken requires a BootstrapTokenStore.''
      | PendingQueue \<Rightarrow> if has_pending_store then Ok (PendingQueuePolicy (co_pending_queue_max_size opts))
                        else Err ''EnrollmentTier::PendingQueue requires a PendingStore.'')"

record ra_state =
  ra_tokens :: token_store
  ra_pending :: pending_store

definition policy_check :: "(bytes \<Rightarrow> bytes) \<Rightarrow> enrollment_policy \<Rightarrow> string \<Rightarrow> int \<Rightarrow> enrollment_request \<Rightarrow> ra_state \<Rightarrow> enrollment_outcome \<times> ra_state" where
  "policy_check sha policy i now req ra =
     (case policy of
        AllowlistPolicy patterns \<Rightarrow> (allowlist_check patterns req, ra)
      | BootstrapTokenPolicy \<Rightarrow> (case bootstrap_check sha now req (ra_tokens ra) of (r, ts) \<Rightarrow> (r, ra\<lparr>ra_tokens := ts\<rparr>))
      | PendingQueuePolicy max_size \<Rightarrow>
          (case pending_check max_size i now req (ra_pending ra) of (r, ps) \<Rightarrow> (r, ra\<lparr>ra_pending := ps\<rparr>)))"

datatype register_with_ra_error = RaCa ca_error | RaPending string

definition register_with_ra :: "crypto \<Rightarrow> (bytes \<Rightarrow> bytes) \<Rightarrow> ca_service \<Rightarrow> enrollment_policy \<Rightarrow> string \<Rightarrow> (nat \<Rightarrow> int)
    \<Rightarrow> enrollment_request \<Rightarrow> ra_state \<Rightarrow> ca_store_state
    \<Rightarrow> ((register_with_ra_error + ident_frame) \<times> ra_state \<times> ca_store_state) option" where
  "register_with_ra cr sha sv policy i clk req ra s =
     (case policy_check sha policy i (clk 0) req ra of
        (Admit, ra') \<Rightarrow>
          (case register cr sv (clk 1) (er_entity_type req) (er_identifier req) (er_pub_key req) (er_capabilities req)
                  (er_scope_json req) (er_metadata_json req) s of
             None \<Rightarrow> None
           | Some (Inl e, s') \<Rightarrow> Some (Err (RaCa e), ra', s')
           | Some (Inr f, s') \<Rightarrow> Some (Ok f, ra', s'))
      | (Deny e, ra') \<Rightarrow> Some (Err (RaCa e), ra', s)
      | (PendingOutcome p, ra') \<Rightarrow> Some (Err (RaPending p), ra', s))"

end
