(* ===== verification/Nip_Ra_Props.thy ===== *)
theory Nip_Ra_Props
  imports Nip_Ra Nip_Ca_Props
begin

text \<open>
  The registration authority: the allowlist against the languages of its patterns, the single use of
  bootstrap tokens over every sequence of store operations, and the size of the pending queue when several
  callers interleave.
\<close>

section \<open>Glob patterns\<close>

text \<open>The reference: the set of byte strings a pattern stands for.\<close>

fun glob_lang :: "bytes \<Rightarrow> bytes set" where
  "glob_lang [] = {[]}"
| "glob_lang (c # p) =
     (if c = STAR then {u @ v | u v. v \<in> glob_lang p}
      else if c = QUERY then {x # v | x v. v \<in> glob_lang p}
      else {c # v | v. v \<in> glob_lang p})"

lemma glob_star_Cons: "x # s \<in> {u @ v | u v. v \<in> L} \<longleftrightarrow> x # s \<in> L \<or> s \<in> {u @ v | u v. v \<in> L}"
  by (auto simp: Cons_eq_append_conv)

lemma glob_star_step: "glob_m (STAR # p) (x # s) \<longleftrightarrow> glob_m p (x # s) \<or> glob_m (STAR # p) s"
  by (subst glob_m.simps) simp

lemma glob_m_lang: "glob_m p s \<longleftrightarrow> s \<in> glob_lang p"
proof (induction p s rule: glob_m.induct)
  case (2 c p s)
  show ?case
  proof (cases "c = STAR")
    case True
    show ?thesis
    proof (cases s)
      case Nil
      with 2 True show ?thesis by auto
    next
      case (Cons x t)
      with 2 True have "glob_m p (x # t) \<longleftrightarrow> x # t \<in> glob_lang p" "glob_m (STAR # p) t \<longleftrightarrow> t \<in> glob_lang (STAR # p)"
        by simp_all
      with Cons True show ?thesis
        by (simp only: glob_star_step glob_star_Cons glob_lang.simps if_True refl)
    qed
  next
    case False
    with 2 show ?thesis by (cases s) auto
  qed
qed simp

lemma glob_lang_star: "glob_lang [STAR] = UNIV"
  by auto

text \<open>The backtracking matcher of the allowlist decides membership in the language of the
  pattern, read as bytes: a star stands for any run of bytes and a question mark for one byte. The allowlist
  admits exactly the identifiers in the language of one of its patterns.\<close>

theorem allowlist_admits_iff:
  "allowlist_check patterns req = Admit \<longleftrightarrow> (\<exists>p \<in> set patterns. utf8 (er_identifier req) \<in> glob_lang (utf8 p))"
proof -
  have "utf8 ''*'' = [STAR]" by (simp add: utf8_char_def)
  then have "glob_match p x \<longleftrightarrow> utf8 x \<in> glob_lang (utf8 p)" for p x
    using glob_lang_star by (auto simp: glob_match_def glob_m_lang)
  then show ?thesis by (auto simp: allowlist_check_def list_ex_iff)
qed

section \<open>Bootstrap tokens are single use\<close>

text \<open>A store of vouchers: an operation succeeds or not, some operations spend a voucher when they succeed,
  some hand one out. The law bounds the vouchers that are left after one operation; the client's lemma bounds
  what a sequence of operations spends.\<close>

fun run_ops :: "('op \<Rightarrow> 's \<Rightarrow> bool \<times> 's) \<Rightarrow> 'op list \<Rightarrow> 's \<Rightarrow> bool list \<times> 's" where
  "run_ops step [] s = ([], s)"
| "run_ops step (x # xs) s = (case step x s of (b, s') \<Rightarrow> map_prod (Cons b) id (run_ops step xs s'))"

definition spent :: "('op \<Rightarrow> bool) \<Rightarrow> 'op list \<Rightarrow> bool list \<Rightarrow> nat" where
  "spent takes ops rs = length (filter (\<lambda>(x, b). takes x \<and> b) (zip ops rs))"

locale voucher_store =
  fixes step :: "'op \<Rightarrow> 's \<Rightarrow> bool \<times> 's"
    and live :: "'s \<Rightarrow> nat"
    and takes gives :: "'op \<Rightarrow> bool"
  assumes voucher_law: "step x s = (b, s') \<Longrightarrow> live s' + (if takes x \<and> b then 1 else 0) \<le> live s + (if gives x then 1 else 0)"
begin

lemma spent_bounded: "run_ops step ops s = (rs, s') \<Longrightarrow> live s' + spent takes ops rs \<le> live s + length (filter gives ops)"
proof (induction ops arbitrary: s rs)
  case Nil
  then show ?case by (simp add: spent_def)
next
  case (Cons x xs)
  obtain b s1 where b: "step x s = (b, s1)" by fastforce
  obtain bs where bs: "run_ops step xs s1 = (bs, s')" "rs = b # bs" using Cons.prems b by (cases "run_ops step xs s1") auto
  show ?case using Cons.IH [OF bs(1)] voucher_law [OF b] bs(2) by (auto simp: spent_def split: if_splits)
qed

end

datatype token_op = TokenCreate bytes bytes "string option" int int | TokenConsume string int | TokenRevoke string

definition token_step :: "crypto \<Rightarrow> (bytes \<Rightarrow> bytes) \<Rightarrow> token_op \<Rightarrow> token_store \<Rightarrow> bool \<times> token_store" where
  "token_step cr sha x ts =
     (case x of
        TokenCreate rand_bytes id_bytes label now expires_at \<Rightarrow> (True, snd (token_create cr sha rand_bytes id_bytes label now expires_at ts))
      | TokenConsume token now \<Rightarrow> validate_and_consume sha token now ts
      | TokenRevoke i \<Rightarrow> token_revoke i ts)"

definition live_tokens :: "bytes \<Rightarrow> token_store \<Rightarrow> nat" where
  "live_tokens h ts = length (filter (\<lambda>e. te_hash e = h \<and> \<not> te_consumed e \<and> \<not> te_revoked e) ts)"

definition consumes_hash :: "(bytes \<Rightarrow> bytes) \<Rightarrow> bytes \<Rightarrow> token_op \<Rightarrow> bool" where
  "consumes_hash sha h x = (case x of TokenConsume token _ \<Rightarrow> sha (utf8 token) = h | _ \<Rightarrow> False)"

definition creates_hash :: "crypto \<Rightarrow> (bytes \<Rightarrow> bytes) \<Rightarrow> bytes \<Rightarrow> token_op \<Rightarrow> bool" where
  "creates_hash cr sha h x = (case x of TokenCreate rand_bytes _ _ _ _ \<Rightarrow> sha (utf8 (token_raw cr rand_bytes)) = h | _ \<Rightarrow> False)"

lemma consume_live:
  "consume_entry h now ts = (b, ts') \<Longrightarrow> live_tokens k ts' + (if b \<and> h = k then 1 else 0) = live_tokens k ts"
proof (induction ts arbitrary: b ts')
  case (Cons e es)
  obtain b1 es1 where r: "consume_entry h now es = (b1, es1)" by fastforce
  show ?case using Cons.prems Cons.IH [OF r] r by (auto simp: live_tokens_def split: if_splits)
qed (simp add: live_tokens_def)

lemma revoke_live: "token_revoke i ts = (b, ts') \<Longrightarrow> live_tokens k ts' \<le> live_tokens k ts"
proof (induction ts arbitrary: b ts')
  case (Cons e es)
  obtain b1 es1 where r: "token_revoke i es = (b1, es1)" by fastforce
  show ?case using Cons.prems Cons.IH [OF r] r by (auto simp: live_tokens_def split: if_splits)
qed simp

interpretation tokens: voucher_store "token_step cr sha" "live_tokens h" "consumes_hash sha h" "creates_hash cr sha h"
  for cr sha h
proof
  fix x ts b ts'
  assume "token_step cr sha x ts = (b, ts')"
  then show "live_tokens h ts' + (if consumes_hash sha h x \<and> b then 1 else 0)
      \<le> live_tokens h ts + (if creates_hash cr sha h x then 1 else 0)"
    by (cases x)
       (auto simp: token_step_def consumes_hash_def creates_hash_def validate_and_consume_def token_create_def Let_def
         live_tokens_def [of _ "_ @ _"] live_tokens_def [of _ "ts"] dest: revoke_live
         dest!: consume_live [where k = h] split: if_splits)
qed

definition is_consume :: "string \<Rightarrow> token_op \<Rightarrow> bool" where
  "is_consume token x = (case x of TokenConsume t _ \<Rightarrow> t = token | _ \<Rightarrow> False)"

definition is_create :: "crypto \<Rightarrow> string \<Rightarrow> token_op \<Rightarrow> bool" where
  "is_create cr token x = (case x of TokenCreate rand_bytes _ _ _ _ \<Rightarrow> token_raw cr rand_bytes = token | _ \<Rightarrow> False)"

lemma spent_mono: "(\<And>x. P x \<Longrightarrow> Q x) \<Longrightarrow> spent P ops rs \<le> spent Q ops rs"
  unfolding spent_def by (induction ops rs rule: list_induct2') auto

text \<open>A bootstrap token is single use: over any sequence of creations, consumptions and
  revocations that starts with an empty store, a token is accepted at most as often as it was created (once,
  when the random bytes of the creations differ), provided SHA-256 does not collide on it.\<close>

theorem token_single_use:
  assumes run: "run_ops (token_step cr sha) ops [] = (rs, ts)"
    and collision_free: "\<And>rb. sha (utf8 (token_raw cr rb)) = sha (utf8 token) \<Longrightarrow> token_raw cr rb = token"
  shows "spent (is_consume token) ops rs \<le> length (filter (is_create cr token) ops)"
proof -
  let ?h = "sha (utf8 token)"
  have "spent (is_consume token) ops rs \<le> spent (consumes_hash sha ?h) ops rs"
    by (rule spent_mono) (auto simp: is_consume_def consumes_hash_def split: token_op.splits)
  also have "\<dots> \<le> length (filter (creates_hash cr sha ?h) ops)"
    using tokens.spent_bounded [OF run, of ?h] by (simp add: live_tokens_def)
  also have "filter (creates_hash cr sha ?h) ops = filter (is_create cr token) ops"
    by (rule filter_cong) (auto simp: creates_hash_def is_create_def collision_free split: token_op.splits)
  finally show ?thesis .
qed

lemma utf8_empty: "utf8 s = [] \<longleftrightarrow> s = []"
  by (cases s) (auto simp: utf8_char_def)

definition demo_tokens :: "token_op list" where
  "demo_tokens = [TokenCreate [] [] None 0 10, TokenConsume TOKEN_PREFIX 5, TokenConsume TOKEN_PREFIX 5]"

lemma token_raw_empty: "token_raw plain_crypto [] = TOKEN_PREFIX"
  by (simp add: token_raw_def plain_crypto_def plain_text_def)

lemma demo_tokens_run: "\<exists>ts. run_ops (token_step plain_crypto (take 15)) demo_tokens [] = ([True, True, False], ts)"
  by (simp add: demo_tokens_def token_step_def token_create_def Let_def token_raw_empty validate_and_consume_def)

theorem token_single_use_witness:
  "spent (is_consume TOKEN_PREFIX) demo_tokens [True, True, False] \<le> length (filter (is_create plain_crypto TOKEN_PREFIX) demo_tokens)
   \<and> length (filter (is_create plain_crypto TOKEN_PREFIX) demo_tokens) = 1"
proof -
  obtain ts where r: "run_ops (token_step plain_crypto (take 15)) demo_tokens [] = ([True, True, False], ts)"
    using demo_tokens_run by blast
  have l: "length (utf8 TOKEN_PREFIX) = 14" by (simp add: TOKEN_PREFIX_def utf8_char_def)
  have c: "token_raw plain_crypto rb = TOKEN_PREFIX"
    if "take 15 (utf8 (token_raw plain_crypto rb)) = take 15 (utf8 TOKEN_PREFIX)" for rb
    using that l by (simp add: token_raw_def utf8_append utf8_empty)
  show ?thesis
    using token_single_use [OF r c]
    by (simp add: demo_tokens_def is_create_def token_raw_empty)
qed

section \<open>Enrollment with a token\<close>

lemma consume_true_iff:
  "fst (consume_entry h now ts) \<longleftrightarrow>
     (\<exists>e \<in> set ts. \<not> te_consumed e \<and> \<not> te_revoked e \<and> now \<le> te_expires_at e \<and> te_hash e = h)"
  by (induction ts) auto

lemma consume_false_same: "\<not> fst (consume_entry h now ts) \<Longrightarrow> snd (consume_entry h now ts) = ts"
  by (induction ts) (auto split: if_splits)

text \<open>The bootstrap tier issues a certificate exactly when the request carries a token with the
  prefix, the store has a live entry for it (neither consumed nor revoked nor expired) and the registration
  itself succeeds; and the token is spent by the check, before the registration, whether or not that succeeds.\<close>

theorem bootstrap_enrollment:
  fixes sha :: "bytes \<Rightarrow> bytes" and ra :: ra_state and clk :: "nat \<Rightarrow> int" and token :: string
  assumes "er_enrollment_token req = Some token"
    and "register cr sv (clk 1) (er_entity_type req) (er_identifier req) (er_pub_key req) (er_capabilities req)
           (er_scope_json req) (er_metadata_json req) s = Some (r, s')"
  defines "h \<equiv> sha (utf8 token)"
  defines "valid \<equiv> starts_with TOKEN_PREFIX token \<and>
      (\<exists>e \<in> set (ra_tokens ra). \<not> te_consumed e \<and> \<not> te_revoked e \<and> clk 0 \<le> te_expires_at e \<and> te_hash e = h)"
  shows "\<exists>out ra' s1. register_with_ra cr sha sv BootstrapTokenPolicy i clk req ra s = Some (out, ra', s1)
    \<and> ((\<exists>f. out = Inr f) \<longleftrightarrow> valid \<and> (\<exists>f. r = Inr f))
    \<and> s1 = (if valid then s' else s)
    \<and> live_tokens h (ra_tokens ra') + (if valid then 1 else 0) = live_tokens h (ra_tokens ra)"
proof -
  obtain b ts where c: "consume_entry h (clk 0) (ra_tokens ra) = (b, ts)" by fastforce
  have l: "live_tokens h ts + (if b then 1 else 0) = live_tokens h (ra_tokens ra)" using consume_live [OF c, of h] by simp
  have v: "valid \<longleftrightarrow> starts_with TOKEN_PREFIX token \<and> b" using consume_true_iff [of h "clk 0" "ra_tokens ra"] c by (simp add: valid_def)
  have e: "starts_with TOKEN_PREFIX token \<Longrightarrow> token \<noteq> []" by (auto simp: starts_with_def TOKEN_PREFIX_def)
  show ?thesis
    using assms(1,2) c l v e
    by (cases b; cases r; cases "starts_with TOKEN_PREFIX token")
       (auto simp: register_with_ra_def policy_check_def bootstrap_check_def Let_def validate_and_consume_def h_def)
qed

definition demo_request :: enrollment_request where
  "demo_request = \<lparr>er_entity_type = ''agent'', er_identifier = ''a'', er_pub_key = ''k'', er_capabilities = [], er_scope_json = ''{}'',
     er_metadata_json = None, er_enrollment_token = Some TOKEN_PREFIX\<rparr>"

definition demo_ra :: ra_state where
  "demo_ra = \<lparr>ra_tokens = [\<lparr>te_id = [], te_hash = utf8 TOKEN_PREFIX, te_label = None, te_created_at = 0, te_expires_at = 9,
     te_consumed = False, te_revoked = False\<rparr>], ra_pending = []\<rparr>"

theorem bootstrap_enrollment_witness:
  "\<exists>f ra' s1. register_with_ra plain_crypto id demo_service BootstrapTokenPolicy [] (\<lambda>i. 0) demo_request demo_ra ca_store_new
     = Some (Inr f, ra', s1) \<and> s1 = demo_store \<and> live_tokens (utf8 TOKEN_PREFIX) (ra_tokens ra') = 0"
proof -
  obtain f where "register plain_crypto demo_service 0 ''agent'' ''a'' ''k'' [] ''{}'' None ca_store_new = Some (Inr f, demo_store)"
    using demo_register by blast
  then have r: "register plain_crypto demo_service ((\<lambda>i. 0) 1) (er_entity_type demo_request) (er_identifier demo_request) (er_pub_key demo_request)
      (er_capabilities demo_request) (er_scope_json demo_request) (er_metadata_json demo_request) ca_store_new = Some (Inr f, demo_store)"
    by (simp add: demo_request_def)
  have t: "er_enrollment_token demo_request = Some TOKEN_PREFIX" by (simp add: demo_request_def)
  have v: "starts_with TOKEN_PREFIX TOKEN_PREFIX \<and> (\<exists>e \<in> set (ra_tokens demo_ra). \<not> te_consumed e \<and> \<not> te_revoked e
      \<and> (\<lambda>i::nat. 0::int) 0 \<le> te_expires_at e \<and> te_hash e = id (utf8 TOKEN_PREFIX))"
    by (simp add: demo_ra_def starts_with_def)
  have l: "live_tokens (utf8 TOKEN_PREFIX) (ra_tokens demo_ra) = 1" by (simp add: live_tokens_def demo_ra_def)
  show ?thesis
    using bootstrap_enrollment [where clk = "\<lambda>i. 0" and sha = id and ra = demo_ra and i = "[]", OF t r] v l by auto
qed

section \<open>The pending queue under concurrency\<close>

text \<open>The policy of the third tier takes the lock twice, for the count and for the insertion. With several
  callers other steps come between: \<open>waiting\<close> is the number of callers that passed the count and have not
  inserted yet, at most \<open>callers\<close> of them. A lone caller does both steps of \<open>pending_check\<close> in a row.\<close>

inductive queue_step :: "nat \<Rightarrow> nat \<Rightarrow> pending_store \<times> nat \<Rightarrow> pending_store \<times> nat \<Rightarrow> bool" for max_size callers where
  count: "\<not> pending_count ps \<ge> max_size \<Longrightarrow> Suc waiting \<le> callers \<Longrightarrow> queue_step max_size callers (ps, waiting) (ps, Suc waiting)"
| insert_record: "queue_step max_size callers (ps, Suc waiting) (snd (enqueue (queue_record i now req) ps), waiting)"
| approved: "queue_step max_size callers (ps, waiting) (snd (approve i ps), waiting)"
| rejected: "queue_step max_size callers (ps, waiting) (snd (reject i reason ps), waiting)"

lemma pending_check_steps:
  assumes "pending_check max_size i now req ps = (PendingOutcome p, ps')" "0 < callers"
  shows "(queue_step max_size callers)\<^sup>*\<^sup>* (ps, 0) (ps', 0)"
proof -
  have "\<not> pending_count ps \<ge> max_size" and ps': "ps' = snd (enqueue (queue_record i now req) ps)"
    using assms(1) by (auto simp: pending_check_def queue_full_def split: if_splits)
  then have "queue_step max_size callers (ps, 0) (ps, Suc 0)" using assms(2) by (auto intro: count)
  moreover have "queue_step max_size callers (ps, Suc 0) (ps', 0)" unfolding ps' by (rule insert_record)
  ultimately show ?thesis by (meson converse_rtranclp_into_rtranclp r_into_rtranclp)
qed

lemma pending_count_enqueue [simp]: "pending_count (snd (enqueue (queue_record i now req) ps)) = Suc (pending_count ps)"
  by (simp add: pending_count_def enqueue_def queue_record_def)

lemma pending_count_settle: "(\<And>r. pr_status (f r) \<noteq> PsPending) \<Longrightarrow> pending_count (snd (settle i f ps)) \<le> pending_count ps"
  by (induction ps) (auto simp: pending_count_def)

lemma queue_step_bound:
  "queue_step max_size callers q q' \<Longrightarrow> pending_count (fst q) + snd q \<le> max_size + (callers - 1) \<Longrightarrow> 0 < callers
    \<Longrightarrow> pending_count (fst q') + snd q' \<le> max_size + (callers - 1)"
proof (induction rule: queue_step.induct)
  case (approved ps waiting i)
  then show ?case using pending_count_settle [of "\<lambda>r. r\<lparr>pr_status := PsApproved\<rparr>" i ps] by (simp add: approve_def)
next
  case (rejected ps waiting i reason)
  then show ?case
    using pending_count_settle [of "\<lambda>r. r\<lparr>pr_status := PsRejected, pr_reject_reason := Some reason\<rparr>" i ps] by (simp add: reject_def)
qed simp_all

lemma queue_bound:
  "(queue_step max_size callers)\<^sup>*\<^sup>* ([], 0) q \<Longrightarrow> 0 < callers \<Longrightarrow> pending_count (fst q) + snd q \<le> max_size + (callers - 1)"
proof (induction rule: rtranclp_induct)
  case base
  show ?case by (simp add: pending_count_def)
next
  case (step q q')
  then show ?case using queue_step_bound [OF step.hyps(2)] by simp
qed

lemma queue_fill: "n < max_size \<Longrightarrow> 0 < callers \<Longrightarrow> \<exists>ps. (queue_step max_size callers)\<^sup>*\<^sup>* ([], 0) (ps, 0) \<and> pending_count ps = n"
proof (induction n)
  case 0
  then show ?case by (auto simp: pending_count_def)
next
  case (Suc n)
  then obtain ps where ps: "(queue_step max_size callers)\<^sup>*\<^sup>* ([], 0) (ps, 0)" "pending_count ps = n" by auto
  let ?ps = "snd (enqueue (queue_record [] 0 demo_request) ps)"
  have "(queue_step max_size callers)\<^sup>*\<^sup>* (ps, 0) (?ps, 0)"
    using Suc.prems ps(2) pending_check_steps [of max_size "[]" 0 demo_request ps "[]" ?ps] by (simp add: pending_check_def)
  with ps show ?case by (intro exI [of _ ?ps]) (auto intro: rtranclp_trans)
qed

lemma queue_count_many:
  "pending_count ps < max_size \<Longrightarrow> n \<le> callers \<Longrightarrow> (queue_step max_size callers)\<^sup>*\<^sup>* (ps, 0) (ps, n)"
proof (induction n)
  case (Suc n)
  then have "queue_step max_size callers (ps, n) (ps, Suc n)" by (auto intro: count)
  with Suc show ?case by (auto intro: rtranclp.rtrancl_into_rtrancl)
qed simp

lemma queue_insert_many:
  "\<exists>ps'. (queue_step max_size callers)\<^sup>*\<^sup>* (ps, n) (ps', 0) \<and> pending_count ps' = pending_count ps + n"
proof (induction n arbitrary: ps)
  case (Suc n)
  let ?ps = "snd (enqueue (queue_record [] 0 demo_request) ps)"
  from Suc obtain ps' where "(queue_step max_size callers)\<^sup>*\<^sup>* (?ps, n) (ps', 0)" "pending_count ps' = pending_count ?ps + n" by blast
  moreover have "queue_step max_size callers (ps, Suc n) (?ps, n)" by (rule insert_record)
  ultimately show ?case by (intro exI [of _ ps']) (auto intro: converse_rtranclp_into_rtranclp)
qed auto

text \<open>With at most \<open>callers\<close> calls in progress the queue never holds more than
  \<open>max_size + callers - 1\<close> pending records, so calls one at a time keep it within \<open>max_size\<close>; with several
  callers the configured maximum is exceeded, and the bound is reached.\<close>

theorem pending_queue_bound:
  assumes "0 < callers" and "0 < max_size"
  shows "(\<forall>q. (queue_step max_size callers)\<^sup>*\<^sup>* ([], 0) q \<longrightarrow> pending_count (fst q) \<le> max_size + (callers - 1))
    \<and> (\<exists>q. (queue_step max_size callers)\<^sup>*\<^sup>* ([], 0) q \<and> pending_count (fst q) = max_size + (callers - 1))"
proof -
  from assms queue_fill [of "max_size - 1" max_size callers] obtain ps where
    ps: "(queue_step max_size callers)\<^sup>*\<^sup>* ([], 0) (ps, 0)" "pending_count ps = max_size - 1" by auto
  from queue_insert_many [of max_size callers ps callers] obtain ps' where
    ps': "(queue_step max_size callers)\<^sup>*\<^sup>* (ps, callers) (ps', 0)" "pending_count ps' = pending_count ps + callers" by blast
  have "(queue_step max_size callers)\<^sup>*\<^sup>* (ps, 0) (ps, callers)" using ps(2) assms by (intro queue_count_many) auto
  with ps ps' have "(queue_step max_size callers)\<^sup>*\<^sup>* ([], 0) (ps', 0)" by (meson rtranclp_trans)
  moreover have "pending_count (fst (ps', 0::nat)) = max_size + (callers - 1)" using ps(2) ps'(2) assms by simp
  ultimately show ?thesis using queue_bound [OF _ assms(1)] by (metis add_leD1)
qed

theorem pending_queue_bound_witness: "\<exists>q. (queue_step 1 2)\<^sup>*\<^sup>* ([], 0) q \<and> pending_count (fst q) = 2"
  using pending_queue_bound [of 2 1] by (simp add: numeral_2_eq_2)

end
