(* ===== verification/Nip_Reputation.thy ===== *)
theory Nip_Reputation
  imports Nip_Signer
begin

text \<open>
  The reputation log: \<^verbatim>\<open>nps-nip/src/reputation.rs\<close>. Incidents and severities, log entries with their
  canonical form and signature, the Merkle inclusion check, and the client of the log. The hash
  \<open>sha\<close> stands for SHA-256.

  The reference is the hash tree of RFC 9162: \<open>mth\<close> is the root of a list of leaves and \<open>audit_path\<close>
  the path that proves a leaf.
\<close>

section \<open>Incidents and severities\<close>

datatype incident_type = Other | CertRevoked | RateLimitViolation | TosViolation | ScrapingPattern | PaymentDefault
  | ContractDispute | ImpersonationClaim | PositiveAttestation

fun incident_to_wire :: "incident_type \<Rightarrow> string" where
  "incident_to_wire Other = ''other''"
| "incident_to_wire CertRevoked = ''cert-revoked''"
| "incident_to_wire RateLimitViolation = ''rate-limit-violation''"
| "incident_to_wire TosViolation = ''tos-violation''"
| "incident_to_wire ScrapingPattern = ''scraping-pattern''"
| "incident_to_wire PaymentDefault = ''payment-default''"
| "incident_to_wire ContractDispute = ''contract-dispute''"
| "incident_to_wire ImpersonationClaim = ''impersonation-claim''"
| "incident_to_wire PositiveAttestation = ''positive-attestation''"

definition incident_from_wire :: "string \<Rightarrow> incident_type" where
  "incident_from_wire s =
     (if s = ''cert-revoked'' then CertRevoked
      else if s = ''rate-limit-violation'' then RateLimitViolation
      else if s = ''tos-violation'' then TosViolation
      else if s = ''scraping-pattern'' then ScrapingPattern
      else if s = ''payment-default'' then PaymentDefault
      else if s = ''contract-dispute'' then ContractDispute
      else if s = ''impersonation-claim'' then ImpersonationClaim
      else if s = ''positive-attestation'' then PositiveAttestation
      else Other)"

datatype severity = Info | Minor | Moderate | Major | Critical

fun severity_rank :: "severity \<Rightarrow> nat" where
  "severity_rank Info = 0"
| "severity_rank Minor = 1"
| "severity_rank Moderate = 2"
| "severity_rank Major = 3"
| "severity_rank Critical = 4"

lemma severity_rank_eq [simp]: "severity_rank a = severity_rank b \<longleftrightarrow> a = b"
  by (cases a; cases b) simp_all

instantiation severity :: linorder
begin

definition less_eq_severity :: "severity \<Rightarrow> severity \<Rightarrow> bool" where
  "less_eq_severity a b \<longleftrightarrow> severity_rank a \<le> severity_rank b"

definition less_severity :: "severity \<Rightarrow> severity \<Rightarrow> bool" where
  "less_severity a b \<longleftrightarrow> severity_rank a < severity_rank b"

instance
  by standard (auto simp: less_eq_severity_def less_severity_def)

end

fun severity_to_wire :: "severity \<Rightarrow> string" where
  "severity_to_wire Info = ''info''"
| "severity_to_wire Minor = ''minor''"
| "severity_to_wire Moderate = ''moderate''"
| "severity_to_wire Major = ''major''"
| "severity_to_wire Critical = ''critical''"

definition severity_from_str :: "string \<Rightarrow> severity option" where
  "severity_from_str s =
     (if s = ''info'' then Some Info
      else if s = ''minor'' then Some Minor
      else if s = ''moderate'' then Some Moderate
      else if s = ''major'' then Some Major
      else if s = ''critical'' then Some Critical
      else None)"

lemma severity_roundtrip [simp]: "severity_from_str (severity_to_wire s) = Some s"
  by (cases s) (simp_all add: severity_from_str_def)

lemma incident_roundtrip [simp]: "incident_from_wire (incident_to_wire i) = i"
  by (cases i) (simp_all add: incident_from_wire_def)

section \<open>Entries\<close>

record observation_window =
  ow_start :: string
  ow_end :: string

record log_entry =
  le_v :: u32
  le_log_id :: string
  le_seq :: u64
  le_timestamp :: string
  le_subject_nid :: string
  le_incident :: incident_type
  le_incident_raw :: "string option"
  le_severity :: severity
  le_window :: "observation_window option"
  le_observation :: "jvalue option"
  le_evidence_ref :: "string option"
  le_evidence_sha256 :: "string option"
  le_issuer_nid :: string
  le_signature :: string

record signed_tree_head =
  sth_log_id :: string
  sth_tree_size :: u64
  sth_timestamp :: string
  sth_sha256_root_hash :: string
  sth_signature :: string

record inclusion_proof =
  ip_seq :: u64
  ip_leaf_index :: u64
  ip_tree_size :: u64
  ip_leaf_hash :: string
  ip_audit_path :: "string list"

definition window_to_value :: "observation_window \<Rightarrow> jvalue" where
  "window_to_value w = JObject (bt_collect [(''start'', JString (ow_start w)), (''end'', JString (ow_end w))])"

definition incident_wire_text :: "log_entry \<Rightarrow> string" where
  "incident_wire_text e = (if le_incident e = Other then unwrap_or ''other'' (le_incident_raw e)
     else incident_to_wire (le_incident e))"

definition signing_map :: "log_entry \<Rightarrow> frame_dict" where
  "signing_map e =
     (let m = bt_collect
        [(''v'', jnat (ucast (le_v e))), (''log_id'', JString (le_log_id e)), (''seq'', jnat (le_seq e)),
         (''timestamp'', JString (le_timestamp e)), (''subject_nid'', JString (le_subject_nid e)),
         (''incident'', JString (incident_wire_text e)), (''severity'', JString (severity_to_wire (le_severity e))),
         (''issuer_nid'', JString (le_issuer_nid e))];
          m = bt_insert_opt ''window'' (map_option window_to_value (le_window e)) m;
          m = bt_insert_opt ''observation'' (le_observation e) m;
          m = bt_insert_opt ''evidence_ref'' (map_option JString (le_evidence_ref e)) m
      in bt_insert_opt ''evidence_sha256'' (map_option JString (le_evidence_sha256 e)) m)"

definition leaf_canonical_json :: "crypto \<Rightarrow> log_entry \<Rightarrow> string" where
  "leaf_canonical_json cr e = json_text cr (JObject (bt_insert ''signature'' (JString (le_signature e)) (signing_map e)))"

definition sign_entry :: "crypto \<Rightarrow> bytes \<Rightarrow> log_entry \<Rightarrow> log_entry" where
  "sign_entry cr sk e =
     e\<lparr>le_signature := PREFIX @ b64_encode cr (ed_sign cr sk (utf8 (json_text cr (JObject (signing_map e)))))\<rparr>"

definition verify_entry :: "crypto \<Rightarrow> bytes \<Rightarrow> log_entry \<Rightarrow> bool" where
  "verify_entry cr vk e =
     (case strip_prefix PREFIX (le_signature e) of
        None \<Rightarrow> False
      | Some sig_b64 \<Rightarrow>
          (case b64_decode cr sig_b64 of
             None \<Rightarrow> False
           | Some sig \<Rightarrow> if length sig \<noteq> 64 then False
                         else ed_verify cr vk (utf8 (json_text cr (JObject (signing_map e)))) sig))"

section \<open>The wire form of an entry\<close>

text \<open>The derived reader; \<open>incident_raw\<close> is skipped. The incident reader accepts every string.\<close>

definition window_from_value :: "jvalue \<Rightarrow> observation_window option" where
  "window_from_value v = Option.bind (struct_fields [''start'', ''end''] v) (\<lambda>f.
     Option.bind (Option.bind (f ! 0) as_str) (\<lambda>start.
     Option.bind (Option.bind (f ! 1) as_str) (\<lambda>endt.
       Some \<lparr>ow_start = start, ow_end = endt\<rparr>)))"

definition entry_fields :: "string list" where
  "entry_fields = [''v'', ''log_id'', ''seq'', ''timestamp'', ''subject_nid'', ''incident'', ''severity'', ''window'',
     ''observation'', ''evidence_ref'', ''evidence_sha256'', ''issuer_nid'', ''signature'']"

definition entry_from_value :: "jvalue \<Rightarrow> log_entry option" where
  "entry_from_value val = Option.bind (struct_fields entry_fields val) (\<lambda>f.
     Option.bind (Option.bind (f ! 0) as_u32) (\<lambda>v.
     Option.bind (Option.bind (f ! 1) as_str) (\<lambda>log_id.
     Option.bind (Option.bind (f ! 2) as_u64) (\<lambda>sq.
     Option.bind (Option.bind (f ! 3) as_str) (\<lambda>timestamp.
     Option.bind (Option.bind (f ! 4) as_str) (\<lambda>subject_nid.
     Option.bind (Option.bind (f ! 5) as_str) (\<lambda>incident.
     Option.bind (Option.bind (Option.bind (f ! 6) as_str) severity_from_str) (\<lambda>severity.
     Option.bind (opt_field window_from_value (f ! 7)) (\<lambda>window.
     Option.bind (opt_field Some (f ! 8)) (\<lambda>observation.
     Option.bind (opt_field as_str (f ! 9)) (\<lambda>evidence_ref.
     Option.bind (opt_field as_str (f ! 10)) (\<lambda>evidence_sha256.
     Option.bind (Option.bind (f ! 11) as_str) (\<lambda>issuer_nid.
     Option.bind (Option.bind (f ! 12) as_str) (\<lambda>signature.
       Some \<lparr>le_v = v, le_log_id = log_id, le_seq = sq, le_timestamp = timestamp, le_subject_nid = subject_nid,
             le_incident = incident_from_wire incident, le_incident_raw = None, le_severity = severity, le_window = window,
             le_observation = observation, le_evidence_ref = evidence_ref, le_evidence_sha256 = evidence_sha256,
             le_issuer_nid = issuer_nid, le_signature = signature\<rparr>))))))))))))))"

definition entry_to_value :: "log_entry \<Rightarrow> jvalue" where
  "entry_to_value e =
     JObject (bt_insert_opt ''window'' (map_option window_to_value (le_window e))
       (bt_insert_opt ''observation'' (le_observation e)
       (bt_insert_opt ''evidence_ref'' (map_option JString (le_evidence_ref e))
       (bt_insert_opt ''evidence_sha256'' (map_option JString (le_evidence_sha256 e))
       (bt_collect
        [(''v'', jnat (ucast (le_v e))), (''log_id'', JString (le_log_id e)), (''seq'', jnat (le_seq e)),
         (''timestamp'', JString (le_timestamp e)), (''subject_nid'', JString (le_subject_nid e)),
         (''incident'', JString (incident_to_wire (le_incident e))), (''severity'', JString (severity_to_wire (le_severity e))),
         (''issuer_nid'', JString (le_issuer_nid e)), (''signature'', JString (le_signature e))])))))"

section \<open>Inclusion proofs\<close>

type_synonym hash = "bytes \<Rightarrow> bytes"

definition leaf_hash :: "hash \<Rightarrow> bytes \<Rightarrow> bytes" where
  "leaf_hash sha d = sha (0x00 # d)"

definition node_hash :: "hash \<Rightarrow> bytes \<Rightarrow> bytes \<Rightarrow> bytes" where
  "node_hash sha l r = sha (0x01 # l @ r)"

text \<open>The loop over the audit path: \<open>Some None\<close> is a rejected proof; the shift by 64 and more
  overflows, the outer \<open>None\<close>.\<close>

fun fold_path :: "crypto \<Rightarrow> hash \<Rightarrow> u64 \<Rightarrow> nat \<Rightarrow> bytes \<Rightarrow> string list \<Rightarrow> bytes option option" where
  "fold_path cr sha leaf_index i h [] = Some (Some h)"
| "fold_path cr sha leaf_index i h (step # steps) =
     (case b64url_decode cr step of
        None \<Rightarrow> Some None
      | Some sibling \<Rightarrow>
          if length sibling \<noteq> 32 then Some None
          else if i \<ge> 64 then None
          else fold_path cr sha leaf_index (i + 1)
            (if and (drop_bit i leaf_index) 1 = 0 then node_hash sha h sibling else node_hash sha sibling h) steps)"

definition verify_inclusion :: "crypto \<Rightarrow> hash \<Rightarrow> inclusion_proof \<Rightarrow> signed_tree_head \<Rightarrow> log_entry \<Rightarrow> bool option" where
  "verify_inclusion cr sha proof sth e =
     (let h = leaf_hash sha (utf8 (leaf_canonical_json cr e))
      in case b64url_decode cr (ip_leaf_hash proof) of
           None \<Rightarrow> Some False
         | Some expected_leaf \<Rightarrow>
             if h \<noteq> expected_leaf then Some False
             else (case fold_path cr sha (ip_leaf_index proof) 0 h (ip_audit_path proof) of
                 None \<Rightarrow> None
               | Some None \<Rightarrow> Some False
               | Some (Some root) \<Rightarrow>
                   (case b64url_decode cr (sth_sha256_root_hash sth) of
                      None \<Rightarrow> Some False
                    | Some expected_root \<Rightarrow> Some (root = expected_root))))"

section \<open>The client\<close>

datatype reputation_log_error = LogApi string string string | LogHttp string | LogJson

definition urlencoding_simple :: "string \<Rightarrow> string" where
  "urlencoding_simple s = concat (map (\<lambda>c.
     if c = CHR '' '' then ''%20'' else if c = CHR ''&'' then ''%26'' else if c = CHR ''+'' then ''%2B''
     else if c = CHR ''%'' then ''%25'' else [c]) s)"

definition query_url :: "string \<Rightarrow> string option \<Rightarrow> u64 option \<Rightarrow> string" where
  "query_url base_url nid since_seq =
     (let params = (case nid of Some n \<Rightarrow> [''nid='' @ urlencoding_simple n] | None \<Rightarrow> [])
                   @ (case since_seq of Some s \<Rightarrow> [''since='' @ show_u64 s] | None \<Rightarrow> [])
      in base_url @ ''/v1/log/entries'' @ (if params \<noteq> [] then ''?'' @ join ''&'' params else []))"

text \<open>A reply: its status, its text, and its text read as JSON, for the caller or for the error.\<close>

record log_reply =
  lr_status :: nat
  lr_text :: "string option"
  lr_json :: "jvalue option"

definition parse_response :: "(jvalue \<Rightarrow> 'a option) \<Rightarrow> log_reply \<Rightarrow> reputation_log_error + 'a" where
  "parse_response rd r =
     (if 200 \<le> lr_status r \<and> lr_status r < 300
      then ok_or (LogHttp ''error decoding response body'') (Option.bind (lr_json r) rd)
      else let text = unwrap_or [] (lr_text r)
           in case Option.bind (lr_json r) (\<lambda>v. Option.bind (struct_fields [''error'', ''status'', ''message''] v) (\<lambda>f.
                Option.bind (Option.bind (f ! 0) as_str) (\<lambda>e.
                Option.bind (Option.bind (f ! 1) as_str) (\<lambda>st.
                Option.bind (Option.bind (f ! 2) as_str) (\<lambda>m. Some (e, st, m)))))) of
                Some (e, st, m) \<Rightarrow> Err (LogApi e st m)
              | None \<Rightarrow> Err (LogApi [] (show_nat (lr_status r)) text))"

definition entries_from_value :: "jvalue \<Rightarrow> log_entry list option" where
  "entries_from_value v = Option.bind (as_array v) (all_opt entry_from_value)"

definition log_query :: "(string \<Rightarrow> string + log_reply) \<Rightarrow> string \<Rightarrow> string option \<Rightarrow> u64 option
    \<Rightarrow> reputation_log_error + log_entry list" where
  "log_query http base_url nid since_seq =
     (case http (query_url base_url nid since_seq) of
        Inl e \<Rightarrow> Err (LogHttp e)
      | Inr r \<Rightarrow> parse_response entries_from_value r)"

end
