(* ===== verification/Nip_Reputation_Props.thy ===== *)
theory Nip_Reputation_Props
  imports Nip_Reputation
begin

text \<open>
  Properties of the reputation log. The inclusion check is compared with the hash trees of RFC 9162:
  it accepts no entry outside the tree, it accepts every honest proof of a tree with a power of two
  of leaves, and it rejects honest proofs of other trees. A signed entry keeps its signature over
  the wire.
\<close>

section \<open>Hash trees\<close>

text \<open>The largest power of two below \<open>n\<close>, from a smaller one.\<close>

function pow_below :: "nat \<Rightarrow> nat \<Rightarrow> nat" where
  "pow_below n k = (if 0 < k \<and> 2 * k < n then pow_below n (2 * k) else k)"
  by pat_completeness auto
termination by (relation "measure (\<lambda>(n, k). n - k)") auto

declare pow_below.simps [simp del]

lemma pow_below_bounds: "0 < k \<Longrightarrow> k < n \<Longrightarrow> 0 < pow_below n k \<and> pow_below n k < n"
proof (induction n k rule: pow_below.induct)
  case (1 n k)
  then show ?case by (subst (1 2) pow_below.simps) auto
qed

lemma pow_below_power: "i \<le> j \<Longrightarrow> pow_below (2 ^ (j + 1)) (2 ^ i) = 2 ^ j"
proof (induction "j - i" arbitrary: i)
  case 0
  then show ?case by (simp add: pow_below.simps)
next
  case (Suc d)
  then have "i + 1 \<le> j" "d = j - (i + 1)" by auto
  with Suc.hyps(1) [of "i + 1"] have "pow_below (2 ^ (j + 1)) (2 ^ (i + 1)) = 2 ^ j" by blast
  moreover have "2 * (2 :: nat) ^ i < 2 ^ (j + 1)" using \<open>i + 1 \<le> j\<close>
    by (metis Suc_eq_plus1 less_Suc_eq_le one_less_numeral_iff power_Suc power_strict_increasing_iff semiring_norm(76))
  ultimately show ?case by (subst pow_below.simps) simp
qed

definition split_point :: "'a list \<Rightarrow> nat" where
  "split_point D = pow_below (length D) 1"

lemma split_point_bounds: "1 < length D \<Longrightarrow> 0 < split_point D \<and> split_point D < length D"
  unfolding split_point_def by (rule pow_below_bounds) auto

lemma split_lt [simp]:
  "\<not> length D \<le> Suc 0 \<Longrightarrow> split_point D < length D"
  "\<not> length D \<le> Suc 0 \<Longrightarrow> length D - split_point D < length D"
  using split_point_bounds [of D] by auto

text \<open>The root of a list of leaves, the audit path of the leaf at \<open>m\<close>, and all that is hashed for the
  root.\<close>

function mth :: "hash \<Rightarrow> bytes list \<Rightarrow> bytes" where
  "mth sha D = (if length D \<le> 1 then (case D of [] \<Rightarrow> sha [] | d # _ \<Rightarrow> leaf_hash sha d)
     else node_hash sha (mth sha (take (split_point D) D)) (mth sha (drop (split_point D) D)))"
  by pat_completeness auto
termination
  by (relation "measure (\<lambda>(sha, D). length D)") simp_all

function audit_path :: "hash \<Rightarrow> nat \<Rightarrow> bytes list \<Rightarrow> bytes list" where
  "audit_path sha m D = (if length D \<le> 1 then []
     else if m < split_point D
     then audit_path sha m (take (split_point D) D) @ [mth sha (drop (split_point D) D)]
     else audit_path sha (m - split_point D) (drop (split_point D) D) @ [mth sha (take (split_point D) D)])"
  by pat_completeness auto
termination
  by (relation "measure (\<lambda>(sha, m, D). length D)") simp_all

function tree_inputs :: "hash \<Rightarrow> bytes list \<Rightarrow> bytes list" where
  "tree_inputs sha D = (if length D \<le> 1 then (case D of [] \<Rightarrow> [[]] | d # _ \<Rightarrow> [0x00 # d])
     else (0x01 # mth sha (take (split_point D) D) @ mth sha (drop (split_point D) D))
       # tree_inputs sha (take (split_point D) D) @ tree_inputs sha (drop (split_point D) D))"
  by pat_completeness auto
termination
  by (relation "measure (\<lambda>(sha, D). length D)") simp_all

declare mth.simps [simp del] audit_path.simps [simp del] tree_inputs.simps [simp del]

lemma mth_leaf [simp]: "mth sha [d] = leaf_hash sha d"
  by (subst mth.simps) simp

lemma audit_path_leaf [simp]: "audit_path sha m [d] = []"
  by (subst audit_path.simps) simp

lemma mth_length: "(\<And>b. length (sha b) = 32) \<Longrightarrow> length (mth sha D) = 32"
  by (subst mth.simps) (auto simp: leaf_hash_def node_hash_def split: list.splits)

lemma split_point_power: "length D = 2 ^ (k + 1) \<Longrightarrow> split_point D = 2 ^ k"
  using pow_below_power [of 0 k] by (simp add: split_point_def)

section \<open>Honest proofs\<close>

lemma fold_path_append:
  "fold_path cr sha idx i h (xs @ ys) = (case fold_path cr sha idx i h xs of
     Some (Some h') \<Rightarrow> fold_path cr sha idx (i + length xs) h' ys | r \<Rightarrow> r)"
  by (induction xs arbitrary: i h) (auto split: option.splits)

lemma length_audit_path: "length D = 2 ^ k \<Longrightarrow> length (audit_path sha m D) = k"
proof (induction k arbitrary: m D)
  case 0
  then obtain d where "D = [d]" by (auto simp: length_Suc_conv)
  then show ?case by simp
next
  case (Suc k)
  have sp: "split_point D = 2 ^ k" using split_point_power [of D k] Suc.prems by simp
  have "length (take (2 ^ k) D) = 2 ^ k" "length (drop (2 ^ k) D) = 2 ^ k" using Suc.prems by simp_all
  moreover have "\<not> length D \<le> 1" using one_less_power [of "2 :: nat" "Suc k"] Suc.prems by simp
  ultimately show ?case using Suc.IH sp by (subst audit_path.simps) simp
qed

lemma low_bit_and: "and (drop_bit i (w :: u64)) 1 = 0 \<longleftrightarrow> \<not> bit w i"
  unfolding bit_iff_odd_drop_bit and_one_eq even_iff_mod_2_eq_zero by simp

lemma take_bit_split:
  "take_bit (Suc k) (n :: nat) = take_bit k n + (if bit n k then 2 ^ k else 0)"
  by (subst take_bit_Suc_from_most) (simp add: of_bool_def)

lemma honest_path_folds:
  assumes law: "\<And>b. b64url_decode cr (b64url_encode cr b) = Some b" and sha: "\<And>b. length (sha b) = 32"
  shows "length D = 2 ^ k \<Longrightarrow> k \<le> 64 \<Longrightarrow> m = take_bit k (unat idx) \<Longrightarrow>
    fold_path cr sha idx 0 (leaf_hash sha (D ! m)) (map (b64url_encode cr) (audit_path sha m D)) = Some (Some (mth sha D))"
proof (induction k arbitrary: m D)
  case 0
  then obtain d where "D = [d]" by (auto simp: length_Suc_conv)
  with 0 show ?case by simp
next
  case (Suc k)
  let ?L = "take (2 ^ k) D" and ?R = "drop (2 ^ k) D" and ?b = "bit idx k"
  have sp: "split_point D = 2 ^ k" using split_point_power [of D k] Suc.prems by simp
  have len: "length ?L = 2 ^ k" "length ?R = 2 ^ k" "\<not> length D \<le> 1"
    using one_less_power [of "2 :: nat" "Suc k"] Suc.prems by simp_all
  define m' where "m' = take_bit k (unat idx)"
  have m': "m' < 2 ^ k" by (simp add: m'_def)
  have m: "m = m' + (if ?b then 2 ^ k else 0)"
    using Suc.prems(3) by (simp add: take_bit_split m'_def bit_unsigned_iff)
  have root: "mth sha D = node_hash sha (mth sha ?L) (mth sha ?R)" using len sp by (subst mth.simps) simp
  have k: "k \<le> 64" "k < 64" using Suc.prems(2) by simp_all
  note fold_last = fold_path_append length_audit_path [OF len(1)] length_audit_path [OF len(2)] law mth_length [OF sha]
    low_bit_and root
  show ?case
  proof (cases ?b)
    case True
    have path: "audit_path sha m D = audit_path sha m' ?R @ [mth sha ?L]"
      using len sp m True by (subst audit_path.simps) simp
    have leaf: "D ! m = ?R ! m'" using m True len m' by (simp add: add.commute)
    from Suc.IH [OF len(2) k(1) m'_def] k True show ?thesis unfolding path leaf by (simp add: fold_last)
  next
    case False
    have path: "audit_path sha m D = audit_path sha m' ?L @ [mth sha ?R]"
      using len sp m m' False by (subst audit_path.simps) simp
    have leaf: "D ! m = ?L ! m'" using m False len m' by simp
    from Suc.IH [OF len(1) k(1) m'_def] k False show ?thesis unfolding path leaf by (simp add: fold_last)
  qed
qed

text \<open>The honest proof of the leaf at \<open>m\<close>.\<close>

definition honest_proof :: "crypto \<Rightarrow> hash \<Rightarrow> bytes list \<Rightarrow> nat \<Rightarrow> inclusion_proof" where
  "honest_proof cr sha D m =
     \<lparr>ip_seq = of_nat m, ip_leaf_index = of_nat m, ip_tree_size = of_nat (length D),
      ip_leaf_hash = b64url_encode cr (leaf_hash sha (D ! m)),
      ip_audit_path = map (b64url_encode cr) (audit_path sha m D)\<rparr>"

definition head_of :: "crypto \<Rightarrow> hash \<Rightarrow> bytes list \<Rightarrow> signed_tree_head" where
  "head_of cr sha D =
     \<lparr>sth_log_id = [], sth_tree_size = of_nat (length D), sth_timestamp = [],
      sth_sha256_root_hash = b64url_encode cr (mth sha D), sth_signature = []\<rparr>"

definition leaf_of :: "crypto \<Rightarrow> log_entry \<Rightarrow> bytes" where
  "leaf_of cr e = utf8 (leaf_canonical_json cr e)"

text \<open>Property C24 (equivalence). In a log with a power of two of entries the honest proof of every entry is accepted.\<close>

theorem inclusion_complete:
  assumes laws: "crypto_laws cr" and sha: "\<forall>b. length (sha b) = 32"
    and D: "length D = 2 ^ k" "k \<le> 64" and m: "m < length D" "D ! m = leaf_of cr e"
  shows "verify_inclusion cr sha (honest_proof cr sha D m) (head_of cr sha D) e = Some True"
proof -
  have law: "b64url_decode cr (b64url_encode cr b) = Some b" for b using laws by (simp add: crypto_laws_def)
  have "(2 :: nat) ^ k \<le> 2 ^ 64" using D(2) by (rule power_increasing) simp
  then have "m < 2 ^ 64" using m(1) D(1) by linarith
  then have idx: "unat (of_nat m :: u64) = m" by (simp add: unat_of_nat take_bit_nat_eq_self_iff)
  have "take_bit k (unat (of_nat m :: u64)) = m" using m(1) D(1) idx by (simp add: take_bit_nat_eq_self_iff)
  then have "m = take_bit k (unat (of_nat m :: u64))" by (rule sym)
  from honest_path_folds [OF law sha [rule_format] D this] show ?thesis
    using m(2) by (simp add: verify_inclusion_def honest_proof_def head_of_def law leaf_of_def)
qed

text \<open>With three entries the honest proof of the last one is rejected: the check does not know that the node
  moves up without a sibling.\<close>

theorem odd_tree_rejected:
  assumes laws: "crypto_laws cr" and sha: "\<forall>b. length (sha b) = 32"
    and c: "c = leaf_of cr e"
    and order: "node_hash sha (leaf_hash sha c) (node_hash sha (leaf_hash sha a) (leaf_hash sha b))
      \<noteq> node_hash sha (node_hash sha (leaf_hash sha a) (leaf_hash sha b)) (leaf_hash sha c)"
  shows "verify_inclusion cr sha (honest_proof cr sha [a, b, c] 2) (head_of cr sha [a, b, c]) e = Some False"
proof -
  have law: "b64url_decode cr (b64url_encode cr b) = Some b" for b using laws by (simp add: crypto_laws_def)
  have sp: "split_point [a, b, c] = 2" "split_point [a, b] = 1"
    by (simp_all add: split_point_def pow_below.simps)
  have two: "mth sha [a, b] = node_hash sha (leaf_hash sha a) (leaf_hash sha b)"
    by (subst mth.simps) (simp add: sp)
  have root: "mth sha [a, b, c] = node_hash sha (mth sha [a, b]) (leaf_hash sha c)"
    by (subst mth.simps) (simp add: sp)
  have path: "audit_path sha 2 [a, b, c] = [mth sha [a, b]]"
    by (subst audit_path.simps) (simp add: sp)
  have "length (mth sha [a, b]) = 32" using sha by (intro mth_length) simp
  moreover have "leaf_hash sha (utf8 (leaf_canonical_json cr e)) = leaf_hash sha c" by (simp add: c leaf_of_def)
  ultimately show ?thesis using order
    by (simp add: verify_inclusion_def honest_proof_def head_of_def law path root two)
qed

section \<open>No foreign entries\<close>

text \<open>What the loop hashes, and the last step of the loop.\<close>

fun path_inputs :: "crypto \<Rightarrow> hash \<Rightarrow> u64 \<Rightarrow> nat \<Rightarrow> bytes \<Rightarrow> string list \<Rightarrow> bytes list" where
  "path_inputs cr sha idx i h [] = []"
| "path_inputs cr sha idx i h (step # steps) =
     (let sib = unwrap_or [] (b64url_decode cr step);
          input = 0x01 # (if and (drop_bit i idx) 1 = 0 then h @ sib else sib @ h)
      in input # path_inputs cr sha idx (i + 1) (sha input) steps)"

lemma fold_path_snoc:
  "fold_path cr sha idx i h (xs @ [y]) = Some (Some r) \<Longrightarrow>
    \<exists>h' sib. fold_path cr sha idx i h xs = Some (Some h') \<and> length sib = 32
      \<and> (\<exists>input. (input = 0x01 # h' @ sib \<or> input = 0x01 # sib @ h') \<and> r = sha input
           \<and> set (path_inputs cr sha idx i h (xs @ [y])) = insert input (set (path_inputs cr sha idx i h xs)))"
proof (induction xs arbitrary: i h)
  case Nil
  then show ?case by (auto simp: node_hash_def Let_def split: option.splits if_splits)
next
  case (Cons x xs)
  then obtain sib where x: "b64url_decode cr x = Some sib" "length sib = 32" "\<not> i \<ge> 64"
    by (auto split: option.splits if_splits)
  let ?h = "if and (drop_bit i idx) 1 = 0 then node_hash sha h sib else node_hash sha sib h"
  have "fold_path cr sha idx (i + 1) ?h (xs @ [y]) = Some (Some r)" using Cons.prems x by simp
  from Cons.IH [OF this] obtain h' sib' input
    where "fold_path cr sha idx (i + 1) ?h xs = Some (Some h')" "length sib' = 32"
      "input = 0x01 # h' @ sib' \<or> input = 0x01 # sib' @ h'" "r = sha input"
      "set (path_inputs cr sha idx (i + 1) ?h (xs @ [y])) = insert input (set (path_inputs cr sha idx (i + 1) ?h xs))"
    by auto
  note step = this
  have inputs: "path_inputs cr sha idx i h (x # zs) =
      (0x01 # (if and (drop_bit i idx) 1 = 0 then h @ sib else sib @ h)) # path_inputs cr sha idx (i + 1) ?h zs" for zs
    using x by (simp add: node_hash_def Let_def)
  have fold: "fold_path cr sha idx i h (x # xs) = Some (Some h')" using x step(1) by simp
  show ?case
    by (intro exI [of _ h'] exI [of _ sib'] conjI fold step(2) exI [of _ input] step(3,4))
      (unfold append_Cons inputs list.set step(5), rule insert_commute)
qed

lemma fold_path_length: "length h = 32 \<Longrightarrow> (\<And>b. length (sha b) = 32) \<Longrightarrow> fold_path cr sha idx i h xs = Some (Some r) \<Longrightarrow> length r = 32"
  by (induction xs arbitrary: i h) (auto simp: node_hash_def split: option.splits if_splits)

text \<open>What the root hashes last.\<close>

lemma mth_input:
  "(D = [] \<and> mth sha D = sha [] \<and> [] \<in> set (tree_inputs sha D))
   \<or> (\<exists>d. D = [d] \<and> mth sha D = sha (0x00 # d) \<and> 0x00 # d \<in> set (tree_inputs sha D))
   \<or> (\<exists>L R. D = L @ R \<and> length L < length D \<and> length R < length D
        \<and> mth sha D = sha (0x01 # mth sha L @ mth sha R) \<and> 0x01 # mth sha L @ mth sha R \<in> set (tree_inputs sha D)
        \<and> set (tree_inputs sha L) \<union> set (tree_inputs sha R) \<subseteq> set (tree_inputs sha D))"
proof (cases "length D \<le> 1")
  case True
  then consider "D = []" | d where "D = [d]" by (cases D) auto
  then show ?thesis
  proof cases
    case 1
    then show ?thesis by (subst mth.simps, subst tree_inputs.simps) simp
  next
    case 2
    then show ?thesis by (subst (1 2) tree_inputs.simps) (simp add: leaf_hash_def)
  qed
next
  case False
  let ?L = "take (split_point D) D" and ?R = "drop (split_point D) D"
  have "mth sha D = sha (0x01 # mth sha ?L @ mth sha ?R)" using False by (subst mth.simps) (simp add: node_hash_def)
  moreover have "tree_inputs sha D = (0x01 # mth sha ?L @ mth sha ?R) # tree_inputs sha ?L @ tree_inputs sha ?R"
    using False by (subst tree_inputs.simps) simp
  moreover have "D = ?L @ ?R" "length ?L < length D" "length ?R < length D" using False by simp_all
  ultimately show ?thesis by (metis (no_types, lifting) list.set_intros(1) set_append set_subset_Cons)
qed

lemma fold_path_in_tree:
  assumes sha: "\<And>b. length (sha b) = 32"
  shows "fold_path cr sha idx i (leaf_hash sha l) xs = Some (Some (mth sha D)) \<Longrightarrow>
    inj_on sha (insert (0x00 # l) (set (path_inputs cr sha idx i (leaf_hash sha l) xs) \<union> set (tree_inputs sha D))) \<Longrightarrow> l \<in> set D"
proof (induction "length D" arbitrary: D xs rule: less_induct)
  case less
  let ?S = "insert (0x00 # l) (set (path_inputs cr sha idx i (leaf_hash sha l) xs) \<union> set (tree_inputs sha D))"
  note inj = inj_onD [OF less.prems(2)]
  show ?case
  proof (cases xs rule: rev_cases)
    case Nil
    then have "mth sha D = sha (0x00 # l)" using less.prems(1) by (simp add: leaf_hash_def)
    then have eq: "x = 0x00 # l" if "mth sha D = sha x" "x \<in> set (tree_inputs sha D)" for x
      using inj [of x "0x00 # l"] that by simp
    from mth_input [of D sha] consider "[] = 0x00 # l" | d where "D = [d]" "0x00 # d = 0x00 # l"
      | L R where "0x01 # mth sha L @ mth sha R = 0x00 # l"
      using eq by blast
    then show ?thesis by cases auto
  next
    case (snoc ys y)
    have "fold_path cr sha idx i (leaf_hash sha l) (ys @ [y]) = Some (Some (mth sha D))" using less.prems(1) snoc by simp
    from fold_path_snoc [OF this] obtain h' sib input
      where st: "fold_path cr sha idx i (leaf_hash sha l) ys = Some (Some h')" "length sib = 32"
        "input = 0x01 # h' @ sib \<or> input = 0x01 # sib @ h'" "mth sha D = sha input"
        and inputs: "set (path_inputs cr sha idx i (leaf_hash sha l) xs) = insert input (set (path_inputs cr sha idx i (leaf_hash sha l) ys))"
      unfolding snoc by blast
    have hl: "length h' = 32" using fold_path_length [OF _ sha st(1)] sha by (simp add: leaf_hash_def)
    have inS: "input \<in> ?S" using inputs by simp
    have eq: "x = input" if "mth sha D = sha x" "x \<in> set (tree_inputs sha D)" for x
      using inj [of x input] that st(4) inS by simp
    from mth_input [of D sha] consider "[] = input" | d where "0x00 # d = input"
      | L R where "D = L @ R" "length L < length D" "length R < length D" "0x01 # mth sha L @ mth sha R = input"
        "set (tree_inputs sha L) \<union> set (tree_inputs sha R) \<subseteq> set (tree_inputs sha D)"
      using eq by blast
    then show ?thesis
    proof cases
      case 3
      have "length (mth sha L) = 32" "length (mth sha R) = 32" by (rule mth_length [OF sha])+
      with st(2,3) hl 3(4) have "h' = mth sha L \<or> h' = mth sha R" by (auto simp: append_eq_append_conv)
      moreover have "l \<in> set X" if "h' = mth sha X" "length X < length D" "set (tree_inputs sha X) \<subseteq> set (tree_inputs sha D)" for X
      proof (rule less.hyps [OF that(2)])
        show "fold_path cr sha idx i (leaf_hash sha l) ys = Some (Some (mth sha X))" using st(1) that(1) by simp
        show "inj_on sha (insert (0x00 # l) (set (path_inputs cr sha idx i (leaf_hash sha l) ys) \<union> set (tree_inputs sha X)))"
          by (rule inj_on_subset [OF less.prems(2)]) (use inputs that(3) in auto)
      qed
      ultimately show ?thesis using 3 by auto
    qed (use st(3) in auto)
  qed
qed

text \<open>Property C21 (safety). An entry whose inclusion proof is accepted is in the log, whatever the proof says, unless two of
  the inputs that are hashed for the proof and for the log collide.\<close>

theorem inclusion_sound:
  assumes sha: "\<forall>b. length (sha b) = 32"
    and root: "b64url_decode cr (sth_sha256_root_hash sth) = Some (mth sha D)"
    and acc: "verify_inclusion cr sha proof sth e = Some True"
    and coll: "inj_on sha (insert (0x00 # leaf_of cr e)
      (set (path_inputs cr sha (ip_leaf_index proof) 0 (leaf_hash sha (leaf_of cr e)) (ip_audit_path proof))
       \<union> set (tree_inputs sha D)))"
  shows "leaf_of cr e \<in> set D"
proof -
  have "fold_path cr sha (ip_leaf_index proof) 0 (leaf_hash sha (leaf_of cr e)) (ip_audit_path proof) = Some (Some (mth sha D))"
    using acc root by (auto simp: verify_inclusion_def Let_def leaf_of_def split: option.splits if_splits)
  from fold_path_in_tree [OF sha [rule_format] this coll] show ?thesis .
qed

section \<open>Entries on the wire\<close>

lemma window_wire: "window_from_value (window_to_value w) = Some w"
  by (simp add: window_from_value_def window_to_value_def struct_fields_def bt_collect_def)

lemma entry_fields_of:
  "struct_fields entry_fields (entry_to_value e) = Some
     [Some (jnat (ucast (le_v e))), Some (JString (le_log_id e)), Some (jnat (le_seq e)), Some (JString (le_timestamp e)),
      Some (JString (le_subject_nid e)), Some (JString (incident_to_wire (le_incident e))),
      Some (JString (severity_to_wire (le_severity e))), map_option window_to_value (le_window e), le_observation e,
      map_option JString (le_evidence_ref e), map_option JString (le_evidence_sha256 e), Some (JString (le_issuer_nid e)),
      Some (JString (le_signature e))]"
  by (simp add: entry_fields_def entry_to_value_def struct_fields_def bt_collect_def)

lemma opt_field_map: "(\<And>x. rd (f x) = Some x \<and> f x \<noteq> JNull) \<Longrightarrow> opt_field rd (map_option f x) = Some x"
  by (cases x; simp add: opt_field_def) (metis is_null.elims(2))

lemma entry_wire:
  assumes "le_observation e \<noteq> Some JNull"
  shows "entry_from_value (entry_to_value e) = Some (e\<lparr>le_incident_raw := None\<rparr>)"
proof -
  have w: "opt_field window_from_value (map_option window_to_value (le_window e)) = Some (le_window e)"
    by (rule opt_field_map) (simp add: window_wire, simp add: window_to_value_def)
  have o: "opt_field Some (le_observation e) = Some (le_observation e)"
    using assms by (cases "le_observation e") (auto simp: opt_field_def elim: is_null.elims)
  have s: "opt_field as_str (map_option JString x) = Some x" for x by (rule opt_field_map) simp
  show ?thesis by (simp add: entry_from_value_def entry_fields_of w o s)
qed

lemma verify_signed:
  assumes "crypto_laws cr"
  shows "verify_entry cr (ed_public cr sk) (sign_entry cr sk e)"
  using assms by (simp add: verify_entry_def sign_entry_def signing_map_def incident_wire_text_def crypto_laws_def)

text \<open>A signed entry verifies under the key of its issuer after it has been written to the wire and read
  back, as long as its incident is one of those that the protocol names.\<close>

theorem log_entry_roundtrip:
  assumes laws: "crypto_laws cr" and obs: "le_observation e \<noteq> Some JNull" and inc: "le_incident e = Other \<longrightarrow> le_incident_raw e = None"
  shows "\<exists>e'. entry_from_value (entry_to_value (sign_entry cr sk e)) = Some e' \<and> verify_entry cr (ed_public cr sk) e'"
proof -
  let ?e = "sign_entry cr sk e"
  have "entry_from_value (entry_to_value ?e) = Some (?e\<lparr>le_incident_raw := None\<rparr>)"
    by (rule entry_wire) (simp add: obs sign_entry_def)
  moreover have same: "signing_map (?e\<lparr>le_incident_raw := None\<rparr>) = signing_map ?e"
    using inc by (auto simp: signing_map_def incident_wire_text_def sign_entry_def Let_def)
  moreover have "verify_entry cr (ed_public cr sk) (?e\<lparr>le_incident_raw := None\<rparr>)
      = verify_entry cr (ed_public cr sk) ?e" unfolding verify_entry_def same by simp
  ultimately show ?thesis using verify_signed [OF laws, of sk e] by simp
qed

section \<open>Witnesses\<close>

definition demo_hash :: hash where
  "demo_hash b = of_nat (length b) # (case b of x # y # _ \<Rightarrow> y | _ \<Rightarrow> 0) # replicate 30 0"

lemma demo_hash_length: "length (demo_hash b) = 32"
  by (simp add: demo_hash_def)

definition demo_entry_log :: log_entry where
  "demo_entry_log = \<lparr>le_v = 1, le_log_id = ''l'', le_seq = 0, le_timestamp = ''t'', le_subject_nid = ''n'', le_incident = Other,
     le_incident_raw = None, le_severity = Minor, le_window = None, le_observation = None, le_evidence_ref = None,
     le_evidence_sha256 = None, le_issuer_nid = ''i'', le_signature = ''s''\<rparr>"

lemma demo_leaf: "leaf_of plain_crypto demo_entry_log = [110, 117, 108, 108]"
  by (simp add: leaf_of_def leaf_canonical_json_def plain_crypto_def utf8_char_def)

abbreviation demo_leaves :: "bytes list" where "demo_leaves \<equiv> [[110, 117, 108, 108], [7]]"

lemma demo_tree:
  "split_point demo_leaves = 1"
  "tree_inputs demo_hash demo_leaves =
     [0x01 # demo_hash [0, 110, 117, 108, 108] @ demo_hash [0, 7], [0, 110, 117, 108, 108], [0, 7]]"
  "audit_path demo_hash 0 demo_leaves = [demo_hash [0, 7]]"
proof -
  show sp: "split_point demo_leaves = 1" by (simp add: split_point_def pow_below.simps)
  have one: "tree_inputs demo_hash [d] = [0x00 # d]" for d by (subst tree_inputs.simps) simp
  show "tree_inputs demo_hash demo_leaves =
     [0x01 # demo_hash [0, 110, 117, 108, 108] @ demo_hash [0, 7], [0, 110, 117, 108, 108], [0, 7]]"
    by (subst tree_inputs.simps) (simp add: sp one leaf_hash_def)
  show "audit_path demo_hash 0 demo_leaves = [demo_hash [0, 7]]"
    by (subst audit_path.simps) (simp add: sp leaf_hash_def)
qed

theorem inclusion_complete_witness:
  "verify_inclusion plain_crypto demo_hash (honest_proof plain_crypto demo_hash demo_leaves 0)
     (head_of plain_crypto demo_hash demo_leaves) demo_entry_log = Some True"
  using inclusion_complete [OF plain_crypto_laws, of demo_hash demo_leaves 1 0 demo_entry_log]
  by (simp add: demo_hash_length demo_leaf)

lemma demo_inclusion:
  "verify_inclusion plain_crypto demo_hash (honest_proof plain_crypto demo_hash demo_leaves 0)
     (head_of plain_crypto demo_hash demo_leaves) demo_entry_log = Some True"
proof -
  have law: "b64url_decode plain_crypto (b64url_encode plain_crypto b) = Some b" for b
    using plain_crypto_laws by (simp add: crypto_laws_def)
  have "mth demo_hash demo_leaves = node_hash demo_hash (demo_hash [0, 110, 117, 108, 108]) (demo_hash [0, 7])"
    by (subst mth.simps) (simp add: demo_tree leaf_hash_def)
  then show ?thesis using demo_leaf
    by (simp add: verify_inclusion_def honest_proof_def head_of_def law demo_tree leaf_hash_def demo_hash_length leaf_of_def)
qed

theorem inclusion_sound_witness:
  "leaf_of plain_crypto demo_entry_log \<in> set demo_leaves"
proof (rule inclusion_sound [OF _ _ demo_inclusion])
  have law: "b64url_decode plain_crypto (b64url_encode plain_crypto b) = Some b" for b
    using plain_crypto_laws by (simp add: crypto_laws_def)
  show "\<forall>b. length (demo_hash b) = 32" by (simp add: demo_hash_length)
  show "b64url_decode plain_crypto (sth_sha256_root_hash (head_of plain_crypto demo_hash demo_leaves)) = Some (mth demo_hash demo_leaves)"
    by (simp add: head_of_def law)
  show "inj_on demo_hash (insert (0x00 # leaf_of plain_crypto demo_entry_log)
      (set (path_inputs plain_crypto demo_hash (ip_leaf_index (honest_proof plain_crypto demo_hash demo_leaves 0)) 0
         (leaf_hash demo_hash (leaf_of plain_crypto demo_entry_log)) (ip_audit_path (honest_proof plain_crypto demo_hash demo_leaves 0)))
       \<union> set (tree_inputs demo_hash demo_leaves)))"
    by (simp add: honest_proof_def demo_tree demo_leaf law leaf_hash_def) (auto simp: demo_hash_def inj_on_def)
qed

theorem odd_tree_rejected_witness:
  "verify_inclusion plain_crypto demo_hash (honest_proof plain_crypto demo_hash [[1], [2], [110, 117, 108, 108]] 2)
     (head_of plain_crypto demo_hash [[1], [2], [110, 117, 108, 108]]) demo_entry_log = Some False"
  by (rule odd_tree_rejected [OF plain_crypto_laws _ demo_leaf [symmetric]])
    (simp_all add: demo_hash_length, simp add: node_hash_def leaf_hash_def demo_hash_def)

theorem log_entry_roundtrip_witness:
  "\<exists>e'. entry_from_value (entry_to_value (sign_entry plain_crypto [7] demo_entry_log)) = Some (e' :: log_entry)
     \<and> verify_entry plain_crypto (ed_public plain_crypto [7]) e'"
  by (rule log_entry_roundtrip [OF plain_crypto_laws]) (simp_all add: demo_entry_log_def)

end
