(* ===== verification/Nwp_Context.thy ===== *)
theory Nwp_Context
  imports Nip_Signer Alist_Facts
begin

text \<open>
  \<^verbatim>\<open>nps-nwp/src/context_store.rs\<close> and the records of \<^verbatim>\<open>nps-nwp/src/llm.rs\<close> it uses: the store of stateful LLM
  contexts. A change is reserved, then committed or aborted; the store is a record behind one mutex, so each
  operation is one step, with the reading of the clock (nanoseconds), the random identifiers and the
  context id factory as arguments. Maps are association lists. Limits and times to live (\<open>u32\<close>) are natural
  numbers, as they are only compared; times are unbounded, so an addition beyond the year 9999 is not
  modelled, nor is a poisoned lock. The fingerprint is SHA-256 of the printed binding. A result \<open>None\<close> of
  \<open>ctx_commit\<close> is its \<open>unreachable!\<close>.
\<close>

section \<open>Messages, tools and bindings\<close>

record tool_call =
  tl_call_id :: string
  tl_tool_name :: string
  tl_arguments_json :: string

record tool_parameter =
  tp_name :: string
  tp_kind :: string
  tp_description :: "string option"
  tp_required :: bool

record tool_definition =
  td_name :: string
  td_description :: "string option"
  td_parameters :: "tool_parameter list option"

record llm_message =
  lm_role :: string
  lm_content :: "string option"
  lm_tool_call_id :: "string option"
  lm_tool_name :: "string option"
  lm_tool_calls :: "tool_call list option"

text \<open>The derived serializers: fields in declaration order, absent options left out.\<close>

definition some_field :: "string \<Rightarrow> jvalue option \<Rightarrow> (string \<times> jvalue) list" where
  "some_field k v = (case v of None \<Rightarrow> [] | Some x \<Rightarrow> [(k, x)])"

definition tool_call_to_value :: "tool_call \<Rightarrow> jvalue" where
  "tool_call_to_value c = JObject [(''call_id'', JString (tl_call_id c)), (''tool_name'', JString (tl_tool_name c)),
     (''arguments_json'', JString (tl_arguments_json c))]"

definition tool_parameter_to_value :: "tool_parameter \<Rightarrow> jvalue" where
  "tool_parameter_to_value p = JObject ([(''name'', JString (tp_name p)), (''type'', JString (tp_kind p))]
     @ some_field ''description'' (map_option JString (tp_description p)) @ [(''required'', JBool (tp_required p))])"

definition tool_definition_to_value :: "tool_definition \<Rightarrow> jvalue" where
  "tool_definition_to_value t = JObject ([(''name'', JString (td_name t))]
     @ some_field ''description'' (map_option JString (td_description t))
     @ some_field ''parameters'' (map_option (\<lambda>ps. JArray (map tool_parameter_to_value ps)) (td_parameters t)))"

definition message_to_value :: "llm_message \<Rightarrow> jvalue" where
  "message_to_value m = JObject ([(''role'', JString (lm_role m))]
     @ some_field ''content'' (map_option JString (lm_content m))
     @ some_field ''tool_call_id'' (map_option JString (lm_tool_call_id m))
     @ some_field ''tool_name'' (map_option JString (lm_tool_name m))
     @ some_field ''tool_calls'' (map_option (\<lambda>cs. JArray (map tool_call_to_value cs)) (lm_tool_calls m)))"

record ctx_owner =
  ow_nid :: string
  ow_security_scope :: string

record ctx_binding =
  cb_model :: string
  cb_system_messages :: "llm_message list"
  cb_tools :: "tool_definition list"
  cb_runtime_revision :: string

definition binding_to_value :: "ctx_binding \<Rightarrow> jvalue" where
  "binding_to_value b = JObject [(''model'', JString (cb_model b)),
     (''system_messages'', JArray (map message_to_value (cb_system_messages b))),
     (''tools'', JArray (map tool_definition_to_value (cb_tools b))),
     (''runtime_revision'', JString (cb_runtime_revision b))]"

definition binding_fingerprint :: "crypto \<Rightarrow> ctx_binding \<Rightarrow> string" where
  "binding_fingerprint cr b = sha256_hex cr (json_text cr (binding_to_value b))"

section \<open>Requests, results and errors\<close>

datatype ctx_operation = CtxCreate | CtxAppend | CtxFork | CtxReset | CtxRelease

datatype ctx_state = CtxBusy | CtxActive | CtxReleased | CtxExpired | CtxFailed

record ctx_request =
  rq_operation :: ctx_operation
  rq_owner :: ctx_owner
  rq_context_id :: "string option"
  rq_base_version :: "u64 option"
  rq_binding :: ctx_binding
  rq_messages :: "llm_message list"
  rq_ttl_seconds :: "nat option"
  rq_idempotency_key :: string
  rq_request_id :: string

record ctx_reservation =
  rv_reservation_id :: string
  rv_operation :: ctx_operation
  rv_request_id :: string

record ctx_receipt =
  rc_context_id :: string
  rc_version :: u64
  rc_operation :: ctx_operation
  rc_state :: ctx_state
  rc_expires_at :: "string option"
  rc_parent_context_id :: "string option"
  rc_parent_version :: "u64 option"

record ctx_status =
  cs_state :: ctx_state
  cs_context_id :: "string option"
  cs_version :: "u64 option"
  cs_expires_at :: "string option"
  cs_request_id :: "string option"
  cs_error_code :: "string option"

record ctx_snapshot =
  sn_context_id :: string
  sn_version :: u64
  sn_state :: ctx_state
  sn_transcript :: "llm_message list"
  sn_binding :: ctx_binding
  sn_expires_at :: "int option"

record ctx_error =
  ce_error_code :: string
  ce_message :: string
  ce_current_version :: "u64 option"

definition ACTION_PARAMS_INVALID :: string where "ACTION_PARAMS_INVALID = ''NWP-ACTION-PARAMS-INVALID''"
definition ACTION_IDEMPOTENCY_CONFLICT :: string where "ACTION_IDEMPOTENCY_CONFLICT = ''NWP-ACTION-IDEMPOTENCY-CONFLICT''"
definition LLM_CONTEXT_NOT_FOUND :: string where "LLM_CONTEXT_NOT_FOUND = ''NWP-LLM-CONTEXT-NOT-FOUND''"
definition LLM_CONTEXT_EXPIRED :: string where "LLM_CONTEXT_EXPIRED = ''NWP-LLM-CONTEXT-EXPIRED''"
definition LLM_CONTEXT_VERSION_CONFLICT :: string where "LLM_CONTEXT_VERSION_CONFLICT = ''NWP-LLM-CONTEXT-VERSION-CONFLICT''"
definition LLM_CONTEXT_BINDING_MISMATCH :: string where "LLM_CONTEXT_BINDING_MISMATCH = ''NWP-LLM-CONTEXT-BINDING-MISMATCH''"
definition LLM_CONTEXT_FORBIDDEN :: string where "LLM_CONTEXT_FORBIDDEN = ''NWP-LLM-CONTEXT-FORBIDDEN''"
definition LLM_CONTEXT_LIMIT_EXCEEDED :: string where "LLM_CONTEXT_LIMIT_EXCEEDED = ''NWP-LLM-CONTEXT-LIMIT-EXCEEDED''"
definition LLM_CONTEXT_OPERATION_UNSUPPORTED :: string where
  "LLM_CONTEXT_OPERATION_UNSUPPORTED = ''NWP-LLM-CONTEXT-OPERATION-UNSUPPORTED''"
definition INTERNAL_ERROR :: string where "INTERNAL_ERROR = ''NPS-SERVER-INTERNAL''"
definition LLM_COMPLETE :: string where "LLM_COMPLETE = ''llm.complete''"
definition LLM_CONTEXT_RELEASE :: string where "LLM_CONTEXT_RELEASE = ''llm.context.release''"

definition ctx_err :: "string \<Rightarrow> string \<Rightarrow> u64 option \<Rightarrow> ctx_error" where
  "ctx_err c msg v = \<lparr>ce_error_code = c, ce_message = msg, ce_current_version = v\<rparr>"

definition params_invalid :: "string \<Rightarrow> ctx_error" where
  "params_invalid msg = ctx_err ACTION_PARAMS_INVALID msg None"

definition ctx_not_found :: ctx_error where
  "ctx_not_found = ctx_err LLM_CONTEXT_NOT_FOUND ''context or retained outcome not found'' None"

definition internal_error :: "string \<Rightarrow> ctx_error" where
  "internal_error msg = ctx_err INTERNAL_ERROR msg None"

section \<open>Options and state\<close>

record ctx_options =
  xo_max_contexts_per_principal :: nat
  xo_default_ttl_seconds :: nat
  xo_max_ttl_seconds :: nat
  xo_tombstone_seconds :: nat
  xo_idempotency_ttl :: int
  xo_supported_operations :: "ctx_operation list option"

definition SECOND :: int where "SECOND = 1000000000"

definition ctx_options_default :: ctx_options where
  "ctx_options_default = \<lparr>xo_max_contexts_per_principal = 32, xo_default_ttl_seconds = 3600, xo_max_ttl_seconds = 3600,
     xo_tombstone_seconds = 86400, xo_idempotency_ttl = 24 * 3600 * SECOND, xo_supported_operations = None\<rparr>"

definition normalized :: "ctx_options \<Rightarrow> ctx_options" where
  "normalized o1 =
     (let o2 = (if xo_max_contexts_per_principal o1 = 0 then o1\<lparr>xo_max_contexts_per_principal := 32\<rparr> else o1);
          o3 = (if xo_default_ttl_seconds o2 = 0 then o2\<lparr>xo_default_ttl_seconds := 3600\<rparr> else o2);
          o4 = (if xo_max_ttl_seconds o3 = 0 then o3\<lparr>xo_max_ttl_seconds := 3600\<rparr> else o3);
          o5 = (if xo_tombstone_seconds o4 = 0 then o4\<lparr>xo_tombstone_seconds := 86400\<rparr> else o4);
          o6 = (if xo_idempotency_ttl o5 \<le> 0 then o5\<lparr>xo_idempotency_ttl := 24 * 3600 * SECOND\<rparr> else o5)
      in if xo_supported_operations o6 = None
         then o6\<lparr>xo_supported_operations := Some [CtxCreate, CtxAppend, CtxFork, CtxReset, CtxRelease]\<rparr> else o6)"

record ctx_entry =
  en_context_id :: string
  en_owner :: ctx_owner
  en_version :: u64
  en_state :: ctx_state
  en_binding :: ctx_binding
  en_binding_fingerprint :: string
  en_transcript :: "llm_message list"
  en_ttl_seconds :: nat
  en_expires_at :: "int option"
  en_tombstone_until :: "int option"
  en_reservation_id :: "string option"

record reservation_data =
  rd_reservation_id :: string
  rd_request :: ctx_request
  rd_binding_fingerprint :: string
  rd_base_transcript :: "llm_message list"
  rd_effective_ttl_seconds :: "nat option"
  rd_parent_context_id :: "string option"
  rd_parent_version :: "u64 option"

datatype outcome_state = OutBusy | OutCompleted | OutFailed

record idempotency_entry =
  ie_state :: outcome_state
  ie_retain_until :: int
  ie_request_id :: "string option"
  ie_error_code :: "string option"
  ie_receipt :: "ctx_receipt option"
  ie_context_id :: "string option"
  ie_base_version :: "u64 option"

type_synonym idempotency_key = "ctx_owner \<times> string \<times> string"

record ctx_store =
  st_contexts :: "(string \<times> ctx_entry) list"
  st_idempotency :: "(idempotency_key \<times> idempotency_entry) list"
  st_reservations :: "(string \<times> reservation_data) list"

definition ctx_store_new :: ctx_store where
  "ctx_store_new = \<lparr>st_contexts = [], st_idempotency = [], st_reservations = []\<rparr>"

record ctx_descriptor =
  de_operations :: "ctx_operation list"
  de_persistence :: string
  de_max_contexts_per_principal :: nat
  de_max_ttl_seconds :: nat
  de_tombstone_seconds :: nat

abbreviation supported_ops :: "ctx_options \<Rightarrow> ctx_operation list" where
  "supported_ops opts \<equiv> unwrap_or [] (xo_supported_operations opts)"

definition ctx_descriptor_of :: "ctx_options \<Rightarrow> ctx_descriptor" where
  "ctx_descriptor_of opts =
     \<lparr>de_operations = filter (\<lambda>x. x \<in> set (supported_ops opts)) [CtxCreate, CtxAppend, CtxFork, CtxReset, CtxRelease],
      de_persistence = ''process'', de_max_contexts_per_principal = xo_max_contexts_per_principal opts,
      de_max_ttl_seconds = xo_max_ttl_seconds opts, de_tombstone_seconds = xo_tombstone_seconds opts\<rparr>"

section \<open>Checks\<close>

definition context_id_byte :: "u8 \<Rightarrow> bool" where
  "context_id_byte b \<longleftrightarrow> (65 \<le> b \<and> b \<le> 90) \<or> (97 \<le> b \<and> b \<le> 122) \<or> (48 \<le> b \<and> b \<le> 57) \<or> b = 95 \<or> b = 45"

definition validate_context_id :: "string \<Rightarrow> ctx_error + unit" where
  "validate_context_id v =
     (if 22 \<le> length (utf8 v) \<and> length (utf8 v) \<le> 128 \<and> list_all context_id_byte (utf8 v) then Ok ()
      else Err (params_invalid ''context_id must be a 22-128 character unpadded base64url locator''))"

definition validate_request :: "ctx_request \<Rightarrow> ctx_error + unit" where
  "validate_request rq =
     (if rq_operation rq = CtxRelease then Err (params_invalid ''release uses the lifecycle action'')
      else if trim (rq_idempotency_key rq) = [] then Err (params_invalid ''a stateful request requires idempotency_key'')
      else if rq_ttl_seconds rq = Some 0 then Err (params_invalid ''ttl_seconds must be greater than zero'')
      else try_res
        (if rq_operation rq = CtxCreate
         then (if rq_context_id rq \<noteq> None \<or> rq_base_version rq \<noteq> None
               then Err (params_invalid ''create forbids context_id and base_version'') else Ok ())
         else (case rq_context_id rq of
            None \<Rightarrow> Err (params_invalid ''append/fork/reset require context_id and base_version'')
          | Some context_id \<Rightarrow>
              if rq_base_version rq = None
              then Err (params_invalid ''append/fork/reset require context_id and base_version'')
              else validate_context_id context_id))
        (\<lambda>_. if rq_operation rq \<noteq> CtxFork \<and> rq_messages rq = []
             then Err (params_invalid ''only fork may carry an empty message delta'')
             else if rq_operation rq \<in> {CtxAppend, CtxFork}
               \<and> list_ex (\<lambda>m. to_ascii_lowercase (lm_role m) = ''system'') (rq_messages rq)
             then Err (ctx_err LLM_CONTEXT_BINDING_MISMATCH ''append/fork deltas must not contain system messages'' None)
             else Ok ()))"

definition ensure_supported :: "ctx_options \<Rightarrow> ctx_operation \<Rightarrow> ctx_error + unit" where
  "ensure_supported opts x =
     (if x \<notin> set (supported_ops opts)
      then Err (ctx_err LLM_CONTEXT_OPERATION_UNSUPPORTED ''context operation is not advertised'' None) else Ok ())"

definition live_contexts :: "ctx_owner \<Rightarrow> ctx_store \<Rightarrow> nat" where
  "live_contexts ow s = length (filter (\<lambda>(k, en). en_owner en = ow \<and> en_state en = CtxActive) (st_contexts s))"

definition pending_contexts :: "ctx_owner \<Rightarrow> ctx_store \<Rightarrow> nat" where
  "pending_contexts ow s =
     length (filter (\<lambda>(k, rd). rq_owner (rd_request rd) = ow \<and> rq_operation (rd_request rd) \<in> {CtxCreate, CtxFork}) (st_reservations s))"

definition ensure_allocation_available :: "ctx_options \<Rightarrow> ctx_store \<Rightarrow> ctx_owner \<Rightarrow> ctx_error + unit" where
  "ensure_allocation_available opts s ow =
     (if live_contexts ow s + pending_contexts ow s \<ge> xo_max_contexts_per_principal opts
      then Err (ctx_err LLM_CONTEXT_LIMIT_EXCEEDED (''the principal'' @ [CHR 0x27] @ ''s live context limit has been reached'') None)
      else Ok ())"

definition ensure_owner :: "ctx_entry \<Rightarrow> ctx_owner \<Rightarrow> ctx_error + unit" where
  "ensure_owner en ow =
     (if en_owner en \<noteq> ow then Err (ctx_err LLM_CONTEXT_FORBIDDEN ''the caller does not own this context'' None) else Ok ())"

definition require_mutable :: "ctx_store \<Rightarrow> ctx_owner \<Rightarrow> string \<Rightarrow> ctx_error + ctx_entry" where
  "require_mutable s ow context_id =
     try_res (ok_or ctx_not_found (map_of (st_contexts s) context_id)) (\<lambda>en.
     try_res (ensure_owner en ow) (\<lambda>_.
       case en_state en of
         CtxExpired \<Rightarrow> Err (ctx_err LLM_CONTEXT_EXPIRED ''the context expired'' (Some (en_version en)))
       | CtxReleased \<Rightarrow> Err ctx_not_found
       | _ \<Rightarrow> Ok en))"

definition clamp_ttl :: "ctx_options \<Rightarrow> nat \<Rightarrow> nat" where
  "clamp_ttl opts v = min v (xo_max_ttl_seconds opts)"

definition effective_ttl :: "ctx_options \<Rightarrow> ctx_request \<Rightarrow> ctx_entry \<Rightarrow> int \<Rightarrow> nat option" where
  "effective_ttl opts rq en now =
     (case rq_ttl_seconds rq of
        Some v \<Rightarrow> Some (clamp_ttl opts v)
      | None \<Rightarrow>
          if rq_operation rq = CtxFork
          then map_option (\<lambda>expires_at.
                 let nanos = expires_at - now; seconds = max ((nanos + 999999999) div SECOND) 1
                 in nat (min seconds (2 ^ 32 - 1))) (en_expires_at en)
          else if en_ttl_seconds en \<noteq> 0 then Some (en_ttl_seconds en) else None)"

definition nonempty :: "string \<Rightarrow> string option" where
  "nonempty v = (if v \<noteq> [] then Some v else None)"

section \<open>Sweeping\<close>

definition expire_entry :: "ctx_options \<Rightarrow> int \<Rightarrow> ctx_entry \<Rightarrow> ctx_entry" where
  "expire_entry opts now en =
     (if en_state en = CtxActive \<and> en_reservation_id en = None \<and> (case en_expires_at en of Some t \<Rightarrow> t \<le> now | None \<Rightarrow> False)
      then en\<lparr>en_state := CtxExpired, en_expires_at := None, en_tombstone_until := Some (now + int (xo_tombstone_seconds opts) * SECOND)\<rparr>
      else en)"

definition keep_entry :: "int \<Rightarrow> ctx_entry \<Rightarrow> bool" where
  "keep_entry now en \<longleftrightarrow>
     en_state en \<notin> {CtxExpired, CtxReleased} \<or> (case en_tombstone_until en of None \<Rightarrow> True | Some t \<Rightarrow> t > now)"

definition keep_outcome :: "int \<Rightarrow> idempotency_entry \<Rightarrow> bool" where
  "keep_outcome now ie \<longleftrightarrow> ie_state ie = OutBusy \<or> ie_retain_until ie > now"

definition sweep :: "ctx_options \<Rightarrow> int \<Rightarrow> ctx_store \<Rightarrow> ctx_store" where
  "sweep opts now s =
     s\<lparr>st_contexts := filter (\<lambda>(k, en). keep_entry now en) (map (\<lambda>(k, en). (k, expire_entry opts now en)) (st_contexts s)),
       st_idempotency := filter (\<lambda>(k, ie). keep_outcome now ie) (st_idempotency s)\<rparr>"

definition sweep_changes :: "ctx_options \<Rightarrow> int \<Rightarrow> ctx_store \<Rightarrow> nat" where
  "sweep_changes opts now s =
     (let changed = length (filter (\<lambda>(k, en). expire_entry opts now en \<noteq> en) (st_contexts s))
      in changed + (length (st_contexts s) - length (st_contexts (sweep opts now s)))
         + length (st_idempotency s) - length (st_idempotency (sweep opts now s)))"

definition sweep_expired :: "ctx_options \<Rightarrow> int \<Rightarrow> ctx_store \<Rightarrow> nat \<times> ctx_store" where
  "sweep_expired opts now s = (sweep_changes opts now s, sweep opts now s)"

section \<open>Operations\<close>

abbreviation complete_key :: "ctx_request \<Rightarrow> idempotency_key" where
  "complete_key rq \<equiv> (rq_owner rq, LLM_COMPLETE, rq_idempotency_key rq)"

definition fresh_outcome :: "ctx_options \<Rightarrow> int \<Rightarrow> outcome_state \<Rightarrow> string option \<Rightarrow> idempotency_entry" where
  "fresh_outcome opts now st request_id =
     \<lparr>ie_state = st, ie_retain_until = now + xo_idempotency_ttl opts, ie_request_id = request_id, ie_error_code = None,
      ie_receipt = None, ie_context_id = None, ie_base_version = None\<rparr>"

text \<open>What a reservation starts from: the transcript, the time to live, and for a fork the parent.\<close>

type_synonym ctx_base = "llm_message list \<times> nat option \<times> string option \<times> u64 option"

definition reserve_base :: "crypto \<Rightarrow> ctx_options \<Rightarrow> int \<Rightarrow> ctx_request \<Rightarrow> ctx_store \<Rightarrow> ctx_error + ctx_base" where
  "reserve_base cr opts now rq s =
     (if rq_operation rq = CtxCreate
      then try_res (ensure_allocation_available opts s (rq_owner rq)) (\<lambda>_.
             Ok ([], Some (clamp_ttl opts (unwrap_or (xo_default_ttl_seconds opts) (rq_ttl_seconds rq))), None, None))
      else try_res (require_mutable s (rq_owner rq) (the (rq_context_id rq))) (\<lambda>en.
        if en_reservation_id en \<noteq> None \<or> en_version en \<noteq> the (rq_base_version rq)
        then Err (ctx_err LLM_CONTEXT_VERSION_CONFLICT ''the context version is stale or a mutation is running'' (Some (en_version en)))
        else if rq_operation rq \<in> {CtxAppend, CtxFork} \<and> en_binding_fingerprint en \<noteq> binding_fingerprint cr (rq_binding rq)
        then Err (ctx_err LLM_CONTEXT_BINDING_MISMATCH ''the request binding differs from the retained binding'' None)
        else try_res (if rq_operation rq = CtxFork then ensure_allocation_available opts s (rq_owner rq) else Ok ()) (\<lambda>_.
          Ok (en_transcript en, effective_ttl opts rq en now,
              if rq_operation rq = CtxFork then Some (en_context_id en) else None,
              if rq_operation rq = CtxFork then Some (en_version en) else None))))"

definition add_reservation :: "crypto \<Rightarrow> ctx_options \<Rightarrow> int \<Rightarrow> string \<Rightarrow> ctx_request \<Rightarrow> ctx_base \<Rightarrow> ctx_store \<Rightarrow> ctx_store" where
  "add_reservation cr opts now rid rq base s =
     (case base of (base_transcript, ttl, parent_id, parent_version) \<Rightarrow>
        s\<lparr>st_contexts := (if rq_operation rq \<noteq> CtxCreate \<and> rq_operation rq \<noteq> CtxFork
             then alter (the (rq_context_id rq)) (\<lambda>en. en\<lparr>en_reservation_id := Some rid\<rparr>) (st_contexts s) else st_contexts s),
          st_reservations := AList.update rid
            \<lparr>rd_reservation_id = rid, rd_request = rq, rd_binding_fingerprint = binding_fingerprint cr (rq_binding rq),
             rd_base_transcript = base_transcript, rd_effective_ttl_seconds = ttl, rd_parent_context_id = parent_id,
             rd_parent_version = parent_version\<rparr> (st_reservations s),
          st_idempotency := AList.update (complete_key rq) (fresh_outcome opts now OutBusy (nonempty (rq_request_id rq))) (st_idempotency s)\<rparr>)"

text \<open>The sweep is kept also when the request is refused.\<close>

definition ctx_reserve :: "crypto \<Rightarrow> ctx_options \<Rightarrow> int \<Rightarrow> (string + string) \<Rightarrow> ctx_request \<Rightarrow> ctx_store
    \<Rightarrow> (ctx_error + ctx_reservation) \<times> ctx_store" where
  "ctx_reserve cr opts now rand_id rq s0 =
     (let s = sweep opts now s0
      in case try_res (validate_request rq) (\<lambda>_.
              try_res (ensure_supported opts (rq_operation rq)) (\<lambda>_.
              if map_of (st_idempotency s) (complete_key rq) \<noteq> None
              then Err (ctx_err ACTION_IDEMPOTENCY_CONFLICT ''an outcome already exists for this idempotency key'' None)
              else try_res (reserve_base cr opts now rq s) (\<lambda>base.
                case rand_id of
                  Inl e \<Rightarrow> Err (internal_error (''generate reservation ID: '' @ e))
                | Inr rid \<Rightarrow> Ok (rid, base)))) of
           Inl e \<Rightarrow> (Err e, s)
         | Inr (rid, base) \<Rightarrow>
             (Ok \<lparr>rv_reservation_id = rid, rv_operation = rq_operation rq, rv_request_id = rq_request_id rq\<rparr>,
              add_reservation cr opts now rid rq base s))"

definition require_reservation :: "ctx_store \<Rightarrow> ctx_reservation \<Rightarrow> ctx_error + reservation_data" where
  "require_reservation s rv =
     try_res (ok_or (internal_error ''context reservation is not active'') (map_of (st_reservations s) (rv_reservation_id rv))) (\<lambda>rd.
       if rd_reservation_id rd \<noteq> rv_reservation_id rv then Err (internal_error ''context reservation identity mismatch'') else Ok rd)"

text \<open>Eight attempts to get an unused identifier from the factory.\<close>

fun next_context_id :: "nat \<Rightarrow> (nat \<Rightarrow> ctx_error + string) \<Rightarrow> ctx_store \<Rightarrow> ctx_error + string" where
  "next_context_id 0 factory s = Err (internal_error ''context ID factory repeatedly produced collisions'')"
| "next_context_id (Suc n) factory s =
     try_res (factory (7 - n)) (\<lambda>v.
     try_res (validate_context_id v) (\<lambda>_.
       if map_of (st_contexts s) v = None then Ok v else next_context_id n factory s))"

definition expiry_of :: "int \<Rightarrow> reservation_data \<Rightarrow> int option" where
  "expiry_of now rd = map_option (\<lambda>seconds. now + int seconds * SECOND) (rd_effective_ttl_seconds rd)"

definition new_entry :: "int \<Rightarrow> reservation_data \<Rightarrow> string \<Rightarrow> llm_message \<Rightarrow> ctx_entry" where
  "new_entry now rd context_id assistant_result =
     \<lparr>en_context_id = context_id, en_owner = rq_owner (rd_request rd), en_version = 1, en_state = CtxActive,
      en_binding = rq_binding (rd_request rd), en_binding_fingerprint = rd_binding_fingerprint rd,
      en_transcript = (if rq_operation (rd_request rd) = CtxFork then rd_base_transcript rd else [])
        @ rq_messages (rd_request rd) @ [assistant_result],
      en_ttl_seconds = unwrap_or 0 (rd_effective_ttl_seconds rd), en_expires_at = expiry_of now rd,
      en_tombstone_until = None, en_reservation_id = None\<rparr>"

definition changed_entry :: "int \<Rightarrow> reservation_data \<Rightarrow> llm_message \<Rightarrow> ctx_entry \<Rightarrow> ctx_entry" where
  "changed_entry now rd assistant_result en =
     (let en1 = en\<lparr>en_version := en_version en + 1, en_state := CtxActive, en_reservation_id := None,
                   en_expires_at := expiry_of now rd, en_ttl_seconds := unwrap_or 0 (rd_effective_ttl_seconds rd)\<rparr>;
          en2 = (if rq_operation (rd_request rd) = CtxReset
                 then en1\<lparr>en_binding := rq_binding (rd_request rd), en_binding_fingerprint := rd_binding_fingerprint rd,
                         en_transcript := rq_messages (rd_request rd)\<rparr>
                 else en1\<lparr>en_transcript := en_transcript en1 @ rq_messages (rd_request rd)\<rparr>)
      in en2\<lparr>en_transcript := en_transcript en2 @ [assistant_result]\<rparr>)"

definition receipt_of :: "crypto \<Rightarrow> int \<Rightarrow> reservation_data \<Rightarrow> string \<Rightarrow> u64 \<Rightarrow> ctx_receipt" where
  "receipt_of cr now rd context_id version =
     \<lparr>rc_context_id = context_id, rc_version = version, rc_operation = rq_operation (rd_request rd), rc_state = CtxActive,
      rc_expires_at = map_option (rfc3339_text cr) (expiry_of now rd), rc_parent_context_id = rd_parent_context_id rd,
      rc_parent_version = rd_parent_version rd\<rparr>"

definition finish_commit :: "crypto \<Rightarrow> ctx_options \<Rightarrow> int \<Rightarrow> reservation_data \<Rightarrow> string \<Rightarrow> u64 \<Rightarrow> ctx_store \<Rightarrow> ctx_receipt \<times> ctx_store" where
  "finish_commit cr opts now rd context_id version s =
     (let receipt = receipt_of cr now rd context_id version
      in (receipt,
          s\<lparr>st_idempotency := AList.update (complete_key (rd_request rd))
              ((fresh_outcome opts now OutCompleted (nonempty (rq_request_id (rd_request rd))))\<lparr>ie_receipt := Some receipt\<rparr>) (st_idempotency s),
            st_reservations := AList.delete (rd_reservation_id rd) (st_reservations s)\<rparr>))"

definition ctx_commit :: "crypto \<Rightarrow> ctx_options \<Rightarrow> int \<Rightarrow> (nat \<Rightarrow> ctx_error + string) \<Rightarrow> ctx_reservation \<Rightarrow> llm_message \<Rightarrow> ctx_store
    \<Rightarrow> ((ctx_error + ctx_receipt) \<times> ctx_store) option" where
  "ctx_commit cr opts now factory rv assistant_result s =
     (case require_reservation s rv of
        Inl e \<Rightarrow> Some (Err e, s)
      | Inr rd \<Rightarrow>
          (case rq_operation (rd_request rd) of
             CtxRelease \<Rightarrow> None
           | x \<Rightarrow>
             Some (if x \<in> {CtxCreate, CtxFork}
              then (case next_context_id 8 factory s of
                 Inl e \<Rightarrow> (Err e, s)
               | Inr context_id \<Rightarrow>
                   map_prod Ok id (finish_commit cr opts now rd context_id 1
                     (s\<lparr>st_contexts := AList.update context_id (new_entry now rd context_id assistant_result) (st_contexts s)\<rparr>)))
              else (case map_of (st_contexts s) (the (rq_context_id (rd_request rd))) of
                 None \<Rightarrow> (Err ctx_not_found, s)
               | Some en \<Rightarrow>
                   map_prod Ok id (finish_commit cr opts now rd (en_context_id en) (en_version en + 1)
                     (s\<lparr>st_contexts := alter (the (rq_context_id (rd_request rd))) (changed_entry now rd assistant_result) (st_contexts s)\<rparr>))))))"

definition clear_reservation :: "reservation_data \<Rightarrow> ctx_store \<Rightarrow> ctx_store" where
  "clear_reservation rd s =
     (case rq_context_id (rd_request rd) of
        None \<Rightarrow> s
      | Some context_id \<Rightarrow>
          s\<lparr>st_contexts := alter context_id (\<lambda>en. if en_reservation_id en = Some (rd_reservation_id rd)
              then en\<lparr>en_reservation_id := None\<rparr> else en) (st_contexts s)\<rparr>)"

definition ctx_abort :: "ctx_options \<Rightarrow> int \<Rightarrow> ctx_reservation \<Rightarrow> string option \<Rightarrow> ctx_store \<Rightarrow> (ctx_error + unit) \<times> ctx_store" where
  "ctx_abort opts now rv error_code s =
     (case require_reservation s rv of
        Inl e \<Rightarrow> (Err e, s)
      | Inr rd \<Rightarrow>
          (let s1 = clear_reservation rd s;
               s2 = s1\<lparr>st_reservations := AList.delete (rd_reservation_id rd) (st_reservations s1),
                      st_idempotency := AList.update (complete_key (rd_request rd))
                        ((fresh_outcome opts now OutFailed (nonempty (rq_request_id (rd_request rd))))\<lparr>ie_error_code := error_code\<rparr>)
                        (st_idempotency s1)\<rparr>
           in (Ok (), sweep opts now s2)))"

definition release_receipt :: "string \<Rightarrow> u64 \<Rightarrow> ctx_receipt" where
  "release_receipt context_id version =
     \<lparr>rc_context_id = context_id, rc_version = version, rc_operation = CtxRelease, rc_state = CtxReleased,
      rc_expires_at = None, rc_parent_context_id = None, rc_parent_version = None\<rparr>"

definition ctx_release :: "ctx_options \<Rightarrow> int \<Rightarrow> ctx_owner \<Rightarrow> string \<Rightarrow> u64 \<Rightarrow> string \<Rightarrow> ctx_store
    \<Rightarrow> (ctx_error + ctx_receipt) \<times> ctx_store" where
  "ctx_release opts now ow context_id base_version idem s0 =
     (let s = sweep opts now s0; key = (ow, LLM_CONTEXT_RELEASE, idem)
      in case try_res (ensure_supported opts CtxRelease) (\<lambda>_. try_res (validate_context_id context_id) (\<lambda>_.
              if trim idem = [] then Err (params_invalid ''release requires idempotency_key'') else Ok ())) of
           Inl e \<Rightarrow> (Err e, s)
         | Inr _ \<Rightarrow>
             (case map_of (st_idempotency s) key of
                Some prior \<Rightarrow>
                  (if ie_state prior = OutCompleted \<and> ie_context_id prior = Some context_id \<and> ie_base_version prior = Some base_version
                   then ok_or (internal_error ''completed release outcome has no receipt'') (ie_receipt prior)
                   else Err (ctx_err ACTION_IDEMPOTENCY_CONFLICT ''a release with this idempotency key already exists'' None), s)
              | None \<Rightarrow>
                  (case require_mutable s ow context_id of
                     Inl e \<Rightarrow> (Err e, s)
                   | Inr en \<Rightarrow>
                       if en_reservation_id en \<noteq> None \<or> en_version en \<noteq> base_version
                       then (Err (ctx_err LLM_CONTEXT_VERSION_CONFLICT ''the context version is stale or a mutation is running''
                               (Some (en_version en))), s)
                       else
                         let receipt = release_receipt context_id (en_version en + 1)
                         in (Ok receipt,
                             s\<lparr>st_contexts := alter context_id (\<lambda>en. en\<lparr>en_version := en_version en + 1, en_state := CtxReleased,
                                  en_expires_at := None, en_tombstone_until := Some (now + int (xo_tombstone_seconds opts) * SECOND)\<rparr>)
                                (st_contexts s),
                               st_idempotency := AList.update key ((fresh_outcome opts now OutCompleted None)\<lparr>ie_receipt := Some receipt,
                                  ie_context_id := Some context_id, ie_base_version := Some base_version\<rparr>) (st_idempotency s)\<rparr>))))"

section \<open>Reading the store\<close>

definition status_by_context :: "crypto \<Rightarrow> ctx_store \<Rightarrow> ctx_owner \<Rightarrow> string \<Rightarrow> ctx_error + ctx_status" where
  "status_by_context cr s ow context_id =
     try_res (validate_context_id context_id) (\<lambda>_.
     try_res (ok_or ctx_not_found (map_of (st_contexts s) context_id)) (\<lambda>en.
     try_res (ensure_owner en ow) (\<lambda>_.
       Ok \<lparr>cs_state = (if en_reservation_id en \<noteq> None then CtxBusy else en_state en), cs_context_id = Some (en_context_id en),
           cs_version = Some (en_version en), cs_expires_at = map_option (rfc3339_text cr) (en_expires_at en),
           cs_request_id = Option.bind (Option.bind (en_reservation_id en) (map_of (st_reservations s)))
             (\<lambda>rd. nonempty (rq_request_id (rd_request rd))),
           cs_error_code = None\<rparr>)))"

definition status_from_receipt :: "crypto \<Rightarrow> ctx_store \<Rightarrow> ctx_owner \<Rightarrow> ctx_receipt \<Rightarrow> ctx_error + ctx_status" where
  "status_from_receipt cr s ow rc =
     (if map_of (st_contexts s) (rc_context_id rc) \<noteq> None then status_by_context cr s ow (rc_context_id rc)
      else Ok \<lparr>cs_state = rc_state rc, cs_context_id = Some (rc_context_id rc), cs_version = Some (rc_version rc),
               cs_expires_at = rc_expires_at rc, cs_request_id = None, cs_error_code = None\<rparr>)"

definition ctx_status_of :: "crypto \<Rightarrow> ctx_options \<Rightarrow> int \<Rightarrow> ctx_owner \<Rightarrow> string option \<Rightarrow> string option \<Rightarrow> ctx_store
    \<Rightarrow> (ctx_error + ctx_status) \<times> ctx_store" where
  "ctx_status_of cr opts now ow context_id idem s0 =
     (let s = sweep opts now s0
      in (if (context_id \<noteq> None) = (idem \<noteq> None) then Err (params_invalid ''status requires exactly one locator'')
          else (case idem of
             Some key \<Rightarrow>
               try_res (ok_or ctx_not_found (map_of (st_idempotency s) (ow, LLM_COMPLETE, key))) (\<lambda>out.
                 case ie_state out of
                   OutBusy \<Rightarrow> Ok \<lparr>cs_state = CtxBusy, cs_context_id = None, cs_version = None, cs_expires_at = None,
                                  cs_request_id = ie_request_id out, cs_error_code = None\<rparr>
                 | OutFailed \<Rightarrow> Ok \<lparr>cs_state = CtxFailed, cs_context_id = None, cs_version = None, cs_expires_at = None,
                                  cs_request_id = ie_request_id out, cs_error_code = ie_error_code out\<rparr>
                 | OutCompleted \<Rightarrow> try_res (ok_or (internal_error ''completed context outcome has no receipt'') (ie_receipt out))
                                   (status_from_receipt cr s ow))
           | None \<Rightarrow> status_by_context cr s ow (the context_id)), s))"

definition ctx_snapshot_of :: "ctx_options \<Rightarrow> int \<Rightarrow> ctx_owner \<Rightarrow> string \<Rightarrow> ctx_store \<Rightarrow> (ctx_error + ctx_snapshot) \<times> ctx_store" where
  "ctx_snapshot_of opts now ow context_id s0 =
     (let s = sweep opts now s0
      in (try_res (require_mutable s ow context_id) (\<lambda>en.
            Ok \<lparr>sn_context_id = en_context_id en, sn_version = en_version en, sn_state = en_state en, sn_transcript = en_transcript en,
                sn_binding = en_binding en, sn_expires_at = en_expires_at en\<rparr>), s))"

end
