(* ===== verification/Nwp_Context_Props.thy ===== *)
theory Nwp_Context_Props
  imports Nwp_Context
begin

text \<open>
  The context store over every interleaving of its operations: what a reservation pins down, the limit on
  live contexts, and the outcome that a completed request leaves behind.
\<close>

section \<open>Steps\<close>

text \<open>The first component collects the reservation ids that were drawn, which are taken not to repeat.\<close>

type_synonym ctx_history = "string set \<times> ctx_store"

inductive ctx_step :: "crypto \<Rightarrow> ctx_options \<Rightarrow> int \<Rightarrow> ctx_history \<Rightarrow> ctx_history \<Rightarrow> bool" for cr opts now where
  reserved: "ctx_reserve cr opts now rand_id rq s = (r, s') \<Longrightarrow> (\<And>rid. rand_id = Inr rid \<Longrightarrow> rid \<notin> ids) \<Longrightarrow>
     ctx_step cr opts now (ids, s) (case rand_id of Inr rid \<Rightarrow> insert rid ids | Inl e \<Rightarrow> ids, s')"
| committed: "ctx_commit cr opts now factory rv msg s = Some (r, s') \<Longrightarrow> ctx_step cr opts now (ids, s) (ids, s')"
| aborted: "ctx_abort opts now rv err_code s = (u, s') \<Longrightarrow> ctx_step cr opts now (ids, s) (ids, s')"
| released: "ctx_release opts now ow cid v idem s = (r, s') \<Longrightarrow> ctx_step cr opts now (ids, s) (ids, s')"
| swept: "ctx_step cr opts now (ids, s) (ids, sweep opts now s)"

text \<open>Steps whose clock readings satisfy a condition.\<close>

inductive ctx_run :: "crypto \<Rightarrow> ctx_options \<Rightarrow> (int \<Rightarrow> bool) \<Rightarrow> ctx_history \<Rightarrow> ctx_history \<Rightarrow> bool" for cr opts P where
  run_refl: "ctx_run cr opts P h h"
| run_step: "ctx_run cr opts P h h1 \<Longrightarrow> ctx_step cr opts now h1 h2 \<Longrightarrow> P now \<Longrightarrow> ctx_run cr opts P h h2"

section \<open>The invariant\<close>

abbreviation is_active :: "ctx_owner \<Rightarrow> ctx_entry \<Rightarrow> bool" where
  "is_active ow en \<equiv> en_owner en = ow \<and> en_state en = CtxActive"

abbreviation is_allocation :: "ctx_owner \<Rightarrow> reservation_data \<Rightarrow> bool" where
  "is_allocation ow rd \<equiv> rq_owner (rd_request rd) = ow \<and> rq_operation (rd_request rd) \<in> {CtxCreate, CtxFork}"

lemma live_count: "live_contexts ow s = count_values (is_active ow) (st_contexts s)"
  by (simp add: live_contexts_def count_values_def)

lemma pending_count_values: "pending_contexts ow s = count_values (is_allocation ow) (st_reservations s)"
  by (simp add: pending_contexts_def count_values_def)

text \<open>The entry that a reservation to append or reset holds: active, marked, at the base version and with the
  base transcript.\<close>

definition holds :: "ctx_store \<Rightarrow> string \<Rightarrow> reservation_data \<Rightarrow> bool" where
  "holds s rid rd \<longleftrightarrow> (\<exists>cid en. rq_context_id (rd_request rd) = Some cid \<and> map_of (st_contexts s) cid = Some en
     \<and> en_reservation_id en = Some rid \<and> en_state en = CtxActive \<and> en_owner en = rq_owner (rd_request rd)
     \<and> rq_base_version (rd_request rd) = Some (en_version en) \<and> en_transcript en = rd_base_transcript rd)"

definition reservations_ok :: "string set \<Rightarrow> ctx_store \<Rightarrow> bool" where
  "reservations_ok ids s \<longleftrightarrow> (\<forall>rid rd. map_of (st_reservations s) rid = Some rd \<longrightarrow>
     rid \<in> ids \<and> rd_reservation_id rd = rid \<and> rq_operation (rd_request rd) \<noteq> CtxRelease
     \<and> (rq_operation (rd_request rd) \<in> {CtxAppend, CtxReset} \<longrightarrow> holds s rid rd)
     \<and> (\<exists>out. map_of (st_idempotency s) (complete_key (rd_request rd)) = Some out \<and> ie_state out = OutBusy))"

definition contexts_ok :: "ctx_store \<Rightarrow> bool" where
  "contexts_ok s \<longleftrightarrow> (\<forall>cid en. map_of (st_contexts s) cid = Some en \<longrightarrow> en_context_id en = cid
     \<and> en_state en \<in> {CtxActive, CtxReleased, CtxExpired}
     \<and> (\<forall>rid. en_reservation_id en = Some rid \<longrightarrow> (\<exists>rd. map_of (st_reservations s) rid = Some rd
           \<and> rq_context_id (rd_request rd) = Some cid \<and> rq_operation (rd_request rd) \<in> {CtxAppend, CtxReset})))"

definition keys_apart :: "ctx_store \<Rightarrow> bool" where
  "keys_apart s \<longleftrightarrow> (\<forall>rid rid' rd rd'. map_of (st_reservations s) rid = Some rd \<longrightarrow> map_of (st_reservations s) rid' = Some rd' \<longrightarrow>
     complete_key (rd_request rd) = complete_key (rd_request rd') \<longrightarrow> rid = rid')"

definition within_limit :: "ctx_options \<Rightarrow> ctx_store \<Rightarrow> bool" where
  "within_limit opts s \<longleftrightarrow> (\<forall>ow. live_contexts ow s + pending_contexts ow s \<le> xo_max_contexts_per_principal opts)"

definition tables_ok :: "ctx_store \<Rightarrow> bool" where
  "tables_ok s \<longleftrightarrow> distinct (map fst (st_contexts s)) \<and> distinct (map fst (st_idempotency s)) \<and> distinct (map fst (st_reservations s))"

definition ctx_inv :: "ctx_options \<Rightarrow> ctx_history \<Rightarrow> bool" where
  "ctx_inv opts h \<longleftrightarrow> tables_ok (snd h) \<and> reservations_ok (fst h) (snd h) \<and> contexts_ok (snd h) \<and> keys_apart (snd h) \<and> within_limit opts (snd h)"

lemmas ctx_inv_defs = ctx_inv_def tables_ok_def reservations_ok_def contexts_ok_def keys_apart_def within_limit_def

lemma ctx_inv_new: "ctx_inv opts (ids, ctx_store_new)"
  by (simp add: ctx_inv_defs ctx_store_new_def live_contexts_def pending_contexts_def)

section \<open>Sweeping\<close>

lemma sweep_lookup:
  assumes "tables_ok s"
  shows "map_of (st_contexts (sweep opts now s)) cid =
      (case map_of (st_contexts s) cid of None \<Rightarrow> None
       | Some en \<Rightarrow> if keep_entry now (expire_entry opts now en) then Some (expire_entry opts now en) else None)"
    and "map_of (st_idempotency (sweep opts now s)) k =
      (case map_of (st_idempotency s) k of None \<Rightarrow> None | Some ie \<Rightarrow> if keep_outcome now ie then Some ie else None)"
    and "st_reservations (sweep opts now s) = st_reservations s"
  using assms
  by (simp_all add: sweep_def tables_ok_def map_of_filter_map map_of_filter_value split: option.splits)

lemma expire_entry_simps [simp]:
  "en_context_id (expire_entry opts now en) = en_context_id en"
  "en_owner (expire_entry opts now en) = en_owner en"
  "en_version (expire_entry opts now en) = en_version en"
  "en_transcript (expire_entry opts now en) = en_transcript en"
  "en_reservation_id (expire_entry opts now en) = en_reservation_id en"
  "en_binding_fingerprint (expire_entry opts now en) = en_binding_fingerprint en"
  by (simp_all add: expire_entry_def)

lemma expire_entry_held: "en_reservation_id en = Some rid \<Longrightarrow> expire_entry opts now en = en"
  by (simp add: expire_entry_def)

lemma expire_entry_active: "en_state (expire_entry opts now en) = CtxActive \<Longrightarrow> en_state en = CtxActive"
  by (auto simp: expire_entry_def split: if_splits)

lemma expire_entry_state: "en_state (expire_entry opts now en) = en_state en \<or> en_state (expire_entry opts now en) = CtxExpired"
  by (simp add: expire_entry_def)

lemma tables_sweep: "tables_ok s \<Longrightarrow> tables_ok (sweep opts now s)"
  unfolding tables_ok_def sweep_def by (simp add: distinct_filter_value distinct_filter_map del: map_map)

lemma holds_sweep: "tables_ok s \<Longrightarrow> holds s rid rd \<Longrightarrow> holds (sweep opts now s) rid rd"
  by (auto simp: holds_def sweep_lookup expire_entry_held keep_entry_def)

lemma live_sweep: "live_contexts ow (sweep opts now s) \<le> live_contexts ow s"
proof -
  have "live_contexts ow (sweep opts now s)
      \<le> count_values (is_active ow) (map (\<lambda>(k, en). (k, expire_entry opts now en)) (st_contexts s))"
    by (simp add: live_count sweep_def) (rule count_filter_le)
  also have "\<dots> \<le> count_values (is_active ow) (st_contexts s)"
    by (rule count_map_le) (auto dest: expire_entry_active)
  finally show ?thesis by (simp add: live_count)
qed

lemma pending_sweep [simp]: "pending_contexts ow (sweep opts now s) = pending_contexts ow s"
  by (simp add: pending_contexts_def sweep_def)

lemma ctx_inv_sweep:
  assumes inv: "ctx_inv opts (ids, s)"
  shows "ctx_inv opts (ids, sweep opts now s)"
proof -
  have t: "tables_ok s" using inv by (simp add: ctx_inv_def)
  have "reservations_ok ids (sweep opts now s)"
    using inv holds_sweep [OF t] by (fastforce simp: ctx_inv_def reservations_ok_def sweep_lookup [OF t] keep_outcome_def)
  moreover have "contexts_ok (sweep opts now s)"
    unfolding contexts_ok_def
  proof (intro allI impI)
    fix cid en'
    assume "map_of (st_contexts (sweep opts now s)) cid = Some en'"
    then obtain en where "map_of (st_contexts s) cid = Some en" and en': "en' = expire_entry opts now en"
      by (auto simp: sweep_lookup [OF t] split: option.splits if_splits)
    with inv have "en_context_id en = cid" "en_state en \<in> {CtxActive, CtxReleased, CtxExpired}"
      "\<forall>rid. en_reservation_id en = Some rid \<longrightarrow> (\<exists>rd. map_of (st_reservations s) rid = Some rd
           \<and> rq_context_id (rd_request rd) = Some cid \<and> rq_operation (rd_request rd) \<in> {CtxAppend, CtxReset})"
      unfolding ctx_inv_def contexts_ok_def by auto
    then show "en_context_id en' = cid \<and> en_state en' \<in> {CtxActive, CtxReleased, CtxExpired}
      \<and> (\<forall>rid. en_reservation_id en' = Some rid \<longrightarrow> (\<exists>rd. map_of (st_reservations (sweep opts now s)) rid = Some rd
           \<and> rq_context_id (rd_request rd) = Some cid \<and> rq_operation (rd_request rd) \<in> {CtxAppend, CtxReset}))"
      using expire_entry_state [of opts now en] by (auto simp: en' sweep_lookup [OF t])
  qed
  moreover have "keys_apart (sweep opts now s)"
    using inv by (simp add: ctx_inv_def keys_apart_def sweep_lookup [OF t])
  moreover have "within_limit opts (sweep opts now s)"
    using inv by (auto simp: ctx_inv_def within_limit_def intro: order_trans [OF add_right_mono [OF live_sweep]])
  ultimately show ?thesis using tables_sweep [OF t] by (simp add: ctx_inv_def)
qed

section \<open>Reserving\<close>

lemma ctx_reserve_cases:
  assumes "ctx_reserve cr opts now rand_id rq s = (r, s')"
  obtains (refused) e where "r = Inl e" "s' = sweep opts now s"
  | (accepted) rid base where "rand_id = Inr rid"
      "r = Inr \<lparr>rv_reservation_id = rid, rv_operation = rq_operation rq, rv_request_id = rq_request_id rq\<rparr>"
      "s' = add_reservation cr opts now rid rq base (sweep opts now s)" "validate_request rq = Inr ()"
      "map_of (st_idempotency (sweep opts now s)) (complete_key rq) = None"
      "reserve_base cr opts now rq (sweep opts now s) = Inr base"
proof (cases r)
  case (Inl e)
  then show ?thesis using assms refused by (auto simp: ctx_reserve_def Let_def split: sum.splits prod.splits)
next
  case (Inr rv)
  with assms show ?thesis
    by (cases rand_id)
       (auto simp: ctx_reserve_def Let_def try_res_eq_Inr split: sum.splits prod.splits if_splits intro!: accepted)
qed

lemma validate_request_shape:
  assumes "validate_request rq = Inr ()"
  shows "rq_operation rq \<noteq> CtxRelease"
    and "rq_operation rq \<noteq> CtxCreate \<Longrightarrow> \<exists>cid v. rq_context_id rq = Some cid \<and> rq_base_version rq = Some v"
  using assms by (auto simp: validate_request_def try_res_eq_Inr split: if_splits option.splits)

lemma require_mutable_ok:
  "require_mutable s ow cid = Inr en \<longleftrightarrow>
     map_of (st_contexts s) cid = Some en \<and> en_owner en = ow \<and> en_state en \<notin> {CtxExpired, CtxReleased}"
proof (cases "map_of (st_contexts s) cid")
  case None
  then show ?thesis by (simp add: require_mutable_def)
next
  case (Some x)
  then show ?thesis by (cases "en_state x") (auto simp: require_mutable_def ensure_owner_def)
qed

lemma allocation_ok: "ensure_allocation_available opts s ow = Inr u \<longleftrightarrow>
    live_contexts ow s + pending_contexts ow s < xo_max_contexts_per_principal opts"
  by (auto simp: ensure_allocation_available_def)

lemma reserve_base_alloc:
  "reserve_base cr opts now rq s = Inr base \<Longrightarrow> rq_operation rq \<in> {CtxCreate, CtxFork} \<Longrightarrow>
     live_contexts (rq_owner rq) s + pending_contexts (rq_owner rq) s < xo_max_contexts_per_principal opts"
  by (auto simp: reserve_base_def try_res_eq_Inr allocation_ok split: if_splits)

lemma reserve_base_entry:
  assumes "reserve_base cr opts now rq s = Inr (tr, ttl, pid, pv)" "rq_operation rq \<noteq> CtxCreate"
    "rq_context_id rq = Some cid" "rq_base_version rq = Some v"
  obtains en where "map_of (st_contexts s) cid = Some en" "en_owner en = rq_owner rq" "en_state en \<notin> {CtxExpired, CtxReleased}"
    "en_reservation_id en = None" "en_version en = v" "tr = en_transcript en"
    "rq_operation rq \<in> {CtxAppend, CtxFork} \<Longrightarrow> en_binding_fingerprint en = binding_fingerprint cr (rq_binding rq)"
  using assms by (auto simp: reserve_base_def try_res_eq_Inr require_mutable_ok split: if_splits)

lemma holds_frame:
  assumes "holds s rid rd"
    and "\<And>cid en. map_of (st_contexts s) cid = Some en \<Longrightarrow> en_reservation_id en = Some rid \<Longrightarrow> map_of (st_contexts s') cid = Some en"
  shows "holds s' rid rd"
  using assms unfolding holds_def by blast

abbreviation marked :: "ctx_operation \<Rightarrow> bool" where
  "marked x \<equiv> x \<in> {CtxAppend, CtxReset}"

lemma not_marked: "x \<noteq> CtxRelease \<Longrightarrow> \<not> marked x \<longleftrightarrow> x \<in> {CtxCreate, CtxFork}"
  by (cases x) auto

lemma add_reservation_simps:
  "st_contexts (add_reservation cr opts now rid rq base s) =
     (if rq_operation rq \<noteq> CtxCreate \<and> rq_operation rq \<noteq> CtxFork
      then alter (the (rq_context_id rq)) (\<lambda>en. en\<lparr>en_reservation_id := Some rid\<rparr>) (st_contexts s) else st_contexts s)"
  "map_of (st_idempotency (add_reservation cr opts now rid rq base s)) k =
     (if k = complete_key rq then Some (fresh_outcome opts now OutBusy (nonempty (rq_request_id rq))) else map_of (st_idempotency s) k)"
  by (auto simp: add_reservation_def update_conv' split: prod.splits)

definition reservation_of :: "crypto \<Rightarrow> string \<Rightarrow> ctx_request \<Rightarrow> ctx_base \<Rightarrow> reservation_data" where
  "reservation_of cr rid rq base = (case base of (tr, ttl, pid, pv) \<Rightarrow>
     \<lparr>rd_reservation_id = rid, rd_request = rq, rd_binding_fingerprint = binding_fingerprint cr (rq_binding rq),
      rd_base_transcript = tr, rd_effective_ttl_seconds = ttl, rd_parent_context_id = pid, rd_parent_version = pv\<rparr>)"

lemma add_reservation_table:
  "st_reservations (add_reservation cr opts now rid rq base s) = AList.update rid (reservation_of cr rid rq base) (st_reservations s)"
  by (cases base) (simp add: add_reservation_def reservation_of_def)

lemma reservation_of_simps [simp]:
  "rd_reservation_id (reservation_of cr rid rq base) = rid"
  "rd_request (reservation_of cr rid rq base) = rq"
  "rd_base_transcript (reservation_of cr rid rq base) = fst base"
  by (simp_all add: reservation_of_def split: prod.splits)

lemma ctx_inv_add:
  assumes inv: "ctx_inv opts (ids, s)" and fresh: "rid \<notin> ids" and valid: "validate_request rq = Inr ()"
    and free: "map_of (st_idempotency s) (complete_key rq) = None" and base: "reserve_base cr opts now rq s = Inr base"
  shows "ctx_inv opts (insert rid ids, add_reservation cr opts now rid rq base s)" (is "ctx_inv opts (_, ?s)")
proof -
  note shape = validate_request_shape [OF valid]
  have t: "tables_ok s" and ro: "reservations_ok ids s" and co: "contexts_ok s" and ka: "keys_apart s" and wl: "within_limit opts s"
    using inv by (simp_all add: ctx_inv_def)
  have new: "map_of (st_reservations s) rid = None"
    using ro fresh unfolding reservations_ok_def by (cases "map_of (st_reservations s) rid") auto
  have res: "map_of (st_reservations ?s) x = (if x = rid then Some (reservation_of cr rid rq base) else map_of (st_reservations s) x)" for x
    by (simp add: add_reservation_table update_conv')
  have keys: "complete_key (rd_request rd) \<noteq> complete_key rq" if "map_of (st_reservations s) x = Some rd" for x rd
    using ro that free unfolding reservations_ok_def by fastforce
  define m where "m \<longleftrightarrow> marked (rq_operation rq)"
  have m: "m \<longleftrightarrow> rq_operation rq \<noteq> CtxCreate \<and> rq_operation rq \<noteq> CtxFork"
    unfolding m_def using shape(1) by (cases "rq_operation rq") auto
  have entry: "\<exists>cid en. rq_context_id rq = Some cid \<and> map_of (st_contexts s) cid = Some en \<and> en_owner en = rq_owner rq
      \<and> en_state en = CtxActive \<and> en_reservation_id en = None \<and> rq_base_version rq = Some (en_version en) \<and> en_transcript en = fst base" if m
  proof -
    from that m shape(2) obtain cid v where c: "rq_context_id rq = Some cid" "rq_base_version rq = Some v" by auto
    obtain tr ttl pid pv where b: "base = (tr, ttl, pid, pv)" by (cases base)
    from reserve_base_entry [OF base [unfolded b] _ c] m that obtain en where
      "map_of (st_contexts s) cid = Some en" "en_owner en = rq_owner rq" "en_state en \<notin> {CtxExpired, CtxReleased}"
      "en_reservation_id en = None" "en_version en = v" "tr = en_transcript en" by metis
    with c b co show ?thesis unfolding contexts_ok_def by fastforce
  qed
  have ctx: "map_of (st_contexts ?s) x = (if m \<and> rq_context_id rq = Some x
      then map_option (\<lambda>en. en\<lparr>en_reservation_id := Some rid\<rparr>) (map_of (st_contexts s) x) else map_of (st_contexts s) x)" for x
    using entry by (auto simp: add_reservation_simps map_of_alter m)
  have "tables_ok ?s"
    using t by (auto simp: tables_ok_def add_reservation_simps add_reservation_table add_reservation_def distinct_update split: prod.splits)
  moreover have "reservations_ok (insert rid ids) ?s"
    unfolding reservations_ok_def
  proof (intro allI impI)
    fix x rd assume x: "map_of (st_reservations ?s) x = Some rd"
    show "x \<in> insert rid ids \<and> rd_reservation_id rd = x \<and> rq_operation (rd_request rd) \<noteq> CtxRelease
       \<and> (marked (rq_operation (rd_request rd)) \<longrightarrow> holds ?s x rd)
       \<and> (\<exists>out. map_of (st_idempotency ?s) (complete_key (rd_request rd)) = Some out \<and> ie_state out = OutBusy)"
    proof (cases "x = rid")
      case True
      with x res have rd: "rd = reservation_of cr rid rq base" by simp
      have "holds ?s x rd" if "marked (rq_operation rq)"
        using entry that unfolding holds_def rd by (auto simp: ctx m_def True)
      then show ?thesis
        unfolding rd using True shape(1) by (auto simp: add_reservation_simps fresh_outcome_def)
    next
      case False
      with x res have x: "map_of (st_reservations s) x = Some rd" by simp
      with ro have old: "x \<in> ids" "rd_reservation_id rd = x" "rq_operation (rd_request rd) \<noteq> CtxRelease"
        "marked (rq_operation (rd_request rd)) \<longrightarrow> holds s x rd"
        "\<exists>out. map_of (st_idempotency s) (complete_key (rd_request rd)) = Some out \<and> ie_state out = OutBusy"
        unfolding reservations_ok_def by blast+
      have "holds s x rd \<Longrightarrow> holds ?s x rd"
        by (erule holds_frame) (use entry in \<open>auto simp: ctx\<close>)
      with old keys [OF x] show ?thesis by (simp add: add_reservation_simps fresh_outcome_def)
    qed
  qed
  moreover have "contexts_ok ?s"
    unfolding contexts_ok_def
  proof (intro allI impI)
    fix x en assume e: "map_of (st_contexts ?s) x = Some en"
    show "en_context_id en = x \<and> en_state en \<in> {CtxActive, CtxReleased, CtxExpired}
       \<and> (\<forall>r. en_reservation_id en = Some r \<longrightarrow> (\<exists>rd. map_of (st_reservations ?s) r = Some rd
             \<and> rq_context_id (rd_request rd) = Some x \<and> marked (rq_operation (rd_request rd))))"
    proof (cases "m \<and> rq_context_id rq = Some x")
      case True
      with e obtain en0 where "map_of (st_contexts s) x = Some en0" "en = en0\<lparr>en_reservation_id := Some rid\<rparr>" by (auto simp: ctx)
      with co True show ?thesis unfolding contexts_ok_def by (auto simp: res m_def)
    next
      case False
      with e have "map_of (st_contexts s) x = Some en" unfolding ctx by (simp only: if_False)
      with co new show ?thesis unfolding contexts_ok_def by (fastforce simp: res)
    qed
  qed
  moreover have "keys_apart ?s"
    unfolding keys_apart_def
  proof (intro allI impI)
    fix x y rd rd'
    assume "map_of (st_reservations ?s) x = Some rd" "map_of (st_reservations ?s) y = Some rd'"
      "complete_key (rd_request rd) = complete_key (rd_request rd')"
    then show "x = y" using ka keys [of x rd] keys [of y rd'] unfolding keys_apart_def res
      by (cases "x = rid"; cases "y = rid") (auto, blast?)
  qed
  moreover have "within_limit opts ?s"
    unfolding within_limit_def
  proof
    fix ow
    have "live_contexts ow ?s = live_contexts ow s"
      by (auto simp: live_count add_reservation_simps intro: count_alter_same)
    moreover have "pending_contexts ow ?s = pending_contexts ow s + (if rq_owner rq = ow \<and> \<not> m then 1 else 0)"
      using new m by (auto simp: pending_count_values add_reservation_table count_update_fresh)
    moreover have "live_contexts ow s + pending_contexts ow s < xo_max_contexts_per_principal opts" if "rq_owner rq = ow" "\<not> m"
      using reserve_base_alloc [OF base] that m by auto
    ultimately show "live_contexts ow ?s + pending_contexts ow ?s \<le> xo_max_contexts_per_principal opts"
      using wl by (auto simp: within_limit_def)
  qed
  ultimately show ?thesis by (simp add: ctx_inv_def)
qed

section \<open>Committing, aborting and releasing\<close>

text \<open>A reservation is dropped with its outcome, while the contexts change from those of \<open>s\<close> to \<open>c\<close>.\<close>

definition drop_reservation :: "reservation_data \<Rightarrow> idempotency_entry \<Rightarrow> (string \<times> ctx_entry) list \<Rightarrow> ctx_store \<Rightarrow> ctx_store" where
  "drop_reservation rd out c s =
     s\<lparr>st_contexts := c, st_idempotency := AList.update (complete_key (rd_request rd)) out (st_idempotency s),
       st_reservations := AList.delete (rd_reservation_id rd) (st_reservations s)\<rparr>"

lemma ctx_inv_drop:
  assumes inv: "ctx_inv opts (ids, s)" and rd: "map_of (st_reservations s) rid = Some rd" and c: "distinct (map fst c)"
    and frame: "\<And>x cid en. x \<noteq> rid \<Longrightarrow> map_of (st_contexts s) cid = Some en \<Longrightarrow> en_reservation_id en = Some x \<Longrightarrow> map_of c cid = Some en"
    and entries: "\<And>cid en. map_of c cid = Some en \<Longrightarrow> en_context_id en = cid \<and> en_state en \<in> {CtxActive, CtxReleased, CtxExpired}
      \<and> (\<forall>x. en_reservation_id en = Some x \<longrightarrow> x \<noteq> rid \<and> map_of (st_contexts s) cid = Some en)"
    and counts: "\<And>ow. count_values (is_active ow) c \<le> live_contexts ow s + (if is_allocation ow rd then 1 else 0)"
  shows "ctx_inv opts (ids, drop_reservation rd out c s)" (is "ctx_inv opts (_, ?s)")
proof -
  have t: "tables_ok s" and ro: "reservations_ok ids s" and co: "contexts_ok s" and ka: "keys_apart s" and wl: "within_limit opts s"
    using inv by (simp_all add: ctx_inv_def)
  have id: "rd_reservation_id rd = rid" using ro rd unfolding reservations_ok_def by blast
  have res: "map_of (st_reservations ?s) x = (if x = rid then None else map_of (st_reservations s) x)" for x
    by (simp add: drop_reservation_def id delete_conv')
  have con: "st_contexts ?s = c" by (simp add: drop_reservation_def)
  have key: "map_of (st_idempotency ?s) (complete_key (rd_request rx)) = map_of (st_idempotency s) (complete_key (rd_request rx))"
    if "map_of (st_reservations s) x = Some rx" "x \<noteq> rid" for x rx
    using ka that rd by (fastforce simp: keys_apart_def drop_reservation_def update_conv')
  have "tables_ok ?s"
    using t c by (simp add: tables_ok_def drop_reservation_def distinct_update distinct_delete)
  moreover have "reservations_ok ids ?s"
    unfolding reservations_ok_def
  proof (intro allI impI)
    fix x rx assume "map_of (st_reservations ?s) x = Some rx"
    then have x: "x \<noteq> rid" "map_of (st_reservations s) x = Some rx" by (auto simp: res split: if_splits)
    have "holds ?s x rx" if "holds s x rx"
      using that by (rule holds_frame) (use frame [OF x(1)] in \<open>simp add: con\<close>)
    with ro x show "x \<in> ids \<and> rd_reservation_id rx = x \<and> rq_operation (rd_request rx) \<noteq> CtxRelease
       \<and> (marked (rq_operation (rd_request rx)) \<longrightarrow> holds ?s x rx)
       \<and> (\<exists>out. map_of (st_idempotency ?s) (complete_key (rd_request rx)) = Some out \<and> ie_state out = OutBusy)"
      unfolding reservations_ok_def key [OF x(2,1)] by blast
  qed
  moreover have "contexts_ok ?s"
    unfolding contexts_ok_def con
  proof (intro allI impI)
    fix cid en assume c': "map_of c cid = Some en"
    have "\<exists>rx. map_of (st_reservations ?s) x = Some rx \<and> rq_context_id (rd_request rx) = Some cid \<and> marked (rq_operation (rd_request rx))"
      if "en_reservation_id en = Some x" for x
    proof -
      from entries [OF c'] that have "x \<noteq> rid" "map_of (st_contexts s) cid = Some en" by auto
      with co that show ?thesis unfolding contexts_ok_def res by simp
    qed
    with entries [OF c'] show "en_context_id en = cid \<and> en_state en \<in> {CtxActive, CtxReleased, CtxExpired}
       \<and> (\<forall>x. en_reservation_id en = Some x \<longrightarrow> (\<exists>rx. map_of (st_reservations ?s) x = Some rx
             \<and> rq_context_id (rd_request rx) = Some cid \<and> marked (rq_operation (rd_request rx))))"
      by blast
  qed
  moreover have "keys_apart ?s"
    using ka unfolding keys_apart_def res by (metis option.distinct(1))
  moreover have "within_limit opts ?s"
    unfolding within_limit_def
  proof
    fix ow
    have "pending_contexts ow ?s + (if is_allocation ow rd then 1 else 0) = pending_contexts ow s"
      using count_delete [OF _ rd, of "is_allocation ow"] t unfolding tables_ok_def pending_count_values drop_reservation_def id by simp
    with counts [of ow] wl show "live_contexts ow ?s + pending_contexts ow ?s \<le> xo_max_contexts_per_principal opts"
      by (auto simp: within_limit_def live_count con dest: spec [of _ ow])
  qed
  ultimately show ?thesis by (simp add: ctx_inv_def)
qed

lemma require_reservation_ok:
  "require_reservation s rv = Inr rd \<longleftrightarrow> map_of (st_reservations s) (rv_reservation_id rv) = Some rd \<and> rd_reservation_id rd = rv_reservation_id rv"
  by (auto simp: require_reservation_def try_res_eq_Inr)

lemma next_context_id_fresh: "next_context_id n factory s = Inr cid \<Longrightarrow> map_of (st_contexts s) cid = None"
  by (induction n) (auto simp: try_res_eq_Inr split: if_splits)

lemma finish_commit_drop:
  "finish_commit cr opts now rd cid v (s\<lparr>st_contexts := c\<rparr>) = (receipt_of cr now rd cid v,
     drop_reservation rd ((fresh_outcome opts now OutCompleted (nonempty (rq_request_id (rd_request rd))))\<lparr>ie_receipt := Some (receipt_of cr now rd cid v)\<rparr>) c s)"
  by (simp add: finish_commit_def Let_def drop_reservation_def)

abbreviation done_outcome :: "ctx_options \<Rightarrow> int \<Rightarrow> reservation_data \<Rightarrow> ctx_receipt \<Rightarrow> idempotency_entry" where
  "done_outcome opts now rd rc \<equiv> (fresh_outcome opts now OutCompleted (nonempty (rq_request_id (rd_request rd))))\<lparr>ie_receipt := Some rc\<rparr>"

lemma ctx_commit_cases:
  assumes "ctx_commit cr opts now factory rv msg s = Some (r, s')"
  obtains (failed) e where "r = Inl e" "s' = s"
  | (created) rd cid where "map_of (st_reservations s) (rv_reservation_id rv) = Some rd" "rq_operation (rd_request rd) \<in> {CtxCreate, CtxFork}"
      "map_of (st_contexts s) cid = None" "r = Inr (receipt_of cr now rd cid 1)"
      "s' = drop_reservation rd (done_outcome opts now rd (receipt_of cr now rd cid 1))
         (AList.update cid (new_entry now rd cid msg) (st_contexts s)) s"
  | (changed) rd cid en where "map_of (st_reservations s) (rv_reservation_id rv) = Some rd" "marked (rq_operation (rd_request rd))"
      "cid = the (rq_context_id (rd_request rd))" "map_of (st_contexts s) cid = Some en"
      "r = Inr (receipt_of cr now rd (en_context_id en) (en_version en + 1))"
      "s' = drop_reservation rd (done_outcome opts now rd (receipt_of cr now rd (en_context_id en) (en_version en + 1)))
         (alter cid (changed_entry now rd msg) (st_contexts s)) s"
proof (cases "require_reservation s rv")
  case (Inl e)
  with assms failed show ?thesis by (auto simp: ctx_commit_def)
next
  case (Inr rd)
  then have rd: "map_of (st_reservations s) (rv_reservation_id rv) = Some rd" by (simp add: require_reservation_ok)
  show ?thesis
  proof (cases "rq_operation (rd_request rd) \<in> {CtxCreate, CtxFork}")
    case True
    then have "(case next_context_id 8 factory s of Inl e \<Rightarrow> (Inl e, s)
        | Inr cid \<Rightarrow> map_prod Inr id (finish_commit cr opts now rd cid 1
            (s\<lparr>st_contexts := AList.update cid (new_entry now rd cid msg) (st_contexts s)\<rparr>))) = (r, s')"
      using assms Inr by (cases "rq_operation (rd_request rd)") (simp_all add: ctx_commit_def)
    then show ?thesis
    proof (cases "next_context_id 8 factory s")
      case (Inr cid)
      then show ?thesis using \<open>_ = (r, s')\<close> created [OF rd True next_context_id_fresh] by (simp add: finish_commit_drop)
    qed (use failed in auto)
  next
    case False
    let ?cid = "the (rq_context_id (rd_request rd))"
    from False have op: "rq_operation (rd_request rd) \<noteq> CtxRelease" "marked (rq_operation (rd_request rd))"
      using assms Inr by (cases "rq_operation (rd_request rd)"; simp add: ctx_commit_def)+
    from op(2) have "(case map_of (st_contexts s) ?cid of None \<Rightarrow> (Inl ctx_not_found, s)
        | Some en \<Rightarrow> map_prod Inr id (finish_commit cr opts now rd (en_context_id en) (en_version en + 1)
            (s\<lparr>st_contexts := alter ?cid (changed_entry now rd msg) (st_contexts s)\<rparr>))) = (r, s')"
      using assms Inr by (cases "rq_operation (rd_request rd)") (simp_all add: ctx_commit_def)
    then show ?thesis
    proof (cases "map_of (st_contexts s) ?cid")
      case (Some en)
      then show ?thesis using \<open>_ = (r, s')\<close> changed [OF rd op(2) refl Some] by (simp add: finish_commit_drop)
    qed (use failed in auto)
  qed
qed

lemma held_entry:
  assumes inv: "ctx_inv opts (ids, s)" and rd: "map_of (st_reservations s) rid = Some rd" "marked (rq_operation (rd_request rd))"
  obtains cid en where "rq_context_id (rd_request rd) = Some cid" "map_of (st_contexts s) cid = Some en" "en_context_id en = cid"
    "en_reservation_id en = Some rid" "en_state en = CtxActive" "en_owner en = rq_owner (rd_request rd)"
    "rq_base_version (rd_request rd) = Some (en_version en)" "en_transcript en = rd_base_transcript rd"
proof -
  have "holds s rid rd" using assms unfolding ctx_inv_def reservations_ok_def fst_conv snd_conv by blast
  then obtain cid en where h: "rq_context_id (rd_request rd) = Some cid" "map_of (st_contexts s) cid = Some en"
    "en_reservation_id en = Some rid" "en_state en = CtxActive" "en_owner en = rq_owner (rd_request rd)"
    "rq_base_version (rd_request rd) = Some (en_version en)" "en_transcript en = rd_base_transcript rd"
    unfolding holds_def by blast
  moreover have "en_context_id en = cid" using inv h(2) by (simp add: ctx_inv_def contexts_ok_def)
  ultimately show ?thesis using that by blast
qed

lemma ctx_inv_commit:
  assumes inv: "ctx_inv opts (ids, s)" and c: "ctx_commit cr opts now factory rv msg s = Some (r, s')"
  shows "ctx_inv opts (ids, s')"
  using c
proof (cases rule: ctx_commit_cases)
  case failed
  with inv show ?thesis by simp
next
  case (created rd cid)
  have co: "contexts_ok s" and t: "tables_ok s" using inv by (simp_all add: ctx_inv_def)
  have no: "en_reservation_id en \<noteq> Some (rv_reservation_id rv)" if "map_of (st_contexts s) x = Some en" for x en
    using co that created(1,2) unfolding contexts_ok_def by fastforce
  show ?thesis
    unfolding created(5)
  proof (rule ctx_inv_drop [OF inv created(1)])
    show "distinct (map fst (AList.update cid (new_entry now rd cid msg) (st_contexts s)))" using t by (simp add: tables_ok_def distinct_update)
    show "map_of (AList.update cid (new_entry now rd cid msg) (st_contexts s)) x = Some en" if "map_of (st_contexts s) x = Some en" for x en
      using that created(3) by (auto simp: update_conv')
    show "en_context_id en = x \<and> en_state en \<in> {CtxActive, CtxReleased, CtxExpired}
      \<and> (\<forall>y. en_reservation_id en = Some y \<longrightarrow> y \<noteq> rv_reservation_id rv \<and> map_of (st_contexts s) x = Some en)"
      if "map_of (AList.update cid (new_entry now rd cid msg) (st_contexts s)) x = Some en" for x en
    proof (cases "x = cid")
      case True
      with that show ?thesis by (simp add: update_conv') (auto simp: new_entry_def)
    next
      case False
      with that have "map_of (st_contexts s) x = Some en" by (simp add: update_conv')
      with co no show ?thesis unfolding contexts_ok_def by blast
    qed
    show "count_values (is_active ow) (AList.update cid (new_entry now rd cid msg) (st_contexts s))
        \<le> live_contexts ow s + (if is_allocation ow rd then 1 else 0)" for ow
      using created(2,3) by (simp add: count_update_fresh live_count new_entry_def)
  qed
next
  case (changed rd cid0 en0)
  have co: "contexts_ok s" and t: "tables_ok s" using inv by (simp_all add: ctx_inv_def)
  obtain cid en where
    h: "rq_context_id (rd_request rd) = Some cid" "map_of (st_contexts s) cid = Some en" "en_context_id en = cid"
      "en_reservation_id en = Some (rv_reservation_id rv)" "en_state en = CtxActive" by (rule held_entry [OF inv changed(1,2)])
  have cid: "cid0 = cid" using changed(3) h(1) by simp
  have eid: "en_context_id (changed_entry now rd msg en) = cid" "en_state (changed_entry now rd msg en) = CtxActive"
    "en_reservation_id (changed_entry now rd msg en) = None" "en_owner (changed_entry now rd msg en) = en_owner en"
    using h by (simp_all add: changed_entry_def Let_def)
  have no: "x = cid" if "map_of (st_contexts s) x = Some e" "en_reservation_id e = Some (rv_reservation_id rv)" for x e
    using co that changed(1) h(1) unfolding contexts_ok_def by fastforce
  show ?thesis
    unfolding changed(6) cid
  proof (rule ctx_inv_drop [OF inv changed(1)])
    show "distinct (map fst (alter cid (changed_entry now rd msg) (st_contexts s)))" using t by (simp add: tables_ok_def)
    show "map_of (alter cid (changed_entry now rd msg) (st_contexts s)) x = Some e"
      if "y \<noteq> rv_reservation_id rv" "map_of (st_contexts s) x = Some e" "en_reservation_id e = Some y" for x y e
      using that h by (auto simp: map_of_alter)
    show "en_context_id e = x \<and> en_state e \<in> {CtxActive, CtxReleased, CtxExpired}
      \<and> (\<forall>y. en_reservation_id e = Some y \<longrightarrow> y \<noteq> rv_reservation_id rv \<and> map_of (st_contexts s) x = Some e)"
      if "map_of (alter cid (changed_entry now rd msg) (st_contexts s)) x = Some e" for x e
    proof (cases "x = cid")
      case True
      with that h eid show ?thesis by (auto simp: map_of_alter)
    next
      case False
      with that have "map_of (st_contexts s) x = Some e" by (simp add: map_of_alter)
      with co no False show ?thesis unfolding contexts_ok_def by blast
    qed
    show "count_values (is_active ow) (alter cid (changed_entry now rd msg) (st_contexts s))
        \<le> live_contexts ow s + (if is_allocation ow rd then 1 else 0)" for ow
      using count_alter [of "st_contexts s" cid en "is_active ow" "changed_entry now rd msg"] t h eid
      by (simp add: live_count tables_ok_def split: if_splits)
  qed
qed

lemma ctx_abort_cases:
  assumes "ctx_abort opts now rv err_code s = (r, s')"
  obtains (failed) e where "r = Inl e" "s' = s"
  | (dropped) rd out where "map_of (st_reservations s) (rv_reservation_id rv) = Some rd" "rd_reservation_id rd = rv_reservation_id rv"
      "s' = sweep opts now (drop_reservation rd out (st_contexts (clear_reservation rd s)) s)"
proof (cases "require_reservation s rv")
  case (Inl e)
  with assms failed show ?thesis by (auto simp: ctx_abort_def)
next
  case (Inr rd)
  obtain c where c: "clear_reservation rd s = s\<lparr>st_contexts := c\<rparr>"
    by (cases "rq_context_id (rd_request rd)") (auto simp: clear_reservation_def intro: that [of "st_contexts s"])
  let ?out = "(fresh_outcome opts now OutFailed (nonempty (rq_request_id (rd_request rd))))\<lparr>ie_error_code := err_code\<rparr>"
  have "s\<lparr>st_contexts := c, st_reservations := AList.delete (rd_reservation_id rd) (st_reservations s),
      st_idempotency := AList.update (complete_key (rd_request rd)) ?out (st_idempotency s)\<rparr> = drop_reservation rd ?out c s"
    by (cases s) (simp add: drop_reservation_def)
  with assms Inr c have "s' = sweep opts now (drop_reservation rd ?out (st_contexts (clear_reservation rd s)) s)"
    by (simp add: ctx_abort_def Let_def)
  with Inr dropped show ?thesis by (simp add: require_reservation_ok)
qed

lemma cleared_lookup:
  "map_of (st_contexts (clear_reservation rd s)) x = (case map_of (st_contexts s) x of None \<Rightarrow> None
     | Some e \<Rightarrow> Some (if rq_context_id (rd_request rd) = Some x \<and> en_reservation_id e = Some (rd_reservation_id rd)
                      then e\<lparr>en_reservation_id := None\<rparr> else e))"
  by (auto simp: clear_reservation_def map_of_alter split: option.splits)

lemma keys_clear: "map fst (st_contexts (clear_reservation rd s)) = map fst (st_contexts s)"
  by (simp add: clear_reservation_def split: option.splits)

lemma count_clear: "count_values (is_active ow) (st_contexts (clear_reservation rd s)) = live_contexts ow s"
  by (auto simp: clear_reservation_def live_count split: option.splits intro!: count_alter_same split: if_splits)

lemma ctx_inv_abort:
  assumes inv: "ctx_inv opts (ids, s)" and a: "ctx_abort opts now rv err_code s = (r, s')"
  shows "ctx_inv opts (ids, s')"
  using a
proof (cases rule: ctx_abort_cases)
  case failed
  with inv show ?thesis by simp
next
  case (dropped rd out)
  have co: "contexts_ok s" and t: "tables_ok s" using inv by (simp_all add: ctx_inv_def)
  have no: "rq_context_id (rd_request rd) = Some x" if "map_of (st_contexts s) x = Some e" "en_reservation_id e = Some (rv_reservation_id rv)" for x e
    using co that dropped(1) unfolding contexts_ok_def by fastforce
  show ?thesis
    unfolding dropped(3)
  proof (intro ctx_inv_sweep ctx_inv_drop [OF inv dropped(1)])
    show "distinct (map fst (st_contexts (clear_reservation rd s)))" using t by (simp add: keys_clear tables_ok_def)
    show "map_of (st_contexts (clear_reservation rd s)) x = Some e"
      if "y \<noteq> rv_reservation_id rv" "map_of (st_contexts s) x = Some e" "en_reservation_id e = Some y" for x y e
      using that dropped(2) by (simp add: cleared_lookup)
    show "en_context_id e = x \<and> en_state e \<in> {CtxActive, CtxReleased, CtxExpired}
      \<and> (\<forall>y. en_reservation_id e = Some y \<longrightarrow> y \<noteq> rv_reservation_id rv \<and> map_of (st_contexts s) x = Some e)"
      if "map_of (st_contexts (clear_reservation rd s)) x = Some e" for x e
    proof -
      from that obtain e0 where e0: "map_of (st_contexts s) x = Some e0" and e: "e = (if rq_context_id (rd_request rd) = Some x
          \<and> en_reservation_id e0 = Some (rv_reservation_id rv) then e0\<lparr>en_reservation_id := None\<rparr> else e0)"
        by (auto simp: cleared_lookup dropped(2) split: option.splits)
      with co have "en_context_id e0 = x" "en_state e0 \<in> {CtxActive, CtxReleased, CtxExpired}" unfolding contexts_ok_def by auto
      with e e0 no [OF e0] show ?thesis by (auto split: if_splits)
    qed
    show "count_values (is_active ow) (st_contexts (clear_reservation rd s)) \<le> live_contexts ow s + (if is_allocation ow rd then 1 else 0)" for ow
      by (simp add: count_clear)
  qed
qed

abbreviation release_entry :: "ctx_options \<Rightarrow> int \<Rightarrow> ctx_entry \<Rightarrow> ctx_entry" where
  "release_entry opts now en \<equiv> en\<lparr>en_version := en_version en + 1, en_state := CtxReleased, en_expires_at := None,
     en_tombstone_until := Some (now + int (xo_tombstone_seconds opts) * SECOND)\<rparr>"

lemma ctx_release_cases:
  assumes "ctx_release opts now ow cid v idem s = (r, s')"
  obtains (kept) "s' = sweep opts now s"
  | (freed) en out where "map_of (st_contexts (sweep opts now s)) cid = Some en" "en_state en \<notin> {CtxExpired, CtxReleased}"
      "en_reservation_id en = None"
      "s' = (sweep opts now s)\<lparr>st_contexts := alter cid (release_entry opts now) (st_contexts (sweep opts now s)),
         st_idempotency := AList.update (ow, LLM_CONTEXT_RELEASE, idem) out (st_idempotency (sweep opts now s))\<rparr>"
proof -
  let ?s = "sweep opts now s"
  show ?thesis
  proof (cases "require_mutable ?s ow cid")
    case (Inl e)
    with assms show ?thesis by (intro kept) (auto simp: ctx_release_def Let_def split: sum.splits option.splits)
  next
    case (Inr en)
    then have "map_of (st_contexts ?s) cid = Some en" "en_state en \<notin> {CtxExpired, CtxReleased}"
      by (auto simp: require_mutable_ok)
    with assms Inr show ?thesis
      by (cases "en_reservation_id en = None \<and> en_version en = v")
         (auto simp: ctx_release_def Let_def split: sum.splits option.splits if_splits intro: kept freed)
  qed
qed

lemma action_names: "LLM_CONTEXT_RELEASE \<noteq> LLM_COMPLETE"
  by (simp add: LLM_CONTEXT_RELEASE_def LLM_COMPLETE_def)

lemma ctx_inv_release:
  assumes inv0: "ctx_inv opts (ids, s0)" and a: "ctx_release opts now ow cid v idem s0 = (r, s')"
  shows "ctx_inv opts (ids, s')"
  using a
proof (cases rule: ctx_release_cases)
  case kept
  with ctx_inv_sweep [OF inv0] show ?thesis by simp
next
  case (freed en out)
  define s where "s = sweep opts now s0"
  note freed = freed [folded s_def]
  have inv: "ctx_inv opts (ids, s)" unfolding s_def by (rule ctx_inv_sweep [OF inv0])
  have t: "tables_ok s" and ro: "reservations_ok ids s" and co: "contexts_ok s" and ka: "keys_apart s" and wl: "within_limit opts s"
    using inv by (simp_all add: ctx_inv_def)
  have con: "map_of (st_contexts s') x = (if x = cid then Some (release_entry opts now en) else map_of (st_contexts s) x)" for x
    using freed(1,4) by (simp add: map_of_alter)
  have res: "st_reservations s' = st_reservations s" using freed(4) by simp
  have idem: "map_of (st_idempotency s') (complete_key rq) = map_of (st_idempotency s) (complete_key rq)" for rq
    using freed(4) action_names by (simp add: update_conv')
  have h: "holds s' x rd" if "holds s x rd" for x rd
    using that by (rule holds_frame) (use freed(1,3) in \<open>auto simp: con\<close>)
  have "tables_ok s'" using t freed(4) by (simp add: tables_ok_def distinct_update)
  moreover have "reservations_ok ids s'"
    using ro h unfolding reservations_ok_def res idem by blast
  moreover have "contexts_ok s'"
    using co freed(1,3) unfolding contexts_ok_def res con by (auto split: if_splits)
  moreover have "keys_apart s'" using ka unfolding keys_apart_def res .
  moreover have "within_limit opts s'"
    unfolding within_limit_def
  proof
    fix w
    have "live_contexts w s' \<le> live_contexts w s"
      using count_alter [OF _ freed(1), of "is_active w" "release_entry opts now"] t
      by (simp add: live_count freed(4) tables_ok_def)
    then show "live_contexts w s' + pending_contexts w s' \<le> xo_max_contexts_per_principal opts"
      using wl [unfolded within_limit_def, THEN spec, of w] by (simp add: pending_contexts_def res)
  qed
  ultimately show ?thesis by (simp add: ctx_inv_def)
qed

section \<open>Reachable states\<close>

lemma ctx_inv_step: "ctx_step cr opts now h h' \<Longrightarrow> ctx_inv opts h \<Longrightarrow> ctx_inv opts h'"
proof (induction rule: ctx_step.induct)
  case (reserved rand_id rq s r s' ids)
  have "ctx_inv opts (ids, sweep opts now s)" using reserved(3) by (rule ctx_inv_sweep)
  then have grow: "ctx_inv opts (insert rid ids, sweep opts now s)" for rid
    by (fastforce simp: ctx_inv_def reservations_ok_def)
  from reserved(1) show ?case
  proof (cases rule: ctx_reserve_cases)
    case (refused e)
    with grow ctx_inv_sweep [OF reserved(3)] show ?thesis by (simp split: sum.splits)
  next
    case (accepted rid base)
    then show ?thesis using ctx_inv_add [OF ctx_inv_sweep [OF reserved(3)] reserved(2) [OF accepted(1)]] by simp
  qed
next
  case (committed factory rv msg s r s' ids)
  then show ?case using ctx_inv_commit by blast
next
  case (aborted rv err_code s u s' ids)
  then show ?case using ctx_inv_abort by blast
next
  case (released ow cid v idem s r s' ids)
  then show ?case using ctx_inv_release by blast
next
  case (swept ids s)
  then show ?case by (rule ctx_inv_sweep)
qed

lemma ctx_inv_run: "ctx_run cr opts P h h' \<Longrightarrow> ctx_inv opts h \<Longrightarrow> ctx_inv opts h'"
  by (induction rule: ctx_run.induct) (auto intro: ctx_inv_step)

lemmas ctx_reach_inv = ctx_inv_run [OF _ ctx_inv_new]

text \<open>Property C27 (bounds). Whatever operations run, a principal never has more live contexts than the limit, counting
  the reservations that are about to create one; and a context is never under two changes at once.\<close>

theorem context_limit:
  assumes "ctx_run cr opts P ({}, ctx_store_new) (ids, s)"
  shows "live_contexts ow s + pending_contexts ow s \<le> xo_max_contexts_per_principal opts
    \<and> (\<forall>rid rid' rd rd'. map_of (st_reservations s) rid = Some rd \<longrightarrow> map_of (st_reservations s) rid' = Some rd' \<longrightarrow>
         marked (rq_operation (rd_request rd)) \<longrightarrow> marked (rq_operation (rd_request rd')) \<longrightarrow>
         rq_context_id (rd_request rd) = rq_context_id (rd_request rd') \<longrightarrow> rid = rid')"
proof (intro conjI allI impI)
  have inv: "ctx_inv opts (ids, s)" using assms by (rule ctx_reach_inv)
  then show "live_contexts ow s + pending_contexts ow s \<le> xo_max_contexts_per_principal opts"
    by (simp add: ctx_inv_def within_limit_def)
  fix rid rid' rd rd'
  assume "map_of (st_reservations s) rid = Some rd" "map_of (st_reservations s) rid' = Some rd'"
    "marked (rq_operation (rd_request rd))" "marked (rq_operation (rd_request rd'))"
    and same: "rq_context_id (rd_request rd) = rq_context_id (rd_request rd')"
  with inv have "holds s rid rd" "holds s rid' rd'" unfolding ctx_inv_def reservations_ok_def fst_conv snd_conv by blast+
  with same show "rid = rid'" by (auto simp: holds_def)
qed

section \<open>No update is lost\<close>

lemma reservations_commit:
  assumes "ctx_inv opts (ids, s)" "ctx_commit cr opts now factory rv msg s = Some (r, s')"
  shows "map_of (st_reservations s') x = map_of (st_reservations s) x \<or> map_of (st_reservations s') x = None"
  using assms(2) by (cases rule: ctx_commit_cases) (simp_all add: drop_reservation_def delete_conv')

lemma reservation_step:
  assumes "ctx_step cr opts now h h'" "x \<in> fst h" "ctx_inv opts h"
  shows "x \<in> fst h' \<and> (map_of (st_reservations (snd h')) x = map_of (st_reservations (snd h)) x \<or> map_of (st_reservations (snd h')) x = None)"
  using assms
proof (cases rule: ctx_step.cases)
  case (reserved rand_id rq s r s' ids)
  from reserved(3) show ?thesis
  proof (cases rule: ctx_reserve_cases)
    case (refused e)
    with reserved assms(2) show ?thesis by (simp add: sweep_def split: sum.splits)
  next
    case (accepted rid base)
    with reserved assms(2) have "x \<noteq> rid" by auto
    with accepted reserved assms(2) show ?thesis by (simp add: add_reservation_table update_conv' sweep_def)
  qed
next
  case (committed factory rv msg s r s' ids)
  with assms reservations_commit show ?thesis by auto
next
  case (aborted rv err_code s r s' ids)
  from aborted(3) show ?thesis
    by (cases rule: ctx_abort_cases) (use aborted assms(2) in \<open>auto simp: sweep_def drop_reservation_def delete_conv'\<close>)
next
  case (released ow cid v idem s r s' ids)
  from released(3) show ?thesis
    by (cases rule: ctx_release_cases) (use released assms(2) in \<open>auto simp: sweep_def\<close>)
next
  case (swept ids s)
  with assms(2) show ?thesis by (simp add: sweep_def)
qed

lemma reservation_run:
  assumes "ctx_run cr opts P h h'" "x \<in> fst h" "ctx_inv opts h" "map_of (st_reservations (snd h)) x = Some rd"
  shows "x \<in> fst h' \<and> map_of (st_reservations (snd h')) x \<in> {None, Some rd}"
  using assms
proof (induction rule: ctx_run.induct)
  case (run_step h h1 now h2)
  then show ?case
    using reservation_step [OF run_step.hyps(2), of x] ctx_inv_run [OF run_step.hyps(1)] by auto
qed simp

text \<open>Property C26 (safety). No update is lost: when a reservation to append to a context is granted and, after
  whatever other operations came between, committed, the new version is the next after the one the caller had
  seen, and the transcript is the one the caller had seen with exactly the caller's messages and the answer.\<close>

theorem no_lost_update:
  assumes reach: "ctx_run cr opts P ({}, ctx_store_new) (ids, s)"
    and reserve: "ctx_reserve cr opts now (Inr rid) rq s = (Inr rv, s1)" "rid \<notin> ids"
    and rq: "rq_operation rq = CtxAppend" "rq_context_id rq = Some cid" "map_of (st_contexts s) cid = Some en"
    and run: "ctx_run cr opts P (insert rid ids, s1) (ids2, s2)"
    and commit: "ctx_commit cr opts now2 factory rv msg s2 = Some (Inr rc, s3)"
  shows "rq_base_version rq = Some (en_version en) \<and> rc_version rc = en_version en + 1
    \<and> (\<exists>en'. map_of (st_contexts s3) cid = Some en' \<and> en_version en' = rc_version rc
         \<and> en_transcript en' = en_transcript en @ rq_messages rq @ [msg])"
proof -
  have inv: "ctx_inv opts (ids, s)" using reach by (rule ctx_reach_inv)
  have t: "tables_ok s" using inv by (simp add: ctx_inv_def)
  from reserve(1) obtain base where s1: "s1 = add_reservation cr opts now rid rq base (sweep opts now s)" and v: "validate_request rq = Inr ()"
    and rv: "rv_reservation_id rv = rid" and b: "reserve_base cr opts now rq (sweep opts now s) = Inr base"
    and free: "map_of (st_idempotency (sweep opts now s)) (complete_key rq) = None"
    by (cases rule: ctx_reserve_cases) auto
  obtain tr ttl pid pv where base: "base = (tr, ttl, pid, pv)" by (cases base)
  obtain w where w: "rq_base_version rq = Some w" using validate_request_shape(2) [OF v] rq by auto
  from reserve_base_entry [OF b [unfolded base] _ rq(2) w] rq(1) obtain e where
    e: "map_of (st_contexts (sweep opts now s)) cid = Some e" "en_version e = w" "tr = en_transcript e" by auto
  then have seen: "en_version en = w" "en_transcript en = tr"
    using rq(3) by (auto simp: sweep_lookup [OF t] split: if_splits)
  have inv1: "ctx_inv opts (insert rid ids, s1)"
    unfolding s1 by (rule ctx_inv_add [OF ctx_inv_sweep [OF inv] reserve(2) v free b])
  have r1: "map_of (st_reservations s1) rid = Some (reservation_of cr rid rq base)"
    by (simp add: s1 add_reservation_table update_conv')
  have inv2: "ctx_inv opts (ids2, s2)" using ctx_inv_run [OF run inv1] .
  have r2: "map_of (st_reservations s2) rid \<in> {None, Some (reservation_of cr rid rq base)}"
    using reservation_run [OF run, of rid "reservation_of cr rid rq base"] inv1 r1 by simp
  from commit show ?thesis
  proof (cases rule: ctx_commit_cases)
    case failed
    then show ?thesis by simp
  next
    case (created rd cid')
    with r2 rv rq(1) show ?thesis by auto
  next
    case (changed rd cid' en2)
    with r2 rv have rd: "rd = reservation_of cr rid rq base" by auto
    obtain c e2 where h: "rq_context_id (rd_request rd) = Some c" "map_of (st_contexts s2) c = Some e2"
      "rq_base_version (rd_request rd) = Some (en_version e2)" "en_transcript e2 = rd_base_transcript rd"
      by (rule held_entry [OF inv2 changed(1,2)])
    with changed(3,4) rd rq(2) have c: "c = cid" "cid' = cid" "e2 = en2" by auto
    have "map_of (st_contexts s3) cid = Some (changed_entry now2 rd msg en2)"
      using changed(6) h(2) c by (simp add: drop_reservation_def map_of_alter)
    moreover have "en_version en2 = w" "en_transcript en2 = tr" using h c rd w base by auto
    ultimately show ?thesis
      using changed(5) rd rq(1) w seen by (simp add: changed_entry_def Let_def receipt_of_def)
  qed
qed

section \<open>A completed request is not run again\<close>

definition completed :: "ctx_store \<Rightarrow> idempotency_key \<Rightarrow> ctx_receipt \<Rightarrow> int \<Rightarrow> bool" where
  "completed s key rc until \<longleftrightarrow> (\<exists>out. map_of (st_idempotency s) key = Some out \<and> ie_state out = OutCompleted
     \<and> ie_receipt out = Some rc \<and> ie_retain_until out = until)"

lemma completed_sweep: "tables_ok s \<Longrightarrow> completed s key rc until \<Longrightarrow> now < until \<Longrightarrow> completed (sweep opts now s) key rc until"
  by (auto simp: completed_def sweep_lookup keep_outcome_def)

lemma completed_drop:
  assumes "ctx_inv opts (ids, s)" "map_of (st_reservations s) rid = Some rd" "completed s key rc until"
  shows "completed (drop_reservation rd out c s) key rc until"
proof -
  have "complete_key (rd_request rd) \<noteq> key"
    using assms unfolding ctx_inv_def reservations_ok_def completed_def fst_conv snd_conv by fastforce
  with assms(3) show ?thesis by (simp add: completed_def drop_reservation_def update_conv')
qed

lemma completed_step:
  assumes "ctx_step cr opts now h h'" "ctx_inv opts h" "now < until" "completed (snd h) (ow, LLM_COMPLETE, key) rc until"
  shows "completed (snd h') (ow, LLM_COMPLETE, key) rc until"
  using assms
proof (cases rule: ctx_step.cases)
  case (reserved rand_id rq s r s' ids)
  then have sw: "completed (sweep opts now s) (ow, LLM_COMPLETE, key) rc until"
    using assms completed_sweep by (auto simp: ctx_inv_def)
  from reserved(3) show ?thesis
  proof (cases rule: ctx_reserve_cases)
    case refused
    with sw reserved show ?thesis by simp
  next
    case (accepted rid base)
    then have "complete_key rq \<noteq> (ow, LLM_COMPLETE, key)" using sw by (auto simp: completed_def)
    with sw accepted reserved show ?thesis by (auto simp: completed_def add_reservation_simps)
  qed
next
  case (committed factory rv msg s r s' ids)
  from committed(3) show ?thesis
    by (cases rule: ctx_commit_cases) (use committed assms completed_drop in auto)
next
  case (aborted rv err_code s r s' ids)
  from aborted(3) show ?thesis
  proof (cases rule: ctx_abort_cases)
    case failed
    with aborted assms show ?thesis by simp
  next
    case (dropped rd out)
    have inv: "ctx_inv opts (ids, s)" using aborted assms by simp
    have "completed (drop_reservation rd out (st_contexts (clear_reservation rd s)) s) (ow, LLM_COMPLETE, key) rc until"
      using completed_drop [OF inv dropped(1)] aborted assms by simp
    moreover have "tables_ok (drop_reservation rd out (st_contexts (clear_reservation rd s)) s)"
      using inv by (simp add: ctx_inv_def tables_ok_def drop_reservation_def keys_clear distinct_update distinct_delete)
    ultimately show ?thesis using dropped aborted assms(3) completed_sweep by simp
  qed
next
  case (released w cid v idem s r s' ids)
  then have sw: "completed (sweep opts now s) (ow, LLM_COMPLETE, key) rc until"
    using assms completed_sweep by (auto simp: ctx_inv_def)
  from released(3) show ?thesis
    by (cases rule: ctx_release_cases) (use sw released action_names in \<open>auto simp: completed_def update_conv'\<close>)
next
  case (swept ids s)
  with assms completed_sweep show ?thesis by (auto simp: ctx_inv_def)
qed

lemma completed_run:
  assumes "ctx_run cr opts (\<lambda>t. t < until) h h'" "ctx_inv opts h" "completed (snd h) (ow, LLM_COMPLETE, key) rc until"
  shows "completed (snd h') (ow, LLM_COMPLETE, key) rc until"
  using assms
  by (induction rule: ctx_run.induct) (auto intro: completed_step dest: ctx_inv_run)

text \<open>Property C28 (safety). A request that was committed is not run again: as long as its outcome is retained, whatever
  operations come between, another reservation under the same idempotency key of the same owner is refused
  and the receipt is still there.\<close>

theorem completed_once:
  assumes reach: "ctx_run cr opts P ({}, ctx_store_new) (ids, s)"
    and rd: "map_of (st_reservations s) (rv_reservation_id rv) = Some rd"
    and commit: "ctx_commit cr opts now factory rv msg s = Some (Inr rc, s1)"
    and run: "ctx_run cr opts (\<lambda>t. t < now + xo_idempotency_ttl opts) (ids, s1) (ids2, s2)" "later < now + xo_idempotency_ttl opts"
    and again: "complete_key rq = complete_key (rd_request rd)"
  shows "(\<exists>e. ctx_reserve cr opts later rand_id rq s2 = (Inl e, sweep opts later s2))
    \<and> completed (sweep opts later s2) (complete_key rq) rc (now + xo_idempotency_ttl opts)"
proof -
  have inv: "ctx_inv opts (ids, s)" using reach by (rule ctx_reach_inv)
  have inv1: "ctx_inv opts (ids, s1)" by (rule ctx_inv_commit [OF inv commit])
  have "completed s1 (complete_key rq) rc (now + xo_idempotency_ttl opts)"
    using commit again rd
    by (cases rule: ctx_commit_cases) (auto simp: completed_def drop_reservation_def fresh_outcome_def update_conv')
  then have c: "completed s2 (complete_key rq) rc (now + xo_idempotency_ttl opts)"
    using completed_run [OF run(1) inv1] by simp
  have "tables_ok s2" using ctx_inv_run [OF run(1) inv1] by (simp add: ctx_inv_def)
  from completed_sweep [OF this c run(2)]
  have c': "completed (sweep opts later s2) (complete_key rq) rc (now + xo_idempotency_ttl opts)" .
  obtain r s3 where r: "ctx_reserve cr opts later rand_id rq s2 = (r, s3)" by fastforce
  then have "\<exists>e. r = Inl e \<and> s3 = sweep opts later s2"
    by (cases rule: ctx_reserve_cases) (use c' in \<open>auto simp: completed_def\<close>)
  with r c' show ?thesis by auto
qed

section \<open>A run\<close>

definition demo_ctx_options :: ctx_options where
  "demo_ctx_options = \<lparr>xo_max_contexts_per_principal = 1, xo_default_ttl_seconds = 5, xo_max_ttl_seconds = 5,
     xo_tombstone_seconds = 5, xo_idempotency_ttl = SECOND, xo_supported_operations = Some [CtxCreate, CtxAppend]\<rparr>"

definition demo_ctx_id :: string where "demo_ctx_id = ''aaaaaaaaaaaaaaaaaaaaaa''"

definition demo_ctx_message :: "string \<Rightarrow> llm_message" where
  "demo_ctx_message r = \<lparr>lm_role = r, lm_content = None, lm_tool_call_id = None, lm_tool_name = None, lm_tool_calls = None\<rparr>"

definition demo_ctx_request :: "ctx_operation \<Rightarrow> string option \<Rightarrow> u64 option \<Rightarrow> string \<Rightarrow> ctx_request" where
  "demo_ctx_request x cid v key = \<lparr>rq_operation = x, rq_owner = \<lparr>ow_nid = ''n'', ow_security_scope = ''s''\<rparr>, rq_context_id = cid,
     rq_base_version = v, rq_binding = \<lparr>cb_model = ''m'', cb_system_messages = [], cb_tools = [], cb_runtime_revision = []\<rparr>,
     rq_messages = [demo_ctx_message ''user''], rq_ttl_seconds = None, rq_idempotency_key = key, rq_request_id = []\<rparr>"

abbreviation demo_create :: ctx_request where "demo_create \<equiv> demo_ctx_request CtxCreate None None ''1''"
abbreviation demo_append :: ctx_request where "demo_append \<equiv> demo_ctx_request CtxAppend (Some demo_ctx_id) (Some 1) ''2''"

definition demo_rv :: "string \<Rightarrow> ctx_operation \<Rightarrow> ctx_reservation" where
  "demo_rv rid x = \<lparr>rv_reservation_id = rid, rv_operation = x, rv_request_id = []\<rparr>"

definition demo_ctx1 :: ctx_store where
  "demo_ctx1 = add_reservation plain_crypto demo_ctx_options 0 ''a'' demo_create ([], Some 5, None, None) ctx_store_new"

lemma demo_ctx_id_ok: "validate_context_id demo_ctx_id = Inr ()"
  by (simp add: validate_context_id_def demo_ctx_id_def utf8_char_def context_id_byte_def)

lemma sweep_new: "sweep opts now ctx_store_new = ctx_store_new"
  by (simp add: sweep_def ctx_store_new_def)

lemmas demo_ctx_defs = demo_ctx_options_def demo_ctx_request_def demo_ctx_message_def demo_rv_def

lemma demo_validate:
  "validate_request demo_create = Inr ()" "validate_request demo_append = Inr ()"
  by (simp_all add: validate_request_def demo_ctx_id_ok demo_ctx_defs trim_def trim_start_def trim_end_def is_whitespace_def
      to_ascii_lowercase_def to_ascii_lower_def)

lemma demo_request_simps [simp]:
  "rq_operation (demo_ctx_request x cid v key) = x" "rq_context_id (demo_ctx_request x cid v key) = cid"
  "rq_base_version (demo_ctx_request x cid v key) = v" "rq_idempotency_key (demo_ctx_request x cid v key) = key"
  "rq_owner (demo_ctx_request x cid v key) = \<lparr>ow_nid = ''n'', ow_security_scope = ''s''\<rparr>"
  "rq_ttl_seconds (demo_ctx_request x cid v key) = None" "rq_request_id (demo_ctx_request x cid v key) = []"
  by (simp_all add: demo_ctx_request_def)

lemma demo_base1: "reserve_base plain_crypto demo_ctx_options 0 demo_create ctx_store_new = Inr ([], Some 5, None, None)"
  by (simp add: reserve_base_def ensure_allocation_available_def ctx_store_new_def live_contexts_def pending_contexts_def
      clamp_ttl_def demo_ctx_options_def)

lemma demo_reserve1:
  "ctx_reserve plain_crypto demo_ctx_options 0 (Inr ''a'') demo_create ctx_store_new = (Inr (demo_rv ''a'' CtxCreate), demo_ctx1)"
  using demo_validate demo_base1
  by (simp add: ctx_reserve_def sweep_new Let_def demo_ctx1_def ensure_supported_def demo_ctx_options_def demo_rv_def)
     (simp add: ctx_store_new_def)

definition demo_reservation1 :: reservation_data where
  "demo_reservation1 = reservation_of plain_crypto ''a'' demo_create ([], Some 5, None, None)"

definition demo_ctx2 :: ctx_store where
  "demo_ctx2 = drop_reservation demo_reservation1
     (done_outcome demo_ctx_options 0 demo_reservation1 (receipt_of plain_crypto 0 demo_reservation1 demo_ctx_id 1))
     [(demo_ctx_id, new_entry 0 demo_reservation1 demo_ctx_id (demo_ctx_message ''assistant''))] demo_ctx1"

lemma demo_table1: "map_of (st_reservations demo_ctx1) ''a'' = Some demo_reservation1" "st_contexts demo_ctx1 = []"
  by (simp_all add: demo_ctx1_def add_reservation_table update_conv' demo_reservation1_def add_reservation_simps ctx_store_new_def
      demo_ctx_request_def)

lemma demo_commit1:
  "ctx_commit plain_crypto demo_ctx_options 0 (\<lambda>i. Inr demo_ctx_id) (demo_rv ''a'' CtxCreate) (demo_ctx_message ''assistant'') demo_ctx1
     = Some (Inr (receipt_of plain_crypto 0 demo_reservation1 demo_ctx_id 1), demo_ctx2)"
proof -
  have id: "next_context_id 8 (\<lambda>i. Inr demo_ctx_id) demo_ctx1 = Inr demo_ctx_id"
    by (simp add: numeral_eq_Suc demo_ctx_id_ok demo_table1)
  have "require_reservation demo_ctx1 (demo_rv ''a'' CtxCreate) = Inr demo_reservation1"
    by (simp add: require_reservation_ok demo_table1 demo_rv_def) (simp add: demo_reservation1_def)
  moreover have "rq_operation (rd_request demo_reservation1) = CtxCreate" by (simp add: demo_reservation1_def demo_ctx_request_def)
  ultimately show ?thesis
    by (simp add: ctx_commit_def id finish_commit_drop demo_table1 demo_ctx2_def)
qed

lemma demo_run1: "ctx_run plain_crypto demo_ctx_options (\<lambda>t. True) ({}, ctx_store_new) ({''a''}, demo_ctx1)"
  using run_step [OF run_refl ctx_step.reserved [OF demo_reserve1, of "{}"]] by simp

lemma demo_run2: "ctx_run plain_crypto demo_ctx_options (\<lambda>t. True) ({}, ctx_store_new) ({''a''}, demo_ctx2)"
  by (rule run_step [OF demo_run1 ctx_step.committed [OF demo_commit1]]) simp

theorem context_limit_witness:
  "live_contexts \<lparr>ow_nid = ''n'', ow_security_scope = ''s''\<rparr> demo_ctx2 + pending_contexts \<lparr>ow_nid = ''n'', ow_security_scope = ''s''\<rparr> demo_ctx2 \<le> 1"
  using context_limit [OF demo_run2] by (simp add: demo_ctx_options_def)

theorem completed_once_witness:
  "\<exists>e. ctx_reserve plain_crypto demo_ctx_options 1 (Inr ''b'') demo_create demo_ctx2 = (Inl e, sweep demo_ctx_options 1 demo_ctx2)"
proof -
  have "complete_key demo_create = complete_key (rd_request demo_reservation1)" by (simp add: demo_reservation1_def)
  from completed_once [OF demo_run1 _ demo_commit1 run_refl _ this, of 1] show ?thesis
    using demo_table1(1) by (simp add: demo_rv_def demo_ctx_options_def SECOND_def)
qed

definition demo_entry :: ctx_entry where
  "demo_entry = new_entry 0 demo_reservation1 demo_ctx_id (demo_ctx_message ''assistant'')"

lemma demo_entry_simps:
  "en_owner demo_entry = rq_owner demo_append" "en_version demo_entry = 1" "en_state demo_entry = CtxActive" "en_reservation_id demo_entry = None"
  "en_binding_fingerprint demo_entry = binding_fingerprint plain_crypto (rq_binding demo_append)" "en_context_id demo_entry = demo_ctx_id"
  "en_expires_at demo_entry = Some (5 * SECOND)" "en_ttl_seconds demo_entry = 5"
  by (simp_all add: demo_entry_def new_entry_def demo_reservation1_def reservation_of_def expiry_of_def demo_ctx_request_def)

definition demo_base2 :: ctx_base where
  "demo_base2 = (en_transcript demo_entry, Some 5, None, None)"

lemma demo_contexts2: "st_contexts demo_ctx2 = [(demo_ctx_id, demo_entry)]"
  by (simp add: demo_ctx2_def drop_reservation_def demo_entry_def)

lemma demo_sweep2: "st_contexts (sweep demo_ctx_options 1 demo_ctx2) = [(demo_ctx_id, demo_entry)]"
  "map_of (st_idempotency (sweep demo_ctx_options 1 demo_ctx2)) (complete_key demo_append) = None"
proof -
  have e: "expire_entry demo_ctx_options 1 demo_entry = demo_entry" by (simp add: expire_entry_def demo_entry_simps SECOND_def)
  show "st_contexts (sweep demo_ctx_options 1 demo_ctx2) = [(demo_ctx_id, demo_entry)]"
    by (simp add: sweep_def demo_contexts2 e keep_entry_def demo_entry_simps)
  have "tables_ok demo_ctx2" using ctx_reach_inv [OF demo_run2] by (simp add: ctx_inv_def)
  then show "map_of (st_idempotency (sweep demo_ctx_options 1 demo_ctx2)) (complete_key demo_append) = None"
    by (simp add: sweep_lookup) (simp add: demo_ctx2_def drop_reservation_def demo_ctx1_def demo_reservation1_def update_conv'
        add_reservation_simps ctx_store_new_def)
qed

definition demo_ctx3 :: ctx_store where
  "demo_ctx3 = add_reservation plain_crypto demo_ctx_options 1 ''b'' demo_append demo_base2 (sweep demo_ctx_options 1 demo_ctx2)"

lemma demo_reserve2:
  "ctx_reserve plain_crypto demo_ctx_options 1 (Inr ''b'') demo_append demo_ctx2 = (Inr (demo_rv ''b'' CtxAppend), demo_ctx3)"
proof -
  have "require_mutable (sweep demo_ctx_options 1 demo_ctx2) (rq_owner demo_append) demo_ctx_id = Inr demo_entry"
    by (simp add: require_mutable_ok demo_sweep2 demo_entry_simps)
  then have "reserve_base plain_crypto demo_ctx_options 1 demo_append (sweep demo_ctx_options 1 demo_ctx2) = Inr demo_base2"
    by (simp add: reserve_base_def demo_entry_simps demo_base2_def effective_ttl_def)
  then show ?thesis
    using demo_validate demo_sweep2(2)
    by (simp add: ctx_reserve_def Let_def ensure_supported_def demo_ctx_options_def [THEN arg_cong, of xo_supported_operations] demo_rv_def demo_ctx3_def)
qed

definition demo_reservation2 :: reservation_data where
  "demo_reservation2 = reservation_of plain_crypto ''b'' demo_append demo_base2"

lemma demo_commit2:
  "\<exists>s3. ctx_commit plain_crypto demo_ctx_options 1 (\<lambda>i. Inr []) (demo_rv ''b'' CtxAppend) (demo_ctx_message ''assistant'') demo_ctx3
     = Some (Inr (receipt_of plain_crypto 1 demo_reservation2 demo_ctx_id 2), s3)"
proof -
  have r: "require_reservation demo_ctx3 (demo_rv ''b'' CtxAppend) = Inr demo_reservation2"
    by (simp add: require_reservation_ok demo_ctx3_def add_reservation_table update_conv' demo_rv_def demo_reservation2_def)
  have o: "rq_operation (rd_request demo_reservation2) = CtxAppend" "rq_context_id (rd_request demo_reservation2) = Some demo_ctx_id"
    by (simp_all add: demo_reservation2_def)
  have "map_of (st_contexts demo_ctx3) demo_ctx_id = Some (demo_entry\<lparr>en_reservation_id := Some ''b''\<rparr>)"
    by (simp add: demo_ctx3_def add_reservation_simps map_of_alter demo_sweep2)
  with r o show ?thesis by (simp add: ctx_commit_def finish_commit_drop demo_entry_simps)
qed

theorem no_lost_update_witness:
  "\<exists>(s3 :: ctx_store) en'. map_of (st_contexts s3) demo_ctx_id = Some en' \<and> en_version en' = 2
     \<and> en_transcript en' = en_transcript demo_entry @ rq_messages demo_append @ [demo_ctx_message ''assistant'']"
proof -
  obtain s3 where c: "ctx_commit plain_crypto demo_ctx_options 1 (\<lambda>i. Inr []) (demo_rv ''b'' CtxAppend) (demo_ctx_message ''assistant'') demo_ctx3
     = Some (Inr (receipt_of plain_crypto 1 demo_reservation2 demo_ctx_id 2), s3)"
    using demo_commit2 by blast
  have e: "map_of (st_contexts demo_ctx2) demo_ctx_id = Some demo_entry" by (simp add: demo_contexts2)
  from no_lost_update [OF demo_run2 demo_reserve2 _ _ _ e run_refl c] show ?thesis
    by (auto simp: receipt_of_def)
qed

end
