(* ===== verification/Nwp_Codes.thy ===== *)
theory Nwp_Codes
  imports Nwp_Context
begin

text \<open>
  \<^verbatim>\<open>nps-nwp/src/error_codes.rs\<close> and \<^verbatim>\<open>http_headers.rs\<close>: the error codes of the node
  protocol, the map from an error code to its status code, and the names of headers and media
  types. The codes of the context store are declared in \<open>Nwp_Context\<close>.
\<close>

section \<open>Error codes\<close>

definition AUTH_NID_SCOPE_VIOLATION :: string where "AUTH_NID_SCOPE_VIOLATION = ''NWP-AUTH-NID-SCOPE-VIOLATION''"
definition AUTH_NID_EXPIRED :: string where "AUTH_NID_EXPIRED = ''NWP-AUTH-NID-EXPIRED''"
definition AUTH_NID_REVOKED :: string where "AUTH_NID_REVOKED = ''NWP-AUTH-NID-REVOKED''"
definition AUTH_NID_UNTRUSTED_ISSUER :: string where "AUTH_NID_UNTRUSTED_ISSUER = ''NWP-AUTH-NID-UNTRUSTED-ISSUER''"
definition AUTH_NID_CAPABILITY_MISSING :: string where "AUTH_NID_CAPABILITY_MISSING = ''NWP-AUTH-NID-CAPABILITY-MISSING''"
definition AUTH_ASSURANCE_TOO_LOW :: string where "AUTH_ASSURANCE_TOO_LOW = ''NWP-AUTH-ASSURANCE-TOO-LOW''"
definition AUTH_REPUTATION_BLOCKED :: string where "AUTH_REPUTATION_BLOCKED = ''NWP-AUTH-REPUTATION-BLOCKED''"
definition REPUTATION_THROTTLED :: string where "REPUTATION_THROTTLED = ''NWP-REPUTATION-THROTTLED''"
definition REPUTATION_REJECTED :: string where "REPUTATION_REJECTED = ''NWP-REPUTATION-REJECTED''"
definition REPUTATION_BANNED :: string where "REPUTATION_BANNED = ''NWP-REPUTATION-BANNED''"
definition QUERY_FILTER_INVALID :: string where "QUERY_FILTER_INVALID = ''NWP-QUERY-FILTER-INVALID''"
definition QUERY_FIELD_UNKNOWN :: string where "QUERY_FIELD_UNKNOWN = ''NWP-QUERY-FIELD-UNKNOWN''"
definition QUERY_CURSOR_INVALID :: string where "QUERY_CURSOR_INVALID = ''NWP-QUERY-CURSOR-INVALID''"
definition QUERY_REGEX_UNSAFE :: string where "QUERY_REGEX_UNSAFE = ''NWP-QUERY-REGEX-UNSAFE''"
definition QUERY_VECTOR_UNSUPPORTED :: string where "QUERY_VECTOR_UNSUPPORTED = ''NWP-QUERY-VECTOR-UNSUPPORTED''"
definition QUERY_AGGREGATE_UNSUPPORTED :: string where "QUERY_AGGREGATE_UNSUPPORTED = ''NWP-QUERY-AGGREGATE-UNSUPPORTED''"
definition QUERY_AGGREGATE_INVALID :: string where "QUERY_AGGREGATE_INVALID = ''NWP-QUERY-AGGREGATE-INVALID''"
definition QUERY_STREAM_UNSUPPORTED :: string where "QUERY_STREAM_UNSUPPORTED = ''NWP-QUERY-STREAM-UNSUPPORTED''"
definition ACTION_NOT_FOUND :: string where "ACTION_NOT_FOUND = ''NWP-ACTION-NOT-FOUND''"
definition TASK_NOT_FOUND :: string where "TASK_NOT_FOUND = ''NWP-TASK-NOT-FOUND''"
definition TASK_ALREADY_CANCELLED :: string where "TASK_ALREADY_CANCELLED = ''NWP-TASK-ALREADY-CANCELLED''"
definition TASK_ALREADY_COMPLETED_NWP :: string where "TASK_ALREADY_COMPLETED_NWP = ''NWP-TASK-ALREADY-COMPLETED''"
definition TASK_ALREADY_FAILED :: string where "TASK_ALREADY_FAILED = ''NWP-TASK-ALREADY-FAILED''"
definition SUBSCRIBE_STREAM_NOT_FOUND :: string where "SUBSCRIBE_STREAM_NOT_FOUND = ''NWP-SUBSCRIBE-STREAM-NOT-FOUND''"
definition SUBSCRIBE_LIMIT_EXCEEDED :: string where "SUBSCRIBE_LIMIT_EXCEEDED = ''NWP-SUBSCRIBE-LIMIT-EXCEEDED''"
definition SUBSCRIBE_FILTER_UNSUPPORTED :: string where "SUBSCRIBE_FILTER_UNSUPPORTED = ''NWP-SUBSCRIBE-FILTER-UNSUPPORTED''"
definition SUBSCRIBE_INTERRUPTED :: string where "SUBSCRIBE_INTERRUPTED = ''NWP-SUBSCRIBE-INTERRUPTED''"
definition SUBSCRIBE_SEQ_TOO_OLD :: string where "SUBSCRIBE_SEQ_TOO_OLD = ''NWP-SUBSCRIBE-SEQ-TOO-OLD''"
definition SUBSCRIBE_LEASE_INVALID :: string where "SUBSCRIBE_LEASE_INVALID = ''NWP-SUBSCRIBE-LEASE-INVALID''"
definition SUBSCRIBE_LEASE_EXPIRED :: string where "SUBSCRIBE_LEASE_EXPIRED = ''NWP-SUBSCRIBE-LEASE-EXPIRED''"
definition BUDGET_EXCEEDED :: string where "BUDGET_EXCEEDED = ''NWP-BUDGET-EXCEEDED''"
definition CGN_LIMIT_EXCEEDED :: string where "CGN_LIMIT_EXCEEDED = ''NWP-CGN-LIMIT-EXCEEDED''"
definition DEPTH_EXCEEDED :: string where "DEPTH_EXCEEDED = ''NWP-DEPTH-EXCEEDED''"
definition GRAPH_CYCLE :: string where "GRAPH_CYCLE = ''NWP-GRAPH-CYCLE''"
definition NODE_UNAVAILABLE :: string where "NODE_UNAVAILABLE = ''NWP-NODE-UNAVAILABLE''"
definition MANIFEST_VERSION_UNSUPPORTED :: string where "MANIFEST_VERSION_UNSUPPORTED = ''NWP-MANIFEST-VERSION-UNSUPPORTED''"
definition MANIFEST_NODE_TYPE_REMOVED :: string where "MANIFEST_NODE_TYPE_REMOVED = ''NWP-MANIFEST-NODE-TYPE-REMOVED''"
definition MANIFEST_NODE_TYPE_UNKNOWN :: string where "MANIFEST_NODE_TYPE_UNKNOWN = ''NWP-MANIFEST-NODE-TYPE-UNKNOWN''"
definition RATE_LIMIT_EXCEEDED :: string where "RATE_LIMIT_EXCEEDED = ''NWP-RATE-LIMIT-EXCEEDED''"
definition RESERVED_TYPE_UNSUPPORTED :: string where "RESERVED_TYPE_UNSUPPORTED = ''NWP-RESERVED-TYPE-UNSUPPORTED''"
definition HTTP_ORIGIN_FORBIDDEN :: string where "HTTP_ORIGIN_FORBIDDEN = ''NWP-HTTP-ORIGIN-FORBIDDEN''"
definition HTTP_CONTENT_TYPE_UNSUPPORTED :: string where "HTTP_CONTENT_TYPE_UNSUPPORTED = ''NWP-HTTP-CONTENT-TYPE-UNSUPPORTED''"
definition HTTP_ACCEPT_UNSATISFIABLE :: string where "HTTP_ACCEPT_UNSATISFIABLE = ''NWP-HTTP-ACCEPT-UNSATISFIABLE''"
definition HTTP_REQUEST_ID_MISMATCH :: string where "HTTP_REQUEST_ID_MISMATCH = ''NWP-HTTP-REQUEST-ID-MISMATCH''"
definition HTTP_FRAME_BODY_MALFORMED :: string where "HTTP_FRAME_BODY_MALFORMED = ''NWP-HTTP-FRAME-BODY-MALFORMED''"
definition HTTP_BODY_TOO_LARGE :: string where "HTTP_BODY_TOO_LARGE = ''NWP-HTTP-BODY-TOO-LARGE''"
definition CAPABILITY_ADVERTISED_UNIMPLEMENTED :: string where "CAPABILITY_ADVERTISED_UNIMPLEMENTED = ''NWP-CAPABILITY-ADVERTISED-UNIMPLEMENTED''"
definition TOPOLOGY_UNAUTHORIZED :: string where "TOPOLOGY_UNAUTHORIZED = ''NWP-TOPOLOGY-UNAUTHORIZED''"
definition TOPOLOGY_UNSUPPORTED_SCOPE :: string where "TOPOLOGY_UNSUPPORTED_SCOPE = ''NWP-TOPOLOGY-UNSUPPORTED-SCOPE''"
definition TOPOLOGY_DEPTH_UNSUPPORTED :: string where "TOPOLOGY_DEPTH_UNSUPPORTED = ''NWP-TOPOLOGY-DEPTH-UNSUPPORTED''"
definition TOPOLOGY_FILTER_UNSUPPORTED :: string where "TOPOLOGY_FILTER_UNSUPPORTED = ''NWP-TOPOLOGY-FILTER-UNSUPPORTED''"
definition ANCHOR_NOT_LEADER :: string where "ANCHOR_NOT_LEADER = ''NWP-ANCHOR-NOT-LEADER''"
definition ANCHOR_EPOCH_FENCED :: string where "ANCHOR_EPOCH_FENCED = ''NWP-ANCHOR-EPOCH-FENCED''"
definition BRIDGE_DIRECTION_UNSUPPORTED :: string where "BRIDGE_DIRECTION_UNSUPPORTED = ''NWP-BRIDGE-DIRECTION-UNSUPPORTED''"
definition BRIDGE_TARGET_INVALID :: string where "BRIDGE_TARGET_INVALID = ''NWP-BRIDGE-TARGET-INVALID''"
definition BRIDGE_PROTOCOL_UNSUPPORTED :: string where "BRIDGE_PROTOCOL_UNSUPPORTED = ''NWP-BRIDGE-PROTOCOL-UNSUPPORTED''"
definition BRIDGE_ENDPOINT_INVALID :: string where "BRIDGE_ENDPOINT_INVALID = ''NWP-BRIDGE-ENDPOINT-INVALID''"
definition BRIDGE_UPSTREAM_FAILED :: string where "BRIDGE_UPSTREAM_FAILED = ''NWP-BRIDGE-UPSTREAM-FAILED''"
definition BRIDGE_SERVER_TOOL_NOT_FOUND :: string where "BRIDGE_SERVER_TOOL_NOT_FOUND = ''NWP-BRIDGE-SERVER-TOOL-NOT-FOUND''"
definition BRIDGE_SERVER_DISPATCHER_MISSING :: string where "BRIDGE_SERVER_DISPATCHER_MISSING = ''NWP-BRIDGE-SERVER-DISPATCHER-MISSING''"
definition BRIDGE_SERVER_DISPATCH_FAILED :: string where "BRIDGE_SERVER_DISPATCH_FAILED = ''NWP-BRIDGE-SERVER-DISPATCH-FAILED''"

section \<open>Status codes\<close>

text \<open>The arms of the match, in order.\<close>

definition status_arms :: "(string \<times> string) list" where
  "status_arms = [
     (AUTH_NID_SCOPE_VIOLATION, ''NPS-AUTH-FORBIDDEN''),
     (AUTH_NID_EXPIRED, ''NPS-AUTH-UNAUTHENTICATED''),
     (AUTH_NID_REVOKED, ''NPS-AUTH-UNAUTHENTICATED''),
     (AUTH_NID_UNTRUSTED_ISSUER, ''NPS-AUTH-UNAUTHENTICATED''),
     (AUTH_NID_CAPABILITY_MISSING, ''NPS-AUTH-FORBIDDEN''),
     (AUTH_ASSURANCE_TOO_LOW, ''NPS-AUTH-FORBIDDEN''),
     (AUTH_REPUTATION_BLOCKED, ''NPS-AUTH-FORBIDDEN''),
     (REPUTATION_THROTTLED, ''NPS-CLIENT-RATE-LIMITED''),
     (REPUTATION_REJECTED, ''NPS-AUTH-FORBIDDEN''),
     (REPUTATION_BANNED, ''NPS-AUTH-FORBIDDEN''),
     (QUERY_FILTER_INVALID, ''NPS-CLIENT-BAD-PARAM''),
     (QUERY_FIELD_UNKNOWN, ''NPS-CLIENT-BAD-PARAM''),
     (QUERY_CURSOR_INVALID, ''NPS-CLIENT-BAD-PARAM''),
     (QUERY_REGEX_UNSAFE, ''NPS-CLIENT-BAD-PARAM''),
     (QUERY_VECTOR_UNSUPPORTED, ''NPS-SERVER-UNSUPPORTED''),
     (QUERY_AGGREGATE_UNSUPPORTED, ''NPS-SERVER-UNSUPPORTED''),
     (QUERY_AGGREGATE_INVALID, ''NPS-CLIENT-BAD-PARAM''),
     (QUERY_STREAM_UNSUPPORTED, ''NPS-SERVER-UNSUPPORTED''),
     (ACTION_NOT_FOUND, ''NPS-CLIENT-NOT-FOUND''),
     (ACTION_PARAMS_INVALID, ''NPS-CLIENT-UNPROCESSABLE''),
     (ACTION_IDEMPOTENCY_CONFLICT, ''NPS-CLIENT-CONFLICT''),
     (LLM_CONTEXT_NOT_FOUND, ''NPS-CLIENT-NOT-FOUND''),
     (LLM_CONTEXT_EXPIRED, ''NPS-CLIENT-GONE''),
     (LLM_CONTEXT_VERSION_CONFLICT, ''NPS-CLIENT-CONFLICT''),
     (LLM_CONTEXT_BINDING_MISMATCH, ''NPS-CLIENT-CONFLICT''),
     (LLM_CONTEXT_FORBIDDEN, ''NPS-AUTH-FORBIDDEN''),
     (LLM_CONTEXT_LIMIT_EXCEEDED, ''NPS-LIMIT-RESOURCE''),
     (LLM_CONTEXT_OPERATION_UNSUPPORTED, ''NPS-SERVER-UNSUPPORTED''),
     (TASK_NOT_FOUND, ''NPS-CLIENT-NOT-FOUND''),
     (TASK_ALREADY_CANCELLED, ''NPS-CLIENT-CONFLICT''),
     (TASK_ALREADY_COMPLETED_NWP, ''NPS-CLIENT-CONFLICT''),
     (TASK_ALREADY_FAILED, ''NPS-CLIENT-CONFLICT''),
     (SUBSCRIBE_STREAM_NOT_FOUND, ''NPS-CLIENT-NOT-FOUND''),
     (SUBSCRIBE_LIMIT_EXCEEDED, ''NPS-LIMIT-EXCEEDED''),
     (SUBSCRIBE_FILTER_UNSUPPORTED, ''NPS-SERVER-UNSUPPORTED''),
     (SUBSCRIBE_INTERRUPTED, ''NPS-SERVER-UNAVAILABLE''),
     (SUBSCRIBE_SEQ_TOO_OLD, ''NPS-CLIENT-CONFLICT''),
     (SUBSCRIBE_LEASE_INVALID, ''NPS-CLIENT-BAD-PARAM''),
     (SUBSCRIBE_LEASE_EXPIRED, ''NPS-CLIENT-GONE''),
     (BUDGET_EXCEEDED, ''NPS-LIMIT-BUDGET''),
     (CGN_LIMIT_EXCEEDED, ''NPS-CLIENT-REQUEST-TOO-LARGE''),
     (DEPTH_EXCEEDED, ''NPS-CLIENT-BAD-PARAM''),
     (GRAPH_CYCLE, ''NPS-CLIENT-UNPROCESSABLE''),
     (NODE_UNAVAILABLE, ''NPS-SERVER-UNAVAILABLE''),
     (MANIFEST_VERSION_UNSUPPORTED, ''NPS-CLIENT-BAD-PARAM''),
     (MANIFEST_NODE_TYPE_REMOVED, ''NPS-CLIENT-BAD-FRAME''),
     (MANIFEST_NODE_TYPE_UNKNOWN, ''NPS-CLIENT-BAD-FRAME''),
     (RATE_LIMIT_EXCEEDED, ''NPS-LIMIT-RATE''),
     (RESERVED_TYPE_UNSUPPORTED, ''NPS-SERVER-UNSUPPORTED''),
     (HTTP_ORIGIN_FORBIDDEN, ''NPS-AUTH-FORBIDDEN''),
     (HTTP_CONTENT_TYPE_UNSUPPORTED, ''NPS-CLIENT-BAD-FRAME''),
     (HTTP_ACCEPT_UNSATISFIABLE, ''NPS-CLIENT-BAD-PARAM''),
     (HTTP_REQUEST_ID_MISMATCH, ''NPS-CLIENT-BAD-PARAM''),
     (HTTP_FRAME_BODY_MALFORMED, ''NPS-CLIENT-BAD-FRAME''),
     (HTTP_BODY_TOO_LARGE, ''NPS-LIMIT-PAYLOAD''),
     (CAPABILITY_ADVERTISED_UNIMPLEMENTED, ''NPS-SERVER-UNSUPPORTED''),
     (TOPOLOGY_UNAUTHORIZED, ''NPS-AUTH-FORBIDDEN''),
     (TOPOLOGY_UNSUPPORTED_SCOPE, ''NPS-CLIENT-BAD-PARAM''),
     (TOPOLOGY_DEPTH_UNSUPPORTED, ''NPS-CLIENT-BAD-PARAM''),
     (TOPOLOGY_FILTER_UNSUPPORTED, ''NPS-CLIENT-BAD-PARAM''),
     (ANCHOR_NOT_LEADER, ''NPS-CLIENT-CONFLICT''),
     (ANCHOR_EPOCH_FENCED, ''NPS-CLIENT-CONFLICT''),
     (BRIDGE_DIRECTION_UNSUPPORTED, ''NPS-SERVER-UNSUPPORTED''),
     (BRIDGE_TARGET_INVALID, ''NPS-CLIENT-UNPROCESSABLE''),
     (BRIDGE_PROTOCOL_UNSUPPORTED, ''NPS-SERVER-UNSUPPORTED''),
     (BRIDGE_ENDPOINT_INVALID, ''NPS-CLIENT-UNPROCESSABLE''),
     (BRIDGE_UPSTREAM_FAILED, ''NPS-DOWNSTREAM-UNAVAILABLE''),
     (BRIDGE_SERVER_TOOL_NOT_FOUND, ''NPS-CLIENT-NOT-FOUND''),
     (BRIDGE_SERVER_DISPATCHER_MISSING, ''NPS-SERVER-INTERNAL''),
     (BRIDGE_SERVER_DISPATCH_FAILED, ''NPS-SERVER-INTERNAL'')]"

definition to_nps_status :: "string \<Rightarrow> string" where
  "to_nps_status c = unwrap_or ''NPS-SERVER-INTERNAL'' (map_of status_arms c)"

section \<open>Headers and media types\<close>

definition AGENT :: string where "AGENT = ''X-NWP-Agent''"
definition BUDGET :: string where "BUDGET = ''X-NWP-Budget''"
definition IDENT :: string where "IDENT = ''X-NWP-Ident''"
definition CAPABILITIES :: string where "CAPABILITIES = ''X-NWP-Capabilities''"
definition DEPTH :: string where "DEPTH = ''X-NWP-Depth''"
definition ENCODING :: string where "ENCODING = ''X-NWP-Encoding''"
definition TOKENIZER :: string where "TOKENIZER = ''X-NWP-Tokenizer''"
definition SCHEMA :: string where "SCHEMA = ''X-NWP-Schema''"
definition TOKENS :: string where "TOKENS = ''X-NWP-Tokens''"
definition TOKENS_NATIVE :: string where "TOKENS_NATIVE = ''X-NWP-Tokens-Native''"
definition TOKENIZER_USED :: string where "TOKENIZER_USED = ''X-NWP-Tokenizer-Used''"
definition CACHED :: string where "CACHED = ''X-NWP-Cached''"
definition NODE_TYPE :: string where "NODE_TYPE = ''X-NWP-Node-Type''"
definition REQUEST_ID :: string where "REQUEST_ID = ''X-NWP-Request-Id''"
definition REPUTATION_STATUS :: string where "REPUTATION_STATUS = ''X-NWP-Reputation-Status''"
definition BAN_EXPIRES :: string where "BAN_EXPIRES = ''X-NWP-Ban-Expires''"
definition MIME_FRAME :: string where "MIME_FRAME = ''application/nwp-frame''"
definition MIME_LEGACY_FRAME :: string where "MIME_LEGACY_FRAME = ''application/x-nps-frame''"
definition MIME_CAPSULE :: string where "MIME_CAPSULE = ''application/nwp-capsule''"
definition MIME_ERROR :: string where "MIME_ERROR = ''application/nwp-error+json''"
definition MIME_MANIFEST :: string where "MIME_MANIFEST = ''application/nwp-manifest+json''"

lemmas code_defs =
  AUTH_NID_SCOPE_VIOLATION_def AUTH_NID_EXPIRED_def AUTH_NID_REVOKED_def AUTH_NID_UNTRUSTED_ISSUER_def AUTH_NID_CAPABILITY_MISSING_def
  AUTH_ASSURANCE_TOO_LOW_def AUTH_REPUTATION_BLOCKED_def REPUTATION_THROTTLED_def REPUTATION_REJECTED_def REPUTATION_BANNED_def
  QUERY_FILTER_INVALID_def QUERY_FIELD_UNKNOWN_def QUERY_CURSOR_INVALID_def QUERY_REGEX_UNSAFE_def QUERY_VECTOR_UNSUPPORTED_def
  QUERY_AGGREGATE_UNSUPPORTED_def QUERY_AGGREGATE_INVALID_def QUERY_STREAM_UNSUPPORTED_def ACTION_NOT_FOUND_def ACTION_PARAMS_INVALID_def
  ACTION_IDEMPOTENCY_CONFLICT_def LLM_CONTEXT_NOT_FOUND_def LLM_CONTEXT_EXPIRED_def LLM_CONTEXT_VERSION_CONFLICT_def LLM_CONTEXT_BINDING_MISMATCH_def
  LLM_CONTEXT_FORBIDDEN_def LLM_CONTEXT_LIMIT_EXCEEDED_def LLM_CONTEXT_OPERATION_UNSUPPORTED_def TASK_NOT_FOUND_def TASK_ALREADY_CANCELLED_def
  TASK_ALREADY_COMPLETED_NWP_def TASK_ALREADY_FAILED_def SUBSCRIBE_STREAM_NOT_FOUND_def SUBSCRIBE_LIMIT_EXCEEDED_def SUBSCRIBE_FILTER_UNSUPPORTED_def
  SUBSCRIBE_INTERRUPTED_def SUBSCRIBE_SEQ_TOO_OLD_def SUBSCRIBE_LEASE_INVALID_def SUBSCRIBE_LEASE_EXPIRED_def BUDGET_EXCEEDED_def
  CGN_LIMIT_EXCEEDED_def DEPTH_EXCEEDED_def GRAPH_CYCLE_def NODE_UNAVAILABLE_def MANIFEST_VERSION_UNSUPPORTED_def
  MANIFEST_NODE_TYPE_REMOVED_def MANIFEST_NODE_TYPE_UNKNOWN_def RATE_LIMIT_EXCEEDED_def RESERVED_TYPE_UNSUPPORTED_def HTTP_ORIGIN_FORBIDDEN_def
  HTTP_CONTENT_TYPE_UNSUPPORTED_def HTTP_ACCEPT_UNSATISFIABLE_def HTTP_REQUEST_ID_MISMATCH_def HTTP_FRAME_BODY_MALFORMED_def HTTP_BODY_TOO_LARGE_def
  CAPABILITY_ADVERTISED_UNIMPLEMENTED_def TOPOLOGY_UNAUTHORIZED_def TOPOLOGY_UNSUPPORTED_SCOPE_def TOPOLOGY_DEPTH_UNSUPPORTED_def TOPOLOGY_FILTER_UNSUPPORTED_def
  ANCHOR_NOT_LEADER_def ANCHOR_EPOCH_FENCED_def BRIDGE_DIRECTION_UNSUPPORTED_def BRIDGE_TARGET_INVALID_def BRIDGE_PROTOCOL_UNSUPPORTED_def
  BRIDGE_ENDPOINT_INVALID_def BRIDGE_UPSTREAM_FAILED_def BRIDGE_SERVER_TOOL_NOT_FOUND_def BRIDGE_SERVER_DISPATCHER_MISSING_def BRIDGE_SERVER_DISPATCH_FAILED_def

lemmas header_defs =
  AGENT_def BUDGET_def IDENT_def CAPABILITIES_def DEPTH_def ENCODING_def
  TOKENIZER_def SCHEMA_def TOKENS_def TOKENS_NATIVE_def TOKENIZER_USED_def CACHED_def
  NODE_TYPE_def REQUEST_ID_def REPUTATION_STATUS_def BAN_EXPIRES_def MIME_FRAME_def MIME_LEGACY_FRAME_def
  MIME_CAPSULE_def MIME_ERROR_def MIME_MANIFEST_def

lemma arm_codes_distinct: "distinct (map fst status_arms)"
  by (simp add: status_arms_def code_defs)

text \<open>An arm is what its code maps to.\<close>

lemma to_nps_status_arm: "(c, st) \<in> set status_arms \<Longrightarrow> to_nps_status c = st"
  using map_of_is_SomeI [OF arm_codes_distinct] by (simp add: to_nps_status_def)

end
