(* ===== verification/Nwp_Fence.thy ===== *)
theory Nwp_Fence
  imports Nwp_Codes
begin

text \<open>
  The ownership of a cluster by an anchor node: \<^verbatim>\<open>nps-nwp/src/anchor_fence.rs\<close>, with the data
  types and the event factories of \<^verbatim>\<open>nps-nwp/src/anchor_client.rs\<close> that it uses.

  The state machine of one anchor is \<open>own_apply\<close>, one operation per method. Around it, \<open>cluster_step\<close>
  lets several anchors take frames, lose and regain quorum and take ownership in any order; the
  consensus of the host is assumed to do no more than never to grant one epoch twice.
\<close>

section \<open>Data types\<close>

record member_info =
  mi_nid :: string
  mi_node_roles :: "string list"
  mi_activation_mode :: string
  mi_child_anchor :: "bool option"
  mi_member_count :: "u32 option"
  mi_tags :: "string list option"
  mi_joined_at :: "string option"
  mi_last_seen :: "string option"
  mi_capabilities :: "jvalue option"
  mi_metrics :: "jvalue option"

record topology_snapshot =
  ts_version :: u64
  ts_anchor_nid :: string
  ts_cluster_size :: u32
  ts_members :: "member_info list"
  ts_truncated :: "bool option"
  ts_cluster_epoch :: "u64 option"

definition snapshot_effective_cluster_epoch :: "topology_snapshot \<Rightarrow> u64" where
  "snapshot_effective_cluster_epoch s = unwrap_or 1 (ts_cluster_epoch s)"

record member_changes =
  mc_node_roles :: "string list option"
  mc_activation_mode :: "string option"
  mc_tags :: "string list option"
  mc_member_count :: "u32 option"
  mc_last_seen :: "string option"
  mc_capabilities :: "jvalue option"
  mc_metrics :: "jvalue option"

datatype topology_event =
    MemberJoined u64 member_info
  | MemberLeft u64 string
  | MemberUpdated u64 string member_changes
  | AnchorState u64 string "jvalue option"
  | ResyncRequired string

section \<open>Event factories\<close>

definition FIELD_VERSION_REBASED :: string where "FIELD_VERSION_REBASED = ''version_rebased''"
definition FIELD_ANCHOR_FAILOVER :: string where "FIELD_ANCHOR_FAILOVER = ''anchor_failover''"
definition FIELD_ANCHOR_QUORUM_LOST :: string where "FIELD_ANCHOR_QUORUM_LOST = ''anchor_quorum_lost''"
definition REASON_PLANNED :: string where "REASON_PLANNED = ''planned''"
definition REASON_ACTIVE_LOST :: string where "REASON_ACTIVE_LOST = ''active_lost''"

definition failover_with :: "string \<Rightarrow> u64 \<Rightarrow> string \<Rightarrow> u64 \<Rightarrow> topology_event" where
  "failover_with successor_nid cluster_epoch reason version =
     AnchorState version FIELD_ANCHOR_FAILOVER (Some (JObject (bt_collect
       [(''successor_nid'', JString successor_nid), (''cluster_epoch'', jnat cluster_epoch), (''reason'', JString reason)])))"

definition failover :: "string \<Rightarrow> u64 \<Rightarrow> topology_event" where
  "failover successor_nid cluster_epoch = failover_with successor_nid cluster_epoch REASON_PLANNED 0"

definition quorum_lost_with :: "u32 \<Rightarrow> u32 \<Rightarrow> u64 \<Rightarrow> topology_event" where
  "quorum_lost_with quorum_size available version =
     AnchorState version FIELD_ANCHOR_QUORUM_LOST (Some (JObject (bt_collect
       [(''quorum_size'', jnat (ucast quorum_size)), (''available'', jnat (ucast available))])))"

definition quorum_lost :: "u32 \<Rightarrow> u32 \<Rightarrow> topology_event" where
  "quorum_lost quorum_size available = quorum_lost_with quorum_size available 0"

section \<open>Errors\<close>

record topology_protocol_error =
  tpe_nwp_error_code :: string
  tpe_nps_status :: string
  tpe_message :: string

definition topology_protocol_error_new :: "string \<Rightarrow> string \<Rightarrow> topology_protocol_error" where
  "topology_protocol_error_new c message =
     \<lparr>tpe_nwp_error_code = c, tpe_nps_status = to_nps_status c, tpe_message = message\<rparr>"

definition http_status :: "topology_protocol_error \<Rightarrow> nat" where
  "http_status e = (if tpe_nps_status e = ''NPS-CLIENT-CONFLICT'' then 409
     else if tpe_nps_status e = ''NPS-AUTH-FORBIDDEN'' then 403 else 400)"

section \<open>One anchor\<close>

datatype anchor_role = Active | Standby

record anchor_ownership =
  ao_anchor_nid :: string
  ao_own_epoch :: u64
  ao_role :: anchor_role
  ao_degraded :: bool
  ao_highest_observed_epoch :: u64
  ao_pending_events :: "topology_event list"
  ao_streams_open :: bool

definition ownership_new :: "string \<Rightarrow> anchor_ownership" where
  "ownership_new anchor_nid =
     \<lparr>ao_anchor_nid = anchor_nid, ao_own_epoch = 1, ao_role = Active, ao_degraded = False,
      ao_highest_observed_epoch = 1, ao_pending_events = [], ao_streams_open = True\<rparr>"

definition ownership_new_standby :: "string \<Rightarrow> u64 \<Rightarrow> anchor_ownership" where
  "ownership_new_standby anchor_nid own_epoch =
     (ownership_new anchor_nid)\<lparr>ao_own_epoch := own_epoch, ao_highest_observed_epoch := own_epoch, ao_role := Standby\<rparr>"

definition take_pending_events :: "anchor_ownership \<Rightarrow> topology_event list \<times> anchor_ownership" where
  "take_pending_events a = (ao_pending_events a, a\<lparr>ao_pending_events := []\<rparr>)"

definition not_leader_why :: "anchor_ownership \<Rightarrow> string" where
  "not_leader_why a = (if ao_role a \<noteq> Active then ''this Anchor is a standby''
     else ''this Anchor is read-only-degraded (quorum lost)'')"

definition on_inbound_frame ::
    "u64 option \<Rightarrow> string option \<Rightarrow> bool \<Rightarrow> anchor_ownership \<Rightarrow> (topology_protocol_error + unit) \<times> anchor_ownership" where
  "on_inbound_frame inbound_epoch sender_anchor_nid is_topology_write a0 =
     (let inbound = unwrap_or 1 inbound_epoch;
          a = (if inbound > ao_highest_observed_epoch a0 then a0\<lparr>ao_highest_observed_epoch := inbound\<rparr> else a0)
      in if inbound > ao_own_epoch a
         then (Err (topology_protocol_error_new ANCHOR_EPOCH_FENCED
                 (''inbound cluster_epoch '' @ show_u64 inbound @ '' supersedes this Anchor'' @ [CHR 0x27] @ ''s epoch '' @ show_u64 (ao_own_epoch a)
                  @ ''; this Anchor is fenced.'')),
               a\<lparr>ao_role := Standby,
                 ao_pending_events := ao_pending_events a
                   @ [failover_with (unwrap_or [] sender_anchor_nid) inbound REASON_ACTIVE_LOST 0],
                 ao_streams_open := False\<rparr>)
         else if is_topology_write \<and> (ao_role a \<noteq> Active \<or> ao_degraded a)
         then (Err (topology_protocol_error_new ANCHOR_NOT_LEADER
                 (''topology writes are only accepted by the active cluster owner: '' @ not_leader_why a @ ''.'')), a)
         else (Ok (), a))"

definition stamp_response :: "anchor_ownership \<Rightarrow> topology_snapshot \<Rightarrow> topology_snapshot" where
  "stamp_response a snapshot = snapshot\<lparr>ts_cluster_epoch := Some (ao_own_epoch a)\<rparr>"

definition on_quorum_lost :: "u32 \<Rightarrow> u32 \<Rightarrow> anchor_ownership \<Rightarrow> topology_event \<times> anchor_ownership" where
  "on_quorum_lost quorum_size available a =
     (let ev = quorum_lost quorum_size available
      in (ev, a\<lparr>ao_degraded := True, ao_pending_events := ao_pending_events a @ [ev]\<rparr>))"

definition on_quorum_restored :: "anchor_ownership \<Rightarrow> anchor_ownership" where
  "on_quorum_restored a = a\<lparr>ao_degraded := False\<rparr>"

definition on_take_ownership ::
    "u64 \<Rightarrow> string \<Rightarrow> anchor_ownership \<Rightarrow> (topology_protocol_error + topology_event) \<times> anchor_ownership" where
  "on_take_ownership new_epoch reason a =
     (if new_epoch \<le> ao_highest_observed_epoch a
      then (Err (topology_protocol_error_new ANCHOR_EPOCH_FENCED
              (''cluster_epoch must strictly increase: '' @ show_u64 new_epoch @ '' does not exceed the highest observed epoch ''
               @ show_u64 (ao_highest_observed_epoch a) @ ''.'')), a)
      else let ev = failover_with (ao_anchor_nid a) new_epoch reason 0
           in (Ok ev, a\<lparr>ao_own_epoch := new_epoch, ao_highest_observed_epoch := new_epoch, ao_role := Active,
                 ao_degraded := False, ao_streams_open := True, ao_pending_events := ao_pending_events a @ [ev]\<rparr>))"

text \<open>The methods that change an anchor, as operations.\<close>

datatype own_op =
    InboundFrame "u64 option" "string option" bool
  | QuorumLost u32 u32
  | QuorumRestored
  | TakeOwnership u64 string
  | TakeEvents

fun own_apply :: "own_op \<Rightarrow> anchor_ownership \<Rightarrow> anchor_ownership" where
  "own_apply (InboundFrame e sender w) a = snd (on_inbound_frame e sender w a)"
| "own_apply (QuorumLost q v) a = snd (on_quorum_lost q v a)"
| "own_apply QuorumRestored a = on_quorum_restored a"
| "own_apply (TakeOwnership e reason) a = snd (on_take_ownership e reason a)"
| "own_apply TakeEvents a = snd (take_pending_events a)"

section \<open>Several anchors\<close>

text \<open>A write that an anchor accepts.\<close>

definition accepts_write :: "u64 option \<Rightarrow> anchor_ownership \<Rightarrow> bool" where
  "accepts_write e a = is_ok (fst (on_inbound_frame e None True a))"

text \<open>The anchors of a cluster, and the epochs that the host has granted. The host calls
  \<open>on_take_ownership\<close> with an epoch that it has not granted before; every other call is arbitrary.\<close>

type_synonym cluster = "(string \<Rightarrow> anchor_ownership) \<times> u64 set"

definition cluster_start :: "string \<Rightarrow> string \<Rightarrow> anchor_ownership" where
  "cluster_start leader nid = (if nid = leader then ownership_new nid else ownership_new_standby nid 1)"

inductive cluster_step :: "cluster \<Rightarrow> cluster \<Rightarrow> bool" where
  Call: "(\<And>e reason. x \<noteq> TakeOwnership e reason) \<Longrightarrow> cluster_step (c, g) (c(nid := own_apply x (c nid)), g)"
| Grant: "e \<notin> g \<Longrightarrow> cluster_step (c, g) (c(nid := own_apply (TakeOwnership e reason) (c nid)), insert e g)"

inductive cluster_reach :: "string \<Rightarrow> cluster \<Rightarrow> bool" for leader where
  Start: "cluster_reach leader (cluster_start leader, {1})"
| Step: "cluster_reach leader s \<Longrightarrow> cluster_step s s' \<Longrightarrow> cluster_reach leader s'"

inductive_cases cluster_stepE: "cluster_step s s'"

section \<open>Epochs of one anchor\<close>

lemma accepts_write_iff [simp]:
  "accepts_write e a \<longleftrightarrow> unwrap_or 1 e \<le> ao_own_epoch a \<and> ao_role a = Active \<and> \<not> ao_degraded a"
  by (auto simp: accepts_write_def on_inbound_frame_def Let_def)

text \<open>An active anchor owns the highest epoch that it has seen.\<close>

definition own_inv :: "anchor_ownership \<Rightarrow> bool" where
  "own_inv a \<longleftrightarrow> ao_own_epoch a \<le> ao_highest_observed_epoch a
     \<and> (ao_role a = Active \<longrightarrow> ao_own_epoch a = ao_highest_observed_epoch a \<and> ao_streams_open a)"

lemmas own_op_defs = on_inbound_frame_def on_quorum_lost_def on_quorum_restored_def on_take_ownership_def
  take_pending_events_def Let_def

lemma own_inv_new [simp]: "own_inv (ownership_new nid)" "own_inv (ownership_new_standby nid e)"
  by (simp_all add: own_inv_def ownership_new_def ownership_new_standby_def)

lemma own_inv_apply: "own_inv a \<Longrightarrow> own_inv (own_apply x a)"
  by (cases x) (auto simp: own_inv_def own_op_defs)

lemma own_epochs_grow:
  "own_inv a \<Longrightarrow> ao_own_epoch a \<le> ao_own_epoch (own_apply x a)
     \<and> ao_highest_observed_epoch a \<le> ao_highest_observed_epoch (own_apply x a)"
  by (cases x) (auto simp: own_inv_def own_op_defs)

lemma own_inv_fold: "own_inv a \<Longrightarrow> own_inv (fold own_apply ops a)"
  by (induction ops arbitrary: a) (auto simp: own_inv_apply)

lemma own_epochs_fold:
  "own_inv a \<Longrightarrow> ao_own_epoch a \<le> ao_own_epoch (fold own_apply ops a)
     \<and> ao_highest_observed_epoch a \<le> ao_highest_observed_epoch (fold own_apply ops a)"
proof (induction ops arbitrary: a)
  case (Cons x ops)
  show ?case using Cons.IH [OF own_inv_apply [OF Cons.prems, of x]] own_epochs_grow [OF Cons.prems, of x] by auto
qed simp

lemma frame_seen: "e \<le> ao_highest_observed_epoch (snd (on_inbound_frame (Some e) sender w a))"
  by (auto simp: on_inbound_frame_def Let_def)

lemma fenced_by_frame:
  "ao_own_epoch a < e \<Longrightarrow> ao_role (snd (on_inbound_frame (Some e) sender w a)) = Standby"
  by (auto simp: on_inbound_frame_def Let_def)

lemma active_again_step:
  assumes "own_inv a" "ao_role a = Standby" "ao_role (own_apply x a) = Active"
  shows "(\<exists>e' reason. x = TakeOwnership e' reason \<and> ao_highest_observed_epoch a < e')
     \<and> ao_highest_observed_epoch a < ao_own_epoch (own_apply x a)"
  using assms by (cases x) (auto simp: own_op_defs split: if_splits)

lemma active_again:
  assumes "own_inv a" "ao_role a = Standby" "ao_role (fold own_apply ops a) = Active"
  shows "(\<exists>e' reason. TakeOwnership e' reason \<in> set ops \<and> ao_highest_observed_epoch a < e')
     \<and> ao_highest_observed_epoch a < ao_own_epoch (fold own_apply ops a)"
  using assms
proof (induction ops arbitrary: a)
  case (Cons x ops)
  note inv = own_inv_apply [OF Cons.prems(1), of x]
  show ?case
  proof (cases "ao_role (own_apply x a)")
    case Active
    from active_again_step [OF Cons.prems(1,2) this] own_epochs_fold [OF inv, of ops] show ?thesis
      by (auto intro: less_le_trans)
  next
    case Standby
    have "ao_role (fold own_apply ops (own_apply x a)) = Active" using Cons.prems(3) by simp
    from Cons.IH [OF inv Standby this] own_epochs_grow [OF Cons.prems(1), of x] show ?thesis
      by (auto intro: le_less_trans)
  qed
qed simp

text \<open>An anchor that has been fenced by a frame of a higher epoch accepts a topology write again,
  after any further calls, only when it has taken ownership at a strictly higher epoch than that of the frame, and
  then its own epoch is above that of the frame.\<close>

theorem fenced_until_elected:
  assumes inv: "own_inv a" and fenced: "ao_own_epoch a < e"
    and acc: "accepts_write f (fold own_apply ops (snd (on_inbound_frame (Some e) sender w a)))"
  shows "(\<exists>e' reason. TakeOwnership e' reason \<in> set ops \<and> e < e')
     \<and> e < ao_own_epoch (fold own_apply ops (snd (on_inbound_frame (Some e) sender w a)))"
proof -
  let ?b = "snd (on_inbound_frame (Some e) sender w a)"
  have b: "own_inv ?b" using own_inv_apply [OF inv, of "InboundFrame (Some e) sender w"] by simp
  have "ao_role (fold own_apply ops ?b) = Active" using acc by simp
  from active_again [OF b fenced_by_frame [OF fenced] this] frame_seen [of e sender w a] show ?thesis
    by (meson le_less_trans)
qed

lemma demo_election:
  "accepts_write None (fold own_apply [QuorumLost 3 1, TakeOwnership 5 ''planned'']
     (snd (on_inbound_frame (Some 2) None False (ownership_new ''n''))))"
  by (simp add: ownership_new_def own_op_defs word_le_nat_alt word_less_nat_alt)

theorem fenced_until_elected_witness:
  "(2 :: u64) < ao_own_epoch (fold own_apply [QuorumLost 3 1, TakeOwnership 5 ''planned'']
     (snd (on_inbound_frame (Some 2) None False (ownership_new ''n''))))"
proof -
  have "ao_own_epoch (ownership_new ''n'') < 2" by (simp add: ownership_new_def word_less_nat_alt)
  from fenced_until_elected [OF own_inv_new(1) this demo_election] show ?thesis by (rule conjunct2)
qed

section \<open>One writer in a cluster\<close>

definition cluster_inv :: "cluster \<Rightarrow> bool" where
  "cluster_inv s \<longleftrightarrow> (\<forall>n. own_inv (fst s n))
     \<and> (\<forall>n. ao_own_epoch (fst s n) \<in> snd s)
     \<and> (\<forall>m n. ao_role (fst s m) = Active \<longrightarrow> ao_role (fst s n) = Active
          \<longrightarrow> ao_own_epoch (fst s m) = ao_own_epoch (fst s n) \<longrightarrow> m = n)"

lemma cluster_inv_start: "cluster_inv (cluster_start leader, {1})"
  by (simp add: cluster_inv_def cluster_start_def ownership_new_def ownership_new_standby_def own_inv_def)

text \<open>Other calls than \<open>on_take_ownership\<close> do not make an anchor active and keep its epoch.\<close>

lemma call_keeps:
  assumes "\<And>e reason. x \<noteq> TakeOwnership e reason"
  shows "ao_own_epoch (own_apply x a) = ao_own_epoch a
     \<and> (ao_role (own_apply x a) = Active \<longrightarrow> ao_role a = Active)"
  using assms by (cases x) (auto simp: own_op_defs)

lemma grant_cases:
  "own_apply (TakeOwnership e reason) a = a \<or> ao_own_epoch (own_apply (TakeOwnership e reason) a) = e"
  by (auto simp: own_op_defs)

lemma cluster_inv_step:
  assumes "cluster_step s s'" "cluster_inv s"
  shows "cluster_inv s'"
  using assms
proof (induction rule: cluster_step.induct)
  case (Call x c g nid)
  then show ?case using call_keeps [OF Call.hyps, of "c nid"] own_inv_apply [of "c nid" x]
    by (auto simp: cluster_inv_def)
next
  case (Grant e g c nid reason)
  let ?a = "own_apply (TakeOwnership e reason) (c nid)"
  have inv: "own_inv ?a" by (rule own_inv_apply) (use Grant.prems in \<open>simp add: cluster_inv_def\<close>)
  have other: "ao_own_epoch (c n) \<noteq> e" for n using Grant by (auto simp: cluster_inv_def)
  from grant_cases [of e reason "c nid"] show ?case
  proof
    assume same: "?a = c nid"
    show ?thesis unfolding same using Grant.prems by (auto simp: cluster_inv_def)
  next
    assume "ao_own_epoch ?a = e"
    then show ?thesis using Grant.prems inv other other [symmetric] by (auto simp: cluster_inv_def simp del: own_apply.simps)
  qed
qed

lemma cluster_inv_reach: "cluster_reach leader s \<Longrightarrow> cluster_inv s"
  by (induction rule: cluster_reach.induct) (auto intro: cluster_inv_start cluster_inv_step)

text \<open>Property C8 (safety). Whatever frames the anchors of a cluster receive and in whatever order they lose quorum and
  take ownership, a topology write that carries the newest epoch is accepted by one anchor at most, as long as the
  host grants no epoch twice.\<close>

theorem fence_single_writer:
  assumes reach: "cluster_reach leader (c, g)" and top: "\<forall>e\<in>g. e \<le> newest"
    and m: "accepts_write (Some newest) (c m)" and n: "accepts_write (Some newest) (c n)"
  shows "m = n"
proof -
  note inv = cluster_inv_reach [OF reach]
  have "newest = ao_own_epoch (c k)" if "accepts_write (Some newest) (c k)" for k
  proof -
    have "ao_own_epoch (c k) \<in> g" using inv by (simp add: cluster_inv_def)
    then show ?thesis using that top by (force intro: antisym)
  qed
  from this [OF m] this [OF n] have "ao_own_epoch (c m) = ao_own_epoch (c n)" by (rule trans [OF sym])
  with inv m n show ?thesis by (auto simp: cluster_inv_def)
qed

lemma demo_cluster:
  "cluster_reach ''a'' ((cluster_start ''a'')(''b'' := own_apply (TakeOwnership 2 ''planned'') (cluster_start ''a'' ''b'')), {1, 2})"
proof -
  have "cluster_step (cluster_start ''a'', {1})
      ((cluster_start ''a'')(''b'' := own_apply (TakeOwnership 2 ''planned'') (cluster_start ''a'' ''b'')), insert 2 {1})"
    by (rule cluster_step.Grant) simp
  then show ?thesis using cluster_reach.Step [OF cluster_reach.Start] by (simp add: insert_commute)
qed

theorem fence_single_writer_witness:
  "\<exists>c g. cluster_reach ''a'' (c, g) \<and> accepts_write (Some 2) (c ''b'') \<and> \<not> accepts_write (Some 2) (c ''a'')"
proof -
  let ?c = "(cluster_start ''a'')(''b'' := own_apply (TakeOwnership 2 ''planned'') (cluster_start ''a'' ''b''))"
  have b: "accepts_write (Some 2) (?c ''b'')"
    by (simp add: cluster_start_def ownership_new_def ownership_new_standby_def own_op_defs word_le_nat_alt)
  have "\<not> accepts_write (Some 2) (?c ''a'')"
    using fence_single_writer [OF demo_cluster, of 2 "''a''" "''b''"] b by auto
  with b demo_cluster show ?thesis by blast
qed

end
