(* ===== verification/Nwp_Topology.thy ===== *)
theory Nwp_Topology
  imports Nwp_Fence
begin

text \<open>
  The client of an anchor node: \<^verbatim>\<open>nps-nwp/src/anchor_client.rs\<close>. The derived readers and writers of the
  topology records, the parser of an event line, the reader of an event stream and the requests.

  A text is read by \<open>rd\<close>, which stands for \<open>serde_json::from_str\<close>; what the error of a text that
  does not parse says is left out. The buffer of the stream holds the bytes of a Rust string.
\<close>

section \<open>Derived writers and readers\<close>

definition member_fields :: "string list" where
  "member_fields = [''nid'', ''node_roles'', ''activation_mode'', ''child_anchor'', ''member_count'', ''tags'',
     ''joined_at'', ''last_seen'', ''capabilities'', ''metrics'']"

definition member_to_value :: "member_info \<Rightarrow> jvalue" where
  "member_to_value m = JObject (bt_collect
     [(''nid'', JString (mi_nid m)), (''node_roles'', jstrs (mi_node_roles m)),
      (''activation_mode'', JString (mi_activation_mode m)), (''child_anchor'', null_or JBool (mi_child_anchor m)),
      (''member_count'', null_or (\<lambda>n. jnat (ucast n)) (mi_member_count m)), (''tags'', null_or (\<lambda>t. jstrs t) (mi_tags m)),
      (''joined_at'', null_or JString (mi_joined_at m)), (''last_seen'', null_or JString (mi_last_seen m)),
      (''capabilities'', null_or id (mi_capabilities m)), (''metrics'', null_or id (mi_metrics m))])"

definition member_from_value :: "jvalue \<Rightarrow> member_info option" where
  "member_from_value v = Option.bind (struct_fields member_fields v) (\<lambda>f.
     Option.bind (Option.bind (f ! 0) as_str) (\<lambda>nid.
     Option.bind (Option.bind (f ! 1) str_list) (\<lambda>node_roles.
     Option.bind (Option.bind (f ! 2) as_str) (\<lambda>activation_mode.
     Option.bind (opt_field as_bool (f ! 3)) (\<lambda>child_anchor.
     Option.bind (opt_field as_u32 (f ! 4)) (\<lambda>member_count.
     Option.bind (opt_field str_list (f ! 5)) (\<lambda>tags.
     Option.bind (opt_field as_str (f ! 6)) (\<lambda>joined_at.
     Option.bind (opt_field as_str (f ! 7)) (\<lambda>last_seen.
     Option.bind (opt_field Some (f ! 8)) (\<lambda>capabilities.
     Option.bind (opt_field Some (f ! 9)) (\<lambda>metrics.
       Some \<lparr>mi_nid = nid, mi_node_roles = node_roles, mi_activation_mode = activation_mode, mi_child_anchor = child_anchor,
             mi_member_count = member_count, mi_tags = tags, mi_joined_at = joined_at, mi_last_seen = last_seen,
             mi_capabilities = capabilities, mi_metrics = metrics\<rparr>)))))))))))"

definition changes_fields :: "string list" where
  "changes_fields = [''node_roles'', ''activation_mode'', ''tags'', ''member_count'', ''last_seen'', ''capabilities'', ''metrics'']"

definition changes_to_value :: "member_changes \<Rightarrow> jvalue" where
  "changes_to_value m = JObject (bt_collect
     [(''node_roles'', null_or (\<lambda>t. jstrs t) (mc_node_roles m)), (''activation_mode'', null_or JString (mc_activation_mode m)),
      (''tags'', null_or (\<lambda>t. jstrs t) (mc_tags m)), (''member_count'', null_or (\<lambda>n. jnat (ucast n)) (mc_member_count m)),
      (''last_seen'', null_or JString (mc_last_seen m)), (''capabilities'', null_or id (mc_capabilities m)),
      (''metrics'', null_or id (mc_metrics m))])"

definition changes_from_value :: "jvalue \<Rightarrow> member_changes option" where
  "changes_from_value v = Option.bind (struct_fields changes_fields v) (\<lambda>f.
     Option.bind (opt_field str_list (f ! 0)) (\<lambda>node_roles.
     Option.bind (opt_field as_str (f ! 1)) (\<lambda>activation_mode.
     Option.bind (opt_field str_list (f ! 2)) (\<lambda>tags.
     Option.bind (opt_field as_u32 (f ! 3)) (\<lambda>member_count.
     Option.bind (opt_field as_str (f ! 4)) (\<lambda>last_seen.
     Option.bind (opt_field Some (f ! 5)) (\<lambda>capabilities.
     Option.bind (opt_field Some (f ! 6)) (\<lambda>metrics.
       Some \<lparr>mc_node_roles = node_roles, mc_activation_mode = activation_mode, mc_tags = tags, mc_member_count = member_count,
             mc_last_seen = last_seen, mc_capabilities = capabilities, mc_metrics = metrics\<rparr>))))))))"

definition snapshot_fields :: "string list" where
  "snapshot_fields = [''version'', ''anchor_nid'', ''cluster_size'', ''members'', ''truncated'', ''cluster_epoch'']"

definition snapshot_to_value :: "topology_snapshot \<Rightarrow> jvalue" where
  "snapshot_to_value s = JObject (bt_insert_opt ''cluster_epoch'' (map_option (\<lambda>n. jnat n) (ts_cluster_epoch s)) (bt_collect
     [(''version'', jnat (ts_version s)), (''anchor_nid'', JString (ts_anchor_nid s)),
      (''cluster_size'', jnat (ucast (ts_cluster_size s))), (''members'', JArray (map member_to_value (ts_members s))),
      (''truncated'', null_or JBool (ts_truncated s))]))"

definition snapshot_from_value :: "jvalue \<Rightarrow> topology_snapshot option" where
  "snapshot_from_value v = Option.bind (struct_fields snapshot_fields v) (\<lambda>f.
     Option.bind (Option.bind (f ! 0) as_u64) (\<lambda>version.
     Option.bind (Option.bind (f ! 1) as_str) (\<lambda>anchor_nid.
     Option.bind (Option.bind (f ! 2) as_u32) (\<lambda>cluster_size.
     Option.bind (Option.bind (Option.bind (f ! 3) as_array) (all_opt member_from_value)) (\<lambda>members.
     Option.bind (opt_field as_bool (f ! 4)) (\<lambda>truncated.
     Option.bind (opt_field as_u64 (f ! 5)) (\<lambda>cluster_epoch.
       Some \<lparr>ts_version = version, ts_anchor_nid = anchor_nid, ts_cluster_size = cluster_size, ts_members = members,
             ts_truncated = truncated, ts_cluster_epoch = cluster_epoch\<rparr>)))))))"

record topology_filter =
  tf_tags_any :: "string list option"
  tf_tags_all :: "string list option"
  tf_node_roles :: "string list option"

definition filter_to_value :: "topology_filter \<Rightarrow> jvalue" where
  "filter_to_value f = JObject
     (bt_insert_opt ''tags_any'' (map_option (\<lambda>t. jstrs t) (tf_tags_any f))
     (bt_insert_opt ''tags_all'' (map_option (\<lambda>t. jstrs t) (tf_tags_all f))
     (bt_insert_opt ''node_roles'' (map_option (\<lambda>t. jstrs t) (tf_node_roles f)) [])))"

definition filter_from_value :: "jvalue \<Rightarrow> topology_filter option" where
  "filter_from_value v = Option.bind (struct_fields [''tags_any'', ''tags_all'', ''node_roles''] v) (\<lambda>f.
     Option.bind (opt_field str_list (f ! 0)) (\<lambda>tags_any.
     Option.bind (opt_field str_list (f ! 1)) (\<lambda>tags_all.
     Option.bind (opt_field str_list (f ! 2)) (\<lambda>node_roles.
       Some \<lparr>tf_tags_any = tags_any, tf_tags_all = tags_all, tf_node_roles = node_roles\<rparr>))))"

section \<open>Errors and event lines\<close>

datatype anchor_topology_error =
    TopoProtocol string string string
  | TopoHttp nat string
  | TopoReqwest string
  | TopoJson
  | TopoStreamEnded

definition json_or_err :: "'a option \<Rightarrow> anchor_topology_error + 'a" where
  "json_or_err x = ok_or TopoJson x"

definition event_of_payload :: "string \<Rightarrow> u64 \<Rightarrow> jvalue \<Rightarrow> anchor_topology_error + topology_event option" where
  "event_of_payload event_type sq payload =
     (if event_type = ''member_joined''
      then try_res (json_or_err (member_from_value payload)) (\<lambda>member. Ok (Some (MemberJoined sq member)))
      else if event_type = ''member_left''
      then Ok (Some (MemberLeft sq (unwrap_or [] (str_at payload ''nid''))))
      else if event_type = ''member_updated''
      then try_res (json_or_err (changes_from_value (unwrap_or (JObject []) (jget payload ''changes'')))) (\<lambda>changes.
        Ok (Some (MemberUpdated sq (unwrap_or [] (str_at payload ''nid'')) changes)))
      else if event_type = ''anchor_state''
      then Ok (Some (AnchorState sq (unwrap_or [] (str_at payload ''field'')) (jget payload ''details'')))
      else if event_type = ''resync_required''
      then Ok (Some (ResyncRequired (unwrap_or ''unknown'' (str_at payload ''reason''))))
      else Ok None)"

definition parse_event_value :: "jvalue \<Rightarrow> anchor_topology_error + topology_event option" where
  "parse_event_value root =
     (if jget root ''event_type'' = None
      then (case (str_at root ''error'', str_at root ''status'') of
          (Some e, Some s) \<Rightarrow> Err (TopoProtocol e s (unwrap_or [] (str_at root ''message'')))
        | _ \<Rightarrow> Ok None)
      else (case str_at root ''event_type'' of
          None \<Rightarrow> Ok None
        | Some event_type \<Rightarrow>
            event_of_payload event_type (unwrap_or 0 (Option.bind (jget root ''seq'') as_u64))
              (unwrap_or JNull (jget root ''payload''))))"

definition parse_event_line :: "(bytes \<Rightarrow> jvalue option) \<Rightarrow> bytes \<Rightarrow> anchor_topology_error + topology_event option" where
  "parse_event_line rd line = try_res (json_or_err (rd line)) parse_event_value"

definition parse_error_body :: "(bytes \<Rightarrow> jvalue option) \<Rightarrow> nat \<Rightarrow> string \<Rightarrow> anchor_topology_error" where
  "parse_error_body rd status body =
     (case rd (utf8 body) of
        Some v \<Rightarrow>
          (case (str_at v ''error'', str_at v ''status'') of
             (Some e, Some s) \<Rightarrow> TopoProtocol e s (unwrap_or body (str_at v ''message''))
           | _ \<Rightarrow> TopoHttp status body)
      | None \<Rightarrow> TopoHttp status body)"

section \<open>The event stream\<close>

abbreviation NL :: u8 where "NL \<equiv> 10"
abbreviation CR :: u8 where "CR \<equiv> 13"

definition trim_cr :: "bytes \<Rightarrow> bytes" where
  "trim_cr l = rev (dropWhile (\<lambda>b. b = CR) (rev l))"

fun find_line :: "bytes \<Rightarrow> (bytes \<times> bytes) option" where
  "find_line [] = None"
| "find_line (b # bs) = (if b = NL then Some ([], bs) else map_option (\<lambda>(l, r). (b # l, r)) (find_line bs))"

lemma find_line_shorter: "find_line bs = Some (l, r) \<Longrightarrow> length r < length bs"
  by (induction bs arbitrary: l) (auto split: if_splits)

definition is_resync :: "topology_event \<Rightarrow> bool" where
  "is_resync ev = (case ev of ResyncRequired _ \<Rightarrow> True | _ \<Rightarrow> False)"

type_synonym stream_item = "anchor_topology_error + topology_event"

text \<open>All complete lines of the buffer: the items, and the buffer and the flag of the acknowledgement,
  or \<open>None\<close> when the stream has ended.\<close>

function drain_lines :: "(bytes \<Rightarrow> jvalue option) \<Rightarrow> bytes \<Rightarrow> bool \<Rightarrow> stream_item list \<times> (bytes \<times> bool) option" where
  "drain_lines rd buf ack =
     (case find_line buf of
        None \<Rightarrow> ([], Some (buf, ack))
      | Some (raw, rest) \<Rightarrow>
          let line = trim_cr raw
          in if line = [] then drain_lines rd rest ack
             else if \<not> ack then drain_lines rd rest True
             else (case parse_event_line rd line of
                 Inl e \<Rightarrow> ([Err e], None)
               | Inr None \<Rightarrow> drain_lines rd rest ack
               | Inr (Some ev) \<Rightarrow> if is_resync ev then ([Ok ev], None)
                   else apfst ((#) (Ok ev)) (drain_lines rd rest ack)))"
  by pat_completeness auto
termination
  by (relation "measure (\<lambda>(rd, buf, ack). length buf)") (auto dest: find_line_shorter)

declare drain_lines.simps [simp del]

definition flush_line :: "(bytes \<Rightarrow> jvalue option) \<Rightarrow> bytes \<Rightarrow> bool \<Rightarrow> stream_item list" where
  "flush_line rd buf ack =
     (if buf = [] then []
      else let line = trim_cr buf
           in if line = [] \<or> \<not> ack then []
              else (case parse_event_line rd line of Inl e \<Rightarrow> [Err e] | Inr None \<Rightarrow> [] | Inr (Some ev) \<Rightarrow> [Ok ev]))"

text \<open>What the transport delivers.\<close>

datatype chunk = Chunk bytes | ChunkError string

fun stream_loop :: "(bytes \<Rightarrow> jvalue option) \<Rightarrow> chunk list \<Rightarrow> bytes \<Rightarrow> bool \<Rightarrow> stream_item list" where
  "stream_loop rd [] buf ack = flush_line rd buf ack"
| "stream_loop rd (ChunkError e # cs) buf ack = [Err (TopoReqwest e)]"
| "stream_loop rd (Chunk b # cs) buf ack =
     (if \<not> utf8_valid b then [Err (TopoHttp 0 ''stream contained invalid UTF-8'')]
      else case drain_lines rd (buf @ b) ack of
          (out, None) \<Rightarrow> out
        | (out, Some (buf', ack')) \<Rightarrow> out @ stream_loop rd cs buf' ack')"

definition parse_event_stream :: "(bytes \<Rightarrow> jvalue option) \<Rightarrow> chunk list \<Rightarrow> stream_item list" where
  "parse_event_stream rd cs = stream_loop rd cs [] False"

section \<open>Requests\<close>

record anchor_client =
  ac_base_url :: string
  ac_path_prefix :: string

definition trim_end_slashes :: "string \<Rightarrow> string" where
  "trim_end_slashes s = rev (dropWhile (\<lambda>c. c = CHR ''/'') (rev s))"

definition anchor_client_new :: "string \<Rightarrow> anchor_client" where
  "anchor_client_new base_url = \<lparr>ac_base_url = trim_end_slashes base_url, ac_path_prefix = []\<rparr>"

definition with_path_prefix :: "string \<Rightarrow> anchor_client \<Rightarrow> anchor_client" where
  "with_path_prefix prefix c = c\<lparr>ac_path_prefix := trim_end_slashes prefix\<rparr>"

definition snapshot_request_body :: "string \<Rightarrow> string list \<Rightarrow> u8 \<Rightarrow> string option \<Rightarrow> jvalue" where
  "snapshot_request_body scope incl depth target_nid =
     JObject (bt_collect [(''type'', JString ''topology.snapshot''),
       (''topology'', JObject
          (bt_insert_opt ''target_nid'' (map_option JString target_nid)
          (bt_insert_opt ''depth'' (if depth \<noteq> 1 then Some (jnat (ucast depth)) else None)
          (bt_insert_opt ''include'' (if incl \<noteq> [] then Some (jstrs incl) else None)
             [(''scope'', JString scope)]))))])"

text \<open>A reply: its status, its text, and its text read as JSON.\<close>

record http_reply =
  hr_status :: nat
  hr_text :: "string option"
  hr_json :: "string + jvalue"

definition is_success :: "nat \<Rightarrow> bool" where
  "is_success st \<longleftrightarrow> 200 \<le> st \<and> st < 300"

text \<open>\<open>caps["data"]\<close> is an index for writing: on a value that is neither an object nor null it panics, the
  outer \<open>None\<close>.\<close>

definition index_mut :: "jvalue \<Rightarrow> string \<Rightarrow> jvalue option" where
  "index_mut v k = (case v of
       JObject m \<Rightarrow> Some (unwrap_or JNull (map_of m k))
     | JNull \<Rightarrow> Some JNull
     | _ \<Rightarrow> None)"

definition snapshot_of_reply :: "(bytes \<Rightarrow> jvalue option) \<Rightarrow> http_reply \<Rightarrow> (anchor_topology_error + topology_snapshot) option" where
  "snapshot_of_reply rd r =
     (if \<not> is_success (hr_status r) then Some (Err (parse_error_body rd (hr_status r) (unwrap_or [] (hr_text r))))
      else case hr_json r of
          Inl e \<Rightarrow> Some (Err (TopoReqwest e))
        | Inr caps \<Rightarrow> Option.bind (index_mut caps ''data'') (\<lambda>dat. Some
            (case as_array dat of
               Some (x # xs) \<Rightarrow> json_or_err (snapshot_from_value x)
             | _ \<Rightarrow> Err (TopoHttp 200 ''topology.snapshot: data array missing or empty''))))"

text \<open>\<open>post\<close> stands for the HTTP client: the URL, the accepted type and the body.\<close>

definition get_snapshot_with ::
    "(bytes \<Rightarrow> jvalue option) \<Rightarrow> (string \<Rightarrow> string \<Rightarrow> jvalue \<Rightarrow> string + http_reply) \<Rightarrow> anchor_client
      \<Rightarrow> string \<Rightarrow> string list \<Rightarrow> u8 \<Rightarrow> string option \<Rightarrow> (anchor_topology_error + topology_snapshot) option" where
  "get_snapshot_with rd post c scope incl depth target_nid =
     (case post (ac_base_url c @ ac_path_prefix c @ ''/query'') ''application/json''
             (snapshot_request_body scope incl depth target_nid) of
        Inl e \<Rightarrow> Some (Err (TopoReqwest e))
      | Inr r \<Rightarrow> snapshot_of_reply rd r)"

definition get_snapshot ::
    "(bytes \<Rightarrow> jvalue option) \<Rightarrow> (string \<Rightarrow> string \<Rightarrow> jvalue \<Rightarrow> string + http_reply) \<Rightarrow> anchor_client
      \<Rightarrow> (anchor_topology_error + topology_snapshot) option" where
  "get_snapshot rd post c = get_snapshot_with rd post c ''cluster'' [] 1 None"

definition stream_request_body :: "string \<Rightarrow> string \<Rightarrow> topology_filter option \<Rightarrow> u64 option \<Rightarrow> jvalue" where
  "stream_request_body stream_id scope flt since_version =
     JObject (bt_collect [(''type'', JString ''topology.stream''), (''action'', JString ''subscribe''),
       (''stream_id'', JString stream_id),
       (''topology'', JObject
          (bt_insert_opt ''since_version'' (map_option (\<lambda>n. jnat n) since_version)
          (bt_insert_opt ''filter'' (map_option filter_to_value flt) [(''scope'', JString scope)])))])"

text \<open>The answer to a subscription is a stream of chunks.\<close>

record stream_reply =
  sr_status :: nat
  sr_text :: "string option"
  sr_chunks :: "chunk list"

definition subscribe_with ::
    "(bytes \<Rightarrow> jvalue option) \<Rightarrow> (string \<Rightarrow> string \<Rightarrow> jvalue \<Rightarrow> string + stream_reply) \<Rightarrow> nat \<Rightarrow> anchor_client
      \<Rightarrow> string \<Rightarrow> topology_filter option \<Rightarrow> u64 option \<Rightarrow> anchor_topology_error + stream_item list" where
  "subscribe_with rd post now_nanos c scope flt since_version =
     (case post (ac_base_url c @ ac_path_prefix c @ ''/subscribe'') ''application/x-ndjson''
             (stream_request_body (''anc-'' @ show_nat now_nanos) scope flt since_version) of
        Inl e \<Rightarrow> Err (TopoReqwest e)
      | Inr r \<Rightarrow> if \<not> is_success (sr_status r) then Err (parse_error_body rd (sr_status r) (unwrap_or [] (sr_text r)))
                else Ok (parse_event_stream rd (sr_chunks r)))"

end
