(* ===== verification/Nwp_Reputation.thy ===== *)
theory Nwp_Reputation
  imports Nwp_Codes Nip_Reputation Nip_Frames
begin

text \<open>
  The reputation gate of a node: \<^verbatim>\<open>nps-nwp/src/reputation.rs\<close> and \<^verbatim>\<open>reputation_policy.rs\<close>. The policy, its
  rules and the evaluator with its cache of log entries and of bans. Times are seconds; the log is
  asked through the client of \<open>Nip_Reputation\<close>, the clock is an argument.
\<close>

section \<open>Policies\<close>

record reputation_rule =
  rr_incident :: string
  rr_severity :: string
  rr_within_days :: "u32 option"
  rr_count :: u32

record reputation_policy =
  rp_enabled :: bool
  rp_log_sources :: "string list"
  rp_min_assurance_level :: string
  rp_cache_ttl_seconds :: u32
  rp_ban_ttl_seconds :: u32
  rp_on_log_unavailable :: string
  rp_throttle_on :: "reputation_rule list"
  rp_reject_on :: "reputation_rule list"
  rp_ban_on :: "reputation_rule list"

text \<open>The defaults of the derived readers.\<close>

definition default_rule :: reputation_rule where
  "default_rule = \<lparr>rr_incident = ''*'', rr_severity = ''>=minor'', rr_within_days = None, rr_count = 1\<rparr>"

definition default_policy :: reputation_policy where
  "default_policy = \<lparr>rp_enabled = True, rp_log_sources = [], rp_min_assurance_level = ''anonymous'', rp_cache_ttl_seconds = 300,
     rp_ban_ttl_seconds = 3600, rp_on_log_unavailable = ''allow'', rp_throttle_on = [], rp_reject_on = [], rp_ban_on = []\<rparr>"

definition rule_to_value :: "reputation_rule \<Rightarrow> jvalue" where
  "rule_to_value r = JObject (bt_insert_opt ''within_days'' (map_option (\<lambda>n. jnat (ucast n)) (rr_within_days r)) (bt_collect
     [(''incident'', JString (rr_incident r)), (''severity'', JString (rr_severity r)), (''count'', jnat (ucast (rr_count r)))]))"

definition policy_to_value :: "reputation_policy \<Rightarrow> jvalue" where
  "policy_to_value p = JObject (bt_collect
     [(''enabled'', JBool (rp_enabled p)), (''log_sources'', jstrs (rp_log_sources p)),
      (''min_assurance_level'', JString (rp_min_assurance_level p)),
      (''cache_ttl_seconds'', jnat (ucast (rp_cache_ttl_seconds p))), (''ban_ttl_seconds'', jnat (ucast (rp_ban_ttl_seconds p))),
      (''on_log_unavailable'', JString (rp_on_log_unavailable p)),
      (''throttle_on'', JArray (map rule_to_value (rp_throttle_on p))), (''reject_on'', JArray (map rule_to_value (rp_reject_on p))),
      (''ban_on'', JArray (map rule_to_value (rp_ban_on p)))])"

section \<open>Decisions\<close>

datatype rep_outcome = RepAccept | RepThrottle | RepReject | RepBan

record reputation_decision =
  rd_outcome :: rep_outcome
  rd_matched_rule :: "reputation_rule option"
  rd_error_code :: "string option"

definition decision_accept :: reputation_decision where
  "decision_accept = \<lparr>rd_outcome = RepAccept, rd_matched_rule = None, rd_error_code = None\<rparr>"

definition is_accepted :: "reputation_decision \<Rightarrow> bool" where
  "is_accepted d \<longleftrightarrow> rd_outcome d = RepAccept"

definition decision :: "rep_outcome \<Rightarrow> reputation_rule option \<Rightarrow> string \<Rightarrow> reputation_decision" where
  "decision outcome matched_rule c = \<lparr>rd_outcome = outcome, rd_matched_rule = matched_rule, rd_error_code = Some c\<rparr>"

definition rep_reject :: "string \<Rightarrow> reputation_decision" where
  "rep_reject c = decision RepReject None c"

section \<open>Rules\<close>

definition severity_from_wire :: "string \<Rightarrow> severity option" where
  "severity_from_wire s = severity_from_str (to_ascii_lowercase s)"

definition incident_wire :: "log_entry \<Rightarrow> string" where
  "incident_wire e = (case (le_incident e, le_incident_raw e) of
       (Other, Some raw) \<Rightarrow> raw
     | _ \<Rightarrow> incident_to_wire (le_incident e))"

definition severity_threshold :: "reputation_rule \<Rightarrow> bool \<times> string" where
  "severity_threshold r = (let s = trim (rr_severity r) in
     case strip_prefix ''>='' s of Some rest \<Rightarrow> (True, trim rest) | None \<Rightarrow> (False, s))"

definition within_window :: "crypto \<Rightarrow> reputation_rule \<Rightarrow> log_entry \<Rightarrow> int \<Rightarrow> bool" where
  "within_window cr r e now =
     (case rr_within_days r of
        None \<Rightarrow> True
      | Some days \<Rightarrow>
          (case rfc3339_read cr (le_timestamp e) of
             None \<Rightarrow> False
           | Some t \<Rightarrow> \<not> now - t div 1000000000 > uint days * 86400))"

definition rule_matches :: "crypto \<Rightarrow> reputation_rule \<Rightarrow> log_entry \<Rightarrow> int \<Rightarrow> bool" where
  "rule_matches cr r e now =
     (if rr_incident r \<noteq> ''*'' \<and> \<not> eq_ignore_case (incident_wire e) (rr_incident r) then False
      else case severity_threshold r of (at_least, level_str) \<Rightarrow>
        (case severity_from_wire level_str of
           None \<Rightarrow> False
         | Some threshold \<Rightarrow>
             if at_least \<and> le_severity e < threshold then False
             else if \<not> at_least \<and> le_severity e \<noteq> threshold then False
             else within_window cr r e now))"

text \<open>The inner loop, with the entries matched so far.\<close>

fun rule_reached :: "crypto \<Rightarrow> reputation_rule \<Rightarrow> int \<Rightarrow> nat \<Rightarrow> nat \<Rightarrow> log_entry list \<Rightarrow> bool" where
  "rule_reached cr r now needed matched [] = False"
| "rule_reached cr r now needed matched (e # es) =
     (if \<not> rule_matches cr r e now then rule_reached cr r now needed matched es
      else if matched + 1 \<ge> needed then True
      else rule_reached cr r now needed (matched + 1) es)"

definition needed_of :: "reputation_rule \<Rightarrow> nat" where
  "needed_of r = (if rr_count r = 0 then 1 else unat (rr_count r))"

definition first_matching_rule :: "crypto \<Rightarrow> reputation_rule list \<Rightarrow> log_entry list \<Rightarrow> int \<Rightarrow> reputation_rule option" where
  "first_matching_rule cr rules entries now = find (\<lambda>r. rule_reached cr r now (needed_of r) 0 entries) rules"

section \<open>The evaluator\<close>

record rep_state =
  re_query_cache :: "(string \<times> (log_entry list \<times> int)) list"
  re_ban_cache :: "(string \<times> int) list"

definition rep_state_new :: rep_state where
  "rep_state_new = \<lparr>re_query_cache = [], re_ban_cache = []\<rparr>"

definition prime_cache :: "string \<Rightarrow> log_entry list \<Rightarrow> int \<Rightarrow> int \<Rightarrow> rep_state \<Rightarrow> rep_state" where
  "prime_cache nid entries ttl_seconds now s =
     s\<lparr>re_query_cache := AList.update nid (entries, now + ttl_seconds) (re_query_cache s)\<rparr>"

text \<open>The sources in order, up to the first that answers.\<close>

fun first_answer :: "(string \<Rightarrow> string + log_reply) \<Rightarrow> string \<Rightarrow> string list \<Rightarrow> log_entry list option" where
  "first_answer http nid [] = None"
| "first_answer http nid (source # sources) =
     (case log_query http source (Some nid) None of
        Inr results \<Rightarrow> Some results
      | Inl _ \<Rightarrow> first_answer http nid sources)"

definition fetch_entries ::
    "(string \<Rightarrow> string + log_reply) \<Rightarrow> string \<Rightarrow> reputation_policy \<Rightarrow> int \<Rightarrow> rep_state \<Rightarrow> (bool \<times> log_entry list) \<times> rep_state" where
  "fetch_entries http nid policy now s =
     (let cached = map_of (re_query_cache s) nid;
          fresh = (if rp_cache_ttl_seconds policy > 0
                   then (case cached of Some (entries, expiry) \<Rightarrow> if expiry > now then Some entries else None | None \<Rightarrow> None)
                   else None)
      in case fresh of
           Some entries \<Rightarrow> ((True, entries), s)
         | None \<Rightarrow>
             (case first_answer http nid (rp_log_sources policy) of
                Some results \<Rightarrow>
                  ((True, results),
                   if rp_cache_ttl_seconds policy > 0
                   then s\<lparr>re_query_cache := AList.update nid (results, now + uint (rp_cache_ttl_seconds policy)) (re_query_cache s)\<rparr>
                   else s)
              | None \<Rightarrow> ((False, case cached of Some (entries, _) \<Rightarrow> entries | None \<Rightarrow> []), s)))"

text \<open>Steps 4 to 7, on the entries.\<close>

definition decide_entries ::
    "crypto \<Rightarrow> string \<Rightarrow> reputation_policy \<Rightarrow> int \<Rightarrow> log_entry list \<Rightarrow> rep_state \<Rightarrow> reputation_decision \<times> rep_state" where
  "decide_entries cr requester_nid policy now entries s =
     (case first_matching_rule cr (rp_ban_on policy) entries now of
        Some rule \<Rightarrow>
          (decision RepBan (Some rule) REPUTATION_BANNED,
           s\<lparr>re_ban_cache := AList.update requester_nid (now + uint (rp_ban_ttl_seconds policy)) (re_ban_cache s)\<rparr>)
      | None \<Rightarrow>
          (case first_matching_rule cr (rp_reject_on policy) entries now of
             Some rule \<Rightarrow> (decision RepReject (Some rule) REPUTATION_REJECTED, s)
           | None \<Rightarrow>
               (case first_matching_rule cr (rp_throttle_on policy) entries now of
                  Some rule \<Rightarrow> (decision RepThrottle (Some rule) REPUTATION_THROTTLED, s)
                | None \<Rightarrow> (decision_accept, s))))"

definition min_level :: "reputation_policy \<Rightarrow> assurance_level" where
  "min_level policy = (case level_from_wire (rp_min_assurance_level policy) of Inr l \<Rightarrow> l | Inl _ \<Rightarrow> ANONYMOUS)"

definition ban_holds :: "rep_state \<Rightarrow> string \<Rightarrow> int \<Rightarrow> bool" where
  "ban_holds s nid now \<longleftrightarrow> (case map_of (re_ban_cache s) nid of Some expiry \<Rightarrow> expiry > now | None \<Rightarrow> False)"

definition rep_evaluate ::
    "crypto \<Rightarrow> (string \<Rightarrow> string + log_reply) \<Rightarrow> int \<Rightarrow> string \<Rightarrow> assurance_level \<Rightarrow> reputation_policy \<Rightarrow> rep_state
      \<Rightarrow> reputation_decision \<times> rep_state" where
  "rep_evaluate cr http now requester_nid assurance policy s0 =
     (if \<not> rp_enabled policy then (decision_accept, s0)
      else if \<not> meets_or_exceeds assurance (min_level policy) then (rep_reject AUTH_ASSURANCE_TOO_LOW, s0)
      else if ban_holds s0 requester_nid now then (decision RepBan None REPUTATION_BANNED, s0)
      else case fetch_entries http requester_nid policy now s0 of
          ((available, entries), s) \<Rightarrow>
            if \<not> available \<and> eq_ignore_case (rp_on_log_unavailable policy) ''deny''
            then (rep_reject NODE_UNAVAILABLE, s)
            else decide_entries cr requester_nid policy now entries s)"

section \<open>Rules as counts\<close>

definition match_count :: "crypto \<Rightarrow> reputation_rule \<Rightarrow> log_entry list \<Rightarrow> int \<Rightarrow> nat" where
  "match_count cr r es now = length (filter (\<lambda>e. rule_matches cr r e now) es)"

lemma rule_reached_iff:
  "matched < needed \<Longrightarrow> rule_reached cr r now needed matched es \<longleftrightarrow> needed \<le> matched + match_count cr r es now"
  by (induction es arbitrary: matched) (auto simp: match_count_def)

lemma rule_counts: "rule_reached cr r now (needed_of r) 0 es \<longleftrightarrow> needed_of r \<le> match_count cr r es now"
  by (subst rule_reached_iff) (simp_all add: needed_of_def unat_gt_0)

lemma first_matching_None:
  "first_matching_rule cr rules es now = None \<longleftrightarrow> (\<forall>r\<in>set rules. match_count cr r es now < needed_of r)"
  by (auto simp: first_matching_rule_def find_None_iff rule_counts not_le)

lemma decide_accepts:
  "is_accepted (fst (decide_entries cr nid policy now es s)) \<longleftrightarrow>
     first_matching_rule cr (rp_ban_on policy) es now = None \<and> first_matching_rule cr (rp_reject_on policy) es now = None
     \<and> first_matching_rule cr (rp_throttle_on policy) es now = None"
  by (simp add: decide_entries_def is_accepted_def decision_accept_def decision_def split: option.splits)

text \<open>The gate accepts exactly when the policy is disabled, or the caller has the assurance level, is not
  banned, the log (or its cache) could be read where the policy demands it, and no rule of the three lists has as many
  matching entries as it asks for.\<close>

theorem gate_accepts_iff:
  assumes "fetch_entries http nid policy now s = ((available, entries), s')"
  shows "is_accepted (fst (rep_evaluate cr http now nid assurance policy s)) \<longleftrightarrow>
    \<not> rp_enabled policy
    \<or> (meets_or_exceeds assurance (min_level policy) \<and> \<not> ban_holds s nid now
       \<and> (available \<or> \<not> eq_ignore_case (rp_on_log_unavailable policy) ''deny'')
       \<and> (\<forall>r \<in> set (rp_ban_on policy) \<union> set (rp_reject_on policy) \<union> set (rp_throttle_on policy).
            match_count cr r entries now < needed_of r))"
proof -
  have other: "\<not> is_accepted (rep_reject c)" "\<not> is_accepted (decision RepBan r c)" "is_accepted decision_accept" for c r
    by (simp_all add: is_accepted_def rep_reject_def decision_def decision_accept_def)
  show ?thesis by (auto simp: rep_evaluate_def assms decide_accepts first_matching_None other)
qed

section \<open>Bans\<close>









section \<open>Witnesses\<close>

definition demo_ban_policy :: reputation_policy where
  "demo_ban_policy = default_policy\<lparr>rp_ban_on := [default_rule]\<rparr>"

definition demo_rep_entry :: log_entry where
  "demo_rep_entry = \<lparr>le_v = 1, le_log_id = [], le_seq = 0, le_timestamp = ''t'', le_subject_nid = ''n'', le_incident = ScrapingPattern,
     le_incident_raw = None, le_severity = Major, le_window = None, le_observation = None, le_evidence_ref = None,
     le_evidence_sha256 = None, le_issuer_nid = [], le_signature = []\<rparr>"

definition demo_rep_state :: rep_state where
  "demo_rep_state = prime_cache ''n'' [demo_rep_entry] 100 0 rep_state_new"

lemma demo_fetch: "fetch_entries (\<lambda>u. Inl ''down'') ''n'' demo_ban_policy 1 demo_rep_state = ((True, [demo_rep_entry]), demo_rep_state)"
  by (simp add: fetch_entries_def demo_rep_state_def prime_cache_def rep_state_new_def demo_ban_policy_def default_policy_def)

lemma demo_rule: "rule_matches plain_crypto default_rule demo_rep_entry 1"
  by (simp add: rule_matches_def default_rule_def severity_threshold_def trim_def trim_start_def trim_end_def is_whitespace_def
      strip_prefix_def severity_from_wire_def severity_from_str_def to_ascii_lowercase_def to_ascii_lower_def demo_rep_entry_def
      less_severity_def within_window_def)

theorem gate_accepts_iff_witness:
  "\<not> is_accepted (fst (rep_evaluate plain_crypto (\<lambda>u. Inl ''down'') 1 ''n'' ANONYMOUS demo_ban_policy demo_rep_state))"
proof -
  have "rp_enabled demo_ban_policy" "default_rule \<in> set (rp_ban_on demo_ban_policy)"
    by (simp_all add: demo_ban_policy_def default_policy_def)
  moreover have "\<not> match_count plain_crypto default_rule [demo_rep_entry] 1 < needed_of default_rule"
    by (simp add: match_count_def demo_rule needed_of_def) (simp add: default_rule_def)
  ultimately show ?thesis unfolding gate_accepts_iff [OF demo_fetch] by blast
qed



end
