(* ===== verification/Nwp_Anchor.thy ===== *)
theory Nwp_Anchor
  imports Nwp_Topology Nwp_Reputation
begin

text \<open>
  The anchor node: \<^verbatim>\<open>nps-nwp/src/anchor_server.rs\<close>, from the request to the response.

  The host around a node is the record \<open>anchor_host\<close>: the invoke handler and the rate limiter change a
  state of the host, the topology service is asked. \<open>rd\<close> reads JSON text and tells its error, clocks
  are arguments. An em dash in a message is written as a hyphen.
\<close>

section \<open>Requests and responses\<close>

record anchor_request =
  aq_method :: string
  aq_path :: string
  aq_headers :: "(string \<times> string) list"
  aq_body :: bytes

definition request_new :: "string \<Rightarrow> string \<Rightarrow> anchor_request" where
  "request_new m path = \<lparr>aq_method = m, aq_path = path, aq_headers = [], aq_body = []\<rparr>"

definition with_header :: "string \<Rightarrow> string \<Rightarrow> anchor_request \<Rightarrow> anchor_request" where
  "with_header name v q = q\<lparr>aq_headers := AList.update (to_ascii_lowercase name) v (aq_headers q)\<rparr>"

definition req_header :: "anchor_request \<Rightarrow> string \<Rightarrow> string option" where
  "req_header q name = map_of (aq_headers q) (to_ascii_lowercase name)"

record anchor_response =
  ap_status :: nat
  ap_headers :: "(string \<times> string) list"
  ap_body :: bytes

definition resp_header :: "anchor_response \<Rightarrow> string \<Rightarrow> string option" where
  "resp_header r name = map_option snd (find (\<lambda>(k, v). eq_ignore_case k name) (ap_headers r))"

section \<open>Options and hooks\<close>

record anchor_action_spec =
  as_description :: "string option"
  as_params_anchor :: "string option"
  as_result_anchor :: "string option"
  as_estimated_cgn :: "u32 option"
  as_timeout_ms_default :: "u32 option"
  as_timeout_ms_max :: "u32 option"
  as_required_capability :: "string option"
  as_async :: bool

record anchor_options =
  an_node_id :: string
  an_path_prefix :: string
  an_actions :: "(string \<times> anchor_action_spec) list"
  an_display_name :: "string option"
  an_require_auth :: bool
  an_required_capabilities :: "string list option"
  an_require_topology_capability :: bool
  an_default_timeout_ms :: u32
  an_max_timeout_ms :: u32
  an_default_token_budget :: u32
  an_cgn_limit :: u32
  an_assurance_hint_url :: "string option"
  an_reputation_policy :: "reputation_policy option"
  an_trust_anchors :: "string list option"
  an_rate_limits :: "jvalue option"
  an_auto_inject_trace_context :: bool

definition anchor_options_new :: "string \<Rightarrow> string \<Rightarrow> anchor_options" where
  "anchor_options_new node_id path_prefix =
     \<lparr>an_node_id = node_id, an_path_prefix = path_prefix, an_actions = [], an_display_name = None, an_require_auth = True,
      an_required_capabilities = None, an_require_topology_capability = False, an_default_timeout_ms = 30000,
      an_max_timeout_ms = 300000, an_default_token_budget = 0, an_cgn_limit = 0, an_assurance_hint_url = None,
      an_reputation_policy = None, an_trust_anchors = None, an_rate_limits = None, an_auto_inject_trace_context = True\<rparr>"

record invoke_context =
  iv_agent_nid :: "string option"
  iv_effective_timeout_ms :: u32
  iv_budget_cgn :: u32
  iv_trace_id :: "string option"
  iv_span_id :: "string option"

record anchor_action_error =
  ae_http_status :: nat
  ae_nps_status :: string
  ae_error_code :: string
  ae_message :: string
  ae_details :: "jvalue option"

record rate_decision =
  ra_allowed :: bool
  ra_retry_after_seconds :: "u32 option"
  ra_reason :: "string option"

definition rate_allow :: rate_decision where
  "rate_allow = \<lparr>ra_allowed = True, ra_retry_after_seconds = None, ra_reason = None\<rparr>"

record anchor_snapshot_request =
  sq_scope :: string
  sq_include :: "string list"
  sq_depth :: u8
  sq_target_nid :: "string option"

record anchor_stream_request =
  tq_scope :: string
  tq_filter :: "topology_filter option"
  tq_since_version :: "u64 option"

record topology_service =
  tv_anchor_nid :: string
  tv_get_snapshot :: "anchor_snapshot_request \<Rightarrow> topology_snapshot"
  tv_subscribe :: "anchor_stream_request \<Rightarrow> topology_event list"

record in_memory_topology =
  im_nid :: string
  im_members :: "member_info list"
  im_version :: u64
  im_events :: "topology_event list"
  im_cluster_epoch :: "u64 option"

definition in_memory_snapshot :: "in_memory_topology \<Rightarrow> anchor_snapshot_request \<Rightarrow> topology_snapshot" where
  "in_memory_snapshot t q =
     \<lparr>ts_version = im_version t, ts_anchor_nid = im_nid t, ts_cluster_size = of_nat (length (im_members t)),
      ts_members = (if ''members'' \<in> set (sq_include q) then im_members t else []), ts_truncated = None,
      ts_cluster_epoch = im_cluster_epoch t\<rparr>"

definition in_memory_service :: "in_memory_topology \<Rightarrow> topology_service" where
  "in_memory_service t = \<lparr>tv_anchor_nid = im_nid t, tv_get_snapshot = in_memory_snapshot t, tv_subscribe = (\<lambda>q. im_events t)\<rparr>"

record 'w anchor_host =
  ho_handler :: "(string \<Rightarrow> jvalue option \<Rightarrow> invoke_context \<Rightarrow> 'w \<Rightarrow> (anchor_action_error + jvalue) \<times> 'w) option"
  ho_try_acquire :: "string \<Rightarrow> u32 \<Rightarrow> 'w \<Rightarrow> rate_decision \<times> 'w"
  ho_release :: "string \<Rightarrow> 'w \<Rightarrow> 'w"
  ho_topology :: "topology_service option"
  ho_evaluator :: bool

text \<open>\<open>AllowAllRateLimiter\<close>.\<close>

definition allow_all_acquire :: "string \<Rightarrow> u32 \<Rightarrow> 'w \<Rightarrow> rate_decision \<times> 'w" where
  "allow_all_acquire key cost w = (rate_allow, w)"

definition allow_all_release :: "string \<Rightarrow> 'w \<Rightarrow> 'w" where
  "allow_all_release key w = w"

section \<open>Responses\<close>

definition to_body :: "crypto \<Rightarrow> jvalue \<Rightarrow> bytes" where
  "to_body cr v = utf8 (json_text cr v)"

definition empty_response :: "nat \<Rightarrow> anchor_response" where
  "empty_response status = \<lparr>ap_status = status, ap_headers = [], ap_body = []\<rparr>"

definition error_resp :: "crypto \<Rightarrow> nat \<Rightarrow> string \<Rightarrow> string \<Rightarrow> string \<Rightarrow> jvalue option \<Rightarrow> (string \<times> string) list \<Rightarrow> anchor_response" where
  "error_resp cr status nps_status error_code message details extra =
     \<lparr>ap_status = status, ap_headers = (''content-type'', ''application/json'') # extra,
      ap_body = to_body cr (JObject (bt_insert_opt ''details'' details (bt_collect
        [(''status'', JString nps_status), (''error'', JString error_code), (''message'', JString message)])))\<rparr>"

text \<open>The module has its own error record for the topology requests.\<close>

definition topology_error_resp :: "crypto \<Rightarrow> topology_protocol_error \<Rightarrow> anchor_response" where
  "topology_error_resp cr e =
     error_resp cr (if tpe_nps_status e = ''NPS-AUTH-FORBIDDEN'' then 403 else 400) (tpe_nps_status e) (tpe_nwp_error_code e)
       (tpe_message e) None []"

definition node_type_header :: "string \<times> string" where
  "node_type_header = (to_ascii_lowercase NODE_TYPE, ''anchor'')"

section \<open>Reading a request\<close>

definition clamp_timeout :: "u32 \<Rightarrow> anchor_action_spec \<Rightarrow> anchor_options \<Rightarrow> u32" where
  "clamp_timeout requested spec opt =
     (let spec_max = unwrap_or (an_max_timeout_ms opt) (as_timeout_ms_max spec);
          hard_max = min spec_max (an_max_timeout_ms opt)
      in if requested = 0 then unwrap_or (an_default_timeout_ms opt) (as_timeout_ms_default spec) else min requested hard_max)"

definition read_effective_budget :: "anchor_request \<Rightarrow> anchor_options \<Rightarrow> u32" where
  "read_effective_budget req opt =
     (let agent_budget = unwrap_or (an_default_token_budget opt) (Option.bind (req_header req BUDGET) parse_u32);
          cgn_limit = an_cgn_limit opt
      in if cgn_limit = 0 then agent_budget else if agent_budget = 0 then cgn_limit else min cgn_limit agent_budget)"

definition extract_ident_assurance :: "(bytes \<Rightarrow> string + jvalue) \<Rightarrow> anchor_request \<Rightarrow> assurance_level" where
  "extract_ident_assurance rd req =
     (case req_header req IDENT of
        None \<Rightarrow> ANONYMOUS
      | Some raw \<Rightarrow>
          if raw = [] then ANONYMOUS
          else (case rd (utf8 raw) of
              Inl _ \<Rightarrow> ANONYMOUS
            | Inr doc \<Rightarrow>
                (case str_at doc ''assurance_level'' of
                   None \<Rightarrow> ANONYMOUS
                 | Some lvl \<Rightarrow> (case level_from_wire lvl of Inr a \<Rightarrow> a | Inl _ \<Rightarrow> ANONYMOUS))))"

definition bad_topology :: "string \<Rightarrow> string \<Rightarrow> topology_protocol_error" where
  "bad_topology c message = \<lparr>tpe_nwp_error_code = c, tpe_nps_status = ''NPS-CLIENT-BAD-PARAM'', tpe_message = message\<rparr>"

definition parse_scope :: "frame_dict \<Rightarrow> topology_protocol_error + string" where
  "parse_scope topo =
     (case opt_str topo ''scope'' of
        None \<Rightarrow> Ok ''cluster''
      | Some s \<Rightarrow> if s = [] \<or> s = ''cluster'' then Ok ''cluster'' else if s = ''member'' then Ok ''member''
          else Err (bad_topology TOPOLOGY_UNSUPPORTED_SCOPE (''unknown topology.scope '' @ quoted s @ ''.'')))"

definition parse_include :: "frame_dict \<Rightarrow> string list" where
  "parse_include topo =
     (let known = [''members'', ''capabilities'', ''tags'', ''metrics''];
          out = (case get_array topo ''include'' of
              None \<Rightarrow> []
            | Some arr \<Rightarrow> filter (\<lambda>s. s \<in> set known) (str_items arr))
      in if out = [] then [''members''] else out)"

definition parse_depth :: "frame_dict \<Rightarrow> u8" where
  "parse_depth topo = (case opt_u64 topo ''depth'' of Some d \<Rightarrow> if d > 0 then ucast d else 1 | None \<Rightarrow> 1)"

fun validate_filter_keys :: "string list \<Rightarrow> topology_protocol_error + unit" where
  "validate_filter_keys [] = Ok ()"
| "validate_filter_keys (key # ks) =
     (if key \<in> {''tags_any'', ''tags_all'', ''node_roles''} then validate_filter_keys ks
      else if key = ''node_kind''
      then Err (bad_topology TOPOLOGY_FILTER_UNSUPPORTED ''topology.filter.node_kind expired after alpha.5; use node_roles.'')
      else Err (bad_topology TOPOLOGY_FILTER_UNSUPPORTED (''topology.filter key '' @ quoted key @ '' is not recognized.'')))"

definition missing_topology :: "string \<Rightarrow> string \<Rightarrow> topology_protocol_error" where
  "missing_topology what par =
     bad_topology TOPOLOGY_UNSUPPORTED_SCOPE (what @ '' requires a '' @ quoted ''topology'' @ '' object per NPS-2 '' @ [CHR 0xA7] @ par)"

definition parse_snapshot_request :: "jvalue \<Rightarrow> topology_protocol_error + anchor_snapshot_request" where
  "parse_snapshot_request body =
     try_res (ok_or (missing_topology ''topology.snapshot'' ''12.1.'') (Option.bind (jget body ''topology'') as_object)) (\<lambda>topo.
     try_res (parse_scope topo) (\<lambda>scope.
       let target_nid = opt_str topo ''target_nid''
       in if scope = ''member'' \<and> unwrap_or [] target_nid = []
          then Err (bad_topology TOPOLOGY_UNSUPPORTED_SCOPE
                 (''topology.target_nid is required when topology.scope = '' @ [CHR 0x22] @ ''member'' @ [CHR 0x22] @ ''.''))
          else Ok \<lparr>sq_scope = scope, sq_include = parse_include topo, sq_depth = parse_depth topo, sq_target_nid = target_nid\<rparr>))"

definition parse_stream_request :: "string \<Rightarrow> jvalue \<Rightarrow> topology_protocol_error + anchor_stream_request \<times> string" where
  "parse_stream_request fresh_id body =
     try_res (ok_or (missing_topology ''topology.stream'' ''12.2.'') (Option.bind (jget body ''topology'') as_object)) (\<lambda>topo.
     try_res (parse_scope topo) (\<lambda>scope.
     try_res (case opt_object topo ''filter'' of
         None \<Rightarrow> Ok None
       | Some f \<Rightarrow> try_res (validate_filter_keys (map fst f)) (\<lambda>_. Ok (filter_from_value (JObject f)))) (\<lambda>flt.
       let since = (case opt_u64 topo ''since_version'' of Some v \<Rightarrow> Some v | None \<Rightarrow> Option.bind (jget body ''resume_from_seq'') as_u64);
           stream_id = (case str_at body ''stream_id'' of Some s \<Rightarrow> if s \<noteq> [] then s else fresh_id | None \<Rightarrow> fresh_id)
       in Ok (\<lparr>tq_scope = scope, tq_filter = flt, tq_since_version = since\<rparr>, stream_id))))"

section \<open>Documents\<close>

definition action_entry :: "string \<Rightarrow> anchor_action_spec \<Rightarrow> jvalue" where
  "action_entry action_id spec = JObject
     (bt_insert_opt ''required_capability'' (map_option JString (as_required_capability spec))
     (bt_insert_opt ''timeout_ms_max'' (map_option (\<lambda>n. jnat (ucast n)) (as_timeout_ms_max spec))
     (bt_insert_opt ''timeout_ms_default'' (map_option (\<lambda>n. jnat (ucast n)) (as_timeout_ms_default spec))
     (bt_insert_opt ''cgn_est'' (map_option (\<lambda>n. jnat (ucast n)) (as_estimated_cgn spec))
     (bt_insert_opt ''result_anchor'' (map_option JString (as_result_anchor spec))
     (bt_insert_opt ''params_anchor'' (map_option JString (as_params_anchor spec))
     (bt_insert_opt ''description'' (map_option JString (as_description spec))
     (bt_collect [(''action_id'', JString action_id), (''async'', JBool (as_async spec))]))))))))"

definition actions_map :: "anchor_options \<Rightarrow> (string, jvalue) btree" where
  "actions_map opt = bt_collect (map (\<lambda>(action_id, spec). (action_id, action_entry action_id spec)) (an_actions opt))"

definition build_manifest :: "anchor_options \<Rightarrow> string \<Rightarrow> jvalue" where
  "build_manifest opt prefix =
     (let m = bt_collect [(''nwp'', JString ''0.4''), (''node_id'', JString (an_node_id opt)), (''node_type'', JString ''anchor'')];
          m = bt_insert_opt ''display_name'' (map_option JString (an_display_name opt)) m;
          m = bt_insert ''wire_formats'' (jstrs [''ncp-capsule'', ''json'']) m;
          m = bt_insert ''preferred_format'' (JString ''json'') m;
          m = bt_insert ''capabilities'' (JObject (bt_collect [(''query'', JBool False), (''stream'', JBool False), (''subscribe'', JBool False),
                (''vector_search'', JBool False), (''token_budget_hint'', JBool True), (''ext_frame'', JBool False)])) m;
          auth = bt_insert_opt ''required_capabilities'' (map_option (\<lambda>rc. jstrs rc) (an_required_capabilities opt))
                (bt_collect [(''required'', JBool (an_require_auth opt)),
                   (''identity_type'', JString (if an_require_auth opt then ''nip-cert'' else ''none''))]);
          m = bt_insert ''auth'' (JObject auth) m;
          m = bt_insert ''endpoints'' (JObject (bt_collect [(''invoke'', JString (prefix @ ''/invoke'')), (''schema'', JString (prefix @ ''/.schema''))])) m;
          m = bt_insert_opt ''token_budget'' (if an_cgn_limit opt > 0
                then Some (JObject (bt_collect [(''cgn_limit'', jnat (ucast (an_cgn_limit opt))), (''profile'', JString ''cgn.v1'')])) else None) m;
          m = bt_insert_opt ''rate_limits'' (an_rate_limits opt) m;
          m = bt_insert_opt ''reputation_policy'' (case an_reputation_policy opt of
                Some rp \<Rightarrow> if rp_enabled rp then Some (policy_to_value rp) else None | None \<Rightarrow> None) m;
          m = bt_insert_opt ''trust_anchors'' (case an_trust_anchors opt of
                Some ta \<Rightarrow> if ta \<noteq> [] then Some (jstrs ta) else None | None \<Rightarrow> None) m
      in JObject (bt_insert ''actions'' (JArray (map snd (actions_map opt))) m))"

section \<open>Events\<close>

definition event_parts :: "topology_event \<Rightarrow> string \<times> u64 option \<times> jvalue" where
  "event_parts ev = (case ev of
       MemberJoined version member \<Rightarrow> (''member_joined'', Some version, member_to_value member)
     | MemberLeft version nid \<Rightarrow> (''member_left'', Some version, JObject [(''nid'', JString nid)])
     | MemberUpdated version nid changes \<Rightarrow>
         (''member_updated'', Some version, JObject (bt_collect [(''nid'', JString nid), (''changes'', changes_to_value changes)]))
     | AnchorState version field details \<Rightarrow>
         (''anchor_state'', Some version, JObject (bt_collect [(''field'', JString field), (''details'', null_or id details)]))
     | ResyncRequired reason \<Rightarrow> (''resync_required'', None, JObject [(''reason'', JString reason)]))"

definition event_to_envelope :: "crypto \<Rightarrow> string \<Rightarrow> string \<Rightarrow> topology_event \<Rightarrow> jvalue" where
  "event_to_envelope cr now_text stream_id ev =
     (case event_parts ev of (event_type, sq, payload) \<Rightarrow>
        let raw_len = length (to_body cr payload);
            cgn_est = max (raw_len div 4) 1
        in JObject (bt_insert_opt ''seq'' (map_option (\<lambda>n. jnat n) sq) (bt_collect
             [(''stream_id'', JString stream_id), (''event_type'', JString event_type), (''timestamp'', JString now_text),
              (''payload'', payload), (''cgn_est'', jnat (of_nat cgn_est))])))"

text \<open>The loop over the events, which ends after the first resync.\<close>

fun event_lines :: "crypto \<Rightarrow> string \<Rightarrow> string \<Rightarrow> topology_event list \<Rightarrow> string" where
  "event_lines cr now_text stream_id [] = []"
| "event_lines cr now_text stream_id (ev # evs) =
     json_text cr (event_to_envelope cr now_text stream_id ev) @ [CHR 0x0A]
     @ (if is_resync ev then [] else event_lines cr now_text stream_id evs)"

definition ack_value :: "string \<Rightarrow> anchor_stream_request \<Rightarrow> jvalue" where
  "ack_value stream_id q = JObject (bt_collect [(''kind'', JString ''ack''), (''stream_id'', JString stream_id),
     (''status'', JString ''subscribed''), (''last_seq'', jnat 0), (''resumed'', JBool (tq_since_version q \<noteq> None))])"

end
