(* ===== verification/Nwp_Anchor_Server.thy ===== *)
theory Nwp_Anchor_Server
  imports Nwp_Anchor
begin

text \<open>
  The handlers of \<open>AnchorNodeApp\<close> in \<^verbatim>\<open>nps-nwp/src/anchor_server.rs\<close>. An early return is the left of a sum.
  The state of a node is the evaluator, the counter of generated identifiers and the state of the host.
\<close>

record anchor_env =
  av_cr :: crypto
  av_rd :: "bytes \<Rightarrow> string + jvalue"
  av_nanos :: "u64 \<Rightarrow> u64"
  av_seconds :: int
  av_text :: string
  av_http :: "string \<Rightarrow> string + log_reply"

record 'w node_state =
  ns_rep :: rep_state
  ns_counter :: u64
  ns_world :: 'w

text \<open>\<open>gen_hex\<close>: the clock and the counter in sixteen digits each, cut off; the counter has moved on.\<close>

definition gen_hex :: "anchor_env \<Rightarrow> nat \<Rightarrow> u64 \<Rightarrow> string \<times> u64" where
  "gen_hex env n_bytes c = (take (n_bytes * 2) (hex16 (av_nanos env c) @ hex16 c), c + 1)"

definition ok_headers :: "string \<Rightarrow> (string \<times> string) list" where
  "ok_headers mime = [(''content-type'', mime), node_type_header]"

section \<open>Topology\<close>

definition has_topology_read :: "anchor_request \<Rightarrow> bool" where
  "has_topology_read req \<longleftrightarrow>
     (\<exists>c\<in>set (split_char CHR '','' (unwrap_or [] (req_header req CAPABILITIES))). eq_ignore_case (trim c) ''topology:read'')"

definition check_topology_capability :: "crypto \<Rightarrow> anchor_options \<Rightarrow> anchor_request \<Rightarrow> anchor_response option" where
  "check_topology_capability cr opt req =
     (if \<not> an_require_topology_capability opt then None
      else if has_topology_read req then None
      else Some (error_resp cr 403 ''NPS-AUTH-FORBIDDEN'' TOPOLOGY_UNAUTHORIZED
        (''Caller must declare '' @ quoted ''topology:read'' @ '' in X-NWP-Capabilities to access topology endpoints.'') None []))"

text \<open>The check of the reserved type, shared by the two endpoints.\<close>

definition reserved_type :: "crypto \<Rightarrow> string \<Rightarrow> string \<Rightarrow> string \<Rightarrow> jvalue \<Rightarrow> anchor_response + unit" where
  "reserved_type cr endpoint kind expected body =
     (if str_at body ''type'' = Some expected then Ok ()
      else Err (error_resp cr 501 ''NPS-SERVER-UNSUPPORTED'' RESERVED_TYPE_UNSUPPORTED
        (case str_at body ''type'' of
           None \<Rightarrow> ''Anchor '' @ endpoint @ '' requires a reserved type per NPS-2 '' @ [CHR 0xA7] @ ''12.''
         | Some t \<Rightarrow> ''Reserved '' @ kind @ '' type '' @ quoted t @ '' is not implemented by this Anchor Node.'') None []))"

definition no_topology :: "crypto \<Rightarrow> string \<Rightarrow> anchor_response" where
  "no_topology cr what = error_resp cr 501 ''NPS-SERVER-UNSUPPORTED'' NODE_UNAVAILABLE
     (what @ '' is not available - no topology service registered.'') None []"

definition bad_json :: "crypto \<Rightarrow> string \<Rightarrow> string \<Rightarrow> anchor_response" where
  "bad_json cr c e = error_resp cr 400 ''NPS-CLIENT-BAD-REQUEST'' c e None []"

fun map_err :: "('e \<Rightarrow> 'f) \<Rightarrow> 'e + 'a \<Rightarrow> 'f + 'a" where
  "map_err f (Inl e) = Inl (f e)"
| "map_err f (Inr x) = Inr x"

text \<open>Both arms of a handler are responses.\<close>

definition either :: "'r + 'r \<Rightarrow> 'r" where
  "either r = (case r of Inl x \<Rightarrow> x | Inr x \<Rightarrow> x)"

definition some_err :: "'e option \<Rightarrow> 'e + unit" where
  "some_err x = (case x of Some e \<Rightarrow> Err e | None \<Rightarrow> Ok ())"

definition SNAPSHOT_ANCHOR_REF :: string where "SNAPSHOT_ANCHOR_REF = ''nps:system:topology:snapshot''"

definition snapshot_capsule :: "crypto \<Rightarrow> topology_snapshot \<Rightarrow> anchor_response" where
  "snapshot_capsule cr snap =
     \<lparr>ap_status = 200, ap_headers = ok_headers MIME_CAPSULE @ [(to_ascii_lowercase SCHEMA, SNAPSHOT_ANCHOR_REF)],
      ap_body = to_body cr (JObject (bt_collect [(''anchor_ref'', JString SNAPSHOT_ANCHOR_REF), (''count'', jnat 1),
        (''data'', JArray [snapshot_to_value snap])]))\<rparr>"

definition handle_query :: "anchor_env \<Rightarrow> anchor_options \<Rightarrow> 'w anchor_host \<Rightarrow> anchor_request \<Rightarrow> anchor_response" where
  "handle_query env opt host req =
     (let cr = av_cr env in either
       (try_res (some_err (check_topology_capability cr opt req)) (\<lambda>_.
        try_res (map_err (bad_json cr QUERY_FILTER_INVALID) (av_rd env (aq_body req))) (\<lambda>body.
        try_res (reserved_type cr ''/query'' ''query'' ''topology.snapshot'' body) (\<lambda>_.
        try_res (ok_or (no_topology cr ''topology.snapshot'') (ho_topology host)) (\<lambda>topology.
        try_res (map_err (topology_error_resp cr) (parse_snapshot_request body)) (\<lambda>request.
          Ok (snapshot_capsule cr (tv_get_snapshot topology request)))))))))"

text \<open>With the counter: an identifier is generated when the request names none.\<close>

definition stream_response :: "anchor_env \<Rightarrow> topology_service \<Rightarrow> anchor_stream_request \<Rightarrow> string \<Rightarrow> anchor_response" where
  "stream_response env topology request stream_id =
     (let cr = av_cr env
      in \<lparr>ap_status = 200, ap_headers = ok_headers MIME_CAPSULE,
          ap_body = utf8 (json_text cr (ack_value stream_id request) @ [CHR 0x0A]
            @ event_lines cr (av_text env) stream_id (tv_subscribe topology request))\<rparr>)"

definition handle_subscribe ::
    "anchor_env \<Rightarrow> anchor_options \<Rightarrow> 'w anchor_host \<Rightarrow> anchor_request \<Rightarrow> u64 \<Rightarrow> anchor_response \<times> u64" where
  "handle_subscribe env opt host req counter =
     (let cr = av_cr env; (fresh, moved) = gen_hex env 16 counter
      in case (try_res (some_err (check_topology_capability cr opt req)) (\<lambda>_.
        try_res (map_err (bad_json cr QUERY_FILTER_INVALID) (av_rd env (aq_body req))) (\<lambda>body.
        try_res (reserved_type cr ''/subscribe'' ''subscribe'' ''topology.stream'' body) (\<lambda>_.
        try_res (ok_or (no_topology cr ''topology.stream'') (ho_topology host)) (\<lambda>topology.
        try_res (map_err (topology_error_resp cr) (parse_stream_request fresh body)) (\<lambda>(request, stream_id).
          Ok (stream_response env topology request stream_id,
              if unwrap_or [] (str_at body ''stream_id'') \<noteq> [] then counter else moved))))))) of
           Inl r \<Rightarrow> (r, counter)
         | Inr (r, c) \<Rightarrow> (r, c))"

section \<open>Invocation\<close>

definition matched_details :: "reputation_rule option \<Rightarrow> jvalue option" where
  "matched_details matched = map_option (\<lambda>r. JObject (bt_collect
     [(''matched_incident'', JString (rr_incident r)), (''matched_severity'', JString (rr_severity r))])) matched"

definition matched_text :: "string \<Rightarrow> string \<Rightarrow> string \<Rightarrow> reputation_rule option \<Rightarrow> string" where
  "matched_text what rest otherwise matched = (case matched of
       Some r \<Rightarrow> ''Request '' @ what @ '': '' @ rr_incident r @ '' ('' @ rr_severity r @ '')'' @ rest
     | None \<Rightarrow> otherwise)"

definition apply_reputation ::
    "crypto \<Rightarrow> anchor_options \<Rightarrow> reputation_decision \<Rightarrow> reputation_policy \<Rightarrow> assurance_level \<Rightarrow> anchor_response option" where
  "apply_reputation cr opt d policy assurance =
     (let m = rd_matched_rule d in case rd_outcome d of
        RepAccept \<Rightarrow> None
      | RepBan \<Rightarrow> Some (error_resp cr 403 ''NPS-AUTH-FORBIDDEN'' REPUTATION_BANNED
          (matched_text ''rejected'' '' - NID temporarily banned.'' ''Request rejected: NID temporarily banned.'' m) (matched_details m) [])
      | RepReject \<Rightarrow>
          if rd_error_code d = Some AUTH_ASSURANCE_TOO_LOW
          then Some (error_resp cr 403 ''NPS-AUTH-FORBIDDEN'' AUTH_ASSURANCE_TOO_LOW
            (''Assurance level too low: requires '' @ quoted (rp_min_assurance_level policy) @ '', caller declared ''
             @ quoted (al_wire assurance) @ ''.'')
            (Some (JObject (bt_collect [(''matched_incident'', JNull), (''hint'', null_or JString (an_assurance_hint_url opt))]))) [])
          else Some (error_resp cr 403 ''NPS-AUTH-FORBIDDEN'' REPUTATION_REJECTED
            (matched_text ''rejected'' ''.'' ''Request rejected by reputation policy.'' m) (matched_details m) [])
      | RepThrottle \<Rightarrow> Some (error_resp cr 429 ''NPS-CLIENT-RATE-LIMITED'' REPUTATION_THROTTLED
          (matched_text ''rate-limited'' ''.'' ''Request rate-limited by reputation policy.'' m) (matched_details m)
          [(''retry-after'', ''60'')]))"

definition invoke_target :: "anchor_env \<Rightarrow> anchor_options \<Rightarrow> anchor_request \<Rightarrow> anchor_response + jvalue \<times> string \<times> anchor_action_spec \<times> bool" where
  "invoke_target env opt req =
     (let cr = av_cr env
      in try_res (map_err (bad_json cr ACTION_PARAMS_INVALID) (av_rd env (aq_body req))) (\<lambda>body.
         let action_id = unwrap_or [] (str_at body ''action_id'')
         in if action_id = []
         then Err (error_resp cr 400 ''NPS-CLIENT-BAD-REQUEST'' ACTION_PARAMS_INVALID ''invalid ActionFrame: missing action_id.'' None [])
         else try_res (ok_or (error_resp cr 404 ''NPS-CLIENT-NOT-FOUND'' ACTION_NOT_FOUND
                (''Unknown action_id '' @ quoted action_id @ ''.'') None []) (map_of (an_actions opt) action_id)) (\<lambda>spec.
           let is_async = unwrap_or False (Option.bind (jget body ''async'') as_bool)
           in if is_async \<and> \<not> as_async spec
           then Err (error_resp cr 400 ''NPS-CLIENT-BAD-REQUEST'' ACTION_PARAMS_INVALID
             (''action '' @ quoted action_id @ '' does not support async execution.'') None [])
           else Ok (body, action_id, spec, is_async))))"

text \<open>The reputation gate asks the evaluator when there are a policy that is enabled and an evaluator.\<close>

definition reputation_gate ::
    "anchor_env \<Rightarrow> anchor_options \<Rightarrow> 'w anchor_host \<Rightarrow> string option \<Rightarrow> assurance_level \<Rightarrow> rep_state \<Rightarrow> anchor_response option \<times> rep_state" where
  "reputation_gate env opt host agent_nid assurance rs =
     (case an_reputation_policy opt of
        Some policy \<Rightarrow>
          if ho_evaluator host \<and> rp_enabled policy
          then (case rep_evaluate (av_cr env) (av_http env) (av_seconds env) (unwrap_or ''anonymous'' agent_nid) assurance policy rs of
              (d, rs') \<Rightarrow> (apply_reputation (av_cr env) opt d policy assurance, rs'))
          else (None, rs)
      | None \<Rightarrow> (None, rs))"

definition over_budget :: "crypto \<Rightarrow> u32 \<Rightarrow> u32 \<Rightarrow> anchor_response option" where
  "over_budget cr budget_cgn cgn_cost_hint =
     (if budget_cgn > 0 \<and> cgn_cost_hint > 0 \<and> cgn_cost_hint > budget_cgn
      then Some (error_resp cr 400 ''NPS-CLIENT-REQUEST-TOO-LARGE'' CGN_LIMIT_EXCEEDED
        (''estimated CGN '' @ show_nat (unat cgn_cost_hint) @ '' exceeds effective budget '' @ show_nat (unat budget_cgn) @ ''.'')
        (Some (JObject (bt_collect [(''effective_budget'', jnat (ucast budget_cgn)), (''estimated_cgn'', jnat (ucast cgn_cost_hint))]))) [])
      else None)"

definition rate_limited :: "crypto \<Rightarrow> rate_decision \<Rightarrow> anchor_response" where
  "rate_limited cr rate = error_resp cr 429 ''NPS-CLIENT-RATE-LIMITED'' RATE_LIMIT_EXCEEDED
     (unwrap_or ''rate limit exceeded.'' (ra_reason rate)) None
     (case ra_retry_after_seconds rate of Some s \<Rightarrow> [(''retry-after'', show_nat (unat s))] | None \<Rightarrow> [])"

definition invoke_result :: "crypto \<Rightarrow> anchor_action_spec \<Rightarrow> anchor_action_error + jvalue \<Rightarrow> anchor_response" where
  "invoke_result cr spec r = (case r of
       Inr result \<Rightarrow>
         \<lparr>ap_status = 200,
          ap_headers = ok_headers MIME_CAPSULE
            @ (case as_result_anchor spec of Some ra \<Rightarrow> [(to_ascii_lowercase SCHEMA, ra)] | None \<Rightarrow> [])
            @ (case as_estimated_cgn spec of Some c \<Rightarrow> if c > 0 then [(to_ascii_lowercase TOKENS, show_nat (unat c))] else [] | None \<Rightarrow> []),
          ap_body = to_body cr (JObject (bt_collect [(''anchor_ref'', JString (unwrap_or [] (as_result_anchor spec))),
            (''count'', jnat (if is_null result then 0 else 1)), (''data'', JArray (if is_null result then [] else [result]))]))\<rparr>
     | Inl e \<Rightarrow> error_resp cr (ae_http_status e) (ae_nps_status e) (ae_error_code e) (ae_message e) (ae_details e) [])"

definition accepted_response :: "crypto \<Rightarrow> string \<Rightarrow> string \<Rightarrow> anchor_response" where
  "accepted_response cr prefix task_id =
     \<lparr>ap_status = 202, ap_headers = ok_headers ''application/json'',
      ap_body = to_body cr (JObject (bt_collect [(''task_id'', JString task_id), (''status'', JString ''pending''),
        (''poll_url'', JString (prefix @ ''/invoke''))]))\<rparr>"

text \<open>The trace context: two identifiers when it is injected.\<close>

definition trace_ids :: "anchor_env \<Rightarrow> bool \<Rightarrow> u64 \<Rightarrow> string option \<times> string option \<times> u64" where
  "trace_ids env inject c =
     (if inject
      then (case gen_hex env 16 c of (t, c1) \<Rightarrow> case gen_hex env 8 c1 of (s, c2) \<Rightarrow> (Some t, Some s, c2))
      else (None, None, c))"

text \<open>From the admission by the limiter to the release: the handler runs inside, once.\<close>

definition run_invoke ::
    "anchor_env \<Rightarrow> anchor_options \<Rightarrow> string \<Rightarrow> 'w anchor_host \<Rightarrow> (string \<Rightarrow> jvalue option \<Rightarrow> invoke_context \<Rightarrow> 'w \<Rightarrow> (anchor_action_error + jvalue) \<times> 'w)
      \<Rightarrow> anchor_request \<Rightarrow> jvalue \<times> string \<times> anchor_action_spec \<times> bool \<Rightarrow> 'w node_state \<Rightarrow> anchor_response \<times> 'w node_state" where
  "run_invoke env opt prefix host handler req target s =
     (case target of (body, action_id, spec, is_async) \<Rightarrow>
      let cr = av_cr env;
          agent_nid = req_header req AGENT;
          timeout_ms = ucast (unwrap_or 0 (Option.bind (jget body ''timeout_ms'') as_u64));
          consumer_key = unwrap_or ''anonymous'' agent_nid;
          (rate, w1) = ho_try_acquire host consumer_key (unwrap_or 0 (as_estimated_cgn spec)) (ns_world s)
      in if \<not> ra_allowed rate then (rate_limited cr rate, s\<lparr>ns_world := w1\<rparr>)
         else
           let (trace_id, span_id, c1) = trace_ids env (an_auto_inject_trace_context opt) (ns_counter s);
               ctx = \<lparr>iv_agent_nid = agent_nid, iv_effective_timeout_ms = clamp_timeout timeout_ms spec opt,
                      iv_budget_cgn = read_effective_budget req opt, iv_trace_id = trace_id, iv_span_id = span_id\<rparr>;
               (task_id, c2) = (if is_async then gen_hex env 16 c1 else ([], c1));
               (r, w2) = handler action_id (jget body ''params'') ctx w1
           in (if is_async then accepted_response cr prefix task_id else invoke_result cr spec r,
               s\<lparr>ns_counter := c2, ns_world := ho_release host consumer_key w2\<rparr>))"

definition handle_invoke ::
    "anchor_env \<Rightarrow> anchor_options \<Rightarrow> string \<Rightarrow> 'w anchor_host \<Rightarrow> anchor_request \<Rightarrow> 'w node_state \<Rightarrow> anchor_response \<times> 'w node_state" where
  "handle_invoke env opt prefix host req s =
     (case invoke_target env opt req of
        Inl r \<Rightarrow> (r, s)
      | Inr target \<Rightarrow>
          (case reputation_gate env opt host (req_header req AGENT) (extract_ident_assurance (av_rd env) req) (ns_rep s) of
             (Some r, rs) \<Rightarrow> (r, s\<lparr>ns_rep := rs\<rparr>)
           | (None, rs) \<Rightarrow>
               (case over_budget (av_cr env) (read_effective_budget req opt) (unwrap_or 0 (as_estimated_cgn (fst (snd (snd target))))) of
                  Some r \<Rightarrow> (r, s\<lparr>ns_rep := rs\<rparr>)
                | None \<Rightarrow>
                    (case ho_handler host of
                       None \<Rightarrow> (error_resp (av_cr env) 501 ''NPS-SERVER-UNSUPPORTED'' NODE_UNAVAILABLE
                          ''no invoke handler registered on this Anchor Node.'' None [], s\<lparr>ns_rep := rs\<rparr>)
                     | Some handler \<Rightarrow> run_invoke env opt prefix host handler req target (s\<lparr>ns_rep := rs\<rparr>)))))"

section \<open>Routing\<close>

definition anchor_prefix :: "anchor_options \<Rightarrow> string" where
  "anchor_prefix opt = trim_end_slashes (an_path_prefix opt)"

definition not_found_resp :: "crypto \<Rightarrow> string \<Rightarrow> anchor_response" where
  "not_found_resp cr message = error_resp cr 404 ''NPS-CLIENT-NOT-FOUND'' ACTION_NOT_FOUND message None []"

definition manifest_response :: "crypto \<Rightarrow> anchor_options \<Rightarrow> anchor_response" where
  "manifest_response cr opt = \<lparr>ap_status = 200, ap_headers = ok_headers MIME_MANIFEST,
     ap_body = to_body cr (build_manifest opt (anchor_prefix opt))\<rparr>"

definition actions_response :: "crypto \<Rightarrow> anchor_options \<Rightarrow> anchor_response" where
  "actions_response cr opt = \<lparr>ap_status = 200, ap_headers = [(''content-type'', ''application/json'')],
     ap_body = to_body cr (JObject [(''actions'', JObject (actions_map opt))])\<rparr>"

text \<open>A route with or without a slash at its end.\<close>

definition is_route :: "string \<Rightarrow> string \<Rightarrow> bool" where
  "is_route sub r \<longleftrightarrow> sub = r \<or> sub = r @ ''/''"

definition known_route :: "string \<Rightarrow> bool" where
  "known_route sub \<longleftrightarrow> (\<exists>r\<in>{''/.nwm'', ''/.schema'', ''/actions'', ''/invoke'', ''/query'', ''/subscribe''}. is_route sub r)"

definition handle :: "anchor_env \<Rightarrow> anchor_options \<Rightarrow> 'w anchor_host \<Rightarrow> anchor_request \<Rightarrow> 'w node_state \<Rightarrow> anchor_response \<times> 'w node_state" where
  "handle env opt host req s =
     (let cr = av_cr env; prefix = anchor_prefix opt
      in case strip_prefix prefix (aq_path req) of
           None \<Rightarrow> (not_found_resp cr ''no NWP node at this path.'', s)
         | Some sub \<Rightarrow>
             if \<not> known_route sub then (not_found_resp cr ''unknown anchor sub-path.'', s)
             else if an_require_auth opt \<and> req_header req AGENT = None
             then (error_resp cr 401 ''NPS-AUTH-UNAUTHENTICATED'' AUTH_NID_SCOPE_VIOLATION ''X-NWP-Agent header is required.'' None [], s)
             else if is_route sub ''/.nwm'' then (manifest_response cr opt, s)
             else if is_route sub ''/.schema'' \<or> is_route sub ''/actions'' then (actions_response cr opt, s)
             else if is_route sub ''/invoke''
             then (if aq_method req \<noteq> ''POST'' then (empty_response 405, s) else handle_invoke env opt prefix host req s)
             else if is_route sub ''/query''
             then (if aq_method req \<noteq> ''POST'' then (empty_response 405, s) else (handle_query env opt host req, s))
             else if is_route sub ''/subscribe''
             then (if aq_method req \<noteq> ''POST'' then (empty_response 405, s)
                   else case handle_subscribe env opt host req (ns_counter s) of (r, c) \<Rightarrow> (r, s\<lparr>ns_counter := c\<rparr>))
             else (not_found_resp cr ''unknown anchor sub-path.'', s))"

end
