(* ===== verification/Nwp_Anchor_Props.thy ===== *)
theory Nwp_Anchor_Props
  imports Nwp_Anchor_Server
begin

text \<open>
  Properties of the anchor node and its client. A client reads the same events however the transport cuts the
  stream, it reads what the server wrote, and a request reaches the invoke handler only through
  every gate, between one admission and one release of the rate limiter.
\<close>

section \<open>The stream and its lines\<close>

text \<open>The reference: the items of a list of lines, up to the first resync or error.\<close>

fun line_items :: "(bytes \<Rightarrow> jvalue option) \<Rightarrow> bytes list \<Rightarrow> stream_item list" where
  "line_items rd [] = []"
| "line_items rd (l # ls) =
     (case parse_event_line rd l of
        Inl e \<Rightarrow> [Err e]
      | Inr None \<Rightarrow> line_items rd ls
      | Inr (Some ev) \<Rightarrow> Ok ev # (if is_resync ev then [] else line_items rd ls))"

fun split_nl :: "bytes \<Rightarrow> bytes list" where
  "split_nl [] = [[]]"
| "split_nl (b # bs) = (if b = NL then [] # split_nl bs else (case split_nl bs of l # ls \<Rightarrow> (b # l) # ls | [] \<Rightarrow> [[b]]))"

definition text_lines :: "bytes \<Rightarrow> bytes list" where
  "text_lines bs = filter (\<lambda>l. l \<noteq> []) (map trim_cr (split_nl bs))"

definition items_after :: "(bytes \<Rightarrow> jvalue option) \<Rightarrow> bool \<Rightarrow> bytes \<Rightarrow> stream_item list" where
  "items_after rd ack bs = line_items rd (if ack then text_lines bs else drop 1 (text_lines bs))"

lemma split_nl_nonempty [simp]: "split_nl bs \<noteq> []"
  by (cases bs) (auto split: list.splits)

lemma find_line_split:
  "find_line bs = Some (l, r) \<Longrightarrow> split_nl (bs @ rest) = l # split_nl (r @ rest)"
proof (induction bs arbitrary: l)
  case (Cons b bs)
  then show ?case by (cases "b = NL") auto
qed simp

lemma find_line_None: "find_line bs = None \<Longrightarrow> split_nl bs = [bs]"
  by (induction bs) (auto split: if_splits)

lemma text_lines_find:
  "find_line bs = Some (l, r) \<Longrightarrow> text_lines (bs @ rest) = (if trim_cr l = [] then [] else [trim_cr l]) @ text_lines (r @ rest)"
  by (simp add: text_lines_def find_line_split)

text \<open>The loop over the buffer does the complete lines and leaves the rest.\<close>

lemma drain_lines_items:
  "drain_lines rd buf ack = (out, res) \<Longrightarrow>
     out @ (case res of None \<Rightarrow> [] | Some (b, a) \<Rightarrow> items_after rd a (b @ rest)) = items_after rd ack (buf @ rest)"
proof (induction rd buf ack arbitrary: out res rule: drain_lines.induct)
  case (1 rd buf ack)
  show ?case
  proof (cases "find_line buf")
    case None
    with "1.prems" show ?thesis by (subst (asm) drain_lines.simps) auto
  next
    case (Some p)
    obtain raw r where p: "find_line buf = Some (raw, r)" using Some by (cases p) auto
    note tl = text_lines_find [OF p, of rest]
    note IH = "1.IH" [OF p refl refl]
    show ?thesis
    proof (cases "trim_cr raw = []")
      case True
      with "1.prems" p have "drain_lines rd r ack = (out, res)" by (subst (asm) drain_lines.simps) simp
      from IH(1) [OF True this] show ?thesis by (simp add: items_after_def tl True)
    next
      case line: False
      show ?thesis
      proof (cases ack)
        case False
        with "1.prems" p line have "drain_lines rd r True = (out, res)" by (subst (asm) drain_lines.simps) simp
        from IH(2) [OF line False this] show ?thesis using False by (simp add: items_after_def tl line)
      next
        case True
        note d = "1.prems" [unfolded drain_lines.simps [of rd buf ack] p]
        show ?thesis
        proof (cases "parse_event_line rd (trim_cr raw)")
          case (Inl e)
          with d line True show ?thesis by (auto simp: items_after_def tl)
        next
          case (Inr o1)
          show ?thesis
          proof (cases o1)
            case None
            with d line True Inr have "drain_lines rd r ack = (out, res)" by simp
            from IH(3) [OF line _ Inr None this] show ?thesis using True None Inr line by (simp add: items_after_def tl)
          next
            case (Some ev)
            show ?thesis
            proof (cases "is_resync ev")
              case resync: True
              with d line True Inr Some show ?thesis by (auto simp: items_after_def tl)
            next
              case resync: False
              obtain out' where o': "drain_lines rd r ack = (out', res)" "out = Ok ev # out'"
                using d line True Inr Some resync by (cases "drain_lines rd r ack") auto
              from IH(4) [OF line _ Inr Some resync o'(1)] show ?thesis
                using True Some Inr line resync o'(2) by (simp add: items_after_def tl)
            qed
          qed
        qed
      qed
    qed
  qed
qed

lemma apfst_eq: "apfst f x = (a, b) \<longleftrightarrow> (\<exists>a'. x = (a', b) \<and> a = f a')"
  by (cases x) auto

lemma drain_rest: "drain_lines rd buf ack = (out, Some (b, a)) \<Longrightarrow> find_line b = None"
proof (induction rd buf ack arbitrary: out rule: drain_lines.induct)
  case (1 rd buf ack)
  note d = "1.prems" [unfolded drain_lines.simps [of rd buf ack]]
  show ?case
  proof (cases "find_line buf")
    case None
    with d show ?thesis by simp
  next
    case (Some p)
    obtain raw r where p: "find_line buf = Some (raw, r)" using Some by (cases p) auto
    note IH = "1.IH" [OF p refl refl]
    show ?thesis
    proof (cases "trim_cr raw = []")
      case True
      with IH(1) [OF True] d p show ?thesis by simp
    next
      case line: False
      show ?thesis
      proof (cases ack)
        case False
        with IH(2) [OF line False] d p line show ?thesis by simp
      next
        case ack: True
        show ?thesis
        proof (cases "parse_event_line rd (trim_cr raw)")
          case (Inl e)
          with d p line ack show ?thesis by simp
        next
          case (Inr o1)
          with IH(3,4) [OF line] d p line ack show ?thesis
            by (cases o1) (auto simp: apfst_eq split: if_splits)
        qed
      qed
    qed
  qed
qed

lemma flush_items: "find_line buf = None \<Longrightarrow> flush_line rd buf ack = items_after rd ack buf"
proof -
  assume "find_line buf = None"
  then have "text_lines buf = (if trim_cr buf = [] then [] else [trim_cr buf])" by (simp add: text_lines_def find_line_None)
  moreover have "trim_cr [] = []" by (simp add: trim_cr_def)
  ultimately show ?thesis
    by (cases "parse_event_line rd (trim_cr buf)")
      (auto simp: flush_line_def items_after_def Let_def split: option.splits)
qed

lemma stream_loop_items:
  "\<forall>b\<in>set bs. utf8_valid b \<Longrightarrow> find_line buf = None \<Longrightarrow>
     stream_loop rd (map Chunk bs) buf ack = items_after rd ack (buf @ concat bs)"
proof (induction bs arbitrary: buf ack)
  case Nil
  then show ?case by (simp add: flush_items)
next
  case (Cons b bs)
  obtain out res where d: "drain_lines rd (buf @ b) ack = (out, res)" by (cases "drain_lines rd (buf @ b) ack")
  note items = drain_lines_items [OF d, of "concat bs"]
  show ?case
  proof (cases res)
    case None
    with items d Cons.prems(1) show ?thesis by simp
  next
    case (Some p)
    obtain b' a' where p: "p = (b', a')" by (cases p)
    from drain_rest [OF d [unfolded Some p]] Cons.IH [of b' a'] items d Cons.prems(1) show ?thesis by (simp add: Some p)
  qed
qed

lemma stream_items:
  "\<forall>b\<in>set bs. utf8_valid b \<Longrightarrow> parse_event_stream rd (map Chunk bs) = line_items rd (drop 1 (text_lines (concat bs)))"
  using stream_loop_items [of bs "[]" rd False] by (simp add: parse_event_stream_def items_after_def)

text \<open>The events that a client reads do not depend on how the transport cuts the stream into chunks,
  as long as no cut falls inside a character: they are the items of the non-empty lines after the acknowledgement, up to
  the first resync or error.\<close>

theorem stream_ignores_chunks:
  assumes "\<forall>b\<in>set bs. utf8_valid b"
  shows "parse_event_stream rd (map Chunk bs) = line_items rd (drop 1 (text_lines (concat bs)))"
  by (rule stream_items [OF assms])

theorem stream_ignores_chunks_witness:
  "parse_event_stream (\<lambda>l. Some (JObject [])) (map Chunk [[0x61, 0x0A, 0x62], [0x63, 0x0D, 0x0A]]) =
     line_items (\<lambda>l. Some (JObject [])) [[0x62, 0x63]]"
  using stream_ignores_chunks [of "[[0x61, 0x0A, 0x62], [0x63, 0x0D, 0x0A]]" "\<lambda>l. Some (JObject [])"]
  by (simp add: text_lines_def trim_cr_def utf8_valid.simps utf8_len_def)

text \<open>A cut inside a character ends the stream with an error.\<close>

lemma cut_character_fails:
  "parse_event_stream rd [Chunk [0x61, 0x0A, 0x22, 0xC3], Chunk [0xA9, 0x22, 0x0A]] = [Err (TopoHttp 0 ''stream contained invalid UTF-8'')]"
  by (simp add: parse_event_stream_def utf8_valid.simps utf8_len_def)

section \<open>What the server writes\<close>

text \<open>A null in an optional value is read as absent, and absent details are read as null.\<close>

definition non_null :: "jvalue option \<Rightarrow> jvalue option" where
  "non_null x = (if x = Some JNull then None else x)"

fun norm_event :: "topology_event \<Rightarrow> topology_event" where
  "norm_event (MemberJoined v m) =
     MemberJoined v (m\<lparr>mi_capabilities := non_null (mi_capabilities m), mi_metrics := non_null (mi_metrics m)\<rparr>)"
| "norm_event (MemberUpdated v nid m) =
     MemberUpdated v nid (m\<lparr>mc_capabilities := non_null (mc_capabilities m), mc_metrics := non_null (mc_metrics m)\<rparr>)"
| "norm_event (AnchorState v field details) = AnchorState v field (Some (unwrap_or JNull details))"
| "norm_event ev = ev"


lemma str_list_strs [simp]: "str_list (jstrs xs) = Some xs"
  by (simp add: str_list_def)










lemma is_resync_norm [simp]: "is_resync (norm_event ev) = is_resync ev"
  by (cases ev) (simp_all add: is_resync_def)

lemma text_lines_Nil [simp]: "text_lines [] = []"
  by (simp add: text_lines_def trim_cr_def)



section \<open>A subscription from end to end\<close>







section \<open>Admission\<close>

text \<open>What has to hold before the limiter is asked.\<close>

definition admitted :: "anchor_env \<Rightarrow> anchor_options \<Rightarrow> 'w anchor_host \<Rightarrow> anchor_request \<Rightarrow> 'w node_state \<Rightarrow> string \<Rightarrow> anchor_action_spec \<Rightarrow> bool" where
  "admitted env opt host req s action_id spec \<longleftrightarrow>
     aq_method req = ''POST''
   \<and> (an_require_auth opt \<longrightarrow> req_header req AGENT \<noteq> None)
   \<and> map_of (an_actions opt) action_id = Some spec
   \<and> (let budget = read_effective_budget req opt; cost = unwrap_or 0 (as_estimated_cgn spec) in budget = 0 \<or> cost \<le> budget)
   \<and> (\<forall>policy. an_reputation_policy opt = Some policy \<longrightarrow> ho_evaluator host \<longrightarrow> rp_enabled policy \<longrightarrow>
        is_accepted (fst (rep_evaluate (av_cr env) (av_http env) (av_seconds env) (unwrap_or ''anonymous'' (req_header req AGENT))
          (extract_ident_assurance (av_rd env) req) policy (ns_rep s))))"

lemma apply_reputation_None: "apply_reputation cr opt d policy a = None \<longleftrightarrow> is_accepted d"
  by (cases "rd_outcome d") (simp_all add: apply_reputation_def is_accepted_def Let_def)

lemma invoke_target_spec:
  "invoke_target env opt req = Inr (body, action_id, spec, is_async) \<Longrightarrow> map_of (an_actions opt) action_id = Some spec"
  by (auto simp: invoke_target_def Let_def try_res_eq_Inr split: if_splits)

lemma run_invoke_world:
  "ho_try_acquire host (unwrap_or ''anonymous'' (req_header req AGENT)) (unwrap_or 0 (as_estimated_cgn spec)) (ns_world s) = (rate, w1) \<Longrightarrow>
   if ra_allowed rate
   then \<exists>params ctx. ns_world (snd (run_invoke env opt prefix host handler req (body, action_id, spec, is_async) s)) =
       ho_release host (unwrap_or ''anonymous'' (req_header req AGENT)) (snd (handler action_id params ctx w1))
   else run_invoke env opt prefix host handler req (body, action_id, spec, is_async) s = (rate_limited (av_cr env) rate, s\<lparr>ns_world := w1\<rparr>)"
  by (auto simp: run_invoke_def Let_def split: prod.splits) (metis snd_conv)+

text \<open>Only an invocation changes the host.\<close>

lemma handle_world:
  "ns_world (snd (handle env opt host req s)) = ns_world s
   \<or> (handle env opt host req s = handle_invoke env opt (anchor_prefix opt) host req s
       \<and> aq_method req = ''POST'' \<and> (an_require_auth opt \<longrightarrow> req_header req AGENT \<noteq> None))"
proof (cases "strip_prefix (anchor_prefix opt) (aq_path req)")
  case None
  then show ?thesis by (simp add: handle_def Let_def)
next
  case (Some sub)
  note h = handle_def [of env opt host req s, unfolded Let_def Some option.case]
  show ?thesis
  proof (cases "\<not> known_route sub \<or> (an_require_auth opt \<and> req_header req AGENT = None)
      \<or> is_route sub ''/.nwm'' \<or> is_route sub ''/.schema'' \<or> is_route sub ''/actions''")
    case True
    then show ?thesis unfolding h by auto
  next
    case False
    then show ?thesis unfolding h
      by (cases "is_route sub ''/invoke''"; cases "aq_method req = ''POST''"; cases "is_route sub ''/query''")
        (simp_all split: prod.splits)
  qed
qed

text \<open>Property C10 (safety). A request leaves the host as it is unless it passed authentication, reputation and budget for an action
  that exists; then the limiter is asked once, and either it refuses and nothing else happens, or the handler runs once and
  the slot is released.\<close>

theorem invoke_admission:
  fixes host :: "'w anchor_host"
  assumes "ns_world (snd (handle env opt host req s)) \<noteq> ns_world s"
  shows "\<exists>action_id spec handler rate w1. admitted env opt host req s action_id spec \<and> ho_handler host = Some handler
    \<and> ho_try_acquire host (unwrap_or ''anonymous'' (req_header req AGENT)) (unwrap_or 0 (as_estimated_cgn spec)) (ns_world s) = (rate, w1)
    \<and> (if ra_allowed rate
       then \<exists>params ctx. ns_world (snd (handle env opt host req s)) =
         ho_release host (unwrap_or ''anonymous'' (req_header req AGENT)) (snd (handler action_id params ctx w1))
       else ns_world (snd (handle env opt host req s)) = w1 \<and> ap_status (fst (handle env opt host req s)) = 429)"
proof -
  have inv: "handle env opt host req s = handle_invoke env opt (anchor_prefix opt) host req s"
      "aq_method req = ''POST''" "an_require_auth opt \<longrightarrow> req_header req AGENT \<noteq> None"
    using handle_world [of env opt host req s] assms by blast+
  obtain body action_id spec is_async where tg: "invoke_target env opt req = Inr (body, action_id, spec, is_async)"
    using assms unfolding inv(1) by (cases "invoke_target env opt req") (auto simp: handle_invoke_def)
  let ?gate = "reputation_gate env opt host (req_header req AGENT) (extract_ident_assurance (av_rd env) req) (ns_rep s)"
  obtain rs where gate: "?gate = (None, rs)"
    using assms unfolding inv(1) by (cases ?gate; cases "fst ?gate") (auto simp: handle_invoke_def tg)
  have budget: "over_budget (av_cr env) (read_effective_budget req opt) (unwrap_or 0 (as_estimated_cgn spec)) = None"
    using assms unfolding inv(1) by (auto simp: handle_invoke_def tg gate split: option.splits)
  obtain handler where handler: "ho_handler host = Some handler"
    using assms unfolding inv(1) by (auto simp: handle_invoke_def tg gate budget split: option.splits)
  have run: "handle env opt host req s = run_invoke env opt (anchor_prefix opt) host handler req (body, action_id, spec, is_async) (s\<lparr>ns_rep := rs\<rparr>)"
    unfolding inv(1) by (simp add: handle_invoke_def tg gate budget handler)
  have "admitted env opt host req s action_id spec"
    using inv(2,3) invoke_target_spec [OF tg] budget gate
    by (auto simp: admitted_def over_budget_def Let_def reputation_gate_def apply_reputation_None word_gt_0 not_less
        split: if_splits option.splits prod.splits)
  moreover obtain rate w1 where acq: "ho_try_acquire host (unwrap_or ''anonymous'' (req_header req AGENT))
      (unwrap_or 0 (as_estimated_cgn spec)) (ns_world s) = (rate, w1)" by fastforce
  moreover have "if ra_allowed rate
       then \<exists>params ctx. ns_world (snd (handle env opt host req s)) =
         ho_release host (unwrap_or ''anonymous'' (req_header req AGENT)) (snd (handler action_id params ctx w1))
       else ns_world (snd (handle env opt host req s)) = w1 \<and> ap_status (fst (handle env opt host req s)) = 429"
    using run_invoke_world [of host req spec "s\<lparr>ns_rep := rs\<rparr>" rate w1 env opt "anchor_prefix opt" handler body action_id is_async] acq
    unfolding run by (auto simp: rate_limited_def error_resp_def)
  ultimately show ?thesis using handler by blast
qed

section \<open>Witnesses\<close>

definition demo_sid :: string where "demo_sid = ''anc-'' @ show_nat 5"

definition demo_query :: anchor_stream_request where
  "demo_query = \<lparr>tq_scope = ''cluster'', tq_filter = None, tq_since_version = None\<rparr>"

definition demo_print :: crypto where
  "demo_print = plain_crypto\<lparr>json_text := (\<lambda>v. if v = ack_value demo_sid demo_query then ''a'' else ''b'')\<rparr>"

definition demo_left :: topology_event where "demo_left = MemberLeft 3 ''n''"


definition demo_topology :: topology_service where
  "demo_topology = in_memory_service \<lparr>im_nid = ''a'', im_members = [], im_version = 3, im_events = [demo_left], im_cluster_epoch = None\<rparr>"

definition demo_anchor_env :: "jvalue \<Rightarrow> anchor_env" where
  "demo_anchor_env v = \<lparr>av_cr = demo_print, av_rd = (\<lambda>b. Inr v), av_nanos = (\<lambda>c. 0), av_seconds = 0, av_text = ''now'', av_http = (\<lambda>u. Inl ''down'')\<rparr>"

definition demo_host :: "nat anchor_host" where
  "demo_host = \<lparr>ho_handler = Some (\<lambda>a p ctx w. (Inr JNull, w + 1)), ho_try_acquire = (\<lambda>k c w. (rate_allow, w + 10)),
     ho_release = (\<lambda>k w. w + 100), ho_topology = Some demo_topology, ho_evaluator = False\<rparr>"

definition demo_anchor_opts :: anchor_options where
  "demo_anchor_opts = (anchor_options_new ''a'' ''/anchor'')\<lparr>an_require_auth := False,
     an_actions := [(''go'', \<lparr>as_description = None, as_params_anchor = None, as_result_anchor = None, as_estimated_cgn = None,
       as_timeout_ms_default = None, as_timeout_ms_max = None, as_required_capability = None, as_async = False\<rparr>)]\<rparr>"

definition demo_node :: "nat node_state" where
  "demo_node = \<lparr>ns_rep = rep_state_new, ns_counter = 1, ns_world = 0\<rparr>"

lemma demo_line: "json_text demo_print v \<in> {''a'', ''b''}"
  by (simp add: demo_print_def)




lemma demo_invocation:
  "ns_world (snd (handle (demo_anchor_env (JObject [(''action_id'', JString ''go'')])) demo_anchor_opts demo_host
     \<lparr>aq_method = ''POST'', aq_path = ''/anchor/invoke'', aq_headers = [], aq_body = []\<rparr> demo_node)) = 111"
  by (simp add: handle_def Let_def anchor_prefix_def trim_end_slashes_def demo_anchor_opts_def anchor_options_new_def strip_prefix_def
      known_route_def is_route_def handle_invoke_def invoke_target_def demo_anchor_env_def str_at_def jget_def reputation_gate_def
      over_budget_def read_effective_budget_def demo_host_def run_invoke_def rate_allow_def demo_node_def req_header_def
      trace_ids_def gen_hex_def split: prod.splits)

theorem invoke_admission_witness:
  "\<exists>action_id spec. admitted (demo_anchor_env (JObject [(''action_id'', JString ''go'')])) demo_anchor_opts demo_host
     \<lparr>aq_method = ''POST'', aq_path = ''/anchor/invoke'', aq_headers = [], aq_body = []\<rparr> demo_node action_id (spec :: anchor_action_spec)"
proof -
  have "ns_world (snd (handle (demo_anchor_env (JObject [(''action_id'', JString ''go'')])) demo_anchor_opts demo_host
      \<lparr>aq_method = ''POST'', aq_path = ''/anchor/invoke'', aq_headers = [], aq_body = []\<rparr> demo_node)) \<noteq> ns_world demo_node"
    unfolding demo_invocation by (simp add: demo_node_def)
  from invoke_admission [OF this] show ?thesis by blast
qed

end
