(* ===== verification/Nwp_Frames.thy ===== *)
theory Nwp_Frames
  imports Dict_Frame
begin

text \<open>
  \<^verbatim>\<open>nps-nwp/src/frames.rs\<close>: the frames of the node protocol. \<open>QueryFrame\<close> and \<open>ActionFrame\<close> interpret
  the contract \<open>dict_frame\<close>.
\<close>

definition nwp_get_str :: "frame_dict \<Rightarrow> string \<Rightarrow> string nps_result" where
  "nwp_get_str d k = ok_or (FrameError (''missing field: '' @ k)) (opt_str d k)"

definition string_vec :: "jvalue option \<Rightarrow> string list option" where
  "string_vec v = map_option str_items (Option.bind v as_array)"

definition TOPOLOGY_SNAPSHOT_KIND :: string where "TOPOLOGY_SNAPSHOT_KIND = ''topology.snapshot''"
definition TOPOLOGY_STREAM_KIND :: string where "TOPOLOGY_STREAM_KIND = ''topology.stream''"
definition X_NWM_VERSION :: string where "X_NWM_VERSION = ''X-NWM-Version''"

section \<open>Topology\<close>

record snapshot_request =
  sq_kind :: string
  sq_anchor_ref :: "string option"
  sq_include_bridges :: bool
  sq_include_capabilities :: bool
  sq_max_depth :: "u64 option"
  sq_since :: "string option"

definition snapshot_request_default :: snapshot_request where
  "snapshot_request_default = \<lparr>sq_kind = TOPOLOGY_SNAPSHOT_KIND, sq_anchor_ref = None, sq_include_bridges = False,
     sq_include_capabilities = False, sq_max_depth = None, sq_since = None\<rparr>"

record topology_stream_request =
  sr_kind :: string
  sr_anchor_ref :: "string option"
  sr_include_initial_snapshot :: bool
  sr_event_types :: "string list option"
  sr_since :: "string option"

definition topology_stream_request_default :: topology_stream_request where
  "topology_stream_request_default = \<lparr>sr_kind = TOPOLOGY_STREAM_KIND, sr_anchor_ref = None,
     sr_include_initial_snapshot = True, sr_event_types = None, sr_since = None\<rparr>"

record frame_topology_member =
  fm_node_id :: string
  fm_node_type :: "string option"
  fm_anchor_ref :: "string option"
  fm_capabilities :: "string list option"
  fm_metadata :: "jvalue option"

record bridge_node_spec =
  bn_bridge_id :: string
  bn_source_protocol :: string
  bn_target_protocol :: string
  bn_source_ref :: "string option"
  bn_target_ref :: "string option"
  bn_capabilities :: "string list option"
  bn_metadata :: "jvalue option"

section \<open>QueryFrame\<close>

record query_frame =
  qf_anchor_ref :: string
  qf_filter :: "jvalue option"
  qf_order :: "jvalue option"
  qf_fields :: "string list option"
  qf_vector_search :: "jvalue option"
  qf_cursor :: "string option"
  qf_token_budget :: "u64 option"
  qf_tokenizer :: "string option"
  qf_request_id :: "string option"
  qf_auto_anchor :: "bool option"
  qf_stream :: "bool option"
  qf_aggregate :: "jvalue option"
  qf_limit :: "u64 option"
  qf_offset :: "u64 option"
  qf_depth :: "u64 option"

definition query_frame_new :: "string \<Rightarrow> query_frame" where
  "query_frame_new anchor_ref = \<lparr>qf_anchor_ref = anchor_ref, qf_filter = None, qf_order = None, qf_fields = None,
     qf_vector_search = None, qf_cursor = None, qf_token_budget = None, qf_tokenizer = None, qf_request_id = None,
     qf_auto_anchor = None, qf_stream = None, qf_aggregate = None, qf_limit = None, qf_offset = None, qf_depth = None\<rparr>"

definition query_to_dict :: "query_frame \<Rightarrow> frame_dict" where
  "query_to_dict f =
     (let m = bt_insert ''anchor_ref'' (JString (qf_anchor_ref f)) [];
          m = bt_insert_opt ''filter'' (qf_filter f) m;
          m = bt_insert_opt ''order'' (qf_order f) m;
          m = bt_insert_opt ''fields'' (map_option jstrs (qf_fields f)) m;
          m = bt_insert_opt ''vector_search'' (qf_vector_search f) m;
          m = bt_insert_opt ''cursor'' (map_option JString (qf_cursor f)) m;
          m = bt_insert_opt ''token_budget'' (map_option jnat (qf_token_budget f)) m;
          m = bt_insert_opt ''tokenizer'' (map_option JString (qf_tokenizer f)) m;
          m = bt_insert_opt ''request_id'' (map_option JString (qf_request_id f)) m;
          m = bt_insert_opt ''auto_anchor'' (map_option JBool (qf_auto_anchor f)) m;
          m = bt_insert_opt ''stream'' (map_option JBool (qf_stream f)) m;
          m = bt_insert_opt ''aggregate'' (qf_aggregate f) m;
          m = bt_insert_opt ''limit'' (map_option jnat (qf_limit f)) m;
          m = bt_insert_opt ''offset'' (map_option jnat (qf_offset f)) m
      in bt_insert_opt ''depth'' (map_option jnat (qf_depth f)) m)"

definition query_from_dict :: "frame_dict \<Rightarrow> query_frame nps_result" where
  "query_from_dict d =
     try_res (nwp_get_str d ''anchor_ref'') (\<lambda>anchor_ref.
       Ok \<lparr>qf_anchor_ref = anchor_ref,
           qf_filter = map_of d ''filter'',
           qf_order = (case map_of d ''order'' of Some v \<Rightarrow> Some v | None \<Rightarrow> map_of d ''order_by''),
           qf_fields = string_vec (map_of d ''fields''),
           qf_vector_search = map_of d ''vector_search'',
           qf_cursor = opt_str d ''cursor'',
           qf_token_budget = opt_u64 d ''token_budget'',
           qf_tokenizer = opt_str d ''tokenizer'',
           qf_request_id = opt_str d ''request_id'',
           qf_auto_anchor = opt_bool d ''auto_anchor'',
           qf_stream = opt_bool d ''stream'',
           qf_aggregate = map_of d ''aggregate'',
           qf_limit = opt_u64 d ''limit'',
           qf_offset = opt_u64 d ''offset'',
           qf_depth = opt_u64 d ''depth''\<rparr>)"

lemma string_vec_field: "string_vec (map_of d k) = get_strs d k"
  by (simp add: string_vec_def field_defs)

interpretation query: dict_frame query_to_dict query_from_dict "\<lambda>f. f"
proof unfold_locales
  fix f :: query_frame
  show "bt_wf (query_to_dict f)" by (simp add: query_to_dict_def Let_def)
  show "query_from_dict (query_to_dict f) = Ok f"
    unfolding query_to_dict_def query_from_dict_def Let_def nwp_get_str_def string_vec_field
    by (cases f) (simp add: fields split: option.splits)
  show "query_to_dict f = query_to_dict f" by (rule refl)
qed

section \<open>ActionFrame\<close>

record action_frame =
  fa_action :: string
  fa_params :: "jvalue option"
  fa_anchor_ref :: "string option"
  fa_async :: bool
  fa_idempotency_key :: "string option"
  fa_timeout_ms :: "u32 option"
  fa_request_id :: "string option"

definition action_to_dict :: "action_frame \<Rightarrow> frame_dict" where
  "action_to_dict f =
     (let m = bt_insert ''action_id'' (JString (fa_action f)) [];
          m = bt_insert ''action'' (JString (fa_action f)) m;
          m = bt_insert ''async'' (JBool (fa_async f)) m;
          m = bt_insert_opt ''params'' (fa_params f) m;
          m = bt_insert_opt ''anchor_ref'' (map_option JString (fa_anchor_ref f)) m;
          m = bt_insert_opt ''request_id'' (map_option JString (fa_request_id f)) m;
          m = bt_insert_opt ''idempotency_key'' (map_option JString (fa_idempotency_key f)) m
      in bt_insert_opt ''timeout_ms'' (map_option (\<lambda>n. jnat (ucast n)) (fa_timeout_ms f)) m)"

definition action_from_dict :: "frame_dict \<Rightarrow> action_frame nps_result" where
  "action_from_dict d =
     (let named = (case map_of d ''action_id'' of Some v \<Rightarrow> Some v | None \<Rightarrow> map_of d ''action'')
      in try_res (ok_or (FrameError ''missing field: action_id'') (Option.bind named as_str)) (\<lambda>action.
         Ok \<lparr>fa_action = action,
             fa_params = map_of d ''params'',
             fa_anchor_ref = opt_str d ''anchor_ref'',
             fa_async = unwrap_or False (opt_bool d ''async''),
             fa_idempotency_key = opt_str d ''idempotency_key'',
             fa_timeout_ms = map_option ucast (opt_u64 d ''timeout_ms''),
             fa_request_id = opt_str d ''request_id''\<rparr>))"

lemma narrowed_back: "map_option (\<lambda>n. ucast (ucast (n :: u32) :: u64)) v = v"
  by (cases v) (simp_all add: u32_widened)

lemma field_of_narrowed [fields]:
  "field_of as_u64 (map_option (\<lambda>n. jnat (ucast n)) v) None = map_option ucast (v :: u32 option)"
  by (cases v) (simp_all add: field_of_def)

interpretation action: dict_frame action_to_dict action_from_dict "\<lambda>f. f"
proof unfold_locales
  fix f :: action_frame
  show "bt_wf (action_to_dict f)" by (simp add: action_to_dict_def Let_def)
  show "action_from_dict (action_to_dict f) = Ok f"
    unfolding action_to_dict_def action_from_dict_def Let_def
    by (cases f) (simp add: fields option.map_comp comp_def narrowed_back)
  show "action_to_dict f = action_to_dict f" by (rule refl)
qed

text \<open>Reading narrows a timeout to 32 bits without a check.\<close>

lemma timeout_wraps:
  "action_from_dict [(''action_id'', JString ''a''), (''timeout_ms'', jnat (2 ^ 32))]
     = Ok \<lparr>fa_action = ''a'', fa_params = None, fa_anchor_ref = None, fa_async = False,
           fa_idempotency_key = None, fa_timeout_ms = Some 0, fa_request_id = None\<rparr>"
  by (simp add: action_from_dict_def field_defs)

section \<open>AsyncActionResponse and SubscribeFrame\<close>

record async_action_response =
  ar_task_id :: string
  ar_status_url :: "string option"
  ar_callback_url :: "string option"

definition async_response_from_dict :: "frame_dict \<Rightarrow> async_action_response nps_result" where
  "async_response_from_dict d =
     try_res (nwp_get_str d ''task_id'') (\<lambda>task_id.
       Ok \<lparr>ar_task_id = task_id, ar_status_url = opt_str d ''status_url'', ar_callback_url = opt_str d ''callback_url''\<rparr>)"

record subscribe_frame =
  sf_subscription_id :: string
  sf_filter :: "frame_dict option"
  sf_heartbeat_interval_ms :: "u32 option"
  sf_max_events :: "u32 option"
  sf_cursor :: "string option"

text \<open>The derived writer leaves absent fields out; the reader takes an object or an array.\<close>

definition subscribe_to_value :: "subscribe_frame \<Rightarrow> jvalue" where
  "subscribe_to_value f =
     (let m = bt_insert ''subscription_id'' (JString (sf_subscription_id f)) [];
          m = bt_insert_opt ''filter'' (map_option JObject (sf_filter f)) m;
          m = bt_insert_opt ''heartbeat_interval_ms'' (map_option (\<lambda>n. jnat (ucast n)) (sf_heartbeat_interval_ms f)) m;
          m = bt_insert_opt ''max_events'' (map_option (\<lambda>n. jnat (ucast n)) (sf_max_events f)) m
      in JObject (bt_insert_opt ''cursor'' (map_option JString (sf_cursor f)) m))"

definition SUBSCRIBE_FIELDS :: "string list" where
  "SUBSCRIBE_FIELDS = [''subscription_id'', ''filter'', ''heartbeat_interval_ms'', ''max_events'', ''cursor'']"

definition subscribe_from_value :: "jvalue \<Rightarrow> subscribe_frame option" where
  "subscribe_from_value v = (case struct_fields SUBSCRIBE_FIELDS v of
       Some [sid, flt, heartbeat, events, cursor] \<Rightarrow>
         (case (Option.bind sid as_str, opt_field as_object flt, opt_field as_u32 heartbeat, opt_field as_u32 events,
                opt_field as_str cursor) of
            (Some s, Some a, Some b, Some c, Some d) \<Rightarrow>
              Some \<lparr>sf_subscription_id = s, sf_filter = a, sf_heartbeat_interval_ms = b, sf_max_events = c, sf_cursor = d\<rparr>
          | _ \<Rightarrow> None)
     | _ \<Rightarrow> None)"

lemma subscribe_back [simp]: "subscribe_from_value (subscribe_to_value f) = Some f"
  by (cases f; simp add: subscribe_from_value_def subscribe_to_value_def SUBSCRIBE_FIELDS_def struct_fields_def Let_def)
     (auto simp: opt_field_def split: option.splits)

end
