(* ===== verification/Nwp_Query.thy ===== *)
theory Nwp_Query
  imports Nwp_Codes Nwp_Frames
begin

text \<open>
  \<^verbatim>\<open>nps-nwp/src/query.rs\<close> and the schema of \<^verbatim>\<open>memory_server.rs\<close>: filters as parameterised SQL, the query
  builder and the cursor codec. The translator carries the index of the next parameter and the
  parameters bound so far. \<open>js\<close> is the JSON text of a value, \<open>rd\<close> reads JSON.
\<close>

section \<open>Schema and options\<close>

record memory_field =
  mf_name :: string
  mf_type :: string
  mf_description :: "string option"
  mf_nullable :: bool
  mf_column_name :: "string option"

definition memory_field_new :: "string \<Rightarrow> string \<Rightarrow> memory_field" where
  "memory_field_new nm ty = \<lparr>mf_name = nm, mf_type = ty, mf_description = None, mf_nullable = True, mf_column_name = None\<rparr>"

definition resolved_column_name :: "memory_field \<Rightarrow> string" where
  "resolved_column_name f = unwrap_or (mf_name f) (mf_column_name f)"

record memory_schema =
  ms_table_name :: string
  ms_primary_key :: string
  ms_fields :: "memory_field list"

definition get_field :: "memory_schema \<Rightarrow> string \<Rightarrow> memory_field option" where
  "get_field sc nm = find (\<lambda>f. eq_ignore_case (mf_name f) nm) (ms_fields sc)"

definition has_field :: "memory_schema \<Rightarrow> string \<Rightarrow> bool" where
  "has_field sc nm \<longleftrightarrow> get_field sc nm \<noteq> None"

record memory_options =
  mo_node_id :: string
  mo_display_name :: "string option"
  mo_schema :: memory_schema
  mo_default_limit :: u32
  mo_max_limit :: u32
  mo_require_auth :: bool
  mo_default_token_budget :: u32
  mo_path_prefix :: string

definition memory_options_new :: "string \<Rightarrow> string \<Rightarrow> memory_schema \<Rightarrow> memory_options" where
  "memory_options_new node_id path_prefix sc =
     \<lparr>mo_node_id = node_id, mo_display_name = None, mo_schema = sc, mo_default_limit = 20, mo_max_limit = 1000,
      mo_require_auth = False, mo_default_token_budget = 0, mo_path_prefix = path_prefix\<rparr>"

lemma get_field_in: "get_field sc nm = Some f \<Longrightarrow> f \<in> set (ms_fields sc)"
  by (auto simp: get_field_def find_Some_iff)

section \<open>Values and parameters\<close>

datatype dialect = SqlServer | PostgreSql

datatype sql_value =
    SqlNull
  | SqlBool bool
  | SqlInt int
  | SqlFloat f64
  | SqlText string
  | SqlList "sql_value list"

type_synonym sql_params = "(string \<times> sql_value) list"

definition params_add :: "string \<Rightarrow> sql_value \<Rightarrow> sql_params \<Rightarrow> sql_params" where
  "params_add nm v p = p @ [(nm, v)]"

definition params_get :: "sql_params \<Rightarrow> string \<Rightarrow> sql_value option" where
  "params_get p nm = map_option snd (find (\<lambda>q. fst q = nm) p)"

record filter_error =
  fe_message :: string
  fe_code :: string

definition filter_error_new :: "string \<Rightarrow> filter_error" where
  "filter_error_new msg = \<lparr>fe_message = msg, fe_code = QUERY_FILTER_INVALID\<rparr>"

definition filter_error_with_code :: "string \<Rightarrow> string \<Rightarrow> filter_error" where
  "filter_error_with_code msg c = \<lparr>fe_message = msg, fe_code = c\<rparr>"

fun extract_value :: "(jvalue \<Rightarrow> string) \<Rightarrow> jvalue \<Rightarrow> sql_value" where
  "extract_value js (JString s) = SqlText s"
| "extract_value js (JNumber n) =
     (case as_i64 (JNumber n) of Some i \<Rightarrow> SqlInt i | None \<Rightarrow> SqlFloat (num_as_f64 n))"
| "extract_value js (JBool b) = SqlBool b"
| "extract_value js JNull = SqlNull"
| "extract_value js v = SqlText (js v)"

fun sql_value_to_string :: "sql_value \<Rightarrow> string" where
  "sql_value_to_string SqlNull = []"
| "sql_value_to_string (SqlBool b) = (if b then ''true'' else ''false'')"
| "sql_value_to_string (SqlInt i) = show_int i"
| "sql_value_to_string (SqlFloat x) = show_f64 x"
| "sql_value_to_string (SqlText s) = s"
| "sql_value_to_string (SqlList _) = []"

section \<open>Translating a filter\<close>

type_synonym filter_state = "nat \<times> sql_params"
type_synonym translated = "filter_error + string \<times> filter_state"

definition quote_column :: "dialect \<Rightarrow> string \<Rightarrow> string" where
  "quote_column d col = (case d of SqlServer \<Rightarrow> ''['' @ col @ '']'' | PostgreSql \<Rightarrow> CHR 0x22 # col @ [CHR 0x22])"

definition param_name :: "nat \<Rightarrow> string" where
  "param_name i = CHR ''p'' # show_nat i"

definition simple_op :: "string \<Rightarrow> (string \<times> bool) option" where
  "simple_op op = map_of [(''$eq'', (''='', False)), (''$ne'', (''<>'', False)), (''$lt'', (''<'', False)),
     (''$lte'', (''<='', False)), (''$gt'', (''>'', False)), (''$gte'', (''>='', False)), (''$contains'', (''LIKE'', True))] op"

definition bound_value :: "(jvalue \<Rightarrow> string) \<Rightarrow> bool \<Rightarrow> jvalue \<Rightarrow> sql_value" where
  "bound_value js wrapped v =
     (if wrapped then SqlText (''%'' @ sql_value_to_string (extract_value js v) @ ''%'') else extract_value js v)"

definition build_simple :: "(jvalue \<Rightarrow> string) \<Rightarrow> string \<Rightarrow> string \<Rightarrow> string \<Rightarrow> jvalue \<Rightarrow> filter_state \<Rightarrow> translated" where
  "build_simple js col op field_name v st =
     (case simple_op op of
        None \<Rightarrow> Err (filter_error_new (''Unknown filter operator '' @ quoted op @ '' on field '' @ quoted field_name @ ''.''))
      | Some (sql_op, wrapped) \<Rightarrow>
          let nm = param_name (fst st)
          in Ok (col @ '' '' @ sql_op @ '' @'' @ nm, (fst st + 1, params_add nm (bound_value js wrapped v) (snd st))))"

definition build_in :: "(jvalue \<Rightarrow> string) \<Rightarrow> string \<Rightarrow> jvalue \<Rightarrow> bool \<Rightarrow> filter_state \<Rightarrow> translated" where
  "build_in js col arr negate st =
     (case as_array arr of
        None \<Rightarrow> Err (filter_error_new ''$in/$nin requires an array value.'')
      | Some items \<Rightarrow>
          if items = [] then Ok (if negate then ''1=1'' else ''1=0'', st)
          else let nm = param_name (fst st)
               in Ok (col @ (if negate then '' NOT IN @'' else '' IN @'') @ nm,
                      (fst st + 1, params_add nm (SqlList (map (extract_value js) items)) (snd st))))"

definition build_between :: "(jvalue \<Rightarrow> string) \<Rightarrow> string \<Rightarrow> jvalue \<Rightarrow> filter_state \<Rightarrow> translated" where
  "build_between js col arr st =
     (case as_array arr of
        Some [lo, hi] \<Rightarrow>
          let low = param_name (fst st); high = param_name (fst st + 1)
          in Ok (col @ '' BETWEEN @'' @ low @ '' AND @'' @ high,
                 (fst st + 2, params_add high (extract_value js hi) (params_add low (extract_value js lo) (snd st))))
      | _ \<Rightarrow> Err (filter_error_new ''$between requires an array of exactly two values [low, high].''))"

text \<open>One operator of a condition on a field.\<close>

definition build_op :: "(jvalue \<Rightarrow> string) \<Rightarrow> string \<Rightarrow> string \<Rightarrow> string \<times> jvalue \<Rightarrow> filter_state \<Rightarrow> translated" where
  "build_op js col field_name entry st =
     (if fst entry = ''$in'' then build_in js col (snd entry) False st
      else if fst entry = ''$nin'' then build_in js col (snd entry) True st
      else if fst entry = ''$between'' then build_between js col (snd entry) st
      else build_simple js col (fst entry) field_name (snd entry) st)"

text \<open>Steps in a row: each takes the state of the one before, the first error ends it.\<close>

fun in_turn :: "('x \<Rightarrow> filter_state \<Rightarrow> translated) \<Rightarrow> 'x list \<Rightarrow> filter_state \<Rightarrow> filter_error + string list \<times> filter_state" where
  "in_turn f [] st = Ok ([], st)"
| "in_turn f (x # xs) st = (case f x st of
       Inl e \<Rightarrow> Inl e
     | Inr (s, st') \<Rightarrow> (case in_turn f xs st' of
         Inl e \<Rightarrow> Inl e
       | Inr (ss, st'') \<Rightarrow> Inr (s # ss, st'')))"

lemma in_turn_cong [fundef_cong]:
  "xs = ys \<Longrightarrow> st = st' \<Longrightarrow> (\<And>x s. x \<in> set ys \<Longrightarrow> f x s = g x s) \<Longrightarrow> in_turn f xs st = in_turn g ys st'"
  by (induction ys arbitrary: xs st st') (auto split: sum.splits)

definition joined :: "string \<Rightarrow> string list \<Rightarrow> string" where
  "joined separator parts = (case parts of [] \<Rightarrow> [] | [s] \<Rightarrow> s | _ \<Rightarrow> ''('' @ join separator parts @ '')'')"

definition build_field_condition ::
    "(jvalue \<Rightarrow> string) \<Rightarrow> dialect \<Rightarrow> memory_field \<Rightarrow> jvalue \<Rightarrow> filter_state \<Rightarrow> translated" where
  "build_field_condition js d field condition st =
     (case as_object condition of
        None \<Rightarrow> Err (filter_error_new (''Field '' @ quoted (mf_name field) @ '' condition must be an object (e.g. {'' @
          CHR 0x22 # ''$eq'' @ CHR 0x22 # '': value}).''))
      | Some obj \<Rightarrow>
          (case in_turn (build_op js (quote_column d (resolved_column_name field)) (mf_name field)) obj st of
             Inl e \<Rightarrow> Inl e
           | Inr (parts, st') \<Rightarrow> Ok (case parts of [s] \<Rightarrow> s | _ \<Rightarrow> ''('' @ join '' AND '' parts @ '')'', st')))"

definition validate_field :: "memory_schema \<Rightarrow> string \<Rightarrow> filter_error + memory_field" where
  "validate_field sc nm = ok_or (filter_error_with_code (''Unknown field '' @ quoted nm @ ''.'') QUERY_FIELD_UNKNOWN) (get_field sc nm)"

definition logical_separator :: "string \<Rightarrow> filter_error + string" where
  "logical_separator op = ok_or (filter_error_new (''Unknown logical operator '' @ quoted op @ ''.''))
     (map_of [(''$and'', '' AND ''), (''$or'', '' OR '')] op)"

text \<open>\<open>build_object\<close> and \<open>build_logical\<close>, one inside the other. Empty children are dropped.\<close>

function build_object :: "(jvalue \<Rightarrow> string) \<Rightarrow> memory_schema \<Rightarrow> dialect \<Rightarrow> jvalue \<Rightarrow> filter_state \<Rightarrow> translated" where
  "build_object js sc d obj st =
     (case obj of
        JObject m \<Rightarrow>
          (case in_turn (\<lambda>(nm, v) st.
              if starts_with ''$'' nm then
                (case v of
                   JArray arr \<Rightarrow>
                     (case logical_separator nm of
                        Inl e \<Rightarrow> Inl e
                      | Inr separator \<Rightarrow>
                          (case in_turn (build_object js sc d) arr st of
                             Inl e \<Rightarrow> Inl e
                           | Inr (parts, st') \<Rightarrow> Ok (joined separator (filter (\<lambda>s. s \<noteq> []) parts), st')))
                 | _ \<Rightarrow> Err (filter_error_new (''Logical operator '' @ quoted nm @ '' requires an array value.'')))
              else
                (case validate_field sc nm of
                   Inl e \<Rightarrow> Inl e
                 | Inr field \<Rightarrow> build_field_condition js d field v st)) m st of
             Inl e \<Rightarrow> Inl e
           | Inr (clauses, st') \<Rightarrow> Ok (joined '' AND '' (filter (\<lambda>s. s \<noteq> []) clauses), st'))
      | _ \<Rightarrow> Err (filter_error_new ''Filter condition must be an object.''))"
  by pat_completeness auto
termination
  by (relation "measure (\<lambda>(js, sc, d, v, st). size v)") (auto dest!: size_array_elem size_object_elem)

declare build_object.simps [simp del]

definition translate :: "(jvalue \<Rightarrow> string) \<Rightarrow> memory_schema \<Rightarrow> dialect \<Rightarrow> jvalue option \<Rightarrow> sql_params \<Rightarrow> filter_error + string \<times> sql_params" where
  "translate js sc d flt p =
     (case flt of
        None \<Rightarrow> Ok ([], p)
      | Some v \<Rightarrow> if is_null v then Ok ([], p)
                  else try_res (build_object js sc d v (0, p)) (\<lambda>(s, _, p'). Ok (s, p')))"

section \<open>Ordering\<close>

record order_clause =
  oc_field :: string
  oc_dir :: string

text \<open>The clause of one element: an object with a field, a map with a single key, a pair, a name.\<close>

definition order_clause_of :: "jvalue \<Rightarrow> order_clause option" where
  "order_clause_of el =
     (case el of
        JObject obj \<Rightarrow>
          (case opt_str obj ''field'' of
             Some f \<Rightarrow> Some \<lparr>oc_field = f, oc_dir = unwrap_or ''ASC'' (opt_str obj ''dir'')\<rparr>
           | None \<Rightarrow> (case obj of
               [] \<Rightarrow> None
             | (f, v) # _ \<Rightarrow> Some \<lparr>oc_field = f, oc_dir = unwrap_or ''ASC'' (as_str v)\<rparr>))
      | JArray (v # rest) \<Rightarrow>
          map_option (\<lambda>f. \<lparr>oc_field = f, oc_dir = unwrap_or ''ASC'' (case rest of [] \<Rightarrow> None | w # _ \<Rightarrow> as_str w)\<rparr>) (as_str v)
      | JString f \<Rightarrow> Some \<lparr>oc_field = f, oc_dir = ''ASC''\<rparr>
      | _ \<Rightarrow> None)"

definition order_clauses :: "jvalue option \<Rightarrow> order_clause list option" where
  "order_clauses order = map_option (List.map_filter order_clause_of) (Option.bind order as_array)"

fun res_all :: "('a \<Rightarrow> 'e + 'b) \<Rightarrow> 'a list \<Rightarrow> 'e + 'b list" where
  "res_all f [] = Ok []"
| "res_all f (x # xs) = try_res (f x) (\<lambda>y. try_res (res_all f xs) (\<lambda>ys. Ok (y # ys)))"

definition build_order_item :: "memory_schema \<Rightarrow> dialect \<Rightarrow> order_clause \<Rightarrow> filter_error + string" where
  "build_order_item sc d cl =
     try_res (ok_or (filter_error_with_code (''Unknown order field '' @ quoted (oc_field cl) @ ''.'') QUERY_FIELD_UNKNOWN)
       (get_field sc (oc_field cl)))
     (\<lambda>f. Ok (quote_column d (resolved_column_name f) @ (if eq_ignore_case (oc_dir cl) ''DESC'' then '' DESC'' else '' ASC'')))"

definition build_order_by :: "memory_schema \<Rightarrow> dialect \<Rightarrow> order_clause list \<Rightarrow> filter_error + string" where
  "build_order_by sc d cls = try_res (res_all (build_order_item sc d) cls) (\<lambda>parts. Ok (join '', '' parts))"

section \<open>Projection\<close>

definition all_columns :: "memory_schema \<Rightarrow> dialect \<Rightarrow> string" where
  "all_columns sc d = join '', '' (map (\<lambda>f. quote_column d (resolved_column_name f)) (ms_fields sc))"

definition select_column :: "dialect \<Rightarrow> memory_field \<Rightarrow> string" where
  "select_column d f =
     (let col = quote_column d (resolved_column_name f)
      in if mf_column_name f \<noteq> None then col @ '' AS '' @ quote_column d (mf_name f) else col)"

text \<open>The names are looked up after all of them have been checked, so the lookup does not panic.\<close>

definition build_select_list :: "memory_schema \<Rightarrow> dialect \<Rightarrow> string list option \<Rightarrow> filter_error + string" where
  "build_select_list sc d names =
     (case names of
        None \<Rightarrow> Ok (all_columns sc d)
      | Some [] \<Rightarrow> Ok (all_columns sc d)
      | Some ns \<Rightarrow> (case find (\<lambda>nm. \<not> has_field sc nm) ns of
          Some nm \<Rightarrow> Err (filter_error_with_code (''Unknown field '' @ quoted nm @ ''.'') QUERY_FIELD_UNKNOWN)
        | None \<Rightarrow> Ok (join '', '' (map (\<lambda>nm. select_column d (the (get_field sc nm))) ns))))"

section \<open>The cursor\<close>

definition B64 :: string where
  "B64 = ''ABCDEFGHIJKLMNOPQRSTUVWXYZabcdefghijklmnopqrstuvwxyz0123456789+/''"

definition b64_char :: "u32 \<Rightarrow> char" where
  "b64_char w = B64 ! unat (and w 63)"

definition b64_word :: "u8 \<Rightarrow> u8 \<Rightarrow> u8 \<Rightarrow> u32" where
  "b64_word b0 b1 b2 = or (or (push_bit 16 (ucast b0)) (push_bit 8 (ucast b1))) (ucast b2)"

fun b64_chunks :: "bytes \<Rightarrow> string" where
  "b64_chunks [] = []"
| "b64_chunks [b0] = (let n = b64_word b0 0 0 in [b64_char (drop_bit 18 n), b64_char (drop_bit 12 n)])"
| "b64_chunks [b0, b1] =
     (let n = b64_word b0 b1 0 in [b64_char (drop_bit 18 n), b64_char (drop_bit 12 n), b64_char (drop_bit 6 n)])"
| "b64_chunks (b0 # b1 # b2 # rest) =
     (let n = b64_word b0 b1 b2
      in [b64_char (drop_bit 18 n), b64_char (drop_bit 12 n), b64_char (drop_bit 6 n), b64_char n] @ b64_chunks rest)"

definition to_url :: "char \<Rightarrow> char" where
  "to_url c = (if c = CHR ''+'' then CHR ''-'' else if c = CHR ''/'' then CHR ''_'' else c)"

definition from_url :: "char \<Rightarrow> char" where
  "from_url c = (if c = CHR ''-'' then CHR ''+'' else if c = CHR ''_'' then CHR ''/'' else c)"

definition base64url_encode :: "bytes \<Rightarrow> string" where
  "base64url_encode input = map to_url (b64_chunks input)"

fun index_of :: "'a \<Rightarrow> 'a list \<Rightarrow> nat option" where
  "index_of x [] = None"
| "index_of x (y # ys) = (if y = x then Some 0 else map_option Suc (index_of x ys))"

text \<open>The loop of the decoder; the accumulator is never masked, its upper bits are shifted out.\<close>

fun b64_loop :: "u32 \<Rightarrow> nat \<Rightarrow> bytes \<Rightarrow> bytes option" where
  "b64_loop buf bits [] = Some []"
| "b64_loop buf bits (c # cs) =
     (if c = 0x3D then Some []
      else case index_of c (utf8 B64) of
        None \<Rightarrow> None
      | Some i \<Rightarrow>
          let buf' = or (push_bit 6 buf) (of_nat i); bits' = bits + 6
          in if 8 \<le> bits' then map_option ((#) (ucast (drop_bit (bits' - 8) buf'))) (b64_loop buf' (bits' - 8) cs)
             else b64_loop buf' bits' cs)"

definition base64url_decode :: "string \<Rightarrow> bytes option" where
  "base64url_decode input = b64_loop 0 0 (utf8 (map from_url input))"

definition cursor_json :: "int \<Rightarrow> string" where
  "cursor_json n = ''{'' @ CHR 0x22 # ''o'' @ CHR 0x22 # '':'' @ show_int n @ ''}''"

definition encode_cursor :: "int \<Rightarrow> string option" where
  "encode_cursor next_offset = (if next_offset \<le> 0 then None else Some (base64url_encode (utf8 (cursor_json next_offset))))"

definition decode_cursor :: "(bytes \<Rightarrow> jvalue option) \<Rightarrow> string option \<Rightarrow> int" where
  "decode_cursor rd cursor =
     (case cursor of
        None \<Rightarrow> 0
      | Some c \<Rightarrow> if c = [] then 0 else (case base64url_decode c of
          None \<Rightarrow> 0
        | Some bs \<Rightarrow> if \<not> utf8_valid bs then 0
            else (case rd bs of None \<Rightarrow> 0 | Some v \<Rightarrow> unwrap_or 0 (Option.bind (jget v ''o'') as_i64))))"

section \<open>The query builder\<close>

definition effective_limit :: "memory_options \<Rightarrow> query_frame \<Rightarrow> u64" where
  "effective_limit opt frame =
     (let frame_limit = unwrap_or 0 (qf_limit frame)
      in min (if frame_limit = 0 then ucast (mo_default_limit opt) else frame_limit) (ucast (mo_max_limit opt)))"

definition where_part :: "string \<Rightarrow> string" where
  "where_part clause = (if clause = [] then [] else '' WHERE '' @ clause)"

definition order_part :: "memory_schema \<Rightarrow> dialect \<Rightarrow> jvalue option \<Rightarrow> filter_error + string" where
  "order_part sc d order = (case order_clauses order of
       Some (c # cs) \<Rightarrow> build_order_by sc d (c # cs)
     | _ \<Rightarrow> Ok (quote_column d (ms_primary_key sc)))"

definition pagination :: "dialect \<Rightarrow> string" where
  "pagination d = (case d of
       SqlServer \<Rightarrow> '' OFFSET @_offset ROWS FETCH NEXT @_limit ROWS ONLY''
     | PostgreSql \<Rightarrow> '' LIMIT @_limit OFFSET @_offset'')"

definition build_query ::
    "(jvalue \<Rightarrow> string) \<Rightarrow> (bytes \<Rightarrow> jvalue option) \<Rightarrow> memory_schema \<Rightarrow> dialect \<Rightarrow> query_frame \<Rightarrow> memory_options
     \<Rightarrow> filter_error + string \<times> sql_params" where
  "build_query js rd sc d frame opt =
     (let limit = effective_limit opt frame; offset = decode_cursor rd (qf_cursor frame)
      in try_res (build_select_list sc d (qf_fields frame)) (\<lambda>cols.
         try_res (translate js sc d (qf_filter frame) []) (\<lambda>(clause, p).
         try_res (order_part sc d (qf_order frame)) (\<lambda>ord.
           Ok (''SELECT '' @ cols @ '' FROM '' @ quote_column d (ms_table_name sc) @ where_part clause
               @ '' ORDER BY '' @ ord @ pagination d,
               params_add ''_offset'' (SqlInt offset) (params_add ''_limit'' (SqlInt (sint limit)) p))))))"

definition build_count :: "(jvalue \<Rightarrow> string) \<Rightarrow> memory_schema \<Rightarrow> dialect \<Rightarrow> query_frame \<Rightarrow> filter_error + string \<times> sql_params" where
  "build_count js sc d frame =
     try_res (translate js sc d (qf_filter frame) []) (\<lambda>(clause, p).
       Ok (''SELECT COUNT(*) FROM '' @ quote_column d (ms_table_name sc) @ where_part clause, p))"

end
