(* ===== verification/Nwp_Query_Props.thy ===== *)
theory Nwp_Query_Props
  imports Nwp_Query
begin

text \<open>
  Properties of the filter translator and of the query builder. A \<open>WHERE\<close> clause is the text of an
  abstract condition \<open>sql_cond\<close> whose columns are columns of the schema and whose placeholders are the
  bound parameters in order; its three-valued meaning is the meaning \<open>filter_truth\<close> of the filter.
\<close>

section \<open>Conditions\<close>

type_synonym truth = "bool option"

definition and3 :: "truth list \<Rightarrow> truth" where
  "and3 ts = (if Some False \<in> set ts then Some False else if None \<in> set ts then None else Some True)"

definition or3 :: "truth list \<Rightarrow> truth" where
  "or3 ts = (if Some True \<in> set ts then Some True else if None \<in> set ts then None else Some False)"


lemma junction_single [simp]: "and3 [t] = t" "or3 [t] = t"
  by (cases t; auto simp: and3_def or3_def)+

datatype sql_cond =
    Compare string string nat
  | Member string bool nat
  | Range string nat nat
  | Always bool
  | Junction bool "sql_cond list"

fun sql_text :: "dialect \<Rightarrow> sql_cond \<Rightarrow> string" where
  "sql_text d (Compare col op i) = quote_column d col @ '' '' @ op @ '' @'' @ param_name i"
| "sql_text d (Member col neg i) = quote_column d col @ (if neg then '' NOT IN @'' else '' IN @'') @ param_name i"
| "sql_text d (Range col i j) = quote_column d col @ '' BETWEEN @'' @ param_name i @ '' AND @'' @ param_name j"
| "sql_text d (Always b) = (if b then ''1=1'' else ''1=0'')"
| "sql_text d (Junction alt cs) = ''('' @ join (if alt then '' OR '' else '' AND '') (map (sql_text d) cs) @ '')''"





lemma sql_text_nonempty [simp]: "sql_text d c \<noteq> []"
  by (cases c) (simp_all add: quote_column_def split: dialect.splits)





section \<open>The meaning of a filter\<close>


lemma map_filter_fcong [fundef_cong]:
  "xs = ys \<Longrightarrow> (\<And>x. x \<in> set ys \<Longrightarrow> f x = g x) \<Longrightarrow> List.map_filter f xs = List.map_filter g ys"
  by (induction ys arbitrary: xs) (auto simp: List.map_filter_def)




text \<open>No field has the empty condition.\<close>

function no_empty_condition :: "jvalue \<Rightarrow> bool" where
  "no_empty_condition v =
     (case v of
        JObject m \<Rightarrow> list_all (\<lambda>(nm, w).
          if starts_with ''$'' nm then (case w of JArray vs \<Rightarrow> list_all no_empty_condition vs | _ \<Rightarrow> True)
          else w \<noteq> JObject []) m
      | _ \<Rightarrow> True)"
  by pat_completeness auto
termination
  by (relation "measure size") (auto dest!: size_array_elem size_object_elem)

declare no_empty_condition.simps [simp del]

section \<open>Parameters in order\<close>



lemma param_name_inj [simp]: "param_name i = param_name j \<longleftrightarrow> i = j"
  by (auto simp: param_name_def dest: arg_cong [where f = digits_value])







section \<open>Translated conditions\<close>











section \<open>Translated filters\<close>




definition demo_schema :: memory_schema where
  "demo_schema = \<lparr>ms_table_name = ''products'', ms_primary_key = ''id'',
     ms_fields = [memory_field_new ''id'' ''number'', (memory_field_new ''price'' ''number'')\<lparr>mf_column_name := Some ''unit_price''\<rparr>]\<rparr>"

definition demo_filter :: jvalue where
  "demo_filter = JObject [(''$or'', JArray [JObject [(''Price'', JObject [(''$lt'', jnat 5)])],
                                          JObject [(''id'', JObject [(''$in'', JArray [jnat 1, jnat 2])])]])]"

lemma demo_fields [simp]:
  "get_field demo_schema ''Price'' = Some ((memory_field_new ''price'' ''number'')\<lparr>mf_column_name := Some ''unit_price''\<rparr>)"
  "get_field demo_schema ''id'' = Some (memory_field_new ''id'' ''number'')"
  by code_simp+

lemmas filter_eval = demo_filter_def translate_def build_object.simps validate_field_def memory_field_new_def Let_def build_field_condition_def build_op_def
  build_simple_def build_in_def simple_op_def bound_value_def logical_separator_def starts_with_def resolved_column_name_def
  quote_column_def joined_def params_add_def param_name_def no_empty_condition.simps



text \<open>An empty condition on a field is not dropped: it becomes \<open>()\<close>, which no dialect reads.\<close>

lemma empty_condition_text:
  "translate js demo_schema SqlServer (Some (JObject [(''id'', JObject [])])) [] = Ok (''()'', [])"
  by (simp add: filter_eval show_eval try_res_def ok_or_def)

text \<open>An empty disjunction, and a disjunction with an empty object, lose that child.\<close>

lemma empty_child_dropped:
  "translate js demo_schema SqlServer (Some (JObject [(''$or'', JArray [])])) [] = Ok ([], [])"
  "translate js demo_schema SqlServer (Some (JObject [(''$or'', JArray [JObject [], JObject [(''id'', JObject [(''$eq'', jnat 1)])]])])) []
     = Ok (''[id] = @p0'', [(''p0'', SqlInt 1)])"
  by (simp_all add: filter_eval show_eval try_res_def ok_or_def)

end
