(* ===== verification/Nwp_Cursor.thy ===== *)
theory Nwp_Cursor
  imports Nwp_Query
begin

text \<open>
  The cursor codec and the bounds of a query: base64 text is decoded to the bytes it was encoded from,
  so a cursor gives its offset back.
\<close>

section \<open>Base64\<close>

lemma index_of_nth: "distinct xs \<Longrightarrow> i < length xs \<Longrightarrow> index_of (xs ! i) xs = Some i"
proof (induction xs arbitrary: i)
  case (Cons x xs)
  then show ?case by (cases i) (auto simp: nth_eq_iff_index_eq)
qed simp

lemma b64_chars:
  "list_all (\<lambda>c. from_url (to_url c) = c \<and> code c < 128 \<and> c \<noteq> CHR ''='') B64" "distinct B64" "length B64 = 64"
  by code_simp+

definition b64_byte :: "u32 \<Rightarrow> u8" where
  "b64_byte w = of_nat (code (b64_char w))"

lemma byte_of_char [simp]: "(of_nat (code c) :: u8) = of_nat (code c') \<longleftrightarrow> c = c'"
proof -
  have "unat (of_nat (code x) :: u8) = code x" for x
    using nat_of_char_less_256 [of x] by (simp add: unat_of_nat take_bit_nat_eq_self)
  then show ?thesis by (metis char_of_char)
qed

lemma utf8_b64: "utf8 B64 = map (\<lambda>c. of_nat (code c)) B64"
proof -
  have "utf8 s = map (\<lambda>c. of_nat (code c)) s" if "list_all (\<lambda>c. code c < 128) s" for s
    using that by (induction s) (simp_all add: utf8_char_def)
  then show ?thesis using b64_chars(1) by (simp add: list_all_iff)
qed

lemma index_of_map: "inj f \<Longrightarrow> index_of (f x) (map f xs) = index_of x xs"
  by (induction xs) (auto dest: injD)

lemma six_bits: "unat (and w 63 :: u32) < 64"
proof -
  have "and w 63 = take_bit 6 w" by (simp add: take_bit_eq_mask mask_eq_exp_minus_1)
  then show ?thesis using take_bit_nat_less_exp [of 6 "unat w"] by (simp add: unsigned_take_bit_eq)
qed

lemma b64_at:
  "b64_char w \<in> set B64" "b64_byte w \<noteq> 0x3D" "index_of (b64_byte w) (utf8 B64) = Some (unat (and w 63))"
proof -
  have i: "unat (and w 63) < length B64" using six_bits b64_chars(3) by simp
  then show c: "b64_char w \<in> set B64" by (simp add: b64_char_def)
  have "inj (\<lambda>c. of_nat (code c) :: u8)" by (rule injI) simp
  from index_of_map [OF this] show "index_of (b64_byte w) (utf8 B64) = Some (unat (and w 63))"
    using index_of_nth [OF b64_chars(2) i] by (simp add: utf8_b64 b64_byte_def b64_char_def)
  have "(0x3D :: u8) = of_nat (code (CHR ''=''))" by simp
  then show "b64_byte w \<noteq> 0x3D" using c b64_chars(1) unfolding b64_byte_def by (simp only: byte_of_char) (auto simp: list_all_iff)
qed

lemma b64_url [simp]: "utf8_char (from_url (to_url (b64_char w))) = [b64_byte w]"
  using b64_at(1) [of w] b64_chars(1) by (simp add: list_all_iff b64_byte_def utf8_char_def)

definition push6 :: "u32 \<Rightarrow> u32 \<Rightarrow> u32" where
  "push6 buf w = or (push_bit 6 buf) (and w 63)"

lemma b64_step:
  "b64_loop buf bits (b64_byte w # cs) =
     (let buf' = push6 buf w; bits' = bits + 6
      in if 8 \<le> bits' then map_option ((#) (ucast (drop_bit (bits' - 8) buf'))) (b64_loop buf' (bits' - 8) cs)
         else b64_loop buf' bits' cs)"
  using b64_at(2,3) [of w] by (simp add: Let_def push6_def)

declare b64_loop.simps(2) [simp del]

lemma bits_8:
  assumes "bit a 0 = bit b 0" "bit a 1 = bit b 1" "bit a 2 = bit b 2" "bit a 3 = bit b 3"
    "bit a 4 = bit b 4" "bit a 5 = bit b 5" "bit a 6 = bit b 6" "bit a 7 = bit b 7"
  shows "a = (b :: u8)"
proof (rule bit_word_eqI)
  fix k assume "k < LENGTH(8)"
  then consider "k = 0" | "k = 1" | "k = 2" | "k = 3" | "k = 4" | "k = 5" | "k = 6" | "k = 7" by fastforce
  then show "bit a k = bit b k" using assms by cases simp_all
qed

lemma bit_63: "bit (63 :: u32) k \<longleftrightarrow> k < 6"
proof -
  have m: "(63 :: u32) = mask 6" by (simp add: mask_eq_exp_minus_1)
  show ?thesis unfolding m bit_mask_iff by auto
qed

lemma no_high_bit [simp]: "8 \<le> k \<Longrightarrow> \<not> bit (b :: u8) k"
  using bit_imp_le_length [of b k] by auto

lemma three_bytes:
  "ucast (drop_bit 4 (push6 (push6 buf (drop_bit 18 (b64_word b0 b1 b2))) (drop_bit 12 (b64_word b0 b1 b2)))) = b0"
  "ucast (drop_bit 2 (push6 (push6 buf (drop_bit 12 (b64_word b0 b1 b2))) (drop_bit 6 (b64_word b0 b1 b2)))) = b1"
  "ucast (push6 (push6 buf (drop_bit 6 (b64_word b0 b1 b2))) (b64_word b0 b1 b2)) = b2"
  by (rule bits_8; simp add: push6_def b64_word_def bit_simps bit_63)+

abbreviation "url_bytes s \<equiv> utf8 (map (from_url \<circ> to_url) s)"

lemma decode_chunks: "b64_loop buf 0 (url_bytes (b64_chunks bs)) = Some bs"
proof (induction bs arbitrary: buf rule: b64_chunks.induct)
  case (2 b0)
  show ?case using three_bytes(1) [of buf b0 0 0] by (simp add: Let_def b64_step)
next
  case (3 b0 b1)
  show ?case using three_bytes(1,2) [where ?b0.0 = b0 and ?b1.0 = b1 and ?b2.0 = 0] by (simp add: Let_def b64_step)
next
  case (4 b0 b1 b2 rest)
  show ?case using three_bytes [where ?b0.0 = b0 and ?b1.0 = b1 and ?b2.0 = b2] by (simp add: Let_def b64_step 4 [unfolded comp_def])
qed simp

lemma base64url_roundtrip [simp]: "base64url_decode (base64url_encode bs) = Some bs"
  by (simp add: base64url_decode_def base64url_encode_def decode_chunks)

lemma decode_encoded:
  "decode_cursor rd (Some (base64url_encode (utf8 (cursor_json n))))
     = (case rd (utf8 (cursor_json n)) of None \<Rightarrow> 0 | Some v \<Rightarrow> unwrap_or 0 (Option.bind (jget v ''o'') as_i64))"
proof -
  have "b64_chunks (b # bs) \<noteq> []" for b bs by (cases "(b # bs)" rule: b64_chunks.cases) (simp_all add: Let_def)
  moreover obtain b bs where "utf8 (cursor_json n) = b # bs"
    by (cases "utf8 (cursor_json n)") (simp_all add: cursor_json_def utf8_char_def)
  ultimately have "base64url_encode (utf8 (cursor_json n)) \<noteq> []" by (simp add: base64url_encode_def)
  then show ?thesis by (simp add: decode_cursor_def utf8_valid_utf8)
qed

text \<open>An offset that is encoded as a cursor is what the cursor is decoded to, for every positive
  64-bit offset, where \<open>rd\<close> reads the JSON text of an object with one integer.
\<close>

theorem cursor_roundtrip:
  assumes "encode_cursor n = Some c" and "n < 2 ^ 63"
    and "rd (utf8 (cursor_json n)) = Some (JObject [(''o'', jnat (of_int n))])"
  shows "decode_cursor rd (Some c) = n"
proof -
  from assms(1) have n: "0 < n" and c: "c = base64url_encode (utf8 (cursor_json n))"
    by (auto simp: encode_cursor_def split: if_splits)
  have "unat (of_int n :: u64) = nat n" "uint (of_int n :: u64) = n"
    using n assms(2) by (simp_all add: unat_eq_nat_uint uint_word_of_int)
  then show ?thesis using n assms(2,3) by (simp add: decode_encoded c jget_def)
qed

theorem cursor_roundtrip_witness:
  "encode_cursor 40 = Some ''eyJvIjo0MH0''
   \<and> decode_cursor (\<lambda>bs. if bs = utf8 (cursor_json 40) then Some (JObject [(''o'', jnat 40)]) else None) (Some ''eyJvIjo0MH0'') = 40"
proof -
  have e: "encode_cursor 40 = Some ''eyJvIjo0MH0''" by code_simp
  have "(of_int 40 :: u64) = 40" by simp
  with cursor_roundtrip [OF e, where rd = "\<lambda>bs. if bs = utf8 (cursor_json 40) then Some (JObject [(''o'', jnat 40)]) else None"]
  show ?thesis using e by simp
qed

text \<open>A cursor that a client makes up may hold a negative offset.\<close>

lemma negative_cursor:
  "rd (utf8 (cursor_json (- 1))) = Some (JObject [(''o'', JNumber (NegInt (- 1)))])
   \<Longrightarrow> decode_cursor rd (Some (base64url_encode (utf8 (cursor_json (- 1))))) = - 1"
  by (simp add: decode_encoded jget_def)

section \<open>Limits\<close>

text \<open>The limit that is bound is at most the configured maximum, and it is not negative as a signed integer.\<close>

lemma limit_bounded:
  "unat (effective_limit opt frame) \<le> unat (mo_max_limit opt)"
  "sint (effective_limit opt frame) = uint (effective_limit opt frame)"
proof -
  have w: "unat (ucast x :: u64) = unat x" for x :: u32
    using unsigned_less [of x, where 'a = nat] by (simp add: unsigned_ucast_eq take_bit_nat_eq_self_iff)
  have "effective_limit opt frame \<le> ucast (mo_max_limit opt)" by (simp add: effective_limit_def Let_def)
  then show le: "unat (effective_limit opt frame) \<le> unat (mo_max_limit opt)" by (simp add: word_le_nat_alt w)
  have "unat (mo_max_limit opt) < 2 ^ 32" using unsigned_less [of "mo_max_limit opt", where 'a = nat] by simp
  with le have "unat (effective_limit opt frame) < 2 ^ 63" by simp
  then have "uint (effective_limit opt frame) < 2 ^ 63" by (simp only: uint_nat of_nat_less_numeral_power_cancel_iff)
  moreover have "- (2 ^ 63) \<le> uint (effective_limit opt frame)" by (rule order_trans [of _ 0]) simp_all
  ultimately show "sint (effective_limit opt frame) = uint (effective_limit opt frame)"
    by (simp add: sint_uint signed_take_bit_int_eq_self)
qed

end
