(* ===== verification/Nwp_Node.thy ===== *)
theory Nwp_Node
  imports Nwp_Codes
begin

text \<open>
  What the node servers share: requests and responses of \<^verbatim>\<open>nps-nwp/src/node_http.rs\<close>, and the size estimates
  of \<^verbatim>\<open>cgn.rs\<close>. The lengths of texts in memory stay far below \<open>2 ^ 64\<close>, so \<open>usize\<close> is a natural number.
\<close>

section \<open>Requests and responses\<close>

record node_request =
  nq_method :: string
  nq_path :: string
  nq_headers :: "(string \<times> string) list"
  nq_body :: bytes

definition node_request_new :: "string \<Rightarrow> string \<Rightarrow> node_request" where
  "node_request_new m path = \<lparr>nq_method = m, nq_path = path, nq_headers = [], nq_body = []\<rparr>"

definition node_with_header :: "string \<Rightarrow> string \<Rightarrow> node_request \<Rightarrow> node_request" where
  "node_with_header name v q = q\<lparr>nq_headers := AList.update (to_ascii_lowercase name) v (nq_headers q)\<rparr>"

definition json_body :: "crypto \<Rightarrow> jvalue \<Rightarrow> bytes" where
  "json_body cr v = utf8 (json_text cr v)"

definition node_with_json :: "crypto \<Rightarrow> jvalue \<Rightarrow> node_request \<Rightarrow> node_request" where
  "node_with_json cr v q = q\<lparr>nq_body := json_body cr v\<rparr>"

definition node_header :: "node_request \<Rightarrow> string \<Rightarrow> string option" where
  "node_header q name = map_of (nq_headers q) (to_ascii_lowercase name)"

record node_response =
  np_status :: nat
  np_headers :: "(string \<times> string) list"
  np_body :: bytes

definition node_json_value :: "(bytes \<Rightarrow> string + jvalue) \<Rightarrow> node_response \<Rightarrow> jvalue option" where
  "node_json_value rd r = (case rd (np_body r) of Inr v \<Rightarrow> Some v | Inl _ \<Rightarrow> None)"

definition node_resp_header :: "node_response \<Rightarrow> string \<Rightarrow> string option" where
  "node_resp_header r name = map_option snd (find (\<lambda>(k, v). eq_ignore_case k name) (np_headers r))"

definition node_empty :: "nat \<Rightarrow> node_response" where
  "node_empty status = \<lparr>np_status = status, np_headers = [], np_body = []\<rparr>"

definition node_error ::
    "crypto \<Rightarrow> nat \<Rightarrow> string \<Rightarrow> string \<Rightarrow> string \<Rightarrow> jvalue option \<Rightarrow> (string \<times> string) list \<Rightarrow> node_response" where
  "node_error cr status nps_status error_code message details extra =
     \<lparr>np_status = status, np_headers = (''content-type'', ''application/json'') # extra,
      np_body = json_body cr (JObject (bt_insert_opt ''details'' details (bt_collect
        [(''status'', JString nps_status), (''error'', JString error_code), (''message'', JString message)])))\<rparr>"

text \<open>The answer to a body or to parameters that the node does not accept.\<close>

definition bad_request :: "crypto \<Rightarrow> string \<Rightarrow> string \<Rightarrow> node_response" where
  "bad_request cr c message = node_error cr 400 ''NPS-CLIENT-BAD-REQUEST'' c message None []"

definition agent_required :: "crypto \<Rightarrow> node_response" where
  "agent_required cr = node_error cr 401 ''NPS-CLIENT-UNAUTHORIZED'' AUTH_NID_SCOPE_VIOLATION ''X-NWP-Agent header is required.'' None []"

section \<open>Size estimates\<close>

definition BYTES_PER_CGN :: nat where "BYTES_PER_CGN = 4"

definition div_ceil :: "nat \<Rightarrow> nat \<Rightarrow> nat" where
  "div_ceil n d = (if n mod d = 0 then n div d else n div d + 1)"

definition estimate_cgn_bytes :: "bytes \<Rightarrow> nat" where
  "estimate_cgn_bytes b = (if length b = 0 then 0 else div_ceil (length b) BYTES_PER_CGN)"

definition estimate_cgn :: "string \<Rightarrow> nat" where
  "estimate_cgn s = (if length (utf8 s) = 0 then 0 else div_ceil (length (utf8 s)) BYTES_PER_CGN)"

text \<open>Serialising fails for some types; \<open>enc\<close> is the derived writer of the type, \<open>None\<close> where it fails.\<close>

definition estimate_cgn_json :: "('v \<Rightarrow> bytes option) \<Rightarrow> 'v \<Rightarrow> nat" where
  "estimate_cgn_json enc v = (case enc v of Some b \<Rightarrow> estimate_cgn_bytes b | None \<Rightarrow> 0)"

definition estimate_cgn_rows :: "('v \<Rightarrow> bytes option) \<Rightarrow> 'v list \<Rightarrow> nat" where
  "estimate_cgn_rows enc rows = sum_list (map (estimate_cgn_json enc) rows)"

lemma div_ceil_bounds:
  assumes "0 < d"
  shows "n \<le> d * div_ceil n d" "d * div_ceil n d < n + d"
proof -
  have n: "n = d * (n div d) + n mod d" and m: "n mod d < d"
    using assms by simp_all
  have c: "d * div_ceil n d = (if n mod d = 0 then d * (n div d) else d * (n div d) + d)"
    unfolding div_ceil_def by simp
  show "n \<le> d * div_ceil n d" unfolding c by (split if_split, intro conjI impI; use n m in linarith)
  show "d * div_ceil n d < n + d" unfolding c by (split if_split, intro conjI impI; use n m assms in linarith)
qed

text \<open>An estimate covers every byte and is less than one unit too large.\<close>

lemma estimate_cgn_bounds:
  "length b \<le> 4 * estimate_cgn_bytes b" "4 * estimate_cgn_bytes b < length b + 4"
  using div_ceil_bounds [of 4 "length b"] by (auto simp: estimate_cgn_bytes_def BYTES_PER_CGN_def)

record token_budget_meta =
  tb_cgn_limit :: u32
  tb_tokenizer :: "string option"
  tb_supported_tokenizers :: "string list option"
  tb_token_budget_hint :: "bool option"
  tb_profile :: "string option"

definition token_budget_meta_new :: "u32 \<Rightarrow> token_budget_meta" where
  "token_budget_meta_new n =
     \<lparr>tb_cgn_limit = n, tb_tokenizer = None, tb_supported_tokenizers = None, tb_token_budget_hint = Some True, tb_profile = Some ''cgn.v1''\<rparr>"

definition effective_profile :: "token_budget_meta \<Rightarrow> string" where
  "effective_profile m = unwrap_or ''cgn.v1'' (tb_profile m)"

definition token_budget_to_value :: "token_budget_meta \<Rightarrow> jvalue" where
  "token_budget_to_value m =
     JObject (bt_insert_opt ''profile'' (map_option JString (tb_profile m))
       (bt_insert_opt ''token_budget_hint'' (map_option JBool (tb_token_budget_hint m))
       (bt_insert_opt ''supported_tokenizers'' (map_option jstrs (tb_supported_tokenizers m))
       (bt_insert_opt ''tokenizer'' (map_option JString (tb_tokenizer m))
       (bt_insert ''cgn_limit'' (jnat (ucast (tb_cgn_limit m))) [])))))"

definition token_budget_from_value :: "jvalue \<Rightarrow> token_budget_meta option" where
  "token_budget_from_value v =
     (case struct_fields [''cgn_limit'', ''tokenizer'', ''supported_tokenizers'', ''token_budget_hint'', ''profile''] v of
        Some [l, t, s, h, p] \<Rightarrow>
          (case (Option.bind l as_u32, opt_field as_str t, opt_field str_list s, opt_field as_bool h, opt_field as_str p) of
             (Some l, Some t, Some s, Some h, Some p) \<Rightarrow>
               Some \<lparr>tb_cgn_limit = l, tb_tokenizer = t, tb_supported_tokenizers = s, tb_token_budget_hint = h, tb_profile = p\<rparr>
           | _ \<Rightarrow> None)
      | _ \<Rightarrow> None)"

lemma token_budget_back [simp]: "token_budget_from_value (token_budget_to_value m) = Some m"
  by (cases m; simp add: token_budget_from_value_def token_budget_to_value_def struct_fields_def)
     (auto simp: opt_field_def str_list_def split: option.splits)

record budget_exceeded =
  be_requested :: nat
  be_limit :: nat

definition budget_exceeded_text :: "budget_exceeded \<Rightarrow> string" where
  "budget_exceeded_text e = ''CGN budget exceeded: '' @ show_nat (be_requested e) @ '' > '' @ show_nat (be_limit e)"

end
