(* ===== verification/Nwp_Memory.thy ===== *)
theory Nwp_Memory
  imports Nwp_Query Nwp_Node
begin

text \<open>
  \<^verbatim>\<open>nps-nwp/src/memory_server.rs\<close>: the memory node, the provider that filters rows in memory, and the
  trimming of an answer to the token budget of the caller. A provider is a function; the SHA-256 of
  the schema is \<open>sha256_hex\<close> of the parameters. Token counts are 32-bit words whose sums wrap around,
  as in a release build.
\<close>

type_synonym memory_row = frame_dict

record memory_result =
  mr_rows :: "memory_row list"
  mr_next_cursor :: "string option"

record parsed_query =
  pq_anchor_ref :: "string option"
  pq_filter :: "jvalue option"
  pq_fields :: "string list option"
  pq_limit :: u32
  pq_cursor :: "string option"
  pq_order :: "jvalue option"

definition not_null :: "jvalue option \<Rightarrow> jvalue option" where
  "not_null v = (case v of Some w \<Rightarrow> if is_null w then None else Some w | None \<Rightarrow> None)"

definition query_from_json :: "jvalue \<Rightarrow> u32 \<Rightarrow> string + parsed_query" where
  "query_from_json body default_limit =
     (case as_object body of
        None \<Rightarrow> Err ''QueryFrame must be a JSON object.''
      | Some obj \<Rightarrow> Ok \<lparr>pq_anchor_ref = opt_str obj ''anchor_ref'',
          pq_filter = not_null (map_of obj ''filter''),
          pq_fields = get_strs obj ''fields'',
          pq_limit = (case opt_u64 obj ''limit'' of Some l \<Rightarrow> ucast l | None \<Rightarrow> default_limit),
          pq_cursor = opt_str obj ''cursor'',
          pq_order = not_null (map_of obj ''order'')\<rparr>)"

record memory_error =
  me_code :: string
  me_message :: string

definition memory_filter_invalid :: "string \<Rightarrow> memory_error" where
  "memory_filter_invalid msg = \<lparr>me_code = QUERY_FILTER_INVALID, me_message = msg\<rparr>"

definition memory_field_unknown :: "string \<Rightarrow> memory_error" where
  "memory_field_unknown msg = \<lparr>me_code = QUERY_FIELD_UNKNOWN, me_message = msg\<rparr>"

type_synonym memory_provider = "parsed_query \<Rightarrow> memory_schema \<Rightarrow> memory_options \<Rightarrow> memory_error + memory_result"

section \<open>The in-memory provider\<close>

definition project :: "memory_row \<Rightarrow> string list option \<Rightarrow> memory_row" where
  "project row names = (case names of
       None \<Rightarrow> row
     | Some ns \<Rightarrow> fold (\<lambda>nm m. case map_of row nm of Some v \<Rightarrow> bt_insert nm v m | None \<Rightarrow> m) ns [])"

datatype ordering = Less | Equal | Greater

definition f64_partial_cmp :: "f64 \<Rightarrow> f64 \<Rightarrow> ordering option" where
  "f64_partial_cmp a b =
     (if f64_lt a b then Some Less else if f64_eq a b then Some Equal else if f64_lt b a then Some Greater else None)"

definition cmp_num :: "jvalue \<Rightarrow> jvalue \<Rightarrow> ordering option" where
  "cmp_num a b = (case (as_f64 a, as_f64 b) of (Some x, Some y) \<Rightarrow> f64_partial_cmp x y | _ \<Rightarrow> None)"

definition str_contains :: "string \<Rightarrow> string \<Rightarrow> bool" where
  "str_contains h n = list_ex (\<lambda>i. take (length n) (drop i h) = n) [0..<length h + 1]"

definition match_op :: "jvalue \<Rightarrow> string \<Rightarrow> jvalue \<Rightarrow> memory_error + bool" where
  "match_op actual op expected =
     (if op = ''$eq'' then Ok (jv_eq actual expected)
      else if op = ''$ne'' then Ok (\<not> jv_eq actual expected)
      else if op = ''$lt'' then Ok (cmp_num actual expected = Some Less)
      else if op = ''$lte'' then Ok (cmp_num actual expected \<in> {Some Less, Some Equal})
      else if op = ''$gt'' then Ok (cmp_num actual expected = Some Greater)
      else if op = ''$gte'' then Ok (cmp_num actual expected \<in> {Some Greater, Some Equal})
      else if op = ''$in'' then Ok (case as_array expected of Some a \<Rightarrow> list_ex (\<lambda>v. jv_eq v actual) a | None \<Rightarrow> False)
      else if op = ''$nin'' then Ok (case as_array expected of Some a \<Rightarrow> \<not> list_ex (\<lambda>v. jv_eq v actual) a | None \<Rightarrow> False)
      else if op = ''$contains'' then Ok (case (as_str actual, as_str expected) of (Some h, Some n) \<Rightarrow> str_contains h n | _ \<Rightarrow> False)
      else Err (memory_filter_invalid (''unsupported filter operator '' @ quoted op @ ''.'')))"

text \<open>Conditions in a row, up to the first that fails or is an error.\<close>

fun all_hold :: "('a \<Rightarrow> 'e + bool) \<Rightarrow> 'a list \<Rightarrow> 'e + bool" where
  "all_hold f [] = Ok True"
| "all_hold f (x # xs) = (case f x of Inl e \<Rightarrow> Inl e | Inr b \<Rightarrow> if b then all_hold f xs else Ok False)"

fun some_holds :: "('a \<Rightarrow> 'e + bool) \<Rightarrow> 'a list \<Rightarrow> 'e + bool" where
  "some_holds f [] = Ok False"
| "some_holds f (x # xs) = (case f x of Inl e \<Rightarrow> Inl e | Inr b \<Rightarrow> if b then Ok True else some_holds f xs)"

lemma hold_cong [fundef_cong]:
  "xs = ys \<Longrightarrow> (\<And>x. x \<in> set ys \<Longrightarrow> f x = g x) \<Longrightarrow> all_hold f xs = all_hold g ys"
  "xs = ys \<Longrightarrow> (\<And>x. x \<in> set ys \<Longrightarrow> f x = g x) \<Longrightarrow> some_holds f xs = some_holds g ys"
  by (induction ys arbitrary: xs) (auto split: sum.splits)

definition match_field_cond :: "jvalue \<Rightarrow> jvalue \<Rightarrow> memory_error + bool" where
  "match_field_cond actual cond = (case as_object cond of
       None \<Rightarrow> Ok (jv_eq actual cond)
     | Some obj \<Rightarrow> all_hold (\<lambda>(op, expected). match_op actual op expected) obj)"

function match_filter :: "memory_row \<Rightarrow> jvalue \<Rightarrow> memory_error + bool" where
  "match_filter row flt =
     (case flt of
        JObject obj \<Rightarrow> all_hold (\<lambda>(key, cond).
          if key = ''$and'' then
            (case cond of JArray arr \<Rightarrow> all_hold (match_filter row) arr
                        | _ \<Rightarrow> Err (memory_filter_invalid ''$and requires an array.''))
          else if key = ''$or'' then
            (case cond of JArray arr \<Rightarrow> some_holds (match_filter row) arr
                        | _ \<Rightarrow> Err (memory_filter_invalid ''$or requires an array.''))
          else match_field_cond (unwrap_or JNull (map_of row key)) cond) obj
      | _ \<Rightarrow> Err (memory_filter_invalid ''filter must be an object.''))"
  by pat_completeness auto
termination
  by (relation "measure (\<lambda>(row, v). size v)") (auto dest!: size_array_elem size_object_elem)

declare match_filter.simps [simp del]

text \<open>The loop over the rows; \<open>n\<close> rows have been taken. The limit is looked at after each row.\<close>

fun take_rows :: "parsed_query \<Rightarrow> nat \<Rightarrow> memory_row list \<Rightarrow> memory_error + memory_row list" where
  "take_rows frame n [] = Ok []"
| "take_rows frame n (row # rows) =
     try_res (case pq_filter frame of Some f \<Rightarrow> match_filter row f | None \<Rightarrow> Ok True) (\<lambda>keep.
       let taken = (if keep then [project row (pq_fields frame)] else []); n' = n + length taken
       in if pq_limit frame \<le> of_nat n' then Ok taken
          else try_res (take_rows frame n' rows) (\<lambda>rest. Ok (taken @ rest)))"

definition in_memory_query :: "memory_row list \<Rightarrow> memory_provider" where
  "in_memory_query rows frame sc opt =
     (case (case pq_fields frame of Some ns \<Rightarrow> find (\<lambda>nm. \<not> has_field sc nm) ns | None \<Rightarrow> None) of
        Some nm \<Rightarrow> Err (memory_field_unknown (''unknown field '' @ quoted nm @ ''.''))
      | None \<Rightarrow> try_res (take_rows frame 0 rows) (\<lambda>out. Ok \<lparr>mr_rows = out, mr_next_cursor = None\<rparr>))"

section \<open>Budgets\<close>

definition parse_budget :: "node_request \<Rightarrow> u32" where
  "parse_budget req = unwrap_or 0 (Option.bind (node_header req BUDGET) parse_u32)"

definition effective_budget :: "u32 \<Rightarrow> u32 \<Rightarrow> u32" where
  "effective_budget agent_budget cgn_limit =
     (if cgn_limit = 0 then agent_budget else if agent_budget = 0 then cgn_limit else min cgn_limit agent_budget)"

definition measure_rows :: "crypto \<Rightarrow> memory_row list \<Rightarrow> u32" where
  "measure_rows cr rows = of_nat (div_ceil (length (json_body cr (JArray (map JObject rows)))) 4)"

definition measure_row :: "crypto \<Rightarrow> memory_row \<Rightarrow> u32" where
  "measure_row cr row = of_nat (div_ceil (length (json_body cr (JObject row))) 4)"

fun trim_from :: "crypto \<Rightarrow> u32 \<Rightarrow> u32 \<Rightarrow> memory_row list \<Rightarrow> memory_row list \<times> u32" where
  "trim_from cr budget acc [] = ([], acc)"
| "trim_from cr budget acc (row # rows) =
     (let tok = measure_row cr row
      in if budget < acc + tok then ([], acc)
         else let (out, total) = trim_from cr budget (acc + tok) rows in (row # out, total))"

definition trim_to_budget :: "crypto \<Rightarrow> memory_row list \<Rightarrow> u32 \<Rightarrow> memory_row list \<times> u32" where
  "trim_to_budget cr rows budget = trim_from cr budget 0 rows"

section \<open>Documents\<close>

definition build_frame_schema :: "memory_schema \<Rightarrow> jvalue" where
  "build_frame_schema sc = JObject [(''fields'', JArray (map (\<lambda>f. JObject (bt_collect
     [(''name'', JString (mf_name f)), (''type'', JString (mf_type f)), (''nullable'', JBool (mf_nullable f))])) (ms_fields sc)))]"

definition memory_manifest :: "memory_options \<Rightarrow> string \<Rightarrow> string \<Rightarrow> jvalue" where
  "memory_manifest opt prefix anchor_id =
     JObject (bt_insert_opt ''display_name'' (map_option JString (mo_display_name opt)) (bt_collect
       [(''nwp'', JString ''0.4''), (''node_id'', JString (mo_node_id opt)), (''node_type'', JString ''memory''),
        (''wire_formats'', jstrs [''ncp-capsule'', ''json'']), (''preferred_format'', JString ''json''),
        (''schema_anchors'', JObject [(''default'', JString anchor_id)]),
        (''capabilities'', JObject (bt_collect [(''query'', JBool True), (''stream'', JBool True), (''token_budget_hint'', JBool True)])),
        (''auth'', JObject (bt_collect [(''required'', JBool (mo_require_auth opt)),
           (''identity_type'', JString (if mo_require_auth opt then ''nip-cert'' else ''none''))])),
        (''endpoints'', JObject (bt_collect [(''query'', JString (prefix @ ''/query'')), (''stream'', JString (prefix @ ''/stream'')),
           (''schema'', JString (prefix @ ''/.schema''))]))]))"

section \<open>The node\<close>

record memory_app =
  ma_opt :: memory_options
  ma_prefix :: string
  ma_provider :: memory_provider
  ma_nwm_json :: bytes
  ma_schema_json :: bytes
  ma_anchor_id :: string

definition memory_app_new :: "crypto \<Rightarrow> memory_options \<Rightarrow> memory_provider \<Rightarrow> memory_app" where
  "memory_app_new cr opt provider =
     (let prefix = rev (dropWhile (\<lambda>c. c = CHR ''/'') (rev (mo_path_prefix opt)));
          schema_text = json_text cr (build_frame_schema (mo_schema opt));
          anchor_id = ''sha256:'' @ sha256_hex cr schema_text
      in \<lparr>ma_opt = opt, ma_prefix = prefix, ma_provider = provider,
          ma_nwm_json = json_body cr (memory_manifest opt prefix anchor_id), ma_schema_json = utf8 schema_text,
          ma_anchor_id = anchor_id\<rparr>)"

definition memory_type_header :: "string \<times> string" where
  "memory_type_header = (to_ascii_lowercase NODE_TYPE, ''memory'')"

definition parse_query_frame ::
    "crypto \<Rightarrow> (bytes \<Rightarrow> string + jvalue) \<Rightarrow> memory_app \<Rightarrow> node_request \<Rightarrow> node_response + parsed_query" where
  "parse_query_frame cr rd app req =
     (case rd (nq_body req) of
        Inl e \<Rightarrow> Err (bad_request cr QUERY_FILTER_INVALID e)
      | Inr body \<Rightarrow> (case query_from_json body (mo_default_limit (ma_opt app)) of
          Inl e \<Rightarrow> Err (bad_request cr QUERY_FILTER_INVALID e)
        | Inr f \<Rightarrow> Ok f))"

definition run_provider :: "crypto \<Rightarrow> memory_app \<Rightarrow> parsed_query \<Rightarrow> node_response + memory_result" where
  "run_provider cr app frame =
     (case ma_provider app frame (mo_schema (ma_opt app)) (ma_opt app) of
        Inl e \<Rightarrow> Err (bad_request cr (me_code e) (me_message e))
      | Inr r \<Rightarrow> Ok r)"

definition clamp_limit :: "memory_app \<Rightarrow> parsed_query \<Rightarrow> parsed_query" where
  "clamp_limit app frame =
     (if mo_max_limit (ma_opt app) < pq_limit frame then frame\<lparr>pq_limit := mo_max_limit (ma_opt app)\<rparr> else frame)"

definition within_budget :: "crypto \<Rightarrow> u32 \<Rightarrow> memory_row list \<Rightarrow> memory_row list \<times> u32" where
  "within_budget cr budget rows =
     (let token_est = measure_rows cr rows
      in if 0 < budget \<and> budget < token_est then trim_to_budget cr rows budget else (rows, token_est))"

definition capsule_value :: "memory_app \<Rightarrow> memory_row list \<Rightarrow> u32 \<Rightarrow> string option \<Rightarrow> jvalue" where
  "capsule_value app rows token_est cursor =
     JObject (bt_insert ''token_est'' (jnat (ucast token_est)) (bt_insert_opt ''next_cursor'' (map_option JString cursor) (bt_collect
       [(''anchor_ref'', JString (ma_anchor_id app)), (''count'', jnat (of_nat (length rows))), (''data'', JArray (map JObject rows))])))"

definition memory_handle_query ::
    "crypto \<Rightarrow> (bytes \<Rightarrow> string + jvalue) \<Rightarrow> memory_app \<Rightarrow> node_request \<Rightarrow> node_response" where
  "memory_handle_query cr rd app req =
     (case parse_query_frame cr rd app req of
        Inl resp \<Rightarrow> resp
      | Inr frame \<Rightarrow> (case run_provider cr app (clamp_limit app frame) of
          Inl resp \<Rightarrow> resp
        | Inr result \<Rightarrow>
            let budget = effective_budget (parse_budget req) (mo_default_token_budget (ma_opt app));
                (rows, token_est) = within_budget cr budget (mr_rows result)
            in \<lparr>np_status = 200,
                np_headers = [(''content-type'', MIME_CAPSULE), (to_ascii_lowercase SCHEMA, ma_anchor_id app),
                              (to_ascii_lowercase TOKENS, show_nat (unat token_est)), memory_type_header],
                np_body = json_body cr (capsule_value app rows token_est (mr_next_cursor result))\<rparr>))"

text \<open>The identifier of a stream is made from the clock and a counter that moves on, as in every node.\<close>

definition node_gen_hex :: "u64 \<Rightarrow> nat \<Rightarrow> u64 \<Rightarrow> string \<times> u64" where
  "node_gen_hex nanos n_bytes c = (take (n_bytes * 2) (hex16 nanos @ hex16 c), c + 1)"

definition stream_lines :: "crypto \<Rightarrow> memory_app \<Rightarrow> string \<Rightarrow> memory_row list \<Rightarrow> string" where
  "stream_lines cr app stream_id rows =
     (let chunk = JObject (bt_collect [(''stream_id'', JString stream_id), (''seq'', jnat 0), (''is_last'', JBool False),
            (''anchor_ref'', JString (ma_anchor_id app)), (''data'', JArray (map JObject rows))]);
          last_line = JObject (bt_collect [(''stream_id'', JString stream_id), (''seq'', jnat 1), (''is_last'', JBool True),
            (''data'', JArray [])])
      in json_text cr chunk @ [CHR 0x0A] @ json_text cr last_line @ [CHR 0x0A])"

definition memory_handle_stream ::
    "crypto \<Rightarrow> (bytes \<Rightarrow> string + jvalue) \<Rightarrow> memory_app \<Rightarrow> u64 \<Rightarrow> node_request \<Rightarrow> u64 \<Rightarrow> node_response \<times> u64" where
  "memory_handle_stream cr rd app nanos req counter =
     (case parse_query_frame cr rd app req of
        Inl resp \<Rightarrow> (resp, counter)
      | Inr frame \<Rightarrow> (case run_provider cr app frame of
          Inl resp \<Rightarrow> (resp, counter)
        | Inr result \<Rightarrow>
            let (stream_id, counter') = node_gen_hex nanos 16 counter
            in (\<lparr>np_status = 200,
                 np_headers = [(''content-type'', MIME_CAPSULE), (to_ascii_lowercase SCHEMA, ma_anchor_id app), memory_type_header],
                 np_body = utf8 (stream_lines cr app stream_id (mr_rows result))\<rparr>, counter')))"

definition memory_handle ::
    "crypto \<Rightarrow> (bytes \<Rightarrow> string + jvalue) \<Rightarrow> memory_app \<Rightarrow> u64 \<Rightarrow> node_request \<Rightarrow> u64 \<Rightarrow> node_response \<times> u64" where
  "memory_handle cr rd app nanos req counter =
     (case strip_prefix (ma_prefix app) (nq_path req) of
        None \<Rightarrow> (node_empty 404, counter)
      | Some sub \<Rightarrow>
          if mo_require_auth (ma_opt app) \<and> node_header req AGENT = None then (agent_required cr, counter)
          else if sub \<in> {''/.nwm'', ''/.nwm/''} then
            (\<lparr>np_status = 200, np_headers = [(''content-type'', MIME_MANIFEST), memory_type_header], np_body = ma_nwm_json app\<rparr>, counter)
          else if sub \<in> {''/.schema'', ''/.schema/''} then
            (\<lparr>np_status = 200, np_headers = [(''content-type'', ''application/json''), (to_ascii_lowercase SCHEMA, ma_anchor_id app)],
              np_body = ma_schema_json app\<rparr>, counter)
          else if sub \<in> {''/query'', ''/query/''} then
            (if nq_method req \<noteq> ''POST'' then node_empty 405 else memory_handle_query cr rd app req, counter)
          else if sub \<in> {''/stream'', ''/stream/''} then
            (if nq_method req \<noteq> ''POST'' then (node_empty 405, counter) else memory_handle_stream cr rd app nanos req counter)
          else (node_empty 404, counter))"

end
