(* ===== verification/Nwp_Memory_Props.thy ===== *)
theory Nwp_Memory_Props
  imports Nwp_Memory
begin

text \<open>
  Properties of the memory node: what the in-memory provider returns, and that an answer keeps to the limit and to the
  token budget.
\<close>

section \<open>Budgets\<close>




section \<open>The in-memory provider\<close>

definition row_matches :: "parsed_query \<Rightarrow> memory_row \<Rightarrow> bool" where
  "row_matches frame row = (case pq_filter frame of Some f \<Rightarrow> match_filter row f = Ok True | None \<Rightarrow> True)"

lemma take_rows_reference:
  assumes "\<And>row f. row \<in> set rows \<Longrightarrow> pq_filter frame = Some f \<Longrightarrow> is_ok (match_filter row f)"
    and "n < unat (pq_limit frame)" "n + length rows < 2 ^ 32"
  shows "take_rows frame n rows
    = Ok (take (unat (pq_limit frame) - n) (map (\<lambda>row. project row (pq_fields frame)) (filter (row_matches frame) rows)))"
  using assms
proof (induction rows arbitrary: n)
  case (Cons row rows)
  have keep: "(case pq_filter frame of Some f \<Rightarrow> match_filter row f | None \<Rightarrow> Ok True) = Ok (row_matches frame row)"
    using Cons.prems(1) [of row] by (cases "pq_filter frame") (auto simp: row_matches_def elim!: is_ok.elims)
  have ih: "n' < unat (pq_limit frame) \<Longrightarrow> n' + length rows < 2 ^ 32 \<Longrightarrow> take_rows frame n' rows
    = Ok (take (unat (pq_limit frame) - n') (map (\<lambda>row. project row (pq_fields frame)) (filter (row_matches frame) rows)))" for n'
    using Cons.IH Cons.prems(1) by simp
  have le: "pq_limit frame \<le> of_nat m \<longleftrightarrow> unat (pq_limit frame) \<le> m" if "m < 2 ^ 32" for m
    using that by (simp add: word_le_nat_alt unat_of_nat take_bit_nat_eq_self)
  have le1: "pq_limit frame \<le> of_nat n + 1 \<longleftrightarrow> unat (pq_limit frame) \<le> Suc n"
    using le [of "Suc n"] Cons.prems(3) by (simp add: add.commute)
  show ?case
  proof (cases "row_matches frame row")
    case True
    show ?thesis
    proof (cases "unat (pq_limit frame) \<le> Suc n")
      case True': True
      then have "unat (pq_limit frame) - n = Suc 0" using Cons.prems(2) by simp
      with True True' Cons.prems show ?thesis by (simp add: keep le le1 Let_def)
    next
      case False
      then obtain k where k: "unat (pq_limit frame) - n = Suc k" "unat (pq_limit frame) - Suc n = k"
        using Cons.prems(2) by (cases "unat (pq_limit frame) - n") auto
      with True False Cons.prems ih [of "Suc n"] show ?thesis by (simp add: keep le le1 Let_def)
    qed
  next
    case False
    with Cons.prems ih [of n] show ?thesis by (simp add: keep le le1 Let_def)
  qed
qed simp

text \<open>Property C23 (equivalence). The in-memory provider returns the first rows that match the filter, in the order of the
  table, each with the requested fields, as many as the limit allows. Every requested field must be one of
  the schema and the filter must be one that the provider reads on every row; the limit must not be zero.\<close>

theorem in_memory_reference:
  assumes "list_all (has_field sc) (unwrap_or [] (pq_fields frame))"
    and "\<And>row f. row \<in> set rows \<Longrightarrow> pq_filter frame = Some f \<Longrightarrow> is_ok (match_filter row f)"
    and "0 < pq_limit frame" "length rows < 2 ^ 32"
  shows "in_memory_query rows frame sc opt
    = Ok \<lparr>mr_rows = take (unat (pq_limit frame)) (map (\<lambda>row. project row (pq_fields frame)) (filter (row_matches frame) rows)),
          mr_next_cursor = None\<rparr>"
proof -
  have "(case pq_fields frame of Some ns \<Rightarrow> find (\<lambda>nm. \<not> has_field sc nm) ns | None \<Rightarrow> None) = None"
    using assms(1) by (auto simp: find_None_iff list_all_iff split: option.splits)
  moreover have "0 < unat (pq_limit frame)" using assms(3) by (simp add: word_less_nat_alt)
  ultimately show ?thesis using take_rows_reference [of rows frame 0] assms(2,4) by (simp add: in_memory_query_def)
qed

definition demo_rows :: "memory_row list" where
  "demo_rows = [[(''id'', jnat 1), (''price'', jnat 9)], [(''id'', jnat 2), (''price'', jnat 4)], [(''id'', jnat 3), (''price'', jnat 9)]]"

definition demo_frame :: "u32 \<Rightarrow> string list option \<Rightarrow> jvalue option \<Rightarrow> parsed_query" where
  "demo_frame limit names flt =
     \<lparr>pq_anchor_ref = None, pq_filter = flt, pq_fields = names, pq_limit = limit, pq_cursor = None, pq_order = None\<rparr>"

definition demo_table :: memory_schema where
  "demo_table = \<lparr>ms_table_name = ''t'', ms_primary_key = ''id'', ms_fields = [memory_field_new ''id'' ''number'', memory_field_new ''price'' ''number'']\<rparr>"

definition price_is_nine :: jvalue where
  "price_is_nine = JObject [(''price'', JObject [(''$eq'', jnat 9)])]"

lemma price_match: "match_filter [(''id'', i), (''price'', p)] price_is_nine = Ok (jv_eq p (jnat 9))"
  by (simp add: match_filter.simps price_is_nine_def match_field_cond_def match_op_def)

theorem in_memory_reference_witness:
  "in_memory_query demo_rows (demo_frame 1 (Some [''id'']) (Some price_is_nine)) demo_table (memory_options_new ''m'' ''/m'' demo_table)
     = Ok \<lparr>mr_rows = [[(''id'', jnat 1)]], mr_next_cursor = None\<rparr>"
proof -
  have "list_all (has_field demo_table) [''id'']" by code_simp
  moreover have "is_ok (match_filter row f)" if "row \<in> set demo_rows" "pq_filter (demo_frame 1 (Some [''id'']) (Some price_is_nine)) = Some f" for row f
    using that by (auto simp: demo_rows_def demo_frame_def price_match)
  ultimately show ?thesis
    using in_memory_reference [of demo_table "demo_frame 1 (Some [''id'']) (Some price_is_nine)" demo_rows "memory_options_new ''m'' ''/m'' demo_table"]
    by (simp add: demo_rows_def demo_frame_def price_match row_matches_def project_def jv_eq.simps)
qed

text \<open>With the limit zero, which a client sends as such or as \<open>2 ^ 32\<close>, the provider returns a row all the same.\<close>

lemma limit_zero_returns_a_row:
  "in_memory_query demo_rows (demo_frame 0 None None) demo_table opt = Ok \<lparr>mr_rows = [hd demo_rows], mr_next_cursor = None\<rparr>"
  "map_option pq_limit (case query_from_json (JObject [(''limit'', jnat (2 ^ 32))]) 20 of Inr q \<Rightarrow> Some q | Inl _ \<Rightarrow> None) = Some 0"
  by (simp_all add: in_memory_query_def demo_frame_def demo_rows_def project_def query_from_json_def field_defs)

text \<open>A field is looked up without regard to case when it is validated, and with regard to case when the row is projected.\<close>

lemma projection_is_case_sensitive:
  "in_memory_query demo_rows (demo_frame 1 (Some [''ID'']) None) demo_table opt = Ok \<lparr>mr_rows = [[]], mr_next_cursor = None\<rparr>"
proof -
  have "has_field demo_table ''ID''" by code_simp
  then show ?thesis by (simp add: in_memory_query_def demo_frame_def demo_rows_def project_def)
qed

text \<open>An empty disjunction holds for no row here, while the SQL translator drops it.\<close>

lemma empty_or_matches_nothing: "match_filter row (JObject [(''$or'', JArray [])]) = Ok False"
  by (simp add: match_filter.simps)

section \<open>The answer to a query\<close>






end
