(* ===== verification/Nwp_Task.thy ===== *)
theory Nwp_Task
  imports Nwp_Node
begin

text \<open>
  What an action node keeps (\<^verbatim>\<open>nps-nwp/src/action_server.rs\<close>): the store of asynchronous tasks, the idempotency cache,
  cancellation, and the guard on callback URLs. Times are nanoseconds since the epoch; the clock reading
  is the argument \<open>now\<close>.
\<close>

section \<open>Tasks\<close>

record action_task =
  tk_task_id :: string
  tk_action_id :: string
  tk_status :: string
  tk_progress :: "f64 option"
  tk_created_at :: int
  tk_updated_at :: int
  tk_request_id :: "string option"
  tk_agent_nid :: "string option"
  tk_result :: "jvalue option"
  tk_error :: "jvalue option"

type_synonym task_map = "(string, action_task) btree"

definition is_terminal :: "string \<Rightarrow> bool" where
  "is_terminal status \<longleftrightarrow> status \<in> {''completed'', ''failed'', ''cancelled''}"

definition task_new :: "int \<Rightarrow> string \<Rightarrow> string \<Rightarrow> string option \<Rightarrow> string option \<Rightarrow> action_task" where
  "task_new now tid aid rid nid =
     \<lparr>tk_task_id = tid, tk_action_id = aid, tk_status = ''pending'', tk_progress = None, tk_created_at = now, tk_updated_at = now,
      tk_request_id = rid, tk_agent_nid = nid, tk_result = None, tk_error = None\<rparr>"

definition task_create :: "int \<Rightarrow> string \<Rightarrow> string \<Rightarrow> string option \<Rightarrow> string option \<Rightarrow> task_map \<Rightarrow> task_map" where
  "task_create now tid aid rid nid m = bt_insert tid (task_new now tid aid rid nid) m"

definition task_get :: "task_map \<Rightarrow> string \<Rightarrow> action_task option" where
  "task_get m tid = map_of m tid"

text \<open>An update of one record under the lock: where \<open>ok\<close> does not hold of it, nothing changes.\<close>

definition task_modify :: "(action_task \<Rightarrow> bool) \<Rightarrow> (action_task \<Rightarrow> action_task) \<Rightarrow> string \<Rightarrow> task_map \<Rightarrow> bool \<times> task_map" where
  "task_modify ok f tid m = (case map_of m tid of
       Some r \<Rightarrow> if ok r then (True, bt_insert tid (f r) m) else (False, m)
     | None \<Rightarrow> (False, m))"

definition try_transition :: "int \<Rightarrow> string \<Rightarrow> string \<Rightarrow> string \<Rightarrow> task_map \<Rightarrow> bool \<times> task_map" where
  "try_transition now tid expected new =
     task_modify (\<lambda>r. tk_status r = expected) (\<lambda>r. r\<lparr>tk_status := new, tk_updated_at := now\<rparr>) tid"

definition F64_ONE :: f64 where "F64_ONE = 0x3FF0000000000000"

definition task_complete :: "int \<Rightarrow> string \<Rightarrow> jvalue option \<Rightarrow> task_map \<Rightarrow> bool \<times> task_map" where
  "task_complete now tid result =
     task_modify (\<lambda>r. \<not> is_terminal (tk_status r))
       (\<lambda>r. r\<lparr>tk_status := ''completed'', tk_result := result, tk_progress := Some F64_ONE, tk_updated_at := now\<rparr>) tid"

definition task_fail :: "int \<Rightarrow> string \<Rightarrow> jvalue \<Rightarrow> task_map \<Rightarrow> bool \<times> task_map" where
  "task_fail now tid err =
     task_modify (\<lambda>r. \<not> is_terminal (tk_status r)) (\<lambda>r. r\<lparr>tk_status := ''failed'', tk_error := Some err, tk_updated_at := now\<rparr>) tid"

definition task_cancel :: "int \<Rightarrow> string \<Rightarrow> task_map \<Rightarrow> bool \<times> task_map" where
  "task_cancel now tid =
     task_modify (\<lambda>r. \<not> is_terminal (tk_status r)) (\<lambda>r. r\<lparr>tk_status := ''cancelled'', tk_updated_at := now\<rparr>) tid"

text \<open>\<open>f64::clamp\<close> between 0 and 1; a NaN stays.\<close>

definition clamp_unit :: "f64 \<Rightarrow> f64" where
  "clamp_unit x = (if f64_lt x 0 then 0 else if f64_lt F64_ONE x then F64_ONE else x)"

definition update_progress :: "int \<Rightarrow> string \<Rightarrow> f64 \<Rightarrow> task_map \<Rightarrow> bool \<times> task_map" where
  "update_progress now tid x =
     task_modify (\<lambda>r. True) (\<lambda>r. r\<lparr>tk_progress := Some (clamp_unit x), tk_updated_at := now\<rparr>) tid"

lemma task_modify_get:
  "map_of (snd (task_modify ok f tid m)) t =
     (if t = tid then (case map_of m tid of Some r \<Rightarrow> Some (if ok r then f r else r) | None \<Rightarrow> None) else map_of m t)"
  by (simp add: task_modify_def split: option.splits)

lemma task_modify_fst: "fst (task_modify ok f tid m) \<longleftrightarrow> (\<exists>r. map_of m tid = Some r \<and> ok r)"
  by (simp add: task_modify_def split: option.splits)

lemma task_modify_keys: "dom (map_of (snd (task_modify ok f tid m))) = dom (map_of m)"
  by (auto simp: task_modify_get split: option.splits if_splits)

lemmas task_ops = try_transition_def task_complete_def task_fail_def task_cancel_def update_progress_def

section \<open>The contract of a task store\<close>

text \<open>
  The states of a task: \<open>pending\<close>, \<open>running\<close>, and the three terminal ones. The locale states what a store promises of
  the status of its tasks under the operations that a node uses, and derives that a terminal task stays as it is.
\<close>

datatype task_op =
    OpStart string
  | OpComplete string "jvalue option"
  | OpFail string jvalue
  | OpCancel string
  | OpProgress string f64

definition may_follow :: "string \<Rightarrow> string \<Rightarrow> bool" where
  "may_follow a b \<longleftrightarrow> a = b \<or> \<not> is_terminal a \<and> (is_terminal b \<or> a = ''pending'' \<and> b = ''running'')"

locale task_store =
  fixes status :: "'m \<Rightarrow> string \<Rightarrow> string option"
    and run_op :: "int \<Rightarrow> task_op \<Rightarrow> 'm \<Rightarrow> 'm"
  assumes exists_kept: "status (run_op now op m) t = None \<longleftrightarrow> status m t = None"
    and moves_forward: "status m t = Some a \<Longrightarrow> status (run_op now op m) t = Some b \<Longrightarrow> may_follow a b"
begin

definition run_ops :: "(int \<times> task_op) list \<Rightarrow> 'm \<Rightarrow> 'm" where
  "run_ops ops m = fold (\<lambda>(now, op). run_op now op) ops m"

lemma terminal_stays: "status m t = Some a \<Longrightarrow> is_terminal a \<Longrightarrow> status (run_ops ops m) t = Some a"
proof (induction ops arbitrary: m)
  case (Cons o1 ops)
  obtain now op where o1: "o1 = (now, op)" by (cases o1)
  obtain b where b: "status (run_op now op m) t = Some b" using exists_kept [of now op m t] Cons.prems(1) by (cases "status (run_op now op m) t") auto
  from moves_forward [OF Cons.prems(1) b] Cons.prems(2) have "b = a" by (simp add: may_follow_def)
  with Cons.IH [of "run_op now op m"] b Cons.prems(2) show ?case by (simp add: run_ops_def o1)
qed (simp add: run_ops_def)

end

definition task_status :: "task_map \<Rightarrow> string \<Rightarrow> string option" where
  "task_status m t = map_option tk_status (task_get m t)"

fun run_task_op :: "int \<Rightarrow> task_op \<Rightarrow> task_map \<Rightarrow> task_map" where
  "run_task_op now (OpStart t) m = snd (try_transition now t ''pending'' ''running'' m)"
| "run_task_op now (OpComplete t r) m = snd (task_complete now t r m)"
| "run_task_op now (OpFail t e) m = snd (task_fail now t e m)"
| "run_task_op now (OpCancel t) m = snd (task_cancel now t m)"
| "run_task_op now (OpProgress t x) m = snd (update_progress now t x m)"

lemma terminal_words [simp]: "is_terminal ''completed''" "is_terminal ''failed''" "is_terminal ''cancelled''"
    "\<not> is_terminal ''pending''" "\<not> is_terminal ''running''"
  by (simp_all add: is_terminal_def)

interpretation in_memory_tasks: task_store task_status run_task_op
proof
  fix now op m t
  show "task_status (run_task_op now op m) t = None \<longleftrightarrow> task_status m t = None"
    by (cases op) (auto simp: task_status_def task_get_def task_ops task_modify_get split: option.splits)
next
  fix now op m t a b
  assume a: "task_status m t = Some a" and b: "task_status (run_task_op now op m) t = Some b"
  from a obtain r where "map_of m t = Some r" "a = tk_status r" by (auto simp: task_status_def task_get_def)
  with b show "may_follow a b"
    by (cases op) (auto simp: task_status_def task_get_def task_ops task_modify_get may_follow_def split: option.splits if_splits)
qed

section \<open>Idempotency\<close>

text \<open>A frame of a stream, as it is kept for replay.\<close>

record action_stream_frame =
  sf_stream_id :: string
  sf_seq :: u64
  sf_is_last :: bool
  sf_anchor_ref :: "string option"
  sf_data :: "jvalue list"
  sf_window_size :: "u32 option"
  sf_error_code :: "string option"

record idempotent_entry =
  id_action_id :: string
  id_params_hash :: string
  id_result :: "jvalue option"
  id_stream_frames :: "action_stream_frame list option"
  id_anchor_ref :: "string option"
  id_task_id :: "string option"
  id_expires_at :: int

type_synonym idem_map = "(string, idempotent_entry) btree"

definition unit_separated :: "string \<Rightarrow> string \<Rightarrow> string" where
  "unit_separated a b = a @ CHR 0x1F # b"

definition idem_key :: "string \<Rightarrow> string \<Rightarrow> string" where
  "idem_key action_id key = unit_separated action_id key"

definition cache_get :: "int \<Rightarrow> idem_map \<Rightarrow> string \<Rightarrow> idempotent_entry option \<times> idem_map" where
  "cache_get now m key = (case map_of m key of
       Some e \<Rightarrow> if id_expires_at e \<le> now then (None, bt_remove key m) else (Some e, m)
     | None \<Rightarrow> (None, m))"

definition cache_try_store :: "int \<Rightarrow> idem_map \<Rightarrow> string \<Rightarrow> idempotent_entry \<Rightarrow> bool \<times> idem_map" where
  "cache_try_store now m key e = (case map_of m key of
       Some old \<Rightarrow> if now < id_expires_at old then (id_params_hash old = id_params_hash e, m)
                   else (True, bt_insert key e m)
     | None \<Rightarrow> (True, bt_insert key e m))"

definition idem_get :: "int \<Rightarrow> idem_map \<Rightarrow> string \<Rightarrow> string \<Rightarrow> idempotent_entry option \<times> idem_map" where
  "idem_get now m action_id key = cache_get now m (idem_key action_id key)"

definition idem_try_store :: "int \<Rightarrow> idem_map \<Rightarrow> string \<Rightarrow> string \<Rightarrow> idempotent_entry \<Rightarrow> bool \<times> idem_map" where
  "idem_try_store now m action_id key e = cache_try_store now m (idem_key action_id key) e"

definition idempotency_cache_scope :: "string \<Rightarrow> string option \<Rightarrow> string" where
  "idempotency_cache_scope action_id nid = unit_separated action_id (unwrap_or [] nid)"

text \<open>What a cache promises its client: a stored entry is found until it expires, and not under another key.\<close>

locale idempotency_cache =
  fixes get :: "int \<Rightarrow> 'm \<Rightarrow> 'k \<Rightarrow> 'e option \<times> 'm"
    and try_store :: "int \<Rightarrow> 'm \<Rightarrow> 'k \<Rightarrow> 'e \<Rightarrow> bool \<times> 'm"
    and expires :: "'e \<Rightarrow> int"
  assumes miss_then_store: "fst (get now m k) = None \<Longrightarrow> now \<le> now' \<Longrightarrow> now' < expires e \<Longrightarrow> now'' < expires e
      \<Longrightarrow> fst (get now'' (snd (try_store now' (snd (get now m k)) k e)) k) = Some e"
    and live_entry_wins: "fst (get now m k) = Some e \<Longrightarrow> now' < expires e \<Longrightarrow> fst (get now' (snd (try_store now m k e')) k) = Some e"
    and get_keeps: "fst (get now m k) = Some e \<Longrightarrow> now' < expires e \<Longrightarrow> fst (get now' (snd (get now m k)) k) = Some e"
    and other_key: "k \<noteq> k' \<Longrightarrow> fst (get now' (snd (try_store now m k e)) k') = fst (get now' m k')"
begin

lemma stored_once:
  assumes "fst (get now m k) = None" "now \<le> now'" "now' < expires e" "now'' < expires e" "now3 < expires e"
  shows "fst (get now3 (snd (try_store now'' (snd (try_store now' (snd (get now m k)) k e)) k e')) k) = Some e"
  using live_entry_wins [OF miss_then_store [OF assms(1-4)] assms(5)] .

end

interpretation in_memory_cache: idempotency_cache cache_get cache_try_store id_expires_at
  by unfold_locales (auto simp: cache_get_def cache_try_store_def split: option.splits if_splits)

text \<open>Keys are texts joined by a unit separator; they are distinct as long as actions and callers hold none.\<close>

lemma unit_separated_inj:
  "CHR 0x1F \<notin> set a \<Longrightarrow> CHR 0x1F \<notin> set a' \<Longrightarrow> unit_separated a b = unit_separated a' b' \<longleftrightarrow> a = a' \<and> b = b'"
proof (induction a arbitrary: a')
  case Nil
  then show ?case by (cases a') (auto simp: unit_separated_def)
next
  case (Cons c cs)
  then show ?case by (cases a') (auto simp: unit_separated_def)
qed

text \<open>\<open>fnv1a_hex\<close> of the JSON text of the parameters.\<close>

definition hex_upper16 :: "u64 \<Rightarrow> string" where
  "hex_upper16 w = map (\<lambda>c. if CHR ''a'' \<le> c \<and> c \<le> CHR ''f'' then char_of (of_char c - 32 :: nat) else c) (hex16 w)"

definition fnv1a :: "bytes \<Rightarrow> u64" where
  "fnv1a bs = foldl (\<lambda>h b. xor h (ucast b) * 0x100000001B3) 0xCBF29CE484222325 bs"

definition fnv1a_hex :: "bytes \<Rightarrow> string" where
  "fnv1a_hex bs = hex_upper16 (fnv1a bs)"

definition hash_params :: "crypto \<Rightarrow> jvalue option \<Rightarrow> string" where
  "hash_params cr params = fnv1a_hex (utf8 (case params of None \<Rightarrow> ''null'' | Some v \<Rightarrow> json_text cr v))"

section \<open>Cancellation\<close>

text \<open>A cancellation is a cell that several threads share; listeners act on the world \<open>'w\<close>.\<close>

record 'w cancel_cell =
  cc_cancelled :: bool
  cc_listeners :: "('w \<Rightarrow> 'w) list"

definition cancellation_new :: "'w cancel_cell" where
  "cancellation_new = \<lparr>cc_cancelled = False, cc_listeners = []\<rparr>"

definition on_cancel :: "('w \<Rightarrow> 'w) \<Rightarrow> 'w cancel_cell \<Rightarrow> 'w \<Rightarrow> 'w cancel_cell \<times> 'w" where
  "on_cancel listener c w =
     (if cc_cancelled c then (c, listener w) else (c\<lparr>cc_listeners := cc_listeners c @ [listener]\<rparr>, w))"

definition cancel_cell_fire :: "'w cancel_cell \<Rightarrow> 'w \<Rightarrow> 'w cancel_cell \<times> 'w" where
  "cancel_cell_fire c w =
     (if cc_cancelled c then (c, w) else (\<lparr>cc_cancelled = True, cc_listeners = []\<rparr>, fold (\<lambda>l. l) (cc_listeners c) w))"

text \<open>However registrations and cancellations are mixed, a listener runs once if the cell is ever cancelled and never otherwise.
  Here the world counts runs: every listener adds one.\<close>

fun run_cell :: "bool list \<Rightarrow> nat cancel_cell \<Rightarrow> nat \<Rightarrow> nat cancel_cell \<times> nat" where
  "run_cell [] c w = (c, w)"
| "run_cell (b # bs) c w = (case (if b then cancel_cell_fire c w else on_cancel Suc c w) of (c', w') \<Rightarrow> run_cell bs c' w')"

lemma fold_Suc: "set ls \<subseteq> {Suc} \<Longrightarrow> fold (\<lambda>l. l) ls w = w + length ls"
  by (induction ls arbitrary: w) auto

lemma listeners_run_once:
  "run_cell bs c w = (c', w') \<Longrightarrow> set (cc_listeners c) \<subseteq> {Suc} \<Longrightarrow> (cc_cancelled c \<Longrightarrow> cc_listeners c = [])
   \<Longrightarrow> w' = w + (if cc_cancelled c \<or> True \<in> set bs then length (cc_listeners c) + length (filter Not bs) else 0)"
proof (induction bs arbitrary: c w)
  case (Cons b bs)
  obtain c1 w1 where s: "(if b then cancel_cell_fire c w else on_cancel Suc c w) = (c1, w1)" by fastforce
  with Cons.prems have r: "run_cell bs c1 w1 = (c', w')" by simp
  have "set (cc_listeners c1) \<subseteq> {Suc}" "cc_cancelled c1 \<Longrightarrow> cc_listeners c1 = []"
    using s Cons.prems(2,3) by (auto simp: cancel_cell_fire_def on_cancel_def split: if_splits)
  from Cons.IH [OF r this] s Cons.prems(2,3) show ?case
    by (cases b; cases "cc_cancelled c") (auto simp: cancel_cell_fire_def on_cancel_def fold_Suc)
qed simp

section \<open>Callback URLs\<close>

definition find_scheme :: "string \<Rightarrow> nat option" where
  "find_scheme url = find (\<lambda>i. take 3 (drop i url) = ''://'') [0..<length url]"

record parsed_url =
  pu_scheme :: string
  pu_host :: string

definition scheme_char :: "char \<Rightarrow> bool" where
  "scheme_char c \<longleftrightarrow> is_ascii_digit c \<or> CHR ''a'' \<le> c \<and> c \<le> CHR ''z'' \<or> CHR ''A'' \<le> c \<and> c \<le> CHR ''Z'' \<or> c \<in> {CHR ''+'', CHR ''-'', CHR ''.''}"

definition host_of_authority :: "string \<Rightarrow> string" where
  "host_of_authority authority =
     (let hostport = last (split_char CHR ''@'' authority)
      in if CHR '']'' \<in> set hostport then takeWhile (\<lambda>c. c \<noteq> CHR '']'') hostport @ '']''
         else hd (split_char CHR '':'' hostport))"

definition parse_absolute_url :: "string \<Rightarrow> parsed_url option" where
  "parse_absolute_url url = (case find_scheme url of
       None \<Rightarrow> None
     | Some idx \<Rightarrow>
         let scheme = take idx url; rest = drop (idx + 3) url;
             authority = takeWhile (\<lambda>c. c \<notin> {CHR ''/'', CHR ''?'', CHR ''#''}) rest
         in if scheme = [] \<or> \<not> list_all scheme_char scheme then None
            else if rest = [] then None
            else if authority = [] then None
            else if host_of_authority authority = [] then None
            else Some \<lparr>pu_scheme = scheme, pu_host = host_of_authority authority\<rparr>)"

definition parse_u8 :: "string \<Rightarrow> u8 option" where
  "parse_u8 s = Option.bind (parse_u64 s) (\<lambda>n. if unat n < 256 then Some (ucast n) else None)"

definition url_parse_ipv4 :: "string \<Rightarrow> u8 list option" where
  "url_parse_ipv4 s = (let parts = split_char CHR ''.'' s in if length parts \<noteq> 4 then None else all_opt parse_u8 parts)"

definition private_octets :: "u8 list \<Rightarrow> bool" where
  "private_octets o4 =
     (let a = o4 ! 0; b = o4 ! 1
      in a = 127 \<or> a = 10 \<or> a = 0 \<or> (a = 172 \<and> 16 \<le> b \<and> b \<le> 31) \<or> (a = 192 \<and> b = 168) \<or> (a = 169 \<and> b = 254))"

text \<open>A mapped address is checked by a recursive call on the text of the four octets, which is parsed as they are.\<close>

definition action_is_private_host :: "string \<Rightarrow> bool" where
  "action_is_private_host host =
     (if host = [] then True
      else if eq_ignore_case host ''localhost'' then True
      else
        let stripped = rev (dropWhile (\<lambda>c. c = CHR '']'') (rev (dropWhile (\<lambda>c. c = CHR ''['') host)))
        in case url_parse_ipv4 stripped of
             Some octets \<Rightarrow> private_octets octets
           | None \<Rightarrow>
               if CHR '':'' \<in> set stripped then
                 let lower = to_ascii_lowercase stripped
                 in if lower = ''::1'' then True
                    else if starts_with ''fe80'' lower \<or> starts_with ''fc'' lower \<or> starts_with ''fd'' lower then True
                    else (case url_parse_ipv4 (last (split_char CHR '':'' lower)) of
                            Some octets \<Rightarrow> private_octets octets
                          | None \<Rightarrow> False)
               else False)"

definition action_validate_callback :: "string \<Rightarrow> bool \<Rightarrow> string option" where
  "action_validate_callback url reject_private =
     (if trim url = [] then Some ''callback_url must not be empty.''
      else case parse_absolute_url url of
        None \<Rightarrow> Some (''callback_url '' @ quoted url @ '' is not a valid absolute URI.'')
      | Some p \<Rightarrow>
          if \<not> eq_ignore_case (pu_scheme p) ''https''
          then Some (''callback_url MUST use the https:// scheme (got '' @ quoted (pu_scheme p @ ''://'') @ '').'')
          else if reject_private \<and> action_is_private_host (pu_host p)
          then Some (''callback_url host '' @ quoted (pu_host p) @ '' resolves to a private or loopback address (SSRF guard).'')
          else None)"

text \<open>The guard passes loopback addresses in other notations.\<close>

lemma loopback_accepted:
  "action_validate_callback ''https://[::ffff:7f00:1]/x'' True = None"
  "action_validate_callback ''https://[::]/x'' True = None"
  "action_validate_callback ''https://2130706433/x'' True = None"
  "action_validate_callback ''https://127.1/x'' True = None"
  "action_validate_callback ''https://localhost./x'' True = None"
  by code_simp+

lemma loopback_refused:
  "action_is_private_host ''[::1]''" "action_is_private_host ''LOCALHOST''"
  by code_simp+

lemma ipv4_refused:
  "action_is_private_host ''127.0.0.1''" "action_is_private_host ''172.31.0.1''" "\<not> action_is_private_host ''172.32.0.1''"
proof -
  have "\<not> eq_ignore_case ''127.0.0.1'' ''localhost''" "\<not> eq_ignore_case ''172.31.0.1'' ''localhost''"
    "\<not> eq_ignore_case ''172.32.0.1'' ''localhost''" by code_simp+
  then show "action_is_private_host ''127.0.0.1''" "action_is_private_host ''172.31.0.1''" "\<not> action_is_private_host ''172.32.0.1''"
    by (simp_all add: action_is_private_host_def url_parse_ipv4_def parse_u8_def parse_eval private_octets_def
        word_le_nat_alt Let_def)
qed

end
