(* ===== verification/Nwp_Action.thy ===== *)
theory Nwp_Action
  imports Nwp_Task
begin

text \<open>
  The action node of \<^verbatim>\<open>nps-nwp/src/action_server.rs\<close>: requests, streams, tasks in the background.

  The provider is the record \<open>action_host\<close> and changes a world \<open>'w\<close>. The call \<open>execute\<close> runs in a thread of its own; what
  the node sees of it is an \<open>exec_outcome\<close>: it finished in time, the deadline passed first, or the thread died. A stream is
  a tree of emissions that may depend on the answers of the node. Cancellations are cells, referred to by their index.
\<close>

definition SYSTEM_TASK_STATUS :: string where "SYSTEM_TASK_STATUS = ''system.task.status''"
definition SYSTEM_TASK_CANCEL :: string where "SYSTEM_TASK_CANCEL = ''system.task.cancel''"

section \<open>Options and frames\<close>

record action_spec =
  sp_description :: "string option"
  sp_params_anchor :: "string option"
  sp_result_anchor :: "string option"
  sp_async :: bool
  sp_idempotent :: "bool option"
  sp_timeout_ms_default :: "u32 option"
  sp_timeout_ms_max :: "u32 option"
  sp_required_capability :: "string option"

definition action_spec_new :: "bool \<Rightarrow> action_spec" where
  "action_spec_new a = \<lparr>sp_description = None, sp_params_anchor = None, sp_result_anchor = None, sp_async = a, sp_idempotent = None,
     sp_timeout_ms_default = None, sp_timeout_ms_max = None, sp_required_capability = None\<rparr>"

record action_options =
  ao_node_id :: string
  ao_display_name :: "string option"
  ao_actions :: "(string, action_spec) btree"
  ao_profiles :: "(string, jvalue) btree"
  ao_path_prefix :: string
  ao_require_auth :: bool
  ao_default_timeout_ms :: u32
  ao_max_timeout_ms :: u32
  ao_idempotency_ttl :: int
  ao_task_retention :: int
  ao_reject_private_callback_urls :: bool
  ao_default_token_budget :: u32

definition action_options_new :: "string \<Rightarrow> string \<Rightarrow> action_options" where
  "action_options_new node_id path_prefix =
     \<lparr>ao_node_id = node_id, ao_display_name = None, ao_actions = [], ao_profiles = [], ao_path_prefix = path_prefix,
      ao_require_auth = False, ao_default_timeout_ms = 5000, ao_max_timeout_ms = 300000, ao_idempotency_ttl = 86400 * 1000000000,
      ao_task_retention = 3600 * 1000000000, ao_reject_private_callback_urls = True, ao_default_token_budget = 0\<rparr>"

record parsed_action =
  pa_action_id :: string
  pa_params :: "jvalue option"
  pa_idempotency_key :: "string option"
  pa_timeout_ms :: u32
  pa_async :: bool
  pa_callback_url :: "string option"
  pa_priority :: "string option"
  pa_request_id :: "string option"

definition action_from_json :: "jvalue \<Rightarrow> string + parsed_action" where
  "action_from_json body = (case as_object body of
       None \<Rightarrow> Err ''ActionFrame must be a JSON object.''
     | Some obj \<Rightarrow> (case opt_str obj ''action_id'' of
         None \<Rightarrow> Err ''invalid ActionFrame: missing action_id.''
       | Some action_id \<Rightarrow>
           if action_id = [] then Err ''invalid ActionFrame: missing action_id.''
           else Ok \<lparr>pa_action_id = action_id,
             pa_params = (case map_of obj ''params'' of Some v \<Rightarrow> if is_null v then None else Some v | None \<Rightarrow> None),
             pa_idempotency_key = opt_str obj ''idempotency_key'', pa_timeout_ms = ucast (unwrap_or 0 (opt_u64 obj ''timeout_ms'')),
             pa_async = unwrap_or False (opt_bool obj ''async''), pa_callback_url = opt_str obj ''callback_url'',
             pa_priority = opt_str obj ''priority'', pa_request_id = opt_str obj ''request_id''\<rparr>))"

record action_error =
  xe_http_status :: nat
  xe_nps_status :: string
  xe_error_code :: string
  xe_message :: string

definition action_error_internal :: "string \<Rightarrow> action_error" where
  "action_error_internal msg = \<lparr>xe_http_status = 500, xe_nps_status = ''NPS-SERVER-INTERNAL'', xe_error_code = NODE_UNAVAILABLE, xe_message = msg\<rparr>"

definition provider_error :: "crypto \<Rightarrow> action_error \<Rightarrow> node_response" where
  "provider_error cr e = node_error cr (xe_http_status e) (xe_nps_status e) (xe_error_code e) (xe_message e) None []"

section \<open>The provider\<close>

text \<open>A producer is done, with an error or without, or emits a frame and goes on with the answer to it.\<close>

datatype producer =
    Done "action_error option"
  | Emit action_stream_frame "action_error option \<Rightarrow> producer"

record action_result =
  ar_result :: "jvalue option"
  ar_stream :: "producer option"
  ar_anchor_ref :: "string option"
  ar_token_est :: u32

record action_context =
  cx_agent_nid :: "string option"
  cx_request_id :: "string option"
  cx_task_id :: "string option"
  cx_spec :: action_spec
  cx_timeout_ms :: u32
  cx_priority :: string
  cx_wire_input_bytes :: u64
  cx_cancellation :: nat

datatype exec_outcome = Finished "action_error + action_result" | TimedOut | Disconnected

record 'w action_host =
  ah_authorize :: "parsed_action \<Rightarrow> action_context \<Rightarrow> 'w \<Rightarrow> action_error option \<times> 'w"
  ah_execute :: "parsed_action \<Rightarrow> action_context \<Rightarrow> 'w \<Rightarrow> exec_outcome \<times> 'w"
  ah_cancelled :: "nat \<Rightarrow> bool"

text \<open>A task in the background: the thread that waits for the provider, and where it is.\<close>

datatype worker_phase =
    WPending
  | WLoop
  | WCheck "action_error + action_result"
  | WComplete "jvalue option"
  | WFail jvalue
  | WCleanup
  | WEnded

record task_worker =
  tw_task :: string
  tw_frame :: parsed_action
  tw_context :: action_context
  tw_timeout :: u32
  tw_outcome :: exec_outcome
  tw_phase :: worker_phase

record 'w action_state =
  xs_tasks :: task_map
  xs_idem :: idem_map
  xs_cells :: "'w cancel_cell list"
  xs_cancellations :: "(string, nat) btree"
  xs_counter :: u64
  xs_workers :: "task_worker list"
  xs_world :: 'w

text \<open>The surroundings of a request: the clock when the request arrives (\<open>ax_now\<close>) and when its outcome is stored (\<open>ax_later\<close>).\<close>

record action_env =
  ax_cr :: crypto
  ax_rd :: "bytes \<Rightarrow> string + jvalue"
  ax_nanos :: u64
  ax_now :: int
  ax_later :: int

definition fresh_id :: "action_env \<Rightarrow> u64 \<Rightarrow> string \<times> u64" where
  "fresh_id env c = (take (16 * 2) (hex16 (ax_nanos env) @ hex16 c), c + 1)"

section \<open>Documents\<close>

definition action_entry_value :: "action_spec \<Rightarrow> jvalue" where
  "action_entry_value spec = JObject
     (bt_insert_opt ''required_capability'' (map_option JString (sp_required_capability spec))
     (bt_insert_opt ''timeout_ms_max'' (map_option (\<lambda>n. jnat (ucast n)) (sp_timeout_ms_max spec))
     (bt_insert_opt ''timeout_ms_default'' (map_option (\<lambda>n. jnat (ucast n)) (sp_timeout_ms_default spec))
     (bt_insert_opt ''idempotent'' (map_option JBool (sp_idempotent spec))
     (bt_insert_opt ''result_anchor'' (map_option JString (sp_result_anchor spec))
     (bt_insert_opt ''params_anchor'' (map_option JString (sp_params_anchor spec))
     (bt_insert_opt ''description'' (map_option JString (sp_description spec))
     (bt_insert ''async'' (JBool (sp_async spec)) []))))))))"

definition action_actions_map :: "action_options \<Rightarrow> (string, jvalue) btree" where
  "action_actions_map opt = bt_collect (map (\<lambda>(i, spec). (i, action_entry_value spec)) (ao_actions opt))"

definition supports_stream :: "action_options \<Rightarrow> bool" where
  "supports_stream opt = unwrap_or False (Option.bind (map_of (ao_profiles opt) ''llm'')
     (\<lambda>p. Option.bind (as_object p) (\<lambda>o1. opt_bool o1 ''supports_stream'')))"

definition action_manifest :: "action_options \<Rightarrow> string \<Rightarrow> jvalue" where
  "action_manifest opt prefix = JObject
     (bt_insert_opt ''profiles'' (if ao_profiles opt \<noteq> [] then Some (JObject (ao_profiles opt)) else None)
     (bt_insert_opt ''display_name'' (map_option JString (ao_display_name opt)) (bt_collect
       [(''nwp'', JString ''0.4''), (''node_id'', JString (ao_node_id opt)), (''node_type'', JString ''action''),
        (''wire_formats'', jstrs [''ncp-capsule'', ''json'']), (''preferred_format'', JString ''json''),
        (''capabilities'', JObject (bt_collect [(''query'', JBool False), (''stream'', JBool (supports_stream opt)), (''token_budget_hint'', JBool True)])),
        (''auth'', JObject (bt_collect [(''required'', JBool (ao_require_auth opt)),
           (''identity_type'', JString (if ao_require_auth opt then ''nip-cert'' else ''none''))])),
        (''endpoints'', JObject (bt_collect [(''invoke'', JString (prefix @ ''/invoke'')), (''schema'', JString (prefix @ ''/.schema''))])),
        (''actions'', JObject (action_actions_map opt))])))"

text \<open>The constructor panics where a reserved action is registered.\<close>

record action_app =
  aa_opt :: action_options
  aa_prefix :: string
  aa_nwm_json :: bytes
  aa_actions_json :: bytes

definition action_app_new :: "crypto \<Rightarrow> action_options \<Rightarrow> action_app option" where
  "action_app_new cr opt =
     (if map_of (ao_actions opt) SYSTEM_TASK_STATUS \<noteq> None \<or> map_of (ao_actions opt) SYSTEM_TASK_CANCEL \<noteq> None then None
      else let prefix = rev (dropWhile (\<lambda>c. c = CHR ''/'') (rev (ao_path_prefix opt)))
           in Some \<lparr>aa_opt = opt, aa_prefix = prefix, aa_nwm_json = json_body cr (action_manifest opt prefix),
                    aa_actions_json = json_body cr (JObject [(''actions'', JObject (action_actions_map opt))])\<rparr>)"

definition action_state_new :: "'w \<Rightarrow> 'w action_state" where
  "action_state_new w = \<lparr>xs_tasks = [], xs_idem = [], xs_cells = [], xs_cancellations = [], xs_counter = 1, xs_workers = [], xs_world = w\<rparr>"

section \<open>Responses\<close>

definition action_type_header :: "string \<times> string" where
  "action_type_header = (to_ascii_lowercase NODE_TYPE, ''action'')"

definition request_id_header :: "string option \<Rightarrow> (string \<times> string) list" where
  "request_id_header rid = (case rid of Some r \<Rightarrow> [(to_ascii_lowercase REQUEST_ID, r)] | None \<Rightarrow> [])"

definition write_async_response :: "crypto \<Rightarrow> action_app \<Rightarrow> string \<Rightarrow> string \<Rightarrow> string option \<Rightarrow> u32 option \<Rightarrow> node_response" where
  "write_async_response cr app task_id status request_id estimated_ms =
     \<lparr>np_status = 202, np_headers = [(''content-type'', ''application/json''), action_type_header],
      np_body = json_body cr (JObject (bt_insert_opt ''request_id'' (map_option JString request_id)
        (bt_insert_opt ''estimated_ms'' (map_option (\<lambda>n. jnat (ucast n)) estimated_ms)
        (bt_collect [(''task_id'', JString task_id), (''status'', JString status), (''poll_url'', JString (aa_prefix app @ ''/invoke''))]))))\<rparr>"

definition caps_value :: "jvalue option \<Rightarrow> string option \<Rightarrow> u32 \<Rightarrow> jvalue" where
  "caps_value payload anchor_ref token_est =
     JObject (bt_insert_opt ''token_est'' (if 0 < token_est then Some (jnat (ucast token_est)) else None) (bt_collect
       [(''anchor_ref'', JString (unwrap_or [] anchor_ref)), (''count'', jnat (if payload = None then 0 else 1)),
        (''data'', JArray (case payload of Some v \<Rightarrow> [v] | None \<Rightarrow> []))]))"

definition write_caps :: "crypto \<Rightarrow> jvalue option \<Rightarrow> string option \<Rightarrow> string option \<Rightarrow> u32 \<Rightarrow> node_response" where
  "write_caps cr payload anchor_ref request_id token_est =
     \<lparr>np_status = 200,
      np_headers = [(''content-type'', MIME_CAPSULE), action_type_header]
        @ (case anchor_ref of Some a \<Rightarrow> [(to_ascii_lowercase SCHEMA, a)] | None \<Rightarrow> [])
        @ (if 0 < token_est then [(to_ascii_lowercase TOKENS, show_nat (unat token_est))] else [])
        @ request_id_header request_id,
      np_body = json_body cr (caps_value payload anchor_ref token_est)\<rparr>"

section \<open>Streams\<close>

text \<open>The derived writer of a frame keeps the order of the fields.\<close>

definition stream_frame_value :: "action_stream_frame \<Rightarrow> jvalue" where
  "stream_frame_value f = JObject ([(''stream_id'', JString (sf_stream_id f)), (''seq'', jnat (sf_seq f)), (''is_last'', JBool (sf_is_last f))]
     @ (case sf_anchor_ref f of Some a \<Rightarrow> [(''anchor_ref'', JString a)] | None \<Rightarrow> [])
     @ [(''data'', JArray (sf_data f))]
     @ (case sf_window_size f of Some n \<Rightarrow> [(''window_size'', jnat (ucast n))] | None \<Rightarrow> [])
     @ (case sf_error_code f of Some c \<Rightarrow> [(''error_code'', JString c)] | None \<Rightarrow> []))"

text \<open>What the callback keeps: the frames emitted so far, the next number, whether the terminal frame has been seen.\<close>

record stream_state =
  ss_emitted :: "action_stream_frame list"
  ss_next_seq :: u64
  ss_terminal :: bool
  ss_calls :: nat

definition stream_state_new :: stream_state where
  "stream_state_new = \<lparr>ss_emitted = [], ss_next_seq = 0, ss_terminal = False, ss_calls = 0\<rparr>"

text \<open>\<open>cancelled n\<close>: whether the stream has been cancelled when it is asked for the \<open>n\<close>-th time.\<close>

definition emit_frame :: "(nat \<Rightarrow> bool) \<Rightarrow> string \<Rightarrow> action_stream_frame \<Rightarrow> stream_state \<Rightarrow> action_error option \<times> stream_state" where
  "emit_frame cancelled stream_id f st =
     (let st' = st\<lparr>ss_calls := ss_calls st + 1\<rparr>
      in if cancelled (ss_calls st) then (Some (action_error_internal ''action stream was cancelled''), st')
         else if ss_terminal st then (Some (action_error_internal ''action stream emitted frames after its terminal frame''), st')
         else if sf_seq f \<noteq> ss_next_seq st then (Some (action_error_internal ''action stream sequence is not contiguous from zero''), st')
         else if sf_error_code f \<noteq> None \<and> \<not> sf_is_last f then (Some (action_error_internal ''action stream error_code is terminal-only''), st')
         else (None, st'\<lparr>ss_emitted := ss_emitted st @ [f\<lparr>sf_stream_id := stream_id\<rparr>], ss_next_seq := ss_next_seq st + 1,
                         ss_terminal := sf_is_last f\<rparr>))"

primrec run_producer :: "(nat \<Rightarrow> bool) \<Rightarrow> string \<Rightarrow> producer \<Rightarrow> stream_state \<Rightarrow> action_error option \<times> stream_state" where
  "run_producer cancelled stream_id (Done e) = (\<lambda>st. (e, st))"
| "run_producer cancelled stream_id (Emit f next) =
     (\<lambda>st. case emit_frame cancelled stream_id f st of (answer, st') \<Rightarrow> run_producer cancelled stream_id (next answer) st')"

definition close_frame :: "string \<Rightarrow> u64 \<Rightarrow> action_error \<Rightarrow> action_stream_frame" where
  "close_frame stream_id n e = \<lparr>sf_stream_id = stream_id, sf_seq = n, sf_is_last = True, sf_anchor_ref = None, sf_data = [],
     sf_window_size = None, sf_error_code = Some (xe_error_code e)\<rparr>"

text \<open>The frames that are written, and whether they make a completed stream.\<close>

definition stream_frames :: "(nat \<Rightarrow> bool) \<Rightarrow> string \<Rightarrow> producer \<Rightarrow> action_stream_frame list \<times> bool" where
  "stream_frames cancelled stream_id p =
     (let (err, st) = run_producer cancelled stream_id p stream_state_new;
          failure = (case err of Some e \<Rightarrow> Some e
            | None \<Rightarrow> if ss_terminal st then None else Some (action_error_internal ''action stream ended without a terminal frame''));
          frames = (case failure of
              Some e \<Rightarrow> if \<not> ss_terminal st \<and> \<not> cancelled (ss_calls st)
                        then ss_emitted st @ [close_frame stream_id (ss_next_seq st) e] else ss_emitted st
            | None \<Rightarrow> ss_emitted st)
      in (frames, failure = None \<and> frames \<noteq> [] \<and> sf_error_code (last frames) = None))"

definition write_stream ::
    "action_env \<Rightarrow> producer \<Rightarrow> (nat \<Rightarrow> bool) \<Rightarrow> string option \<Rightarrow> u64 \<Rightarrow> node_response \<times> action_stream_frame list option \<times> u64" where
  "write_stream env p cancelled request_id counter =
     (let cr = ax_cr env; (stream_id, counter') = fresh_id env counter; (frames, completed) = stream_frames cancelled stream_id p
      in (\<lparr>np_status = 200, np_headers = [(''content-type'', ''application/x-ndjson''), action_type_header] @ request_id_header request_id,
           np_body = utf8 (concat (map (\<lambda>f. json_text cr (stream_frame_value f) @ [CHR 0x0A]) frames))\<rparr>,
          if completed then Some frames else None, counter'))"

text \<open>\<open>ReplayActionStream\<close>: each frame in turn, the first refusal ends it.\<close>

primrec replay :: "action_stream_frame list \<Rightarrow> producer" where
  "replay [] = Done None"
| "replay (f # fs) = Emit f (\<lambda>answer. case answer of Some e \<Rightarrow> Done (Some e) | None \<Rightarrow> replay fs)"

section \<open>Task requests\<close>

definition read_string_param :: "jvalue option \<Rightarrow> string \<Rightarrow> string option" where
  "read_string_param params name = Option.bind params (\<lambda>v. Option.bind (as_object v) (\<lambda>o1. opt_str o1 name))"

text \<open>What the two reserved actions begin with: the task that the caller names and owns.\<close>

definition owned_task :: "crypto \<Rightarrow> task_map \<Rightarrow> parsed_action \<Rightarrow> string option \<Rightarrow> node_response + string \<times> action_task" where
  "owned_task cr tasks frame agent_nid =
     (case read_string_param (pa_params frame) ''task_id'' of
        None \<Rightarrow> Err (bad_request cr ACTION_PARAMS_INVALID ''params.task_id is required.'')
      | Some task_id \<Rightarrow>
          if task_id = [] then Err (bad_request cr ACTION_PARAMS_INVALID ''params.task_id is required.'')
          else (case task_get tasks task_id of
            None \<Rightarrow> Err (node_error cr 404 ''NPS-CLIENT-NOT-FOUND'' TASK_NOT_FOUND (''Unknown task_id '' @ quoted task_id @ ''.'') None [])
          | Some rec \<Rightarrow>
              if tk_agent_nid rec \<noteq> agent_nid
              then Err (node_error cr 403 ''NPS-AUTH-FORBIDDEN'' AUTH_NID_SCOPE_VIOLATION ''the caller does not own this task.'' None [])
              else Ok (task_id, rec)))"

definition task_status_value :: "crypto \<Rightarrow> action_task \<Rightarrow> jvalue" where
  "task_status_value cr rec = JObject
     (bt_insert_opt ''error'' (tk_error rec) (bt_insert_opt ''result'' (tk_result rec)
     (bt_insert_opt ''request_id'' (map_option JString (tk_request_id rec))
     (bt_insert ''updated_at'' (JString (rfc3339_text cr (tk_updated_at rec))) (bt_insert ''created_at'' (JString (rfc3339_text cr (tk_created_at rec)))
     (bt_insert_opt ''progress'' (map_option (\<lambda>p. unwrap_or JNull (number_from_f64 p)) (tk_progress rec))
     (bt_collect [(''task_id'', JString (tk_task_id rec)), (''status'', JString (tk_status rec))])))))))"

definition handle_task_status :: "crypto \<Rightarrow> task_map \<Rightarrow> parsed_action \<Rightarrow> string option \<Rightarrow> node_response" where
  "handle_task_status cr tasks frame agent_nid = (case owned_task cr tasks frame agent_nid of
       Inl r \<Rightarrow> r
     | Inr (_, rec) \<Rightarrow> write_caps cr (Some (task_status_value cr rec)) None (pa_request_id frame) 0)"

definition cancel_cell_at :: "nat \<Rightarrow> 'w action_state \<Rightarrow> 'w action_state" where
  "cancel_cell_at i s = (case cancel_cell_fire (xs_cells s ! i) (xs_world s) of
       (c, w) \<Rightarrow> s\<lparr>xs_cells := (xs_cells s)[i := c], xs_world := w\<rparr>)"

text \<open>Cancelling the cell of a task, when it still has one.\<close>

definition cancel_token :: "string \<Rightarrow> 'w action_state \<Rightarrow> 'w action_state" where
  "cancel_token task_id s = (case map_of (xs_cancellations s) task_id of None \<Rightarrow> s | Some i \<Rightarrow> cancel_cell_at i s)"

definition handle_task_cancel :: "action_env \<Rightarrow> parsed_action \<Rightarrow> string option \<Rightarrow> 'w action_state \<Rightarrow> node_response \<times> 'w action_state" where
  "handle_task_cancel env frame agent_nid s = (let cr = ax_cr env in
     case owned_task cr (xs_tasks s) frame agent_nid of
       Inl r \<Rightarrow> (r, s)
     | Inr (task_id, rec) \<Rightarrow>
         if is_terminal (tk_status rec)
         then (node_error cr 409 ''NPS-CLIENT-CONFLICT'' TASK_ALREADY_CANCELLED
                (''Task '' @ quoted task_id @ '' is already in a terminal state ('' @ quoted (tk_status rec) @ '').'') None [], s)
         else (write_caps cr (Some (JObject (bt_collect [(''task_id'', JString task_id), (''status'', JString ''cancelled'')]))) None (pa_request_id frame) 0,
               cancel_token task_id (s\<lparr>xs_tasks := snd (task_cancel (ax_now env) task_id (xs_tasks s))\<rparr>)))"

end
