(* ===== verification/Nwp_Action_Server.thy ===== *)
theory Nwp_Action_Server
  imports Nwp_Action
begin

text \<open>
  The handlers of \<open>ActionNodeApp\<close> in \<^verbatim>\<open>nps-nwp/src/action_server.rs\<close>, the thread behind an asynchronous task, and the
  system of requests and threads as a step relation.
\<close>

section \<open>Checks\<close>

definition clamp_action_timeout :: "u32 \<Rightarrow> action_spec \<Rightarrow> action_options \<Rightarrow> u32" where
  "clamp_action_timeout requested spec opt =
     (let spec_max = unwrap_or (ao_max_timeout_ms opt) (sp_timeout_ms_max spec);
          hard_max = min spec_max (ao_max_timeout_ms opt)
      in if requested = 0 then unwrap_or (ao_default_timeout_ms opt) (sp_timeout_ms_default spec) else min requested hard_max)"

text \<open>The checks before the provider is asked: the action, the priority, asynchronous use, the callback.\<close>

definition invoke_checks :: "crypto \<Rightarrow> action_options \<Rightarrow> parsed_action \<Rightarrow> node_response + action_spec \<times> u32" where
  "invoke_checks cr opt frame =
     (case map_of (ao_actions opt) (pa_action_id frame) of
        None \<Rightarrow> Err (node_error cr 404 ''NPS-CLIENT-NOT-FOUND'' ACTION_NOT_FOUND (''Unknown action_id '' @ quoted (pa_action_id frame) @ ''.'') None [])
      | Some spec \<Rightarrow>
          if unwrap_or ''normal'' (pa_priority frame) \<notin> {''low'', ''normal'', ''high''}
          then Err (bad_request cr ACTION_PARAMS_INVALID
                 (''priority '' @ quoted (unwrap_or [] (pa_priority frame)) @ '' is invalid (allowed: low/normal/high).''))
          else if pa_async frame \<and> \<not> sp_async spec
          then Err (bad_request cr ACTION_PARAMS_INVALID (''action '' @ quoted (pa_action_id frame) @ '' does not support async execution.''))
          else (case Option.bind (pa_callback_url frame) (\<lambda>cb. action_validate_callback cb (ao_reject_private_callback_urls opt)) of
              Some err \<Rightarrow> Err (bad_request cr ACTION_PARAMS_INVALID err)
            | None \<Rightarrow> Ok (spec, clamp_action_timeout (pa_timeout_ms frame) spec opt)))"

definition admission_context :: "node_request \<Rightarrow> parsed_action \<Rightarrow> string option \<Rightarrow> action_spec \<Rightarrow> u32 \<Rightarrow> nat \<Rightarrow> action_context" where
  "admission_context req frame agent_nid spec timeout cell =
     \<lparr>cx_agent_nid = agent_nid, cx_request_id = pa_request_id frame, cx_task_id = None, cx_spec = spec, cx_timeout_ms = timeout,
      cx_priority = unwrap_or ''normal'' (pa_priority frame), cx_wire_input_bytes = of_nat (length (nq_body req)), cx_cancellation = cell\<rparr>"

section \<open>Idempotent replay\<close>

definition idem_lookup :: "action_env \<Rightarrow> string \<Rightarrow> parsed_action \<Rightarrow> 'w action_state \<Rightarrow> idempotent_entry option \<times> 'w action_state" where
  "idem_lookup env scope frame s = (case pa_idempotency_key frame of
       None \<Rightarrow> (None, s)
     | Some key \<Rightarrow> (case idem_get (ax_now env) (xs_idem s) scope key of (e, m) \<Rightarrow> (e, s\<lparr>xs_idem := m\<rparr>)))"

definition idem_record :: "action_env \<Rightarrow> string \<Rightarrow> parsed_action \<Rightarrow> idempotent_entry \<Rightarrow> 'w action_state \<Rightarrow> 'w action_state" where
  "idem_record env scope frame e s = (case pa_idempotency_key frame of
       None \<Rightarrow> s
     | Some key \<Rightarrow> s\<lparr>xs_idem := snd (idem_try_store (ax_later env) (xs_idem s) scope key e)\<rparr>)"

definition entry_of ::
    "action_env \<Rightarrow> action_options \<Rightarrow> parsed_action \<Rightarrow> jvalue option \<Rightarrow> action_stream_frame list option \<Rightarrow> string option \<Rightarrow> string option
     \<Rightarrow> idempotent_entry" where
  "entry_of env opt frame result frames anchor task_id =
     \<lparr>id_action_id = pa_action_id frame, id_params_hash = hash_params (ax_cr env) (pa_params frame), id_result = result,
      id_stream_frames = frames, id_anchor_ref = anchor, id_task_id = task_id, id_expires_at = ax_later env + ao_idempotency_ttl opt\<rparr>"

definition replay_entry ::
    "action_env \<Rightarrow> action_app \<Rightarrow> 'w action_host \<Rightarrow> parsed_action \<Rightarrow> idempotent_entry \<Rightarrow> 'w action_state \<Rightarrow> node_response \<times> 'w action_state" where
  "replay_entry env app host frame e s = (let cr = ax_cr env in
     if id_params_hash e \<noteq> hash_params cr (pa_params frame)
     then (node_error cr 409 ''NPS-CLIENT-CONFLICT'' ACTION_IDEMPOTENCY_CONFLICT ''idempotency_key reuse with different params.'' None [], s)
     else case id_task_id e of
       Some task_id \<Rightarrow>
         (write_async_response cr app task_id (unwrap_or ''pending'' (task_status (xs_tasks s) task_id)) (pa_request_id frame) None, s)
     | None \<Rightarrow> (case id_stream_frames e of
         Some frames \<Rightarrow> (case write_stream env (replay frames) (ah_cancelled host) (pa_request_id frame) (xs_counter s) of
             (resp, _, c) \<Rightarrow> (resp, s\<lparr>xs_counter := c\<rparr>))
       | None \<Rightarrow> (write_caps cr (id_result e) (id_anchor_ref e) (pa_request_id frame) 0, s)))"

section \<open>Execution\<close>

definition run_async ::
    "action_env \<Rightarrow> action_app \<Rightarrow> string \<Rightarrow> parsed_action \<Rightarrow> action_context \<Rightarrow> u32 \<Rightarrow> 'w action_state \<Rightarrow> node_response \<times> 'w action_state" where
  "run_async env app scope frame ctx timeout s =
     (let (task_id, c) = fresh_id env (xs_counter s);
          s = s\<lparr>xs_counter := c, xs_tasks := task_create (ax_now env) task_id (pa_action_id frame) (pa_request_id frame) (cx_agent_nid ctx) (xs_tasks s)\<rparr>;
          s = idem_record env scope frame (entry_of env (aa_opt app) frame None None None (Some task_id)) s;
          ctx = ctx\<lparr>cx_task_id := Some task_id\<rparr>;
          worker = \<lparr>tw_task = task_id, tw_frame = frame, tw_context = ctx, tw_timeout = timeout, tw_outcome = TimedOut, tw_phase = WPending\<rparr>
      in (write_async_response (ax_cr env) app task_id ''pending'' (pa_request_id frame) (sp_timeout_ms_default (cx_spec ctx)),
          s\<lparr>xs_cancellations := bt_insert task_id (cx_cancellation ctx) (xs_cancellations s), xs_workers := xs_workers s @ [worker]\<rparr>))"

definition result_anchor :: "action_result \<Rightarrow> action_spec \<Rightarrow> string option" where
  "result_anchor r spec = (case ar_anchor_ref r of Some a \<Rightarrow> Some a | None \<Rightarrow> sp_result_anchor spec)"

definition finish_sync ::
    "action_env \<Rightarrow> action_app \<Rightarrow> 'w action_host \<Rightarrow> string \<Rightarrow> parsed_action \<Rightarrow> action_spec \<Rightarrow> action_result \<Rightarrow> 'w action_state
     \<Rightarrow> node_response \<times> 'w action_state" where
  "finish_sync env app host scope frame spec r s = (let anchor = result_anchor r spec in
     case ar_stream r of
       Some p \<Rightarrow> (case write_stream env p (ah_cancelled host) (pa_request_id frame) (xs_counter s) of
           (resp, completed, c) \<Rightarrow>
             (resp, (case completed of
                Some frames \<Rightarrow> idem_record env scope frame (entry_of env (aa_opt app) frame None (Some frames) anchor None) (s\<lparr>xs_counter := c\<rparr>)
              | None \<Rightarrow> s\<lparr>xs_counter := c\<rparr>)))
     | None \<Rightarrow> (write_caps (ax_cr env) (ar_result r) anchor (pa_request_id frame) (ar_token_est r),
               idem_record env scope frame (entry_of env (aa_opt app) frame (ar_result r) None anchor None) s))"

definition run_sync ::
    "action_env \<Rightarrow> action_app \<Rightarrow> 'w action_host \<Rightarrow> string \<Rightarrow> parsed_action \<Rightarrow> action_context \<Rightarrow> 'w action_state
     \<Rightarrow> node_response \<times> 'w action_state" where
  "run_sync env app host scope frame ctx s = (let cr = ax_cr env in
     case ah_execute host frame ctx (xs_world s) of (outcome, w) \<Rightarrow> (let s = s\<lparr>xs_world := w\<rparr> in
       case outcome of
         Finished (Inr r) \<Rightarrow> finish_sync env app host scope frame (cx_spec ctx) r s
       | Finished (Inl e) \<Rightarrow> (provider_error cr e, s)
       | TimedOut \<Rightarrow> (node_error cr 504 ''NPS-SERVER-TIMEOUT'' NODE_UNAVAILABLE ''action execution timed out.'' None [],
                     cancel_cell_at (cx_cancellation ctx) s)
       | Disconnected \<Rightarrow> (node_error cr 500 ''NPS-SERVER-INTERNAL'' NODE_UNAVAILABLE ''action execution worker disconnected.'' None [],
                     cancel_cell_at (cx_cancellation ctx) s)))"

section \<open>Requests\<close>

definition handle_action ::
    "action_env \<Rightarrow> action_app \<Rightarrow> 'w action_host \<Rightarrow> node_request \<Rightarrow> parsed_action \<Rightarrow> string option \<Rightarrow> 'w action_state
     \<Rightarrow> node_response \<times> 'w action_state" where
  "handle_action env app host req frame agent_nid s = (let cr = ax_cr env in
     case invoke_checks cr (aa_opt app) frame of
       Inl resp \<Rightarrow> (resp, s)
     | Inr (spec, timeout) \<Rightarrow>
         let ctx = admission_context req frame agent_nid spec timeout (length (xs_cells s));
             s = s\<lparr>xs_cells := xs_cells s @ [cancellation_new]\<rparr>
         in (case ah_authorize host frame ctx (xs_world s) of
               (Some e, w) \<Rightarrow> (provider_error cr e, s\<lparr>xs_world := w\<rparr>)
             | (None, w) \<Rightarrow>
                 let scope = idempotency_cache_scope (pa_action_id frame) agent_nid
                 in (case idem_lookup env scope frame (s\<lparr>xs_world := w\<rparr>) of
                       (Some e, s) \<Rightarrow> replay_entry env app host frame e s
                     | (None, s) \<Rightarrow> if pa_async frame then run_async env app scope frame ctx timeout s
                                   else run_sync env app host scope frame ctx s)))"

definition action_handle_invoke ::
    "action_env \<Rightarrow> action_app \<Rightarrow> 'w action_host \<Rightarrow> node_request \<Rightarrow> 'w action_state \<Rightarrow> node_response \<times> 'w action_state" where
  "action_handle_invoke env app host req s = (let cr = ax_cr env in
     case ax_rd env (nq_body req) of
       Inl e \<Rightarrow> (bad_request cr ACTION_PARAMS_INVALID e, s)
     | Inr body \<Rightarrow> (case action_from_json body of
         Inl e \<Rightarrow> (bad_request cr ACTION_PARAMS_INVALID e, s)
       | Inr frame \<Rightarrow>
           let agent_nid = node_header req AGENT
           in if pa_action_id frame = SYSTEM_TASK_STATUS then (handle_task_status cr (xs_tasks s) frame agent_nid, s)
              else if pa_action_id frame = SYSTEM_TASK_CANCEL then handle_task_cancel env frame agent_nid s
              else handle_action env app host req frame agent_nid s))"

definition action_handle ::
    "action_env \<Rightarrow> action_app \<Rightarrow> 'w action_host \<Rightarrow> node_request \<Rightarrow> 'w action_state \<Rightarrow> node_response \<times> 'w action_state" where
  "action_handle env app host req s = (let cr = ax_cr env in
     case strip_prefix (aa_prefix app) (nq_path req) of
       None \<Rightarrow> (node_empty 404, s)
     | Some sub \<Rightarrow>
         if ao_require_auth (aa_opt app) \<and> node_header req AGENT = None then (agent_required cr, s)
         else if sub \<in> {''/.nwm'', ''/.nwm/''}
         then (\<lparr>np_status = 200, np_headers = [(''content-type'', MIME_MANIFEST), action_type_header], np_body = aa_nwm_json app\<rparr>, s)
         else if sub \<in> {''/.schema'', ''/.schema/'', ''/actions'', ''/actions/''}
         then (\<lparr>np_status = 200, np_headers = [(''content-type'', ''application/json'')], np_body = aa_actions_json app\<rparr>, s)
         else if sub \<in> {''/invoke'', ''/invoke/''}
         then (if nq_method req \<noteq> ''POST'' then (node_empty 405, s) else action_handle_invoke env app host req s)
         else (node_empty 404, s))"

section \<open>The thread of a task\<close>

definition task_error :: "string \<Rightarrow> string \<Rightarrow> jvalue" where
  "task_error c msg = JObject (bt_collect [(''code'', JString c), (''message'', JString msg)])"

definition remove_cancellation :: "string \<Rightarrow> 'w action_state \<Rightarrow> 'w action_state" where
  "remove_cancellation task_id s = s\<lparr>xs_cancellations := bt_remove task_id (xs_cancellations s)\<rparr>"

definition is_cancelled_at :: "nat \<Rightarrow> 'w action_state \<Rightarrow> bool" where
  "is_cancelled_at i s = cc_cancelled (xs_cells s ! i)"

text \<open>
  One step of the thread between two accesses to what it shares. \<open>late\<close>: the deadline has passed; \<open>ready\<close>: the
  outcome of the provider has arrived within the ten milliseconds that the thread waits at a time.
\<close>

definition worker_step :: "int \<Rightarrow> bool \<Rightarrow> bool \<Rightarrow> 'w action_host \<Rightarrow> task_worker \<Rightarrow> 'w action_state \<Rightarrow> task_worker \<times> 'w action_state" where
  "worker_step now late ready host k s = (let i = cx_cancellation (tw_context k) in
     case tw_phase k of
       WPending \<Rightarrow> (case try_transition now (tw_task k) ''pending'' ''running'' (xs_tasks s) of
           (ok, tasks) \<Rightarrow>
             if ok then (case ah_execute host (tw_frame k) (tw_context k) (xs_world s) of
                  (outcome, w) \<Rightarrow> (k\<lparr>tw_outcome := outcome, tw_phase := WLoop\<rparr>, s\<lparr>xs_tasks := tasks, xs_world := w\<rparr>))
             else (k\<lparr>tw_phase := WCleanup\<rparr>, s))
     | WLoop \<Rightarrow>
         if is_cancelled_at i s then (k\<lparr>tw_phase := WCleanup\<rparr>, s)
         else if late then (k\<lparr>tw_phase := WFail (task_error NODE_UNAVAILABLE ''task timed out'')\<rparr>, cancel_cell_at i s)
         else if \<not> ready then (k, s)
         else (case tw_outcome k of
             Finished r \<Rightarrow> (k\<lparr>tw_phase := WCheck r\<rparr>, s)
           | TimedOut \<Rightarrow> (k, s)
           | Disconnected \<Rightarrow> (k\<lparr>tw_phase := WFail (task_error NODE_UNAVAILABLE ''task worker disconnected'')\<rparr>, s))
     | WCheck r \<Rightarrow>
         if is_cancelled_at i s then (k\<lparr>tw_phase := WCleanup\<rparr>, s)
         else (case r of
             Inr result \<Rightarrow> (k\<lparr>tw_phase := WComplete (ar_result result)\<rparr>, s)
           | Inl e \<Rightarrow> (k\<lparr>tw_phase := WFail (task_error (xe_error_code e) (xe_message e))\<rparr>, s))
     | WComplete v \<Rightarrow> (k\<lparr>tw_phase := WCleanup\<rparr>, s\<lparr>xs_tasks := snd (task_complete now (tw_task k) v (xs_tasks s))\<rparr>)
     | WFail e \<Rightarrow> (k\<lparr>tw_phase := WCleanup\<rparr>, s\<lparr>xs_tasks := snd (task_fail now (tw_task k) e (xs_tasks s))\<rparr>)
     | WCleanup \<Rightarrow> (k\<lparr>tw_phase := WEnded\<rparr>, remove_cancellation (tw_task k) s)
     | WEnded \<Rightarrow> (k, s))"

definition step_worker :: "int \<Rightarrow> bool \<Rightarrow> bool \<Rightarrow> 'w action_host \<Rightarrow> nat \<Rightarrow> 'w action_state \<Rightarrow> 'w action_state" where
  "step_worker now late ready host n s =
     (case worker_step now late ready host (xs_workers s ! n) s of (k, s') \<Rightarrow> s'\<lparr>xs_workers := (xs_workers s)[n := k]\<rparr>)"

section \<open>The system\<close>

text \<open>Requests in any order, steps of the threads in any order, and progress reports of the provider. The
  counter of identifiers has not run through all its \<open>2 ^ 64\<close> values.\<close>

inductive action_step :: "action_app \<Rightarrow> 'w action_host \<Rightarrow> 'w action_state \<Rightarrow> 'w action_state \<Rightarrow> bool" for app host where
  request: "unat (xs_counter s) < 2 ^ 64 - 2 \<Longrightarrow> action_step app host s (snd (action_handle env app host req s))"
| thread: "n < length (xs_workers s) \<Longrightarrow> action_step app host s (step_worker now late ready host n s)"
| progress: "action_step app host s (s\<lparr>xs_tasks := snd (update_progress now t x (xs_tasks s))\<rparr>)"

inductive_cases action_step_cases: "action_step app host s s'"

end
