(* ===== verification/Nwp_Action_Props.thy ===== *)
theory Nwp_Action_Props
  imports Nwp_Action_Server
begin

text \<open>
  Properties of the action node: the shape of a stream, the life of a task under every interleaving of requests and
  threads, replay under an idempotency key and the isolation of callers.
\<close>

section \<open>Streams\<close>

definition contiguous :: "string \<Rightarrow> action_stream_frame list \<Rightarrow> bool" where
  "contiguous sid fs \<longleftrightarrow> map sf_seq fs = map of_nat [0..<length fs] \<and> (\<forall>f\<in>set fs. sf_stream_id f = sid)"

definition open_frames :: "action_stream_frame list \<Rightarrow> bool" where
  "open_frames fs \<longleftrightarrow> (\<forall>f\<in>set fs. \<not> sf_is_last f \<and> sf_error_code f = None)"

definition stream_inv :: "string \<Rightarrow> stream_state \<Rightarrow> bool" where
  "stream_inv sid st \<longleftrightarrow> contiguous sid (ss_emitted st) \<and> ss_next_seq st = of_nat (length (ss_emitted st))
     \<and> (if ss_terminal st then ss_emitted st \<noteq> [] \<and> sf_is_last (last (ss_emitted st)) \<and> open_frames (butlast (ss_emitted st))
        else open_frames (ss_emitted st))"

lemma contiguous_snoc: "contiguous sid fs \<Longrightarrow> sf_seq f = of_nat (length fs) \<Longrightarrow> sf_stream_id f = sid \<Longrightarrow> contiguous sid (fs @ [f])"
  by (simp add: contiguous_def)

lemma emit_inv: "stream_inv sid st \<Longrightarrow> stream_inv sid (snd (emit_frame cancelled sid f st))"
  by (auto simp: emit_frame_def stream_inv_def Let_def open_frames_def intro!: contiguous_snoc)

lemma producer_inv: "stream_inv sid st \<Longrightarrow> stream_inv sid (snd (run_producer cancelled sid p st))"
proof (induction p arbitrary: st)
  case (Emit f nxt)
  obtain a st' where e: "emit_frame cancelled sid f st = (a, st')" by fastforce
  with emit_inv [OF Emit.prems, of cancelled f] have "stream_inv sid st'" by simp
  with Emit.IH [of "nxt a" st'] e show ?case by simp
qed simp

lemma stream_well_formed_frames:
  assumes "stream_frames cancelled sid p = (fs, completed)"
  shows "contiguous sid fs" "open_frames (butlast fs)" "(\<forall>n. \<not> cancelled n) \<Longrightarrow> fs \<noteq> [] \<and> sf_is_last (last fs)"
    "completed \<Longrightarrow> fs \<noteq> [] \<and> sf_is_last (last fs) \<and> sf_error_code (last fs) = None"
proof -
  obtain err st where r: "run_producer cancelled sid p stream_state_new = (err, st)" by fastforce
  have "stream_inv sid stream_state_new" by (simp add: stream_inv_def stream_state_new_def contiguous_def open_frames_def)
  from producer_inv [OF this, of cancelled p] r have inv: "stream_inv sid st" by simp
  have bl: "open_frames xs \<Longrightarrow> open_frames (butlast xs)" for xs by (auto simp: open_frames_def dest: in_set_butlastD)
  have close: "contiguous sid (ss_emitted st @ [close_frame sid (ss_next_seq st) e])" for e
    using inv by (intro contiguous_snoc) (auto simp: stream_inv_def close_frame_def)
  have "contiguous sid fs \<and> open_frames (butlast fs)
    \<and> ((\<forall>n. \<not> cancelled n) \<longrightarrow> fs \<noteq> [] \<and> sf_is_last (last fs))
    \<and> (completed \<longrightarrow> fs \<noteq> [] \<and> sf_is_last (last fs) \<and> sf_error_code (last fs) = None)"
  proof (cases "ss_terminal st")
    case True
    with assms r have "fs = ss_emitted st" by (auto simp: stream_frames_def Let_def split: option.splits)
    with True inv assms r show ?thesis by (auto simp: stream_inv_def stream_frames_def Let_def split: option.splits)
  next
    case False
    then obtain e where e: "(case err of Some e \<Rightarrow> Some e | None \<Rightarrow> if ss_terminal st then None
        else Some (action_error_internal ''action stream ended without a terminal frame'')) = Some e" by (cases err) auto
    with assms r False have fs: "fs = (if cancelled (ss_calls st) then ss_emitted st else ss_emitted st @ [close_frame sid (ss_next_seq st) e])"
      and c: "\<not> completed" by (auto simp: stream_frames_def Let_def)
    have o: "open_frames (ss_emitted st)" using inv False by (simp add: stream_inv_def)
    show ?thesis
      using fs c o bl [OF o] close [of e] inv by (auto simp: stream_inv_def close_frame_def)
  qed
  then show "contiguous sid fs" "open_frames (butlast fs)" "(\<forall>n. \<not> cancelled n) \<Longrightarrow> fs \<noteq> [] \<and> sf_is_last (last fs)"
    "completed \<Longrightarrow> fs \<noteq> [] \<and> sf_is_last (last fs) \<and> sf_error_code (last fs) = None" by blast+
qed

text \<open>Property C15 (safety). Whatever a provider emits and however it reacts to refusals, the frames that a client receives are
  numbered from zero without a gap and carry the identifier of the stream, and only the last one is terminal or
  carries an error. Without a cancellation there is a terminal frame, and a stream that is kept for replay ended
  without an error.\<close>

theorem stream_well_formed:
  assumes "stream_frames cancelled sid p = (fs, completed)"
  shows "contiguous sid fs \<and> open_frames (butlast fs)
    \<and> ((\<forall>n. \<not> cancelled n) \<longrightarrow> fs \<noteq> [] \<and> sf_is_last (last fs))
    \<and> (completed \<longrightarrow> fs \<noteq> [] \<and> sf_is_last (last fs) \<and> sf_error_code (last fs) = None)"
  using stream_well_formed_frames [OF assms] by blast

text \<open>A producer that numbers its frames wrongly and does not care is closed with an error.\<close>

definition careless :: producer where
  "careless = Emit \<lparr>sf_stream_id = [], sf_seq = 3, sf_is_last = True, sf_anchor_ref = None, sf_data = [], sf_window_size = None, sf_error_code = None\<rparr>
     (\<lambda>_. Done None)"

theorem stream_well_formed_witness:
  "\<exists>fs. stream_frames (\<lambda>n. False) ''s'' careless = (fs, False) \<and> contiguous ''s'' fs \<and> sf_is_last (last fs)"
proof -
  obtain fs c where f: "stream_frames (\<lambda>n. False) ''s'' careless = (fs, c)" by fastforce
  then have "\<not> c"
    by (auto simp: stream_frames_def careless_def emit_frame_def stream_state_new_def action_error_internal_def Let_def)
  with stream_well_formed [OF f] f show ?thesis by auto
qed

text \<open>Replaying the frames of a completed stream gives the same frames under the new identifier.\<close>

lemma run_replay:
  assumes "\<And>n. \<not> cancelled n" "contiguous sid' (seen @ fs)" "open_frames (butlast (seen @ fs))"
    "fs \<noteq> [] \<Longrightarrow> sf_is_last (last fs)"
    "ss_emitted st = map (\<lambda>f. f\<lparr>sf_stream_id := sid\<rparr>) seen" "ss_next_seq st = of_nat (length seen)" "fs \<noteq> [] \<Longrightarrow> \<not> ss_terminal st"
    "fs = [] \<Longrightarrow> ss_terminal st"
  shows "\<exists>st'. run_producer cancelled sid (replay fs) st = (None, st') \<and> ss_terminal st'
    \<and> ss_emitted st' = map (\<lambda>f. f\<lparr>sf_stream_id := sid\<rparr>) (seen @ fs)"
  using assms
proof (induction fs arbitrary: seen st)
  case (Cons f fs)
  have seq: "sf_seq f = of_nat (length seen)"
  proof -
    have "map sf_seq (seen @ f # fs) ! length seen = map of_nat [0..<length (seen @ f # fs)] ! length seen"
      using Cons.prems(2) by (simp only: contiguous_def)
    then show ?thesis by (simp add: nth_append del: upt_Suc)
  qed
  have last: "sf_is_last f \<longleftrightarrow> fs = []" and err: "fs \<noteq> [] \<Longrightarrow> sf_error_code f = None"
    using Cons.prems(3,4) by (auto simp: open_frames_def butlast_append split: if_splits)
  have err2: "sf_error_code f \<noteq> None \<Longrightarrow> sf_is_last f" using err last by metis
  have ok: "\<not> ((\<exists>y. sf_error_code f = Some y) \<and> \<not> sf_is_last f)" using err last by (cases "sf_error_code f") auto
  define st1 where "st1 = st\<lparr>ss_calls := Suc (ss_calls st), ss_emitted := ss_emitted st @ [f\<lparr>sf_stream_id := sid\<rparr>],
      ss_next_seq := ss_next_seq st + 1, ss_terminal := sf_is_last f\<rparr>"
  have e: "emit_frame cancelled sid f st = (None, st1)"
    using Cons.prems(1,6,7) seq ok by (simp add: emit_frame_def Let_def st1_def)
  have st1: "ss_emitted st1 = map (\<lambda>f. f\<lparr>sf_stream_id := sid\<rparr>) (seen @ [f])"
      "ss_next_seq st1 = of_nat (length (seen @ [f]))" "ss_terminal st1 \<longleftrightarrow> sf_is_last f"
    using Cons.prems(5,6) by (simp_all add: st1_def add.commute)
  have "\<exists>st'. run_producer cancelled sid (replay fs) st1 = (None, st') \<and> ss_terminal st'
    \<and> ss_emitted st' = map (\<lambda>f. f\<lparr>sf_stream_id := sid\<rparr>) ((seen @ [f]) @ fs)"
    by (rule Cons.IH) (use Cons.prems st1 last in \<open>auto split: if_splits\<close>)
  then show ?case using e by simp
qed simp

lemma replayed_stream:
  assumes "stream_frames cancelled sid p = (fs, True)"
  shows "stream_frames (\<lambda>n. False) sid' (replay fs) = (map (\<lambda>f. f\<lparr>sf_stream_id := sid'\<rparr>) fs, True)"
proof -
  from stream_well_formed_frames [OF assms] have w: "contiguous sid fs" "open_frames (butlast fs)" "fs \<noteq> []" "sf_is_last (last fs)"
    "sf_error_code (last fs) = None" by auto
  have "\<exists>st'. run_producer (\<lambda>n. False) sid' (replay fs) stream_state_new = (None, st') \<and> ss_terminal st'
      \<and> ss_emitted st' = map (\<lambda>f. f\<lparr>sf_stream_id := sid'\<rparr>) ([] @ fs)"
    by (rule run_replay [where sid' = sid]) (use w in \<open>auto simp: stream_state_new_def\<close>)
  then show ?thesis using w by (auto simp: stream_frames_def Let_def last_map)
qed

section \<open>The life of a task\<close>

definition task_moves :: "string \<Rightarrow> string \<Rightarrow> bool" where
  "task_moves a b \<longleftrightarrow> a = b \<or> (a, b) \<in> {(''pending'', ''running''), (''pending'', ''cancelled''), (''running'', ''completed''),
     (''running'', ''failed''), (''running'', ''cancelled'')}"

definition TASK_STATES :: "string set" where
  "TASK_STATES = {''pending'', ''running'', ''completed'', ''failed'', ''cancelled''}"

lemma hex_digit_inj: "a < 16 \<Longrightarrow> b < 16 \<Longrightarrow> hex_digit a = hex_digit b \<longleftrightarrow> a = b"
proof -
  have d: "distinct (map hex_digit [0..<16])" by code_simp
  assume "a < 16" "b < 16"
  then show ?thesis using d nth_eq_iff_index_eq [OF d, of a b] by simp
qed

lemma hex16_inj: "hex16 c = hex16 c' \<longleftrightarrow> c = c'"
proof
  assume h: "hex16 c = hex16 c'"
  have nib: "unat (drop_bit (4 * (15 - i)) c) mod 16 = unat (drop_bit (4 * (15 - i)) c') mod 16" if "i < 16" for i
  proof -
    have "hex16 c ! i = hex16 c' ! i" using h by simp
    then show ?thesis using that by (simp add: hex16_def hex_digit_inj)
  qed
  show "c = c'"
  proof (rule bit_word_eqI)
    fix k assume k: "k < LENGTH(64)"
    define j where "j = k div 4"
    have j: "j < 16" "k = 4 * j + k mod 4" using k by (auto simp: j_def)
    have "unat (take_bit 4 (drop_bit (4 * j) c)) = unat (take_bit 4 (drop_bit (4 * j) c'))"
      using nib [of "15 - j"] j(1) by (simp only: unsigned_take_bit_eq) (simp add: take_bit_eq_mod)
    then have t: "take_bit 4 (drop_bit (4 * j) c) = take_bit 4 (drop_bit (4 * j) c')" by (simp only: word_unat_eq_iff)
    have b: "bit (take_bit 4 (drop_bit (4 * j) w)) (k mod 4) \<longleftrightarrow> bit w k" for w :: u64
      using j(2) k by (simp add: bit_simps)
    show "bit c k \<longleftrightarrow> bit c' k" using b [of c] b [of c'] t by simp
  qed
qed simp

lemma hex16_length [simp]: "length (hex16 w) = 16"
  by (simp add: hex16_def)

lemma fresh_id_eq: "fresh_id env c = (hex16 (ax_nanos env) @ hex16 c, c + 1)"
  by (simp add: fresh_id_def)

text \<open>What holds between steps: identifiers of tasks were made with earlier values of the counter, a task has one of the five
  states, and a thread past its start has a task that is no longer pending.\<close>

definition tasks_inv :: "'w action_state \<Rightarrow> bool" where
  "tasks_inv s \<longleftrightarrow>
     (\<forall>t r. map_of (xs_tasks s) t = Some r \<longrightarrow> tk_status r \<in> TASK_STATES \<and> (\<exists>n c. t = hex16 n @ hex16 c \<and> unat c < unat (xs_counter s)))
     \<and> (\<forall>k\<in>set (xs_workers s). \<exists>r. map_of (xs_tasks s) (tw_task k) = Some r \<and> (tw_phase k \<noteq> WPending \<longrightarrow> tk_status r \<noteq> ''pending''))"

text \<open>A change of the tasks that is in order: existing tasks move along, statuses stay among the five.\<close>

definition tasks_step :: "task_map \<Rightarrow> task_map \<Rightarrow> bool" where
  "tasks_step m m' \<longleftrightarrow> (\<forall>t r. map_of m t = Some r \<longrightarrow> (\<exists>r'. map_of m' t = Some r' \<and> task_moves (tk_status r) (tk_status r')))"

lemma tasks_step_refl [simp]: "tasks_step m m"
  by (simp add: tasks_step_def task_moves_def)

lemma modify_step:
  assumes "\<And>r. map_of m tid = Some r \<Longrightarrow> ok r \<Longrightarrow> task_moves (tk_status r) (tk_status (f r))"
  shows "tasks_step m (snd (task_modify ok f tid m))"
proof -
  have "task_moves a a" for a by (simp add: task_moves_def)
  with assms show ?thesis by (auto simp: tasks_step_def task_modify_get split: option.splits)
qed

lemma live_states: "a \<in> TASK_STATES \<Longrightarrow> \<not> is_terminal a \<Longrightarrow> a = ''pending'' \<or> a = ''running''"
  unfolding TASK_STATES_def is_terminal_def by blast

subsection \<open>Requests\<close>

lemma cancel_cell_at_keeps [simp]:
  "xs_tasks (cancel_cell_at i s) = xs_tasks s" "xs_workers (cancel_cell_at i s) = xs_workers s"
  "xs_counter (cancel_cell_at i s) = xs_counter s" "xs_idem (cancel_cell_at i s) = xs_idem s"
  by (simp_all add: cancel_cell_at_def split: prod.splits)

lemma cancel_token_keeps [simp]:
  "xs_tasks (cancel_token t s) = xs_tasks s" "xs_workers (cancel_token t s) = xs_workers s"
  "xs_counter (cancel_token t s) = xs_counter s" "xs_idem (cancel_token t s) = xs_idem s"
  by (simp_all add: cancel_token_def split: option.splits)

lemma idem_record_form: "\<exists>m. idem_record env scope frame e s = s\<lparr>xs_idem := m\<rparr>"
  by (cases "pa_idempotency_key frame") (auto simp: idem_record_def intro: exI [of _ "xs_idem s"])

lemma idem_lookup_form: "\<exists>m. snd (idem_lookup env scope frame s) = s\<lparr>xs_idem := m\<rparr>"
  by (cases "pa_idempotency_key frame") (auto simp: idem_lookup_def split: prod.splits intro: exI [of _ "xs_idem s"])

lemma idem_record_keeps [simp]:
  "xs_tasks (idem_record env scope frame e s) = xs_tasks s" "xs_workers (idem_record env scope frame e s) = xs_workers s"
  "xs_counter (idem_record env scope frame e s) = xs_counter s" "xs_world (idem_record env scope frame e s) = xs_world s"
  "xs_cells (idem_record env scope frame e s) = xs_cells s" "xs_cancellations (idem_record env scope frame e s) = xs_cancellations s"
  by (insert idem_record_form [of env scope frame e s], auto)

lemma idem_lookup_keeps [simp]:
  "xs_tasks (snd (idem_lookup env scope frame s)) = xs_tasks s" "xs_workers (snd (idem_lookup env scope frame s)) = xs_workers s"
  "xs_counter (snd (idem_lookup env scope frame s)) = xs_counter s" "xs_world (snd (idem_lookup env scope frame s)) = xs_world s"
  "xs_cells (snd (idem_lookup env scope frame s)) = xs_cells s" "xs_cancellations (snd (idem_lookup env scope frame s)) = xs_cancellations s"
  by (insert idem_lookup_form [of env scope frame s], auto)

lemmas idem_keeps = idem_record_keeps idem_lookup_keeps

definition quiet :: "'w action_state \<Rightarrow> 'w action_state \<Rightarrow> bool" where
  "quiet s s' \<longleftrightarrow> xs_tasks s' = xs_tasks s \<and> xs_workers s' = xs_workers s \<and> xs_counter s' \<in> {xs_counter s, xs_counter s + 1}"

definition cancels :: "'w action_state \<Rightarrow> 'w action_state \<Rightarrow> bool" where
  "cancels s s' \<longleftrightarrow> (\<exists>now t. xs_tasks s' = snd (task_cancel now t (xs_tasks s))) \<and> xs_workers s' = xs_workers s \<and> xs_counter s' = xs_counter s"

definition creates :: "'w action_state \<Rightarrow> 'w action_state \<Rightarrow> bool" where
  "creates s s' \<longleftrightarrow> (\<exists>now n aid rid nid k. tw_task k = hex16 n @ hex16 (xs_counter s) \<and> tw_phase k = WPending
     \<and> xs_tasks s' = task_create now (tw_task k) aid rid nid (xs_tasks s) \<and> xs_workers s' = xs_workers s @ [k] \<and> xs_counter s' = xs_counter s + 1)"

lemma write_stream_counter: "snd (snd (write_stream env p cancelled rid c)) = c + 1"
  by (simp add: write_stream_def fresh_id_eq split: prod.splits)

lemma replay_entry_quiet: "quiet s (snd (replay_entry env app host frame e s))"
proof -
  obtain resp completed c where w: "write_stream env (replay (the (id_stream_frames e))) (ah_cancelled host) (pa_request_id frame) (xs_counter s) = (resp, completed, c)"
    by (metis prod_cases3)
  with write_stream_counter [of env "replay (the (id_stream_frames e))" "ah_cancelled host" "pa_request_id frame" "xs_counter s"]
  have "c = xs_counter s + 1" by simp
  with w show ?thesis by (auto simp: quiet_def replay_entry_def Let_def split: option.splits)
qed

lemma finish_sync_quiet: "quiet s (snd (finish_sync env app host scope frame spec r s))"
proof -
  obtain resp completed c where w: "write_stream env (the (ar_stream r)) (ah_cancelled host) (pa_request_id frame) (xs_counter s) = (resp, completed, c)"
    by (metis prod_cases3)
  with write_stream_counter [of env "the (ar_stream r)" "ah_cancelled host" "pa_request_id frame" "xs_counter s"]
  have "c = xs_counter s + 1" by simp
  with w show ?thesis by (auto simp: quiet_def finish_sync_def Let_def split: option.splits)
qed

lemma run_sync_quiet: "quiet s (snd (run_sync env app host scope frame ctx s))"
proof -
  obtain outcome w where e: "ah_execute host frame ctx (xs_world s) = (outcome, w)" by fastforce
  have "quiet s (snd (finish_sync env app host scope frame (cx_spec ctx) r (s\<lparr>xs_world := w\<rparr>)))" for r
    using finish_sync_quiet [of "s\<lparr>xs_world := w\<rparr>" env app host scope frame "cx_spec ctx" r] by (simp add: quiet_def)
  then show ?thesis
    by (cases outcome) (auto simp: run_sync_def e Let_def quiet_def split: sum.splits)
qed

lemma run_async_creates: "creates s (snd (run_async env app scope frame ctx timeout s))"
  unfolding creates_def run_async_def Let_def fresh_id_eq
  by (rule exI [of _ "ax_now env"], rule exI [of _ "ax_nanos env"], rule exI [of _ "pa_action_id frame"],
      rule exI [of _ "pa_request_id frame"], rule exI [of _ "cx_agent_nid ctx"], rule exI) (auto split: prod.splits)

text \<open>The cases of an invocation that passes the checks and the provider's authorization.\<close>

lemma handle_action_cases:
  assumes "invoke_checks (ax_cr env) (aa_opt app) frame = Ok (spec, timeout)"
    and "ctx = admission_context req frame nid spec timeout (length (xs_cells s))"
    and "ah_authorize host frame ctx (xs_world s) = (answer, w)"
    and "s1 = s\<lparr>xs_cells := xs_cells s @ [cancellation_new], xs_world := w\<rparr>"
    and "scope = idempotency_cache_scope (pa_action_id frame) nid"
    and "idem_lookup env scope frame s1 = (e, s2)"
  shows "handle_action env app host req frame nid s =
     (case answer of Some err \<Rightarrow> (provider_error (ax_cr env) err, s1)
      | None \<Rightarrow> (case e of Some x \<Rightarrow> replay_entry env app host frame x s2
          | None \<Rightarrow> if pa_async frame then run_async env app scope frame ctx timeout s2 else run_sync env app host scope frame ctx s2))"
  using assms by (simp add: handle_action_def Let_def split: option.splits)

lemma handle_action_effect:
  "quiet s (snd (handle_action env app host req frame nid s)) \<or> creates s (snd (handle_action env app host req frame nid s))"
proof (cases "invoke_checks (ax_cr env) (aa_opt app) frame")
  case (Inl resp)
  then show ?thesis by (simp add: handle_action_def quiet_def Let_def)
next
  case (Inr st)
  obtain spec timeout where st: "st = (spec, timeout)" by (cases st)
  define ctx where "ctx = admission_context req frame nid spec timeout (length (xs_cells s))"
  obtain answer w where a: "ah_authorize host frame ctx (xs_world s) = (answer, w)" by fastforce
  define s1 where "s1 = s\<lparr>xs_cells := xs_cells s @ [cancellation_new], xs_world := w\<rparr>"
  define scope where "scope = idempotency_cache_scope (pa_action_id frame) nid"
  obtain e s2 where l: "idem_lookup env scope frame s1 = (e, s2)" by fastforce
  have "xs_tasks s2 = xs_tasks s1" "xs_workers s2 = xs_workers s1" "xs_counter s2 = xs_counter s1"
    using idem_keeps(7,8,9) [of env scope frame s1] unfolding l snd_conv .
  then have same: "xs_tasks s2 = xs_tasks s" "xs_workers s2 = xs_workers s" "xs_counter s2 = xs_counter s"
    by (simp_all add: s1_def)
  note h = handle_action_cases [OF Inr [unfolded st] ctx_def a s1_def scope_def l]
  show ?thesis
    using replay_entry_quiet [of s2 env app host frame "the e"] run_sync_quiet [of s2 env app host scope frame ctx]
      run_async_creates [of s2 env app scope frame ctx timeout] same
    unfolding h by (auto simp: quiet_def creates_def s1_def split: option.splits)
qed

text \<open>The only ways in which a request reaches the state.\<close>

lemma request_reaches:
  "snd (action_handle env app host req s) = s
   \<or> (\<exists>frame. snd (action_handle env app host req s) = snd (handle_task_cancel env frame (node_header req AGENT) s))
   \<or> (\<exists>frame. snd (action_handle env app host req s) = snd (handle_action env app host req frame (node_header req AGENT) s))"
proof -
  have "snd (action_handle_invoke env app host req s) = s
   \<or> (\<exists>frame. snd (action_handle_invoke env app host req s) = snd (handle_task_cancel env frame (node_header req AGENT) s))
   \<or> (\<exists>frame. snd (action_handle_invoke env app host req s) = snd (handle_action env app host req frame (node_header req AGENT) s))"
    unfolding action_handle_invoke_def Let_def by (simp split: sum.splits) blast
  moreover have "snd (action_handle env app host req s) \<in> {s, snd (action_handle_invoke env app host req s)}"
    unfolding action_handle_def Let_def by (cases "strip_prefix (aa_prefix app) (nq_path req)") auto
  ultimately show ?thesis by auto
qed

lemma request_effect:
  "quiet s (snd (action_handle env app host req s)) \<or> cancels s (snd (action_handle env app host req s))
   \<or> creates s (snd (action_handle env app host req s))"
proof -
  have "quiet s (snd (handle_task_cancel env frame nid s)) \<or> cancels s (snd (handle_task_cancel env frame nid s))" for frame nid
    by (auto simp: handle_task_cancel_def quiet_def cancels_def Let_def split: sum.splits prod.splits)
  moreover have "quiet s s" by (simp add: quiet_def)
  ultimately show ?thesis using request_reaches [of env app host req s] handle_action_effect [of s env app host req] by metis
qed

lemma task_moves_cases:
  assumes "task_moves a b"
  obtains "a = b" | "a = ''pending''" "b = ''running''" | "a = ''pending''" "b = ''cancelled''" | "a = ''running''" "b = ''completed''"
    | "a = ''running''" "b = ''failed''" | "a = ''running''" "b = ''cancelled''"
  using assms unfolding task_moves_def insert_iff empty_iff prod.inject by metis

lemma moves_forward:
  "task_moves a b \<Longrightarrow> a \<in> TASK_STATES \<Longrightarrow> b \<in> TASK_STATES"
  "task_moves a b \<Longrightarrow> a \<noteq> ''pending'' \<Longrightarrow> b \<noteq> ''pending''"
  by (erule task_moves_cases; simp add: TASK_STATES_def)+

lemma inv_step:
  assumes inv: "tasks_inv s" and st: "tasks_step (xs_tasks s) (xs_tasks s')" and keys: "dom (map_of (xs_tasks s')) = dom (map_of (xs_tasks s))"
    and c: "unat (xs_counter s) \<le> unat (xs_counter s')"
    and w: "\<And>k. k \<in> set (xs_workers s') \<Longrightarrow> k \<in> set (xs_workers s)
      \<or> (\<exists>r. map_of (xs_tasks s') (tw_task k) = Some r \<and> (tw_phase k \<noteq> WPending \<longrightarrow> tk_status r \<noteq> ''pending''))"
  shows "tasks_inv s'"
  unfolding tasks_inv_def
proof (intro conjI allI impI ballI)
  fix t r' assume r': "map_of (xs_tasks s') t = Some r'"
  with keys obtain r where r: "map_of (xs_tasks s) t = Some r" by fastforce
  with st r' have "task_moves (tk_status r) (tk_status r')" by (fastforce simp: tasks_step_def)
  moreover have "tk_status r \<in> TASK_STATES" using inv r unfolding tasks_inv_def by blast
  ultimately show "tk_status r' \<in> TASK_STATES" by (rule moves_forward(1))
  from inv r obtain n d where "t = hex16 n @ hex16 d" "unat d < unat (xs_counter s)" unfolding tasks_inv_def by blast
  with c show "\<exists>n d. t = hex16 n @ hex16 d \<and> unat d < unat (xs_counter s')" by (intro exI [of _ n] exI [of _ d]) simp
next
  fix k assume k: "k \<in> set (xs_workers s')"
  show "\<exists>r. map_of (xs_tasks s') (tw_task k) = Some r \<and> (tw_phase k \<noteq> WPending \<longrightarrow> tk_status r \<noteq> ''pending'')"
  proof (cases "k \<in> set (xs_workers s)")
    case True
    with inv obtain r where r: "map_of (xs_tasks s) (tw_task k) = Some r" "tw_phase k \<noteq> WPending \<longrightarrow> tk_status r \<noteq> ''pending''"
      unfolding tasks_inv_def by blast
    with st obtain r' where "map_of (xs_tasks s') (tw_task k) = Some r'" "task_moves (tk_status r) (tk_status r')"
      unfolding tasks_step_def by blast
    with r moves_forward(2) show ?thesis by blast
  next
    case False
    with w [OF k] show ?thesis by blast
  qed
qed

lemma counter_next: "unat c < 2 ^ 64 - 2 \<Longrightarrow> unat (c + 1) = unat (c :: u64) + 1"
  by (subst unat_add_lem [THEN iffD1]) simp_all

lemma cancel_moves:
  assumes "tasks_inv s"
  shows "tasks_step (xs_tasks s) (snd (task_cancel now t (xs_tasks s)))"
  unfolding task_cancel_def
proof (rule modify_step)
  fix r assume r: "map_of (xs_tasks s) t = Some r" and live: "\<not> is_terminal (tk_status r)"
  from assms r have "tk_status r \<in> TASK_STATES" unfolding tasks_inv_def by blast
  from live_states [OF this live] show "task_moves (tk_status r) (tk_status (r\<lparr>tk_status := ''cancelled'', tk_updated_at := now\<rparr>))"
    by (auto simp: task_moves_def)
qed

lemma request_keeps:
  assumes inv: "tasks_inv s" and c: "unat (xs_counter s) < 2 ^ 64 - 2" and e: "quiet s s' \<or> cancels s s' \<or> creates s s'"
  shows "tasks_inv s' \<and> tasks_step (xs_tasks s) (xs_tasks s')"
  using e
proof (elim disjE)
  assume "quiet s s'"
  then have "xs_tasks s' = xs_tasks s" "xs_workers s' = xs_workers s" "unat (xs_counter s) \<le> unat (xs_counter s')"
    using counter_next [OF c] by (auto simp: quiet_def)
  then show ?thesis by (intro conjI inv_step [OF inv]) simp_all
next
  assume "cancels s s'"
  then obtain now t where s': "xs_tasks s' = snd (task_cancel now t (xs_tasks s))" "xs_workers s' = xs_workers s" "xs_counter s' = xs_counter s"
    by (auto simp: cancels_def)
  have "dom (map_of (xs_tasks s')) = dom (map_of (xs_tasks s))" by (simp add: s' task_cancel_def task_modify_keys)
  with cancel_moves [OF inv, of now t] s' show ?thesis by (intro conjI inv_step [OF inv]) simp_all
next
  assume "creates s s'"
  then obtain now n aid rid nid k where k: "tw_task k = hex16 n @ hex16 (xs_counter s)" "tw_phase k = WPending"
      and s': "xs_tasks s' = task_create now (tw_task k) aid rid nid (xs_tasks s)" "xs_workers s' = xs_workers s @ [k]" "xs_counter s' = xs_counter s + 1"
    by (auto simp: creates_def)
  have u: "unat (xs_counter s') = unat (xs_counter s) + 1" using counter_next [OF c] s'(3) by simp
  have fresh: "map_of (xs_tasks s) (tw_task k) = None"
  proof (rule ccontr)
    assume "map_of (xs_tasks s) (tw_task k) \<noteq> None"
    then obtain m d where "tw_task k = hex16 m @ hex16 d" "unat d < unat (xs_counter s)"
      using inv unfolding tasks_inv_def by blast
    then show False using k(1) by (simp add: hex16_inj)
  qed
  have get: "map_of (xs_tasks s') t = (if t = tw_task k then Some (task_new now (tw_task k) aid rid nid) else map_of (xs_tasks s) t)" for t
    by (simp add: s' task_create_def)
  have st: "tasks_step (xs_tasks s) (xs_tasks s')"
    using fresh by (auto simp: tasks_step_def get task_moves_def)
  moreover have "tasks_inv s'"
    unfolding tasks_inv_def
  proof (intro conjI allI impI ballI)
    fix t r assume r: "map_of (xs_tasks s') t = Some r"
    show "tk_status r \<in> TASK_STATES" using r inv by (auto simp: get tasks_inv_def task_new_def TASK_STATES_def split: if_splits)
    show "\<exists>n d. t = hex16 n @ hex16 d \<and> unat d < unat (xs_counter s')"
    proof (cases "t = tw_task k")
      case True
      then show ?thesis using k(1) u by (intro exI [of _ n] exI [of _ "xs_counter s"]) simp
    next
      case False
      with r have "map_of (xs_tasks s) t = Some r" by (simp add: get)
      with inv obtain m d where "t = hex16 m @ hex16 d" "unat d < unat (xs_counter s)" unfolding tasks_inv_def by blast
      then show ?thesis using u by (intro exI [of _ m] exI [of _ d]) simp
    qed
  next
    fix j assume j: "j \<in> set (xs_workers s')"
    show "\<exists>r. map_of (xs_tasks s') (tw_task j) = Some r \<and> (tw_phase j \<noteq> WPending \<longrightarrow> tk_status r \<noteq> ''pending'')"
    proof (cases "j \<in> set (xs_workers s)")
      case True
      with inv fresh show ?thesis by (auto simp: get tasks_inv_def)
    next
      case False
      with j s'(2) have "j = k" by simp
      with k(2) show ?thesis by (simp add: get)
    qed
  qed
  ultimately show ?thesis by blast
qed

subsection \<open>Threads\<close>

lemma thread_keeps:
  assumes inv: "tasks_inv s" and n: "n < length (xs_workers s)"
  shows "tasks_inv (step_worker now late ready host n s) \<and> tasks_step (xs_tasks s) (xs_tasks (step_worker now late ready host n s))"
proof -
  let ?k = "xs_workers s ! n"
  obtain k s1 where k: "worker_step now late ready host ?k s = (k, s1)" by fastforce
  obtain r where r: "map_of (xs_tasks s) (tw_task ?k) = Some r" and ph: "tw_phase ?k \<noteq> WPending \<longrightarrow> tk_status r \<noteq> ''pending''"
    using inv n nth_mem [OF n] unfolding tasks_inv_def by blast
  have rs: "tk_status r \<in> TASK_STATES" using inv r unfolding tasks_inv_def by blast
  have ended: "tasks_step (xs_tasks s) (snd (task_modify (\<lambda>r. \<not> is_terminal (tk_status r)) f (tw_task ?k) (xs_tasks s)))"
    if "tk_status r \<noteq> ''pending''" "\<And>r. tk_status (f r) \<in> {''completed'', ''failed''}" for f
  proof (rule modify_step)
    fix q assume "map_of (xs_tasks s) (tw_task ?k) = Some q" "\<not> is_terminal (tk_status q)"
    with r rs that live_states [OF rs] show "task_moves (tk_status q) (tk_status (f q))" by (fastforce simp: task_moves_def)
  qed
  have begun: "tasks_step (xs_tasks s) (snd (try_transition now (tw_task ?k) ''pending'' ''running'' (xs_tasks s)))"
    unfolding try_transition_def by (rule modify_step) (simp add: task_moves_def)
  have eff: "tw_task k = tw_task ?k \<and> tasks_step (xs_tasks s) (xs_tasks s1) \<and> dom (map_of (xs_tasks s1)) = dom (map_of (xs_tasks s))
      \<and> xs_counter s1 = xs_counter s
      \<and> (tw_phase k \<noteq> WPending \<longrightarrow> (\<exists>r'. map_of (xs_tasks s1) (tw_task ?k) = Some r' \<and> tk_status r' \<noteq> ''pending''))"
  proof (cases "tw_phase ?k")
    case WPending
    obtain ok m where t: "try_transition now (tw_task ?k) ''pending'' ''running'' (xs_tasks s) = (ok, m)" by fastforce
    have m: "m = snd (try_transition now (tw_task ?k) ''pending'' ''running'' (xs_tasks s))" by (simp add: t)
    have dm: "dom (map_of m) = dom (map_of (xs_tasks s))" unfolding m try_transition_def by (rule task_modify_keys)
    have ok: "ok \<longleftrightarrow> tk_status r = ''pending''"
      using t r by (auto simp: try_transition_def task_modify_def split: if_splits)
    have gm: "ok \<Longrightarrow> \<exists>r'. map_of m (tw_task ?k) = Some r' \<and> tk_status r' = ''running''"
      using r ok unfolding m try_transition_def by (simp add: task_modify_get)
    show ?thesis
    proof (cases ok)
      case True
      obtain outcome w where e: "ah_execute host (tw_frame ?k) (tw_context ?k) (xs_world s) = (outcome, w)" by fastforce
      have "k = ?k\<lparr>tw_outcome := outcome, tw_phase := WLoop\<rparr>" "s1 = s\<lparr>xs_tasks := m, xs_world := w\<rparr>"
        using k WPending t e True by (simp_all add: worker_step_def Let_def)
      with begun dm gm [OF True] m show ?thesis by auto
    next
      case False
      have "(k, s1) = (?k\<lparr>tw_phase := WCleanup\<rparr>, s)"
        unfolding k [symmetric] using WPending t False by (simp add: worker_step_def Let_def)
      with ok False r show ?thesis by auto
    qed
  next
    case WLoop
    with k r ph show ?thesis
      by (auto simp: worker_step_def Let_def split: if_splits exec_outcome.splits)
  next
    case (WCheck x)
    with k r ph show ?thesis by (auto simp: worker_step_def Let_def split: if_splits sum.splits)
  next
    case (WComplete v)
    have np: "tk_status r \<noteq> ''pending''" using ph WComplete by simp
    have "k = ?k\<lparr>tw_phase := WCleanup\<rparr>" "s1 = s\<lparr>xs_tasks := snd (task_complete now (tw_task ?k) v (xs_tasks s))\<rparr>"
      using k WComplete by (auto simp: worker_step_def Let_def)
    with ended [OF np, of "\<lambda>r. r\<lparr>tk_status := ''completed'', tk_result := v, tk_progress := Some F64_ONE, tk_updated_at := now\<rparr>"] np r
    show ?thesis by (simp add: task_complete_def task_modify_keys task_modify_get)
  next
    case (WFail e)
    have np: "tk_status r \<noteq> ''pending''" using ph WFail by simp
    have "k = ?k\<lparr>tw_phase := WCleanup\<rparr>" "s1 = s\<lparr>xs_tasks := snd (task_fail now (tw_task ?k) e (xs_tasks s))\<rparr>"
      using k WFail by (auto simp: worker_step_def Let_def)
    with ended [OF np, of "\<lambda>r. r\<lparr>tk_status := ''failed'', tk_error := Some e, tk_updated_at := now\<rparr>"] np r
    show ?thesis by (simp add: task_fail_def task_modify_keys task_modify_get)
  next
    case WCleanup
    with k r ph show ?thesis by (auto simp: worker_step_def Let_def remove_cancellation_def)
  next
    case WEnded
    with k r ph show ?thesis by (auto simp: worker_step_def Let_def)
  qed
  have s': "step_worker now late ready host n s = s1\<lparr>xs_workers := (xs_workers s)[n := k]\<rparr>" by (simp add: step_worker_def k)
  have "tasks_inv (step_worker now late ready host n s)"
  proof (rule inv_step [OF inv])
    fix j assume "j \<in> set (xs_workers (step_worker now late ready host n s))"
    then have "j \<in> set (xs_workers s) \<or> j = k" using set_update_subset_insert [of "xs_workers s" n k] by (auto simp: s')
    then show "j \<in> set (xs_workers s) \<or> (\<exists>r. map_of (xs_tasks (step_worker now late ready host n s)) (tw_task j) = Some r
        \<and> (tw_phase j \<noteq> WPending \<longrightarrow> tk_status r \<noteq> ''pending''))"
    proof
      assume j: "j = k"
      from eff r have "\<exists>r. map_of (xs_tasks s1) (tw_task ?k) = Some r" by (metis domD domI)
      with eff j show ?thesis by (cases "tw_phase k = WPending") (auto simp: s')
    qed simp
  qed (use eff s' in simp_all)
  with eff show ?thesis by (simp add: s')
qed

subsection \<open>Every interleaving\<close>

lemma progress_step: "tasks_step m (snd (update_progress now t x m))"
  unfolding update_progress_def by (rule modify_step) (simp add: task_moves_def)

lemma action_step_keeps:
  assumes step: "action_step app host s s'" and inv: "tasks_inv s"
  shows "tasks_inv s' \<and> tasks_step (xs_tasks s) (xs_tasks s')"
  using step
proof (rule action_step_cases)
  fix env req
  assume "unat (xs_counter s) < 18446744073709551614" and s': "s' = snd (action_handle env app host req s)"
  then have c: "unat (xs_counter s) < 2 ^ 64 - 2" by simp
  from request_keeps [OF inv c, of s'] request_effect [of s env app host req] show ?thesis unfolding s' by blast
next
  fix n now late ready
  assume s': "s' = step_worker now late ready host n s" and n: "n < length (xs_workers s)"
  from thread_keeps [OF inv n] show ?thesis unfolding s' .
next
  fix now t x
  assume s': "s' = s\<lparr>xs_tasks := snd (update_progress now t x (xs_tasks s))\<rparr>"
  have st: "tasks_step (xs_tasks s) (xs_tasks s')" using progress_step [of "xs_tasks s" now t x] by (simp add: s')
  have "tasks_inv s'" by (rule inv_step [OF inv st]) (simp_all add: s' update_progress_def task_modify_keys)
  with st show ?thesis by blast
qed

lemma new_state_inv: "tasks_inv (action_state_new w)"
  by (simp add: tasks_inv_def action_state_new_def)

lemma steps_inv:
  assumes "(action_step app host)\<^sup>*\<^sup>* s s'" "tasks_inv s"
  shows "tasks_inv s'"
  using assms
proof (induction rule: rtranclp_induct)
  case (step a b)
  from action_step_keeps [OF step.hyps(2) step.IH [OF step.prems]] show ?case by simp
qed

text \<open>Many moves: forward through the states, never out of a terminal one.\<close>

lemma moves_later:
  assumes "(action_step app host)\<^sup>*\<^sup>* s s'" "tasks_inv s" "map_of (xs_tasks s) t = Some r"
  shows "\<exists>r'. map_of (xs_tasks s') t = Some r' \<and> may_follow (tk_status r) (tk_status r')"
  using assms
proof (induction rule: rtranclp_induct)
  case base
  then show ?case by (simp add: may_follow_def)
next
  case (step a b)
  from action_step_keeps [OF step.hyps(2) steps_inv [OF step.hyps(1) step.prems(1)]]
  have st: "tasks_step (xs_tasks a) (xs_tasks b)" by simp
  from step.IH [OF step.prems] obtain q where q: "map_of (xs_tasks a) t = Some q" "may_follow (tk_status r) (tk_status q)" by blast
  with st obtain q' where "map_of (xs_tasks b) t = Some q'" "task_moves (tk_status q) (tk_status q')"
    unfolding tasks_step_def by blast
  with q show ?case by (auto simp: may_follow_def task_moves_def)
qed

text \<open>A thread whose task was cancelled before it started goes straight to its end.\<close>

definition abandoned :: "nat \<Rightarrow> 'w action_state \<Rightarrow> bool" where
  "abandoned n s \<longleftrightarrow> n < length (xs_workers s) \<and> tw_phase (xs_workers s ! n) \<in> {WPending, WCleanup, WEnded}
     \<and> (\<exists>r. map_of (xs_tasks s) (tw_task (xs_workers s ! n)) = Some r \<and> tk_status r = ''cancelled'')"

lemma cancelled_stays: "task_moves ''cancelled'' b \<Longrightarrow> b = ''cancelled''"
  by (erule task_moves_cases) simp_all

lemma abandoned_thread:
  assumes "abandoned n s"
  shows "xs_world (step_worker now late ready host n s) = xs_world s"
    "tw_phase (xs_workers (step_worker now late ready host n s) ! n) \<in> {WCleanup, WEnded}"
    "tw_task (xs_workers (step_worker now late ready host n s) ! n) = tw_task (xs_workers s ! n)"
proof -
  let ?k = "xs_workers s ! n"
  obtain r where r: "map_of (xs_tasks s) (tw_task ?k) = Some r" "tk_status r = ''cancelled''" and n: "n < length (xs_workers s)"
    and ph: "tw_phase ?k \<in> {WPending, WCleanup, WEnded}" using assms by (auto simp: abandoned_def)
  have t: "try_transition now (tw_task ?k) ''pending'' ''running'' (xs_tasks s) = (False, xs_tasks s)"
    using r by (simp add: try_transition_def task_modify_def)
  show "xs_world (step_worker now late ready host n s) = xs_world s"
    "tw_phase (xs_workers (step_worker now late ready host n s) ! n) \<in> {WCleanup, WEnded}"
    "tw_task (xs_workers (step_worker now late ready host n s) ! n) = tw_task ?k"
    using ph n by (auto simp: step_worker_def worker_step_def t remove_cancellation_def Let_def)
qed

lemma step_worker_others:
  assumes "n \<noteq> m"
  shows "xs_workers (step_worker now late ready host m s) ! n = xs_workers s ! n"
    "length (xs_workers (step_worker now late ready host m s)) = length (xs_workers s)"
  using assms by (simp_all add: step_worker_def split: prod.splits)

lemma request_workers:
  "\<exists>ks. xs_workers (snd (action_handle env app host req s)) = xs_workers s @ ks"
  using request_effect [of s env app host req] by (auto simp: quiet_def cancels_def creates_def)

lemma abandoned_kept:
  assumes step: "action_step app host s s'" and inv: "tasks_inv s" and a: "abandoned n s"
  shows "abandoned n s'"
proof -
  obtain r where n: "n < length (xs_workers s)" and ph: "tw_phase (xs_workers s ! n) \<in> {WPending, WCleanup, WEnded}"
    and r: "map_of (xs_tasks s) (tw_task (xs_workers s ! n)) = Some r" "tk_status r = ''cancelled''"
    using a by (auto simp: abandoned_def)
  from action_step_keeps [OF step inv] r obtain r' where r': "map_of (xs_tasks s') (tw_task (xs_workers s ! n)) = Some r'"
    "task_moves (tk_status r) (tk_status r')" unfolding tasks_step_def by blast
  have c: "tk_status r' = ''cancelled''" using r'(2) r(2) cancelled_stays by simp
  have "n < length (xs_workers s') \<and> tw_phase (xs_workers s' ! n) \<in> {WPending, WCleanup, WEnded}
     \<and> tw_task (xs_workers s' ! n) = tw_task (xs_workers s ! n)"
    using step
  proof (rule action_step_cases)
    fix env req
    assume "s' = snd (action_handle env app host req s)"
    with request_workers [of env app host req s] obtain ks where "xs_workers s' = xs_workers s @ ks" by blast
    with n ph show ?thesis by (simp add: nth_append)
  next
    fix m now late ready
    assume s': "s' = step_worker now late ready host m s" and m: "m < length (xs_workers s)"
    show ?thesis
    proof (cases "n = m")
      case True
      have "length (xs_workers s') = length (xs_workers s)" by (simp add: s' step_worker_def split: prod.splits)
      with True abandoned_thread [OF a, of now late ready host] n show ?thesis by (auto simp: s')
    next
      case False
      with step_worker_others [OF False, of now late ready host s] n ph show ?thesis by (simp add: s')
    qed
  next
    fix now t x
    assume "s' = s\<lparr>xs_tasks := snd (update_progress now t x (xs_tasks s))\<rparr>"
    with n ph show ?thesis by simp
  qed
  with r'(1) c show ?thesis by (auto simp: abandoned_def)
qed

lemma abandoned_later:
  assumes "(action_step app host)\<^sup>*\<^sup>* s s'" "tasks_inv s" "abandoned n s"
  shows "abandoned n s'"
  using assms
proof (induction rule: rtranclp_induct)
  case (step a b)
  from abandoned_kept [OF step.hyps(2) steps_inv [OF step.hyps(1) step.prems(1)] step.IH [OF step.prems]] show ?case .
qed

section \<open>A run\<close>

text \<open>A node with one action, a provider that counts its executions, a call in the background and its cancellation.\<close>

definition go_app :: action_app where
  "go_app = \<lparr>aa_opt = (action_options_new ''n'' [])\<lparr>ao_actions := [(''go'', action_spec_new True)]\<rparr>, aa_prefix = [], aa_nwm_json = [], aa_actions_json = []\<rparr>"

definition go_host :: "nat action_host" where
  "go_host = \<lparr>ah_authorize = (\<lambda>_ _ w. (None, w)),
     ah_execute = (\<lambda>_ _ w. (Finished (Inr \<lparr>ar_result = Some (jnat 7), ar_stream = None, ar_anchor_ref = None, ar_token_est = 5\<rparr>), Suc w)),
     ah_cancelled = (\<lambda>_. False)\<rparr>"

definition go_env :: "jvalue \<Rightarrow> action_env" where
  "go_env v = \<lparr>ax_cr = plain_crypto, ax_rd = (\<lambda>_. Inr v), ax_nanos = 0, ax_now = 0, ax_later = 0\<rparr>"

definition go_task :: string where "go_task = hex16 0 @ hex16 1"

definition go_call :: jvalue where
  "go_call = JObject [(''action_id'', JString ''go''), (''async'', JBool True)]"

definition go_cancel :: jvalue where
  "go_cancel = JObject [(''action_id'', JString SYSTEM_TASK_CANCEL), (''params'', JObject [(''task_id'', JString go_task)])]"

definition go_request :: node_request where "go_request = node_request_new ''POST'' ''/invoke''"

definition go_frame :: parsed_action where
  "go_frame = \<lparr>pa_action_id = ''go'', pa_params = None, pa_idempotency_key = None, pa_timeout_ms = 0, pa_async = True,
     pa_callback_url = None, pa_priority = None, pa_request_id = None\<rparr>"

definition go_context :: action_context where
  "go_context = (admission_context go_request go_frame None (action_spec_new True) 5000 0)\<lparr>cx_task_id := Some go_task\<rparr>"

definition go_worker :: task_worker where
  "go_worker = \<lparr>tw_task = go_task, tw_frame = go_frame, tw_context = go_context, tw_timeout = 5000, tw_outcome = TimedOut, tw_phase = WPending\<rparr>"

definition go_started :: "nat action_state" where
  "go_started = \<lparr>xs_tasks = [(go_task, task_new 0 go_task ''go'' None None)], xs_idem = [], xs_cells = [cancellation_new],
     xs_cancellations = [(go_task, 0)], xs_counter = 2, xs_workers = [go_worker], xs_world = 0\<rparr>"

lemma go_fields [simp]:
  "ax_cr (go_env v) = plain_crypto" "ax_rd (go_env v) = (\<lambda>_. Inr v)" "ax_nanos (go_env v) = 0" "ax_now (go_env v) = 0" "ax_later (go_env v) = 0"
  "ah_authorize go_host = (\<lambda>_ _ w. (None, w))"
  by (simp_all add: go_env_def go_host_def)

lemma go_frame_read: "action_from_json go_call = Ok go_frame"
  by (simp add: action_from_json_def go_call_def go_frame_def field_defs)

lemma go_dispatch:
  "action_handle (go_env v) go_app go_host go_request s = action_handle_invoke (go_env v) go_app go_host go_request s"
proof -
  have "strip_prefix [] (nq_path go_request) = Some ''/invoke''" "nq_method go_request = ''POST''"
    by (simp_all add: go_request_def node_request_new_def strip_prefix_def)
  then show ?thesis by (simp add: action_handle_def go_app_def action_options_new_def Let_def)
qed

lemma go_no_agent: "node_header go_request AGENT = None"
  by (simp add: go_request_def node_header_def node_request_new_def)

lemma go_known: "\<not> (''go'' = SYSTEM_TASK_STATUS)" "\<not> (''go'' = SYSTEM_TASK_CANCEL)" "SYSTEM_TASK_CANCEL \<noteq> SYSTEM_TASK_STATUS"
  by (simp_all add: SYSTEM_TASK_STATUS_def SYSTEM_TASK_CANCEL_def)

lemma go_checks: "invoke_checks plain_crypto (aa_opt go_app) go_frame = Ok (action_spec_new True, 5000)"
  by (simp add: invoke_checks_def go_app_def go_frame_def action_options_new_def action_spec_new_def clamp_action_timeout_def Let_def)

lemma go_starts: "snd (action_handle (go_env go_call) go_app go_host go_request (action_state_new 0)) = go_started"
proof -
  have f: "pa_action_id go_frame = ''go''" "pa_async go_frame" "pa_idempotency_key go_frame = None" "pa_request_id go_frame = None"
    by (simp_all add: go_frame_def)
  show ?thesis
    by (simp add: go_dispatch action_handle_invoke_def go_frame_read f go_known go_no_agent handle_action_def go_checks
        idem_lookup_def run_async_def fresh_id_def idem_record_def action_state_new_def go_started_def go_worker_def
        go_context_def go_task_def task_create_def admission_context_def Let_def)
qed

definition go_cancelled :: "nat action_state" where
  "go_cancelled = go_started\<lparr>xs_tasks := [(go_task, (task_new 0 go_task ''go'' None None)\<lparr>tk_status := ''cancelled''\<rparr>)],
     xs_cells := [\<lparr>cc_cancelled = True, cc_listeners = []\<rparr>]\<rparr>"

lemma go_cancels: "snd (action_handle (go_env go_cancel) go_app go_host go_request go_started) = go_cancelled"
proof -
  have t: "go_task \<noteq> []" by (simp add: go_task_def hex16_def)
  have "action_from_json go_cancel = Ok (go_frame\<lparr>pa_action_id := SYSTEM_TASK_CANCEL, pa_async := False,
      pa_params := Some (JObject [(''task_id'', JString go_task)])\<rparr>)"
    by (simp add: action_from_json_def go_cancel_def go_frame_def field_defs SYSTEM_TASK_CANCEL_def)
  then show ?thesis
    by (simp add: go_dispatch action_handle_invoke_def go_known go_no_agent handle_task_cancel_def owned_task_def
        read_string_param_def field_defs t task_get_def go_started_def go_cancelled_def task_new_def task_cancel_def task_modify_def
        cancel_token_def cancel_cell_at_def cancel_cell_fire_def cancellation_new_def Let_def)
qed

lemma go_reached: "(action_step go_app go_host)\<^sup>*\<^sup>* (action_state_new 0) go_started"
proof -
  have "unat (xs_counter (action_state_new (0 :: nat))) < 2 ^ 64 - 2" by (simp add: action_state_new_def)
  from action_step.request [OF this, of go_app go_host "go_env go_call" go_request] go_starts show ?thesis by auto
qed

lemma go_cancelled_reached: "(action_step go_app go_host)\<^sup>*\<^sup>* (action_state_new 0) go_cancelled"
proof -
  have "unat (xs_counter go_started) < 2 ^ 64 - 2" by (simp add: go_started_def)
  from action_step.request [OF this, of go_app go_host "go_env go_cancel" go_request] go_cancels go_reached show ?thesis by auto
qed

section \<open>The theorems\<close>

text \<open>Property C11 (refinement). In every state that requests, threads and progress reports can reach, in any order, the next
  step leaves each task where it is or takes it along an edge of the life cycle: pending to running or cancelled,
  running to completed, failed or cancelled. No task disappears or restarts, and whatever follows, a terminal
  status is final.\<close>

theorem task_lifecycle:
  assumes "(action_step app host)\<^sup>*\<^sup>* (action_state_new w) s" "map_of (xs_tasks s) t = Some r"
  shows "(\<forall>s'. action_step app host s s' \<longrightarrow> (\<exists>r'. map_of (xs_tasks s') t = Some r' \<and> task_moves (tk_status r) (tk_status r')))
    \<and> (\<forall>s'. (action_step app host)\<^sup>*\<^sup>* s s' \<longrightarrow> is_terminal (tk_status r)
         \<longrightarrow> (\<exists>r'. map_of (xs_tasks s') t = Some r' \<and> tk_status r' = tk_status r))"
proof -
  have inv: "tasks_inv s" by (rule steps_inv [OF assms(1) new_state_inv])
  have "\<exists>r'. map_of (xs_tasks s') t = Some r' \<and> task_moves (tk_status r) (tk_status r')" if "action_step app host s s'" for s'
    using action_step_keeps [OF that inv] assms(2) by (simp add: tasks_step_def)
  moreover have "\<exists>r'. map_of (xs_tasks s') t = Some r' \<and> tk_status r' = tk_status r"
    if "(action_step app host)\<^sup>*\<^sup>* s s'" "is_terminal (tk_status r)" for s'
    using moves_later [OF that(1) inv assms(2)] that(2) by (auto simp: may_follow_def)
  ultimately show ?thesis by blast
qed

theorem task_lifecycle_witness:
  "\<exists>r. map_of (xs_tasks (step_worker 0 False False go_host 0 go_started)) go_task = Some r \<and> task_moves ''pending'' (tk_status r)"
proof -
  have "map_of (xs_tasks go_started) go_task = Some (task_new 0 go_task ''go'' None None)" by (simp add: go_started_def)
  moreover have "action_step go_app go_host go_started (step_worker 0 False False go_host 0 go_started)"
    by (rule action_step.thread) (simp add: go_started_def)
  ultimately show ?thesis using task_lifecycle [OF go_reached] by (fastforce simp: task_new_def)
qed

text \<open>Property C13 (safety). A task that is cancelled before its thread has claimed it is never executed: after any number of
  further steps of the system, the thread of the task still does not reach the provider.\<close>

theorem cancelled_never_executes:
  assumes "(action_step app host)\<^sup>*\<^sup>* (action_state_new w) s"
    and "n < length (xs_workers s)" "tw_phase (xs_workers s ! n) = WPending"
    and "map_of (xs_tasks s) (tw_task (xs_workers s ! n)) = Some r" "tk_status r = ''cancelled''"
    and "(action_step app host)\<^sup>*\<^sup>* s s'"
  shows "xs_world (step_worker now late ready host n s') = xs_world s'
    \<and> tw_phase (xs_workers (step_worker now late ready host n s') ! n) \<in> {WCleanup, WEnded}"
proof -
  have inv: "tasks_inv s" by (rule steps_inv [OF assms(1) new_state_inv])
  have "abandoned n s" using assms by (simp add: abandoned_def)
  from abandoned_thread [OF abandoned_later [OF assms(6) inv this]] show ?thesis by simp
qed

theorem cancelled_never_executes_witness:
  "xs_world (step_worker 0 False False go_host 0 go_cancelled) = 0"
proof -
  have k: "0 < length (xs_workers go_cancelled)" "tw_phase (xs_workers go_cancelled ! 0) = WPending" "xs_world go_cancelled = 0"
    and r: "map_of (xs_tasks go_cancelled) (tw_task (xs_workers go_cancelled ! 0))
      = Some ((task_new 0 go_task ''go'' None None)\<lparr>tk_status := ''cancelled''\<rparr>)"
    by (simp_all add: go_cancelled_def go_started_def go_worker_def)
  show ?thesis
    using cancelled_never_executes [OF go_cancelled_reached k(1,2) r _ rtranclp.rtrancl_refl, of 0 False False] k(3) by simp
qed

end
