(* ===== verification/Nwp_Replay_Props.thy ===== *)
theory Nwp_Replay_Props
  imports Nwp_Action_Props
begin

text \<open>
  Idempotency of the action node (\<^verbatim>\<open>nps-nwp/src/action_server.rs\<close>): a repeated request is answered from the cache
  whatever has happened since, and callers do not see each other's entries and tasks.
\<close>

section \<open>What a request does to the cache\<close>


definition idem_kept :: "action_env \<Rightarrow> idem_map \<Rightarrow> idem_map \<Rightarrow> bool" where
  "idem_kept env m m' \<longleftrightarrow>
     (\<forall>k e. map_of m k = Some e \<and> ax_now env < id_expires_at e \<and> ax_later env < id_expires_at e \<longrightarrow> map_of m' k = Some e)"



lemma record_kept: "idem_kept env (xs_idem s) (xs_idem (idem_record env scope frame e s))"
  by (auto simp: idem_kept_def idem_record_def idem_try_store_def cache_try_store_def split: option.splits)


lemma replay_idem [simp]: "xs_idem (snd (replay_entry env app host frame e s)) = xs_idem s"
  by (simp add: replay_entry_def Let_def split: option.splits prod.splits)

lemma cancel_idem [simp]: "xs_idem (snd (handle_task_cancel env frame nid s)) = xs_idem s"
  by (simp add: handle_task_cancel_def Let_def split: sum.splits prod.splits)

text \<open>An execution records at most one entry, under the scope of the request.\<close>

definition idem_stored :: "action_env \<Rightarrow> string \<Rightarrow> parsed_action \<Rightarrow> idem_map \<Rightarrow> idem_map \<Rightarrow> bool" where
  "idem_stored env scope frame m m' \<longleftrightarrow> m' = m
     \<or> (\<exists>key e. pa_idempotency_key frame = Some key \<and> m' = snd (idem_try_store (ax_later env) m scope key e))"

lemma record_stored: "idem_stored env scope frame (xs_idem s) (xs_idem (idem_record env scope frame e s))"
  by (auto simp: idem_stored_def idem_record_def split: option.splits)

lemma finish_stored: "idem_stored env scope frame (xs_idem s) (xs_idem (snd (finish_sync env app host scope frame spec r s)))"
proof (cases "ar_stream r")
  case None
  then show ?thesis by (simp add: finish_sync_def record_stored Let_def)
next
  case (Some p)
  obtain resp completed c where w: "write_stream env p (ah_cancelled host) (pa_request_id frame) (xs_counter s) = (resp, completed, c)"
    by (metis prod_cases3)
  show ?thesis
    using record_stored [of env scope frame "s\<lparr>xs_counter := c\<rparr>"] Some w
    by (cases completed) (auto simp: finish_sync_def idem_stored_def Let_def)
qed

lemma run_sync_stored: "idem_stored env scope frame (xs_idem s) (xs_idem (snd (run_sync env app host scope frame ctx s)))"
proof -
  obtain outcome w where e: "ah_execute host frame ctx (xs_world s) = (outcome, w)" by fastforce
  have "idem_stored env scope frame m m" for m by (simp add: idem_stored_def)
  with finish_stored [of env scope frame "s\<lparr>xs_world := w\<rparr>" app host "cx_spec ctx"] show ?thesis
    by (cases outcome) (auto simp: run_sync_def e Let_def split: sum.splits)
qed

lemma run_async_stored: "idem_stored env scope frame (xs_idem s) (xs_idem (snd (run_async env app scope frame ctx timeout s)))"
  unfolding run_async_def Let_def fresh_id_eq
  using record_stored [of env scope frame "s\<lparr>xs_counter := c, xs_tasks := m\<rparr>" for c m] by simp


lemma handle_action_stored:
  "\<exists>m. xs_idem (snd (handle_action env app host req frame nid s)) = m \<and>
     (m = xs_idem s \<or> map_of (ao_actions (aa_opt app)) (pa_action_id frame) \<noteq> None \<and>
       (\<exists>m1. m1 = xs_idem (snd (idem_lookup env (idempotency_cache_scope (pa_action_id frame) nid) frame s))
          \<and> idem_stored env (idempotency_cache_scope (pa_action_id frame) nid) frame m1 m))"
proof (cases "invoke_checks (ax_cr env) (aa_opt app) frame")
  case (Inl resp)
  then show ?thesis by (simp add: handle_action_def Let_def)
next
  case (Inr st)
  obtain spec timeout where st: "st = (spec, timeout)" by (cases st)
  have known: "map_of (ao_actions (aa_opt app)) (pa_action_id frame) \<noteq> None"
    using Inr by (auto simp: invoke_checks_def split: option.splits)
  let ?scope = "idempotency_cache_scope (pa_action_id frame) nid"
  define ctx where "ctx = admission_context req frame nid spec timeout (length (xs_cells s))"
  obtain answer w where a: "ah_authorize host frame ctx (xs_world s) = (answer, w)" by fastforce
  define s1 where "s1 = s\<lparr>xs_cells := xs_cells s @ [cancellation_new], xs_world := w\<rparr>"
  obtain e s2 where l: "idem_lookup env ?scope frame s1 = (e, s2)" by fastforce
  have same: "xs_idem s2 = xs_idem (snd (idem_lookup env ?scope frame s))"
    using l by (auto simp: idem_lookup_def s1_def split: option.splits prod.splits)
  note h = handle_action_cases [OF Inr [unfolded st] ctx_def a s1_def refl l]
  have r: "idem_stored env ?scope frame m m" for m by (simp add: idem_stored_def)
  have "xs_idem (snd (handle_action env app host req frame nid s)) = xs_idem s
      \<or> idem_stored env ?scope frame (xs_idem s2) (xs_idem (snd (handle_action env app host req frame nid s)))"
    unfolding h using run_sync_stored [of env ?scope frame s2 app host ctx] run_async_stored [of env ?scope frame s2 app ctx timeout] r
    by (auto simp: s1_def split: option.splits)
  with known same show ?thesis by auto
qed



section \<open>What may happen in between\<close>









section \<open>Callers\<close>

lemma cancel_others:
  assumes "map_of (xs_tasks s) t = Some r" "tk_agent_nid r \<noteq> nid"
  shows "map_of (xs_tasks (snd (handle_task_cancel env frame nid s))) t = Some r"
proof (cases "owned_task (ax_cr env) (xs_tasks s) frame nid")
  case (Inl e)
  then show ?thesis using assms by (simp add: handle_task_cancel_def Let_def)
next
  case (Inr q)
  obtain tid rec where q: "q = (tid, rec)" by (cases q)
  have "map_of (xs_tasks s) tid = Some rec" "tk_agent_nid rec = nid"
    using Inr q by (auto simp: owned_task_def task_get_def split: option.splits if_splits)
  with assms have "t \<noteq> tid" by auto
  then show ?thesis using Inr q assms by (simp add: handle_task_cancel_def task_cancel_def task_modify_get Let_def)
qed

lemma scopes_differ:
  assumes "CHR 0x1F \<notin> set a" "CHR 0x1F \<notin> set a'" "CHR 0x1F \<notin> set (unwrap_or [] n)" "CHR 0x1F \<notin> set (unwrap_or [] n')"
    "unwrap_or [] n \<noteq> unwrap_or [] n'"
  shows "idem_key (idempotency_cache_scope a n) k \<noteq> idem_key (idempotency_cache_scope a' n') k'"
proof -
  have "unit_separated (unit_separated x y) z = unit_separated x (unit_separated y z)" for x y z by (simp add: unit_separated_def)
  with assms show ?thesis by (simp add: idem_key_def idempotency_cache_scope_def unit_separated_inj)
qed

lemma lookup_other:
  assumes "\<And>key. idem_key scope key \<noteq> idem_key scope' key'"
  shows "fst (idem_get now (xs_idem (snd (idem_lookup env scope frame s))) scope' key') = fst (idem_get now (xs_idem s) scope' key')"
  using assms assms [symmetric] by (auto simp: idem_lookup_def idem_get_def cache_get_def split: option.splits)

lemma stored_other: "idem_stored env scope frame m m' \<Longrightarrow> (\<And>key. idem_key scope key \<noteq> idem_key scope' key')
    \<Longrightarrow> fst (idem_get now m' scope' key') = fst (idem_get now m scope' key')"
  unfolding idem_stored_def idem_get_def idem_try_store_def using in_memory_cache.other_key by metis

text \<open>Property C14 (safety). Whatever a caller sends, the tasks of other callers stay as they are, and what another caller finds in the
  idempotency cache stays as it is, as long as neither action names nor callers contain the unit separator that the
  keys are joined with.\<close>

theorem callers_isolated:
  assumes reach: "(action_step app host)\<^sup>*\<^sup>* (action_state_new w) s"
    and task: "map_of (xs_tasks s) t = Some r" "tk_agent_nid r \<noteq> node_header req AGENT"
    and plain: "\<And>a. map_of (ao_actions (aa_opt app)) a \<noteq> None \<Longrightarrow> CHR 0x1F \<notin> set a"
      "map_of (ao_actions (aa_opt app)) act \<noteq> None"
      "CHR 0x1F \<notin> set (unwrap_or [] (node_header req AGENT))" "CHR 0x1F \<notin> set (unwrap_or [] other)"
    and caller: "unwrap_or [] (node_header req AGENT) \<noteq> unwrap_or [] other"
  shows "map_of (xs_tasks (snd (action_handle env app host req s))) t = Some r
    \<and> fst (idem_get now (xs_idem (snd (action_handle env app host req s))) (idempotency_cache_scope act other) key)
      = fst (idem_get now (xs_idem s) (idempotency_cache_scope act other) key)"
proof -
  let ?nid = "node_header req AGENT"
  have inv: "tasks_inv s" by (rule steps_inv [OF reach new_state_inv])
  have old: "\<exists>n d. t = hex16 n @ hex16 d \<and> unat d < unat (xs_counter s)" using inv task(1) unfolding tasks_inv_def by blast
  have act: "map_of (xs_tasks (snd (handle_action env app host req frame ?nid s))) t = Some r" for frame
    using handle_action_effect [of s env app host req frame ?nid] task(1) old
    by (auto simp: quiet_def creates_def task_create_def hex16_inj)
  have idem: "fst (idem_get now (xs_idem (snd (handle_action env app host req frame ?nid s))) (idempotency_cache_scope act other) key)
      = fst (idem_get now (xs_idem s) (idempotency_cache_scope act other) key)" for frame
  proof -
    let ?scope = "idempotency_cache_scope (pa_action_id frame) ?nid"
    obtain m where m: "xs_idem (snd (handle_action env app host req frame ?nid s)) = m"
      "m = xs_idem s \<or> map_of (ao_actions (aa_opt app)) (pa_action_id frame) \<noteq> None
        \<and> idem_stored env ?scope frame (xs_idem (snd (idem_lookup env ?scope frame s))) m"
      using handle_action_stored [of env app host req frame ?nid s] by auto
    show ?thesis
    proof (cases "m = xs_idem s")
      case False
      with m(2) have known: "map_of (ao_actions (aa_opt app)) (pa_action_id frame) \<noteq> None"
        and st: "idem_stored env ?scope frame (xs_idem (snd (idem_lookup env ?scope frame s))) m" by auto
      have d: "idem_key ?scope k \<noteq> idem_key (idempotency_cache_scope act other) key" for k
        by (rule scopes_differ [OF plain(1) [OF known] plain(1) [OF plain(2)] plain(3,4) caller])
      show ?thesis unfolding m(1) using stored_other [OF st d] lookup_other [OF d] by simp
    qed (use m(1) in simp)
  qed
  show ?thesis
    using request_reaches [of env app host req s] act idem cancel_others [OF task] task(1) by (metis cancel_idem)
qed

theorem callers_isolated_witness:
  "map_of (xs_tasks (snd (action_handle (go_env go_cancel) go_app go_host (node_with_header AGENT ''eve'' go_request) go_started))) go_task
     = Some (task_new 0 go_task ''go'' None None)"
proof -
  have h: "node_header (node_with_header AGENT ''eve'' go_request) AGENT = Some ''eve''"
    by (simp add: node_header_def node_with_header_def go_request_def node_request_new_def)
  have t: "map_of (xs_tasks go_started) go_task = Some (task_new 0 go_task ''go'' None None)" by (simp add: go_started_def)
  have a: "map_of (ao_actions (aa_opt go_app)) a \<noteq> None \<longleftrightarrow> a = ''go''" for a
    by (simp add: go_app_def action_options_new_def)
  show ?thesis
    using callers_isolated [OF go_reached t, of "node_with_header AGENT ''eve'' go_request" "''go''" None "go_env go_cancel" 0 "[]"] a h
    by (auto simp: task_new_def)
qed

end
