(* ===== verification/Nwp_Complex.thy ===== *)
theory Nwp_Complex
  imports Nwp_Action_Server Nwp_Memory
begin

text \<open>
  \<^verbatim>\<open>nps-nwp/src/complex_server.rs\<close>: the complex node, which answers queries from its own rows and from the nodes it refers
  to. The provider and the fetcher are parameters; the fetcher changes a world \<open>'w\<close> and is given a \<open>child_call\<close>.
\<close>

section \<open>Options\<close>

definition TRACE_HEADER :: string where "TRACE_HEADER = ''X-NWP-Trace''"
definition ABSOLUTE_MAX_DEPTH :: u32 where "ABSOLUTE_MAX_DEPTH = 5"

record complex_ref =
  gr_rel :: string
  gr_node_url :: string

record complex_options =
  co_node_id :: string
  co_display_name :: "string option"
  co_path_prefix :: string
  co_schema :: "memory_schema option"
  co_actions :: "(string, action_spec) btree"
  co_graph :: "complex_ref list"
  co_graph_max_depth :: u32
  co_allowed_child_url_prefixes :: "string list"
  co_reject_private_child_urls :: bool
  co_allow_http_child_urls :: bool
  co_require_auth :: bool
  co_default_limit :: u32
  co_max_limit :: u32
  co_default_timeout_ms :: u32
  co_max_timeout_ms :: u32

definition complex_options_new :: "string \<Rightarrow> string \<Rightarrow> complex_options" where
  "complex_options_new node_id path_prefix =
     \<lparr>co_node_id = node_id, co_display_name = None, co_path_prefix = path_prefix, co_schema = None, co_actions = [], co_graph = [],
      co_graph_max_depth = 2, co_allowed_child_url_prefixes = [], co_reject_private_child_urls = True, co_allow_http_child_urls = False,
      co_require_auth = False, co_default_limit = 20, co_max_limit = 1000, co_default_timeout_ms = 5000, co_max_timeout_ms = 300000\<rparr>"

section \<open>Provider and fetcher\<close>

datatype child_outcome = ChildOk jvalue | ChildErr (child_code: string) (child_message: string)

record child_call =
  cc_url :: string
  cc_body :: bytes
  cc_depth :: u32
  cc_trace :: "string list"
  cc_agent :: "string option"
  cc_budget :: "string option"

record 'w complex_host =
  ch_query :: "parsed_query \<Rightarrow> complex_options \<Rightarrow> 'w \<Rightarrow> (memory_error + memory_result) \<times> 'w"
  ch_execute :: "parsed_action \<Rightarrow> action_context \<Rightarrow> 'w \<Rightarrow> (action_error + action_result) \<times> 'w"
  ch_fetch :: "(child_call \<Rightarrow> 'w \<Rightarrow> child_outcome \<times> 'w) option"

definition null_complex_host :: "'w complex_host" where
  "null_complex_host =
     \<lparr>ch_query = (\<lambda>_ _ w. (Inr \<lparr>mr_rows = [], mr_next_cursor = None\<rparr>, w)),
      ch_execute = (\<lambda>_ _ w. (Inl (action_error_internal ''NullComplexNodeProvider does not handle actions.''), w)),
      ch_fetch = None\<rparr>"

section \<open>Child URLs\<close>

definition validate_child_url :: "string \<Rightarrow> string list \<Rightarrow> bool \<Rightarrow> bool \<Rightarrow> string option" where
  "validate_child_url url allowed reject_private allow_http =
     (if trim url = [] then Some ''child node URL must not be empty.''
      else case parse_absolute_url url of
        None \<Rightarrow> Some (''child node URL '' @ quoted url @ '' is not a valid absolute URI.'')
      | Some p \<Rightarrow>
          if \<not> (eq_ignore_case (pu_scheme p) ''https'' \<or> allow_http \<and> eq_ignore_case (pu_scheme p) ''http'')
          then Some (''child node URL MUST use the https:// scheme (got '' @ quoted (pu_scheme p @ ''://'') @ '').'')
          else if allowed \<noteq> [] \<and> \<not> list_ex (\<lambda>q. starts_with (to_ascii_lowercase q) (to_ascii_lowercase url)) allowed
          then Some (''child node URL '' @ quoted url @ '' is not in the allowed prefix list.'')
          else if reject_private \<and> action_is_private_host (pu_host p)
          then Some (''child node host '' @ quoted (pu_host p) @ '' resolves to a private or loopback address (SSRF guard).'')
          else None)"

section \<open>Documents\<close>

definition complex_entry_value :: "action_spec \<Rightarrow> jvalue" where
  "complex_entry_value spec = JObject
     (bt_insert_opt ''required_capability'' (map_option JString (sp_required_capability spec))
     (bt_insert_opt ''timeout_ms_max'' (map_option (\<lambda>n. jnat (ucast n)) (sp_timeout_ms_max spec))
     (bt_insert_opt ''timeout_ms_default'' (map_option (\<lambda>n. jnat (ucast n)) (sp_timeout_ms_default spec))
     (bt_insert_opt ''result_anchor'' (map_option JString (sp_result_anchor spec))
     (bt_insert_opt ''params_anchor'' (map_option JString (sp_params_anchor spec))
     (bt_insert_opt ''description'' (map_option JString (sp_description spec))
     (bt_insert ''async'' (JBool (sp_async spec)) [])))))))"

definition complex_actions_map :: "complex_options \<Rightarrow> (string, jvalue) btree" where
  "complex_actions_map opt = bt_collect (map (\<lambda>(i, spec). (i, complex_entry_value spec)) (co_actions opt))"

definition complex_frame_schema :: "memory_schema \<Rightarrow> jvalue" where
  "complex_frame_schema sc = JObject [(''fields'', JArray (map (\<lambda>f. JObject (bt_collect
     [(''name'', JString (mf_name f)), (''type'', JString (mf_type f)), (''nullable'', JBool (mf_nullable f))])) (ms_fields sc)))]"

definition complex_manifest :: "complex_options \<Rightarrow> string \<Rightarrow> string \<Rightarrow> jvalue" where
  "complex_manifest opt prefix anchor_id = JObject
     (bt_insert_opt ''graph'' (if co_graph opt \<noteq> [] then Some (JObject (bt_collect
          [(''refs'', JArray (map (\<lambda>r. JObject (bt_collect [(''rel'', JString (gr_rel r)), (''node_url'', JString (gr_node_url r))])) (co_graph opt))),
           (''max_depth'', jnat (ucast (co_graph_max_depth opt)))])) else None)
     (bt_insert_opt ''schema_anchors'' (if anchor_id \<noteq> [] then Some (JObject [(''default'', JString anchor_id)]) else None)
     (bt_insert_opt ''display_name'' (map_option JString (co_display_name opt)) (bt_collect
       [(''nwp'', JString ''0.4''), (''node_id'', JString (co_node_id opt)), (''node_type'', JString ''complex''),
        (''wire_formats'', jstrs [''ncp-capsule'', ''json'']), (''preferred_format'', JString ''json''),
        (''capabilities'', JObject (bt_collect [(''query'', JBool (co_schema opt \<noteq> None \<or> co_graph opt \<noteq> [])),
           (''stream'', JBool False), (''token_budget_hint'', JBool True)])),
        (''auth'', JObject (bt_collect [(''required'', JBool (co_require_auth opt)),
           (''identity_type'', JString (if co_require_auth opt then ''nip-cert'' else ''none''))])),
        (''endpoints'', JObject (bt_insert_opt ''invoke'' (if co_actions opt \<noteq> [] then Some (JString (prefix @ ''/invoke'')) else None)
           (bt_collect [(''query'', JString (prefix @ ''/query'')), (''schema'', JString (prefix @ ''/.schema''))])))]))))"

record complex_app =
  ca_opt :: complex_options
  ca_prefix :: string
  ca_nwm_json :: bytes
  ca_schema_json :: bytes
  ca_actions_json :: bytes
  ca_anchor_id :: string

text \<open>The constructor panics on a reserved action and on a depth above the cap.\<close>

definition complex_app_new :: "crypto \<Rightarrow> complex_options \<Rightarrow> complex_app option" where
  "complex_app_new cr opt =
     (if map_of (co_actions opt) SYSTEM_TASK_STATUS \<noteq> None \<or> map_of (co_actions opt) SYSTEM_TASK_CANCEL \<noteq> None then None
      else if ABSOLUTE_MAX_DEPTH < co_graph_max_depth opt then None
      else
        let prefix = rev (dropWhile (\<lambda>c. c = CHR ''/'') (rev (co_path_prefix opt)));
            (schema_text, anchor_id) = (case co_schema opt of
                Some sc \<Rightarrow> (json_text cr (complex_frame_schema sc), ''sha256:'' @ sha256_hex cr (json_text cr (complex_frame_schema sc)))
              | None \<Rightarrow> (''{}'', []))
        in Some \<lparr>ca_opt = opt, ca_prefix = prefix, ca_nwm_json = json_body cr (complex_manifest opt prefix anchor_id),
                 ca_schema_json = utf8 schema_text,
                 ca_actions_json = json_body cr (JObject [(''actions'', JObject (complex_actions_map opt))]), ca_anchor_id = anchor_id\<rparr>)"

section \<open>Depth and trace\<close>

definition parse_depth :: "complex_app \<Rightarrow> node_request \<Rightarrow> string + u32" where
  "parse_depth app req =
     (case node_header req DEPTH of
        None \<Rightarrow> Ok 0
      | Some raw \<Rightarrow> (case parse_u32 raw of
          None \<Rightarrow> Err (''X-NWP-Depth '' @ quoted raw @ '' is not a non-negative integer.'')
        | Some depth \<Rightarrow>
            if co_graph_max_depth (ca_opt app) < depth
            then Err (''X-NWP-Depth '' @ show_nat (unat depth) @ '' exceeds node max_depth '' @ show_nat (unat (co_graph_max_depth (ca_opt app))) @ ''.'')
            else if ABSOLUTE_MAX_DEPTH < depth
            then Err (''X-NWP-Depth '' @ show_nat (unat depth) @ '' exceeds NPS-2 '' @ [CHR 0xA7] @ ''11 absolute cap '' @ show_nat (unat ABSOLUTE_MAX_DEPTH) @ ''.'')
            else Ok depth))"

definition parse_trace :: "node_request \<Rightarrow> string list" where
  "parse_trace req = (case node_header req TRACE_HEADER of
       None \<Rightarrow> []
     | Some raw \<Rightarrow> filter (\<lambda>s. s \<noteq> []) (map trim (split_char CHR '','' raw)))"

section \<open>Children\<close>

definition child_result :: "string \<Rightarrow> string \<Rightarrow> jvalue option \<Rightarrow> (string \<times> string) option \<Rightarrow> jvalue" where
  "child_result rel node data err = JObject
     (bt_insert_opt ''error'' (map_option (\<lambda>(c, m). JObject (bt_collect [(''code'', JString c), (''message'', JString m)])) err)
     (bt_insert_opt ''data'' data (bt_collect [(''rel'', JString rel), (''node'', JString node)])))"

definition child_refused :: "complex_app \<Rightarrow> complex_ref \<Rightarrow> string option" where
  "child_refused app r = validate_child_url (gr_node_url r) (co_allowed_child_url_prefixes (ca_opt app))
     (co_reject_private_child_urls (ca_opt app)) (co_allow_http_child_urls (ca_opt app))"

definition fetch_child :: "complex_app \<Rightarrow> 'w complex_host \<Rightarrow> complex_ref \<Rightarrow> child_call \<Rightarrow> 'w \<Rightarrow> jvalue \<times> 'w" where
  "fetch_child app host r call w =
     (case child_refused app r of
        Some err \<Rightarrow> (child_result (gr_rel r) (gr_node_url r) None (Some (AUTH_NID_SCOPE_VIOLATION, err)), w)
      | None \<Rightarrow> (case ch_fetch host of
          None \<Rightarrow> (child_result (gr_rel r) (gr_node_url r) None (Some (NODE_UNAVAILABLE, ''no child fetcher configured on this Complex Node.'')), w)
        | Some fetch \<Rightarrow> (case fetch call w of
            (ChildOk capsule, w') \<Rightarrow> (child_result (gr_rel r) (gr_node_url r) (Some capsule) None, w')
          | (ChildErr c m, w') \<Rightarrow> (child_result (gr_rel r) (gr_node_url r) None (Some (c, m)), w'))))"

text \<open>The call that is made for a reference, and the references in turn.\<close>

definition child_call_for :: "crypto \<Rightarrow> complex_app \<Rightarrow> node_request \<Rightarrow> jvalue \<Rightarrow> u32 \<Rightarrow> complex_ref \<Rightarrow> child_call" where
  "child_call_for cr app req body depth r =
     \<lparr>cc_url = gr_node_url r, cc_body = json_body cr body, cc_depth = depth - 1, cc_trace = parse_trace req @ [co_node_id (ca_opt app)],
      cc_agent = node_header req AGENT, cc_budget = node_header req BUDGET\<rparr>"

primrec fetch_children :: "complex_app \<Rightarrow> 'w complex_host \<Rightarrow> (complex_ref \<Rightarrow> child_call) \<Rightarrow> complex_ref list \<Rightarrow> 'w \<Rightarrow> jvalue list \<times> 'w" where
  "fetch_children app host call [] w = ([], w)"
| "fetch_children app host call (r # rs) w = (case fetch_child app host r (call r) w of
     (v, w') \<Rightarrow> (case fetch_children app host call rs w' of (vs, w'') \<Rightarrow> (v # vs, w'')))"

section \<open>Queries\<close>

definition complex_type_header :: "string \<times> string" where
  "complex_type_header = (to_ascii_lowercase NODE_TYPE, ''complex'')"

definition complex_query_capsule :: "complex_app \<Rightarrow> memory_result \<Rightarrow> jvalue list option \<Rightarrow> jvalue" where
  "complex_query_capsule app result graph = JObject
     (bt_insert_opt ''graph'' (map_option JArray graph) (bt_insert_opt ''next_cursor'' (map_option JString (mr_next_cursor result)) (bt_collect
       [(''anchor_ref'', if ca_anchor_id app \<noteq> [] then JString (ca_anchor_id app) else JNull),
        (''count'', jnat (of_nat (length (mr_rows result)))), (''data'', JArray (map JObject (mr_rows result)))])))"

definition complex_query_checks ::
    "crypto \<Rightarrow> (bytes \<Rightarrow> string + jvalue) \<Rightarrow> complex_app \<Rightarrow> node_request \<Rightarrow> node_response + jvalue \<times> parsed_query \<times> u32" where
  "complex_query_checks cr rd app req =
     (case rd (nq_body req) of
        Inl e \<Rightarrow> Err (bad_request cr QUERY_FILTER_INVALID e)
      | Inr body \<Rightarrow> (case query_from_json body (co_default_limit (ca_opt app)) of
          Inl e \<Rightarrow> Err (bad_request cr QUERY_FILTER_INVALID e)
        | Inr frame \<Rightarrow> (case parse_depth app req of
            Inl e \<Rightarrow> Err (bad_request cr DEPTH_EXCEEDED e)
          | Inr depth \<Rightarrow>
              if co_node_id (ca_opt app) \<in> set (parse_trace req)
              then Err (node_error cr 422 ''NPS-CLIENT-UNPROCESSABLE'' GRAPH_CYCLE
                     (''graph cycle detected at '' @ quoted (co_node_id (ca_opt app)) @ ''.'') None [])
              else Ok (body, frame, depth))))"

definition complex_handle_query ::
    "crypto \<Rightarrow> (bytes \<Rightarrow> string + jvalue) \<Rightarrow> complex_app \<Rightarrow> 'w complex_host \<Rightarrow> node_request \<Rightarrow> 'w \<Rightarrow> node_response \<times> 'w" where
  "complex_handle_query cr rd app host req w =
     (case complex_query_checks cr rd app req of
        Inl resp \<Rightarrow> (resp, w)
      | Inr (body, frame, depth) \<Rightarrow> (case ch_query host frame (ca_opt app) w of
          (Inl e, w) \<Rightarrow> (bad_request cr (me_code e) (me_message e), w)
        | (Inr result, w) \<Rightarrow>
            let (graph, w) = (if 0 < depth \<and> co_graph (ca_opt app) \<noteq> []
                 then (case fetch_children app host (child_call_for cr app req body depth) (co_graph (ca_opt app)) w of (vs, w) \<Rightarrow> (Some vs, w))
                 else (None, w))
            in (\<lparr>np_status = 200,
                 np_headers = [(''content-type'', MIME_CAPSULE), complex_type_header]
                   @ (if ca_anchor_id app \<noteq> [] then [(to_ascii_lowercase SCHEMA, ca_anchor_id app)] else []),
                 np_body = json_body cr (complex_query_capsule app result graph)\<rparr>, w)))"

section \<open>Invocations\<close>

definition clamp_complex_timeout :: "u32 \<Rightarrow> action_spec \<Rightarrow> complex_options \<Rightarrow> u32" where
  "clamp_complex_timeout requested spec opt =
     (let spec_max = unwrap_or (co_max_timeout_ms opt) (sp_timeout_ms_max spec);
          hard_max = min spec_max (co_max_timeout_ms opt)
      in if requested = 0 then unwrap_or (co_default_timeout_ms opt) (sp_timeout_ms_default spec) else min requested hard_max)"

definition complex_invoke_checks ::
    "crypto \<Rightarrow> (bytes \<Rightarrow> string + jvalue) \<Rightarrow> complex_app \<Rightarrow> node_request \<Rightarrow> node_response + parsed_action \<times> action_spec" where
  "complex_invoke_checks cr rd app req =
     (case rd (nq_body req) of
        Inl e \<Rightarrow> Err (bad_request cr ACTION_PARAMS_INVALID e)
      | Inr body \<Rightarrow> (case action_from_json body of
          Inl e \<Rightarrow> Err (bad_request cr ACTION_PARAMS_INVALID e)
        | Inr frame \<Rightarrow> (case map_of (co_actions (ca_opt app)) (pa_action_id frame) of
            None \<Rightarrow> Err (node_error cr 404 ''NPS-CLIENT-NOT-FOUND'' ACTION_NOT_FOUND (''Unknown action_id '' @ quoted (pa_action_id frame) @ ''.'') None [])
          | Some spec \<Rightarrow>
              if pa_async frame
              then Err (bad_request cr ACTION_PARAMS_INVALID ''Complex Node does not support async actions; invoke a downstream Action Node instead.'')
              else if unwrap_or ''normal'' (pa_priority frame) \<notin> {''low'', ''normal'', ''high''}
              then Err (bad_request cr ACTION_PARAMS_INVALID
                     (''priority '' @ quoted (unwrap_or [] (pa_priority frame)) @ '' is invalid (allowed: low/normal/high).''))
              else Ok (frame, spec))))"

definition complex_context :: "complex_app \<Rightarrow> node_request \<Rightarrow> parsed_action \<Rightarrow> action_spec \<Rightarrow> nat \<Rightarrow> action_context" where
  "complex_context app req frame spec cell =
     \<lparr>cx_agent_nid = node_header req AGENT, cx_request_id = pa_request_id frame, cx_task_id = None, cx_spec = spec,
      cx_timeout_ms = clamp_complex_timeout (pa_timeout_ms frame) spec (ca_opt app), cx_priority = unwrap_or ''normal'' (pa_priority frame),
      cx_wire_input_bytes = of_nat (length (nq_body req)), cx_cancellation = cell\<rparr>"

text \<open>The token of cancellation is a new cell that nobody else holds; its index is 0.\<close>

definition complex_handle_invoke ::
    "crypto \<Rightarrow> (bytes \<Rightarrow> string + jvalue) \<Rightarrow> complex_app \<Rightarrow> 'w complex_host \<Rightarrow> node_request \<Rightarrow> 'w \<Rightarrow> node_response \<times> 'w" where
  "complex_handle_invoke cr rd app host req w =
     (case complex_invoke_checks cr rd app req of
        Inl resp \<Rightarrow> (resp, w)
      | Inr (frame, spec) \<Rightarrow> (case ch_execute host frame (complex_context app req frame spec 0) w of
          (Inl e, w) \<Rightarrow> (provider_error cr e, w)
        | (Inr r, w) \<Rightarrow>
            let anchor = unwrap_or [] (result_anchor r spec)
            in (\<lparr>np_status = 200,
                 np_headers = [(''content-type'', MIME_CAPSULE), complex_type_header]
                   @ (if anchor \<noteq> [] then [(to_ascii_lowercase SCHEMA, anchor)] else [])
                   @ (if 0 < ar_token_est r then [(to_ascii_lowercase TOKENS, show_nat (unat (ar_token_est r)))] else [])
                   @ request_id_header (pa_request_id frame),
                 np_body = json_body cr (caps_value (ar_result r) (Some anchor) (ar_token_est r))\<rparr>, w)))"

definition complex_handle ::
    "crypto \<Rightarrow> (bytes \<Rightarrow> string + jvalue) \<Rightarrow> complex_app \<Rightarrow> 'w complex_host \<Rightarrow> node_request \<Rightarrow> 'w \<Rightarrow> node_response \<times> 'w" where
  "complex_handle cr rd app host req w =
     (case strip_prefix (ca_prefix app) (nq_path req) of
        None \<Rightarrow> (node_empty 404, w)
      | Some sub \<Rightarrow>
          if co_require_auth (ca_opt app) \<and> node_header req AGENT = None then (agent_required cr, w)
          else if sub \<in> {''/.nwm'', ''/.nwm/''}
          then (\<lparr>np_status = 200, np_headers = [(''content-type'', MIME_MANIFEST), complex_type_header], np_body = ca_nwm_json app\<rparr>, w)
          else if sub \<in> {''/.schema'', ''/.schema/''}
          then (\<lparr>np_status = 200, np_headers = (''content-type'', ''application/json'')
                   # (if ca_anchor_id app \<noteq> [] then [(to_ascii_lowercase SCHEMA, ca_anchor_id app)] else []), np_body = ca_schema_json app\<rparr>, w)
          else if sub \<in> {''/actions'', ''/actions/''}
          then (\<lparr>np_status = 200, np_headers = [(''content-type'', ''application/json'')], np_body = ca_actions_json app\<rparr>, w)
          else if sub \<in> {''/query'', ''/query/''}
          then (if nq_method req \<noteq> ''POST'' then (node_empty 405, w) else complex_handle_query cr rd app host req w)
          else if sub \<in> {''/invoke'', ''/invoke/''}
          then (if nq_method req \<noteq> ''POST'' then (node_empty 405, w) else complex_handle_invoke cr rd app host req w)
          else (node_empty 404, w))"

end
