(* ===== verification/Nwp_Complex_Props.thy ===== *)
theory Nwp_Complex_Props
  imports Nwp_Complex
begin

text \<open>
  Properties of the complex node: which calls a query makes, and how deep queries can nest in a network of nodes.
\<close>

section \<open>The calls of a query\<close>

definition child_calls :: "crypto \<Rightarrow> (bytes \<Rightarrow> string + jvalue) \<Rightarrow> complex_app \<Rightarrow> node_request \<Rightarrow> child_call list" where
  "child_calls cr rd app req = (case complex_query_checks cr rd app req of
       Inl _ \<Rightarrow> []
     | Inr (body, frame, depth) \<Rightarrow>
         if 0 < depth then map (child_call_for cr app req body depth) (filter (\<lambda>r. child_refused app r = None) (co_graph (ca_opt app)))
         else [])"

lemma fetch_children_world:
  assumes "ch_fetch host = Some f"
  shows "snd (fetch_children app host call rs w) = fold (\<lambda>c w. snd (f c w)) (map call (filter (\<lambda>r. child_refused app r = None) rs)) w"
proof (induction rs arbitrary: w)
  case (Cons r rs)
  have "snd (fetch_child app host r (call r) w) = (if child_refused app r = None then snd (f (call r) w) else w)"
    using assms by (auto simp: fetch_child_def split: option.splits prod.splits child_outcome.splits)
  moreover obtain v w1 where "fetch_child app host r (call r) w = (v, w1)" by fastforce
  moreover obtain vs w2 where "fetch_children app host call rs w1 = (vs, w2)" by fastforce
  ultimately show ?case using Cons.IH [of w1] by (cases "child_refused app r = None") auto
qed simp

text \<open>A query asks the provider and then makes exactly these calls, in the order of the references.\<close>

lemma query_world:
  assumes "ch_fetch host = Some f" "complex_query_checks cr rd app req = Ok (body, frame, depth)"
    "ch_query host frame (ca_opt app) w = (Inr result, w1)"
  shows "snd (complex_handle_query cr rd app host req w) = fold (\<lambda>c w. snd (f c w)) (child_calls cr rd app req) w1"
proof -
  obtain vs w2 where c: "fetch_children app host (child_call_for cr app req body depth) (co_graph (ca_opt app)) w1 = (vs, w2)" by fastforce
  with fetch_children_world [OF assms(1), of app "child_call_for cr app req body depth" "co_graph (ca_opt app)" w1]
  show ?thesis by (auto simp: complex_handle_query_def child_calls_def assms(2,3))
qed

lemma refused_makes_none: "complex_query_checks cr rd app req = Err resp \<Longrightarrow> child_calls cr rd app req = []
    \<and> snd (complex_handle_query cr rd app host req w) = w"
  by (simp add: child_calls_def complex_handle_query_def)

lemma checks_passed:
  assumes "complex_query_checks cr rd app req = Ok (body, frame, depth)"
  shows "co_node_id (ca_opt app) \<notin> set (parse_trace req)" "depth \<le> 5"
    "depth = 0 \<or> Option.bind (node_header req DEPTH) parse_u32 = Some depth"
proof -
  have d: "parse_depth app req = Ok depth" and "co_node_id (ca_opt app) \<notin> set (parse_trace req)"
    using assms by (auto simp: complex_query_checks_def split: sum.splits if_splits)
  then show "co_node_id (ca_opt app) \<notin> set (parse_trace req)" by simp
  show "depth \<le> 5" "depth = 0 \<or> Option.bind (node_header req DEPTH) parse_u32 = Some depth"
    using d by (auto simp: parse_depth_def ABSOLUTE_MAX_DEPTH_def split: option.splits if_splits)
qed

lemma call_made:
  assumes "c \<in> set (child_calls cr rd app req)"
  obtains body frame depth where "complex_query_checks cr rd app req = Ok (body, frame, depth)" "0 < depth" "cc_depth c = depth - 1"
    "cc_trace c = parse_trace req @ [co_node_id (ca_opt app)]"
    "validate_child_url (cc_url c) (co_allowed_child_url_prefixes (ca_opt app)) (co_reject_private_child_urls (ca_opt app))
       (co_allow_http_child_urls (ca_opt app)) = None"
proof (cases "complex_query_checks cr rd app req")
  case (Inl e)
  with assms show ?thesis by (simp add: child_calls_def)
next
  case (Inr q)
  obtain body frame depth where q: "q = (body, frame, depth)" by (cases q)
  with Inr assms have "0 < depth" "c \<in> child_call_for cr app req body depth ` {r. child_refused app r = None}"
    by (auto simp: child_calls_def split: if_splits)
  with Inr q that show ?thesis by (auto simp: child_call_for_def child_refused_def)
qed

section \<open>Queries that cause queries\<close>

text \<open>
  The head of a chain is the query that is served last; each query was caused by a call of the one before it, with the
  depth and the trace of the call in its headers. Nodes may be configured in any way, and the first query
  may carry any headers.
\<close>

inductive query_chain :: "crypto \<Rightarrow> (bytes \<Rightarrow> string + jvalue) \<Rightarrow> (complex_app \<times> node_request) list \<Rightarrow> bool" for cr rd where
  client: "query_chain cr rd [(app, req)]"
| nested: "query_chain cr rd ((app, req) # rest) \<Longrightarrow> c \<in> set (child_calls cr rd app req) \<Longrightarrow> parse_trace req' = cc_trace c
     \<Longrightarrow> Option.bind (node_header req' DEPTH) parse_u32 = Some (cc_depth c) \<Longrightarrow> query_chain cr rd ((app', req') # (app, req) # rest)"

inductive_cases query_chain_head: "query_chain cr rd (q # rest)"

abbreviation node_of :: "complex_app \<times> node_request \<Rightarrow> string" where
  "node_of q \<equiv> co_node_id (ca_opt (fst q))"

lemma chain_invariant:
  "query_chain cr rd qs \<Longrightarrow> qs \<noteq> [] \<and> distinct (map node_of (tl qs)) \<and> set (map node_of (tl qs)) \<subseteq> set (parse_trace (snd (hd qs)))
     \<and> (tl qs \<noteq> [] \<longrightarrow> (\<exists>d. Option.bind (node_header (snd (hd qs)) DEPTH) parse_u32 = Some d \<and> unat d + length (tl qs) \<le> 5))"
proof (induction rule: query_chain.induct)
  case (client app req)
  then show ?case by simp
next
  case (nested app req rest c req' app')
  from nested.hyps(2) obtain body frame depth where ok: "complex_query_checks cr rd app req = Ok (body, frame, depth)"
    and d: "0 < depth" "cc_depth c = depth - 1" "cc_trace c = parse_trace req @ [co_node_id (ca_opt app)]"
    by (rule call_made) blast
  note passed = checks_passed [OF ok]
  have hd: "Option.bind (node_header req DEPTH) parse_u32 = Some depth" using passed(3) d(1) by auto
  have u: "unat (depth - 1) = unat depth - 1" "0 < unat depth" "unat depth \<le> 5"
    using d(1) passed(2) by (simp_all add: unat_minus_one word_neq_0_conv word_less_nat_alt word_le_nat_alt)
  have "unat depth + length rest \<le> 5"
  proof (cases "rest = []")
    case False
    with nested.IH hd show ?thesis by auto
  qed (use u in simp)
  then have "unat (cc_depth c) + length ((app, req) # rest) \<le> 5" using u d(2) by simp
  moreover have "distinct (map node_of ((app, req) # rest))" using nested.IH passed(1) by auto
  moreover have "set (map node_of ((app, req) # rest)) \<subseteq> set (parse_trace req')"
    using nested.IH nested.hyps(3) d(3) by auto
  ultimately show ?case using nested.hyps(4) by auto
qed

text \<open>Property C16 (termination). In a network of complex nodes, however they refer to each other, one query causes a chain of at
  most five further ones. No node takes part in a chain twice, but for the last query, which is then refused as a
  cycle without asking the provider or any other node.\<close>

theorem graph_chain_bounded:
  assumes "query_chain cr rd ((app, req) # rest)"
  shows "length rest \<le> 5 \<and> distinct (map node_of rest)
    \<and> (co_node_id (ca_opt app) \<in> set (map node_of rest)
       \<longrightarrow> child_calls cr rd app req = [] \<and> snd (complex_handle_query cr rd app host req w) = w)"
proof -
  note inv = chain_invariant [OF assms]
  have "length rest \<le> 5" using inv by (cases rest) auto
  moreover have "child_calls cr rd app req = [] \<and> snd (complex_handle_query cr rd app host req w) = w"
    if "co_node_id (ca_opt app) \<in> set (map node_of rest)"
  proof (cases "complex_query_checks cr rd app req")
    case (Inl resp)
    then show ?thesis by (rule refused_makes_none)
  next
    case (Inr q)
    obtain body frame depth where "q = (body, frame, depth)" by (cases q)
    with Inr checks_passed(1) [of cr rd app req body frame depth] inv that show ?thesis by auto
  qed
  ultimately show ?thesis using inv by auto
qed

text \<open>A node that refers to itself: the second query of the chain is the refused one.\<close>

definition loop_app :: complex_app where
  "loop_app = \<lparr>ca_opt = (complex_options_new ''a'' [])\<lparr>co_graph := [\<lparr>gr_rel = ''self'', gr_node_url = ''https://a.example''\<rparr>]\<rparr>,
     ca_prefix = [], ca_nwm_json = [], ca_schema_json = [], ca_actions_json = [], ca_anchor_id = []\<rparr>"

definition loop_request :: "string \<Rightarrow> (string \<times> string) list \<Rightarrow> node_request" where
  "loop_request depth trace = \<lparr>nq_method = ''POST'', nq_path = ''/query'', nq_headers = (to_ascii_lowercase DEPTH, depth) # trace, nq_body = []\<rparr>"

lemma loop_url: "validate_child_url ''https://a.example'' [] True False = None"
  by code_simp

lemma prefix_of_other_host: "validate_child_url ''https://good.example.evil.com/x'' [''https://good.example''] True False = None"
  by code_simp

theorem graph_chain_bounded_witness:
  "snd (complex_handle_query plain_crypto (\<lambda>_. Inr (JObject [])) loop_app null_complex_host
     (loop_request ''0'' [(to_ascii_lowercase TRACE_HEADER, ''a'')]) (3 :: nat)) = 3"
proof -
  let ?rd = "\<lambda>_. Inr (JObject []) :: string + jvalue"
  let ?req = "loop_request ''1'' []" and ?req' = "loop_request ''0'' [(to_ascii_lowercase TRACE_HEADER, ''a'')]"
  have h: "node_header ?req DEPTH = Some ''1''" "node_header ?req' DEPTH = Some ''0''" by (simp_all add: node_header_def loop_request_def)
  have n: "to_ascii_lowercase TRACE_HEADER \<noteq> to_ascii_lowercase DEPTH" by code_simp
  have t: "parse_trace ?req = []" "parse_trace ?req' = [''a'']"
    using n by (simp_all add: parse_trace_def node_header_def loop_request_def trim_def trim_start_def trim_end_def is_whitespace_def)
  have p: "parse_u32 ''1'' = Some 1" "parse_u32 ''0'' = Some 0" by (simp_all add: parse_u32_def parse_eval)
  have d: "parse_depth loop_app ?req = Ok 1"
    by (simp add: parse_depth_def h p loop_app_def complex_options_new_def ABSOLUTE_MAX_DEPTH_def word_less_nat_alt)
  have q: "query_from_json (JObject []) 20 = Ok \<lparr>pq_anchor_ref = None, pq_filter = None, pq_fields = None, pq_limit = 20, pq_cursor = None, pq_order = None\<rparr>"
    by (simp add: query_from_json_def field_defs not_null_def)
  let ?c = "\<lparr>cc_url = ''https://a.example'', cc_body = json_body plain_crypto (JObject []), cc_depth = 0, cc_trace = [''a''],
       cc_agent = node_header ?req AGENT, cc_budget = node_header ?req BUDGET\<rparr>"
  have c: "child_calls plain_crypto ?rd loop_app ?req = [?c]"
    using d q t(1) loop_url by (simp add: child_calls_def complex_query_checks_def loop_app_def complex_options_new_def child_refused_def
        child_call_for_def)
  have "query_chain plain_crypto ?rd [(loop_app, ?req'), (loop_app, ?req)]"
    by (rule query_chain.nested [OF query_chain.client, where c = ?c]) (simp_all add: c t h p)
  from graph_chain_bounded [OF this, of null_complex_host "3 :: nat"] show ?thesis by simp
qed

end
