(* ===== verification/Spec2Isabelle.thy ===== *)
theory Spec2Isabelle
  imports Core_Cache Ncp_Transport_Props Ncp_Failover
    Nop_Run_Props Nop_Condition_Props Nop_Callback_Props Nop_Profile_Props Nop_Cluster
    Ndp_Registry_Props Ndp_Profile_Props
    Nip_Verifier_Props Nip_Ca_Props Nip_Ra_Props Nip_Reputation_Props
    Nwp_Context_Props Nwp_Anchor_Props Nwp_Query_Props Nwp_Cursor Nwp_Memory_Props Nwp_Replay_Props Nwp_Complex_Props
begin

text \<open>
  A verification development for the Rust SDK of the Neural Protocol Suite (NPS).

  \<^bold>\<open>The program.\<close> The SDK is a workspace of crates. \<^verbatim>\<open>nps-core\<close> holds the wire: error values, frame types, the header,
  three payload codecs and a cache of schemas. \<^verbatim>\<open>nps-ncp\<close> opens sessions: a preamble, a handshake that negotiates an
  encoding, a native transport and a connector that survives the change of an Anchor. \<^verbatim>\<open>nps-nip\<close> is identity: signatures,
  certificates and their verification, a certificate authority, a registration authority and a log of reputation.
  \<^verbatim>\<open>nps-ndp\<close> is discovery: announcements, a registry with expiring entries, clusters and their leaders. \<^verbatim>\<open>nps-nwp\<close> are the
  nodes: anchor, memory, action and complex nodes, their filters, tasks and budgets, the fence around the ownership of a
  cluster, the store of stateful LLM contexts. \<^verbatim>\<open>nps-nop\<close> orchestrates tasks: graphs of nodes with conditions, mappings,
  retries, callbacks and compensation. A node reaches an orchestration or a provider only through frames and traits, and
  every crate rests on the dictionaries and the codec of \<^verbatim>\<open>nps-core\<close>.

  \<^bold>\<open>Conventions.\<close> A machine integer is a word of its width, so wrap-around is part of the model; where the source saturates
  or checks, the definition does. A \<open>Result\<close> is a sum with the error on the left, an \<open>Option\<close> an option, and a
  panic the value \<open>None\<close> of a further option. Text is a list of characters up to U+00FF. A \<open>HashMap\<close> is an
  association list, and where its order can be seen the order is an argument; a \<open>BTreeMap\<close> or a JSON map is a list
  with strictly increasing keys (\<open>bt_wf\<close>). A JSON number is an unsigned or a signed 64-bit word, or the 64 bits of an
  IEEE 754 number. A method on a mutable state returns the changed state; the clock, random bytes and identifiers, the order of hash maps and
  the outcome of I/O are arguments. Constants, fields and functions keep the names of the source, with a prefix where
  a name is taken.

  \<^bold>\<open>Third-party code.\<close> What is not in the repository is a parameter: the serializers of \<open>serde_json\<close> and \<open>rmp_serde\<close>
  (\<open>serde\<close> in \<^verbatim>\<open>Core_Codec\<close>, \<open>json_text\<close> and \<open>json_read\<close>), Ed25519, SHA-256, HMAC, Base64, hex and RFC 3339 (the record
  \<open>crypto\<close> of \<^verbatim>\<open>Nip_Signer\<close>, the record \<open>callback_env\<close>), the certificate and URL parsers, HTTP clients, and the traits
  that a host implements (workers, providers, topology services, rate limiters, the consensus behind a fence, resolvers).
  What a theorem needs of them is a named hypothesis (\<open>json_faithful\<close>, \<open>msgpack_faithful\<close> and \<open>bv_faithful\<close> for the payload codecs,
  a premise on \<open>ed_verify\<close> or on a hash elsewhere), and its witness gives an instance of the parameters in which the
  hypothesis holds: \<open>plain_crypto\<close> for the cryptography.

  \<^bold>\<open>The shared theories.\<close> \<^verbatim>\<open>Nps_Prelude\<close> names the types, results and ordered maps; \<^verbatim>\<open>Rust_Std\<close> and \<^verbatim>\<open>Rust_Float\<close> model what the
  crates call of the standard library on strings, decimal numbers and \<open>f64\<close>; \<^verbatim>\<open>Alist_Facts\<close> has facts on hash maps; \<^verbatim>\<open>Json\<close>
  has the values of \<open>serde_json\<close> and the collection \<open>fields\<close>, which reads fields back from dictionaries; \<^verbatim>\<open>Ttl_Store\<close>
  is the interface of stores with expiring entries (\<open>ttl_map\<close>, \<open>ttl_store\<close>), which the schema cache and the registry
  interpret; \<^verbatim>\<open>Dict_Frame\<close> is the interface of a frame (\<open>dict_frame\<close>), which the frames of all crates interpret.

  \<^bold>\<open>nps-core.\<close> \<^verbatim>\<open>Core_Frames\<close> models \<^verbatim>\<open>error.rs\<close>, \<^verbatim>\<open>frames.rs\<close> and \<^verbatim>\<open>registry.rs\<close>; \<^verbatim>\<open>Core_Codec\<close> models \<^verbatim>\<open>codec.rs\<close>; \<^verbatim>\<open>Core_Cache\<close> models
  \<^verbatim>\<open>cache.rs\<close>. \<^verbatim>\<open>Core_Codec_Props\<close> states the contract of a payload codec as a locale, interprets it by each tier, and shows
  that decoding inverts encoding. In the cache no live schema is replaced by another and each has its id as address.

  \<^bold>\<open>nps-ncp.\<close> \<^verbatim>\<open>Ncp_Frames\<close> models \<^verbatim>\<open>lib.rs\<close>; \<^verbatim>\<open>Ncp_Handshake\<close> models \<^verbatim>\<open>preamble.rs\<close>, \<^verbatim>\<open>handshake_profile.rs\<close>, \<^verbatim>\<open>encoding_policy.rs\<close> and
  \<^verbatim>\<open>patch_format.rs\<close>; \<^verbatim>\<open>Ncp_Transport\<close> models \<^verbatim>\<open>transport.rs\<close> over a stream of bytes; \<^verbatim>\<open>Ncp_Failover\<close> models \<^verbatim>\<open>failover.rs\<close> and
  shows what its attempts are. \<^verbatim>\<open>Ncp_Transport_Props\<close>: both sides of a handshake agree, and a frame sent is the frame received.

  \<^bold>\<open>nps-nop.\<close> \<^verbatim>\<open>Nop_Models\<close> has the data and results; \<^verbatim>\<open>Nop_Dag\<close> models \<open>validate_dag\<close> with Kahn's algorithm, proved to
  accept exactly the well-formed acyclic graphs; \<^verbatim>\<open>Nop_Condition\<close> models \<^verbatim>\<open>condition.rs\<close>, and its properties compare the parser with the
  meaning of a syntax tree; \<^verbatim>\<open>Nop_Values\<close> models \<^verbatim>\<open>input_mapper.rs\<close> and \<^verbatim>\<open>aggregator.rs\<close>; \<^verbatim>\<open>Nop_Store\<close> states the trait of \<^verbatim>\<open>store.rs\<close>
  as a locale and interprets it by the in-memory store; \<^verbatim>\<open>Nop_Callback\<close> models the URL guard and \<^verbatim>\<open>callback.rs\<close>; \<^verbatim>\<open>Nop_Orchestrator\<close>
  and \<^verbatim>\<open>Nop_Lifecycle\<close> model \<^verbatim>\<open>orchestrator.rs\<close>. \<^verbatim>\<open>Nop_Orchestrator_Props\<close> and \<^verbatim>\<open>Nop_Run_Props\<close> show when a node runs, that a task
  whose nodes succeed completes, how compensation goes, and what record is left in the store. \<^verbatim>\<open>Nop_Frames\<close> models \<^verbatim>\<open>frames.rs\<close>;
  \<^verbatim>\<open>Nop_Cluster\<close> models \<^verbatim>\<open>cluster_delegation.rs\<close> with its threads as a step relation; \<^verbatim>\<open>Nop_Profile\<close> models \<^verbatim>\<open>portable_profile.rs\<close>, whose
  topology is characterised as the least order and whose compensation as the completed ancestors in reverse.

  \<^bold>\<open>nps-ndp.\<close> \<^verbatim>\<open>Ndp_Frames\<close> models \<^verbatim>\<open>frames.rs\<close>; \<^verbatim>\<open>Ndp_Registry\<close> models \<^verbatim>\<open>registry.rs\<close>, \<^verbatim>\<open>dns_txt.rs\<close> and \<^verbatim>\<open>federation.rs\<close>; \<^verbatim>\<open>Ndp_Profile\<close>
  models \<^verbatim>\<open>registry_profile.rs\<close> and \<^verbatim>\<open>validator.rs\<close>. Shown are the leader of a cluster against its definition, the invariant of the
  profile over all reachable states, and that a node cannot sign two bodies under one sequence number.

  \<^bold>\<open>nps-nip.\<close> \<^verbatim>\<open>Nip_Frames\<close> models \<^verbatim>\<open>frames.rs\<close> and \<^verbatim>\<open>assurance_level.rs\<close>; \<^verbatim>\<open>Nip_Signer\<close> models \<^verbatim>\<open>ca/signer.rs\<close> and the checks of \<^verbatim>\<open>identity.rs\<close>;
  \<^verbatim>\<open>Nip_Der\<close> models \<^verbatim>\<open>phase3.rs\<close> with its DER reader; \<^verbatim>\<open>Nip_X509\<close> models \<^verbatim>\<open>x509/verifier.rs\<close>; \<^verbatim>\<open>Nip_Verifier\<close> models \<^verbatim>\<open>verifier.rs\<close>,
  \<^verbatim>\<open>revocation_policy.rs\<close> and \<^verbatim>\<open>trust_validator.rs\<close>; \<^verbatim>\<open>Nip_Ca\<close> models the service and store of \<^verbatim>\<open>ca/\<close>; \<^verbatim>\<open>Nip_Ra\<close> models \<^verbatim>\<open>ca/ra.rs\<close>;
  \<^verbatim>\<open>Nip_Reputation\<close> models \<^verbatim>\<open>reputation.rs\<close>. Shown are what the verifier accepts and what a signature leaves open, the
  invariant of the authority and the finality of revocation, the single use of bootstrap tokens, and the soundness and
  the (partial) completeness of inclusion proofs against the hash trees of RFC 9162.

  \<^bold>\<open>nps-nwp.\<close> \<^verbatim>\<open>Nwp_Codes\<close> has the constants; \<^verbatim>\<open>Nwp_Frames\<close> models \<^verbatim>\<open>frames.rs\<close>; \<^verbatim>\<open>Nwp_Node\<close> has requests, responses and token estimates;
  \<^verbatim>\<open>Nwp_Query\<close> models \<^verbatim>\<open>query.rs\<close>, with the text of a filter read back as a condition with the same truth value, and \<^verbatim>\<open>Nwp_Cursor\<close> shows
  the cursor codec; \<^verbatim>\<open>Nwp_Memory\<close> models \<^verbatim>\<open>memory_server.rs\<close>; \<^verbatim>\<open>Nwp_Topology\<close> models \<^verbatim>\<open>anchor_client.rs\<close>; \<^verbatim>\<open>Nwp_Anchor\<close> and
  \<^verbatim>\<open>Nwp_Anchor_Server\<close> model \<^verbatim>\<open>anchor_server.rs\<close>; \<^verbatim>\<open>Nwp_Reputation\<close> models \<^verbatim>\<open>reputation.rs\<close> and \<^verbatim>\<open>reputation_policy.rs\<close>; \<^verbatim>\<open>Nwp_Fence\<close> models
  \<^verbatim>\<open>anchor_fence.rs\<close>; \<^verbatim>\<open>Nwp_Context\<close> models \<^verbatim>\<open>context_store.rs\<close>; \<^verbatim>\<open>Nwp_Task\<close>, \<^verbatim>\<open>Nwp_Action\<close> and \<^verbatim>\<open>Nwp_Action_Server\<close> model
  \<^verbatim>\<open>action_server.rs\<close>; \<^verbatim>\<open>Nwp_Complex\<close> models \<^verbatim>\<open>complex_server.rs\<close>. The life of a task, replays, ownership, context updates and the
  depth of nested queries are shown over step relations: a step is one request, one lock-protected operation or one
  action of a background thread, and steps of all callers and threads interleave freely. A synchronous request of an
  action node is one step, the thread of an asynchronous task several.

  \<^bold>\<open>Bounds and fuel.\<close> Loops are structural, or recursive with a proved measure: the loop of a task by the nodes that still
  wait and those in flight, the searches in a graph by the nodes not yet visited, Kahn's algorithm by the counts that are
  left. Fuel is used in the parser of conditions (six times the number of tokens and four), where results do not depend on
  more and the fuel is shown to be enough, and where the source itself counts: the attempts of the connector and of a
  context identifier.

  \<^bold>\<open>Not modelled.\<close> Sockets, TLS, threads' scheduling and timers: they are arguments or steps. HTTP and SQL around the modelled
  services (\<^verbatim>\<open>ca/router.rs\<close>, \<^verbatim>\<open>ca_client.rs\<close>, \<^verbatim>\<open>ca/sql_store.rs\<close>, \<^verbatim>\<open>sql_provider.rs\<close>, \<^verbatim>\<open>native_server.rs\<close>, \<^verbatim>\<open>client.rs\<close>, the
  \<^verbatim>\<open>ca-server\<close> binary), which parse requests, call one operation and format its answer. Code that assembles structures of third-party
  libraries (\<^verbatim>\<open>x509/builder.rs\<close>, the ACME server and client with their JWS, the encrypted key file, \<open>register_x509\<close>). Metrics and
  tracing (\<^verbatim>\<open>observability.rs\<close>, \<^verbatim>\<open>telemetry.rs\<close>). The bridges to MCP, A2A and gRPC, the LLM action node, the portable profile of \<^verbatim>\<open>nps-nwp\<close>
  and the conformance runner, which compose what is modelled here with protocols outside the repository. Text outside U+00FF, and memory limits.
\<close>

end
